(* ===== verification/Rust_Prelude.thy ===== *)
theory Rust_Prelude
  imports Complex_Main "HOL-Library.Multiset" "HOL-Library.Char_ord" "HOL-Library.List_Lexorder"
    "HOL-Library.Product_Lexorder"
begin

text \<open>
  What every component of the development shares: the outcome of a Rust call (a value, an
  \<open>Err\<close> result, or a panic), the machine integers \<open>i64\<close>, \<open>u64\<close>
  and \<open>i32\<close> kept at their width, the \<open>Vec\<close> operations the sources use
  (\<open>position\<close>, \<open>swap_remove\<close>, \<open>sort_by_key\<close>), and the ordered map
  \<open>std::collections::BTreeMap\<close>, stated as an interface (a locale) and implemented by
  key-sorted association lists.

  The Cargo workspace sets no \<open>overflow-checks\<close>, so the integers follow the release
  profile: \<open>+\<close>, \<open>-\<close>, \<open>*\<close> and unary minus wrap around.  Every
  \<open>assert!\<close>, \<open>unwrap\<close>, \<open>expect\<close> and \<open>panic!\<close> of the
  sources is the outcome \<open>Panic\<close>.
\<close>

named_theorems rust_simps \<open>unfolding of the outcome and integer operations\<close>
named_theorems btree_simps \<open>facts about ordered maps\<close>

section \<open>Outcomes\<close>

datatype ('e, 'a) outcome = Ok 'a | Err 'e | Panic

fun and_then :: "('e, 'a) outcome \<Rightarrow> ('a \<Rightarrow> ('e, 'b) outcome) \<Rightarrow> ('e, 'b) outcome" where
  "and_then (Ok x) f = f x"
| "and_then (Err e) f = Err e"
| "and_then Panic f = Panic"

fun map_ok :: "('a \<Rightarrow> 'b) \<Rightarrow> ('e, 'a) outcome \<Rightarrow> ('e, 'b) outcome" where
  "map_ok f (Ok x) = Ok (f x)"
| "map_ok f (Err e) = Err e"
| "map_ok f Panic = Panic"

definition ensure :: "bool \<Rightarrow> 'e \<Rightarrow> ('e, unit) outcome" where
  "ensure b e = (if b then Ok () else Err e)"

definition assert_that :: "bool \<Rightarrow> ('e, unit) outcome" where
  "assert_that b = (if b then Ok () else Panic)"

definition ok_or :: "'a option \<Rightarrow> 'e \<Rightarrow> ('e, 'a) outcome" where
  "ok_or x e = (case x of None \<Rightarrow> Err e | Some v \<Rightarrow> Ok v)"

definition unwrap :: "'a option \<Rightarrow> ('e, 'a) outcome" where
  "unwrap x = (case x of None \<Rightarrow> Panic | Some v \<Rightarrow> Ok v)"

definition is_ok :: "('e, 'a) outcome \<Rightarrow> bool" where
  "is_ok r = (case r of Ok _ \<Rightarrow> True | _ \<Rightarrow> False)"

definition unwrap_or :: "'a option \<Rightarrow> 'a \<Rightarrow> 'a" where
  "unwrap_or x d = (case x of None \<Rightarrow> d | Some v \<Rightarrow> v)"

lemma and_then_Ok_iff [simp]:
  "and_then m f = Ok y \<longleftrightarrow> (\<exists>x. m = Ok x \<and> f x = Ok y)"
  by (cases m) auto

lemma and_then_Err_iff [rust_simps]:
  "and_then m f = Err e \<longleftrightarrow> m = Err e \<or> (\<exists>x. m = Ok x \<and> f x = Err e)"
  by (cases m) auto

lemma and_then_Panic_iff [rust_simps]:
  "and_then m f = Panic \<longleftrightarrow> m = Panic \<or> (\<exists>x. m = Ok x \<and> f x = Panic)"
  by (cases m) auto

lemma and_then_assoc: "and_then (and_then m f) g = and_then m (\<lambda>x. and_then (f x) g)"
  by (cases m) auto

lemma ensure_simps [simp]:
  "ensure True e = Ok ()" "ensure False e = Err e"
  "ensure b e = Ok u \<longleftrightarrow> b" "ensure b e = Err e' \<longleftrightarrow> \<not> b \<and> e' = e" "ensure b e \<noteq> Panic"
  by (auto simp: ensure_def)

lemma assert_simps [simp]:
  "assert_that True = Ok ()" "assert_that False = Panic"
  "assert_that b = Ok u \<longleftrightarrow> b" "assert_that b \<noteq> Err e" "assert_that b = Panic \<longleftrightarrow> \<not> b"
  by (auto simp: assert_that_def)

lemma unwrap_simps [simp]:
  "unwrap (Some v) = Ok v" "unwrap None = Panic"
  "unwrap x = Ok v \<longleftrightarrow> x = Some v" "unwrap x \<noteq> Err e" "unwrap x = Panic \<longleftrightarrow> x = None"
  by (auto simp: unwrap_def split: option.splits)

lemma ok_or_simps [simp]:
  "ok_or (Some v) e = Ok v" "ok_or None e = Err e"
  "ok_or x e = Ok v \<longleftrightarrow> x = Some v" "ok_or x e = Err e' \<longleftrightarrow> x = None \<and> e' = e" "ok_or x e \<noteq> Panic"
  by (auto simp: ok_or_def split: option.splits)

lemma is_ok_iff: "is_ok r \<longleftrightarrow> (\<exists>v. r = Ok v)"
  by (cases r) (auto simp: is_ok_def)

lemma unwrap_or_simps [simp]: "unwrap_or (Some v) d = v" "unwrap_or None d = d"
  by (auto simp: unwrap_or_def)

text \<open>A loop over a vector whose body can fail.\<close>

fun fold_ok :: "('x \<Rightarrow> 'a \<Rightarrow> ('e, 'a) outcome) \<Rightarrow> 'x list \<Rightarrow> 'a \<Rightarrow> ('e, 'a) outcome" where
  "fold_ok f [] a = Ok a"
| "fold_ok f (x # xs) a = and_then (f x a) (fold_ok f xs)"

lemma fold_ok_inv:
  assumes "fold_ok f xs a = Ok y" and "P a"
    and step: "\<And>x a b. P a \<Longrightarrow> x \<in> set xs \<Longrightarrow> f x a = Ok b \<Longrightarrow> P b"
  shows "P y"
  using assms(1,2) step
proof (induction xs arbitrary: a)
  case Nil
  then show ?case by simp
next
  case (Cons x xs)
  from Cons.prems(1) obtain b where b: "f x a = Ok b" "fold_ok f xs b = Ok y" by auto
  have "P b" by (rule Cons.prems(3) [OF Cons.prems(2) _ b(1)]) simp
  show ?case by (rule Cons.IH [OF b(2) \<open>P b\<close>]) (rule Cons.prems(3), auto)
qed

section \<open>Machine integers\<close>

type_synonym i64 = int
type_synonym u64 = int

definition i64_min :: int where "i64_min = -9223372036854775808"
definition i64_max :: int where "i64_max = 9223372036854775807"
definition u64_max :: int where "u64_max = 18446744073709551615"

definition is_i64 :: "int \<Rightarrow> bool" where "is_i64 x \<longleftrightarrow> i64_min \<le> x \<and> x \<le> i64_max"
definition is_u64 :: "int \<Rightarrow> bool" where "is_u64 x \<longleftrightarrow> 0 \<le> x \<and> x \<le> u64_max"

definition wrap_i64 :: "int \<Rightarrow> int" where
  "wrap_i64 x = (x + 9223372036854775808) mod 18446744073709551616 - 9223372036854775808"

definition wrap_u64 :: "int \<Rightarrow> int" where
  "wrap_u64 x = x mod 18446744073709551616"

definition i64_add :: "int \<Rightarrow> int \<Rightarrow> int" where "i64_add a b = wrap_i64 (a + b)"
definition i64_sub :: "int \<Rightarrow> int \<Rightarrow> int" where "i64_sub a b = wrap_i64 (a - b)"
definition i64_mul :: "int \<Rightarrow> int \<Rightarrow> int" where "i64_mul a b = wrap_i64 (a * b)"
definition i64_neg :: "int \<Rightarrow> int" where "i64_neg a = wrap_i64 (- a)"
definition i64_abs :: "int \<Rightarrow> int" where "i64_abs a = wrap_i64 \<bar>a\<bar>"
definition i64_sum :: "int list \<Rightarrow> int" where "i64_sum xs = foldl i64_add 0 xs"

definition u64_add :: "int \<Rightarrow> int \<Rightarrow> int" where "u64_add a b = wrap_u64 (a + b)"
definition u64_sub :: "int \<Rightarrow> int \<Rightarrow> int" where "u64_sub a b = wrap_u64 (a - b)"

lemmas i64_bounds = i64_min_def i64_max_def is_i64_def

lemma wrap_i64_id [simp]: "is_i64 x \<Longrightarrow> wrap_i64 x = x"
  by (simp add: wrap_i64_def i64_bounds)

lemma wrap_i64_range [simp]: "is_i64 (wrap_i64 x)"
  by (simp add: wrap_i64_def i64_bounds)

lemma wrap_u64_id [simp]: "is_u64 x \<Longrightarrow> wrap_u64 x = x"
  by (simp add: wrap_u64_def is_u64_def u64_max_def)

lemma wrap_u64_range [simp]: "is_u64 (wrap_u64 x)"
  by (simp add: wrap_u64_def is_u64_def u64_max_def)

lemma i64_op_range [simp]:
  "is_i64 (i64_add a b)" "is_i64 (i64_sub a b)" "is_i64 (i64_mul a b)" "is_i64 (i64_neg a)"
  by (simp_all add: i64_add_def i64_sub_def i64_mul_def i64_neg_def)

lemma i64_add_exact: "is_i64 (a + b) \<Longrightarrow> i64_add a b = a + b"
  by (simp add: i64_add_def)

lemma i64_sub_exact: "is_i64 (a - b) \<Longrightarrow> i64_sub a b = a - b"
  by (simp add: i64_sub_def)

lemma i64_neg_exact: "is_i64 (- a) \<Longrightarrow> i64_neg a = - a"
  by (simp add: i64_neg_def)

lemma i64_mul_exact: "is_i64 (a * b) \<Longrightarrow> i64_mul a b = a * b"
  by (simp add: i64_mul_def)

lemma i64_abs_exact: "is_i64 a \<Longrightarrow> a \<noteq> i64_min \<Longrightarrow> i64_abs a = \<bar>a\<bar>"
  by (simp add: i64_abs_def) (subst wrap_i64_id, auto simp: i64_bounds)

lemma u64_add_exact: "is_u64 (a + b) \<Longrightarrow> u64_add a b = a + b"
  by (simp add: u64_add_def)

lemma u64_sub_exact: "is_u64 (a - b) \<Longrightarrow> u64_sub a b = a - b"
  by (simp add: u64_sub_def)

lemma sum_list_nonneg_prefix:
  fixes xs :: "int list"
  assumes "\<forall>x\<in>set xs. 0 \<le> x"
  shows "0 \<le> sum_list xs"
  using assms by (simp add: sum_list_nonneg)

lemma foldl_i64_add_exact:
  assumes "\<forall>x\<in>set xs. 0 \<le> x" and "0 \<le> a" and "a + sum_list xs \<le> i64_max"
  shows "foldl i64_add a xs = a + sum_list xs"
  using assms
proof (induction xs arbitrary: a)
  case Nil
  then show ?case by simp
next
  case (Cons x xs)
  then have nn: "0 \<le> sum_list xs" by (simp add: sum_list_nonneg)
  with Cons.prems have "i64_add a x = a + x"
    by (intro i64_add_exact) (simp add: i64_bounds)
  with Cons show ?case by simp
qed

lemma i64_sum_exact:
  assumes "\<forall>x\<in>set xs. 0 \<le> x" and "sum_list xs \<le> i64_max"
  shows "i64_sum xs = sum_list xs"
  using foldl_i64_add_exact [of xs 0] assms by (simp add: i64_sum_def)

section \<open>Vectors\<close>

text \<open>\<open>iter().position\<close>: the first index whose element satisfies the predicate.\<close>

fun position :: "('a \<Rightarrow> bool) \<Rightarrow> 'a list \<Rightarrow> nat option" where
  "position p [] = None"
| "position p (x # xs) = (if p x then Some 0 else map_option Suc (position p xs))"

text \<open>\<open>Vec::swap_remove\<close>: the last element takes the place of the removed one; an index out
  of range panics.\<close>

definition swap_remove :: "'a list \<Rightarrow> nat \<Rightarrow> ('e, 'a \<times> 'a list) outcome" where
  "swap_remove xs i =
     (if i < length xs then Ok (xs ! i, butlast (xs[i := last xs])) else Panic)"

lemma position_None_iff [simp]: "position p xs = None \<longleftrightarrow> (\<forall>x\<in>set xs. \<not> p x)"
  by (induction xs) auto

lemma position_SomeD:
  "position p xs = Some i \<Longrightarrow> i < length xs \<and> p (xs ! i)"
  by (induction xs arbitrary: i) (auto split: if_splits)

lemma position_ex: "x \<in> set xs \<Longrightarrow> p x \<Longrightarrow> \<exists>i. position p xs = Some i"
  by (cases "position p xs") auto

lemma mset_butlast: "xs \<noteq> [] \<Longrightarrow> mset (butlast xs) = mset xs - {#last xs#}"
  by (induction xs rule: rev_induct) auto

lemma mset_swap_out:
  assumes "i < length xs"
  shows "mset (butlast (xs[i := last xs])) = mset xs - {#xs ! i#}"
proof -
  from assms have ne: "xs \<noteq> []" by auto
  show ?thesis
  proof (cases "i = length xs - 1")
    case True
    with ne have "xs ! i = last xs" by (simp add: last_conv_nth)
    then have "xs[i := last xs] = xs" by (metis list_update_id)
    with ne \<open>xs ! i = last xs\<close> show ?thesis by (simp add: mset_butlast)
  next
    case False
    with assms ne have l: "last (xs[i := last xs]) = last xs"
      by (simp add: last_list_update)
    have "mset (butlast (xs[i := last xs])) = mset (xs[i := last xs]) - {#last xs#}"
      using ne l by (simp add: mset_butlast)
    also have "\<dots> = mset xs - {#xs ! i#}"
      using assms by (simp add: mset_update)
    finally show ?thesis .
  qed
qed

lemma swap_remove_Ok:
  assumes "swap_remove xs i = Ok (x, ys)"
  shows "i < length xs" "x = xs ! i" "mset xs = add_mset x (mset ys)" "length ys = length xs - 1"
  using assms by (auto simp: swap_remove_def mset_swap_out split: if_splits)

section \<open>Ordered maps\<close>

text \<open>
  The interface of \<open>BTreeMap\<close> the components rely on: what a lookup returns after an
  insertion or a removal, and that the iteration order is the order of the keys.
\<close>

locale ordered_map =
  fixes empty :: 'm
    and get :: "'m \<Rightarrow> 'k::linorder \<Rightarrow> 'v option"
    and insert :: "'k \<Rightarrow> 'v \<Rightarrow> 'm \<Rightarrow> 'm"
    and remove :: "'k \<Rightarrow> 'm \<Rightarrow> 'm"
    and keys :: "'m \<Rightarrow> 'k list"
    and inv :: "'m \<Rightarrow> bool"
  assumes get_empty: "get empty k = None"
    and get_insert: "inv m \<Longrightarrow> get (insert k v m) k' = (if k' = k then Some v else get m k')"
    and get_remove: "inv m \<Longrightarrow> get (remove k m) k' = (if k' = k then None else get m k')"
    and keys_get: "inv m \<Longrightarrow> k \<in> set (keys m) \<longleftrightarrow> get m k \<noteq> None"
    and keys_sorted: "inv m \<Longrightarrow> sorted_wrt (<) (keys m)"
    and inv_empty: "inv empty"
    and inv_insert: "inv m \<Longrightarrow> inv (insert k v m)"
    and inv_remove: "inv m \<Longrightarrow> inv (remove k m)"
begin

lemma keys_insert: "inv m \<Longrightarrow> set (keys (insert k v m)) = Set.insert k (set (keys m))"
  by (auto simp: keys_get inv_insert get_insert split: if_splits)

lemma keys_remove: "inv m \<Longrightarrow> set (keys (remove k m)) = set (keys m) - {k}"
  by (auto simp: keys_get inv_remove get_remove split: if_splits)

lemma inv_fold_insert: "inv m \<Longrightarrow> inv (fold (\<lambda>(k, v). insert k v) kvs m)"
  by (induction kvs arbitrary: m) (auto simp: inv_insert)

lemma inv_fold_remove: "inv m \<Longrightarrow> inv (fold remove ks m)"
  by (induction ks arbitrary: m) (auto simp: inv_remove)

lemma get_fold_remove:
  "inv m \<Longrightarrow> get (fold remove ks m) k = (if k \<in> set ks then None else get m k)"
  by (induction ks arbitrary: m) (auto simp: inv_remove get_remove)

lemma get_remove_insert: "inv m \<Longrightarrow> get (remove k (insert k v m)) k' = get (remove k m) k'"
  by (simp add: inv_insert get_insert get_remove)

end

text \<open>The implementation: association lists with strictly increasing keys.\<close>

type_synonym ('k, 'v) btree_map = "('k \<times> 'v) list"

fun btree_insert :: "'k::linorder \<Rightarrow> 'v \<Rightarrow> ('k, 'v) btree_map \<Rightarrow> ('k, 'v) btree_map" where
  "btree_insert k v [] = [(k, v)]"
| "btree_insert k v ((a, b) # m) =
     (if k < a then (k, v) # (a, b) # m
      else if k = a then (k, v) # m
      else (a, b) # btree_insert k v m)"

definition btree_remove :: "'k::linorder \<Rightarrow> ('k, 'v) btree_map \<Rightarrow> ('k, 'v) btree_map" where
  "btree_remove k m = filter (\<lambda>(a, b). a \<noteq> k) m"

abbreviation (input) btree_get :: "('k, 'v) btree_map \<Rightarrow> 'k \<Rightarrow> 'v option" where
  "btree_get \<equiv> map_of"

abbreviation (input) btree_keys :: "('k, 'v) btree_map \<Rightarrow> 'k list" where
  "btree_keys m \<equiv> map fst m"

abbreviation (input) btree_values :: "('k, 'v) btree_map \<Rightarrow> 'v list" where
  "btree_values m \<equiv> map snd m"

definition btree_inv :: "('k::linorder, 'v) btree_map \<Rightarrow> bool" where
  "btree_inv m \<longleftrightarrow> sorted_wrt (<) (map fst m)"

lemma btree_keys_insert [simp]: "fst ` set (btree_insert k v m) = insert k (fst ` set m)"
  by (induction k v m rule: btree_insert.induct) auto

lemma btree_get_insert [simp]:
  "btree_get (btree_insert k v m) k' = (if k' = k then Some v else btree_get m k')"
  by (induction k v m rule: btree_insert.induct) auto

lemma btree_inv_insert [simp, intro]: "btree_inv m \<Longrightarrow> btree_inv (btree_insert k v m)"
  by (induction k v m rule: btree_insert.induct) (auto simp: btree_inv_def)

lemma btree_get_remove [simp]:
  "btree_get (btree_remove k m) k' = (if k' = k then None else btree_get m k')"
  by (induction m) (auto simp: btree_remove_def)

lemma btree_keys_remove [simp]: "fst ` set (btree_remove k m) = fst ` set m - {k}"
  by (auto simp: btree_remove_def image_iff)

lemma btree_inv_remove [simp, intro]: "btree_inv m \<Longrightarrow> btree_inv (btree_remove k m)"
  by (induction m) (auto simp: btree_inv_def btree_remove_def)

lemma set_btree_insert: "set (btree_insert k v m) \<subseteq> insert (k, v) (set m)"
  by (induction k v m rule: btree_insert.induct) auto

lemma set_btree_remove: "set (btree_remove k m) \<subseteq> set m"
  by (auto simp: btree_remove_def)

lemma btree_inv_Nil [simp, intro]: "btree_inv []"
  by (simp add: btree_inv_def)

lemma btree_inv_distinct: "btree_inv m \<Longrightarrow> distinct (map fst m)"
  by (simp add: btree_inv_def strict_sorted_iff)

interpretation btree: ordered_map "[]" btree_get btree_insert btree_remove btree_keys btree_inv
proof (unfold_locales, goal_cases)
  case (4 m k)
  then show ?case by (simp add: map_of_eq_None_iff)
next
  case (5 m)
  then show ?case by (simp add: btree_inv_def)
qed auto

lemma btree_get_mem: "btree_inv m \<Longrightarrow> (k, v) \<in> set m \<longleftrightarrow> btree_get m k = Some v"
  using btree_inv_distinct [of m] by (auto dest: map_of_SomeD)

text \<open>\<open>values_mut\<close> and \<open>iter_mut\<close> change the values in place and keep the keys.\<close>

definition btree_map_values :: "('k \<Rightarrow> 'v \<Rightarrow> 'w) \<Rightarrow> ('k, 'v) btree_map \<Rightarrow> ('k, 'w) btree_map" where
  "btree_map_values f m = map (\<lambda>(k, v). (k, f k v)) m"

lemma btree_map_values_keys [simp]: "map fst (btree_map_values f m) = map fst m"
  by (induction m) (auto simp: btree_map_values_def)

lemma btree_map_values_inv [simp]: "btree_inv (btree_map_values f m) = btree_inv m"
  by (simp add: btree_inv_def)

lemma btree_map_values_get [simp]: "btree_get (btree_map_values f m) k = map_option (f k) (btree_get m k)"
  by (induction m) (auto simp: btree_map_values_def)

end
