(* ===== verification/F64.thy ===== *)
theory F64
  imports Rust_Prelude "HOL-Library.Log_Nat"
begin

text \<open>
  Rust's \<open>f64\<close>: IEEE 754 binary64 with round-to-nearest-even.  A finite value is held as
  the rational number it denotes, so equality and order are the numeric ones; the negative zero,
  the infinities and NaN are constructors of their own (NaN payloads are not distinguished: no
  source reads them).  Every arithmetic operation rounds the exact rational result once
  (\<open>rnd\<close>), as the standard prescribes, and everything is executable.

  The lemmas are the ones error analysis needs: rounding is monotone, odd, exact on integers up
  to 2 to the 53, and has relative error at most 2 to the -53 in the normal range.
\<close>

named_theorems f64_defs \<open>definitions of the f64 operations\<close>

section \<open>Rounding a rational to 53 bits\<close>

definition flog2 :: "rat \<Rightarrow> int" where
  "flog2 x = (let (n, d) = quotient_of x; k = bitlen n - bitlen d in
     if 2 ^ nat k * d \<le> n * 2 ^ nat (- k) then k else k - 1)"

definition round_even :: "rat \<Rightarrow> int" where
  "round_even y = (let f = floor y; d = y - of_int f in
     if d < 1 / 2 then f else if 1 / 2 < d then f + 1 else if even f then f else f + 1)"

definition ulp_exp :: "rat \<Rightarrow> int" where
  "ulp_exp x = max (flog2 \<bar>x\<bar> - 52) (- 1074)"

definition rnd :: "rat \<Rightarrow> rat" where
  "rnd x = (if x = 0 then 0 else of_int (round_even (x / 2 powi ulp_exp x)) * 2 powi ulp_exp x)"

lemma powi2_less [simp]: "(2 :: rat) powi a < 2 powi b \<longleftrightarrow> a < b"
  by (metis linorder_not_less one_less_numeral_iff order_less_imp_le power_int_increasing
      power_int_strict_increasing semiring_norm(76) numeral_One one_le_numeral)

lemma powi2_le [simp]: "(2 :: rat) powi a \<le> 2 powi b \<longleftrightarrow> a \<le> b"
  by (meson linorder_not_le powi2_less)

lemma powi2_pos [simp]: "0 < (2 :: rat) powi a"
  by simp

lemma flog2_guard:
  assumes "0 < d"
  shows "2 ^ nat k * d \<le> n * 2 ^ nat (- k) \<longleftrightarrow> (2 :: rat) powi k \<le> of_int n / of_int d"
proof -
  have "2 ^ nat k * d \<le> n * 2 ^ nat (- k) \<longleftrightarrow>
      (of_int (2 ^ nat k * d) :: rat) \<le> of_int (n * 2 ^ nat (- k))"
    by (simp only: of_int_le_iff)
  also have "\<dots> \<longleftrightarrow> (2 :: rat) powi k * of_int d \<le> of_int n"
    by (cases "0 \<le> k") (auto simp: power_int_def field_simps)
  also have "\<dots> \<longleftrightarrow> (2 :: rat) powi k \<le> of_int n / of_int d"
    using assms by (simp add: pos_le_divide_eq)
  finally show ?thesis .
qed

lemma bitlen_bounds_rat:
  assumes "0 < n"
  shows "(2 :: rat) powi (bitlen n - 1) \<le> of_int n" "of_int n < (2 :: rat) powi bitlen n"
proof -
  from assms have b: "0 < bitlen n" by (simp add: bitlen_eq_zero_iff less_le bitlen_nonneg)
  have *: "2 ^ nat (bitlen n - 1) \<le> n" "n < 2 ^ nat (bitlen n)"
    using bitlen_bounds [OF assms] by auto
  have "(of_int (2 ^ nat (bitlen n - 1)) :: rat) \<le> of_int n"
    using *(1) by (simp only: of_int_le_iff)
  with b show "(2 :: rat) powi (bitlen n - 1) \<le> of_int n" by (simp add: power_int_def)
  have "(of_int n :: rat) < of_int (2 ^ nat (bitlen n))"
    using *(2) by (simp only: of_int_less_iff)
  with b show "of_int n < (2 :: rat) powi bitlen n" by (simp add: power_int_def)
qed

lemma flog2_bounds:
  assumes "0 < x"
  shows "2 powi flog2 x \<le> x" "x < 2 powi (flog2 x + 1)"
proof -
  obtain n d where q: "quotient_of x = (n, d)" by fastforce
  then have d: "0 < d" by (rule quotient_of_denom_pos)
  have x: "x = of_int n / of_int d" using q by (rule quotient_of_div)
  with assms d have n: "0 < n" by (simp add: zero_less_divide_iff)
  define k where "k = bitlen n - bitlen d"
  note nb = bitlen_bounds_rat [OF n] and db = bitlen_bounds_rat [OF d]
  have d': "(0 :: rat) < of_int d" using d by simp
  have up: "x < 2 powi (k + 1)"
  proof -
    have "of_int n < (2 :: rat) powi (k + 1) * 2 powi (bitlen d - 1)"
      using nb(2) by (simp add: k_def flip: power_int_add)
    also have "\<dots> \<le> 2 powi (k + 1) * of_int d"
      using db(1) by (intro mult_left_mono) auto
    finally show ?thesis using d' by (simp add: x pos_divide_less_eq)
  qed
  have lo: "2 powi (k - 1) \<le> x"
  proof -
    have "(2 :: rat) powi (k - 1) * of_int d \<le> 2 powi (k - 1) * 2 powi bitlen d"
      using db(2) by (intro mult_left_mono) auto
    also have "\<dots> = 2 powi (bitlen n - 1)"
      by (simp add: k_def flip: power_int_add)
    also have "\<dots> \<le> of_int n" by (rule nb(1))
    finally show ?thesis using d' by (simp add: x pos_le_divide_eq)
  qed
  have guard: "2 ^ nat k * d \<le> n * 2 ^ nat (- k) \<longleftrightarrow> 2 powi k \<le> x"
    using flog2_guard [OF d, of k n] by (simp add: x)
  have fl: "flog2 x = (if 2 powi k \<le> x then k else k - 1)"
    using guard by (simp add: flog2_def q k_def Let_def)
  show "2 powi flog2 x \<le> x" "x < 2 powi (flog2 x + 1)"
    using up lo by (auto simp: fl)
qed

lemma flog2_unique:
  assumes "2 powi k \<le> x" "x < 2 powi (k + 1)"
  shows "flog2 x = k"
proof -
  have x: "0 < x" using assms(1) by (rule less_le_trans [rotated]) simp
  note b = flog2_bounds [OF x]
  have "(2 :: rat) powi k < 2 powi (flog2 x + 1)" using assms(1) b(2) by linarith
  then have 1: "k < flog2 x + 1" by simp
  have "(2 :: rat) powi flog2 x < 2 powi (k + 1)" using assms(2) b(1) by linarith
  then have "flog2 x < k + 1" by simp
  with 1 show ?thesis by linarith
qed

lemma flog2_mono:
  assumes "0 < x" "x \<le> y"
  shows "flog2 x \<le> flog2 y"
proof -
  have "(2 :: rat) powi flog2 x < 2 powi (flog2 y + 1)"
    using flog2_bounds [of x] flog2_bounds [of y] assms by linarith
  then have "flog2 x < flog2 y + 1" by simp
  then show ?thesis by linarith
qed

lemma round_even_dist: "\<bar>of_int (round_even y) - y\<bar> \<le> 1 / 2"
proof -
  have "of_int \<lfloor>y\<rfloor> \<le> y" "y < of_int \<lfloor>y\<rfloor> + 1" by linarith+
  then show ?thesis unfolding round_even_def Let_def abs_if by (simp, linarith)
qed

lemma round_even_mono: "x \<le> y \<Longrightarrow> round_even x \<le> round_even y"
proof (rule ccontr)
  assume le: "x \<le> y" and "\<not> round_even x \<le> round_even y"
  then have "(of_int (round_even y) :: rat) + 1 \<le> of_int (round_even x)"
    by (metis linorder_not_le of_int_1 of_int_add of_int_le_iff zless_imp_add1_zle)
  moreover have "of_int (round_even x) \<le> x + 1 / 2" "y - 1 / 2 \<le> of_int (round_even y)"
    using round_even_dist [of x] round_even_dist [of y] by linarith+
  ultimately have "x = y" using le by linarith
  with \<open>\<not> round_even x \<le> round_even y\<close> show False by simp
qed

lemma round_even_of_int [simp]: "round_even (of_int n) = n"
  by (simp add: round_even_def)

lemma round_even_minus: "round_even (- y) = - round_even y"
proof (cases "of_int \<lfloor>y\<rfloor> = y")
  case True
  then show ?thesis by (metis of_int_minus round_even_of_int)
next
  case False
  then have f: "\<lfloor>- y\<rfloor> = - \<lfloor>y\<rfloor> - 1"
    by (intro floor_unique) (simp, linarith, linarith)
  show ?thesis by (simp add: round_even_def Let_def f)
qed

lemma rnd_0 [simp]: "rnd 0 = 0"
  by (simp add: rnd_def)

lemma ulp_exp_minus [simp]: "ulp_exp (- x) = ulp_exp x"
  by (simp add: ulp_exp_def)

lemma rnd_minus [simp]: "rnd (- x) = - rnd x"
  using round_even_minus [of "x / 2 powi ulp_exp x"] by (simp add: rnd_def)

lemma rnd_eq: "rnd x = of_int (round_even (x / 2 powi ulp_exp x)) * 2 powi ulp_exp x"
  using round_even_of_int [of 0] by (simp add: rnd_def)

lemma abs_less_ulp: "x \<noteq> 0 \<Longrightarrow> \<bar>x\<bar> < 2 powi (ulp_exp x + 53)"
proof -
  assume "x \<noteq> 0"
  then have "\<bar>x\<bar> < 2 powi (flog2 \<bar>x\<bar> + 1)" by (intro flog2_bounds) simp
  also have "\<dots> \<le> 2 powi (ulp_exp x + 53)" by (simp add: ulp_exp_def)
  finally show ?thesis .
qed

lemma ulp_le_abs: "x \<noteq> 0 \<Longrightarrow> - 1074 < ulp_exp x \<Longrightarrow> 2 powi (ulp_exp x + 52) \<le> \<bar>x\<bar>"
  using flog2_bounds(1) [of "\<bar>x\<bar>"] by (simp add: ulp_exp_def max_def split: if_splits)

lemma ulp_exp_mono: "0 < x \<Longrightarrow> x \<le> y \<Longrightarrow> ulp_exp x \<le> ulp_exp y"
  using flog2_mono [of x y] by (auto simp: ulp_exp_def)

lemma powi_scale_int:
  assumes "a \<le> b"
  shows "(2 :: rat) powi b / 2 powi a = of_int (2 ^ nat (b - a))"
proof -
  have "(2 :: rat) powi b / 2 powi a = 2 powi (b - a)" by (simp add: power_int_diff)
  with assms show ?thesis by (simp add: power_int_def)
qed

lemma rnd_le_pow:
  assumes "ulp_exp x \<le> k" and "x \<le> 2 powi k"
  shows "rnd x \<le> 2 powi k"
proof -
  have "x / 2 powi ulp_exp x \<le> of_int (2 ^ nat (k - ulp_exp x))"
    unfolding powi_scale_int [OF assms(1), symmetric] using assms(2) by (simp add: divide_right_mono)
  then have "round_even (x / 2 powi ulp_exp x) \<le> 2 ^ nat (k - ulp_exp x)"
    by (metis round_even_mono round_even_of_int)
  then have "(of_int (round_even (x / 2 powi ulp_exp x)) :: rat) \<le> of_int (2 ^ nat (k - ulp_exp x))"
    by (simp only: of_int_le_iff)
  also have "\<dots> = 2 powi k / 2 powi ulp_exp x"
    using assms(1) by (simp only: powi_scale_int)
  finally show ?thesis by (simp add: rnd_eq pos_le_divide_eq)
qed

lemma rnd_ge_pow:
  assumes "ulp_exp x \<le> k" and "2 powi k \<le> x"
  shows "2 powi k \<le> rnd x"
proof -
  have "of_int (2 ^ nat (k - ulp_exp x)) \<le> x / 2 powi ulp_exp x"
    unfolding powi_scale_int [OF assms(1), symmetric] using assms(2) by (simp add: divide_right_mono)
  then have "2 ^ nat (k - ulp_exp x) \<le> round_even (x / 2 powi ulp_exp x)"
    by (metis round_even_mono round_even_of_int)
  then have "(of_int (2 ^ nat (k - ulp_exp x)) :: rat) \<le> of_int (round_even (x / 2 powi ulp_exp x))"
    by (simp only: of_int_le_iff)
  moreover have "of_int (2 ^ nat (k - ulp_exp x)) = (2 :: rat) powi k / 2 powi ulp_exp x"
    using assms(1) by (simp only: powi_scale_int)
  ultimately have "(2 :: rat) powi k / 2 powi ulp_exp x \<le> of_int (round_even (x / 2 powi ulp_exp x))"
    by (simp only:)
  then show ?thesis by (simp add: rnd_eq pos_divide_le_eq)
qed

lemma rnd_nonneg [simp]: "0 \<le> x \<Longrightarrow> 0 \<le> rnd x"
proof -
  assume "0 \<le> x"
  then have "0 \<le> x / 2 powi ulp_exp x" by simp
  then have "0 \<le> round_even (x / 2 powi ulp_exp x)"
    by (metis of_int_0 round_even_mono round_even_of_int)
  then show ?thesis by (simp add: rnd_eq)
qed

lemma rnd_nonpos: "x \<le> 0 \<Longrightarrow> rnd x \<le> 0"
  using rnd_nonneg [of "- x"] by simp

lemma rnd_mono_pos:
  assumes "0 < x" "x \<le> y"
  shows "rnd x \<le> rnd y"
proof (cases "ulp_exp x = ulp_exp y")
  case True
  have "x / 2 powi ulp_exp x \<le> y / 2 powi ulp_exp x"
    using assms(2) by (simp add: divide_right_mono)
  then have "round_even (x / 2 powi ulp_exp x) \<le> round_even (y / 2 powi ulp_exp x)"
    by (rule round_even_mono)
  with True show ?thesis by (simp add: rnd_eq)
next
  case False
  with ulp_exp_mono [OF assms] have lt: "ulp_exp x + 1 \<le> ulp_exp y" by simp
  have "rnd x \<le> 2 powi (ulp_exp x + 53)"
    using abs_less_ulp [of x] assms(1) by (intro rnd_le_pow) auto
  also have "\<dots> \<le> 2 powi (ulp_exp y + 52)" using lt by simp
  also have "\<dots> \<le> rnd y"
  proof (rule rnd_ge_pow)
    have "- 1074 < ulp_exp y" using lt by (simp add: ulp_exp_def)
    then show "2 powi (ulp_exp y + 52) \<le> y"
      using ulp_le_abs [of y] assms by simp
  qed simp
  finally show ?thesis .
qed

theorem rnd_mono: "x \<le> y \<Longrightarrow> rnd x \<le> rnd y"
proof -
  assume le: "x \<le> y"
  consider "0 < x" | "x \<le> 0" "0 \<le> y" | "y < 0" by linarith
  then show ?thesis
  proof cases
    case 1
    then show ?thesis using le by (rule rnd_mono_pos)
  next
    case 2
    then show ?thesis using rnd_nonneg [of y] rnd_nonpos [of x] by linarith
  next
    case 3
    then show ?thesis using rnd_mono_pos [of "- y" "- x"] le by simp
  qed
qed

lemma rnd_abs_err: "\<bar>rnd x - x\<bar> \<le> 2 powi ulp_exp x / 2"
proof -
  let ?e = "(2 :: rat) powi ulp_exp x"
  have "rnd x - x = (of_int (round_even (x / ?e)) - x / ?e) * ?e"
    by (simp add: rnd_eq algebra_simps)
  then have "\<bar>rnd x - x\<bar> = \<bar>of_int (round_even (x / ?e)) - x / ?e\<bar> * ?e"
    by (simp add: abs_mult)
  also have "\<dots> \<le> 1 / 2 * ?e"
    by (intro mult_right_mono round_even_dist) simp
  finally show ?thesis by simp
qed

definition f64_eps :: rat where "f64_eps = 1 / 9007199254740992"

theorem rnd_rel_err:
  assumes "2 powi (- 1022) \<le> \<bar>x\<bar>"
  shows "\<bar>rnd x - x\<bar> \<le> \<bar>x\<bar> * f64_eps"
proof -
  have x: "0 < \<bar>x\<bar>" using assms by (rule less_le_trans [rotated]) simp
  have "(2 :: rat) powi (- 1022) < 2 powi (flog2 \<bar>x\<bar> + 1)"
    using assms flog2_bounds(2) [OF x] by linarith
  then have "- 1022 < flog2 \<bar>x\<bar> + 1" by (simp only: powi2_less)
  then have u: "ulp_exp x = flog2 \<bar>x\<bar> - 52" by (simp add: ulp_exp_def)
  have "2 powi ulp_exp x / 2 = (2 :: rat) powi (flog2 \<bar>x\<bar>) * f64_eps"
    by (simp add: u power_int_diff f64_eps_def)
  also have "\<dots> \<le> \<bar>x\<bar> * f64_eps"
    using flog2_bounds(1) [OF x] by (intro mult_right_mono) (auto simp: f64_eps_def)
  finally show ?thesis using rnd_abs_err [of x] by linarith
qed

theorem rnd_exact:
  assumes "x = of_int m * 2 powi k" and "\<bar>m\<bar> \<le> 2 ^ 53" and "- 1074 \<le> k"
  shows "rnd x = x"
proof (cases "x = 0")
  case False
  let ?e = "ulp_exp x"
  have "\<exists>n. x / 2 powi ?e = of_int n"
  proof (cases "?e \<le> k")
    case True
    have "x / 2 powi ?e = of_int m * (2 powi k / 2 powi ?e)" using assms(1) by simp
    then have "x / 2 powi ?e = of_int (m * 2 ^ nat (k - ?e))"
      by (simp only: powi_scale_int [OF True] of_int_mult)
    then show ?thesis ..
  next
    case lt: False
    with assms(3) have "- 1074 < ?e" by simp
    then have lo: "2 powi (?e + 52) \<le> \<bar>x\<bar>" using False by (intro ulp_le_abs) auto
    have m: "(\<bar>of_int m\<bar> :: rat) \<le> of_int (2 ^ 53)"
      using assms(2) by (metis of_int_abs of_int_le_iff)
    have "\<bar>x\<bar> = \<bar>of_int m\<bar> * 2 powi k" by (simp add: assms(1) abs_mult)
    also have "\<dots> \<le> 2 powi 53 * 2 powi k" using m by (intro mult_right_mono) auto
    also have "\<dots> = 2 powi (k + 53)" by (simp add: power_int_add)
    finally have hi: "\<bar>x\<bar> \<le> 2 powi (k + 53)" .
    from lo hi have "(2 :: rat) powi (?e + 52) \<le> 2 powi (k + 53)" by linarith
    with lt have ek: "?e = k + 1" by simp
    with lo hi have "\<bar>x\<bar> = 2 powi (?e + 52)" by (simp add: add.commute)
    then have "\<bar>x / 2 powi ?e\<bar> = 2 ^ 52" by (simp add: power_int_add abs_mult)
    then have "x / 2 powi ?e = of_int (2 ^ 52) \<or> x / 2 powi ?e = of_int (- (2 ^ 52))"
      by (auto simp: abs_if split: if_splits)
    then show ?thesis by blast
  qed
  then obtain n where n: "x / 2 powi ?e = of_int n" by blast
  then have "rnd x = of_int n * 2 powi ?e" by (simp only: rnd_eq round_even_of_int)
  also have "\<dots> = x" by (simp flip: n)
  finally show ?thesis .
qed simp

lemma rnd_of_int [simp]: "\<bar>n\<bar> \<le> 2 ^ 53 \<Longrightarrow> rnd (of_int n) = of_int n"
  by (rule rnd_exact [of _ n 0]) auto

theorem rnd_idem [simp]: "rnd (rnd x) = rnd x"
proof (cases "x = 0")
  case False
  let ?e = "ulp_exp x"
  have b: "\<bar>x / 2 powi ?e\<bar> \<le> of_int (2 ^ 53)"
    using abs_less_ulp [OF False] by (simp add: power_int_add pos_divide_le_eq)
  then have "x / 2 powi ?e \<le> of_int (2 ^ 53)" "of_int (- (2 ^ 53)) \<le> x / 2 powi ?e"
    unfolding abs_le_iff by (simp_all only: of_int_minus minus_le_iff)
  then have "\<bar>round_even (x / 2 powi ?e)\<bar> \<le> 2 ^ 53"
    using round_even_mono round_even_of_int by (metis abs_le_iff minus_le_iff)
  then show ?thesis
    by (intro rnd_exact [of _ "round_even (x / 2 powi ?e)" ?e]) (auto simp: rnd_eq ulp_exp_def)
qed simp

section \<open>The type and its operations\<close>

datatype f64 = Fin rat | NZero | PInf | NInf | NaN

definition f64_huge :: rat where "f64_huge = 2 ^ 1024"

text \<open>\<open>f64_of_rat\<close> is the value a non-zero exact result rounds to: overflow gives an
  infinity and underflow a zero of the same sign.  A decimal literal of the source is
  \<open>f64_of_rat\<close> of the number written.\<close>

definition f64_of_rat :: "rat \<Rightarrow> f64" where
  "f64_of_rat q = (let r = rnd q in
     if f64_huge \<le> r then PInf else if r \<le> - f64_huge then NInf
     else if r = 0 \<and> q < 0 then NZero else Fin r)"

fun f64_sign :: "f64 \<Rightarrow> bool" where
  "f64_sign (Fin q) = (q < 0)"
| "f64_sign NZero = True"
| "f64_sign PInf = False"
| "f64_sign NInf = True"
| "f64_sign NaN = False"

fun f64_val :: "f64 \<Rightarrow> rat" where
  "f64_val (Fin q) = q"
| "f64_val _ = 0"

definition is_fin :: "f64 \<Rightarrow> bool" where
  "is_fin x = (case x of Fin _ \<Rightarrow> True | NZero \<Rightarrow> True | _ \<Rightarrow> False)"

definition is_inf :: "f64 \<Rightarrow> bool" where
  "is_inf x \<longleftrightarrow> x = PInf \<or> x = NInf"

definition f64_inf :: "bool \<Rightarrow> f64" where "f64_inf s = (if s then NInf else PInf)"
definition f64_zero :: "bool \<Rightarrow> f64" where "f64_zero s = (if s then NZero else Fin 0)"

fun f64_neg :: "f64 \<Rightarrow> f64" where
  "f64_neg (Fin q) = (if q = 0 then NZero else Fin (- q))"
| "f64_neg NZero = Fin 0"
| "f64_neg PInf = NInf"
| "f64_neg NInf = PInf"
| "f64_neg NaN = NaN"

definition f64_add :: "f64 \<Rightarrow> f64 \<Rightarrow> f64" where
  "f64_add a b =
     (if a = NaN \<or> b = NaN then NaN
      else if is_inf a then (if is_inf b \<and> a \<noteq> b then NaN else a)
      else if is_inf b then b
      else if f64_val a + f64_val b = 0 then (if a = NZero \<and> b = NZero then NZero else Fin 0)
      else f64_of_rat (f64_val a + f64_val b))"

definition f64_sub :: "f64 \<Rightarrow> f64 \<Rightarrow> f64" where
  "f64_sub a b = f64_add a (f64_neg b)"

definition f64_mul :: "f64 \<Rightarrow> f64 \<Rightarrow> f64" where
  "f64_mul a b =
     (let s = (f64_sign a \<noteq> f64_sign b) in
      if a = NaN \<or> b = NaN then NaN
      else if is_inf a \<or> is_inf b then
        (if (is_fin a \<and> f64_val a = 0) \<or> (is_fin b \<and> f64_val b = 0) then NaN else f64_inf s)
      else if f64_val a * f64_val b = 0 then f64_zero s
      else f64_of_rat (f64_val a * f64_val b))"

definition f64_div :: "f64 \<Rightarrow> f64 \<Rightarrow> f64" where
  "f64_div a b =
     (let s = (f64_sign a \<noteq> f64_sign b) in
      if a = NaN \<or> b = NaN then NaN
      else if is_inf a then (if is_inf b then NaN else f64_inf s)
      else if is_inf b then f64_zero s
      else if f64_val b = 0 then (if f64_val a = 0 then NaN else f64_inf s)
      else if f64_val a = 0 then f64_zero s
      else f64_of_rat (f64_val a / f64_val b))"

fun f64_abs :: "f64 \<Rightarrow> f64" where
  "f64_abs (Fin q) = Fin \<bar>q\<bar>"
| "f64_abs NZero = Fin 0"
| "f64_abs NInf = PInf"
| "f64_abs x = x"

text \<open>Comparisons are false on NaN; the two zeros are equal.\<close>

fun f64_lt :: "f64 \<Rightarrow> f64 \<Rightarrow> bool" where
  "f64_lt NaN b = False"
| "f64_lt a NaN = False"
| "f64_lt PInf b = False"
| "f64_lt a NInf = False"
| "f64_lt NInf b = True"
| "f64_lt a PInf = True"
| "f64_lt a b = (f64_val a < f64_val b)"

fun f64_eq :: "f64 \<Rightarrow> f64 \<Rightarrow> bool" where
  "f64_eq NaN b = False"
| "f64_eq a NaN = False"
| "f64_eq PInf b = (b = PInf)"
| "f64_eq NInf b = (b = NInf)"
| "f64_eq a PInf = False"
| "f64_eq a NInf = False"
| "f64_eq a b = (f64_val a = f64_val b)"

definition f64_le :: "f64 \<Rightarrow> f64 \<Rightarrow> bool" where "f64_le a b \<longleftrightarrow> f64_lt a b \<or> f64_eq a b"
definition f64_gt :: "f64 \<Rightarrow> f64 \<Rightarrow> bool" where "f64_gt a b = f64_lt b a"
definition f64_ge :: "f64 \<Rightarrow> f64 \<Rightarrow> bool" where "f64_ge a b = f64_le b a"

text \<open>\<open>f64::min\<close> and \<open>f64::max\<close> return the other operand when one is NaN.\<close>

definition f64_min :: "f64 \<Rightarrow> f64 \<Rightarrow> f64" where
  "f64_min a b = (if a = NaN then b else if b = NaN then a else if f64_lt b a then b else a)"

definition f64_max :: "f64 \<Rightarrow> f64 \<Rightarrow> f64" where
  "f64_max a b = (if a = NaN then b else if b = NaN then a else if f64_lt a b then b else a)"

definition f64_MAX :: f64 where "f64_MAX = Fin ((2 ^ 53 - 1) * 2 ^ 971)"

text \<open>\<open>f64::round\<close> rounds half away from zero; \<open>ceil\<close> rounds up.\<close>

definition round_away :: "rat \<Rightarrow> int" where
  "round_away q = (if 0 \<le> q then \<lfloor>q + 1 / 2\<rfloor> else - \<lfloor>- q + 1 / 2\<rfloor>)"

definition trunc :: "rat \<Rightarrow> int" where
  "trunc q = (if 0 \<le> q then \<lfloor>q\<rfloor> else - \<lfloor>- q\<rfloor>)"

fun f64_round :: "f64 \<Rightarrow> f64" where
  "f64_round (Fin q) = (if round_away q = 0 \<and> q < 0 then NZero else Fin (of_int (round_away q)))"
| "f64_round x = x"

fun f64_ceil :: "f64 \<Rightarrow> f64" where
  "f64_ceil (Fin q) = (if \<lceil>q\<rceil> = 0 \<and> q < 0 then NZero else Fin (of_int \<lceil>q\<rceil>))"
| "f64_ceil x = x"

text \<open>\<open>as i64\<close> and \<open>as u64\<close> truncate and saturate; NaN becomes 0.\<close>

definition clamp :: "int \<Rightarrow> int \<Rightarrow> int \<Rightarrow> int" where
  "clamp lo hi n = max lo (min hi n)"

fun f64_to_int :: "int \<Rightarrow> int \<Rightarrow> f64 \<Rightarrow> int" where
  "f64_to_int lo hi (Fin q) = clamp lo hi (trunc q)"
| "f64_to_int lo hi NZero = 0"
| "f64_to_int lo hi PInf = hi"
| "f64_to_int lo hi NInf = lo"
| "f64_to_int lo hi NaN = 0"

definition f64_as_i64 :: "f64 \<Rightarrow> i64" where "f64_as_i64 = f64_to_int i64_min i64_max"
definition f64_as_u64 :: "f64 \<Rightarrow> u64" where "f64_as_u64 = f64_to_int 0 u64_max"

definition int_as_f64 :: "int \<Rightarrow> f64" where "int_as_f64 n = f64_of_rat (of_int n)"

text \<open>A well-formed value: what every operation returns.\<close>

fun f64_wf :: "f64 \<Rightarrow> bool" where
  "f64_wf (Fin q) = (rnd q = q \<and> \<bar>q\<bar> < f64_huge)"
| "f64_wf _ = True"

section \<open>Facts about the operations\<close>

lemma rnd_abs_le: "rnd c = c \<Longrightarrow> \<bar>x\<bar> \<le> c \<Longrightarrow> \<bar>rnd x\<bar> \<le> c"
proof -
  assume c: "rnd c = c" "\<bar>x\<bar> \<le> c"
  then have "rnd x \<le> rnd c" "rnd (- c) \<le> rnd x"
    unfolding abs_le_iff by (blast intro: rnd_mono, simp add: rnd_mono minus_le_iff del: rnd_minus)
  with c(1) show ?thesis by (simp add: abs_le_iff)
qed

lemma rnd_pow2: "rnd (2 ^ n) = 2 ^ n"
  using rnd_exact [of "2 ^ n" 1 "int n"] by simp

lemma f64_huge_gt: "n < 1024 \<Longrightarrow> (2 :: rat) ^ n < f64_huge"
  unfolding f64_huge_def by (rule power_strict_increasing) auto

lemma rnd_below_huge:
  assumes "\<bar>x\<bar> \<le> 2 ^ n" and "n < 1024"
  shows "\<bar>rnd x\<bar> < f64_huge"
  using rnd_abs_le [OF rnd_pow2 assms(1)] f64_huge_gt [OF assms(2)] by linarith

lemma f64_of_rat_fin:
  assumes "\<bar>rnd q\<bar> < f64_huge"
  shows "is_fin (f64_of_rat q)" "f64_val (f64_of_rat q) = rnd q"
  using assms by (auto simp: f64_of_rat_def is_fin_def Let_def abs_if split: if_splits)

lemma f64_of_rat_Fin:
  assumes "\<bar>rnd q\<bar> < f64_huge" and "0 \<le> q"
  shows "f64_of_rat q = Fin (rnd q)"
  using assms by (auto simp: f64_of_rat_def Let_def abs_if split: if_splits)

lemma f64_of_rat_wf [simp]: "f64_wf (f64_of_rat q)"
  by (auto simp: f64_of_rat_def Let_def abs_if)

lemma is_fin_simps [simp]:
  "is_fin (Fin q)" "is_fin NZero" "\<not> is_fin PInf" "\<not> is_fin NInf" "\<not> is_fin NaN"
  by (auto simp: is_fin_def)

lemma is_inf_simps [simp]:
  "\<not> is_inf (Fin q)" "\<not> is_inf NZero" "is_inf PInf" "is_inf NInf" "\<not> is_inf NaN"
  by (auto simp: is_inf_def)

lemma f64_huge_pos [simp]: "0 < f64_huge" "\<not> f64_huge \<le> 0" "\<not> 0 \<le> - f64_huge"
  by (simp_all add: f64_huge_def)

lemma is_fin_not_inf: "is_fin a \<Longrightarrow> \<not> is_inf a" "is_fin a \<Longrightarrow> a \<noteq> NaN"
  by (auto simp: is_inf_def)

lemma f64_neg_fin [simp]: "is_fin (f64_neg a) = is_fin a" "f64_val (f64_neg a) = - f64_val a"
  by (cases a; simp)+

lemma f64_add_fin:
  assumes "is_fin a" "is_fin b" "\<bar>rnd (f64_val a + f64_val b)\<bar> < f64_huge"
  shows "is_fin (f64_add a b)" "f64_val (f64_add a b) = rnd (f64_val a + f64_val b)"
  using assms f64_of_rat_fin [OF assms(3)]
  by (auto simp: f64_add_def is_fin_not_inf)

lemma f64_sub_fin:
  assumes "is_fin a" "is_fin b" "\<bar>rnd (f64_val a - f64_val b)\<bar> < f64_huge"
  shows "is_fin (f64_sub a b)" "f64_val (f64_sub a b) = rnd (f64_val a - f64_val b)"
  using f64_add_fin [of a "f64_neg b"] assms by (auto simp: f64_sub_def)

lemma f64_zero_simps [simp]: "is_fin (f64_zero s)" "f64_val (f64_zero s) = 0" "f64_wf (f64_zero s)"
  by (auto simp: f64_zero_def f64_huge_def)

lemma f64_mul_fin:
  assumes "is_fin a" "is_fin b" "\<bar>rnd (f64_val a * f64_val b)\<bar> < f64_huge"
  shows "is_fin (f64_mul a b)" "f64_val (f64_mul a b) = rnd (f64_val a * f64_val b)"
  using assms f64_of_rat_fin [OF assms(3)]
  by (auto simp: f64_mul_def is_fin_not_inf Let_def)

lemma f64_div_fin:
  assumes "is_fin a" "is_fin b" "f64_val b \<noteq> 0" "\<bar>rnd (f64_val a / f64_val b)\<bar> < f64_huge"
  shows "is_fin (f64_div a b)" "f64_val (f64_div a b) = rnd (f64_val a / f64_val b)"
  using assms f64_of_rat_fin [OF assms(4)]
  by (auto simp: f64_div_def is_fin_not_inf Let_def)

lemma f64_lt_fin: "is_fin a \<Longrightarrow> is_fin b \<Longrightarrow> f64_lt a b \<longleftrightarrow> f64_val a < f64_val b"
  by (cases a; cases b) auto

lemma f64_eq_fin: "is_fin a \<Longrightarrow> is_fin b \<Longrightarrow> f64_eq a b \<longleftrightarrow> f64_val a = f64_val b"
  by (cases a; cases b) auto

lemma f64_le_fin: "is_fin a \<Longrightarrow> is_fin b \<Longrightarrow> f64_le a b \<longleftrightarrow> f64_val a \<le> f64_val b"
  by (auto simp: f64_le_def f64_lt_fin f64_eq_fin)

lemma f64_min_fin: "is_fin a \<Longrightarrow> is_fin b \<Longrightarrow>
    is_fin (f64_min a b) \<and> f64_val (f64_min a b) = min (f64_val a) (f64_val b)"
  by (auto simp: f64_min_def f64_lt_fin is_fin_not_inf min_def)

lemma f64_max_fin: "is_fin a \<Longrightarrow> is_fin b \<Longrightarrow>
    is_fin (f64_max a b) \<and> f64_val (f64_max a b) = max (f64_val a) (f64_val b)"
  by (auto simp: f64_max_def f64_lt_fin is_fin_not_inf max_def)

lemma round_away_dist: "\<bar>of_int (round_away q) - q\<bar> \<le> 1 / 2"
  unfolding round_away_def abs_if by (simp, linarith)

lemma round_away_of_int [simp]: "round_away (of_int n) = n"
  by (auto simp: round_away_def) linarith+

lemma round_away_0 [simp]: "round_away 0 = 0"
  using round_away_of_int [of 0] by simp

lemma round_away_minus: "round_away (- q) = - round_away q"
  by (cases "q = 0") (simp, auto simp: round_away_def)

lemma round_away_mono: "x \<le> y \<Longrightarrow> round_away x \<le> round_away y"
proof -
  assume le: "x \<le> y"
  consider "0 \<le> x" "0 \<le> y" | "\<not> 0 \<le> x" "0 \<le> y" | "\<not> 0 \<le> x" "\<not> 0 \<le> y" using le by linarith
  then show ?thesis
  proof cases
    case 1
    then show ?thesis using le by (simp add: round_away_def floor_mono)
  next
    case 2
    then have "0 \<le> \<lfloor>y + 1 / 2\<rfloor>" "0 \<le> \<lfloor>- x + 1 / 2\<rfloor>"
      by simp_all
    moreover have "round_away x = - \<lfloor>- x + 1 / 2\<rfloor>" "round_away y = \<lfloor>y + 1 / 2\<rfloor>"
      using 2 by (simp_all add: round_away_def)
    ultimately show ?thesis by linarith
  next
    case 3
    then show ?thesis using le by (simp add: round_away_def floor_mono)
  qed
qed

lemma trunc_of_int [simp]: "trunc (of_int n) = n"
  by (simp add: trunc_def)

lemma trunc_0 [simp]: "trunc 0 = 0"
  by (simp add: trunc_def)

lemma clamp_id [simp]: "lo \<le> n \<Longrightarrow> n \<le> hi \<Longrightarrow> clamp lo hi n = n"
  by (simp add: clamp_def)

lemma clamp_mono: "m \<le> n \<Longrightarrow> clamp lo hi m \<le> clamp lo hi n"
  by (auto simp: clamp_def)

lemma f64_to_int_range: "lo \<le> 0 \<Longrightarrow> 0 \<le> hi \<Longrightarrow> lo \<le> f64_to_int lo hi x \<and> f64_to_int lo hi x \<le> hi"
  by (cases x) (auto simp: clamp_def)

lemma f64_as_i64_range [simp]: "is_i64 (f64_as_i64 x)"
  using f64_to_int_range [of i64_min i64_max x] by (simp add: f64_as_i64_def i64_bounds)

lemma f64_as_u64_range [simp]: "is_u64 (f64_as_u64 x)"
  using f64_to_int_range [of 0 u64_max x] by (simp add: f64_as_u64_def is_u64_def u64_max_def)

lemma f64_round_fin [simp]:
  "is_fin x \<Longrightarrow> is_fin (f64_round x)"
  "is_fin x \<Longrightarrow> f64_val (f64_round x) = of_int (round_away (f64_val x))"
  by (cases x; simp)+

lemma f64_to_int_fin: "is_fin x \<Longrightarrow> lo \<le> 0 \<Longrightarrow> 0 \<le> hi \<Longrightarrow>
    f64_to_int lo hi x = clamp lo hi (trunc (f64_val x))"
  by (cases x) (auto simp: clamp_def trunc_def)

lemma f64_as_i64_round:
  "is_fin x \<Longrightarrow> f64_as_i64 (f64_round x) = clamp i64_min i64_max (round_away (f64_val x))"
  by (simp add: f64_as_i64_def f64_to_int_fin i64_min_def i64_max_def)

lemma int_as_f64_fin:
  assumes "\<bar>n\<bar> \<le> 2 ^ 64"
  shows "is_fin (int_as_f64 n)" "f64_val (int_as_f64 n) = rnd (of_int n)"
proof -
  have "\<bar>of_int n :: rat\<bar> \<le> of_int (2 ^ 64)" using assms by (metis of_int_abs of_int_le_iff)
  then have "\<bar>rnd (of_int n)\<bar> < f64_huge" by (intro rnd_below_huge [of _ 64]) auto
  then show "is_fin (int_as_f64 n)" "f64_val (int_as_f64 n) = rnd (of_int n)"
    by (auto simp: int_as_f64_def f64_of_rat_fin)
qed

lemma f64_op_wf [simp]:
  "f64_wf a \<Longrightarrow> f64_wf b \<Longrightarrow> f64_wf (f64_add a b)" "f64_wf (f64_mul a b)" "f64_wf (f64_div a b)"
  "f64_wf (int_as_f64 n)"
  by (auto simp: f64_add_def f64_mul_def f64_div_def Let_def f64_inf_def int_as_f64_def f64_huge_def)

section \<open>Error bounds\<close>

lemma rel_err: "x = 0 \<or> 1 / 10 ^ 20 \<le> \<bar>x\<bar> \<Longrightarrow> \<bar>rnd x - x\<bar> \<le> \<bar>x\<bar> * f64_eps"
proof -
  assume x: "x = 0 \<or> 1 / 10 ^ 20 \<le> \<bar>x\<bar>"
  have "(2 :: rat) powi (- 1022) \<le> 2 powi (- 67)" by (simp only: powi2_le)
  also have "\<dots> \<le> 1 / 10 ^ 20" by (simp add: power_int_def power_divide)
  finally have "(2 :: rat) powi (- 1022) \<le> 1 / 10 ^ 20" .
  with x show ?thesis by (cases "x = 0") (auto intro: rnd_rel_err)
qed

lemma rnd_bounds:
  assumes "0 \<le> x" "x = 0 \<or> 1 / 10 ^ 20 \<le> x"
  shows "x * (1 - f64_eps) \<le> rnd x" "rnd x \<le> x * (1 + f64_eps)"
proof -
  have "\<bar>rnd x - x\<bar> \<le> x * f64_eps" using rel_err [of x] assms by (simp add: abs_of_nonneg)
  then show "x * (1 - f64_eps) \<le> rnd x" "rnd x \<le> x * (1 + f64_eps)"
    by (simp_all add: abs_le_iff algebra_simps)
qed

lemma round_away_near: "\<bar>q - of_int n\<bar> < 1 / 2 \<Longrightarrow> round_away q = n"
proof -
  assume q: "\<bar>q - of_int n\<bar> < 1 / 2"
  have "\<bar>of_int (round_away q) - q\<bar> \<le> 1 / 2" by (rule round_away_dist)
  with q have "\<bar>(of_int (round_away q) :: rat) - of_int n\<bar> < 1" by linarith
  then have "(of_int \<bar>round_away q - n\<bar> :: rat) < of_int 1" by simp
  then show ?thesis by (simp only: of_int_less_iff)
qed

lemma round_away_bounds: "q - 1 / 2 \<le> of_int (round_away q)" "of_int (round_away q) \<le> q + 1 / 2"
  using round_away_dist [of q] by linarith+

lemma int_as_f64_exact: "\<bar>n\<bar> \<le> 2 ^ 53 \<Longrightarrow> int_as_f64 n = Fin (of_int n)"
proof -
  assume n: "\<bar>n\<bar> \<le> 2 ^ 53"
  have "\<bar>of_int n :: rat\<bar> \<le> of_int (2 ^ 53)" using n by (metis of_int_abs of_int_le_iff)
  then have "\<bar>rnd (of_int n)\<bar> < f64_huge" by (intro rnd_below_huge [of _ 53]) auto
  moreover have "rnd (of_int n) = of_int n" using n by (rule rnd_of_int)
  ultimately show ?thesis
    by (auto simp: int_as_f64_def f64_of_rat_def Let_def abs_if split: if_splits)
qed

section \<open>Efficient evaluation\<close>

lemma rnd_code [code]:
  "rnd x = (if x = 0 then 0 else let e = ulp_exp x in
     if 0 \<le> e then of_int (round_even (x / of_int (2 ^ nat e)) * 2 ^ nat e)
     else of_int (round_even (x * of_int (2 ^ nat (- e)))) / of_int (2 ^ nat (- e)))"
  by (simp add: rnd_def Let_def power_int_def field_simps)

lemma f64_of_rat_code [code]:
  "f64_of_rat q = (let r = rnd q in
     if r \<noteq> 0 \<and> 1024 \<le> flog2 \<bar>r\<bar> then (if 0 < r then PInf else NInf)
     else if r = 0 \<and> q < 0 then NZero else Fin r)"
proof -
  have *: "1024 \<le> flog2 \<bar>r\<bar> \<longleftrightarrow> f64_huge \<le> \<bar>r\<bar>" if "r \<noteq> 0" for r
  proof
    assume "1024 \<le> flog2 \<bar>r\<bar>"
    then have "(2 :: rat) powi 1024 \<le> 2 powi flog2 \<bar>r\<bar>" by (simp only: powi2_le)
    also have "\<dots> \<le> \<bar>r\<bar>" using that by (intro flog2_bounds) simp
    finally show "f64_huge \<le> \<bar>r\<bar>" by (simp add: f64_huge_def)
  next
    assume "f64_huge \<le> \<bar>r\<bar>"
    then have "(2 :: rat) powi 1024 \<le> \<bar>r\<bar>" by (simp add: f64_huge_def)
    also have "\<dots> < 2 powi (flog2 \<bar>r\<bar> + 1)" using that by (intro flog2_bounds) simp
    finally show "1024 \<le> flog2 \<bar>r\<bar>" by (simp only: powi2_less)
  qed
  consider "rnd q = 0" | "0 < rnd q" | "rnd q < 0" by linarith
  then show ?thesis
  proof cases
    case 2
    then have "\<not> rnd q \<le> - f64_huge" using f64_huge_pos(1) by linarith
    with 2 show ?thesis using * [of "rnd q"] by (simp add: f64_of_rat_def Let_def)
  next
    case 3
    then have "\<not> f64_huge \<le> rnd q" "f64_huge \<le> - rnd q \<longleftrightarrow> rnd q \<le> - f64_huge"
      using f64_huge_pos(1) by linarith+
    with 3 show ?thesis using * [of "rnd q"] by (simp add: f64_of_rat_def Let_def)
  qed (simp add: f64_of_rat_def)
qed

lemmas f64_op_defs [f64_defs] =
  f64_add_def f64_sub_def f64_mul_def f64_div_def f64_min_def f64_max_def f64_le_def f64_gt_def
  f64_ge_def f64_as_i64_def f64_as_u64_def int_as_f64_def f64_MAX_def

end
