(* ===== verification/Common_Types.thy ===== *)
theory Common_Types
  imports F64
begin

text \<open>
  The shared amount arithmetic of \<open>sideswap_common/src/types.rs\<close>: satoshi amounts and
  their conversion to and from floating point bitcoins, coin selection, the server fee and the
  largest amount a balance can pay for, asset scaling, and the peg-out quote.
\<close>

datatype types_error = Balance_too_low | Amount_not_positive | Min_peg_out i64 | Recv_negative

section \<open>Amounts\<close>

type_synonym amount = i64

definition COIN :: i64 where "COIN = 100000000"

definition from_bitcoin :: "f64 \<Rightarrow> amount" where
  "from_bitcoin value = f64_as_i64 (f64_round (f64_mul value (int_as_f64 COIN)))"

definition to_bitcoin :: "amount \<Rightarrow> f64" where
  "to_bitcoin a = f64_div (int_as_f64 a) (int_as_f64 COIN)"

record tx_out =
  to_txid :: string
  to_vout :: int

text \<open>The derived \<open>Ord\<close>: lexicographic in the order of the fields.\<close>

instantiation tx_out_ext :: (linorder) linorder
begin

definition less_eq_tx_out_ext :: "'a tx_out_scheme \<Rightarrow> 'a tx_out_scheme \<Rightarrow> bool" where
  "less_eq_tx_out_ext a b \<longleftrightarrow>
     (to_txid a, to_vout a, tx_out.more a) \<le> (to_txid b, to_vout b, tx_out.more b)"

definition less_tx_out_ext :: "'a tx_out_scheme \<Rightarrow> 'a tx_out_scheme \<Rightarrow> bool" where
  "less_tx_out_ext a b \<longleftrightarrow>
     (to_txid a, to_vout a, tx_out.more a) < (to_txid b, to_vout b, tx_out.more b)"

instance
  by standard (auto simp: less_eq_tx_out_ext_def less_tx_out_ext_def intro: tx_out.equality)

end

section \<open>Coin selection\<close>

definition select_key :: "i64 \<Rightarrow> i64 \<Rightarrow> i64" where
  "select_key amount_remain value = i64_neg (i64_abs (i64_sub value amount_remain))"

function select_loop :: "i64 list \<Rightarrow> i64 \<Rightarrow> i64 list \<Rightarrow> ('e, i64 list) outcome" where
  "select_loop inputs amount_remain result =
     (if amount_remain > 0 then
        let inputs = sort_key (select_key amount_remain) inputs in
        if inputs = [] then Panic
        else select_loop (butlast inputs) (i64_sub amount_remain (last inputs)) (result @ [last inputs])
      else Ok result)"
  by pat_completeness auto
termination
proof (relation "measure (\<lambda>(inputs, _, _). length inputs)", simp, goal_cases)
  case (1 inputs amount_remain result x)
  then have "sort_key (select_key amount_remain) inputs \<noteq> []" by simp
  then have "inputs \<noteq> []" by auto
  with 1 show ?case by simp
qed

declare select_loop.simps [simp del]

function select_trim :: "i64 list \<Rightarrow> i64 \<Rightarrow> ('e, i64 list) outcome" where
  "select_trim result amount =
     (if result = [] then Panic
      else if i64_sub (i64_sum result) (last result) > amount then select_trim (butlast result) amount
      else Ok result)"
  by pat_completeness auto
termination
  by (relation "measure (\<lambda>(result, _). length result)") auto

declare select_trim.simps [simp del]

definition select_utxo :: "i64 list \<Rightarrow> i64 \<Rightarrow> ('e, i64 list) outcome" where
  "select_utxo inputs amount =
     and_then (assert_that (amount > 0)) (\<lambda>_.
     and_then (select_loop inputs amount []) (\<lambda>result.
     select_trim (rev (sort result)) amount))"

fun take_selected :: "(i64 \<times> 'a) list \<Rightarrow> i64 list \<Rightarrow> 'a list \<Rightarrow> ('e, 'a list) outcome" where
  "take_selected inputs [] result = Ok result"
| "take_selected inputs (a # selected) result =
     and_then (unwrap (position (\<lambda>(amount, _). amount = a) inputs)) (\<lambda>index.
     and_then (swap_remove inputs index) (\<lambda>(input, inputs).
     take_selected inputs selected (result @ [snd input])))"

definition select_utxo_values :: "(i64 \<times> 'a) list \<Rightarrow> i64 \<Rightarrow> ('e, 'a list) outcome" where
  "select_utxo_values inputs amount =
     and_then (select_utxo (map fst inputs) amount) (\<lambda>selected. take_selected inputs selected [])"

section \<open>Fees\<close>

definition MIN_BITCOIN_AMOUNT :: amount where "MIN_BITCOIN_AMOUNT = 2000"
definition MIN_SERVER_FEE :: amount where "MIN_SERVER_FEE = 500"
definition SERVER_FEE_RATE :: f64 where "SERVER_FEE_RATE = f64_of_rat (1 / 1000)"

definition get_server_fee :: "amount \<Rightarrow> amount" where
  "get_server_fee bitcoin_amount =
     max (from_bitcoin (f64_mul (to_bitcoin bitcoin_amount) SERVER_FEE_RATE)) MIN_SERVER_FEE"

definition get_max_bitcoin_amount :: "amount \<Rightarrow> (types_error, amount) outcome" where
  "get_max_bitcoin_amount bitcoin_balance =
     and_then (assert_that (bitcoin_balance \<ge> 0)) (\<lambda>_.
     and_then (ensure (bitcoin_balance \<ge> i64_add MIN_BITCOIN_AMOUNT MIN_SERVER_FEE) Balance_too_low) (\<lambda>_.
     let network_fee_scaled = from_bitcoin (f64_mul (to_bitcoin bitcoin_balance)
           (f64_sub (Fin 1) (f64_div (Fin 1) (f64_add (Fin 1) SERVER_FEE_RATE))));
         network_fee = max network_fee_scaled MIN_SERVER_FEE;
         bitcoin_amount = i64_sub bitcoin_balance network_fee;
         actual_server_fee = get_server_fee bitcoin_amount
     in if bitcoin_balance < i64_add bitcoin_amount actual_server_fee
        then Ok (i64_sub bitcoin_amount 1)
        else Ok bitcoin_amount))"

section \<open>Asset amounts\<close>

datatype market_type = Stablecoin | Amp | Token

definition priced_in_bitcoins :: "market_type \<Rightarrow> bool" where
  "priced_in_bitcoins market \<longleftrightarrow> market \<noteq> Stablecoin"

definition asset_scale :: "nat \<Rightarrow> ('e, f64) outcome" where
  "asset_scale asset_precision =
     (if (10 :: int) ^ asset_precision \<le> i64_max then Ok (int_as_f64 (10 ^ asset_precision)) else Panic)"

definition asset_float_amount :: "i64 \<Rightarrow> nat \<Rightarrow> ('e, f64) outcome" where
  "asset_float_amount asset_amount asset_precision =
     and_then (asset_scale asset_precision) (\<lambda>scale. Ok (f64_div (int_as_f64 asset_amount) scale))"

definition asset_int_amount :: "f64 \<Rightarrow> nat \<Rightarrow> ('e, i64) outcome" where
  "asset_int_amount asset_amount asset_precision =
     and_then (asset_scale asset_precision) (\<lambda>scale. Ok (f64_as_i64 (f64_round (f64_mul asset_amount scale))))"

definition types_asset_amount :: "i64 \<Rightarrow> f64 \<Rightarrow> nat \<Rightarrow> market_type \<Rightarrow> ('e, i64) outcome" where
  "types_asset_amount bitcoin_amount price asset_precision market =
     and_then (asset_scale asset_precision) (\<lambda>scale.
     let bitcoin_amount = to_bitcoin bitcoin_amount;
         asset_amount = (if priced_in_bitcoins market then f64_div bitcoin_amount price
                         else f64_mul bitcoin_amount price)
     in Ok (f64_as_i64 (f64_round (f64_mul asset_amount scale))))"

definition types_bitcoin_amount :: "i64 \<Rightarrow> f64 \<Rightarrow> nat \<Rightarrow> market_type \<Rightarrow> ('e, i64) outcome" where
  "types_bitcoin_amount asset_amount price asset_precision market =
     and_then (asset_float_amount asset_amount asset_precision) (\<lambda>asset_amount.
     let bitcoin_amount = (if priced_in_bitcoins market then f64_mul asset_amount price
                           else f64_div asset_amount price)
     in Ok (from_bitcoin bitcoin_amount))"

section \<open>Peg-out quotes\<close>

record peg_out_amount_req =
  por_amount :: i64
  por_is_send_entered :: bool
  por_fee_rate :: f64
  por_min_peg_out_amount :: i64
  por_server_fee_percent_peg_out :: f64
  por_peg_out_bitcoin_tx_vsize :: int

record peg_out_amount_resp =
  pos_send_amount :: i64
  pos_recv_amount :: i64

definition peg_out_amount :: "peg_out_amount_req \<Rightarrow> (types_error, peg_out_amount_resp) outcome" where
  "peg_out_amount req =
     and_then (ensure (por_amount req > 0) Amount_not_positive) (\<lambda>_.
     let peg_out_rate = f64_sub (Fin 1) (f64_div (por_server_fee_percent_peg_out req) (Fin 100));
         fixed_fee = f64_as_i64 (f64_round (f64_mul (int_as_f64 (por_peg_out_bitcoin_tx_vsize req)) (por_fee_rate req)));
         (send_amount, recv_amount) =
           (if por_is_send_entered req
            then (por_amount req,
                  i64_sub (f64_as_i64 (f64_round (f64_mul (int_as_f64 (por_amount req)) peg_out_rate))) fixed_fee)
            else (f64_as_i64 (f64_round (f64_div (int_as_f64 (i64_add (por_amount req) fixed_fee)) peg_out_rate)),
                  por_amount req))
     in and_then (ensure (send_amount \<ge> por_min_peg_out_amount req)
                    (Min_peg_out (por_min_peg_out_amount req))) (\<lambda>_.
        and_then (ensure (recv_amount > 0) Recv_negative) (\<lambda>_.
        Ok \<lparr>pos_send_amount = send_amount, pos_recv_amount = recv_amount\<rparr>)))"


section \<open>Correctness of coin selection\<close>

lemma select_key_exact:
  assumes "0 < r" "r \<le> i64_max" "0 \<le> v" "v \<le> i64_max"
  shows "select_key r v = - \<bar>v - r\<bar>"
proof -
  have "i64_sub v r = v - r" using assms by (intro i64_sub_exact) (simp add: i64_bounds)
  moreover have "i64_abs (v - r) = \<bar>v - r\<bar>"
    using assms by (intro i64_abs_exact) (auto simp: i64_bounds)
  moreover have "i64_neg \<bar>v - r\<bar> = - \<bar>v - r\<bar>"
    using assms by (intro i64_neg_exact) (auto simp: i64_bounds)
  ultimately show ?thesis by (simp add: select_key_def)
qed

text \<open>What the first loop computes: each pick is a remaining input nearest to what is still to be
  paid, and the loop stops once nothing is.\<close>

fun greedy :: "i64 multiset \<Rightarrow> i64 \<Rightarrow> i64 list \<Rightarrow> bool" where
  "greedy I r [] = (r \<le> 0)"
| "greedy I r (p # ps) =
     (0 < r \<and> p \<in># I \<and> (\<forall>v\<in>#I. \<bar>p - r\<bar> \<le> \<bar>v - r\<bar>) \<and> greedy (I - {#p#}) (r - p) ps)"

lemma greedy_subset: "greedy I r ps \<Longrightarrow> mset ps \<subseteq># I"
proof (induction ps arbitrary: I r)
  case (Cons p ps)
  then have "mset ps \<subseteq># I - {#p#}" "p \<in># I" by auto
  then show ?case by (simp add: insert_subset_eq_iff)
qed simp

lemma greedy_sum: "greedy I r ps \<Longrightarrow> r \<le> sum_list ps"
  by (induction ps arbitrary: I r) force+

lemma sorted_le_last: "sorted xs \<Longrightarrow> x \<in> set xs \<Longrightarrow> x \<le> last xs"
  by (induction xs rule: rev_induct) (auto simp: sorted_append)

lemma sorted_wrt_ge_last: "sorted_wrt (\<ge>) xs \<Longrightarrow> x \<in> set xs \<Longrightarrow> last xs \<le> (x :: 'a :: linorder)"
  by (induction xs rule: rev_induct) (auto simp: sorted_wrt_append)

lemma last_sort_key_max:
  assumes "v \<in> set xs"
  shows "f v \<le> f (last (sort_key f xs))"
proof -
  have ne: "sort_key f xs \<noteq> []" using assms by (metis empty_iff empty_set set_sort)
  have "f v \<le> last (map f (sort_key f xs))"
    using assms by (intro sorted_le_last) auto
  with ne show ?thesis by (simp add: last_map)
qed

lemma select_pick:
  assumes "\<forall>v\<in>set inputs. 0 < v \<and> v \<le> i64_max" "0 < r" "r \<le> i64_max" "inputs \<noteq> []"
  obtains p rest where
    "select_loop inputs r acc = (select_loop rest (r - p) (acc @ [p]) :: ('e, i64 list) outcome)"
    "mset inputs = add_mset p (mset rest)" "\<forall>v\<in>set inputs. \<bar>p - r\<bar> \<le> \<bar>v - r\<bar>"
proof -
  define s where "s = sort_key (select_key r) inputs"
  have ms: "mset s = mset inputs" and se: "set s = set inputs" by (simp_all add: s_def)
  have sne: "s \<noteq> []" using assms(4) se by auto
  then have p: "last s \<in> set inputs" using se last_in_set by blast
  have near: "\<forall>v\<in>set inputs. \<bar>last s - r\<bar> \<le> \<bar>v - r\<bar>"
  proof
    fix v
    assume v: "v \<in> set inputs"
    then have "select_key r v \<le> select_key r (last s)" unfolding s_def by (rule last_sort_key_max)
    with assms p v show "\<bar>last s - r\<bar> \<le> \<bar>v - r\<bar>" by (simp add: select_key_exact less_imp_le)
  qed
  have sub: "i64_sub r (last s) = r - last s"
    using assms p by (intro i64_sub_exact) (auto simp: i64_bounds)
  have "select_loop inputs r acc = (select_loop (butlast s) (r - last s) (acc @ [last s]) :: ('e, i64 list) outcome)"
    using assms(2) sne sub by (subst select_loop.simps) (simp add: s_def [symmetric] Let_def)
  moreover have "mset inputs = add_mset (last s) (mset (butlast s))"
    using sne ms mset_butlast [OF sne] by (simp add: insert_DiffM p)
  ultimately show thesis using near that by blast
qed

lemma mset_add_facts:
  assumes "mset inputs = add_mset p (mset rest)"
  shows "length rest < length inputs" "set rest \<subseteq> set inputs" "p \<in> set inputs"
    "sum_list inputs = p + sum_list (rest :: int list)"
proof -
  have "size (mset inputs) = Suc (size (mset rest))" using assms by simp
  then show "length rest < length inputs" by simp
  have "set_mset (mset inputs) = insert p (set_mset (mset rest))" using assms by simp
  then have "set inputs = insert p (set rest)" by simp
  then show "set rest \<subseteq> set inputs" "p \<in> set inputs" by auto
  have "sum_mset (mset inputs) = p + sum_mset (mset rest)" using assms by simp
  then show "sum_list inputs = p + sum_list rest" by (simp add: sum_mset_sum_list)
qed

lemma select_loop_greedy:
  assumes "\<forall>v\<in>set inputs. 0 < v \<and> v \<le> i64_max" "r \<le> i64_max" "r \<le> sum_list inputs"
  shows "\<exists>ps. select_loop inputs r acc = (Ok (acc @ ps) :: ('e, i64 list) outcome) \<and> greedy (mset inputs) r ps"
  using assms
proof (induction "length inputs" arbitrary: inputs r acc rule: less_induct)
  case less
  show ?case
  proof (cases "0 < r")
    case False
    then show ?thesis by (intro exI [of _ "[]"]) (simp add: select_loop.simps)
  next
    case True
    with less.prems(3) have ne: "inputs \<noteq> []" by auto
    obtain p rest where step: "select_loop inputs r acc = (select_loop rest (r - p) (acc @ [p]) :: ('e, i64 list) outcome)"
      and m: "mset inputs = add_mset p (mset rest)" and near: "\<forall>v\<in>set inputs. \<bar>p - r\<bar> \<le> \<bar>v - r\<bar>"
      using select_pick [OF less.prems(1) True less.prems(2) ne, of acc] by blast
    note f = mset_add_facts [OF m]
    have "\<exists>ps. select_loop rest (r - p) (acc @ [p]) = (Ok ((acc @ [p]) @ ps) :: ('e, i64 list) outcome) \<and>
        greedy (mset rest) (r - p) ps"
      using less.prems f by (intro less.hyps) force+
    then obtain ps where "select_loop rest (r - p) (acc @ [p]) = (Ok (acc @ p # ps) :: ('e, i64 list) outcome)"
      "greedy (mset rest) (r - p) ps" by auto
    with step m near True f(2,3) show ?thesis by (intro exI [of _ "p # ps"]) auto
  qed
qed

lemma select_loop_panic:
  assumes "\<forall>v\<in>set inputs. 0 < v \<and> v \<le> i64_max" "r \<le> i64_max" "sum_list inputs < r"
  shows "select_loop inputs r acc = (Panic :: ('e, i64 list) outcome)"
  using assms
proof (induction "length inputs" arbitrary: inputs r acc rule: less_induct)
  case less
  have "0 \<le> sum_list inputs" using less.prems(1) by (intro sum_list_nonneg) auto
  with less.prems(3) have r: "0 < r" by simp
  show ?case
  proof (cases "inputs = []")
    case True
    with r show ?thesis by (simp add: select_loop.simps)
  next
    case False
    obtain p rest where step: "select_loop inputs r acc = (select_loop rest (r - p) (acc @ [p]) :: ('e, i64 list) outcome)"
      and m: "mset inputs = add_mset p (mset rest)"
      using select_pick [OF less.prems(1) r less.prems(2) False, of acc] by blast
    note f = mset_add_facts [OF m]
    have "select_loop rest (r - p) (acc @ [p]) = (Panic :: ('e, i64 list) outcome)"
      using less.prems f by (intro less.hyps) force+
    with step show ?thesis by simp
  qed
qed

lemma sum_mset_nonneg_int: "(\<forall>v\<in>#M. 0 \<le> v) \<Longrightarrow> 0 \<le> sum_mset (M :: int multiset)"
  by (induction M) auto

lemma greedy_no_redundant:
  assumes "greedy I r ps" "\<forall>v\<in>#I. 0 < v" "T \<subseteq># mset ps" "sum_mset T = r"
    and "\<forall>d\<in>#mset ps - T. \<forall>c\<in>#T. d \<le> c"
  shows "T = mset ps"
  using assms
proof (induction ps arbitrary: I r T)
  case Nil
  then show ?case by simp
next
  case (Cons p ps)
  have r: "0 < r" and pI: "p \<in># I" and near: "\<forall>v\<in>#I. \<bar>p - r\<bar> \<le> \<bar>v - r\<bar>"
    and gr: "greedy (I - {#p#}) (r - p) ps"
    using Cons.prems(1) by auto
  have pT: "p \<in># T"
  proof (rule ccontr)
    assume np: "p \<notin># T"
    have "T \<noteq> {#}" using Cons.prems(4) r by auto
    then obtain c where c: "c \<in># T" by blast
    then have "c \<in># mset (p # ps)" using Cons.prems(3) by (rule mset_subset_eqD [rotated])
    then have cI: "c \<in># I" using greedy_subset [OF Cons.prems(1)] by (rule mset_subset_eqD [rotated])
    have pos: "\<forall>v\<in>#T. 0 < v"
      using Cons.prems(2,3) greedy_subset [OF Cons.prems(1)] by (meson mset_subset_eqD)
    have "p \<in># mset (p # ps) - T" using np by (simp add: in_diff_count not_in_iff)
    then have "p \<le> c" using Cons.prems(5) c by blast
    moreover have "c \<le> r"
    proof -
      obtain V where V: "T = add_mset c V" using c by (metis insert_DiffM)
      have "0 \<le> sum_mset V" using pos by (intro sum_mset_nonneg_int) (auto simp: V less_imp_le)
      then show ?thesis using Cons.prems(4) by (simp add: V)
    qed
    moreover have "\<bar>p - r\<bar> \<le> \<bar>c - r\<bar>" using near cI by blast
    ultimately have "c = p" by linarith
    with np c show False by simp
  qed
  then obtain U where T: "T = add_mset p U" by (metis insert_DiffM)
  have "U = mset ps"
  proof (rule Cons.IH [OF gr])
    show "\<forall>v\<in>#I - {#p#}. 0 < v" using Cons.prems(2) by (meson in_diffD)
    show "U \<subseteq># mset ps" "sum_mset U = r - p" "\<forall>d\<in>#mset ps - U. \<forall>c\<in>#U. d \<le> c"
      using Cons.prems(3-5) by (simp_all add: T)
  qed
  then show ?case by (simp add: T)
qed

lemma select_trim_Ok:
  assumes "\<forall>v\<in>set xs. 0 < v" "sum_list xs \<le> i64_max" "0 < amount" "amount \<le> sum_list xs"
  shows "\<exists>n. select_trim xs amount = (Ok (take n xs) :: ('e, i64 list) outcome) \<and> 0 < n \<and> n \<le> length xs \<and>
    amount \<le> sum_list (take n xs) \<and> sum_list (butlast (take n xs)) \<le> amount"
  using assms
proof (induction xs rule: rev_induct)
  case Nil
  then show ?case by simp
next
  case (snoc x xs)
  have pos: "\<forall>v\<in>set xs. 0 < v" "0 < x" using snoc.prems(1) by auto
  have sum: "i64_sum (xs @ [x]) = sum_list xs + x"
    using snoc.prems by (subst i64_sum_exact) (auto simp: less_imp_le)
  have nn: "0 \<le> sum_list xs" using pos by (intro sum_list_nonneg) auto
  have sub: "i64_sub (sum_list xs + x) x = sum_list xs"
    using snoc.prems nn pos by (subst i64_sub_exact) (auto simp: i64_bounds)
  show ?case
  proof (cases "amount < sum_list xs")
    case True
    obtain n where "select_trim xs amount = (Ok (take n xs) :: ('e, i64 list) outcome)" "0 < n" "n \<le> length xs"
      "amount \<le> sum_list (take n xs)" "sum_list (butlast (take n xs)) \<le> amount"
      using snoc.IH [OF pos(1)] snoc.prems True pos(2) by auto
    with True sum sub show ?thesis
      by (intro exI [of _ n]) (simp add: select_trim.simps [of "xs @ [x]"])
  next
    case False
    with sum sub snoc.prems show ?thesis
      by (intro exI [of _ "Suc (length xs)"]) (simp add: select_trim.simps [of "xs @ [x]"])
  qed
qed

lemma sum_without_le:
  fixes r :: "int list"
  assumes "sorted_wrt (\<ge>) r" "x \<in> set r"
  shows "sum_list r - x \<le> sum_list (butlast r)"
proof -
  have "r \<noteq> []" using assms(2) by auto
  then have "sum_list r = sum_list (butlast r) + last r"
    by (metis append_butlast_last_id sum_list_append sum_list.Cons sum_list.Nil add_0_right)
  with sorted_wrt_ge_last [OF assms] show ?thesis by simp
qed

lemma sub_mset_sum_le:
  fixes xs ys :: "int list"
  assumes "mset xs \<subseteq># mset ys" "\<forall>v\<in>set ys. 0 < v"
  shows "sum_list xs \<le> sum_list ys"
proof -
  obtain M where M: "mset ys = mset xs + M" using assms(1) by (metis subset_mset.le_iff_add)
  have "\<forall>v\<in>#mset ys. 0 < v" using assms(2) by simp
  then have "0 \<le> sum_mset M" by (intro sum_mset_nonneg_int) (auto simp: M less_imp_le)
  moreover have "sum_mset (mset ys) = sum_mset (mset xs) + sum_mset M" by (simp add: M)
  ultimately show ?thesis by (simp add: sum_mset_sum_list)
qed

lemma greedy_trim_strict:
  assumes g: "greedy (mset inputs) amount ps" and pos: "\<forall>v\<in>set inputs. 0 < v"
    and mx: "mset xs = mset ps" and sorted: "sorted_wrt (\<ge>) xs" and n: "n < length xs"
  shows "sum_list (take n xs) \<noteq> amount"
proof
  assume eq: "sum_list (take n xs) = amount"
  have split: "mset ps = mset (take n xs) + mset (drop n xs)"
    using mx by (metis append_take_drop_id mset_append)
  have "mset (take n xs) = mset ps"
  proof (rule greedy_no_redundant [OF g])
    show "\<forall>v\<in>#mset inputs. 0 < v" using pos by simp
    show "mset (take n xs) \<subseteq># mset ps" by (simp add: split)
    show "sum_mset (mset (take n xs)) = amount" using eq by (simp add: sum_mset_sum_list)
    have "\<forall>c\<in>set (take n xs). \<forall>d\<in>set (drop n xs). d \<le> c"
      using sorted by (metis append_take_drop_id sorted_wrt_append)
    then show "\<forall>d\<in>#mset ps - mset (take n xs). \<forall>c\<in>#mset (take n xs). d \<le> c" by (simp add: split)
  qed
  then have "drop n xs = []" using split by simp
  with n show False by simp
qed

lemma select_utxo_Ok:
  assumes pos: "\<forall>v\<in>set inputs. 0 < v" and max: "sum_list inputs \<le> i64_max"
    and am: "0 < amount" "amount \<le> sum_list inputs"
  shows "\<exists>r. select_utxo inputs amount = (Ok r :: ('e, i64 list) outcome) \<and> mset r \<subseteq># mset inputs \<and>
    sorted_wrt (\<ge>) r \<and> amount \<le> sum_list r \<and> (\<forall>x\<in>set r. sum_list r - x < amount)"
proof -
  have "\<forall>v\<in>set inputs. v \<le> sum_list inputs"
    using pos by (intro ballI member_le_sum_list) (auto simp: less_imp_le)
  then have bnd: "\<forall>v\<in>set inputs. 0 < v \<and> v \<le> i64_max" using pos max by force
  obtain ps where ps: "select_loop inputs amount [] = (Ok ps :: ('e, i64 list) outcome)"
    and g: "greedy (mset inputs) amount ps"
    using select_loop_greedy [OF bnd _ am(2), of "[]"] am max by auto
  define xs where "xs = rev (sort ps)"
  have mx: "mset xs = mset ps" and sorted: "sorted_wrt (\<ge>) xs"
    by (simp_all add: xs_def sorted_wrt_rev)
  have sub: "mset xs \<subseteq># mset inputs" unfolding mx by (rule greedy_subset [OF g])
  have px: "\<forall>v\<in>set xs. 0 < v" using pos set_mset_mono [OF sub] by auto
  have "sum_list xs \<le> i64_max" using sub_mset_sum_le [OF sub pos] max by simp
  moreover have "amount \<le> sum_list xs" using greedy_sum [OF g] mx by (metis sum_mset_sum_list)
  ultimately obtain n where n: "select_trim xs amount = (Ok (take n xs) :: ('e, i64 list) outcome)"
    "0 < n" "n \<le> length xs" "amount \<le> sum_list (take n xs)" "sum_list (butlast (take n xs)) \<le> amount"
    using select_trim_Ok [OF px] am(1) by blast
  have st: "sorted_wrt (\<ge>) (take n xs)" using sorted by (rule sorted_wrt_take)
  have "sum_list (butlast (take n xs)) \<noteq> amount"
    using greedy_trim_strict [OF g pos mx sorted, of "n - 1"] n(2,3) by (simp add: butlast_take)
  with n(5) have "\<forall>x\<in>set (take n xs). sum_list (take n xs) - x < amount"
    using sum_without_le [OF st] by force
  moreover have "mset (take n xs) \<subseteq># mset inputs"
    using sub by (metis append_take_drop_id mset_append mset_subset_eq_add_left subset_mset.order_trans)
  ultimately show ?thesis
    using n st ps am(1) by (intro exI [of _ "take n xs"]) (simp add: select_utxo_def xs_def [symmetric])
qed

lemma select_utxo_Panic:
  assumes pos: "\<forall>v\<in>set inputs. 0 < v" and "sum_list inputs \<le> i64_max" "amount \<le> i64_max"
    and "amount \<le> 0 \<or> sum_list inputs < amount"
  shows "select_utxo inputs amount = (Panic :: ('e, i64 list) outcome)"
proof -
  have "\<forall>v\<in>set inputs. v \<le> sum_list inputs"
    using pos by (intro ballI member_le_sum_list) (auto simp: less_imp_le)
  then have "\<forall>v\<in>set inputs. 0 < v \<and> v \<le> i64_max" using pos assms(2) by force
  then show ?thesis using assms(3,4) by (auto simp: select_utxo_def select_loop_panic assert_that_def)
qed

lemma take_selected_Ok:
  assumes "mset selected \<subseteq># mset (map fst inputs)"
  shows "\<exists>sel. take_selected inputs selected acc = (Ok (acc @ map snd sel) :: ('e, 'a list) outcome) \<and>
    map fst sel = selected \<and> mset sel \<subseteq># mset inputs"
  using assms
proof (induction selected arbitrary: inputs acc)
  case Nil
  then show ?case by simp
next
  case (Cons a selected)
  have "a \<in># mset (map fst inputs)" using Cons.prems by (metis mset.simps(2) mset_subset_eq_insertD)
  then obtain x where x: "x \<in> set inputs" "fst x = a" by auto
  then obtain i where i: "position (\<lambda>(amount, _). amount = a) inputs = Some i"
    using position_ex [of x inputs "\<lambda>(amount, _). amount = a"] by (auto simp: case_prod_unfold)
  then have il: "i < length inputs" "fst (inputs ! i) = a"
    using position_SomeD [OF i] by (auto simp: case_prod_unfold)
  define rest where "rest = butlast (inputs[i := last inputs])"
  have sr: "swap_remove inputs i = (Ok (inputs ! i, rest) :: ('e, (i64 \<times> 'a) \<times> (i64 \<times> 'a) list) outcome)" using il by (simp add: swap_remove_def rest_def)
  have m: "mset inputs = add_mset (inputs ! i) (mset rest)" by (rule swap_remove_Ok(3) [OF sr])
  have "mset selected \<subseteq># mset (map fst rest)" using Cons.prems by (simp add: m il(2))
  then obtain sel where "take_selected rest selected (acc @ [snd (inputs ! i)]) =
      (Ok ((acc @ [snd (inputs ! i)]) @ map snd sel) :: ('e, 'a list) outcome)"
    "map fst sel = selected" "mset sel \<subseteq># mset rest" using Cons.IH by blast
  then show ?case using i il m by (intro exI [of _ "inputs ! i # sel"]) (simp add: sr)
qed

lemma select_utxo_values_Ok:
  assumes "\<forall>v\<in>set (map fst inputs). 0 < v" "sum_list (map fst inputs) \<le> i64_max"
    and "0 < amount" "amount \<le> sum_list (map fst inputs)"
  shows "\<exists>sel. select_utxo_values inputs amount = (Ok (map snd sel) :: ('e, 'a list) outcome) \<and>
    mset sel \<subseteq># mset inputs \<and> amount \<le> sum_list (map fst sel) \<and>
    (\<forall>x\<in>set sel. sum_list (map fst sel) - fst x < amount)"
proof -
  obtain r where r: "select_utxo (map fst inputs) amount = (Ok r :: ('e, i64 list) outcome)"
    "mset r \<subseteq># mset (map fst inputs)" "amount \<le> sum_list r" "\<forall>x\<in>set r. sum_list r - x < amount"
    using select_utxo_Ok [OF assms] by blast
  obtain sel where "take_selected inputs r [] = (Ok (map snd sel) :: ('e, 'a list) outcome)"
    "map fst sel = r" "mset sel \<subseteq># mset inputs" using take_selected_Ok [OF r(2), of "[]"] by auto
  moreover have "\<forall>x\<in>set sel. sum_list (map fst sel) - fst x < amount"
    using r(4) unfolding \<open>map fst sel = r\<close> [symmetric] by simp
  ultimately show ?thesis using r by (intro exI [of _ sel]) (simp add: select_utxo_values_def)
qed

section \<open>Properties\<close>

text \<open>
  (C9) Coin selection: from positive coins whose total fits in an \<open>i64\<close>, any positive amount the
  coins can pay is covered by a sub-multiset of them, largest first, in which no coin is
  superfluous (without any one of them the amount is not covered); an amount that is not
  positive or exceeds the total panics.
\<close>
theorem select_utxo_correct:
  assumes "\<forall>v\<in>set inputs. 0 < v" "sum_list inputs \<le> i64_max" "amount \<le> i64_max"
  shows "if 0 < amount \<and> amount \<le> sum_list inputs
    then \<exists>r. select_utxo inputs amount = (Ok r :: (types_error, i64 list) outcome) \<and> mset r \<subseteq># mset inputs \<and>
      sorted_wrt (\<ge>) r \<and> amount \<le> sum_list r \<and> (\<forall>x\<in>set r. sum_list r - x < amount)
    else select_utxo inputs amount = (Panic :: (types_error, i64 list) outcome)"
  using select_utxo_Ok [OF assms(1,2)] select_utxo_Panic [OF assms] by auto

theorem select_utxo_correct_witness:
  "\<exists>r. select_utxo [1000, 100, 10, 1] 102 = (Ok r :: (types_error, i64 list) outcome) \<and>
     mset r \<subseteq># mset [1000, 100, 10, 1] \<and> sorted_wrt (\<ge>) r \<and> 102 \<le> sum_list r \<and>
     (\<forall>x\<in>set r. sum_list r - x < 102)"
  using select_utxo_correct [of "[1000, 100, 10, 1]" 102] by (simp add: i64_max_def)

text \<open>
  \<open>select_utxo_values\<close> returns the values attached to distinct coins of the input whose amounts
  cover the target with no superfluous coin: no coin is returned twice and none is invented.
\<close>
theorem select_utxo_values_correct:
  assumes "\<forall>v\<in>set (map fst inputs). 0 < v" "sum_list (map fst inputs) \<le> i64_max"
    and "0 < amount" "amount \<le> sum_list (map fst inputs)"
  shows "\<exists>sel. select_utxo_values inputs amount = (Ok (map snd sel) :: (types_error, 'a list) outcome) \<and>
    mset sel \<subseteq># mset inputs \<and> amount \<le> sum_list (map fst sel) \<and>
    (\<forall>x\<in>set sel. sum_list (map fst sel) - fst x < amount)"
  using assms by (rule select_utxo_values_Ok)

theorem select_utxo_values_correct_witness:
  "\<exists>sel. select_utxo_values [(5000 :: i64, ''a''), (10, ''b''), (5, ''c'')] 15 = (Ok (map snd sel) :: (types_error, string list) outcome) \<and>
    mset sel \<subseteq># mset [(5000 :: i64, ''a''), (10, ''b''), (5, ''c'')] \<and> 15 \<le> sum_list (map fst sel) \<and>
    (\<forall>x\<in>set sel. sum_list (map fst sel) - fst x < 15)"
  by (rule select_utxo_values_correct) (simp_all add: i64_max_def)

end
