(* ===== verification/Common_Env.thy ===== *)
theory Common_Env
  imports Rust_Prelude
begin

text \<open>
  The deployment environments of \<open>sideswap_common/src/env.rs\<close>: the seven environments, their
  constants, and the asset ids and address parameters each network uses.  The address parameters
  the \<open>elements\<close> crate defines (\<open>LIQUID\<close>, \<open>ELEMENTS\<close>, \<open>LIQUID_TESTNET\<close>) are arguments of the
  functions that return them.
\<close>

datatype env = Env_Prod | Env_Staging | Env_Testnet | Env_Regtest | Env_Local | Env_LocalLiquid
  | Env_LocalTestnet

datatype network = Net_Mainnet | Net_Testnet | Net_Regtest | Net_Local

datatype bitcoin_network = Btc_Bitcoin | Btc_Testnet | Btc_Regtest

record address_params =
  ap_p2pkh_prefix :: int
  ap_p2sh_prefix :: int
  ap_blinded_prefix :: int
  ap_bech_hrp :: string
  ap_blech_hrp :: string

record env_data =
  ed_host :: string
  ed_port :: int
  ed_use_tls :: bool
  ed_name :: string
  ed_mainnet :: bool
  ed_development :: bool
  ed_policy_asset :: string
  ed_electum_network :: string
  ed_electrum_url :: string
  ed_electrum_tls :: bool
  ed_asset_registry_url :: string
  ed_tx_explorer_url :: string
  ed_address_explorer_url :: string
  ed_network :: network

definition LIQUID_TESTNET :: address_params where
  "LIQUID_TESTNET = \<lparr> ap_p2pkh_prefix = 36, ap_p2sh_prefix = 19, ap_blinded_prefix = 23,
     ap_bech_hrp = ''tex'', ap_blech_hrp = ''tlq'' \<rparr>"

definition LIQUID_TESTNET_PSET :: address_params where
  "LIQUID_TESTNET_PSET = \<lparr> ap_p2pkh_prefix = 36, ap_p2sh_prefix = 19, ap_blinded_prefix = 23,
     ap_bech_hrp = ''tex'', ap_blech_hrp = ''tlq'' \<rparr>"

definition ENV_PROD :: env_data where
  "ENV_PROD = \<lparr> ed_host = ''api.sideswap.io'', ed_port = 443, ed_use_tls = True,
     ed_name = ''prod'', ed_mainnet = True, ed_development = False,
     ed_policy_asset = ''6f0279e9ed041c3d710a9f57d0c02928416460c4b722ae3457a11eec381c526d'',
     ed_electum_network = ''liquid-electrum-mainnet'',
     ed_electrum_url = ''blockstream.info:995'', ed_electrum_tls = True,
     ed_asset_registry_url = ''https://assets.blockstream.info'',
     ed_tx_explorer_url = ''https://blockstream.info/liquid/tx/'',
     ed_address_explorer_url = ''https://blockstream.info/address/'',
     ed_network = Net_Mainnet \<rparr>"

definition ENV_STAGING :: env_data where
  "ENV_STAGING = \<lparr> ed_host = ''api-test.sideswap.io'', ed_port = 443, ed_use_tls = True,
     ed_name = ''staging'', ed_mainnet = True, ed_development = True,
     ed_policy_asset = ''6f0279e9ed041c3d710a9f57d0c02928416460c4b722ae3457a11eec381c526d'',
     ed_electum_network = ''liquid-electrum-mainnet'',
     ed_electrum_url = ''blockstream.info:995'', ed_electrum_tls = True,
     ed_asset_registry_url = ''https://assets.blockstream.info'',
     ed_tx_explorer_url = ''https://blockstream.info/liquid/tx/'',
     ed_address_explorer_url = ''https://blockstream.info/address/'',
     ed_network = Net_Mainnet \<rparr>"

definition ENV_TESTNET :: env_data where
  "ENV_TESTNET = \<lparr> ed_host = ''api-testnet.sideswap.io'', ed_port = 443, ed_use_tls = True,
     ed_name = ''testnet'', ed_mainnet = False, ed_development = False,
     ed_policy_asset = ''144c654344aa716d6f3abcc1ca90e5641e4e2a7f633bc09fe3baf64585819a49'',
     ed_electum_network = ''electrum-testnet-liquid'',
     ed_electrum_url = ''blockstream.info:465'', ed_electrum_tls = True,
     ed_asset_registry_url = ''https://assets-testnet.blockstream.info'',
     ed_tx_explorer_url = ''https://blockstream.info/liquidtestnet/liquidtestnet/tx/'',
     ed_address_explorer_url = ''https://blockstream.info/liquidtestnet/address/'',
     ed_network = Net_Testnet \<rparr>"

definition ENV_REGTEST :: env_data where
  "ENV_REGTEST = \<lparr> ed_host = ''api-regtest.sideswap.io'', ed_port = 443, ed_use_tls = True,
     ed_name = ''regtest'', ed_mainnet = False, ed_development = True,
     ed_policy_asset = ''2e16b12daf1244332a438e829ca7ce209195f8e1c54199770cd8b327710a8ab2'',
     ed_electum_network = ''electrum-regtest-liquid'',
     ed_electrum_url = ''api.sideswap.io:10402'', ed_electrum_tls = False,
     ed_asset_registry_url = ''https://staging.sideswap.io/assets'',
     ed_tx_explorer_url = '''',
     ed_address_explorer_url = '''',
     ed_network = Net_Regtest \<rparr>"

definition ENV_LOCAL :: env_data where
  "ENV_LOCAL = \<lparr> ed_host = ''192.168.71.50'', ed_port = 4001, ed_use_tls = False,
     ed_name = ''local'', ed_mainnet = False, ed_development = True,
     ed_policy_asset = ''2684bbac0fa7ad544ec8eee43c35156346e5d641d24a4b9d5d8f183e3f2d8fb9'',
     ed_electum_network = ''electrum-local-liquid'',
     ed_electrum_url = ''192.168.71.50:51401'', ed_electrum_tls = False,
     ed_asset_registry_url = ''http://192.168.71.50/assets'',
     ed_tx_explorer_url = '''',
     ed_address_explorer_url = '''',
     ed_network = Net_Local \<rparr>"

definition ENV_LOCAL_LIQUID :: env_data where
  "ENV_LOCAL_LIQUID = \<lparr> ed_host = ''192.168.71.50'', ed_port = 5001, ed_use_tls = False,
     ed_name = ''local_liquid'', ed_mainnet = True, ed_development = False,
     ed_policy_asset = ''6f0279e9ed041c3d710a9f57d0c02928416460c4b722ae3457a11eec381c526d'',
     ed_electum_network = ''liquid-electrum-mainnet'',
     ed_electrum_url = ''blockstream.info:995'', ed_electrum_tls = True,
     ed_asset_registry_url = ''https://assets.blockstream.info'',
     ed_tx_explorer_url = ''https://blockstream.info/liquid/tx/'',
     ed_address_explorer_url = ''https://blockstream.info/address/'',
     ed_network = Net_Mainnet \<rparr>"

definition ENV_LOCAL_TESTNET :: env_data where
  "ENV_LOCAL_TESTNET = \<lparr> ed_host = ''192.168.71.50'', ed_port = 6001, ed_use_tls = False,
     ed_name = ''local_testnet'', ed_mainnet = False, ed_development = False,
     ed_policy_asset = ''144c654344aa716d6f3abcc1ca90e5641e4e2a7f633bc09fe3baf64585819a49'',
     ed_electum_network = ''electrum-testnet-liquid'',
     ed_electrum_url = ''blockstream.info:465'', ed_electrum_tls = True,
     ed_asset_registry_url = ''https://assets-testnet.blockstream.info'',
     ed_tx_explorer_url = ''https://blockstream.info/liquidtestnet/liquidtestnet/tx/'',
     ed_address_explorer_url = ''https://blockstream.info/liquidtestnet/address/'',
     ed_network = Net_Testnet \<rparr>"

fun env_data_of :: "env \<Rightarrow> env_data" where
  "env_data_of Env_Prod = ENV_PROD"
| "env_data_of Env_Staging = ENV_STAGING"
| "env_data_of Env_Testnet = ENV_TESTNET"
| "env_data_of Env_Regtest = ENV_REGTEST"
| "env_data_of Env_Local = ENV_LOCAL"
| "env_data_of Env_LocalLiquid = ENV_LOCAL_LIQUID"
| "env_data_of Env_LocalTestnet = ENV_LOCAL_TESTNET"

fun env_elements_params :: "address_params \<Rightarrow> address_params \<Rightarrow> env \<Rightarrow> address_params" where
  "env_elements_params liquid elements Env_Prod = liquid"
| "env_elements_params liquid elements Env_Staging = liquid"
| "env_elements_params liquid elements Env_LocalLiquid = liquid"
| "env_elements_params liquid elements Env_Testnet = LIQUID_TESTNET"
| "env_elements_params liquid elements Env_LocalTestnet = LIQUID_TESTNET"
| "env_elements_params liquid elements Env_Regtest = elements"
| "env_elements_params liquid elements Env_Local = elements"

definition decimal_digit :: "int \<Rightarrow> char" where
  "decimal_digit d = char_of (48 + nat d)"

function show_nat_digits :: "int \<Rightarrow> string" where
  "show_nat_digits n = (if n < 10 then [decimal_digit n] else show_nat_digits (n div 10) @ [decimal_digit (n mod 10)])"
  by pat_completeness auto
termination by (relation "measure nat") auto

declare show_nat_digits.simps [simp del]

definition show_int :: "int \<Rightarrow> string" where
  "show_int n = (if n < 0 then CHR ''-'' # show_nat_digits (- n) else show_nat_digits n)"

definition base_server_url :: "env_data \<Rightarrow> string" where
  "base_server_url d = (if ed_use_tls d then ''https'' else ''http'') @ ''://'' @ ed_host d @ '':'' @ show_int (ed_port d)"

fun network_elements_params :: "address_params \<Rightarrow> address_params \<Rightarrow> address_params \<Rightarrow> network \<Rightarrow> address_params" where
  "network_elements_params liquid liquid_testnet elements Net_Mainnet = liquid"
| "network_elements_params liquid liquid_testnet elements Net_Testnet = liquid_testnet"
| "network_elements_params liquid liquid_testnet elements Net_Regtest = elements"
| "network_elements_params liquid liquid_testnet elements Net_Local = elements"

fun usdt_asset_id :: "network \<Rightarrow> string" where
  "usdt_asset_id Net_Mainnet = ''ce091c998b83c78bb71a632313ba3760f1763d9cfcffae02258ffa9865a37bd2''"
| "usdt_asset_id Net_Testnet = ''b612eb46313a2cd6ebabd8b7a8eed5696e29898b87a43bff41c94f51acef9d73''"
| "usdt_asset_id Net_Regtest = ''a0682b2b1493596f93cea5f4582df6a900b5e1a491d5ac39dea4bb39d0a45bbf''"
| "usdt_asset_id Net_Local = ''ac1775bb717c60a9a4adc3587bd166350e016938b1e34f4b8e2e490dfd03817a''"

fun eurx_asset_id :: "network \<Rightarrow> string" where
  "eurx_asset_id Net_Mainnet = ''18729918ab4bca843656f08d4dd877bed6641fbd596a0a963abbf199cfeb3cec''"
| "eurx_asset_id Net_Testnet = ''58af36e1b529b42f3e4ccce812924380058cae18b2ad26c89805813a9db25980''"
| "eurx_asset_id Net_Regtest = ''6d15498e26ec311dc6e9962dd05f6e7024c7fe4989cc09d426822ea540f048a2''"
| "eurx_asset_id Net_Local = ''92e71c513e2d1b2e421200beb1dabb231c12b5d2c53438648e09859909c0f9b7''"

fun mex_asset_id :: "network \<Rightarrow> string option" where
  "mex_asset_id Net_Mainnet = Some ''26ac924263ba547b706251635550a8649545ee5c074fe5db8d7140557baaf32e''"
| "mex_asset_id Net_Testnet = Some ''485ff8a902ad063bd8886ef8cfc0d22a068d14dcbe6ae06cf3f904dc581fbd2b''"
| "mex_asset_id Net_Regtest = None"
| "mex_asset_id Net_Local = None"

fun bitcoin_network_of :: "network \<Rightarrow> bitcoin_network" where
  "bitcoin_network_of Net_Mainnet = Btc_Bitcoin"
| "bitcoin_network_of Net_Testnet = Btc_Testnet"
| "bitcoin_network_of Net_Regtest = Btc_Regtest"
| "bitcoin_network_of Net_Local = Btc_Regtest"

fun single_sig_account_path :: "network \<Rightarrow> int list" where
  "single_sig_account_path Net_Mainnet = [0x80000031, 0x800006F0, 0x80000000]"
| "single_sig_account_path Net_Testnet = [0x80000031, 0x80000001, 0x80000000]"
| "single_sig_account_path Net_Regtest = [0x80000031, 0x80000001, 0x80000000]"
| "single_sig_account_path Net_Local = [0x80000031, 0x80000001, 0x80000000]"

text \<open>What the text of an asset id has to look like for the parser to accept it.\<close>

definition hex_digit :: "char \<Rightarrow> bool" where
  "hex_digit c \<longleftrightarrow> c \<in> set ''0123456789abcdef''"

definition hex64 :: "string \<Rightarrow> bool" where
  "hex64 s \<longleftrightarrow> length s = 64 \<and> list_all hex_digit s"

lemmas env_consts = ENV_PROD_def ENV_STAGING_def ENV_TESTNET_def ENV_REGTEST_def ENV_LOCAL_def
  ENV_LOCAL_LIQUID_def ENV_LOCAL_TESTNET_def

fun policy_asset_id :: "network \<Rightarrow> string" where
  "policy_asset_id Net_Mainnet = ''6f0279e9ed041c3d710a9f57d0c02928416460c4b722ae3457a11eec381c526d''"
| "policy_asset_id Net_Testnet = ''144c654344aa716d6f3abcc1ca90e5641e4e2a7f633bc09fe3baf64585819a49''"
| "policy_asset_id Net_Regtest = ''2e16b12daf1244332a438e829ca7ce209195f8e1c54199770cd8b327710a8ab2''"
| "policy_asset_id Net_Local = ''2684bbac0fa7ad544ec8eee43c35156346e5d641d24a4b9d5d8f183e3f2d8fb9''"

lemma policy_asset_by_network:
  "ed_policy_asset (env_data_of e) = policy_asset_id (ed_network (env_data_of e))"
  by (cases e; simp only: env_data_of.simps env_consts env_data.simps policy_asset_id.simps)

lemma mainnet_network: "ed_mainnet (env_data_of e) \<longleftrightarrow> ed_network (env_data_of e) = Net_Mainnet"
  by (cases e; simp only: env_data_of.simps env_consts env_data.simps network.distinct simp_thms)

lemma asset_ids_hex: "hex64 (usdt_asset_id n)" "hex64 (eurx_asset_id n)"
  by (cases n; hypsubst; code_simp)+

lemma asset_ids_distinct: "distinct [policy_asset_id n, usdt_asset_id n, eurx_asset_id n]"
  by (cases n; hypsubst; code_simp)

lemma policy_asset_hex: "hex64 (policy_asset_id n)"
  by (cases n; hypsubst; code_simp)

lemma elements_params_by_network:
  "env_elements_params liquid elements e =
     network_elements_params liquid LIQUID_TESTNET elements (ed_network (env_data_of e))"
  by (cases e; simp only: env_data_of.simps env_consts env_data.simps env_elements_params.simps
      network_elements_params.simps)

text \<open>
  The environments are consistent.  Each environment is a main network environment exactly
  when its network is the main network; its policy asset and the USDt and EURx ids of its network
  are three different, well-formed asset ids, so the ids the dealers parse at start-up are accepted
  and the asset dispatch on them is unambiguous; two environments on one network share the policy
  asset; and the address parameters chosen by environment are those chosen by network, given that
  the \<open>elements\<close> crate's Liquid testnet parameters are the ones the module repeats.
\<close>

theorem env_consistent:
  assumes "liquid_testnet = LIQUID_TESTNET"
  shows "(ed_mainnet (env_data_of e) \<longleftrightarrow> ed_network (env_data_of e) = Net_Mainnet)
    \<and> hex64 (ed_policy_asset (env_data_of e)) \<and> hex64 (usdt_asset_id (ed_network (env_data_of e)))
    \<and> hex64 (eurx_asset_id (ed_network (env_data_of e)))
    \<and> distinct [ed_policy_asset (env_data_of e), usdt_asset_id (ed_network (env_data_of e)),
      eurx_asset_id (ed_network (env_data_of e))]
    \<and> (ed_network (env_data_of e) = ed_network (env_data_of e')
      \<longrightarrow> ed_policy_asset (env_data_of e) = ed_policy_asset (env_data_of e'))
    \<and> env_elements_params liquid elements e =
      network_elements_params liquid liquid_testnet elements (ed_network (env_data_of e))"
  unfolding policy_asset_by_network assms
  by (intro conjI mainnet_network asset_ids_hex policy_asset_hex asset_ids_distinct impI
      elements_params_by_network) (rule arg_cong)

theorem env_consistent_witness:
  "ed_mainnet (env_data_of Env_LocalLiquid) \<and>
   env_elements_params LIQUID_TESTNET_PSET LIQUID_TESTNET_PSET Env_LocalTestnet =
     network_elements_params LIQUID_TESTNET_PSET LIQUID_TESTNET LIQUID_TESTNET_PSET Net_Testnet \<and>
   ed_policy_asset (env_data_of Env_Prod) = ed_policy_asset (env_data_of Env_Staging)"
  using env_consistent [OF refl, of Env_LocalLiquid Env_Prod]
    env_consistent [OF refl, of Env_Prod Env_Staging]
    env_consistent [OF refl, of Env_LocalTestnet Env_Prod LIQUID_TESTNET_PSET LIQUID_TESTNET_PSET]
  by (simp only: env_data_of.simps env_consts env_data.simps simp_thms)

end
