(* ===== verification/Api_Types.thy ===== *)
theory Api_Types
  imports Common_Types Common_Env
begin

text \<open>
  The messages of the swap server's API (\<open>sideswap_api/src/lib.rs\<close>) that the dealers exchange
  with it, and the requests to the Elements node (\<open>sideswap_dealer/src/rpc.rs\<close>).

  Values whose inside the program never looks at (transaction ids, asset ids, scripts, addresses,
  blinding factors, the contract of an asset, a LiquiDEX proposal, a transaction) are strings of bytes; the order of two such strings is the order of the bytes,
  which is the derived \<open>Ord\<close> of the Rust types.  Requests, responses and notifications that none
  of the modelled components sends or reacts to are left out of the unions; an incoming
  notification of such a kind is \<open>Ntf_Other\<close>.
\<close>

type_synonym txid = string
type_synonym asset_id = string
type_synonym script = string
type_synonym address = string
type_synonym blinding_factor = string
type_synonym hash32 = string
type_synonym order_id = hash32
type_synonym timestamp = i64

definition TICKER_LBTC :: string where "TICKER_LBTC = ''L-BTC''"
definition TICKER_USDT :: string where "TICKER_USDT = ''USDt''"
definition TICKER_EURX :: string where "TICKER_EURX = ''EURx''"
definition TICKER_LCAD :: string where "TICKER_LCAD = ''LCAD''"
definition TICKER_AUDL :: string where "TICKER_AUDL = ''AUDL''"

lemmas ticker_defs = TICKER_LBTC_def TICKER_USDT_def TICKER_EURX_def TICKER_LCAD_def TICKER_AUDL_def

record asset =
  as_asset_id :: asset_id
  as_name :: string
  as_ticker :: string
  as_icon :: "string option"
  as_precision :: nat
  as_icon_url :: "string option"
  as_instant_swaps :: "bool option"
  as_domain :: "string option"
  as_domain_agent :: "string option"
  as_always_show :: "bool option"
  as_issuance_prevout :: "(txid \<times> int) option"
  as_issuer_pubkey :: "string option"
  as_contract :: "string option"

datatype order_side = Maker | Taker
datatype order_type = OT_Bitcoin | OT_Asset

record details =
  d_asset :: asset_id
  d_bitcoin_amount :: i64
  d_asset_amount :: i64
  d_price :: f64
  d_server_fee :: i64
  d_side :: order_side
  d_send_bitcoins :: bool
  d_order_type :: order_type
  d_market :: market_type
  d_two_step :: "bool option"

record price_pair =
  pp_bid :: f64
  pp_ask :: f64

record price_order =
  po_asset :: asset_id
  po_bitcoin_amount :: "f64 option"
  po_asset_amount :: "f64 option"
  po_price :: "f64 option"
  po_index_price :: "f64 option"
  po_force_private :: "bool option"
  po_disable_price_edit :: "bool option"

record own =
  own_index_price :: "f64 option"
  own_private :: bool
  own_two_step :: bool

record order_created =
  oc_order_id :: order_id
  oc_details :: details
  oc_created_at :: timestamp
  oc_expires_at :: "timestamp option"
  oc_two_step :: bool
  oc_own :: "own option"

record pset_input =
  pi_txid :: txid
  pi_vout :: int
  pi_asset :: asset_id
  pi_asset_bf :: blinding_factor
  pi_value :: u64
  pi_value_bf :: blinding_factor
  pi_redeem_script :: "script option"

record maker_signed_half =
  msh_chaining_tx :: "string option"
  msh_proposal :: string

record pset_maker_request =
  pm_order_id :: order_id
  pm_price :: f64
  pm_private :: bool
  pm_ttl_seconds :: "u64 option"
  pm_inputs :: "pset_input list"
  pm_recv_addr :: address
  pm_change_addr :: address
  pm_signed_half :: "maker_signed_half option"

record pset_taker_request =
  pt_order_id :: order_id
  pt_price :: f64
  pt_inputs :: "pset_input list"
  pt_recv_addr :: address
  pt_change_addr :: address

record sign_notification =
  sn_order_id :: order_id
  sn_pset :: string
  sn_details :: details
  sn_nonces :: "string list option"

record sign_request =
  sr_order_id :: order_id
  sr_signed_pset :: string
  sr_side :: order_side

record complete_notification =
  cn_order_id :: order_id
  cn_txid :: "txid option"

record price_offer =
  of_client_send_bitcoins :: bool
  of_price :: f64
  of_max_send_amount :: i64

datatype swap_done_status = Done_Success | Done_ClientError | Done_DealerError | Done_ServerError

record swap_done =
  sd_order_id :: order_id
  sd_status :: swap_done_status
  sd_txid :: "txid option"
  sd_send_asset :: asset_id
  sd_send_amount :: i64
  sd_recv_asset :: asset_id
  sd_recv_amount :: i64
  sd_network_fee :: "i64 option"
  sd_price :: f64

record fee_rate =
  fr_blocks :: int
  fr_value :: f64

record server_status =
  ss_min_peg_in_amount :: i64
  ss_min_peg_out_amount :: i64
  ss_server_fee_percent_peg_in :: f64
  ss_server_fee_percent_peg_out :: f64
  ss_min_submit_amount :: i64
  ss_price_band :: f64
  ss_elements_fee_rate :: f64
  ss_bitcoin_fee_rates :: "fee_rate list"
  ss_upload_url :: string
  ss_policy_asset :: asset_id
  ss_peg_out_bitcoin_tx_vsize :: int

datatype api_request =
    Req_ServerStatus
  | Req_Assets bool
  | Req_LoginDealer string
  | Req_Login "hash32 option"
  | Req_Subscribe "asset_id option"
  | Req_Submit price_order
  | Req_Edit order_id "f64 option" "f64 option"
  | Req_Cancel order_id
  | Req_PsetMaker pset_maker_request
  | Req_PsetTaker pset_taker_request
  | Req_Sign sign_request
  | Req_PriceUpdateBroadcast asset_id price_pair
  | Req_BroadcastPriceStream asset_id "price_offer list" bool
  | Req_StartSwapDealer order_id "pset_input list" address address
  | Req_SignedSwapDealer order_id string

datatype api_response =
    Resp_ServerStatus server_status
  | Resp_Assets "asset list"
  | Resp_LoginDealer
  | Resp_Login hash32 "order_created list"
  | Resp_Subscribe "asset_id option" "order_created list"
  | Resp_Submit order_id details
  | Resp_Edit
  | Resp_Cancel
  | Resp_PsetMaker
  | Resp_PsetTaker
  | Resp_Sign
  | Resp_PriceUpdateBroadcast
  | Resp_BroadcastPriceStream
  | Resp_StartSwapDealer
  | Resp_SignedSwapDealer

datatype api_notification =
    Ntf_ServerStatus server_status
  | Ntf_OrderCreated order_created
  | Ntf_OrderRemoved order_id
  | Ntf_Sign sign_notification
  | Ntf_Complete complete_notification
  | Ntf_StartSwapDealer order_id asset_id
  | Ntf_BlindedSwapDealer order_id string
  | Ntf_SwapDone swap_done
  | Ntf_Other

datatype error_code = ParseError | InvalidRequest | MethodNotFound | InvalidParams | InternalError
  | ServerError

fun error_code_of :: "error_code \<Rightarrow> int" where
  "error_code_of ParseError = - 32700"
| "error_code_of InvalidRequest = - 32600"
| "error_code_of MethodNotFound = - 32601"
| "error_code_of InvalidParams = - 32602"
| "error_code_of InternalError = - 32603"
| "error_code_of ServerError = - 32000"

record api_error =
  ae_code :: error_code
  ae_message :: string

section \<open>Requests to the Elements node\<close>

text \<open>The arguments of a request are JSON values; \<open>json!(None)\<close> is \<open>null\<close>.\<close>

datatype json_arg = JA_Null | JA_Bool bool | JA_Int int | JA_Float f64 | JA_Str string

record rpc_request =
  rpc_method :: string
  rpc_params :: "json_arg list"

record 't rpc_result =
  rr_result :: "'t option"
  rr_error :: "string option"

definition json_opt :: "('a \<Rightarrow> json_arg) \<Rightarrow> 'a option \<Rightarrow> json_arg" where
  "json_opt f x = (case x of None \<Rightarrow> JA_Null | Some v \<Rightarrow> f v)"

datatype address_type = Legacy | P2SH | Bech32

fun address_type_str :: "address_type \<Rightarrow> string" where
  "address_type_str Legacy = ''legacy''"
| "address_type_str P2SH = ''p2sh-segwit''"
| "address_type_str Bech32 = ''bech32''"

definition get_wallet_info :: rpc_request where
  "get_wallet_info = \<lparr> rpc_method = ''getwalletinfo'', rpc_params = [] \<rparr>"

definition get_new_address_with_type :: "address_type option \<Rightarrow> rpc_request" where
  "get_new_address_with_type addr_type = \<lparr> rpc_method = ''getnewaddress'',
     rpc_params = [JA_Str '''', json_opt (\<lambda>t. JA_Str (address_type_str t)) addr_type] \<rparr>"

definition get_new_address :: rpc_request where
  "get_new_address = get_new_address_with_type (Some P2SH)"

definition listunspent :: "int \<Rightarrow> rpc_request" where
  "listunspent minconf = \<lparr> rpc_method = ''listunspent'', rpc_params = [JA_Int minconf] \<rparr>"

definition dumpprivkey :: "string \<Rightarrow> rpc_request" where
  "dumpprivkey addr = \<lparr> rpc_method = ''dumpprivkey'', rpc_params = [JA_Str addr] \<rparr>"

definition sendtoaddress_generic ::
    "string \<Rightarrow> f64 \<Rightarrow> string option \<Rightarrow> string option \<Rightarrow> bool option \<Rightarrow> bool option \<Rightarrow> int option
      \<Rightarrow> string option \<Rightarrow> bool option \<Rightarrow> string option \<Rightarrow> rpc_request" where
  "sendtoaddress_generic addr amount comment comment_to subtractfeefromamount replaceable conf_target
       estimate_mode avoid_reuse assetlabel =
     \<lparr> rpc_method = ''sendtoaddress'',
       rpc_params = [JA_Str addr, (if is_fin amount then JA_Float amount else JA_Null),
         json_opt JA_Str comment, json_opt JA_Str comment_to,
         json_opt JA_Bool subtractfeefromamount, json_opt JA_Bool replaceable, json_opt JA_Int conf_target,
         json_opt JA_Str estimate_mode, json_opt JA_Bool avoid_reuse, json_opt JA_Str assetlabel] \<rparr>"

definition sendtoaddress_asset :: "string \<Rightarrow> f64 \<Rightarrow> string \<Rightarrow> rpc_request" where
  "sendtoaddress_asset addr amount assetlabel =
     sendtoaddress_generic addr amount None None None None None None None (Some assetlabel)"

definition sendtoaddress_bitcoin :: "string \<Rightarrow> f64 \<Rightarrow> rpc_request" where
  "sendtoaddress_bitcoin addr amount =
     sendtoaddress_generic addr amount None None None None None None None None"

record unspent_item =
  ui_txid :: txid
  ui_vout :: int
  ui_address :: string
  ui_amount :: string
  ui_confirmations :: int
  ui_asset :: asset_id
  ui_script_pub_key :: script
  ui_redeem_script :: "script option"
  ui_assetblinder :: "blinding_factor option"
  ui_amountblinder :: "blinding_factor option"
  ui_assetcommitment :: "string option"
  ui_amountcommitment :: "string option"

definition ui_tx_out :: "unspent_item \<Rightarrow> tx_out" where
  "ui_tx_out item = \<lparr> to_txid = ui_txid item, to_vout = ui_vout item \<rparr>"

record wallet_info =
  wi_balance :: "(string, f64) btree_map"
  wi_unconfirmed_balance :: "(string, f64) btree_map"
  wi_immature_balance :: "(string, f64) btree_map"
  wi_private_keys_enabled :: bool

end
