(* ===== verification/Rust_IO.thy ===== *)
theory Rust_IO
  imports Rust_Prelude
begin

text \<open>
  Computations that talk to the outside world: server requests over the websocket, RPC calls to the
  node, messages put on a channel, files written, the clock.  A computation reads the history of
  everything that happened before it, appends the events it causes, and returns an outcome.  Code
  outside the program (the server, the node, the clock) is an oracle, a function of the history, so
  that a statement about every oracle is a statement about every behaviour of the environment.

  The theory also has the event loop all workers share (receive a message, run its handler, keep
  going until a panic or a return) and, as a locale, what a handler has to guarantee for an
  invariant to hold in every state the loop reaches.
\<close>

named_theorems io_simps \<open>unfolding of the world-passing computations\<close>
named_theorems emits_intros \<open>which events a computation can cause\<close>

section \<open>Computations\<close>

type_synonym ('ev, 'e, 'a) io = "'ev list \<Rightarrow> ('e, 'a) outcome \<times> 'ev list"

definition io_return :: "'a \<Rightarrow> ('ev, 'e, 'a) io" where
  "io_return x h = (Ok x, h)"

definition io_bind :: "('ev, 'e, 'a) io \<Rightarrow> ('a \<Rightarrow> ('ev, 'e, 'b) io) \<Rightarrow> ('ev, 'e, 'b) io" where
  "io_bind m f h = (case m h of
      (Ok x, h') \<Rightarrow> f x h'
    | (Err e, h') \<Rightarrow> (Err e, h')
    | (Panic, h') \<Rightarrow> (Panic, h'))"

definition io_lift :: "('e, 'a) outcome \<Rightarrow> ('ev, 'e, 'a) io" where
  "io_lift r h = (r, h)"

definition io_emit :: "'ev \<Rightarrow> ('ev, 'e, unit) io" where
  "io_emit ev h = (Ok (), h @ [ev])"

text \<open>A call to the outside: the oracle answers from the history, and the answer is recorded.\<close>

definition io_call :: "('ev list \<Rightarrow> 'r) \<Rightarrow> ('r \<Rightarrow> 'ev) \<Rightarrow> ('ev, 'e, 'r) io" where
  "io_call oracle mk h = (Ok (oracle h), h @ [mk (oracle h)])"

text \<open>A \<open>Result\<close> that is inspected by a \<open>match\<close> instead of propagated by \<open>?\<close>; a panic
  still unwinds.\<close>

definition io_try :: "('ev, 'e, 'a) io \<Rightarrow> ('ev, 'e2, 'e + 'a) io" where
  "io_try m h = (case m h of
      (Ok x, h') \<Rightarrow> (Ok (Inr x), h')
    | (Err e, h') \<Rightarrow> (Ok (Inl e), h')
    | (Panic, h') \<Rightarrow> (Panic, h'))"

text \<open>\<open>unwrap\<close> and \<open>expect\<close> on a \<open>Result\<close>.\<close>

definition io_expect :: "('ev, 'e, 'a) io \<Rightarrow> ('ev, 'e2, 'a) io" where
  "io_expect m = io_bind (io_try m) (\<lambda>r. case r of Inl e \<Rightarrow> io_lift Panic | Inr x \<Rightarrow> io_return x)"

text \<open>A \<open>for\<close> loop that updates a state.\<close>

fun io_fold :: "('x \<Rightarrow> 's \<Rightarrow> ('ev, 'e, 's) io) \<Rightarrow> 'x list \<Rightarrow> 's \<Rightarrow> ('ev, 'e, 's) io" where
  "io_fold f [] s = io_return s"
| "io_fold f (x # xs) s = io_bind (f x s) (\<lambda>s'. io_fold f xs s')"

text \<open>A loop that consumes a list and collects results (\<open>iter().map(..).collect()\<close>).\<close>

fun io_mapM :: "('x \<Rightarrow> ('ev, 'e, 'y) io) \<Rightarrow> 'x list \<Rightarrow> ('ev, 'e, 'y list) io" where
  "io_mapM f [] = io_return []"
| "io_mapM f (x # xs) = io_bind (f x) (\<lambda>y. io_bind (io_mapM f xs) (\<lambda>ys. io_return (y # ys)))"

fun mapM_ok :: "('x \<Rightarrow> ('e, 'y) outcome) \<Rightarrow> 'x list \<Rightarrow> ('e, 'y list) outcome" where
  "mapM_ok f [] = Ok []"
| "mapM_ok f (x # xs) = and_then (f x) (\<lambda>y. and_then (mapM_ok f xs) (\<lambda>ys. Ok (y # ys)))"

abbreviation io_when :: "bool \<Rightarrow> ('ev, 'e, unit) io \<Rightarrow> ('ev, 'e, unit) io" where
  "io_when b m \<equiv> (if b then m else io_return ())"

lemma io_bind_Ok:
  "io_bind m f h = (Ok y, h2) \<longleftrightarrow> (\<exists>x h1. m h = (Ok x, h1) \<and> f x h1 = (Ok y, h2))"
  by (auto simp: io_bind_def split: prod.splits outcome.splits)

lemma io_bind_run:
  "m h = (Ok x, h') \<Longrightarrow> io_bind m f h = f x h'"
  by (simp add: io_bind_def)

lemma io_run_simps [io_simps]: "io_return x h = (Ok x, h)" "io_lift r h = (r, h)"
  by (simp_all add: io_return_def io_lift_def)

lemma io_emit_run [simp, io_simps]: "io_emit ev h = (Ok (), h @ [ev])"
  by (simp add: io_emit_def)

lemma io_call_run [simp, io_simps]: "io_call oracle mk h = (Ok (oracle h), h @ [mk (oracle h)])"
  by (simp add: io_call_def)

lemma io_bind_simps [simp]:
  "io_bind (io_return x) f = f x"
  "io_bind (io_lift (Ok x)) f = f x"
  "io_bind (io_lift (Err e)) f = io_lift (Err e)"
  "io_bind (io_lift Panic) f = io_lift Panic"
  by (auto simp: io_bind_def fun_eq_iff io_run_simps)

lemma io_bind_emit [simp]: "io_bind (io_emit ev) f h = f () (h @ [ev])"
  by (simp add: io_bind_def)

lemma io_bind_call [simp]: "io_bind (io_call oracle mk) f h = f (oracle h) (h @ [mk (oracle h)])"
  by (simp add: io_bind_def)

lemma io_bind_assoc: "io_bind (io_bind m f) g = io_bind m (\<lambda>x. io_bind (f x) g)"
  by (auto simp: io_bind_def fun_eq_iff split: prod.splits outcome.splits)

lemma io_try_Ok:
  "io_try m h = (Ok r, h') \<longleftrightarrow>
     (case r of Inr x \<Rightarrow> m h = (Ok x, h') | Inl e \<Rightarrow> m h = (Err e, h'))"
  by (cases "m h"; cases "fst (m h)") (auto simp: io_try_def split: sum.splits)

lemma io_try_not_Err [simp]: "io_try m h \<noteq> (Err e, h')"
  by (auto simp: io_try_def split: prod.splits outcome.splits)

lemma io_try_simps [simp]:
  "io_try (io_return x) h = (Ok (Inr x), h)"
  "io_try (io_lift (Ok x)) h = (Ok (Inr x), h)"
  "io_try (io_lift (Err e)) h = (Ok (Inl e), h)"
  "io_try (io_lift Panic) h = (Panic, h)"
  by (simp_all add: io_try_def io_run_simps)

lemma io_expect_Ok [simp]: "io_expect m h = (Ok x, h') \<longleftrightarrow> m h = (Ok x, h')"
  by (cases "m h"; cases "fst (m h)")
    (auto simp: io_expect_def io_bind_def io_try_def io_run_simps)

lemma io_expect_not_Err [simp]: "io_expect m h \<noteq> (Err e, h')"
  by (auto simp: io_expect_def io_bind_def io_try_def io_run_simps split: sum.splits prod.splits outcome.splits)

lemma mapM_ok_Ok:
  "mapM_ok f xs = Ok ys \<longleftrightarrow> list_all2 (\<lambda>x y. f x = Ok y) xs ys"
  by (induction xs arbitrary: ys) (auto simp: list_all2_Cons1)

section \<open>The events a computation causes\<close>

text \<open>
  \<open>emits Q m\<close>: whatever the history, \<open>m\<close> only appends events that satisfy \<open>Q\<close>, also
  when it fails or panics half way.  This is how \<^emph>\<open>never\<close> statements about whole handlers are
  proved: rule by rule, over the structure of the handler.
\<close>

definition emits :: "('ev \<Rightarrow> bool) \<Rightarrow> ('ev, 'e, 'a) io \<Rightarrow> bool" where
  "emits Q m \<longleftrightarrow> (\<forall>h. \<exists>t. snd (m h) = h @ t \<and> (\<forall>ev\<in>set t. Q ev))"

lemma emits_return [emits_intros]: "emits Q (io_return x)"
  by (simp add: emits_def io_run_simps)

lemma emits_lift [emits_intros]: "emits Q (io_lift r)"
  by (simp add: emits_def io_run_simps)

lemma emits_emit [emits_intros]: "Q ev \<Longrightarrow> emits Q (io_emit ev)"
  by (simp add: emits_def)

lemma emits_call [emits_intros]: "(\<And>r. Q (mk r)) \<Longrightarrow> emits Q (io_call oracle mk)"
  by (simp add: emits_def)

lemma emits_bind [emits_intros]:
  assumes m: "emits Q m" and f: "\<And>x. emits Q (f x)"
  shows "emits Q (io_bind m f)"
  unfolding emits_def
proof
  fix h
  obtain r h1 where mh: "m h = (r, h1)" by (cases "m h")
  from m obtain t1 where t1: "h1 = h @ t1" "\<forall>ev\<in>set t1. Q ev"
    unfolding emits_def by (metis mh snd_conv)
  show "\<exists>t. snd (io_bind m f h) = h @ t \<and> (\<forall>ev\<in>set t. Q ev)"
  proof (cases r)
    case (Ok x)
    from f obtain t2 where "snd (f x h1) = h1 @ t2" "\<forall>ev\<in>set t2. Q ev"
      unfolding emits_def by blast
    with Ok mh t1 show ?thesis
      by (intro exI [of _ "t1 @ t2"]) (auto simp: io_bind_def)
  qed (use mh t1 in \<open>auto simp: io_bind_def\<close>)
qed

lemma snd_io_try [simp]: "snd (io_try m h) = snd (m h)"
  by (simp add: io_try_def split: prod.splits outcome.splits)

lemma emits_try [emits_intros]: "emits Q m \<Longrightarrow> emits Q (io_try m)"
  by (simp add: emits_def)

lemma emits_expect [emits_intros]: "emits Q m \<Longrightarrow> emits Q (io_expect m)"
  unfolding io_expect_def by (intro emits_intros) (auto intro: emits_intros split: sum.splits)

lemma emits_fold [emits_intros]: "(\<And>x s. emits Q (f x s)) \<Longrightarrow> emits Q (io_fold f xs s)"
  by (induction xs arbitrary: s) (auto intro: emits_intros)

lemma emits_mapM [emits_intros]: "(\<And>x. emits Q (f x)) \<Longrightarrow> emits Q (io_mapM f xs)"
  by (induction xs) (auto intro!: emits_intros)

lemma emits_if [emits_intros]:
  "(b \<Longrightarrow> emits Q m) \<Longrightarrow> (\<not> b \<Longrightarrow> emits Q n) \<Longrightarrow> emits Q (if b then m else n)"
  by simp

lemma emits_option [emits_intros]:
  "(x = None \<Longrightarrow> emits Q m) \<Longrightarrow> (\<And>v. x = Some v \<Longrightarrow> emits Q (f v))
    \<Longrightarrow> emits Q (case x of None \<Rightarrow> m | Some v \<Rightarrow> f v)"
  by (cases x) auto

lemma emits_sum [emits_intros]:
  "(\<And>e. x = Inl e \<Longrightarrow> emits Q (f e)) \<Longrightarrow> (\<And>v. x = Inr v \<Longrightarrow> emits Q (g v))
    \<Longrightarrow> emits Q (case x of Inl e \<Rightarrow> f e | Inr v \<Rightarrow> g v)"
  by (cases x) auto

lemma emits_prod [emits_intros]:
  "(\<And>a b. x = (a, b) \<Longrightarrow> emits Q (f a b)) \<Longrightarrow> emits Q (case x of (a, b) \<Rightarrow> f a b)"
  by (cases x) auto

lemma emits_mono: "emits P m \<Longrightarrow> (\<And>ev. P ev \<Longrightarrow> Q ev) \<Longrightarrow> emits Q m"
  unfolding emits_def by blast

lemma emitsD:
  assumes "emits Q m" and "m h = (r, h')"
  obtains t where "h' = h @ t" "\<forall>ev\<in>set t. Q ev"
  using assms unfolding emits_def by (metis snd_conv)

section \<open>The state a computation returns\<close>

text \<open>\<open>returns P m\<close>: when \<open>m\<close> returns normally, its value satisfies \<open>P\<close>.\<close>

named_theorems returns_intros \<open>what a computation can return\<close>

definition returns :: "('a \<Rightarrow> bool) \<Rightarrow> ('ev, 'e, 'a) io \<Rightarrow> bool" where
  "returns P m \<longleftrightarrow> (\<forall>h x h'. m h = (Ok x, h') \<longrightarrow> P x)"

lemma returnsD: "returns P m \<Longrightarrow> m h = (Ok x, h') \<Longrightarrow> P x"
  unfolding returns_def by blast

lemma returns_return [returns_intros]: "P x \<Longrightarrow> returns P (io_return x)"
  by (simp add: returns_def io_run_simps)

lemma returns_lift: "(\<And>x. r = Ok x \<Longrightarrow> P x) \<Longrightarrow> returns P (io_lift r)"
  by (simp add: returns_def io_run_simps)

lemma returns_Panic [returns_intros]: "returns P (io_lift Panic)" "returns P (io_lift (Err e))"
  by (simp_all add: returns_def io_run_simps)

lemma returns_bind:
  "returns R m \<Longrightarrow> (\<And>x. R x \<Longrightarrow> returns P (f x)) \<Longrightarrow> returns P (io_bind m f)"
  unfolding returns_def io_bind_Ok by blast

lemma returns_bind_any [returns_intros]: "(\<And>x. returns P (f x)) \<Longrightarrow> returns P (io_bind m f)"
  unfolding returns_def io_bind_Ok by blast

lemma returns_expect: "returns P m \<Longrightarrow> returns P (io_expect m)"
  by (simp add: returns_def)

lemma returns_True [simp]: "returns (\<lambda>_. True) m"
  by (simp add: returns_def)

lemma returns_mono: "returns P m \<Longrightarrow> (\<And>x. P x \<Longrightarrow> Q x) \<Longrightarrow> returns Q m"
  unfolding returns_def by blast

lemma returns_conj: "returns P m \<Longrightarrow> returns Q m \<Longrightarrow> returns (\<lambda>x. P x \<and> Q x) m"
  by (simp add: returns_def)

lemma emits_bind_returns:
  assumes "emits Q m" "returns R m" "\<And>x. R x \<Longrightarrow> emits Q (f x)"
  shows "emits Q (io_bind m f)"
proof -
  let ?g = "\<lambda>x. if R x then f x else io_return undefined"
  have "io_bind m f = io_bind m ?g"
    using assms(2) by (auto simp: io_bind_def fun_eq_iff returns_def split: prod.splits outcome.splits)
  moreover have "emits Q (io_bind m ?g)"
    using assms(1,3) by (intro emits_bind emits_if emits_return) auto
  ultimately show ?thesis by simp
qed

lemma io_bind_try_lift:
  "io_bind (io_try (io_lift r)) f = (case r of
      Ok x \<Rightarrow> f (Inr x) | Err e \<Rightarrow> f (Inl e) | Panic \<Rightarrow> io_lift Panic)"
  by (cases r) (auto simp: io_bind_def io_try_def io_run_simps fun_eq_iff)

lemma io_mapM_Ok:
  assumes "io_mapM f xs h = (Ok ys, h')" "\<And>x. x \<in> set xs \<Longrightarrow> returns (R x) (f x)"
  shows "list_all2 R xs ys"
  using assms
proof (induction xs arbitrary: h ys)
  case Nil
  then show ?case by (simp add: io_run_simps)
next
  case (Cons x xs)
  then obtain y ys' h1 where y: "f x h = (Ok y, h1)" "io_mapM f xs h1 = (Ok ys', h')" "ys = y # ys'"
    by (auto simp: io_bind_Ok io_run_simps)
  then have "R x y" using Cons.prems(2) by (auto dest: returnsD)
  moreover have "list_all2 R xs ys'" using Cons.IH [OF y(2)] Cons.prems(2) by simp
  ultimately show ?case by (simp add: y(3))
qed

lemma returns_mapM:
  "(\<And>x. x \<in> set xs \<Longrightarrow> returns (R x) (f x)) \<Longrightarrow> returns (list_all2 R xs) (io_mapM f xs)"
  by (subst returns_def) (blast intro: io_mapM_Ok)

lemma returns_fold:
  "(\<And>x s. x \<in> set xs \<Longrightarrow> P s \<Longrightarrow> returns P (f x s)) \<Longrightarrow> P s \<Longrightarrow> returns P (io_fold f xs s)"
proof (induction xs arbitrary: s)
  case Nil
  then show ?case by (simp add: returns_return)
next
  case (Cons x xs)
  show ?case
    unfolding io_fold.simps
  proof (rule returns_bind)
    show "returns P (f x s)" using Cons.prems by simp
  next
    fix s' assume "P s'"
    with Cons show "returns P (io_fold f xs s')" by simp
  qed
qed

lemma returns_if [returns_intros]:
  "(b \<Longrightarrow> returns P m) \<Longrightarrow> (\<not> b \<Longrightarrow> returns P n) \<Longrightarrow> returns P (if b then m else n)"
  by simp

lemma returns_option [returns_intros]:
  "(x = None \<Longrightarrow> returns P m) \<Longrightarrow> (\<And>v. x = Some v \<Longrightarrow> returns P (f v))
    \<Longrightarrow> returns P (case x of None \<Rightarrow> m | Some v \<Rightarrow> f v)"
  by (cases x) auto

lemma returns_sum [returns_intros]:
  "(\<And>e. x = Inl e \<Longrightarrow> returns P (f e)) \<Longrightarrow> (\<And>v. x = Inr v \<Longrightarrow> returns P (g v))
    \<Longrightarrow> returns P (case x of Inl e \<Rightarrow> f e | Inr v \<Rightarrow> g v)"
  by (cases x) auto

lemma returns_prod [returns_intros]:
  "(\<And>a b. x = (a, b) \<Longrightarrow> returns P (f a b)) \<Longrightarrow> returns P (case x of (a, b) \<Rightarrow> f a b)"
  by (cases x) auto

section \<open>Event loops\<close>

text \<open>
  A worker receives messages one at a time and runs the handler of each; a panic (the process
  aborts) ends the run.  \<open>reaches handle s h s' h'\<close>: some sequence of messages takes the worker
  from state \<open>s\<close> with history \<open>h\<close> to \<open>s'\<close> with history \<open>h'\<close>.
\<close>

inductive reaches :: "('msg \<Rightarrow> 's \<Rightarrow> ('ev, 'e, 's) io) \<Rightarrow> 's \<Rightarrow> 'ev list \<Rightarrow> 's \<Rightarrow> 'ev list \<Rightarrow> bool"
  for handle s h where
  reaches_refl: "reaches handle s h s h"
| reaches_step: "reaches handle s h s1 h1 \<Longrightarrow> handle m s1 h1 = (Ok s2, h2) \<Longrightarrow> reaches handle s h s2 h2"

inductive_cases reaches_cases: "reaches handle s h s' h'"

lemma reaches_run: "io_fold handle msgs s1 h1 = (Ok s2, h2) \<Longrightarrow> reaches handle s h s1 h1
    \<Longrightarrow> reaches handle s h s2 h2"
proof (induction msgs arbitrary: s1 h1)
  case (Cons m msgs)
  then obtain s' h' where "handle m s1 h1 = (Ok s', h')" "io_fold handle msgs s' h' = (Ok s2, h2)"
    by (auto simp: io_bind_Ok)
  with Cons show ?case by (meson reaches_step)
qed (simp add: io_run_simps)

locale event_loop =
  fixes handle :: "'msg \<Rightarrow> 's \<Rightarrow> ('ev, 'e, 's) io"
    and inv :: "'s \<Rightarrow> bool"
    and ok_event :: "'ev \<Rightarrow> bool"
  assumes handle_inv: "inv s \<Longrightarrow> returns inv (handle m s)"
    and handle_emits: "inv s \<Longrightarrow> emits ok_event (handle m s)"
begin

lemma reaches_inv: "reaches handle s h s' h' \<Longrightarrow> inv s \<Longrightarrow> inv s'"
  by (induction rule: reaches.induct) (auto dest: returnsD [OF handle_inv])

lemma reaches_events:
  assumes "reaches handle s h s' h'" and "inv s"
  shows "\<exists>t. h' = h @ t \<and> (\<forall>ev\<in>set t. ok_event ev)"
  using assms
proof (induction rule: reaches.induct)
  case reaches_refl
  show ?case by simp
next
  case (reaches_step s1 h1 m s2 h2)
  then obtain t1 where t1: "h1 = h @ t1" "\<forall>ev\<in>set t1. ok_event ev" by blast
  have "inv s1" using reaches_step reaches_inv by blast
  from handle_emits [OF this] reaches_step(2) obtain t2
    where "h2 = h1 @ t2" "\<forall>ev\<in>set t2. ok_event ev" by (rule emitsD)
  with t1 show ?case by (intro exI [of _ "t1 @ t2"]) auto
qed

lemma run_inv: "inv s \<Longrightarrow> returns inv (io_fold handle msgs s)"
  by (rule returns_fold) (auto intro: handle_inv)

end

text \<open>The same for an invariant that speaks about the history as well.\<close>

locale history_loop =
  fixes handle :: "'msg \<Rightarrow> 's \<Rightarrow> ('ev, 'e, 's) io"
    and inv :: "'s \<Rightarrow> 'ev list \<Rightarrow> bool"
  assumes handle_step: "inv s h \<Longrightarrow> handle m s h = (Ok s', h') \<Longrightarrow> inv s' h'"
begin

lemma reaches_inv: "reaches handle s h s' h' \<Longrightarrow> inv s h \<Longrightarrow> inv s' h'"
  by (induction rule: reaches.induct) (auto dest: handle_step)

end

end
