(* ===== verification/Outside_World.thy ===== *)
theory Outside_World
  imports Api_Types Rust_IO
begin

text \<open>
  What the dealers see of the world outside the program, and the calls they make to it: requests to
  the swap server over the websocket (with the 30 second timeout that panics), RPC calls to the
  Elements node (\<open>sideswap_dealer/src/rpc.rs\<close>), the clock, and the functions of third-party
  crates (\<open>elements\<close>, \<open>bitcoin\<close>, \<open>secp256k1\<close>, \<open>base64\<close>, \<open>hex\<close>,
  \<open>serde_json\<close>).  All of them are fields of one record, so that every definition that needs one
  takes the record as an argument and no theorem depends on what the outside answers.
\<close>

section \<open>Events\<close>

datatype reply = Reply_Ok api_response | Reply_Err api_error | Reply_Timeout

text \<open>\<open>'m\<close> is what the worker itself puts on its channels.\<close>

datatype 'm event =
    Ev_Request api_request reply
  | Ev_Rpc rpc_request "string option"
  | Ev_Now int
  | Ev_Out 'm

section \<open>Transactions\<close>

text \<open>
  A partially signed transaction, as far as the dealers change it: the finalisation fields of each
  input; everything else is carried along.
\<close>

record pset_in =
  psi_final_script_sig :: "script option"
  psi_final_script_witness :: "string list option"
  psi_data :: string

record pset =
  ps_inputs :: "pset_in list"
  ps_data :: string

record transaction =
  tx_input :: "tx_out list"
  tx_data :: string

record 'm world =
  w_server :: "api_request \<Rightarrow> 'm event list \<Rightarrow> reply"
  w_http :: "rpc_request \<Rightarrow> 'm event list \<Rightarrow> string option"
  w_clock :: "'m event list \<Rightarrow> int"
  w_dec_address :: "string \<Rightarrow> address rpc_result option"
  w_dec_unspent :: "string \<Rightarrow> unspent_item list rpc_result option"
  w_dec_wallet_info :: "string \<Rightarrow> wallet_info rpc_result option"
  w_dec_text :: "string \<Rightarrow> string rpc_result option"
  w_asset_id :: "string \<Rightarrow> asset_id option"
  w_signed_amount :: "string \<Rightarrow> i64 option"
  w_base64_decode :: "string \<Rightarrow> string option"
  w_base64_encode :: "string \<Rightarrow> string"
  w_hex_decode :: "string \<Rightarrow> string option"
  w_pset_decode :: "string \<Rightarrow> pset option"
  w_pset_encode :: "pset \<Rightarrow> string"
  w_extract_tx :: "pset \<Rightarrow> transaction option"
  w_value_decode :: "string \<Rightarrow> string option"
  w_privkey :: "string \<Rightarrow> string option"
  w_public_key :: "string \<Rightarrow> string"
  w_p2pkh_script :: "string \<Rightarrow> script"
  w_sighash :: "transaction \<Rightarrow> nat \<Rightarrow> script \<Rightarrow> string \<Rightarrow> int \<Rightarrow> string"
  w_sign_ecdsa :: "string \<Rightarrow> string \<Rightarrow> string"
  w_push_slice :: "string \<Rightarrow> script"

section \<open>Calls\<close>

definition send_request :: "'m world \<Rightarrow> api_request \<Rightarrow> ('m event, api_error, api_response) io" where
  "send_request w request =
     io_bind (io_call (w_server w request) (Ev_Request request)) (\<lambda>r. case r of
        Reply_Ok v \<Rightarrow> io_return v
      | Reply_Err e \<Rightarrow> io_lift (Err e)
      | Reply_Timeout \<Rightarrow> io_lift Panic)"

text \<open>The macro \<open>send_request!\<close>: the response has to be of the kind of the request.\<close>

definition send_request_as ::
    "'m world \<Rightarrow> (api_response \<Rightarrow> 'a option) \<Rightarrow> api_request \<Rightarrow> ('m event, api_error, 'a) io" where
  "send_request_as w proj request =
     io_bind (send_request w request) (\<lambda>r. io_lift (unwrap (proj r)))"

definition make_rpc :: "'m world \<Rightarrow> rpc_request \<Rightarrow> ('m event, string, string) io" where
  "make_rpc w req = io_bind (io_call (w_http w req) (Ev_Rpc req)) (\<lambda>r. io_lift (ok_or r ''transport''))"

definition make_rpc_call_silent ::
    "'m world \<Rightarrow> (string \<Rightarrow> 't rpc_result option) \<Rightarrow> rpc_request \<Rightarrow> ('m event, string, 't) io" where
  "make_rpc_call_silent w dec req =
     io_bind (make_rpc w req) (\<lambda>text.
     io_bind (io_lift (ok_or (dec text) ''decode'')) (\<lambda>response.
     case rr_error response of
       Some message \<Rightarrow> io_lift (Err (''RPC failed: '' @ message))
     | None \<Rightarrow> (case rr_result response of
         Some result \<Rightarrow> io_return result
       | None \<Rightarrow> io_lift (Err ''empty RPC response''))))"

definition make_rpc_call ::
    "'m world \<Rightarrow> (string \<Rightarrow> 't rpc_result option) \<Rightarrow> rpc_request \<Rightarrow> ('m event, string, 't) io" where
  "make_rpc_call w dec req = make_rpc_call_silent w dec req"

definition instant_now :: "'m world \<Rightarrow> ('m event, 'e, int) io" where
  "instant_now w = io_call (w_clock w) Ev_Now"

text \<open>Instants and durations are in nanoseconds; \<open>duration_since\<close> saturates at zero.\<close>

definition from_secs :: "int \<Rightarrow> int" where "from_secs n = n * 1000000000"

definition duration_since :: "int \<Rightarrow> int \<Rightarrow> int" where "duration_since later earlier = max 0 (later - earlier)"

definition from_rpc :: "'m world \<Rightarrow> string \<Rightarrow> ('e, amount) outcome" where
  "from_rpc w value = unwrap (w_signed_amount w value)"

section \<open>Signing\<close>

definition SIGHASH_ALL :: int where "SIGHASH_ALL = 1"

definition internal_sign_elements ::
    "'m world \<Rightarrow> transaction \<Rightarrow> nat \<Rightarrow> string \<Rightarrow> string \<Rightarrow> int \<Rightarrow> string" where
  "internal_sign_elements w tx input_index private_key value sighash_type =
     (let public_key = w_public_key w private_key;
          script_code = w_p2pkh_script w public_key;
          sighash = w_sighash w tx input_index script_code value sighash_type;
          signature = w_sign_ecdsa w sighash private_key
      in signature @ [char_of (nat (sighash_type mod 256))])"

section \<open>Which events the calls cause\<close>

lemma emits_send_request [emits_intros]:
  "(\<And>r. Q (Ev_Request request r)) \<Longrightarrow> emits Q (send_request w request)"
  unfolding send_request_def by (intro emits_intros) (auto split: reply.splits intro: emits_intros)

lemma emits_send_request_as [emits_intros]:
  "(\<And>r. Q (Ev_Request request r)) \<Longrightarrow> emits Q (send_request_as w proj request)"
  unfolding send_request_as_def by (intro emits_intros)

lemma emits_make_rpc_call [emits_intros]:
  "(\<And>r. Q (Ev_Rpc req r)) \<Longrightarrow> emits Q (make_rpc_call w dec req)"
  unfolding make_rpc_call_def make_rpc_call_silent_def make_rpc_def by (intro emits_intros)

lemma emits_instant_now [emits_intros]: "(\<And>t. Q (Ev_Now t)) \<Longrightarrow> emits Q (instant_now w)"
  unfolding instant_now_def by (intro emits_intros)

lemma send_request_as_Ok:
  assumes "send_request_as w proj request h = (Ok v, h')"
  shows "\<exists>resp. h' = h @ [Ev_Request request (Reply_Ok resp)] \<and> proj resp = Some v"
  using assms
  by (auto simp: send_request_as_def send_request_def io_bind_Ok io_run_simps split: reply.splits)

lemma send_request_as_Err:
  assumes "send_request_as w proj request h = (Err e, h')"
  shows "h' = h @ [Ev_Request request (Reply_Err e)]"
  using assms
  by (auto simp: send_request_as_def send_request_def io_bind_def io_run_simps unwrap_def
      split: reply.splits option.splits)

end
