(* ===== verification/Ws.thy ===== *)
theory Ws
  imports Common_Env Outside_World
begin

text \<open>
  The websocket connections (\<open>sideswap_common/src/ws.rs\<close>, \<open>ws/auto.rs\<close> and
  \<open>ws/manual.rs\<close>, and \<open>module.rs\<close> of the Bitfinex dealer).

  Each connection is an endless loop around \<open>select!\<close>: it is a state machine whose events are
  what the awaited futures yield (a request from the channel, the end of a connection attempt, a
  message of the server, a tick of the timer, a hint to reconnect).  A step returns the new state and
  what the code did; an event the code does not await in its state is \<open>Not_Polled\<close>, so it stays
  where it is and is no step of the machine.
\<close>

section \<open>Request ids\<close>

datatype request_id = Id_String string | Id_Int i64

text \<open>\<open>fetch_add(1)\<close> on the shared counter: the old value is the id, the counter wraps.\<close>

definition next_request_id :: "i64 \<Rightarrow> request_id \<times> i64" where
  "next_request_id counter = (Id_Int counter, i64_add counter 1)"

definition next_request_id_str :: "i64 \<Rightarrow> request_id \<times> i64" where
  "next_request_id_str counter = (Id_String (show_int counter), i64_add counter 1)"

section \<open>Messages, actions and steps\<close>

definition RECONNECT_WAIT_PERIODS :: "int list" where
  "RECONNECT_WAIT_PERIODS = map from_secs [0, 1, 3, 6, 9]"
definition RECONNECT_WAIT_MAX_PERIOD :: int where "RECONNECT_WAIT_MAX_PERIOD = from_secs 12"
definition PING_PERIOD :: int where "PING_PERIOD = from_secs 30"
definition PONG_TIMEOUT :: int where "PONG_TIMEOUT = from_secs 90"

definition PATH_JSON_RUST_WS :: string where "PATH_JSON_RUST_WS = ''rust-rpc-ws''"

definition reconnect_delay :: "nat \<Rightarrow> int" where
  "reconnect_delay n = (if n < length RECONNECT_WAIT_PERIODS then RECONNECT_WAIT_PERIODS ! n else RECONNECT_WAIT_MAX_PERIOD)"

datatype ws_frame = F_Text string | F_Binary string | F_Ping string | F_Pong string | F_Close

text \<open>What \<open>ws_stream.next()\<close> yields.\<close>

datatype server_msg = Srv_End | Srv_Error | Srv_Frame ws_frame

datatype 'resp wrapped_response = Ws_Connected | Ws_Disconnected | Ws_Response 'resp

datatype 'resp ws_action = Dial string "string option" | Sleep int | Notify "'resp wrapped_response" | Send ws_frame

datatype ('s, 'resp) ws_step = Step 's "'resp ws_action list" | Crash | Not_Polled

text \<open>\<open>resp_tx.send(..).unwrap()\<close>: a panic when the receiving half is gone.\<close>

definition notify :: "bool \<Rightarrow> 'resp wrapped_response \<Rightarrow> 's \<Rightarrow> 'resp ws_action list \<Rightarrow> ('s, 'resp) ws_step" where
  "notify rx_open r s acts = (if rx_open then Step s (Notify r # acts) else Crash)"

definition ws_url :: "string \<Rightarrow> int \<Rightarrow> bool \<Rightarrow> string" where
  "ws_url host port use_tls =
     (if use_tls then ''wss'' else ''ws'') @ ''://'' @ host @ '':'' @ show_int port @ ''/'' @ PATH_JSON_RUST_WS"

text \<open>What the code is built on: the encoding of requests and responses, and whether the receiver of
  the notifications still exists.\<close>

record ('req, 'resp) ws_env =
  we_to_json :: "'req \<Rightarrow> string"
  we_from_json :: "string \<Rightarrow> 'resp option"
  we_rx_open :: bool

section \<open>The connection that keeps itself open\<close>

datatype auto_state = A_Connecting nat | A_Online int | A_Returned

datatype 'req auto_event =
    AE_Connected bool int
  | AE_Server server_msg int
  | AE_Request "'req option"
  | AE_Tick int

text \<open>A message of the server while online, the same in both connections: \<open>off\<close> is the state after the
  connection is lost, \<open>on\<close> the one with the new time of the last message.\<close>

fun server_step :: "('req, 'resp) ws_env \<Rightarrow> ('s, 'resp) ws_step \<Rightarrow> (int \<Rightarrow> 's) \<Rightarrow> server_msg \<Rightarrow> int \<Rightarrow> ('s, 'resp) ws_step" where
  "server_step env off on Srv_End now = Crash"
| "server_step env off on Srv_Error now = off"
| "server_step env off on (Srv_Frame (F_Text text)) now =
     (case we_from_json env text of
        Some v \<Rightarrow> notify (we_rx_open env) (Ws_Response v) (on now) []
      | None \<Rightarrow> Step (on now) [])"
| "server_step env off on (Srv_Frame (F_Ping data)) now = Step (on now) [Send (F_Pong data)]"
| "server_step env off on (Srv_Frame f) now = Step (on now) []"

definition tick_step :: "('s, 'resp) ws_step \<Rightarrow> (int \<Rightarrow> 's) \<Rightarrow> int \<Rightarrow> int \<Rightarrow> ('s, 'resp) ws_step" where
  "tick_step off on last_recv now =
     (let last_recv_duration = duration_since now last_recv in
      if last_recv_duration > PONG_TIMEOUT then off
      else if last_recv_duration > PING_PERIOD then Step (on last_recv) [Send (F_Ping [])]
      else Step (on last_recv) [])"

definition auto_off :: "('req, 'resp) ws_env \<Rightarrow> string \<Rightarrow> (auto_state, 'resp) ws_step" where
  "auto_off env url = notify (we_rx_open env) Ws_Disconnected (A_Connecting 0) [Dial url None]"

fun auto_step :: "('req, 'resp) ws_env \<Rightarrow> string \<Rightarrow> auto_state \<Rightarrow> 'req auto_event \<Rightarrow> (auto_state, 'resp) ws_step" where
  "auto_step env url (A_Connecting n) (AE_Connected ok now) =
     (if ok then notify (we_rx_open env) Ws_Connected (A_Online now) []
      else Step (A_Connecting (Suc n)) [Sleep (reconnect_delay n), Dial url None])"
| "auto_step env url (A_Online last_recv) (AE_Server m now) = server_step env (auto_off env url) A_Online m now"
| "auto_step env url (A_Online last_recv) (AE_Request None) = Step A_Returned []"
| "auto_step env url (A_Online last_recv) (AE_Request (Some req)) = Step (A_Online last_recv) [Send (F_Text (we_to_json env req))]"
| "auto_step env url (A_Online last_recv) (AE_Tick now) = tick_step (auto_off env url) A_Online last_recv now"
| "auto_step env url s e = Not_Polled"

definition auto_start :: "string \<Rightarrow> auto_state \<times> 'resp ws_action list" where
  "auto_start url = (A_Connecting 0, [Dial url None])"

section \<open>The connection its user opens and closes\<close>

datatype 'req manual_request = MR_Connect string int bool | MR_Disconnect | MR_Request 'req

datatype manual_state = M_Waiting | M_Connecting string nat | M_Online string int | M_Returned

datatype 'req manual_event =
    ME_Connected bool int
  | ME_Hint bool
  | ME_Server server_msg int
  | ME_Request "'req manual_request option"
  | ME_Tick int

definition manual_off :: "('req, 'resp) ws_env \<Rightarrow> (manual_state, 'resp) ws_step" where
  "manual_off env = notify (we_rx_open env) Ws_Disconnected M_Waiting []"

fun manual_step :: "('req, 'resp) ws_env \<Rightarrow> string option \<Rightarrow> manual_state \<Rightarrow> 'req manual_event \<Rightarrow> (manual_state, 'resp) ws_step" where
  "manual_step env proxy M_Waiting (ME_Request req) = (case req of
      Some (MR_Connect host port use_tls) \<Rightarrow>
        (let url = ws_url host port use_tls in Step (M_Connecting url 0) [Dial url proxy])
    | Some _ \<Rightarrow> Step M_Waiting []
    | None \<Rightarrow> Step M_Returned [])"
| "manual_step env proxy (M_Connecting url n) (ME_Connected ok now) =
     (if ok then notify (we_rx_open env) Ws_Connected (M_Online url now) []
      else Step (M_Connecting url (Suc n)) [Sleep (reconnect_delay n), Dial url proxy])"
| "manual_step env proxy (M_Connecting url n) (ME_Hint some) =
     (if some then Step (M_Connecting url 0) [Dial url proxy] else Step M_Returned [])"
| "manual_step env proxy (M_Online url last_recv) (ME_Server m now) = server_step env (manual_off env) (M_Online url) m now"
| "manual_step env proxy (M_Online url last_recv) (ME_Request req) = (case req of
      None \<Rightarrow> Step M_Returned []
    | Some (MR_Request req) \<Rightarrow> Step (M_Online url last_recv) [Send (F_Text (we_to_json env req))]
    | Some (MR_Connect _ _ _) \<Rightarrow> Step (M_Online url last_recv) []
    | Some MR_Disconnect \<Rightarrow> manual_off env)"
| "manual_step env proxy (M_Online url last_recv) (ME_Tick now) = tick_step (manual_off env) (M_Online url) last_recv now"
| "manual_step env proxy s e = Not_Polled"

section \<open>The connection to the exchange module\<close>

datatype module_state = X_Connecting | X_Online | X_Returned

datatype module_event = XE_Connected bool | XE_Server server_msg | XE_Request "string option"

record module_server =
  ms_host :: string
  ms_port :: int

definition module_url :: "module_server \<Rightarrow> string" where
  "module_url s = ''ws://'' @ ms_host s @ '':'' @ show_int (ms_port s) @ ''/binary''"

fun module_step :: "bool \<Rightarrow> module_server \<Rightarrow> module_state \<Rightarrow> module_event \<Rightarrow> (module_state, string) ws_step" where
  "module_step rx_open server X_Connecting (XE_Connected ok) =
     (if ok then notify rx_open Ws_Connected X_Online []
      else Step X_Connecting [Sleep (from_secs 10), Dial (module_url server) None])"
| "module_step rx_open server X_Online (XE_Server m) = (case m of
      Srv_End \<Rightarrow> Step X_Returned []
    | Srv_Error \<Rightarrow> notify rx_open Ws_Disconnected X_Connecting [Sleep (from_secs 10), Dial (module_url server) None]
    | Srv_Frame (F_Binary data) \<Rightarrow> notify rx_open (Ws_Response data) X_Online []
    | Srv_Frame (F_Ping data) \<Rightarrow> Step X_Online [Send (F_Pong data)]
    | Srv_Frame _ \<Rightarrow> Step X_Online [])"
| "module_step rx_open server X_Online (XE_Request req) = (case req of
      Some data \<Rightarrow> Step X_Online [Send (F_Binary data)]
    | None \<Rightarrow> Step X_Returned [])"
| "module_step rx_open server s e = Not_Polled"

section \<open>Runs\<close>

fun ws_run :: "('s \<Rightarrow> 'e \<Rightarrow> ('s, 'resp) ws_step) \<Rightarrow> 's \<Rightarrow> 'e list \<Rightarrow> ('s, 'resp) ws_step" where
  "ws_run step s [] = Step s []"
| "ws_run step s (e # es) = (case step s e of
      Step s' acts \<Rightarrow> (case ws_run step s' es of Step s'' acts' \<Rightarrow> Step s'' (acts @ acts') | r \<Rightarrow> r)
    | r \<Rightarrow> r)"

fun notifications :: "'resp ws_action list \<Rightarrow> 'resp wrapped_response list" where
  "notifications [] = []"
| "notifications (Notify r # acts) = r # notifications acts"
| "notifications (_ # acts) = notifications acts"

lemma notifications_append [simp]: "notifications (a @ b) = notifications a @ notifications b"
  by (induction a rule: notifications.induct) auto

lemma ws_run_Cons_Step:
  "ws_run step s (e # es) = Step s' acts \<longleftrightarrow>
     (\<exists>s1 a1 a2. step s e = Step s1 a1 \<and> ws_run step s1 es = Step s' a2 \<and> acts = a1 @ a2)"
  by (auto split: ws_step.splits)

text \<open>
  What the receiver of the notifications relies on, as a specification: it is told alternately that the
  connection is up and down, and gets responses only while it is up.
\<close>

fun session :: "bool \<Rightarrow> 'resp wrapped_response list \<Rightarrow> bool option" where
  "session up [] = Some up"
| "session up (Ws_Connected # rs) = (if up then None else session True rs)"
| "session up (Ws_Disconnected # rs) = (if up then session False rs else None)"
| "session up (Ws_Response _ # rs) = (if up then session True rs else None)"

lemma session_append: "session up (a @ b) = (case session up a of None \<Rightarrow> None | Some up' \<Rightarrow> session up' b)"
  by (induction up a rule: session.induct) auto

text \<open>A connection: a machine that has the states it calls online.  A connection that has returned is
  in neither; it takes no further step.\<close>

locale ws_connection =
  fixes step :: "'s \<Rightarrow> 'e \<Rightarrow> ('s, 'resp) ws_step" and online :: "'s \<Rightarrow> bool" and returned :: "'s \<Rightarrow> bool"
  assumes step_session: "step s e = Step s' acts \<Longrightarrow> \<not> returned s'
      \<Longrightarrow> session (online s) (notifications acts) = Some (online s')"
    and step_return: "step s e = Step s' acts \<Longrightarrow> returned s' \<Longrightarrow> notifications acts = []"
    and returned_stuck: "returned s \<Longrightarrow> step s e = Not_Polled"
begin

lemma run_session:
  "ws_run step s es = Step s' acts \<Longrightarrow>
     \<exists>up. session (online s) (notifications acts) = Some up \<and> (\<not> returned s' \<longrightarrow> up = online s')"
proof (induction es arbitrary: s acts)
  case Nil
  then show ?case by auto
next
  case (Cons e es)
  then obtain s1 a1 a2 where s: "step s e = Step s1 a1" "ws_run step s1 es = Step s' a2" "acts = a1 @ a2"
    unfolding ws_run_Cons_Step by blast
  show ?case
  proof (cases "returned s1")
    case True
    with s(2) returned_stuck have "s' = s1" "a2 = []" by (cases es; simp)+
    with True s step_return show ?thesis by auto
  next
    case False
    with step_session [OF s(1)] Cons.IH [OF s(2)] s(3) show ?thesis by (auto simp: session_append)
  qed
qed

end

fun auto_online :: "auto_state \<Rightarrow> bool" where "auto_online (A_Online _) = True" | "auto_online _ = False"
fun manual_online :: "manual_state \<Rightarrow> bool" where "manual_online (M_Online _ _) = True" | "manual_online _ = False"

lemma server_step_Step:
  "server_step env off on m now = Step s' acts \<Longrightarrow>
     off = Step s' acts \<or> s' = on now \<and> (notifications acts = [] \<or> (\<exists>v. notifications acts = [Ws_Response v]))"
  by (induction env off on m now rule: server_step.induct) (auto simp: notify_def split: option.splits if_splits)

lemma tick_step_Step:
  "tick_step off on last_recv now = Step s' acts \<Longrightarrow>
     off = Step s' acts \<or> s' = on last_recv \<and> notifications acts = []"
  by (auto simp: tick_step_def Let_def split: if_splits)

interpretation auto_ws: ws_connection "auto_step env url" auto_online "(=) A_Returned"
proof
  show "session (auto_online s) (notifications acts) = Some (auto_online s')"
    if "auto_step env url s e = Step s' acts" "A_Returned \<noteq> s'" for s e s' acts
    using that by (induction env url s e rule: auto_step.induct)
      (auto simp: notify_def auto_off_def split: if_splits dest!: server_step_Step tick_step_Step)
  show "notifications acts = []" if "auto_step env url s e = Step s' acts" "A_Returned = s'" for s e s' acts
    using that by (induction env url s e rule: auto_step.induct)
      (auto simp: notify_def auto_off_def split: if_splits dest!: server_step_Step tick_step_Step)
qed auto

interpretation manual_ws: ws_connection "manual_step env proxy" manual_online "(=) M_Returned"
proof
  show "session (manual_online s) (notifications acts) = Some (manual_online s')"
    if "manual_step env proxy s e = Step s' acts" "M_Returned \<noteq> s'" for s e s' acts
    using that by (induction env proxy s e rule: manual_step.induct)
      (auto simp: notify_def manual_off_def Let_def split: if_splits option.splits manual_request.splits dest!: server_step_Step tick_step_Step)
  show "notifications acts = []" if "manual_step env proxy s e = Step s' acts" "M_Returned = s'" for s e s' acts
    using that by (induction env proxy s e rule: manual_step.induct)
      (auto simp: notify_def manual_off_def Let_def split: if_splits option.splits manual_request.splits dest!: server_step_Step tick_step_Step)
qed auto

interpretation module_ws: ws_connection "module_step rx_open server" "(=) X_Online" "(=) X_Returned"
proof
  show "session (X_Online = s) (notifications acts) = Some (X_Online = s')"
    if "module_step rx_open server s e = Step s' acts" "X_Returned \<noteq> s'" for s e s' acts
    using that by (induction rx_open server s e rule: module_step.induct)
      (auto simp: notify_def split: if_splits option.splits server_msg.splits ws_frame.splits)
  show "notifications acts = []" if "module_step rx_open server s e = Step s' acts" "X_Returned = s'" for s e s' acts
    using that by (induction rx_open server s e rule: module_step.induct)
      (auto simp: notify_def split: if_splits option.splits server_msg.splits ws_frame.splits)
qed auto

end
