(* ===== verification/Rust_State.thy ===== *)
theory Rust_State
  imports Rust_IO
begin

text \<open>
  Methods on \<open>&mut self\<close> that return a \<open>Result\<close>: computations that read and change a state,
  append events to the history, and end with a value, an error or a panic.  Unlike the outcome of a pure
  function, an error does not undo anything: the state it was raised in is the state the caller
  continues with, as in the code.

  The second half is a small program logic for them: triples with a postcondition for normal return
  and one for errors and panics, and invariants as the special case.
\<close>

named_theorems sx_rules \<open>rules for triples\<close>
named_theorems keeps_rules \<open>rules for invariants\<close>

section \<open>Computations\<close>

type_synonym ('s, 'ev, 'a) sx = "'s \<Rightarrow> 'ev list \<Rightarrow> (string, 'a) outcome \<times> 's \<times> 'ev list"

definition sx_return :: "'a \<Rightarrow> ('s, 'ev, 'a) sx" where
  "sx_return x s h = (Ok x, s, h)"

definition sx_bind :: "('s, 'ev, 'a) sx \<Rightarrow> ('a \<Rightarrow> ('s, 'ev, 'b) sx) \<Rightarrow> ('s, 'ev, 'b) sx" where
  "sx_bind m f s h = (case m s h of
      (Ok x, s', h') \<Rightarrow> f x s' h'
    | (Err e, s', h') \<Rightarrow> (Err e, s', h')
    | (Panic, s', h') \<Rightarrow> (Panic, s', h'))"

definition sx_get :: "('s \<Rightarrow> 'a) \<Rightarrow> ('s, 'ev, 'a) sx" where
  "sx_get f s h = (Ok (f s), s, h)"

definition sx_modify :: "('s \<Rightarrow> 's) \<Rightarrow> ('s, 'ev, unit) sx" where
  "sx_modify f s h = (Ok (), f s, h)"

definition sx_lift :: "(string, 'a) outcome \<Rightarrow> ('s, 'ev, 'a) sx" where
  "sx_lift r s h = (r, s, h)"

definition sx_emit :: "'ev \<Rightarrow> ('s, 'ev, unit) sx" where
  "sx_emit ev s h = (Ok (), s, h @ [ev])"

text \<open>A call to the outside: the oracle answers from the history, and the answer is recorded.\<close>

definition sx_call :: "('ev list \<Rightarrow> 'r) \<Rightarrow> ('r \<Rightarrow> 'ev) \<Rightarrow> ('s, 'ev, 'r) sx" where
  "sx_call oracle mk s h = (Ok (oracle h), s, h @ [mk (oracle h)])"

text \<open>A \<open>Result\<close> that is inspected instead of propagated.\<close>

definition sx_try :: "('s, 'ev, 'a) sx \<Rightarrow> ('s, 'ev, string + 'a) sx" where
  "sx_try m s h = (case m s h of
      (Ok x, s', h') \<Rightarrow> (Ok (Inr x), s', h')
    | (Err e, s', h') \<Rightarrow> (Ok (Inl e), s', h')
    | (Panic, s', h') \<Rightarrow> (Panic, s', h'))"

abbreviation sx_then :: "('s, 'ev, 'a) sx \<Rightarrow> ('s, 'ev, 'b) sx \<Rightarrow> ('s, 'ev, 'b) sx" where
  "sx_then m n \<equiv> sx_bind m (\<lambda>_. n)"

abbreviation sx_when :: "bool \<Rightarrow> ('s, 'ev, unit) sx \<Rightarrow> ('s, 'ev, unit) sx" where
  "sx_when b m \<equiv> (if b then m else sx_return ())"

fun sx_each :: "('x \<Rightarrow> ('s, 'ev, unit) sx) \<Rightarrow> 'x list \<Rightarrow> ('s, 'ev, unit) sx" where
  "sx_each f [] = sx_return ()"
| "sx_each f (x # xs) = sx_bind (f x) (\<lambda>_. sx_each f xs)"

lemmas sx_defs = sx_return_def sx_bind_def sx_get_def sx_modify_def sx_lift_def sx_emit_def sx_call_def sx_try_def

section \<open>Triples\<close>

fun sx_post :: "('a \<Rightarrow> 's \<Rightarrow> 'ev list \<Rightarrow> bool) \<Rightarrow> ('s \<Rightarrow> 'ev list \<Rightarrow> bool) \<Rightarrow> (string, 'a) outcome \<Rightarrow> 's \<Rightarrow> 'ev list \<Rightarrow> bool" where
  "sx_post Q E (Ok x) s h = Q x s h"
| "sx_post Q E (Err e) s h = E s h"
| "sx_post Q E Panic s h = E s h"

definition triple ::
    "('s \<Rightarrow> 'ev list \<Rightarrow> bool) \<Rightarrow> ('s, 'ev, 'a) sx \<Rightarrow> ('a \<Rightarrow> 's \<Rightarrow> 'ev list \<Rightarrow> bool) \<Rightarrow> ('s \<Rightarrow> 'ev list \<Rightarrow> bool) \<Rightarrow> bool" where
  "triple P m Q E \<longleftrightarrow> (\<forall>s h r s' h'. P s h \<longrightarrow> m s h = (r, s', h') \<longrightarrow> sx_post Q E r s' h')"

lemma tripleI: "(\<And>s h r s' h'. P s h \<Longrightarrow> m s h = (r, s', h') \<Longrightarrow> sx_post Q E r s' h') \<Longrightarrow> triple P m Q E"
  by (simp add: triple_def)

lemma tripleD: "triple P m Q E \<Longrightarrow> P s h \<Longrightarrow> m s h = (r, s', h') \<Longrightarrow> sx_post Q E r s' h'"
  by (simp add: triple_def)

lemma sx_post_weaken:
  "sx_post Q E r s h \<Longrightarrow> (\<And>x. Q x s h \<Longrightarrow> Q' x s h) \<Longrightarrow> (E s h \<Longrightarrow> E' s h) \<Longrightarrow> sx_post Q' E' r s h"
  by (cases r) auto

lemma triple_weaken:
  assumes "triple P m Q E" "\<And>s h. P' s h \<Longrightarrow> P s h" "\<And>x s h. Q x s h \<Longrightarrow> Q' x s h" "\<And>s h. E s h \<Longrightarrow> E' s h"
  shows "triple P' m Q' E'"
  by (rule tripleI) (use assms tripleD sx_post_weaken in metis)

lemma triple_return: "(\<And>s h. P s h \<Longrightarrow> Q x s h) \<Longrightarrow> triple P (sx_return x) Q E"
  by (rule tripleI) (auto simp: sx_defs)

lemma triple_bind:
  assumes "triple P m R E" and "\<And>x. triple (R x) (f x) Q E"
  shows "triple P (sx_bind m f) Q E"
proof (rule tripleI)
  fix s h r s' h'
  assume P: "P s h" and run: "sx_bind m f s h = (r, s', h')"
  obtain r1 s1 h1 where m: "m s h = (r1, s1, h1)" by (cases "m s h") auto
  have R: "sx_post R E r1 s1 h1" by (rule tripleD [OF assms(1) P m])
  show "sx_post Q E r s' h'"
  proof (cases r1)
    case (Ok x)
    with run m have "f x s1 h1 = (r, s', h')" by (simp add: sx_bind_def)
    moreover have "R x s1 h1" using R Ok by simp
    ultimately show ?thesis using tripleD [OF assms(2)] by blast
  qed (use run m R in \<open>auto simp: sx_bind_def\<close>)
qed

lemma triple_get: "(\<And>s h. P s h \<Longrightarrow> Q (f s) s h) \<Longrightarrow> triple P (sx_get f) Q E"
  by (rule tripleI) (auto simp: sx_defs)

lemma triple_get_bind: "(\<And>x. triple (\<lambda>s h. P s h \<and> x = f s) (g x) Q E) \<Longrightarrow> triple P (sx_bind (sx_get f) g) Q E"
  by (rule triple_bind [where R = "\<lambda>x s h. P s h \<and> x = f s"]) (auto intro: triple_get)

lemma triple_modify: "(\<And>s h. P s h \<Longrightarrow> Q () (f s) h) \<Longrightarrow> triple P (sx_modify f) Q E"
  by (rule tripleI) (auto simp: sx_defs)

lemma triple_lift:
  "(\<And>s h x. P s h \<Longrightarrow> r = Ok x \<Longrightarrow> Q x s h) \<Longrightarrow> (\<And>s h. P s h \<Longrightarrow> E s h) \<Longrightarrow> triple P (sx_lift r) Q E"
  by (rule tripleI, cases r) (auto simp: sx_defs)

lemma triple_emit: "(\<And>s h. P s h \<Longrightarrow> Q () s (h @ [ev])) \<Longrightarrow> triple P (sx_emit ev) Q E"
  by (rule tripleI) (auto simp: sx_defs)

lemma triple_call: "(\<And>s h x. P s h \<Longrightarrow> Q x s (h @ [mk x])) \<Longrightarrow> triple P (sx_call oracle mk) Q E"
  by (rule tripleI) (auto simp: sx_defs)

lemma triple_try:
  assumes "triple P m (\<lambda>x. Q (Inr x)) (\<lambda>s h. E s h \<and> (\<forall>e. Q (Inl e) s h))"
  shows "triple P (sx_try m) Q E"
proof (rule tripleI)
  fix s h r s' h'
  assume P: "P s h" and run: "sx_try m s h = (r, s', h')"
  obtain r1 s1 h1 where m: "m s h = (r1, s1, h1)" by (cases "m s h") auto
  with tripleD [OF assms P m] run show "sx_post Q E r s' h'" by (cases r1) (auto simp: sx_try_def)
qed

lemma triple_if:
  "(b \<Longrightarrow> triple P m Q E) \<Longrightarrow> (\<not> b \<Longrightarrow> triple P n Q E) \<Longrightarrow> triple P (if b then m else n) Q E"
  by simp

lemma triple_option:
  "(x = None \<Longrightarrow> triple P m Q E) \<Longrightarrow> (\<And>v. x = Some v \<Longrightarrow> triple P (f v) Q E)
    \<Longrightarrow> triple P (case x of None \<Rightarrow> m | Some v \<Rightarrow> f v) Q E"
  by (cases x) auto

lemma triple_sum:
  "(\<And>e. x = Inl e \<Longrightarrow> triple P (f e) Q E) \<Longrightarrow> (\<And>v. x = Inr v \<Longrightarrow> triple P (g v) Q E)
    \<Longrightarrow> triple P (case x of Inl e \<Rightarrow> f e | Inr v \<Rightarrow> g v) Q E"
  by (cases x) auto

lemma triple_prod: "(\<And>a b. x = (a, b) \<Longrightarrow> triple P (f a b) Q E) \<Longrightarrow> triple P (case x of (a, b) \<Rightarrow> f a b) Q E"
  by (cases x) auto

lemma triple_pure: "(\<And>s h. P s h \<Longrightarrow> b) \<Longrightarrow> (b \<Longrightarrow> triple P m Q E) \<Longrightarrow> triple P m Q E"
  by (rule tripleI) (auto dest: tripleD)

section \<open>Invariants\<close>

definition keeps :: "('s \<Rightarrow> 'ev list \<Rightarrow> bool) \<Rightarrow> ('s, 'ev, 'a) sx \<Rightarrow> bool" where
  "keeps I m \<longleftrightarrow> triple I m (\<lambda>_. I) I"

lemma keeps_return [keeps_rules]: "keeps I (sx_return x)"
  unfolding keeps_def by (rule triple_return)

lemma keeps_bind [keeps_rules]: "keeps I m \<Longrightarrow> (\<And>x. keeps I (f x)) \<Longrightarrow> keeps I (sx_bind m f)"
  unfolding keeps_def by (rule triple_bind)

lemma keeps_get [keeps_rules]: "keeps I (sx_get f)"
  unfolding keeps_def by (rule triple_get)

lemma keeps_lift [keeps_rules]: "keeps I (sx_lift r)"
  unfolding keeps_def by (rule triple_lift)

lemma keeps_modify: "(\<And>s h. I s h \<Longrightarrow> I (f s) h) \<Longrightarrow> keeps I (sx_modify f)"
  unfolding keeps_def by (rule triple_modify)

lemma keeps_emit: "(\<And>s h. I s h \<Longrightarrow> I s (h @ [ev])) \<Longrightarrow> keeps I (sx_emit ev)"
  unfolding keeps_def by (rule triple_emit)

lemma keeps_call: "(\<And>x s h. I s h \<Longrightarrow> I s (h @ [mk x])) \<Longrightarrow> keeps I (sx_call oracle mk)"
  unfolding keeps_def by (rule triple_call)

lemma keeps_try [keeps_rules]: "keeps I m \<Longrightarrow> keeps I (sx_try m)"
  unfolding keeps_def by (rule triple_try) (auto elim: triple_weaken)

lemma keeps_if [keeps_rules]: "(b \<Longrightarrow> keeps I m) \<Longrightarrow> (\<not> b \<Longrightarrow> keeps I n) \<Longrightarrow> keeps I (if b then m else n)"
  by simp

lemma keeps_option [keeps_rules]:
  "(x = None \<Longrightarrow> keeps I m) \<Longrightarrow> (\<And>v. x = Some v \<Longrightarrow> keeps I (f v)) \<Longrightarrow> keeps I (case x of None \<Rightarrow> m | Some v \<Rightarrow> f v)"
  by (cases x) auto

lemma keeps_sum [keeps_rules]:
  "(\<And>e. x = Inl e \<Longrightarrow> keeps I (f e)) \<Longrightarrow> (\<And>v. x = Inr v \<Longrightarrow> keeps I (g v)) \<Longrightarrow> keeps I (case x of Inl e \<Rightarrow> f e | Inr v \<Rightarrow> g v)"
  by (cases x) auto

lemma keeps_prod [keeps_rules]: "(\<And>a b. x = (a, b) \<Longrightarrow> keeps I (f a b)) \<Longrightarrow> keeps I (case x of (a, b) \<Rightarrow> f a b)"
  by (cases x) auto

lemma keeps_each [keeps_rules]: "(\<And>x. x \<in> set xs \<Longrightarrow> keeps I (f x)) \<Longrightarrow> keeps I (sx_each f xs)"
  by (induction xs) (auto intro!: keeps_bind keeps_return)

lemma sx_keepsI: "(\<And>s h r s' h'. I s h \<Longrightarrow> m s h = (r, s', h') \<Longrightarrow> I s' h') \<Longrightarrow> keeps I m"
  unfolding keeps_def by (rule tripleI) (rename_tac s h r s' h', case_tac r, auto)

lemma keepsD: "keeps I m \<Longrightarrow> I s h \<Longrightarrow> m s h = (r, s', h') \<Longrightarrow> I s' h'"
  unfolding keeps_def by (drule (2) tripleD) (cases r, auto)

section \<open>Event loops\<close>

text \<open>A run of a worker: each message is handled in the state the previous one left.  A panic ends the
  real worker; the runs here may go on, so there are more of them and an invariant of all is an invariant
  of the real ones, up to and including what a panicking handler did.\<close>

inductive sx_reaches :: "('msg \<Rightarrow> ('s, 'ev, unit) sx) \<Rightarrow> 's \<Rightarrow> 'ev list \<Rightarrow> 's \<Rightarrow> 'ev list \<Rightarrow> bool"
  for handle s h where
  sx_refl: "sx_reaches handle s h s h"
| sx_step: "sx_reaches handle s h s1 h1 \<Longrightarrow> handle m s1 h1 = (r, s2, h2) \<Longrightarrow> sx_reaches handle s h s2 h2"

locale sx_loop =
  fixes handle :: "'msg \<Rightarrow> ('s, 'ev, unit) sx"
    and inv :: "'s \<Rightarrow> 'ev list \<Rightarrow> bool"
  assumes handle_keeps: "keeps inv (handle m)"
begin

lemma reaches_inv: "sx_reaches handle s h s' h' \<Longrightarrow> inv s h \<Longrightarrow> inv s' h'"
  by (induction rule: sx_reaches.induct) (auto dest: keepsD [OF handle_keeps])

end

end
