(* ===== verification/Client_Types.thy ===== *)
theory Client_Types
  imports Api_Types Ws Rust_State
begin

text \<open>
  The data of the desktop and mobile client (\<open>sideswap_client/src/worker.rs\<close>): what it keeps
  (\<open>Data\<close>), what the user interface asks and is told (\<open>ffi/sideswap.proto\<close>), what it
  exchanges with the server, and what it sees of the wallets (the trait \<open>GdkSes\<close>) and of the
  system.

  Identifiers that the program only compares, stores and prints are kept as values in messages to the
  user interface; messages from it carry text, which is parsed.  Wallets, the server, the file system
  and the clock answer through the fields of \<open>cl_world\<close>, functions of everything that happened
  before, so a statement about every \<open>cl_world\<close> is one about every behaviour of theirs.
\<close>

section \<open>Identifiers\<close>

text \<open>\<open>Hash32\<close>: 32 bytes, printed in reverse order as hexadecimal text.\<close>

definition hex_char :: "int \<Rightarrow> char" where
  "hex_char n = (if n < 10 then char_of (n + 48) else char_of (n + 87))"

definition hex_value :: "char \<Rightarrow> int option" where
  "hex_value c = (let n = of_char c :: int in
     if 48 \<le> n \<and> n \<le> 57 then Some (n - 48)
     else if 97 \<le> n \<and> n \<le> 102 then Some (n - 87)
     else if 65 \<le> n \<and> n \<le> 70 then Some (n - 55)
     else None)"

fun hex_encode :: "string \<Rightarrow> string" where
  "hex_encode [] = []"
| "hex_encode (b # bs) = hex_char (of_char b div 16) # hex_char (of_char b mod 16) # hex_encode bs"

fun hex_decode :: "string \<Rightarrow> string option" where
  "hex_decode [] = Some []"
| "hex_decode [c] = None"
| "hex_decode (c # d # cs) = (case (hex_value c, hex_value d, hex_decode cs) of
      (Some x, Some y, Some bs) \<Rightarrow> Some (char_of (16 * x + y) # bs)
    | _ \<Rightarrow> None)"

definition hash32_from_str :: "string \<Rightarrow> hash32 option" where
  "hash32_from_str s = (if length s = 64 then map_option rev (hex_decode s) else None)"

definition hash32_to_string :: "hash32 \<Rightarrow> string" where
  "hash32_to_string data = hex_encode (rev data)"

lemma hex_value_char [simp]: "0 \<le> n \<Longrightarrow> n < 16 \<Longrightarrow> hex_value (hex_char n) = Some n"
  by (auto simp: hex_value_def hex_char_def Let_def)

lemma hex_decode_encode [simp]: "hex_decode (hex_encode bs) = Some bs"
proof (induction bs)
  case (Cons b bs)
  have "int (of_char b) < 256" using nat_of_char_less_256 [of b] by linarith
  then have b: "0 \<le> (of_char b :: int)" "of_char b < (256 :: int)" using of_nat_0_le_iff [of "of_char b", where 'a = int] by (simp_all only: of_nat_of_char)
  then have "0 \<le> of_char b div (16 :: int)" "of_char b div 16 < (16 :: int)" by auto
  then show ?case using Cons by simp
qed simp

lemma length_hex_encode [simp]: "length (hex_encode bs) = 2 * length bs"
  by (induction bs) auto

lemma hash32_roundtrip: "length data = 32 \<Longrightarrow> hash32_from_str (hash32_to_string data) = Some data"
  by (simp add: hash32_from_str_def hash32_to_string_def)

lemma hash32_to_string_inj [simp]: "hash32_to_string a = hash32_to_string b \<longleftrightarrow> a = b"
proof
  assume "hash32_to_string a = hash32_to_string b"
  then have "hex_decode (hash32_to_string a) = hex_decode (hash32_to_string b)" by simp
  then show "a = b" by (simp add: hash32_to_string_def)
qed simp

type_synonym account_id = int

definition ACCOUNT_ID_REG :: account_id where "ACCOUNT_ID_REG = 0"
definition ACCOUNT_ID_AMP :: account_id where "ACCOUNT_ID_AMP = 1"
definition TX_CONF_COUNT_LIQUID :: int where "TX_CONF_COUNT_LIQUID = 2"
definition CLIENT_API_KEY :: string where
  "CLIENT_API_KEY = ''f8b7a12ee96aa68ee2b12ebfc51d804a4a404c9732652c298d24099a3d922a84''"
definition USER_AGENT :: string where "USER_AGENT = ''SideSwapApp''"

text \<open>In seconds.\<close>

definition IDLE_TIMER :: int where "IDLE_TIMER = 60"
definition AMP_CONNECTION_CHECK_PERIOD :: int where "AMP_CONNECTION_CHECK_PERIOD = 2400 - IDLE_TIMER"

section \<open>Orders, swaps and pegs\<close>

record submit_data =
  sb_order_id :: order_id
  sb_side :: order_side
  sb_asset :: asset_id
  sb_asset_precision :: nat
  sb_order_type :: order_type
  sb_bitcoin_amount :: amount
  sb_asset_amount :: amount
  sb_price :: f64
  sb_server_fee :: amount
  sb_sell_bitcoin :: bool
  sb_txouts :: "tx_out list"
  sb_auto_sign :: bool
  sb_txid :: "txid option"
  sb_index_price :: bool
  sb_market :: market_type
  sb_signed :: bool

record link_response =
  lk_order_id :: order_id
  lk_details :: details
  lk_index_price :: bool

record swap_amounts =
  am_send_asset :: asset_id
  am_send_amount :: u64
  am_recv_asset :: asset_id
  am_recv_amount :: u64

record active_swap =
  aw_order_id :: order_id
  aw_send_asset :: asset_id
  aw_recv_asset :: asset_id
  aw_send_amount :: u64
  aw_recv_amount :: u64

record peg_out_amounts =
  pa_send_amount :: i64
  pa_recv_amount :: i64
  pa_is_send_entered :: bool
  pa_fee_rate :: f64

record peg_request =
  pr_recv_addr :: string
  pr_send_amount :: "i64 option"
  pr_peg_in :: bool
  pr_device_key :: "string option"
  pr_blocks :: "int option"
  pr_peg_out_amounts :: "peg_out_amounts option"

record tx_status =
  ts_tx_hash :: string
  ts_vout :: int
  ts_amount :: i64
  ts_payout :: "i64 option"
  ts_detected_confs :: "int option"
  ts_total_confs :: "int option"
  ts_created_at :: timestamp
  ts_payout_txid :: "string option"

record peg_status =
  ps_order_id :: order_id
  ps_peg_in :: bool
  ps_addr :: string
  ps_addr_recv :: string
  ps_list :: "tx_status list"

datatype peg_dir = Peg_In | Peg_Out

record start_swap_client =
  sc_price :: f64
  sc_asset :: asset_id
  sc_send_bitcoins :: bool
  sc_send_amount :: i64
  sc_recv_amount :: i64
  sc_inputs :: "pset_input list"
  sc_recv_addr :: address
  sc_change_addr :: address

record price_stream_request =
  sp_subscribe_id :: "string option"
  sp_asset :: asset_id
  sp_send_bitcoins :: bool
  sp_send_amount :: "i64 option"
  sp_recv_amount :: "i64 option"

record price_stream =
  su_asset :: asset_id
  su_send_bitcoins :: bool
  su_send_amount :: "i64 option"
  su_recv_amount :: "i64 option"
  su_price :: "f64 option"
  su_error_msg :: "string option"

record chart_point =
  cp_time :: string
  cp_open :: f64
  cp_close :: f64
  cp_high :: f64
  cp_low :: f64
  cp_volume :: f64

record asset_stats =
  at_issued_amount :: i64
  at_burned_amount :: i64
  at_offline_amount :: "i64 option"
  at_has_blinded_issuances :: bool

record asset_details_response =
  ad_asset_id :: asset_id
  ad_chain_stats :: "asset_stats option"
  ad_chart_url :: "string option"
  ad_chart_stats :: "(f64 \<times> f64 \<times> f64) option"

section \<open>Wallets\<close>

record unspent_output =
  uo_txhash :: txid
  uo_vout :: int
  uo_prevout_script :: script
  uo_asset_id :: asset_id
  uo_satoshi :: u64
  uo_amountblinder :: blinding_factor
  uo_assetblinder :: blinding_factor
  uo_public_key :: "string option"

type_synonym unspent_outputs = "(asset_id, unspent_output list) btree_map"

record address_info =
  ai_address :: address
  ai_pointer :: int
  ai_data :: string

record balance =
  bl_asset :: asset_id
  bl_value :: i64

record wallet_transaction =
  wt_txid :: txid
  wt_network_fee :: int
  wt_size :: int
  wt_vsize :: int
  wt_memo :: string
  wt_balances :: "balance list"
  wt_created_at :: i64
  wt_block_height :: int
  wt_balances_all :: "balance list"
  wt_max_pointer_external :: int
  wt_max_pointer_internal :: int

record xpub_info =
  xp_single_sig_account :: string
  xp_multi_sig_service_xpub :: string
  xp_multi_sig_user_xpub :: string

record reg_info =
  ri_jade_watch_only :: "string option"
  ri_multi_sig_service_xpub :: string
  ri_multi_sig_user_path :: "int list"

record sig_single_maker =
  sm_proposal :: string
  sm_chaining_tx :: "string option"
  sm_unspent_output :: unspent_output

text \<open>\<open>GA_psbt_get_details\<close>: the effect of a transaction on the wallet's balance, by asset.\<close>

record pset_details =
  pd_satoshi :: "(asset_id, i64) btree_map"
  pd_fee :: "i64 option"

record create_tx =
  ct_addr :: string
  ct_balance :: balance
  ct_is_contact :: bool
  ct_account :: account_id

record tx_addressee =
  ta_address :: string
  ta_satoshi :: u64
  ta_asset_id :: asset_id

record create_transaction_result =
  cx_addressees :: "tx_addressee list"
  cx_transaction_outputs :: "(string option \<times> u64) list"
  cx_transaction :: "(nat \<times> nat \<times> nat) option"
  cx_fee :: "u64 option"
  cx_fee_rate :: "u64 option"
  cx_transaction_vsize :: "u64 option"

record address_amount =
  aa_address :: string
  aa_amount :: i64
  aa_asset_id :: asset_id

record created_tx =
  cd_req :: create_tx
  cd_input_count :: int
  cd_output_count :: int
  cd_size :: i64
  cd_vsize :: i64
  cd_network_fee :: i64
  cd_fee_per_byte :: f64
  cd_addressees :: "address_amount list"

record ui_create_payjoin =
  cj_account :: account_id
  cj_addr :: string
  cj_balance :: balance

record ui_created_payjoin =
  cq_req :: ui_create_payjoin
  cq_pset :: string
  cq_asset_fee :: i64

text \<open>For which deal a transaction is signed: an order, an instant swap, or a swap accepted from a
  link.\<close>

datatype deal = For_Order order_id | For_Swap order_id | For_Link order_id

datatype (plugins only: code) wallet_action =
    WC_Login
  | WC_Connect
  | WC_Disconnect
  | WC_Gaid
  | WC_UnlockHww
  | WC_SyncInterval int
  | WC_Balances
  | WC_Transactions
  | WC_ReceiveAddress
  | WC_ChangeAddress
  | WC_CreateTx create_tx
  | WC_SendTx string
  | WC_CreatePayjoin ui_create_payjoin
  | WC_SendPayjoin ui_created_payjoin
  | WC_Utxos
  | WC_TxFee asset_id i64 string
  | WC_MakePegout i64 string i64
  | WC_BlindedValues string
  | WC_PreviousAddresses "int option" bool
  | WC_SigSingleMaker asset_id u64 asset_id u64 address_info
  | WC_PsbtDetails string "string + pset_details"
  | WC_PsbtSign deal swap_amounts string "string list"
  | WC_SetMemo string string

section \<open>Messages of the server\<close>

datatype (plugins only: code) client_request =
    CR_Ping
  | CR_ServerStatus
  | CR_Assets
  | CR_AmpAssets
  | CR_Peg peg_request
  | CR_PegStatus order_id "bool option"
  | CR_PriceUpdateSubscribe asset_id
  | CR_LoginClient string "string option" string string
  | CR_VerifyDevice string
  | CR_RegisterDevice int
  | CR_RegisterAddresses string "string list"
  | CR_UpdatePushToken string string
  | CR_LoadPrices asset_id
  | CR_CancelPrices asset_id
  | CR_PortfolioPrices
  | CR_Submit price_order
  | CR_Edit order_id "f64 option" "f64 option"
  | CR_Cancel order_id
  | CR_Login "hash32 option"
  | CR_Subscribe "asset_id option"
  | CR_Unsubscribe "asset_id option"
  | CR_Link order_id
  | CR_PsetMaker pset_maker_request
  | CR_PsetTaker pset_taker_request
  | CR_Sign sign_request
  | CR_GetSign order_id
  | CR_ResolveGaid order_id string
  | CR_GaidStatus string asset_id
  | CR_AssetDetails asset_id
  | CR_SubscribePriceStream price_stream_request
  | CR_UnsubscribePriceStream "string option"
  | CR_StartSwapClient start_swap_client
  | CR_SignedSwapClient order_id string
  | CR_MarketDataSubscribe asset_id
  | CR_MarketDataUnsubscribe asset_id

datatype (plugins only: code) client_response =
    CA_Ping
  | CA_ServerStatus server_status
  | CA_Assets "asset list"
  | CA_AmpAssets "asset list"
  | CA_Peg order_id string
  | CA_PegStatus peg_status
  | CA_LoginClient string
  | CA_VerifyDevice bool
  | CA_RegisterDevice string
  | CA_PortfolioPrices "(asset_id, f64) btree_map"
  | CA_LoadPrices asset_id "f64 option" "f64 option"
  | CA_Submit order_id details
  | CA_Edit
  | CA_Login hash32 "order_created list"
  | CA_Subscribe "asset_id option" "order_created list"
  | CA_Unsubscribe "asset_id option"
  | CA_Link link_response
  | CA_PsetMaker
  | CA_PsetTaker
  | CA_Sign
  | CA_GetSign sign_notification
  | CA_ResolveGaid address
  | CA_GaidStatus "string option"
  | CA_AssetDetails asset_details_response
  | CA_SubscribePriceStream price_stream
  | CA_UnsubscribePriceStream
  | CA_StartSwapClient order_id
  | CA_SignedSwapClient
  | CA_MarketDataSubscribe asset_id "chart_point list"
  | CA_MarketDataUnsubscribe
  | CA_Other

datatype (plugins only: code) client_notification =
    CN_ServerStatus server_status
  | CN_PegStatus peg_status
  | CN_PriceUpdate asset_id price_pair
  | CN_LocalMessage string string
  | CN_UpdatePrices asset_id "f64 option" "f64 option"
  | CN_OrderCreated order_created
  | CN_OrderRemoved order_id
  | CN_Sign sign_notification
  | CN_Complete complete_notification
  | CN_UpdatePriceStream price_stream
  | CN_BlindedSwapClient order_id string
  | CN_SwapDone swap_done
  | CN_MarketDataUpdate asset_id chart_point
  | CN_Other

type_synonym server_result = "api_error + client_response"

fun error_code_name :: "error_code \<Rightarrow> string" where
  "error_code_name ParseError = ''ParseError''"
| "error_code_name InvalidRequest = ''InvalidRequest''"
| "error_code_name MethodNotFound = ''MethodNotFound''"
| "error_code_name InvalidParams = ''InvalidParams''"
| "error_code_name InternalError = ''InternalError''"
| "error_code_name ServerError = ''ServerError''"

definition api_error_text :: "api_error \<Rightarrow> string" where
  "api_error_text e = error_code_name (ae_code e) @ '': '' @ ae_message e"

section \<open>Messages of the user interface\<close>

datatype network_selected = NS_Blockstream | NS_Sideswap | NS_SideswapCn | NS_Custom string int bool

datatype login_wallet = LW_Mnemonic string | LW_JadeId string

record login_req =
  lr_wallet :: "login_wallet option"
  lr_network :: "network_selected option"
  lr_send_utxo_updates :: "bool option"
  lr_force_auto_sign_maker :: "bool option"

record ui_submit_order =
  so_account :: account_id
  so_asset_id :: string
  so_bitcoin_amount :: "f64 option"
  so_asset_amount :: "f64 option"
  so_price :: f64
  so_index_price :: "f64 option"

record submit_decision =
  de_order_id :: string
  de_accept :: bool
  de_auto_sign :: "bool option"
  de_private :: "bool option"
  de_two_step :: "bool option"
  de_ttl_seconds :: "u64 option"
  de_tx_chaining_allowed :: "bool option"
  de_only_unused_utxos :: "bool option"

datatype edit_data = Edit_Price f64 | Edit_IndexPrice f64 | Edit_AutoSign bool

record swap_request =
  sw_send_bitcoins :: bool
  sw_asset :: string
  sw_send_amount :: i64
  sw_recv_amount :: i64
  sw_price :: f64

record swap_details =
  sl_order_id :: string
  sl_send_asset :: string
  sl_recv_asset :: string
  sl_send_amount :: i64
  sl_recv_amount :: i64
  sl_upload_url :: string

record peg_out_amount_to =
  pt_amount :: i64
  pt_is_send_entered :: bool
  pt_fee_rate :: f64
  pt_account :: account_id

record peg_out_request =
  pq_send_amount :: i64
  pq_recv_addr :: string
  pq_blocks :: int
  pq_account :: account_id

record price_stream_to =
  px_asset_id :: string
  px_send_bitcoins :: bool
  px_send_amount :: "i64 option"
  px_recv_amount :: "i64 option"

datatype (plugins only: code) to_msg =
    TM_Login login_req
  | TM_Logout
  | TM_ChangeNetwork "network_selected option"
  | TM_UpdatePushToken string
  | TM_EncryptPin string string
  | TM_DecryptPin string string string string
  | TM_PushMessage string
  | TM_AppState bool
  | TM_SetMemo account_id string string
  | TM_GetRecvAddress account_id
  | TM_CreateTx create_tx
  | TM_SendTx account_id
  | TM_CreatePayjoin ui_create_payjoin
  | TM_SendPayjoin ui_created_payjoin
  | TM_BlindedValues string
  | TM_SwapRequest swap_request
  | TM_PegInRequest
  | TM_PegOutAmount peg_out_amount_to
  | TM_PegOutRequest peg_out_request
  | TM_SwapAccept swap_details
  | TM_RegisterPhone
  | TM_VerifyPhone
  | TM_UnregisterPhone
  | TM_UploadAvatar
  | TM_UploadContacts
  | TM_SubmitOrder ui_submit_order
  | TM_LinkOrder string
  | TM_SubmitDecision submit_decision
  | TM_EditOrder string "edit_data option"
  | TM_CancelOrder string
  | TM_Subscribe "string option list"
  | TM_AssetDetails string
  | TM_SubscribePrice string
  | TM_UnsubscribePrice string
  | TM_SubscribePriceStream price_stream_to
  | TM_UnsubscribePriceStream
  | TM_MarketDataSubscribe string
  | TM_MarketDataUnsubscribe
  | TM_PortfolioPrices
  | TM_JadeRescan
  | TM_GaidStatus string string

record ui_asset =
  ua_asset :: asset
  ua_icon :: string
  ua_swap_market :: bool
  ua_amp_market :: bool
  ua_unregistered :: bool
  ua_instant_swaps :: bool

record ui_order =
  od_order_id :: order_id
  od_asset_id :: asset_id
  od_bitcoin_amount :: i64
  od_send_bitcoins :: bool
  od_server_fee :: i64
  od_asset_amount :: i64
  od_price :: f64
  od_created_at :: timestamp
  od_expires_at :: "timestamp option"
  od_private :: bool
  od_two_step :: bool
  od_auto_sign :: bool
  od_own :: bool
  od_token_market :: bool
  od_from_notification :: bool
  od_index_price :: "f64 option"

record ui_tx =
  ut_balances :: "balance list"
  ut_txid :: txid
  ut_network_fee :: i64
  ut_size :: i64
  ut_vsize :: i64
  ut_memo :: string
  ut_balances_all :: "balance list"

record ui_peg =
  up_is_peg_in :: bool
  up_amount_send :: i64
  up_amount_recv :: i64
  up_addr_send :: string
  up_addr_recv :: string
  up_txid_send :: string
  up_txid_recv :: "string option"

datatype trans_item_kind = Item_Tx ui_tx | Item_Peg ui_peg

text \<open>The id of an item is the account and the transaction, or the transaction and its output.\<close>

datatype trans_item_id = Tx_Item account_id txid | Peg_Item string int

record trans_item =
  ti_id :: trans_item_id
  ti_created_at :: timestamp
  ti_confs :: "(int \<times> int) option"
  ti_account :: account_id
  ti_item :: trans_item_kind

datatype review_step = Step_Submit | Step_Quote | Step_Sign

record submit_review =
  rv_order_id :: order_id
  rv_asset :: asset_id
  rv_bitcoin_amount :: i64
  rv_server_fee :: i64
  rv_asset_amount :: i64
  rv_price :: f64
  rv_sell_bitcoin :: bool
  rv_step :: review_step
  rv_index_price :: bool
  rv_auto_sign :: bool
  rv_two_step :: "bool option"
  rv_tx_chaining_required :: "bool option"

datatype submit_result =
    SR_SubmitSucceed
  | SR_SwapSucceed trans_item
  | SR_Error string
  | SR_UnregisteredGaid string

record jade_port =
  jp_jade_id :: string
  jp_port_name :: string
  jp_serial :: string
  jp_version :: string
  jp_state :: int

datatype (plugins only: code) from_msg =
    FM_Login "string + unit"
  | FM_Logout
  | FM_EnvSettings string string string
  | FM_RegisterAmp string
  | FM_UpdatedTxs "trans_item list"
  | FM_RemovedTxs "txid list"
  | FM_UpdatedPegs order_id "trans_item list"
  | FM_NewAsset ui_asset
  | FM_AmpAssets "asset_id list"
  | FM_BalanceUpdate account_id "(asset_id \<times> i64) list"
  | FM_UtxoUpdate account_id "(txid \<times> int \<times> asset_id \<times> u64) list"
  | FM_ServerStatus i64 i64 f64 f64 "fee_rate list"
  | FM_PriceUpdate asset_id f64 f64
  | FM_WalletLoaded
  | FM_SyncComplete
  | FM_EncryptPin "string + string \<times> string \<times> string"
  | FM_DecryptPin "string + string"
  | FM_PeginWaitTx string string
  | FM_PegOutAmount "string + peg_out_amounts \<times> account_id"
  | FM_SwapSucceed trans_item
  | FM_SwapFailed string
  | FM_RecvAddress address account_id
  | FM_CreateTxResult "string + created_tx"
  | FM_CreatePayjoinResult "string + ui_created_payjoin"
  | FM_SendResult "string + trans_item"
  | FM_BlindedValues string "string list"
  | FM_ShowMessage string
  | FM_InsufficientFunds asset_id i64 i64
  | FM_SubmitReview submit_review
  | FM_SubmitResult submit_result
  | FM_EditOrder bool "string option"
  | FM_CancelOrder bool "string option"
  | FM_StartTimer order_id
  | FM_ServerConnected
  | FM_ServerDisconnected
  | FM_OrderCreated ui_order bool
  | FM_OrderRemoved order_id
  | FM_OrderComplete order_id "txid option"
  | FM_IndexPrice asset_id "f64 option" "f64 option"
  | FM_AssetDetails asset_details_response
  | FM_UpdatePriceStream price_stream
  | FM_LocalMessage string string
  | FM_MarketDataSubscribe asset_id "chart_point list"
  | FM_MarketDataUpdate asset_id chart_point
  | FM_PortfolioPrices "(asset_id \<times> f64) list"
  | FM_JadePorts "jade_port list"
  | FM_GaidStatus string string "string option"

section \<open>Messages of the worker\<close>

datatype connection_state = CS_Disconnected | CS_Connected | CS_Exited

record gdk_notification =
  gn_event :: string
  gn_block :: "int option"
  gn_subaccount :: "string option"
  gn_network :: "connection_state option"

text \<open>\<open>worker::Message\<close>.  The sender of a background message is known by a number.\<close>

datatype (plugins only: code) cl_msg =
    M_Ui to_msg
  | M_ServerConnected
  | M_ServerDisconnected
  | M_ServerNotification client_notification
  | M_AsyncResp request_id server_result
  | M_Notif account_id gdk_notification
  | M_PegStatus peg_status
  | M_Subscribe "asset_id option" "order_created list"
  | M_Unsubscribe "asset_id option"
  | M_MarketDataResponse asset_id "chart_point list"
  | M_AssetDetails asset_details_response
  | M_BackgroundMessage string nat
  | M_IdleTimer

text \<open>\<open>fcm_models::FcmMessage\<close>: only a request to sign is acted on.\<close>

datatype fcm_message = FCM_Sign order_id | FCM_Other

datatype http_request =
    HR_SwapStart order_id "pset_input list" address address asset_id i64 asset_id i64
  | HR_SwapSign order_id string string

datatype http_response = HA_SwapStart string string | HA_SwapSign txid

section \<open>The state\<close>

text \<open>The closures kept in \<open>async_requests\<close>, with what they capture.\<close>

datatype callback =
    CB_CancelOrder
  | CB_PortfolioPrices
  | CB_UpdatePushToken
  | CB_SingleSig bool int
  | CB_MultiSig int
  | CB_GaidStatus string string

record settings =
  st_pegs :: "(order_id \<times> peg_dir) list option"
  st_device_key :: "string option"
  st_single_sig_registered :: "int \<times> int"
  st_multi_sig_registered :: int
  st_session_id :: "hash32 option"
  st_amp_prev_addrs_v2 :: "(int \<times> address_info list) option"
  st_master_pub_key :: "string option"
  st_reg_info_v3 :: "reg_info option"

definition settings_default :: settings where
  "settings_default = \<lparr> st_pegs = None, st_device_key = None, st_single_sig_registered = (0, 0),
     st_multi_sig_registered = 0, st_session_id = None, st_amp_prev_addrs_v2 = None,
     st_master_pub_key = None, st_reg_info_v3 = None \<rparr>"

record cl_data =
  dt_app_active :: bool
  dt_amp_active :: bool
  dt_amp_connected :: bool
  dt_connected :: bool
  dt_server_status :: "server_status option"
  dt_assets :: "(asset_id, asset) btree_map"
  dt_amp_assets :: "asset_id list"
  dt_assets_old :: "asset list"
  dt_unsigned_tx :: "string option"
  dt_sync_complete :: bool
  dt_wallet_loaded_sent :: bool
  dt_confirmed_txids :: "(account_id, txid list) btree_map"
  dt_unconfirmed_txids :: "(account_id, txid list) btree_map"
  dt_orders_last :: "(order_id, ui_order) btree_map"
  dt_orders_sent :: "(order_id, ui_order) btree_map"
  dt_send_utxo_updates :: bool
  dt_force_auto_sign_maker :: bool
  dt_wallets :: "(account_id, xpub_info) btree_map"
  dt_subscribes :: "asset_id option list"
  dt_active_swap :: "active_swap option"
  dt_succeed_swap :: "txid option"
  dt_active_extern_peg :: "order_id option"
  dt_sent_txhash :: "txid option"
  dt_peg_out_server_amounts :: "peg_out_amounts option"
  dt_active_submits :: "(order_id, link_response) btree_map"
  dt_active_sign :: "sign_notification option"
  dt_settings :: settings
  dt_push_token :: "string option"
  dt_submit_data :: "(order_id, submit_data) btree_map"
  dt_pending_signs :: "(order_id, nat option) btree_map"
  dt_visible_submit :: "order_id option"
  dt_waiting_submit :: "order_id option"
  dt_processed_signs :: "order_id list"
  dt_pending_sign_requests :: "sign_notification list"
  dt_pending_sign_prompts :: "sign_notification list"
  dt_pending_submits :: "ui_submit_order list"
  dt_pending_links :: "string list"
  dt_downloaded_links :: "link_response list"
  dt_shown_succeed :: "order_id list"
  dt_pending_succeed :: "trans_item list"
  dt_subscribed_price_stream :: "price_stream_request option"
  dt_subscribed_market_data :: "asset_id option"
  dt_last_connection_check :: int
  dt_last_blocks :: "(account_id, int) btree_map"
  dt_used_single_sig :: "int \<times> int"
  dt_used_multi_sig :: int
  dt_jades :: "jade_port list"
  dt_async_requests :: "(string, callback) btree_map"
  dt_network_settings :: "network_selected option"
  dt_request_id :: i64

section \<open>Events and the outside\<close>

datatype (plugins only: code) cl_event =
    CE_Msg cl_msg
  | CE_Ui from_msg
  | CE_Request client_request "string + client_response"
  | CE_Post request_id client_request
  | CE_WsConnect string int bool
  | CE_WsDisconnect
  | CE_WsHint
  | CE_Wallet account_id wallet_action
  | CE_StartWallet account_id bool
  | CE_Settings settings
  | CE_Cookie string
  | CE_AssetsFile "asset list"
  | CE_Http string http_request
  | CE_Sleep int
  | CE_Background nat
  | CE_Ask

type_synonym cl_history = "cl_event list"
type_synonym 'a cl = "(cl_data, cl_event, 'a) sx"

text \<open>What a poll of the response channel yields; a poll without a response lasts one second, and
  the polls end when the request has timed out.\<close>

datatype poll = Poll_Resp "request_id option" server_result | Poll_Quiet

record cl_world =
  cw_env :: env
  cw_policy_asset :: asset_id
  cw_version :: string
  cw_disable_device_key :: "bool option"
  cw_os_type :: int
  cw_default_icon :: string
  cw_parse_asset :: "string \<Rightarrow> asset_id option"
  cw_show_asset :: "asset_id \<Rightarrow> string"
  cw_show_f64 :: "f64 \<Rightarrow> string"
  cw_parse_fcm :: "string \<Rightarrow> fcm_message option"
  cw_parse_created_tx :: "string \<Rightarrow> string + create_transaction_result"
  cw_redeem_script :: "unspent_output \<Rightarrow> script"
  cw_single_sig_address :: "string \<Rightarrow> network \<Rightarrow> bool \<Rightarrow> int \<Rightarrow> string"
  cw_multi_sig_address :: "string \<Rightarrow> string \<Rightarrow> network \<Rightarrow> int \<Rightarrow> string"
  cw_fake_p2sh_address :: "env \<Rightarrow> string"
  cw_hash_order :: "cl_history \<Rightarrow> txid list \<Rightarrow> txid list"
  cw_polls :: "cl_history \<Rightarrow> client_request \<Rightarrow> request_id \<Rightarrow> poll list"
  cw_http :: "cl_history \<Rightarrow> string \<Rightarrow> http_request \<Rightarrow> string + http_response"
  cw_now :: "cl_history \<Rightarrow> int"
  cw_read_cookie :: "cl_history \<Rightarrow> string option"
  cw_read_assets :: "cl_history \<Rightarrow> (asset list) option"
  cw_new_master_pub_key :: "cl_history \<Rightarrow> string"
  cw_registry :: "cl_history \<Rightarrow> env \<Rightarrow> string \<Rightarrow> asset_id list \<Rightarrow> string + asset list"
  cw_encrypt_pin :: "cl_history \<Rightarrow> string \<Rightarrow> string \<Rightarrow> string + string \<times> string \<times> string"
  cw_decrypt_pin :: "cl_history \<Rightarrow> string \<Rightarrow> string \<Rightarrow> string \<Rightarrow> string \<Rightarrow> string + string"
  cw_register :: "cl_history \<Rightarrow> login_wallet \<Rightarrow> string + reg_info"
  cw_start_wallet :: "cl_history \<Rightarrow> account_id \<Rightarrow> bool \<Rightarrow> string + unit"
  cw_xpubs :: "reg_info \<Rightarrow> login_wallet \<Rightarrow> string + xpub_info"
  cw_jade_ports :: "cl_history \<Rightarrow> string + jade_port list"
  cw_login :: "cl_history \<Rightarrow> account_id \<Rightarrow> string + unit"
  cw_gaid :: "cl_history \<Rightarrow> account_id \<Rightarrow> string + string"
  cw_unlock_hww :: "cl_history \<Rightarrow> account_id \<Rightarrow> string + unit"
  cw_balances :: "cl_history \<Rightarrow> account_id \<Rightarrow> string + (asset_id, i64) btree_map"
  cw_transactions :: "cl_history \<Rightarrow> account_id \<Rightarrow> string + wallet_transaction list"
  cw_receive_address :: "cl_history \<Rightarrow> account_id \<Rightarrow> string + address_info"
  cw_change_address :: "cl_history \<Rightarrow> account_id \<Rightarrow> string + address_info"
  cw_create_tx :: "cl_history \<Rightarrow> account_id \<Rightarrow> create_tx \<Rightarrow> string + string"
  cw_send_tx :: "cl_history \<Rightarrow> account_id \<Rightarrow> string \<Rightarrow> string + txid"
  cw_create_payjoin :: "cl_history \<Rightarrow> account_id \<Rightarrow> ui_create_payjoin \<Rightarrow> string + ui_created_payjoin"
  cw_send_payjoin :: "cl_history \<Rightarrow> account_id \<Rightarrow> ui_created_payjoin \<Rightarrow> string + txid"
  cw_utxos :: "cl_history \<Rightarrow> account_id \<Rightarrow> string + unspent_outputs"
  cw_tx_fee :: "cl_history \<Rightarrow> account_id \<Rightarrow> asset_id \<Rightarrow> i64 \<Rightarrow> string \<Rightarrow> string + u64"
  cw_make_pegout :: "cl_history \<Rightarrow> account_id \<Rightarrow> i64 \<Rightarrow> string \<Rightarrow> i64 \<Rightarrow> string + unit"
  cw_blinded_values :: "cl_history \<Rightarrow> account_id \<Rightarrow> string \<Rightarrow> string + string list"
  cw_previous_addresses :: "cl_history \<Rightarrow> account_id \<Rightarrow> string + unit"
  cw_address_pages :: "cl_history \<Rightarrow> account_id \<Rightarrow> bool \<Rightarrow> (string + int option \<times> address_info list) list"
  cw_sig_single_maker :: "cl_history \<Rightarrow> account_id \<Rightarrow> asset_id \<Rightarrow> u64 \<Rightarrow> asset_id \<Rightarrow> u64 \<Rightarrow> address_info
      \<Rightarrow> string + sig_single_maker"
  cw_psbt_details :: "cl_history \<Rightarrow> account_id \<Rightarrow> string \<Rightarrow> unspent_output list \<Rightarrow> string + pset_details"
  cw_psbt_sign :: "cl_history \<Rightarrow> account_id \<Rightarrow> string \<Rightarrow> unspent_output list \<Rightarrow> string list \<Rightarrow> string + string"
  cw_set_memo :: "cl_history \<Rightarrow> account_id \<Rightarrow> string \<Rightarrow> string \<Rightarrow> string + unit"

end
