(* ===== verification/Client_Base.thy ===== *)
theory Client_Base
  imports Client_Types
begin

text \<open>
  What all handlers of the client share: sending requests and waiting for the answer, requests
  answered later through a callback, calls to the wallets, the list of assets, the list of orders shown
  to the user, the connections to the server and to the AMP backend, and the check that every
  transaction has to pass before it is signed.
\<close>

section \<open>Results\<close>

definition sx_of_sum :: "string + 'a \<Rightarrow> ('s, 'ev, 'a) sx" where
  "sx_of_sum r = sx_lift (case r of Inl e \<Rightarrow> Err e | Inr x \<Rightarrow> Ok x)"

definition fail :: "string \<Rightarrow> ('s, 'ev, 'a) sx" where
  "fail e = sx_lift (Err e)"

definition sx_panic :: "('s, 'ev, 'a) sx" where
  "sx_panic = sx_lift Panic"

definition check :: "bool \<Rightarrow> string \<Rightarrow> ('s, 'ev, unit) sx" where
  "check b e = sx_lift (ensure b e)"

definition sx_expect :: "'a option \<Rightarrow> ('s, 'ev, 'a) sx" where
  "sx_expect x = sx_lift (unwrap x)"

definition sx_ok_or :: "'a option \<Rightarrow> string \<Rightarrow> ('s, 'ev, 'a) sx" where
  "sx_ok_or x e = sx_lift (ok_or x e)"

text \<open>The text of an \<open>ensure!\<close> without a message (the condition that failed) is not modelled.\<close>

definition CONDITION_FAILED :: string where "CONDITION_FAILED = ''Condition failed''"

definition types_error_text :: "cl_world \<Rightarrow> types_error \<Rightarrow> string" where
  "types_error_text w e = (case e of
      Balance_too_low \<Rightarrow> ''balance is too low''
    | Amount_not_positive \<Rightarrow> CONDITION_FAILED
    | Min_peg_out n \<Rightarrow> ''Min '' @ cw_show_f64 w (to_bitcoin n)
    | Recv_negative \<Rightarrow> ''Amount to receive is negative'')"

definition sx_types :: "cl_world \<Rightarrow> (types_error, 'a) outcome \<Rightarrow> ('s, 'ev, 'a) sx" where
  "sx_types w r = sx_lift (case r of Ok x \<Rightarrow> Ok x | Err e \<Rightarrow> Err (types_error_text w e) | Panic \<Rightarrow> Panic)"

lemmas sx_result_defs = sx_of_sum_def fail_def sx_panic_def check_def sx_expect_def sx_ok_or_def sx_types_def

lemma keeps_results [keeps_rules]:
  "keeps I (sx_of_sum r)" "keeps I (fail e)" "keeps I sx_panic" "keeps I (check b e)" "keeps I (sx_expect x)"
  "keeps I (sx_ok_or y e)" "keeps I (sx_types w t)"
  by (simp_all add: sx_result_defs keeps_lift)

definition ask :: "(cl_history \<Rightarrow> 'a) \<Rightarrow> 'a cl" where
  "ask oracle = sx_call oracle (\<lambda>_. CE_Ask)"

section \<open>The user interface and the settings\<close>

definition ui_send :: "from_msg \<Rightarrow> unit cl" where
  "ui_send msg = sx_emit (CE_Ui msg)"

definition show_message :: "string \<Rightarrow> unit cl" where
  "show_message txt = ui_send (FM_ShowMessage txt)"

definition save_settings :: "unit cl" where
  "save_settings = sx_bind (sx_get dt_settings) (\<lambda>st. sx_emit (CE_Settings st))"

definition modify_settings :: "(settings \<Rightarrow> settings) \<Rightarrow> unit cl" where
  "modify_settings f = sx_modify (dt_settings_update f)"

section \<open>Requests\<close>

definition send_request_msg :: "client_request \<Rightarrow> request_id cl" where
  "send_request_msg request =
     sx_bind (sx_get (\<lambda>s. next_request_id (dt_request_id s))) (\<lambda>(request_id, counter).
     sx_then (sx_modify (dt_request_id_update (\<lambda>_. counter)))
     (sx_then (sx_emit (CE_Post request_id request))
     (sx_return request_id)))"

definition post :: "client_request \<Rightarrow> unit cl" where
  "post request = sx_then (send_request_msg request) (sx_return ())"

text \<open>Responses to older requests are discarded.\<close>

fun await_response :: "request_id \<Rightarrow> poll list \<Rightarrow> string + client_response" where
  "await_response active_request_id [] = Inl ''request timeout''"
| "await_response active_request_id (Poll_Resp (Some request_id) result # polls) =
     (if request_id \<noteq> active_request_id then await_response active_request_id polls
      else case result of Inl e \<Rightarrow> Inl (ae_message e) | Inr resp \<Rightarrow> Inr resp)"
| "await_response active_request_id (Poll_Resp None result # polls) = await_response active_request_id polls"
| "await_response active_request_id (Poll_Quiet # polls) = await_response active_request_id polls"

definition cl_send_request :: "cl_world \<Rightarrow> client_request \<Rightarrow> client_response cl" where
  "cl_send_request w request =
     sx_bind (send_request_msg request) (\<lambda>active_request_id.
     sx_bind (sx_call (\<lambda>h. await_response active_request_id (cw_polls w h request active_request_id))
                (CE_Request request)) sx_of_sum)"

text \<open>The macro \<open>send_request!\<close>: a response of another type is an error.\<close>

definition request_as :: "cl_world \<Rightarrow> client_request \<Rightarrow> (client_response \<Rightarrow> 'a option) \<Rightarrow> 'a cl" where
  "request_as w request sel =
     sx_bind (cl_send_request w request) (\<lambda>resp. sx_ok_or (sel resp) ''unexpected response type'')"

fun pair_nth :: "bool \<Rightarrow> 'a \<times> 'a \<Rightarrow> 'a" where
  "pair_nth i (x, y) = (if i then y else x)"

fun pair_set :: "bool \<Rightarrow> 'a \<Rightarrow> 'a \<times> 'a \<Rightarrow> 'a \<times> 'a" where
  "pair_set i v (x, y) = (if i then (x, v) else (v, y))"

definition err_text :: "server_result \<Rightarrow> string option" where
  "err_text res = (case res of Inl e \<Rightarrow> Some (api_error_text e) | Inr _ \<Rightarrow> None)"

fun run_callback :: "callback \<Rightarrow> server_result \<Rightarrow> unit cl" where
  "run_callback CB_CancelOrder res = ui_send (FM_CancelOrder (err_text res = None) (err_text res))"
| "run_callback CB_PortfolioPrices res = (case res of
      Inr (CA_PortfolioPrices prices_usd) \<Rightarrow> ui_send (FM_PortfolioPrices prices_usd)
    | _ \<Rightarrow> sx_return ())"
| "run_callback CB_UpdatePushToken res = sx_return ()"
| "run_callback (CB_SingleSig is_internal last_pointer) res = (case res of
      Inr _ \<Rightarrow> sx_then (modify_settings (st_single_sig_registered_update (pair_set is_internal last_pointer))) save_settings
    | Inl _ \<Rightarrow> sx_return ())"
| "run_callback (CB_MultiSig last_pointer) res = (case res of
      Inr _ \<Rightarrow> sx_then (modify_settings (st_multi_sig_registered_update (\<lambda>_. last_pointer))) save_settings
    | Inl _ \<Rightarrow> sx_return ())"
| "run_callback (CB_GaidStatus gaid asset_id) res =
     ui_send (FM_GaidStatus gaid asset_id (case res of
        Inr (CA_GaidStatus e) \<Rightarrow> e
      | Inr _ \<Rightarrow> Some ''Unexpected response''
      | Inl e \<Rightarrow> Some (api_error_text e)))"

definition server_error :: "string \<Rightarrow> server_result" where
  "server_error msg = Inl \<lparr> ae_code = ServerError, ae_message = msg \<rparr>"

fun request_id_text :: "request_id \<Rightarrow> string" where
  "request_id_text (Id_String s) = s"
| "request_id_text (Id_Int n) = show_int n"

definition make_async_request :: "client_request \<Rightarrow> callback \<Rightarrow> unit cl" where
  "make_async_request req resp =
     sx_bind (sx_get dt_connected) (\<lambda>connected.
     if \<not> connected then run_callback resp (server_error ''Not connected'')
     else
       sx_bind (sx_get (\<lambda>s. next_request_id_str (dt_request_id s))) (\<lambda>(request_id, counter).
       sx_then (sx_modify (dt_request_id_update (\<lambda>_. counter)))
       (sx_then (sx_emit (CE_Post request_id req))
       (sx_modify (dt_async_requests_update (btree_insert (request_id_text request_id) resp))))))"

definition process_async_resp :: "request_id \<Rightarrow> server_result \<Rightarrow> unit cl" where
  "process_async_resp request_id res =
     sx_bind (sx_get (\<lambda>s. btree_get (dt_async_requests s) (request_id_text request_id))) (\<lambda>callback.
     case callback of
       None \<Rightarrow> sx_return ()
     | Some callback \<Rightarrow>
         sx_then (sx_modify (dt_async_requests_update (btree_remove (request_id_text request_id))))
           (run_callback callback res))"

section \<open>Wallets\<close>

definition get_wallet :: "account_id \<Rightarrow> xpub_info cl" where
  "get_wallet account_id =
     sx_bind (sx_get (\<lambda>s. btree_get (dt_wallets s) account_id)) (\<lambda>wallet. sx_ok_or wallet ''wallet not found'')"

definition wallet_call :: "account_id \<Rightarrow> wallet_action \<Rightarrow> (cl_history \<Rightarrow> string + 'a) \<Rightarrow> 'a cl" where
  "wallet_call account_id call oracle = sx_bind (sx_call oracle (\<lambda>_. CE_Wallet account_id call)) sx_of_sum"

definition wallet_tell :: "account_id \<Rightarrow> wallet_action \<Rightarrow> unit cl" where
  "wallet_tell account_id call = sx_emit (CE_Wallet account_id call)"

definition wallet_get_balances :: "cl_world \<Rightarrow> account_id \<Rightarrow> (asset_id, i64) btree_map cl" where
  "wallet_get_balances w a = wallet_call a WC_Balances (\<lambda>h. cw_balances w h a)"

definition wallet_get_balance :: "cl_world \<Rightarrow> account_id \<Rightarrow> asset_id \<Rightarrow> i64 cl" where
  "wallet_get_balance w a asset_id =
     sx_bind (sx_try (wallet_get_balances w a)) (\<lambda>r.
     sx_return (case r of Inl _ \<Rightarrow> 0 | Inr balances \<Rightarrow> unwrap_or (btree_get balances asset_id) 0))"

definition wallet_get_utxos :: "cl_world \<Rightarrow> account_id \<Rightarrow> unspent_outputs cl" where
  "wallet_get_utxos w a = wallet_call a WC_Utxos (\<lambda>h. cw_utxos w h a)"

definition utxos_of :: "unspent_outputs \<Rightarrow> asset_id \<Rightarrow> unspent_output list" where
  "utxos_of outputs asset_id = unwrap_or (btree_get outputs asset_id) []"

definition wallet_get_change_address :: "cl_world \<Rightarrow> account_id \<Rightarrow> address_info cl" where
  "wallet_get_change_address w a = wallet_call a WC_ChangeAddress (\<lambda>h. cw_change_address w h a)"

definition wallet_get_receive_address :: "cl_world \<Rightarrow> account_id \<Rightarrow> address_info cl" where
  "wallet_get_receive_address w a = wallet_call a WC_ReceiveAddress (\<lambda>h. cw_receive_address w h a)"

definition wallet_get_gaid :: "cl_world \<Rightarrow> account_id \<Rightarrow> string cl" where
  "wallet_get_gaid w a = wallet_call a WC_Gaid (\<lambda>h. cw_gaid w h a)"

definition wallet_unlock_hww :: "cl_world \<Rightarrow> account_id \<Rightarrow> unit cl" where
  "wallet_unlock_hww w a = wallet_call a WC_UnlockHww (\<lambda>h. cw_unlock_hww w h a)"

definition convert_to_swap_utxo :: "cl_world \<Rightarrow> unspent_output \<Rightarrow> pset_input" where
  "convert_to_swap_utxo w utxo = \<lparr> pi_txid = uo_txhash utxo, pi_vout = uo_vout utxo, pi_asset = uo_asset_id utxo,
     pi_asset_bf = uo_assetblinder utxo, pi_value = uo_satoshi utxo, pi_value_bf = uo_amountblinder utxo,
     pi_redeem_script = Some (cw_redeem_script w utxo) \<rparr>"

definition u64_sum :: "int list \<Rightarrow> int" where
  "u64_sum xs = foldl u64_add 0 xs"

definition select_swap_inputs :: "unspent_output list \<Rightarrow> i64 \<Rightarrow> ('s, 'ev, unspent_output list) sx" where
  "select_swap_inputs inputs amount =
     sx_then (check (wrap_i64 (u64_sum (map uo_satoshi inputs)) \<ge> amount) ''not enough UTXOs total amount'')
     (sx_lift (select_utxo_values (map (\<lambda>input. (wrap_i64 (uo_satoshi input), input)) inputs) amount))"

definition update_sync_interval :: "unit cl" where
  "update_sync_interval =
     sx_bind (sx_get id) (\<lambda>s.
     let pending_tx = dt_sent_txhash s \<noteq> None \<or> dt_succeed_swap s \<noteq> None;
         interval = (if pending_tx then 1 else 7)
     in sx_each (\<lambda>account_id. wallet_tell account_id (WC_SyncInterval interval)) (btree_keys (dt_wallets s)))"

section \<open>Verifying and signing a transaction\<close>

text \<open>\<open>gdk_ses_impl::verify_and_sign_pset\<close>: what the transaction does to the wallet's balance has to be
  exactly what was agreed, and no other asset may be touched.\<close>

definition pset_amounts_ok :: "cl_world \<Rightarrow> swap_amounts \<Rightarrow> pset_details \<Rightarrow> bool" where
  "pset_amounts_ok w amounts details \<longleftrightarrow>
     list_all (\<lambda>asset. asset = am_send_asset amounts \<or> asset = am_recv_asset amounts) (btree_keys (pd_satoshi details)) \<and>
     (let send_amount = i64_neg (unwrap_or (btree_get (pd_satoshi details) (am_send_asset amounts)) 0);
          recv_amount = unwrap_or (btree_get (pd_satoshi details) (am_recv_asset amounts)) 0;
          send_amount = (if am_send_asset amounts = cw_policy_asset w \<and> send_amount \<noteq> 0
                         then i64_add send_amount (unwrap_or (pd_fee details) 0) else send_amount)
      in send_amount = wrap_i64 (am_send_amount amounts) \<and> recv_amount = wrap_i64 (am_recv_amount amounts))"

definition prefix_error :: "string \<Rightarrow> string + 'a \<Rightarrow> string + 'a" where
  "prefix_error txt r = (case r of Inl e \<Rightarrow> Inl (txt @ e) | Inr x \<Rightarrow> Inr x)"

definition verify_and_sign_pset ::
    "cl_world \<Rightarrow> deal \<Rightarrow> account_id \<Rightarrow> swap_amounts \<Rightarrow> string \<Rightarrow> string list \<Rightarrow> string cl" where
  "verify_and_sign_pset w deal account_id amounts pset nonces =
     sx_bind (wallet_get_utxos w account_id) (\<lambda>unspent_outputs.
     let utxos = concat (btree_values unspent_outputs) in
     sx_bind (sx_call (\<lambda>h. cw_psbt_details w h account_id pset utxos)
               (\<lambda>r. CE_Wallet account_id (WC_PsbtDetails pset r))) (\<lambda>pset_details.
     sx_bind (sx_of_sum (prefix_error ''loading PSET details failed: '' pset_details)) (\<lambda>pset_details.
     sx_then (check (pset_amounts_ok w amounts pset_details) CONDITION_FAILED)
     (if am_send_amount amounts = 0 then sx_return pset
      else
        sx_bind (sx_call (\<lambda>h. cw_psbt_sign w h account_id pset utxos nonces)
                   (\<lambda>_. CE_Wallet account_id (WC_PsbtSign deal amounts pset nonces))) (\<lambda>signed_pset.
        sx_of_sum (prefix_error ''signing pset failed: '' signed_pset))))))"

section \<open>Assets\<close>

definition master_xpub :: "cl_world \<Rightarrow> string cl" where
  "master_xpub w =
     sx_bind (sx_get (\<lambda>s. st_master_pub_key (dt_settings s))) (\<lambda>key.
     sx_then (sx_when (key = None)
       (sx_bind (ask (cw_new_master_pub_key w)) (\<lambda>master_pub_key.
        sx_then (modify_settings (st_master_pub_key_update (\<lambda>_. Some master_pub_key))) save_settings)))
     (sx_bind (sx_get (\<lambda>s. st_master_pub_key (dt_settings s))) sx_expect))"

definition load_gdk_asset :: "cl_world \<Rightarrow> asset_id list \<Rightarrow> asset list cl" where
  "load_gdk_asset w asset_ids =
     sx_bind (master_xpub w) (\<lambda>xpub.
     sx_bind (ask (\<lambda>h. cw_registry w h (cw_env w) xpub asset_ids)) sx_of_sum)"

definition register_asset :: "asset \<Rightarrow> bool \<Rightarrow> bool \<Rightarrow> bool \<Rightarrow> unit cl" where
  "register_asset asset swap_market amp_market unregistered =
     sx_bind (sx_expect (as_icon asset)) (\<lambda>icon.
     sx_then (sx_modify (dt_assets_update (btree_insert (as_asset_id asset) asset)))
     (ui_send (FM_NewAsset \<lparr> ua_asset = asset, ua_icon = icon, ua_swap_market = swap_market,
        ua_amp_market = amp_market, ua_unregistered = unregistered,
        ua_instant_swaps = unwrap_or (as_instant_swaps asset) False \<rparr>)))"

definition register_assets :: "cl_world \<Rightarrow> asset list \<Rightarrow> bool \<Rightarrow> unit cl" where
  "register_assets w assets amp_market =
     sx_each (\<lambda>asset. register_asset asset
       (\<not> amp_market \<and> as_asset_id asset \<noteq> cw_policy_asset w) amp_market False) assets"

definition try_add_asset :: "cl_world \<Rightarrow> asset_id \<Rightarrow> unit cl" where
  "try_add_asset w asset_id =
     sx_bind (sx_get (\<lambda>s. btree_get (dt_assets s) asset_id)) (\<lambda>known.
     if known \<noteq> None then sx_return ()
     else
       sx_bind (load_gdk_asset w [asset_id]) (\<lambda>assets.
       sx_bind (sx_ok_or (if assets = [] then None else Some (hd assets))
                  (''asset not found in gdk registry: '' @ cw_show_asset w asset_id)) (\<lambda>asset.
       register_asset asset False False False)))"

definition load_assets :: "cl_world \<Rightarrow> unit cl" where
  "load_assets w =
     sx_bind (ask (cw_read_assets w)) (\<lambda>assets.
     case assets of
       None \<Rightarrow> sx_return ()
     | Some assets \<Rightarrow>
         sx_then (sx_modify (dt_assets_old_update (\<lambda>_. assets))) (register_assets w assets False))"

section \<open>The list of orders shown\<close>

text \<open>\<open>PartialEq\<close> of the message: prices compare as floating point numbers.\<close>

definition ui_order_eq :: "ui_order \<Rightarrow> ui_order \<Rightarrow> bool" where
  "ui_order_eq a b \<longleftrightarrow>
     f64_eq (od_price a) (od_price b) \<and>
     (case (od_index_price a, od_index_price b) of
        (None, None) \<Rightarrow> True | (Some x, Some y) \<Rightarrow> f64_eq x y | _ \<Rightarrow> False) \<and>
     a \<lparr> od_price := od_price b, od_index_price := od_index_price b \<rparr> = b"

definition order_changed :: "ui_order option \<Rightarrow> ui_order \<Rightarrow> bool" where
  "order_changed sent order \<longleftrightarrow> (case sent of None \<Rightarrow> True | Some o' \<Rightarrow> \<not> ui_order_eq o' order)"

definition sync_removed :: "order_id \<Rightarrow> unit cl" where
  "sync_removed order_id =
     sx_then (sx_modify (dt_orders_sent_update (btree_remove order_id))) (ui_send (FM_OrderRemoved order_id))"

definition sync_updated :: "order_id \<times> ui_order \<Rightarrow> unit cl" where
  "sync_updated = (\<lambda>(order_id, order).
     sx_bind (sx_get (\<lambda>s. btree_get (dt_orders_sent s) order_id)) (\<lambda>order_sent.
     sx_when (order_changed order_sent order)
       (sx_then (sx_modify (dt_orders_sent_update (btree_insert order_id order)))
          (ui_send (FM_OrderCreated order (order_sent = None \<and> od_from_notification order))))))"

definition sync_order_list :: "unit cl" where
  "sync_order_list =
     sx_bind (sx_get (\<lambda>s. filter (\<lambda>order_id. btree_get (dt_orders_last s) order_id = None) (btree_keys (dt_orders_sent s)))) (\<lambda>removed.
     sx_then (sx_each sync_removed removed)
     (sx_bind (sx_get dt_orders_last) (\<lambda>orders_last. sx_each sync_updated orders_last)))"

section \<open>Connections\<close>

definition restart_websocket :: "unit cl" where
  "restart_websocket = sx_then (sx_modify (dt_connected_update (\<lambda>_. False))) (sx_emit CE_WsDisconnect)"

definition send_ws_connect :: "cl_world \<Rightarrow> unit cl" where
  "send_ws_connect w =
     sx_bind (sx_get dt_network_settings) (\<lambda>network_settings.
     if network_settings = Some NS_SideswapCn then sx_emit (CE_WsConnect ''cn.sideswap.io'' 443 True)
     else let env_data = env_data_of (cw_env w)
          in sx_emit (CE_WsConnect (ed_host env_data) (ed_port env_data) (ed_use_tls env_data)))"

definition as_Ping :: "client_response \<Rightarrow> unit option" where
  "as_Ping r = (case r of CA_Ping \<Rightarrow> Some () | _ \<Rightarrow> None)"

definition check_ws_connection :: "cl_world \<Rightarrow> unit cl" where
  "check_ws_connection w =
     sx_bind (sx_get dt_connected) (\<lambda>connected.
     if \<not> connected then sx_emit CE_WsHint
     else
       sx_bind (sx_try (request_as w CR_Ping as_Ping)) (\<lambda>ping_response.
       case ping_response of Inl _ \<Rightarrow> restart_websocket | Inr _ \<Rightarrow> sx_return ()))"

definition pending_amp_sign_requests :: "cl_data \<Rightarrow> bool" where
  "pending_amp_sign_requests s \<longleftrightarrow>
     list_ex (\<lambda>sign. d_asset (sn_details sign) \<in> set (dt_amp_assets s)) (dt_pending_sign_requests s) \<or>
     list_all (\<lambda>order_id. case btree_get (dt_submit_data s) order_id of
         Some submit \<Rightarrow> sb_market submit = Amp | None \<Rightarrow> False) (btree_keys (dt_pending_signs s))"

definition update_amp_connection :: "unit cl" where
  "update_amp_connection =
     sx_bind (sx_get id) (\<lambda>s.
     let amp_active = (dt_app_active s \<or> pending_amp_sign_requests s) in
     if dt_amp_active s = amp_active then sx_return ()
     else
       sx_then (sx_modify (dt_amp_active_update (\<lambda>_. amp_active)))
       (case btree_get (dt_wallets s) ACCOUNT_ID_AMP of
          None \<Rightarrow> sx_return ()
        | Some _ \<Rightarrow> wallet_tell ACCOUNT_ID_AMP (if amp_active then WC_Connect else WC_Disconnect)))"

definition check_amp_connection :: "cl_world \<Rightarrow> unit cl" where
  "check_amp_connection w =
     sx_bind (sx_get id) (\<lambda>s.
     if \<not> dt_amp_connected s then sx_return ()
     else case btree_get (dt_wallets s) ACCOUNT_ID_AMP of
       None \<Rightarrow> sx_return ()
     | Some _ \<Rightarrow>
         sx_bind (sx_try (wallet_call ACCOUNT_ID_AMP (WC_PreviousAddresses None False)
                     (\<lambda>h. cw_previous_addresses w h ACCOUNT_ID_AMP))) (\<lambda>r.
         case r of
           Inr _ \<Rightarrow> sx_return ()
         | Inl _ \<Rightarrow>
             sx_then (wallet_tell ACCOUNT_ID_AMP WC_Disconnect)
             (sx_then (wallet_tell ACCOUNT_ID_AMP WC_Connect)
             (sx_modify (dt_amp_connected_update (\<lambda>_. False))))))"

definition check_connections :: "cl_world \<Rightarrow> unit cl" where
  "check_connections w = sx_then (check_ws_connection w) (check_amp_connection w)"

definition process_app_state :: "cl_world \<Rightarrow> bool \<Rightarrow> unit cl" where
  "process_app_state w active =
     sx_then (sx_modify (dt_app_active_update (\<lambda>_. active)))
     (sx_then (sx_when active (check_connections w)) update_amp_connection)"

definition process_idle_timer :: "cl_world \<Rightarrow> unit cl" where
  "process_idle_timer w =
     sx_bind (ask (cw_now w)) (\<lambda>now.
     sx_bind (sx_get dt_last_connection_check) (\<lambda>last_check.
     sx_when (now - last_check > AMP_CONNECTION_CHECK_PERIOD)
       (sx_then (sx_modify (dt_last_connection_check_update (\<lambda>_. now))) (check_connections w))))"

section \<open>Registrations with the server\<close>

definition start_peg_monitoring :: "order_id \<times> peg_dir \<Rightarrow> unit cl" where
  "start_peg_monitoring peg = (case snd peg of
      Peg_In \<Rightarrow> post (CR_PegStatus (fst peg) None)
    | Peg_Out \<Rightarrow> post (CR_PegStatus (fst peg) None))"

definition add_peg_monitoring :: "order_id \<Rightarrow> peg_dir \<Rightarrow> unit cl" where
  "add_peg_monitoring order_id dir =
     sx_bind (sx_get dt_connected) (\<lambda>connected.
     sx_then (sx_when connected (start_peg_monitoring (order_id, dir)))
     (sx_then (modify_settings (st_pegs_update (\<lambda>pegs. Some (unwrap_or pegs [] @ [(order_id, dir)])))) save_settings))"

definition resume_peg_monitoring :: "unit cl" where
  "resume_peg_monitoring =
     sx_bind (sx_get id) (\<lambda>s.
     if dt_assets s = [] \<or> \<not> dt_connected s then sx_return ()
     else sx_each start_peg_monitoring (unwrap_or (st_pegs (dt_settings s)) []))"

definition update_push_token :: "unit cl" where
  "update_push_token =
     sx_bind (sx_get id) (\<lambda>s.
     case (dt_push_token s, dt_connected s, st_device_key (dt_settings s)) of
       (Some push_token, True, Some device_key) \<Rightarrow>
         make_async_request (CR_UpdatePushToken device_key push_token) CB_UpdatePushToken
     | _ \<Rightarrow> sx_return ())"

definition u32_add :: "int \<Rightarrow> int \<Rightarrow> int" where
  "u32_add a b = (a + b) mod 4294967296"

definition update_single_sig :: "cl_world \<Rightarrow> bool \<Rightarrow> unit cl" where
  "update_single_sig w is_internal =
     sx_bind (sx_get id) (\<lambda>s.
     case (dt_connected s, st_device_key (dt_settings s), btree_get (dt_wallets s) ACCOUNT_ID_REG) of
       (True, Some device_key, Some xpubs) \<Rightarrow>
         let first = pair_nth is_internal (st_single_sig_registered (dt_settings s));
             last_pointer = u32_add (pair_nth is_internal (dt_used_single_sig s)) 100;
             addresses = map (\<lambda>pointer. cw_single_sig_address w (xp_single_sig_account xpubs)
               (ed_network (env_data_of (cw_env w))) is_internal pointer) [first..last_pointer - 1]
         in make_async_request (CR_RegisterAddresses device_key addresses) (CB_SingleSig is_internal last_pointer)
     | _ \<Rightarrow> sx_return ())"

definition update_multi_sig :: "cl_world \<Rightarrow> unit cl" where
  "update_multi_sig w =
     sx_bind (sx_get id) (\<lambda>s.
     case (dt_connected s, st_device_key (dt_settings s), btree_get (dt_wallets s) ACCOUNT_ID_AMP) of
       (True, Some device_key, Some xpubs) \<Rightarrow>
         let first = st_multi_sig_registered (dt_settings s);
             last_pointer = u32_add (dt_used_multi_sig s) 100;
             addresses = map (\<lambda>pointer. cw_multi_sig_address w (xp_multi_sig_service_xpub xpubs)
               (xp_multi_sig_user_xpub xpubs) (ed_network (env_data_of (cw_env w))) pointer) [first..last_pointer - 1]
         in make_async_request (CR_RegisterAddresses device_key addresses) (CB_MultiSig last_pointer)
     | _ \<Rightarrow> sx_return ())"

definition update_address_registrations :: "cl_world \<Rightarrow> unit cl" where
  "update_address_registrations w =
     sx_then (sx_each (update_single_sig w) [False, True]) (update_multi_sig w)"

section \<open>Requests for data\<close>

definition parse_asset :: "cl_world \<Rightarrow> string \<Rightarrow> asset_id cl" where
  "parse_asset w txt = sx_expect (cw_parse_asset w txt)"

definition subscribe_price_update :: "asset_id \<Rightarrow> unit cl" where
  "subscribe_price_update asset_id = post (CR_PriceUpdateSubscribe asset_id)"

fun parse_markets :: "cl_world \<Rightarrow> string option list \<Rightarrow> asset_id option list cl" where
  "parse_markets w [] = sx_return []"
| "parse_markets w (None # ms) = sx_bind (parse_markets w ms) (\<lambda>r. sx_return (None # r))"
| "parse_markets w (Some txt # ms) =
     sx_bind (parse_asset w txt) (\<lambda>a. sx_bind (parse_markets w ms) (\<lambda>r. sx_return (Some a # r)))"

text \<open>A \<open>BTreeSet\<close> of markets: sorted, \<open>None\<close> first, without duplicates.\<close>

fun market_insert :: "asset_id option \<Rightarrow> asset_id option list \<Rightarrow> asset_id option list" where
  "market_insert m [] = [m]"
| "market_insert m (x # xs) =
     (if m = x then x # xs
      else if (case (m, x) of (None, _) \<Rightarrow> True | (Some _, None) \<Rightarrow> False | (Some a, Some b) \<Rightarrow> a < b) then m # x # xs
      else x # market_insert m xs)"

definition market_set :: "asset_id option list \<Rightarrow> asset_id option list" where
  "market_set ms = fold market_insert ms []"

definition process_subscribe :: "cl_world \<Rightarrow> string option list \<Rightarrow> unit cl" where
  "process_subscribe w markets =
     sx_bind (parse_markets w markets) (\<lambda>markets.
     let new_subscribes = market_set markets in
     sx_bind (sx_get dt_subscribes) (\<lambda>subscribes.
     sx_then (sx_each (\<lambda>m. post (CR_Unsubscribe m)) (filter (\<lambda>m. m \<notin> set new_subscribes) subscribes))
     (sx_then (sx_each (\<lambda>m. post (CR_Subscribe m)) (filter (\<lambda>m. m \<notin> set subscribes) new_subscribes))
     (sx_modify (dt_subscribes_update (\<lambda>_. new_subscribes))))))"

definition send_subscribe_request :: "unit cl" where
  "send_subscribe_request = sx_bind (sx_get dt_subscribes) (sx_each (\<lambda>m. post (CR_Subscribe m)))"

definition process_asset_details :: "cl_world \<Rightarrow> string \<Rightarrow> unit cl" where
  "process_asset_details w asset_id = sx_bind (parse_asset w asset_id) (\<lambda>a. post (CR_AssetDetails a))"

definition process_subscribe_price :: "cl_world \<Rightarrow> string \<Rightarrow> unit cl" where
  "process_subscribe_price w asset_id = sx_bind (parse_asset w asset_id) (\<lambda>a. post (CR_LoadPrices a))"

definition process_unsubscribe_price :: "cl_world \<Rightarrow> string \<Rightarrow> unit cl" where
  "process_unsubscribe_price w asset_id = sx_bind (parse_asset w asset_id) (\<lambda>a. post (CR_CancelPrices a))"

definition process_subscribe_price_stream :: "cl_world \<Rightarrow> price_stream_to \<Rightarrow> unit cl" where
  "process_subscribe_price_stream w req =
     sx_bind (parse_asset w (px_asset_id req)) (\<lambda>asset.
     let r = \<lparr> sp_subscribe_id = None, sp_asset = asset, sp_send_bitcoins = px_send_bitcoins req,
               sp_send_amount = px_send_amount req, sp_recv_amount = px_recv_amount req \<rparr> in
     sx_bind (sx_get dt_subscribed_price_stream) (\<lambda>subscribed.
     sx_when (subscribed \<noteq> Some r)
       (sx_then (sx_modify (dt_subscribed_price_stream_update (\<lambda>_. Some r))) (post (CR_SubscribePriceStream r)))))"

definition process_unsubscribe_price_stream :: "unit cl" where
  "process_unsubscribe_price_stream =
     sx_bind (sx_get dt_subscribed_price_stream) (\<lambda>subscribed.
     sx_when (subscribed \<noteq> None)
       (sx_then (sx_modify (dt_subscribed_price_stream_update (\<lambda>_. None))) (post (CR_UnsubscribePriceStream None))))"

definition process_market_data_unsubscribe :: "unit cl" where
  "process_market_data_unsubscribe =
     sx_bind (sx_get id) (\<lambda>s.
     sx_then (case (dt_connected s, dt_subscribed_market_data s) of
         (True, Some asset_id) \<Rightarrow> post (CR_MarketDataUnsubscribe asset_id)
       | _ \<Rightarrow> sx_return ())
     (sx_modify (dt_subscribed_market_data_update (\<lambda>_. None))))"

definition process_market_data_subscribe :: "cl_world \<Rightarrow> string \<Rightarrow> unit cl" where
  "process_market_data_subscribe w asset_id =
     sx_bind (parse_asset w asset_id) (\<lambda>asset_id.
     sx_then process_market_data_unsubscribe
     (sx_bind (sx_get dt_connected) (\<lambda>connected.
     sx_then (sx_when connected (post (CR_MarketDataSubscribe asset_id)))
     (sx_modify (dt_subscribed_market_data_update (\<lambda>_. Some asset_id))))))"

definition process_portfolio_prices :: "unit cl" where
  "process_portfolio_prices = make_async_request CR_PortfolioPrices CB_PortfolioPrices"

definition process_gaid_status_req :: "cl_world \<Rightarrow> string \<Rightarrow> string \<Rightarrow> unit cl" where
  "process_gaid_status_req w gaid asset_id =
     sx_bind (parse_asset w asset_id) (\<lambda>a. make_async_request (CR_GaidStatus gaid a) (CB_GaidStatus gaid asset_id))"

definition process_update_push_token :: "string \<Rightarrow> unit cl" where
  "process_update_push_token token =
     sx_then (sx_modify (dt_push_token_update (\<lambda>_. Some token))) update_push_token"

section \<open>News from the server that are only passed on\<close>

definition process_server_status :: "server_status \<Rightarrow> unit cl" where
  "process_server_status resp =
     sx_then (ui_send (FM_ServerStatus (ss_min_peg_in_amount resp) (ss_min_peg_out_amount resp)
        (ss_server_fee_percent_peg_in resp) (ss_server_fee_percent_peg_out resp) (ss_bitcoin_fee_rates resp)))
     (sx_modify (dt_server_status_update (\<lambda>_. Some resp)))"

definition process_price_update :: "asset_id \<Rightarrow> price_pair \<Rightarrow> unit cl" where
  "process_price_update asset price =
     sx_bind (sx_get (\<lambda>s. btree_get (dt_assets s) asset)) (\<lambda>known.
     case known of
       None \<Rightarrow> sx_return ()
     | Some a \<Rightarrow> ui_send (FM_PriceUpdate (as_asset_id a) (pp_bid price) (pp_ask price)))"

definition get_peg_item :: "peg_status \<Rightarrow> tx_status \<Rightarrow> trans_item" where
  "get_peg_item peg tx =
     \<lparr> ti_id = Peg_Item (ts_tx_hash tx) (ts_vout tx), ti_created_at = ts_created_at tx,
       ti_confs = (case (ts_detected_confs tx, ts_total_confs tx) of
           (Some c, Some t) \<Rightarrow> Some (c mod 4294967296, t mod 4294967296) | _ \<Rightarrow> None),
       ti_account = ACCOUNT_ID_REG,
       ti_item = Item_Peg \<lparr> up_is_peg_in = ps_peg_in peg, up_amount_send = ts_amount tx,
         up_amount_recv = unwrap_or (ts_payout tx) 0, up_addr_send = ps_addr peg, up_addr_recv = ps_addr_recv peg,
         up_txid_send = ts_tx_hash tx, up_txid_recv = ts_payout_txid tx \<rparr> \<rparr>"

definition process_peg_status :: "peg_status \<Rightarrow> unit cl" where
  "process_peg_status status =
     sx_bind (sx_get dt_active_extern_peg) (\<lambda>active.
     let pegs = map (get_peg_item status) (ps_list status);
         finished = (active = Some (ps_order_id status) \<and> ps_list status \<noteq> []) in
     sx_then (sx_when finished (sx_modify (dt_active_extern_peg_update (\<lambda>_. None))))
     (sx_then (ui_send (FM_UpdatedPegs (ps_order_id status) pegs))
     (sx_when finished (ui_send (FM_SwapSucceed (hd pegs))))))"

definition process_market_data_response :: "asset_id \<Rightarrow> chart_point list \<Rightarrow> unit cl" where
  "process_market_data_response asset points = ui_send (FM_MarketDataSubscribe asset points)"

definition process_asset_details_response :: "asset_details_response \<Rightarrow> unit cl" where
  "process_asset_details_response msg =
     ui_send (FM_AssetDetails (ad_chain_stats_update
       (map_option (at_offline_amount_update (\<lambda>x. Some (unwrap_or x 0)))) msg))"

definition process_update_prices :: "asset_id \<Rightarrow> f64 option \<Rightarrow> f64 option \<Rightarrow> unit cl" where
  "process_update_prices asset ind last_price = ui_send (FM_IndexPrice asset ind last_price)"

definition process_update_price_stream :: "price_stream \<Rightarrow> unit cl" where
  "process_update_price_stream msg = ui_send (FM_UpdatePriceStream msg)"

definition process_local_message :: "string \<Rightarrow> string \<Rightarrow> unit cl" where
  "process_local_message title body = ui_send (FM_LocalMessage title body)"

definition process_market_data_update :: "asset_id \<Rightarrow> chart_point \<Rightarrow> unit cl" where
  "process_market_data_update asset point = ui_send (FM_MarketDataUpdate asset point)"

end
