(* ===== verification/Client_Orders.thy ===== *)
theory Client_Orders
  imports Client_Base
begin

text \<open>
  Orders: submitting one, reviewing a quote, accepting it, signing the transaction the server built,
  editing and cancelling, and the queues of what has to wait (for the connection, for the wallet, for the
  user).
\<close>

section \<open>Submitting and reviewing\<close>

definition as_Submit :: "client_response \<Rightarrow> order_id option" where
  "as_Submit r = (case r of CA_Submit order_id _ \<Rightarrow> Some order_id | _ \<Rightarrow> None)"

definition as_Link :: "client_response \<Rightarrow> link_response option" where
  "as_Link r = (case r of CA_Link resp \<Rightarrow> Some resp | _ \<Rightarrow> None)"

definition try_process_link_order :: "cl_world \<Rightarrow> order_id \<Rightarrow> unit cl" where
  "try_process_link_order w order_id =
     sx_bind (request_as w (CR_Link order_id) as_Link) (\<lambda>resp.
     sx_modify (dt_downloaded_links_update (\<lambda>links. links @ [resp])))"

text \<open>An amount that spends the whole balance is corrected for the fee.\<close>

definition submit_bitcoin_amount :: "cl_world \<Rightarrow> account_id \<Rightarrow> f64 option \<Rightarrow> f64 option cl" where
  "submit_bitcoin_amount w account_id bitcoin_amount = (case bitcoin_amount of
      None \<Rightarrow> sx_return None
    | Some v \<Rightarrow>
        sx_then (get_wallet account_id)
        (sx_bind (wallet_get_balance w account_id (cw_policy_asset w)) (\<lambda>bitcoin_balance.
        if f64_eq (to_bitcoin bitcoin_balance) (f64_neg v) then
          sx_bind (sx_types w (get_max_bitcoin_amount bitcoin_balance)) (\<lambda>bitcoin_amount.
          sx_return (Some (f64_neg (to_bitcoin bitcoin_amount))))
        else sx_return (Some v))))"

definition try_process_submit_order :: "cl_world \<Rightarrow> ui_submit_order \<Rightarrow> unit cl" where
  "try_process_submit_order w req =
     sx_bind (parse_asset w (so_asset_id req)) (\<lambda>asset.
     sx_bind (sx_get (\<lambda>s. asset \<in> set (dt_amp_assets s))) (\<lambda>is_amp.
     sx_then (if is_amp
       then check (so_account req = ACCOUNT_ID_AMP) ''AMP asset order is expected to be from AMP account''
       else check (so_account req = ACCOUNT_ID_REG) ''Non AMP asset order is expected to be from non-AMP account'')
     (sx_bind (submit_bitcoin_amount w (so_account req) (so_bitcoin_amount req)) (\<lambda>bitcoin_amount.
     let order = \<lparr> po_asset = asset, po_bitcoin_amount = bitcoin_amount, po_asset_amount = so_asset_amount req,
                   po_price = Some (so_price req), po_index_price = so_index_price req,
                   po_force_private = None, po_disable_price_edit = None \<rparr> in
     sx_bind (request_as w (CR_Submit order) as_Submit) (\<lambda>order_id.
     try_process_link_order w order_id)))))"

definition account_of_asset :: "cl_data \<Rightarrow> asset_id \<Rightarrow> account_id" where
  "account_of_asset s asset = (if asset \<in> set (dt_amp_assets s) then ACCOUNT_ID_AMP else ACCOUNT_ID_REG)"

text \<open>What is paid and what is received, the fee of the server included.\<close>

definition details_send :: "cl_world \<Rightarrow> details \<Rightarrow> asset_id \<times> i64" where
  "details_send w d = (if d_send_bitcoins d then (cw_policy_asset w, i64_add (d_bitcoin_amount d) (d_server_fee d))
     else (d_asset d, d_asset_amount d))"

definition details_recv :: "cl_world \<Rightarrow> details \<Rightarrow> asset_id \<times> i64" where
  "details_recv w d = (if d_send_bitcoins d then (d_asset d, d_asset_amount d)
     else (cw_policy_asset w, i64_sub (d_bitcoin_amount d) (d_server_fee d)))"

definition tx_chaining :: "cl_world \<Rightarrow> account_id \<Rightarrow> order_side \<Rightarrow> asset_id \<Rightarrow> i64 \<Rightarrow> bool option cl" where
  "tx_chaining w account_id side send_asset send_amount =
     (if side = Maker then
        sx_bind (wallet_get_utxos w account_id) (\<lambda>outputs.
        sx_return (Some (\<not> list_ex (\<lambda>utxo. uo_asset_id utxo = send_asset \<and> wrap_i64 (uo_satoshi utxo) = send_amount)
                            (utxos_of outputs send_asset))))
      else sx_return None)"

definition try_process_downloaded_link :: "cl_world \<Rightarrow> link_response \<Rightarrow> from_msg option cl" where
  "try_process_downloaded_link w resp =
     (let order_id = lk_order_id resp; details = lk_details resp; (send_asset, send_amount) = details_send w details in
     sx_then (try_add_asset w (d_asset details))
     (sx_bind (sx_get (\<lambda>s. account_of_asset s (d_asset details))) (\<lambda>account_id.
     sx_then (get_wallet account_id)
     (sx_bind (wallet_get_balance w account_id send_asset) (\<lambda>available_balance.
     if available_balance < send_amount then
       sx_return (Some (FM_InsufficientFunds send_asset available_balance send_amount))
     else
       sx_bind (tx_chaining w account_id (d_side details) send_asset send_amount) (\<lambda>tx_chaining_required.
       sx_bind (sx_get (\<lambda>s. case btree_get (dt_submit_data s) order_id of
           Some submit \<Rightarrow> sb_auto_sign submit | None \<Rightarrow> False)) (\<lambda>auto_sign.
       sx_then (ui_send (FM_SubmitReview
         \<lparr> rv_order_id = order_id, rv_asset = d_asset details, rv_bitcoin_amount = d_bitcoin_amount details,
           rv_server_fee = d_server_fee details, rv_asset_amount = d_asset_amount details,
           rv_price = d_price details, rv_sell_bitcoin = d_send_bitcoins details,
           rv_step = (if d_side details = Maker then Step_Submit else Step_Quote),
           rv_index_price = lk_index_price resp, rv_auto_sign = auto_sign, rv_two_step = d_two_step details,
           rv_tx_chaining_required = tx_chaining_required \<rparr>))
       (sx_then (sx_modify (dt_visible_submit_update (\<lambda>_. Some order_id)))
       (sx_then (sx_modify (dt_active_submits_update (btree_insert order_id resp)))
       (sx_return None))))))))))"

section \<open>Checking the amounts\<close>

definition verify_price :: "cl_world \<Rightarrow> details \<Rightarrow> nat \<Rightarrow> (string, unit) outcome" where
  "verify_price w d precision = (case d_order_type d of
      OT_Bitcoin \<Rightarrow>
        and_then (ensure (precision = 8) CONDITION_FAILED) (\<lambda>_.
        and_then (types_asset_amount (d_bitcoin_amount d) (d_price d) precision (d_market d)) (\<lambda>expected_asset_amount.
        ensure (expected_asset_amount = d_asset_amount d)
          (''unexpected asset amount: '' @ show_int (d_asset_amount d) @ '', expected: '' @ show_int expected_asset_amount @
           '', bitcoin amount: '' @ show_int (d_bitcoin_amount d) @ '', price: '' @ cw_show_f64 w (d_price d))))
    | OT_Asset \<Rightarrow>
        and_then (types_bitcoin_amount (d_asset_amount d) (d_price d) precision (d_market d)) (\<lambda>expected_bitcoin_amount.
        ensure (expected_bitcoin_amount = d_bitcoin_amount d)
          (''unexpected bitcoin amount: '' @ show_int (d_bitcoin_amount d) @ '', expected: '' @ show_int expected_bitcoin_amount @
           '', asset amount: '' @ show_int (d_asset_amount d) @ '', price: '' @ cw_show_f64 w (d_price d))))"

definition verify_amounts :: "cl_world \<Rightarrow> cl_data \<Rightarrow> details \<Rightarrow> (string, unit) outcome" where
  "verify_amounts w s d =
     and_then (ensure (d_asset d \<noteq> cw_policy_asset w) CONDITION_FAILED) (\<lambda>_.
     and_then (ensure (f64_gt (d_price d) (Fin 0)) CONDITION_FAILED) (\<lambda>_.
     and_then (ensure (d_bitcoin_amount d \<ge> MIN_BITCOIN_AMOUNT) CONDITION_FAILED) (\<lambda>_.
     and_then (ensure (d_server_fee d \<ge> MIN_SERVER_FEE) CONDITION_FAILED) (\<lambda>_.
     and_then (ensure (d_asset_amount d > 0) CONDITION_FAILED) (\<lambda>_.
     and_then (ensure (d_server_fee d < d_bitcoin_amount d) CONDITION_FAILED) (\<lambda>_.
     and_then (ok_or (btree_get (dt_assets s) (d_asset d)) ''unknown asset'') (\<lambda>asset.
     and_then (ensure (as_precision asset \<le> 8) CONDITION_FAILED) (\<lambda>_.
     and_then (verify_price w d (as_precision asset)) (\<lambda>_.
     ensure (d_server_fee d = get_server_fee (d_bitcoin_amount d)) CONDITION_FAILED)))))))))"

definition cl_verify :: "cl_world \<Rightarrow> details \<Rightarrow> unit cl" where
  "cl_verify w d = sx_bind (sx_get (\<lambda>s. verify_amounts w s d)) sx_lift"

definition known_asset :: "asset_id \<Rightarrow> asset cl" where
  "known_asset asset = sx_bind (sx_get (\<lambda>s. btree_get (dt_assets s) asset)) (\<lambda>a. sx_ok_or a ''unknown asset'')"

section \<open>Own AMP addresses\<close>

text \<open>\<open>load_all_addresses\<close>: pages of addresses until a page has no new address or is the last one.  The
  pages are what the wallet answers, one after the other; a wallet that never sends a last page keeps
  the worker in this loop, and past the last answer given the model stops with a panic.\<close>

fun load_all_addresses ::
    "(string + int option \<times> address_info list) list \<Rightarrow> int option \<Rightarrow> int \<Rightarrow> address_info list \<Rightarrow> (string, int \<times> address_info list) outcome" where
  "load_all_addresses [] last_known_pointer result_pointer result = Panic"
| "load_all_addresses (Inl e # pages) last_known_pointer result_pointer result = Err e"
| "load_all_addresses (Inr (last_pointer, page) # pages) last_known_pointer result_pointer result =
     (let max_pointer = foldl max 0 (map ai_pointer page);
          result_pointer = max result_pointer max_pointer;
          new_list = filter (\<lambda>addr. case last_known_pointer of None \<Rightarrow> True | Some p \<Rightarrow> ai_pointer addr > p) page;
          result = result @ new_list
      in if new_list = [] \<or> last_pointer = None
         then (if result = [] then Err CONDITION_FAILED else Ok (result_pointer, result))
         else load_all_addresses pages last_known_pointer result_pointer result)"

definition saved_address_info :: "address \<Rightarrow> cl_data \<Rightarrow> address_info option" where
  "saved_address_info addr s = (case st_amp_prev_addrs_v2 (dt_settings s) of
      None \<Rightarrow> None
    | Some (_, infos) \<Rightarrow> find (\<lambda>info. ai_address info = addr) infos)"

definition find_own_address_info :: "cl_world \<Rightarrow> address \<Rightarrow> address_info cl" where
  "find_own_address_info w addr =
     sx_bind (sx_get (saved_address_info addr)) (\<lambda>addr_info.
     case addr_info of
       Some addr_info \<Rightarrow> sx_return addr_info
     | None \<Rightarrow>
         sx_bind (sx_get (\<lambda>s. map_option fst (st_amp_prev_addrs_v2 (dt_settings s)))) (\<lambda>last_old_pointer.
         sx_then (get_wallet ACCOUNT_ID_AMP)
         (sx_bind (sx_call (\<lambda>h. cw_address_pages w h ACCOUNT_ID_AMP False)
                     (\<lambda>_. CE_Wallet ACCOUNT_ID_AMP (WC_PreviousAddresses None False))) (\<lambda>pages.
         sx_bind (sx_lift (load_all_addresses pages last_old_pointer 0 [])) (\<lambda>(last_new_pointer, new_list).
         sx_then (modify_settings (st_amp_prev_addrs_v2_update (\<lambda>prev.
             Some (last_new_pointer, (case prev of None \<Rightarrow> [] | Some (_, infos) \<Rightarrow> infos) @ new_list))))
         (sx_then save_settings
         (sx_bind (sx_get (saved_address_info addr)) (\<lambda>addr_info. sx_ok_or addr_info ''Not found''))))))))"

section \<open>Signing\<close>

definition order_amounts :: "cl_world \<Rightarrow> submit_data \<Rightarrow> swap_amounts" where
  "order_amounts w sb =
     (if sb_sell_bitcoin sb then
        \<lparr> am_send_asset = cw_policy_asset w,
          am_send_amount = wrap_u64 (i64_add (sb_bitcoin_amount sb) (sb_server_fee sb)),
          am_recv_asset = sb_asset sb, am_recv_amount = wrap_u64 (sb_asset_amount sb) \<rparr>
      else
        \<lparr> am_send_asset = sb_asset sb, am_send_amount = wrap_u64 (sb_asset_amount sb),
          am_recv_asset = cw_policy_asset w,
          am_recv_amount = wrap_u64 (i64_sub (sb_bitcoin_amount sb) (sb_server_fee sb)) \<rparr>)"

definition as_Sign :: "client_response \<Rightarrow> unit option" where
  "as_Sign r = (case r of CA_Sign \<Rightarrow> Some () | _ \<Rightarrow> None)"

definition update_submit :: "order_id \<Rightarrow> (submit_data \<Rightarrow> submit_data) \<Rightarrow> cl_data \<Rightarrow> cl_data" where
  "update_submit order_id f s = (case btree_get (dt_submit_data s) order_id of
      None \<Rightarrow> s
    | Some sb \<Rightarrow> s \<lparr> dt_submit_data := btree_insert order_id (f sb) (dt_submit_data s) \<rparr>)"

definition get_submit :: "order_id \<Rightarrow> string \<Rightarrow> submit_data cl" where
  "get_submit order_id e = sx_bind (sx_get (\<lambda>s. btree_get (dt_submit_data s) order_id)) (\<lambda>sb. sx_ok_or sb e)"

definition try_sign :: "cl_world \<Rightarrow> sign_notification \<Rightarrow> bool cl" where
  "try_sign w msg =
     sx_bind (get_submit (sn_order_id msg) ''submit_data not found'') (\<lambda>submit_data.
     sx_then (check (sb_order_id submit_data = sn_order_id msg) ''unexpected order_id'')
     (sx_bind (sx_get (\<lambda>s. sb_asset submit_data \<in> set (dt_amp_assets s))) (\<lambda>is_amp.
     let account_id = (if is_amp then ACCOUNT_ID_AMP else ACCOUNT_ID_REG) in
     sx_bind (if is_amp then sx_ok_or (sn_nonces msg) ''blinding keys should be known'' else sx_return []) (\<lambda>nonces.
     sx_then (get_wallet account_id)
     (sx_bind (verify_and_sign_pset w (For_Order (sn_order_id msg)) account_id (order_amounts w submit_data)
                 (sn_pset msg) nonces) (\<lambda>signed_pset.
     sx_then (request_as w (CR_Sign \<lparr> sr_order_id = sn_order_id msg, sr_signed_pset = signed_pset,
                                      sr_side = sb_side submit_data \<rparr>) as_Sign)
     (sx_then (sx_modify (update_submit (sn_order_id msg) (sb_signed_update (\<lambda>_. True))))
     (sx_then (sx_when (sb_side submit_data = Taker \<and> \<not> unwrap_or (d_two_step (sn_details msg)) False)
                 (ui_send (FM_StartTimer (sb_order_id submit_data))))
     (sx_return False)))))))))"

definition show_sign_prompt :: "sign_notification \<Rightarrow> submit_data \<Rightarrow> unit cl" where
  "show_sign_prompt msg sb =
     sx_then (ui_send (FM_SubmitReview
       \<lparr> rv_order_id = sn_order_id msg, rv_asset = sb_asset sb, rv_bitcoin_amount = sb_bitcoin_amount sb,
         rv_server_fee = sb_server_fee sb, rv_asset_amount = sb_asset_amount sb, rv_price = sb_price sb,
         rv_sell_bitcoin = sb_sell_bitcoin sb, rv_step = Step_Sign, rv_index_price = sb_index_price sb,
         rv_auto_sign = sb_auto_sign sb, rv_two_step = None, rv_tx_chaining_required = None \<rparr>))
     (sx_modify (\<lambda>s. s \<lparr> dt_visible_submit := Some (sn_order_id msg), dt_active_sign := Some msg \<rparr>))"

text \<open>The prompts wait while another one is visible.  Each round takes one prompt off the queue, so one
  round more than the queue is long ends the loop.\<close>

fun sign_prompts_loop :: "nat \<Rightarrow> unit cl" where
  "sign_prompts_loop 0 = sx_return ()"
| "sign_prompts_loop (Suc n) =
     sx_bind (sx_get id) (\<lambda>s.
     if dt_visible_submit s \<noteq> None then sx_return ()
     else case dt_pending_sign_prompts s of
       [] \<Rightarrow> sx_return ()
     | msg # rest \<Rightarrow>
         sx_then (sx_modify (dt_pending_sign_prompts_update (\<lambda>_. rest)))
         (sx_then (case btree_get (dt_submit_data s) (sn_order_id msg) of
             None \<Rightarrow> sx_return ()
           | Some sb \<Rightarrow> show_sign_prompt msg sb)
         (sign_prompts_loop n)))"

definition process_pending_sign_prompts :: "unit cl" where
  "process_pending_sign_prompts =
     sx_bind (sx_get (\<lambda>s. length (dt_pending_sign_prompts s))) (\<lambda>n. sign_prompts_loop (Suc n))"

fun succeed_loop :: "nat \<Rightarrow> unit cl" where
  "succeed_loop 0 = sx_return ()"
| "succeed_loop (Suc n) =
     sx_bind (sx_get dt_pending_succeed) (\<lambda>items.
     case items of
       [] \<Rightarrow> sx_return ()
     | item # rest \<Rightarrow>
         sx_then (sx_modify (dt_pending_succeed_update (\<lambda>_. rest)))
         (sx_then (ui_send (FM_SubmitResult (SR_SwapSucceed item)))
         (sx_then (sx_when (rest \<noteq> []) (sx_emit (CE_Sleep 3)))
         (succeed_loop n))))"

definition process_pending_succeed :: "unit cl" where
  "process_pending_succeed =
     sx_bind (sx_get id) (\<lambda>s.
     if dt_visible_submit s \<noteq> None then sx_return ()
     else succeed_loop (Suc (length (dt_pending_succeed s))))"

definition AUTO_SIGN_ALLOWED_INDEX_PRICE_CHANGE :: f64 where
  "AUTO_SIGN_ALLOWED_INDEX_PRICE_CHANGE = f64_of_rat (1 / 10)"

text \<open>The transaction has to be for the order the user agreed to.\<close>

definition sign_matches :: "submit_data \<Rightarrow> details \<Rightarrow> bool" where
  "sign_matches sb d \<longleftrightarrow>
     sb_sell_bitcoin sb = d_send_bitcoins d \<and> sb_order_type sb = d_order_type d \<and> sb_asset sb = d_asset d \<and>
     (case sb_order_type sb of
        OT_Bitcoin \<Rightarrow> sb_server_fee sb = d_server_fee d \<and> sb_bitcoin_amount sb = d_bitcoin_amount d
      | OT_Asset \<Rightarrow> sb_asset_amount sb = d_asset_amount d) \<and>
     sb_side sb = d_side d"

definition price_change :: "submit_data \<Rightarrow> details \<Rightarrow> f64" where
  "price_change sb d = f64_div (f64_abs (f64_sub (d_price d) (sb_price sb))) (sb_price sb)"

definition auto_sign_allowed :: "bool \<Rightarrow> submit_data \<Rightarrow> details \<Rightarrow> bool" where
  "auto_sign_allowed force_auto_sign_maker sb d = (case sb_side sb of
      Maker \<Rightarrow> (sb_auto_sign sb \<and>
          f64_le (price_change sb d) (if sb_index_price sb then AUTO_SIGN_ALLOWED_INDEX_PRICE_CHANGE else Fin 0)) \<or>
        force_auto_sign_maker
    | Taker \<Rightarrow> True)"

definition take_details :: "details \<Rightarrow> submit_data \<Rightarrow> submit_data" where
  "take_details d sb = sb \<lparr> sb_price := d_price d, sb_asset_amount := d_asset_amount d,
     sb_bitcoin_amount := d_bitcoin_amount d, sb_server_fee := d_server_fee d \<rparr>"

definition try_process_sign :: "cl_world \<Rightarrow> sign_notification \<Rightarrow> unit cl" where
  "try_process_sign w msg =
     sx_bind (sx_get (\<lambda>s. sn_order_id msg \<in> set (dt_processed_signs s))) (\<lambda>existing.
     if existing then sx_return ()
     else
       sx_then (sx_modify (dt_processed_signs_update (\<lambda>ids. sn_order_id msg # ids)))
       (sx_then (cl_verify w (sn_details msg))
       (sx_bind (get_submit (sn_order_id msg) ''no keys found'') (\<lambda>sb.
       sx_then (check (sn_order_id msg = sb_order_id sb) CONDITION_FAILED)
       (sx_then (check (sign_matches sb (sn_details msg)) CONDITION_FAILED)
       (sx_then (check (f64_eq (price_change sb (sn_details msg)) (Fin 0) \<or> sb_side sb \<noteq> Taker) CONDITION_FAILED)
       (sx_bind (sx_get dt_force_auto_sign_maker) (\<lambda>force.
       sx_then (sx_modify (update_submit (sn_order_id msg) (take_details (sn_details msg))))
       (if \<not> auto_sign_allowed force sb (sn_details msg) then
          sx_then (sx_modify (dt_pending_sign_prompts_update (\<lambda>q. q @ [msg]))) process_pending_sign_prompts
        else sx_then (try_sign w msg) (sx_return ()))))))))))"

definition sign_or_report :: "cl_world \<Rightarrow> sign_notification \<Rightarrow> unit cl" where
  "sign_or_report w msg =
     sx_bind (sx_try (try_process_sign w msg)) (\<lambda>result.
     case result of Inl e \<Rightarrow> show_message (''sign failed: '' @ e) | Inr _ \<Rightarrow> sx_return ())"

section \<open>Accepting an order\<close>

definition reserved_txouts :: "cl_data \<Rightarrow> tx_out list" where
  "reserved_txouts s = concat (map sb_txouts (btree_values (dt_submit_data s)))"

definition utxo_tx_out :: "unspent_output \<Rightarrow> tx_out" where
  "utxo_tx_out utxo = \<lparr> to_txid = uo_txhash utxo, to_vout = uo_vout utxo \<rparr>"

definition choose_utxos :: "tx_out list \<Rightarrow> bool \<Rightarrow> unspent_output list \<Rightarrow> i64 \<Rightarrow> (string, unspent_output list) outcome" where
  "choose_utxos reserved only_unused_utxos inputs send_amount =
     (let filtered_utxos = filter (\<lambda>utxo. utxo_tx_out utxo \<notin> set reserved) inputs;
          filtered_amount = wrap_i64 (u64_sum (map uo_satoshi filtered_utxos)) in
      and_then (if filtered_amount \<ge> send_amount then Ok filtered_utxos
                else if only_unused_utxos then Err ''not enough free UTXOs''
                else Ok inputs) (\<lambda>asset_utxos.
      let utxo_amounts = map (\<lambda>v. wrap_i64 (uo_satoshi v)) asset_utxos in
      and_then (ensure (i64_sum utxo_amounts \<ge> send_amount) ''Insufficient funds'') (\<lambda>_.
      and_then (select_utxo utxo_amounts send_amount) (\<lambda>selected.
      and_then (assert_that (i64_sum selected \<ge> send_amount)) (\<lambda>_.
      take_selected (zip utxo_amounts asset_utxos) selected [])))))"

definition as_ResolveGaid :: "client_response \<Rightarrow> address option" where
  "as_ResolveGaid r = (case r of CA_ResolveGaid addr \<Rightarrow> Some addr | _ \<Rightarrow> None)"

definition as_PsetMaker :: "client_response \<Rightarrow> unit option" where
  "as_PsetMaker r = (case r of CA_PsetMaker \<Rightarrow> Some () | _ \<Rightarrow> None)"

definition as_PsetTaker :: "client_response \<Rightarrow> unit option" where
  "as_PsetTaker r = (case r of CA_PsetTaker \<Rightarrow> Some () | _ \<Rightarrow> None)"

definition receive_address_for :: "cl_world \<Rightarrow> order_id \<Rightarrow> bool \<Rightarrow> bool \<Rightarrow> account_id \<Rightarrow> address_info cl" where
  "receive_address_for w order_id send_bitcoins is_amp account_id =
     (if send_bitcoins \<and> is_amp then
        sx_bind (wallet_get_gaid w account_id) (\<lambda>gaid.
        sx_bind (request_as w (CR_ResolveGaid order_id gaid) as_ResolveGaid) (\<lambda>resolved_addr.
        find_own_address_info w resolved_addr))
      else wallet_get_receive_address w account_id)"

text \<open>A two-step swap: the maker signs its half in advance.\<close>

definition make_signed_half ::
    "cl_world \<Rightarrow> submit_decision \<Rightarrow> bool \<Rightarrow> account_id \<Rightarrow> details \<Rightarrow> address_info \<Rightarrow> pset_input list
      \<Rightarrow> (pset_input list \<times> maker_signed_half option) cl" where
  "make_signed_half w req auto_sign account_id details recv_addr_info inputs =
     (if unwrap_or (de_two_step req) False then
        sx_then (check auto_sign ''Auto-sign must be enabled for two-step swap'')
        (let (send_asset, send_amount) = details_send w details; (recv_asset, recv_amount) = details_recv w details in
        sx_then (get_wallet account_id)
        (sx_bind (wallet_call account_id
            (WC_SigSingleMaker send_asset (wrap_u64 send_amount) recv_asset (wrap_u64 recv_amount) recv_addr_info)
            (\<lambda>h. cw_sig_single_maker w h account_id send_asset (wrap_u64 send_amount) recv_asset (wrap_u64 recv_amount) recv_addr_info))
          (\<lambda>maker_tx.
        sx_then (check (sm_chaining_tx maker_tx = None \<or> unwrap_or (de_tx_chaining_allowed req) False)
                   ''Please allow tx chaining and try again'')
        (sx_return ([convert_to_swap_utxo w (sm_unspent_output maker_tx)],
                    Some \<lparr> msh_chaining_tx = sm_chaining_tx maker_tx, msh_proposal = sm_proposal maker_tx \<rparr>)))))
      else sx_return (inputs, None))"

definition send_pset_request ::
    "cl_world \<Rightarrow> submit_decision \<Rightarrow> order_id \<Rightarrow> account_id \<Rightarrow> details \<Rightarrow> bool \<Rightarrow> pset_input list \<Rightarrow> address_info \<Rightarrow> address \<Rightarrow> unit cl" where
  "send_pset_request w req order_id account_id details auto_sign inputs recv_addr_info change_addr =
     (if d_side details = Maker then
        sx_bind (make_signed_half w req auto_sign account_id details recv_addr_info inputs) (\<lambda>(inputs, signed_half).
        sx_bind (request_as w (CR_PsetMaker
          \<lparr> pm_order_id = order_id, pm_price = d_price details, pm_private = unwrap_or (de_private req) False,
            pm_ttl_seconds = de_ttl_seconds req, pm_inputs = inputs, pm_recv_addr = ai_address recv_addr_info,
            pm_change_addr = change_addr, pm_signed_half = signed_half \<rparr>) as_PsetMaker) sx_return)
      else
        sx_then (get_wallet account_id)
        (sx_then (wallet_unlock_hww w account_id)
        (sx_bind (request_as w (CR_PsetTaker
          \<lparr> pt_order_id = order_id, pt_price = d_price details, pt_inputs = inputs,
            pt_recv_addr = ai_address recv_addr_info, pt_change_addr = change_addr \<rparr>) as_PsetTaker) sx_return)))"

definition new_submit_data :: "order_id \<Rightarrow> details \<Rightarrow> bool \<Rightarrow> nat \<Rightarrow> tx_out list \<Rightarrow> bool \<Rightarrow> submit_data" where
  "new_submit_data order_id d index_price precision txouts auto_sign =
     \<lparr> sb_order_id = order_id, sb_side = d_side d, sb_asset = d_asset d, sb_asset_precision = precision,
       sb_order_type = d_order_type d, sb_bitcoin_amount = d_bitcoin_amount d, sb_asset_amount = d_asset_amount d,
       sb_price = d_price d, sb_server_fee = d_server_fee d, sb_sell_bitcoin = d_send_bitcoins d,
       sb_txouts = txouts, sb_auto_sign = auto_sign, sb_txid = None, sb_index_price = index_price,
       sb_market = d_market d, sb_signed = False \<rparr>"

definition accept_order :: "cl_world \<Rightarrow> submit_decision \<Rightarrow> order_id \<Rightarrow> link_response \<Rightarrow> bool cl" where
  "accept_order w req order_id resp =
     (let details = lk_details resp; side = d_side details;
          auto_sign = (unwrap_or (de_auto_sign req) False \<and> side = Maker);
          (send_asset, send_amount) = details_send w details in
     sx_bind (sx_get (\<lambda>s. d_asset details \<in> set (dt_amp_assets s))) (\<lambda>is_amp.
     let account_id = (if is_amp then ACCOUNT_ID_AMP else ACCOUNT_ID_REG) in
     sx_then (known_asset (d_asset details))
     (sx_then (cl_verify w details)
     (sx_then (get_wallet account_id)
     (sx_bind (wallet_get_change_address w account_id) (\<lambda>change_addr.
     sx_bind (wallet_get_utxos w account_id) (\<lambda>outputs.
     sx_bind (receive_address_for w order_id (d_send_bitcoins details) is_amp account_id) (\<lambda>recv_addr_info.
     sx_then (known_asset (d_asset details))
     (sx_bind (sx_get reserved_txouts) (\<lambda>reserved.
     sx_bind (sx_lift (choose_utxos reserved (unwrap_or (de_only_unused_utxos req) False)
                         (utxos_of outputs send_asset) send_amount)) (\<lambda>utxos.
     let inputs = map (convert_to_swap_utxo w) utxos; txouts = sort (remdups (map utxo_tx_out utxos)) in
     sx_then (send_pset_request w req order_id account_id details auto_sign inputs recv_addr_info (ai_address change_addr))
     (sx_bind (known_asset (d_asset details)) (\<lambda>asset.
     sx_then (sx_modify (dt_submit_data_update (btree_insert order_id
        (new_submit_data order_id details (lk_index_price resp) (as_precision asset) txouts auto_sign))))
     (sx_return (side = Maker)))))))))))))))"

text \<open>The text of the error of the \<open>hex\<close> crate is not modelled.\<close>

definition HEX_ERROR :: string where "HEX_ERROR = ''invalid order id''"

definition try_process_submit_decision :: "cl_world \<Rightarrow> submit_decision \<Rightarrow> bool cl" where
  "try_process_submit_decision w req =
     (if \<not> de_accept req then sx_return True
      else
        sx_bind (sx_get dt_active_sign) (\<lambda>active_sign.
        case (case active_sign of
            Some sign \<Rightarrow> if hash32_to_string (sn_order_id sign) = de_order_id req then Some sign else None
          | None \<Rightarrow> None) of
          Some sign_msg \<Rightarrow> sx_then (sx_modify (dt_active_sign_update (\<lambda>_. None))) (try_sign w sign_msg)
        | None \<Rightarrow>
            sx_bind (sx_ok_or (hash32_from_str (de_order_id req)) HEX_ERROR) (\<lambda>order_id.
            sx_bind (sx_get (\<lambda>s. btree_get (dt_active_submits s) order_id)) (\<lambda>resp.
            sx_then (sx_modify (dt_active_submits_update (btree_remove order_id)))
            (sx_bind (sx_ok_or resp ''data not found'') (\<lambda>resp.
            accept_order w req order_id resp))))))"

definition UNREGISTERED_ERR :: string where
  "UNREGISTERED_ERR = ''Your AMP ID must be registered with the issuer to trade this product. Please consult product details for further information.''"

definition decision_agent :: "submit_decision \<Rightarrow> cl_data \<Rightarrow> string option" where
  "decision_agent req s =
     Option.bind (hash32_from_str (de_order_id req)) (\<lambda>order_id.
     Option.bind (btree_get (dt_active_submits s) order_id) (\<lambda>order.
     Option.bind (btree_get (dt_assets s) (d_asset (lk_details order))) as_domain_agent))"

definition decision_done :: "submit_result \<Rightarrow> unit cl" where
  "decision_done result =
     sx_then (ui_send (FM_SubmitResult result))
     (sx_then (sx_modify (dt_visible_submit_update (\<lambda>_. None)))
     (sx_then process_pending_sign_prompts process_pending_succeed))"

definition process_submit_decision :: "cl_world \<Rightarrow> submit_decision \<Rightarrow> unit cl" where
  "process_submit_decision w req =
     sx_bind (sx_get (decision_agent req)) (\<lambda>domain_agent.
     sx_bind (sx_try (try_process_submit_decision w req)) (\<lambda>result.
     case result of
       Inr True \<Rightarrow> decision_done SR_SubmitSucceed
     | Inr False \<Rightarrow>
         sx_then (sx_modify (\<lambda>s. s \<lparr> dt_waiting_submit := dt_visible_submit s, dt_visible_submit := None \<rparr>))
         (sx_then process_pending_sign_prompts process_pending_succeed)
     | Inl e \<Rightarrow> decision_done (case domain_agent of
           Some agent \<Rightarrow> if e = UNREGISTERED_ERR then SR_UnregisteredGaid agent else SR_Error e
         | None \<Rightarrow> SR_Error e)))"

section \<open>Editing and cancelling\<close>

definition as_Edit :: "client_response \<Rightarrow> unit option" where
  "as_Edit r = (case r of CA_Edit \<Rightarrow> Some () | _ \<Rightarrow> None)"

text \<open>The asset amount, the bitcoin amount and the server fee at the new price.\<close>

definition reprice :: "f64 \<Rightarrow> submit_data \<Rightarrow> (string, amount \<times> amount \<times> amount) outcome" where
  "reprice price sb = (case sb_order_type sb of
      OT_Bitcoin \<Rightarrow>
        and_then (types_asset_amount (sb_bitcoin_amount sb) price (sb_asset_precision sb) (sb_market sb)) (\<lambda>asset_amount.
        Ok (asset_amount, sb_bitcoin_amount sb, sb_server_fee sb))
    | OT_Asset \<Rightarrow>
        and_then (types_bitcoin_amount (sb_asset_amount sb) price (sb_asset_precision sb) (sb_market sb)) (\<lambda>bitcoin_amount.
        Ok (sb_asset_amount sb, bitcoin_amount, get_server_fee bitcoin_amount)))"

definition set_amounts :: "f64 \<Rightarrow> amount \<times> amount \<times> amount \<Rightarrow> submit_data \<Rightarrow> submit_data" where
  "set_amounts price = (\<lambda>(asset_amount, bitcoin_amount, server_fee) sb. sb \<lparr> sb_price := price,
     sb_asset_amount := asset_amount, sb_bitcoin_amount := bitcoin_amount, sb_server_fee := server_fee \<rparr>)"

definition try_edit_order_price :: "cl_world \<Rightarrow> order_id \<Rightarrow> f64 option \<Rightarrow> f64 option \<Rightarrow> unit cl" where
  "try_edit_order_price w order_id price index_price =
     sx_then (request_as w (CR_Edit order_id price index_price) as_Edit)
     (case price of
        None \<Rightarrow> sx_return ()
      | Some price \<Rightarrow>
          sx_bind (sx_get (\<lambda>s. btree_get (dt_submit_data s) order_id)) (\<lambda>submit.
          case submit of
            None \<Rightarrow> sx_return ()
          | Some sb \<Rightarrow>
              sx_bind (sx_lift (reprice price sb)) (\<lambda>amounts.
              sx_modify (update_submit order_id (set_amounts price amounts)))))"

definition try_edit_order_auto_sign :: "order_id \<Rightarrow> bool \<Rightarrow> unit cl" where
  "try_edit_order_auto_sign order_id auto_sign =
     sx_bind (get_submit order_id ''submit data not found'') (\<lambda>_.
     sx_bind (sx_get (\<lambda>s. btree_get (dt_orders_last s) order_id)) (\<lambda>order.
     sx_bind (sx_ok_or order ''order not found'') (\<lambda>order.
     sx_then (sx_modify (update_submit order_id (sb_auto_sign_update (\<lambda>_. auto_sign))))
     (sx_modify (dt_orders_last_update (btree_insert order_id (order \<lparr> od_auto_sign := auto_sign \<rparr>)))))))"

definition process_edit_order :: "cl_world \<Rightarrow> string \<Rightarrow> edit_data option \<Rightarrow> unit cl" where
  "process_edit_order w order_id data =
     sx_bind (sx_expect (hash32_from_str order_id)) (\<lambda>order_id.
     sx_bind (sx_expect data) (\<lambda>data.
     sx_bind (sx_try (case data of
         Edit_AutoSign auto_sign \<Rightarrow> try_edit_order_auto_sign order_id auto_sign
       | Edit_Price price \<Rightarrow> try_edit_order_price w order_id (Some price) None
       | Edit_IndexPrice index_price \<Rightarrow> try_edit_order_price w order_id None (Some index_price))) (\<lambda>edit_result.
     sx_then (ui_send (case edit_result of Inr _ \<Rightarrow> FM_EditOrder True None | Inl e \<Rightarrow> FM_EditOrder False (Some e)))
     sync_order_list)))"

definition process_cancel_order :: "string \<Rightarrow> unit cl" where
  "process_cancel_order order_id =
     sx_bind (sx_expect (hash32_from_str order_id)) (\<lambda>order_id.
     make_async_request (CR_Cancel order_id) CB_CancelOrder)"

section \<open>Orders of the server\<close>

definition complete_error :: "submit_data option \<Rightarrow> string" where
  "complete_error submit = (case submit of
      Some sb \<Rightarrow> if sb_side sb = Maker then ''Failed to sign''
                 else if \<not> sb_signed sb then ''Order removed'' else ''Counterparty failed to sign''
    | None \<Rightarrow> ''Order removed'')"

definition process_complete :: "complete_notification \<Rightarrow> unit cl" where
  "process_complete msg =
     (let order_id = cn_order_id msg in
     sx_then (ui_send (FM_OrderComplete order_id (cn_txid msg)))
     (case cn_txid msg of
        Some v \<Rightarrow> sx_modify (update_submit order_id (sb_txid_update (\<lambda>_. Some v)))
      | None \<Rightarrow>
          sx_bind (sx_get id) (\<lambda>s.
          sx_then (sx_modify (dt_submit_data_update (btree_remove order_id)))
          (sx_when (dt_visible_submit s = Some order_id \<or>
                    dt_visible_submit s = None \<and> dt_waiting_submit s = Some order_id)
            (decision_done (SR_Error (complete_error (btree_get (dt_submit_data s) order_id))))))))"

text \<open>After a restart of the app the client knows of its orders only from the server.\<close>

definition missing_submit_data :: "order_id \<Rightarrow> details \<Rightarrow> nat \<Rightarrow> bool \<Rightarrow> submit_data" where
  "missing_submit_data order_id d precision two_step =
     \<lparr> sb_order_id = order_id, sb_side = Maker, sb_asset = d_asset d, sb_asset_precision = precision,
       sb_order_type = d_order_type d, sb_bitcoin_amount = d_bitcoin_amount d, sb_asset_amount = d_asset_amount d,
       sb_price = d_price d, sb_server_fee = d_server_fee d,
       sb_sell_bitcoin = (d_send_bitcoins d = (d_side d = Maker)), sb_txouts = [], sb_auto_sign = two_step,
       sb_txid = None, sb_index_price = False, sb_market = d_market d, sb_signed = False \<rparr>"

definition add_missing_submit_data :: "cl_world \<Rightarrow> order_id \<Rightarrow> details \<Rightarrow> bool \<Rightarrow> unit cl" where
  "add_missing_submit_data w order_id details two_step =
     sx_bind (sx_get (\<lambda>s. btree_get (dt_submit_data s) order_id)) (\<lambda>existing.
     if existing \<noteq> None then sx_return ()
     else
       sx_bind (known_asset (d_asset details)) (\<lambda>asset.
       sx_then (cl_verify w details)
       (sx_modify (dt_submit_data_update (btree_insert order_id
          (missing_submit_data order_id details (as_precision asset) two_step))))))"

definition order_of :: "order_created \<Rightarrow> bool \<Rightarrow> cl_data \<Rightarrow> ui_order" where
  "order_of msg from_notification s =
     (let d = oc_details msg in
      \<lparr> od_order_id = oc_order_id msg, od_asset_id = d_asset d, od_bitcoin_amount = d_bitcoin_amount d,
        od_send_bitcoins = d_send_bitcoins d, od_server_fee = d_server_fee d, od_asset_amount = d_asset_amount d,
        od_price = d_price d, od_created_at = oc_created_at msg, od_expires_at = oc_expires_at msg,
        od_private = (case oc_own msg of Some own \<Rightarrow> own_private own | None \<Rightarrow> False),
        od_two_step = oc_two_step msg,
        od_auto_sign = (case btree_get (dt_submit_data s) (oc_order_id msg) of Some submit \<Rightarrow> sb_auto_sign submit | None \<Rightarrow> False),
        od_own = (oc_own msg \<noteq> None),
        od_token_market = (btree_get (dt_assets s) (d_asset d) = None \<and> d_asset d \<notin> set (dt_amp_assets s)),
        od_from_notification = from_notification,
        od_index_price = Option.bind (oc_own msg) own_index_price \<rparr>)"

definition add_order :: "cl_world \<Rightarrow> order_created \<Rightarrow> bool \<Rightarrow> unit cl" where
  "add_order w msg from_notification =
     sx_then (sx_try (try_add_asset w (d_asset (oc_details msg))))
     (sx_then (sx_when (oc_own msg \<noteq> None)
        (sx_then (sx_try (add_missing_submit_data w (oc_order_id msg) (oc_details msg) (oc_two_step msg))) (sx_return ())))
     (sx_bind (sx_get (order_of msg from_notification)) (\<lambda>order.
     sx_modify (dt_orders_last_update (btree_insert (oc_order_id msg) order)))))"

definition process_order_created :: "cl_world \<Rightarrow> order_created \<Rightarrow> unit cl" where
  "process_order_created w msg = sx_then (add_order w msg True) sync_order_list"

definition remove_order :: "order_id \<Rightarrow> unit cl" where
  "remove_order order_id = sx_modify (dt_orders_last_update (btree_remove order_id))"

definition process_order_removed :: "order_id \<Rightarrow> unit cl" where
  "process_order_removed order_id = sx_then (remove_order order_id) sync_order_list"

definition process_subscribe_response :: "cl_world \<Rightarrow> order_created list \<Rightarrow> unit cl" where
  "process_subscribe_response w orders = sx_then (sx_each (\<lambda>order. add_order w order False) orders) sync_order_list"

definition process_unsubscribe_response :: "asset_id option \<Rightarrow> unit cl" where
  "process_unsubscribe_response asset =
     sx_then (sx_modify (dt_orders_last_update (filter (\<lambda>(_, order). od_own order \<or>
        (case asset of Some asset_id \<Rightarrow> od_asset_id order \<noteq> asset_id | None \<Rightarrow> \<not> od_token_market order)))))
     sync_order_list"

section \<open>What has to wait\<close>

definition as_GetSign :: "client_response \<Rightarrow> sign_notification option" where
  "as_GetSign r = (case r of CA_GetSign sign \<Rightarrow> Some sign | _ \<Rightarrow> None)"

text \<open>\<open>process_sign\<close> and \<open>process_pending_requests\<close> call each other through
  \<open>download_sign_request\<close>; \<open>pending\<close> is the inner call.\<close>

definition process_sign_with :: "cl_world \<Rightarrow> unit cl \<Rightarrow> sign_notification \<Rightarrow> unit cl" where
  "process_sign_with w pending msg =
     (if d_side (sn_details msg) = Taker then sign_or_report w msg
      else sx_then (sx_modify (dt_pending_sign_requests_update (\<lambda>q. q @ [msg]))) pending)"

definition download_sign_request :: "cl_world \<Rightarrow> unit cl \<Rightarrow> order_id \<Rightarrow> unit cl" where
  "download_sign_request w pending order_id =
     sx_bind (request_as w (CR_GetSign order_id) as_GetSign) (\<lambda>sign.
     sx_then (try_add_asset w (d_asset (sn_details sign)))
     (sx_then (add_missing_submit_data w order_id (sn_details sign) False)
     (process_sign_with w pending sign)))"

fun download_signs :: "(order_id \<Rightarrow> unit cl) \<Rightarrow> (order_id \<times> nat option) list \<Rightarrow> nat list cl" where
  "download_signs download [] = sx_return []"
| "download_signs download ((order_id, pending_sign) # signs) =
     sx_bind (sx_get (\<lambda>s. order_id \<in> set (dt_processed_signs s))) (\<lambda>processed.
     if processed then download_signs download signs
     else
       sx_bind (sx_try (download order_id)) (\<lambda>result.
       sx_then (case result of Inl e \<Rightarrow> show_message (''sign failed: '' @ e) | Inr _ \<Rightarrow> sx_return ())
       (sx_bind (download_signs download signs) (\<lambda>rest.
       sx_return (case pending_sign of Some sender \<Rightarrow> sender # rest | None \<Rightarrow> rest)))))"

definition submit_pending :: "cl_world \<Rightarrow> ui_submit_order \<Rightarrow> unit cl" where
  "submit_pending w req =
     sx_bind (sx_try (try_process_submit_order w req)) (\<lambda>result.
     case result of Inl e \<Rightarrow> ui_send (FM_SubmitResult (SR_Error e)) | Inr _ \<Rightarrow> sx_return ())"

definition link_pending :: "cl_world \<Rightarrow> string \<Rightarrow> unit cl" where
  "link_pending w order_id =
     sx_bind (sx_expect (hash32_from_str order_id)) (\<lambda>order_id.
     sx_bind (sx_try (try_process_link_order w order_id)) (\<lambda>result.
     case result of Inl e \<Rightarrow> show_message e | Inr _ \<Rightarrow> sx_return ()))"

definition show_downloaded :: "cl_world \<Rightarrow> link_response \<Rightarrow> unit cl" where
  "show_downloaded w resp =
     sx_bind (sx_try (try_process_downloaded_link w resp)) (\<lambda>result.
     case result of Inr (Some v) \<Rightarrow> ui_send v | Inr None \<Rightarrow> sx_return () | Inl e \<Rightarrow> show_message e)"

text \<open>No handler called in this loop adds to the queue, so it ends after as many rounds as the queue is
  long.\<close>

fun sign_requests_loop :: "cl_world \<Rightarrow> nat \<Rightarrow> unit cl" where
  "sign_requests_loop w 0 = sx_return ()"
| "sign_requests_loop w (Suc n) =
     sx_bind (sx_get id) (\<lambda>s.
     case dt_pending_sign_requests s of
       [] \<Rightarrow> sx_return ()
     | msg # rest \<Rightarrow>
         sx_then (sx_modify (dt_pending_sign_requests_update (\<lambda>_. rest)))
         (sx_then (sx_when (sn_order_id msg \<notin> set (dt_processed_signs s)) (sign_or_report w msg))
         (sign_requests_loop w n)))"

definition sx_take :: "(cl_data \<Rightarrow> 'a) \<Rightarrow> (cl_data \<Rightarrow> cl_data) \<Rightarrow> 'a cl" where
  "sx_take get clear = sx_bind (sx_get get) (\<lambda>x. sx_then (sx_modify clear) (sx_return x))"

definition process_pending_body :: "cl_world \<Rightarrow> (order_id \<Rightarrow> unit cl) \<Rightarrow> unit cl" where
  "process_pending_body w download =
     sx_bind (sx_get id) (\<lambda>s.
     if \<not> dt_connected s then sx_return ()
     else if \<not> dt_amp_connected s \<and> pending_amp_sign_requests s \<and> btree_get (dt_wallets s) ACCOUNT_ID_AMP \<noteq> None
     then update_amp_connection
     else
       sx_bind (sx_take dt_pending_signs (dt_pending_signs_update (\<lambda>_. []))) (\<lambda>pending_signs.
       sx_bind (download_signs download pending_signs) (\<lambda>background_requests.
       sx_bind (sx_take dt_pending_submits (dt_pending_submits_update (\<lambda>_. []))) (\<lambda>pending_submits.
       sx_then (sx_each (submit_pending w) pending_submits)
       (sx_bind (sx_take dt_pending_links (dt_pending_links_update (\<lambda>_. []))) (\<lambda>pending_links.
       sx_then (sx_each (link_pending w) pending_links)
       (sx_bind (sx_take dt_downloaded_links (dt_downloaded_links_update (\<lambda>_. []))) (\<lambda>downloaded_links.
       sx_then (sx_each (show_downloaded w) downloaded_links)
       (sx_then process_pending_sign_prompts
       (sx_bind (sx_get (\<lambda>s. length (dt_pending_sign_requests s))) (\<lambda>n.
       sx_then (sign_requests_loop w n)
       (sx_then update_amp_connection
       (sx_each (\<lambda>sender. sx_emit (CE_Background sender)) background_requests)))))))))))))"

text \<open>The outer call takes the whole map of pending signatures before it downloads the first one, so the
  inner call finds it empty and downloads nothing.\<close>

definition process_pending_inner :: "cl_world \<Rightarrow> unit cl" where
  "process_pending_inner w = process_pending_body w (\<lambda>_. sx_panic)"

definition process_pending_requests :: "cl_world \<Rightarrow> unit cl" where
  "process_pending_requests w = process_pending_body w (download_sign_request w (process_pending_inner w))"

definition process_sign :: "cl_world \<Rightarrow> sign_notification \<Rightarrow> unit cl" where
  "process_sign w msg = process_sign_with w (process_pending_requests w) msg"

definition process_submit_order :: "cl_world \<Rightarrow> ui_submit_order \<Rightarrow> unit cl" where
  "process_submit_order w req =
     sx_then (sx_modify (dt_pending_submits_update (\<lambda>q. q @ [req]))) (process_pending_requests w)"

definition process_link_order :: "cl_world \<Rightarrow> string \<Rightarrow> unit cl" where
  "process_link_order w order_id =
     sx_then (sx_modify (dt_pending_links_update (\<lambda>q. q @ [order_id]))) (process_pending_requests w)"

definition process_push_message :: "cl_world \<Rightarrow> string \<Rightarrow> nat option \<Rightarrow> unit cl" where
  "process_push_message w req pending_sign = (case cw_parse_fcm w req of
      Some (FCM_Sign order_id) \<Rightarrow>
        sx_bind (sx_get (\<lambda>s. unwrap_or (btree_get (dt_pending_signs s) order_id) pending_sign)) (\<lambda>pending_sign.
        sx_then (sx_modify (dt_pending_signs_update (btree_insert order_id pending_sign)))
        (sx_then (check_connections w) (process_pending_requests w)))
    | _ \<Rightarrow> sx_return ())"

end
