(* ===== verification/Client_Swaps.thy ===== *)
theory Client_Swaps
  imports Client_Orders
begin

text \<open>
  Instant swaps (asked for by the user and signed when the server sends the transaction), swaps accepted
  from a link, peg-ins and peg-outs, and sending coins.
\<close>

section \<open>Instant swaps\<close>

definition as_StartSwapClient :: "client_response \<Rightarrow> order_id option" where
  "as_StartSwapClient r = (case r of CA_StartSwapClient order_id \<Rightarrow> Some order_id | _ \<Rightarrow> None)"

definition as_SignedSwapClient :: "client_response \<Rightarrow> unit option" where
  "as_SignedSwapClient r = (case r of CA_SignedSwapClient \<Rightarrow> Some () | _ \<Rightarrow> None)"

definition swap_asset :: "cl_world \<Rightarrow> string \<Rightarrow> asset_id cl" where
  "swap_asset w txt = sx_ok_or (cw_parse_asset w txt) (''invalid asset id: '' @ txt)"

definition try_process_swap_request :: "cl_world \<Rightarrow> swap_request \<Rightarrow> unit cl" where
  "try_process_swap_request w req =
     sx_bind (sx_get dt_connected) (\<lambda>connected.
     sx_then (check connected ''not connected'')
     (sx_bind (swap_asset w (sw_asset req)) (\<lambda>asset.
     let (send_asset, recv_asset) = (if sw_send_bitcoins req then (cw_policy_asset w, asset) else (asset, cw_policy_asset w)) in
     sx_then (get_wallet ACCOUNT_ID_REG)
     (sx_bind (wallet_get_utxos w ACCOUNT_ID_REG) (\<lambda>outputs.
     sx_bind (select_swap_inputs (utxos_of outputs send_asset) (sw_send_amount req)) (\<lambda>inputs.
     sx_then (get_wallet ACCOUNT_ID_REG)
     (sx_bind (wallet_get_change_address w ACCOUNT_ID_REG) (\<lambda>change_addr.
     sx_bind (wallet_get_receive_address w ACCOUNT_ID_REG) (\<lambda>recv_addr.
     sx_bind (request_as w (CR_StartSwapClient
        \<lparr> sc_price = sw_price req, sc_asset = asset, sc_send_bitcoins = sw_send_bitcoins req,
          sc_send_amount = sw_send_amount req, sc_recv_amount = sw_recv_amount req,
          sc_inputs = map (convert_to_swap_utxo w) inputs, sc_recv_addr = ai_address recv_addr,
          sc_change_addr = ai_address change_addr \<rparr>) as_StartSwapClient) (\<lambda>order_id.
     sx_modify (dt_active_swap_update (\<lambda>_. Some
        \<lparr> aw_order_id = order_id, aw_send_asset = send_asset, aw_recv_asset = recv_asset,
          aw_send_amount = wrap_u64 (sw_send_amount req), aw_recv_amount = wrap_u64 (sw_recv_amount req) \<rparr>))))))))))))"

definition swap_failed_on_error :: "unit cl \<Rightarrow> unit cl" where
  "swap_failed_on_error m =
     sx_bind (sx_try m) (\<lambda>result.
     case result of Inl e \<Rightarrow> ui_send (FM_SwapFailed e) | Inr _ \<Rightarrow> sx_return ())"

definition process_swap_request :: "cl_world \<Rightarrow> swap_request \<Rightarrow> unit cl" where
  "process_swap_request w req = swap_failed_on_error (try_process_swap_request w req)"

definition no_amp_assets :: "swap_amounts \<Rightarrow> unit cl" where
  "no_amp_assets amounts =
     sx_bind (sx_get (\<lambda>s. am_send_asset amounts \<notin> set (dt_amp_assets s) \<and> am_recv_asset amounts \<notin> set (dt_amp_assets s))) (\<lambda>ok.
     check ok ''AMP assets are not allowed'')"

definition active_swap_amounts :: "active_swap \<Rightarrow> swap_amounts" where
  "active_swap_amounts swap = \<lparr> am_send_asset = aw_send_asset swap, am_send_amount = aw_send_amount swap,
     am_recv_asset = aw_recv_asset swap, am_recv_amount = aw_recv_amount swap \<rparr>"

definition try_process_blinded_swap_client :: "cl_world \<Rightarrow> order_id \<Rightarrow> string \<Rightarrow> unit cl" where
  "try_process_blinded_swap_client w order_id pset =
     sx_bind (sx_get dt_active_swap) (\<lambda>active_swap.
     sx_bind (sx_ok_or active_swap ''unexpected swap request'') (\<lambda>active_swap.
     sx_then (check (aw_order_id active_swap = order_id) CONDITION_FAILED)
     (sx_then (no_amp_assets (active_swap_amounts active_swap))
     (sx_then (get_wallet ACCOUNT_ID_REG)
     (sx_bind (verify_and_sign_pset w (For_Swap order_id) ACCOUNT_ID_REG (active_swap_amounts active_swap) pset []) (\<lambda>signed_pset.
     sx_bind (request_as w (CR_SignedSwapClient order_id signed_pset) as_SignedSwapClient) sx_return))))))"

definition process_blinded_swap_client :: "cl_world \<Rightarrow> order_id \<Rightarrow> string \<Rightarrow> unit cl" where
  "process_blinded_swap_client w order_id pset = swap_failed_on_error (try_process_blinded_swap_client w order_id pset)"

fun swap_done_error :: "swap_done_status \<Rightarrow> string option" where
  "swap_done_error Done_Success = None"
| "swap_done_error Done_ClientError = Some ''Transaction not signed in time''"
| "swap_done_error Done_DealerError = Some ''Unexpected dealer error''"
| "swap_done_error Done_ServerError = Some ''Unexpected server error''"

definition process_swap_done :: "swap_done \<Rightarrow> unit cl" where
  "process_swap_done msg =
     sx_bind (sx_get dt_active_swap) (\<lambda>active_swap.
     if map_option aw_order_id active_swap \<noteq> Some (sd_order_id msg) then sx_return ()
     else
       sx_then (sx_modify (dt_active_swap_update (\<lambda>_. None)))
       (case (swap_done_error (sd_status msg), sd_txid msg) of
          (None, Some txid) \<Rightarrow>
            sx_then (sx_modify (dt_succeed_swap_update (\<lambda>_. Some txid))) update_sync_interval
        | (Some e, None) \<Rightarrow> ui_send (FM_SwapFailed e)
        | _ \<Rightarrow> ui_send (FM_SwapFailed ''server error'')))"

section \<open>Swaps from a link\<close>

definition send_rest_request :: "cl_world \<Rightarrow> http_request \<Rightarrow> string \<Rightarrow> http_response cl" where
  "send_rest_request w request url =
     sx_bind (sx_call (\<lambda>h. cw_http w h url request) (\<lambda>_. CE_Http url request)) sx_of_sum"

definition try_process_swap_accept :: "cl_world \<Rightarrow> swap_details \<Rightarrow> unit cl" where
  "try_process_swap_accept w req =
     sx_bind (sx_expect (hash32_from_str (sl_order_id req))) (\<lambda>order_id.
     sx_bind (swap_asset w (sl_send_asset req)) (\<lambda>send_asset.
     sx_bind (swap_asset w (sl_recv_asset req)) (\<lambda>recv_asset.
     sx_then (get_wallet ACCOUNT_ID_REG)
     (sx_then (wallet_unlock_hww w ACCOUNT_ID_REG)
     (sx_bind (wallet_get_utxos w ACCOUNT_ID_REG) (\<lambda>outputs.
     sx_bind (select_swap_inputs (utxos_of outputs send_asset) (sl_send_amount req)) (\<lambda>inputs.
     sx_then (get_wallet ACCOUNT_ID_REG)
     (sx_bind (wallet_get_change_address w ACCOUNT_ID_REG) (\<lambda>change_addr.
     sx_bind (wallet_get_receive_address w ACCOUNT_ID_REG) (\<lambda>recv_addr.
     sx_bind (send_rest_request w (HR_SwapStart order_id (map (convert_to_swap_utxo w) inputs) (ai_address recv_addr)
        (ai_address change_addr) send_asset (sl_send_amount req) recv_asset (sl_recv_amount req)) (sl_upload_url req)) (\<lambda>response.
     sx_bind (sx_ok_or (case response of HA_SwapStart submit_id pset \<Rightarrow> Some (submit_id, pset) | _ \<Rightarrow> None)
                ''unexpected start response'') (\<lambda>(submit_id, pset).
     let amounts = \<lparr> am_send_asset = send_asset, am_send_amount = wrap_u64 (sl_send_amount req),
                     am_recv_asset = recv_asset, am_recv_amount = wrap_u64 (sl_recv_amount req) \<rparr> in
     sx_then (no_amp_assets amounts)
     (sx_then (get_wallet ACCOUNT_ID_REG)
     (sx_bind (verify_and_sign_pset w (For_Link order_id) ACCOUNT_ID_REG amounts pset []) (\<lambda>signed_pset.
     sx_bind (send_rest_request w (HR_SwapSign order_id submit_id signed_pset) (sl_upload_url req)) (\<lambda>response.
     sx_bind (sx_ok_or (case response of HA_SwapSign txid \<Rightarrow> Some txid | _ \<Rightarrow> None) ''unexpected start response'') (\<lambda>txid.
     sx_then (sx_modify (dt_succeed_swap_update (\<lambda>_. Some txid))) update_sync_interval)))))))))))))))))"

definition process_swap_accept :: "cl_world \<Rightarrow> swap_details \<Rightarrow> unit cl" where
  "process_swap_accept w req = swap_failed_on_error (try_process_swap_accept w req)"

section \<open>Pegs\<close>

definition known_server_status :: "server_status cl" where
  "known_server_status = sx_bind (sx_get dt_server_status) (\<lambda>st. sx_ok_or st ''server_status is not known'')"

definition require_connected :: "unit cl" where
  "require_connected = sx_bind (sx_get dt_connected) (\<lambda>connected. check connected ''not connected'')"

text \<open>When the whole balance is sent, the network fee is subtracted first.\<close>

definition peg_out_send_amount :: "cl_world \<Rightarrow> peg_out_amount_to \<Rightarrow> i64 \<Rightarrow> i64 cl" where
  "peg_out_send_amount w req balance =
     (if pt_is_send_entered req \<and> balance = pt_amount req then
        sx_then (get_wallet (pt_account req))
        (sx_bind (wallet_call (pt_account req) (WC_TxFee (cw_policy_asset w) (pt_amount req) (cw_fake_p2sh_address w (cw_env w)))
            (\<lambda>h. cw_tx_fee w h (pt_account req) (cw_policy_asset w) (pt_amount req) (cw_fake_p2sh_address w (cw_env w)))) (\<lambda>network_fee.
        sx_return (i64_sub (pt_amount req) (wrap_i64 network_fee))))
      else sx_return (pt_amount req))"

definition try_process_pegout_amount :: "cl_world \<Rightarrow> peg_out_amount_to \<Rightarrow> (peg_out_amounts \<times> account_id) cl" where
  "try_process_pegout_amount w req =
     sx_then require_connected
     (sx_then (get_wallet (pt_account req))
     (sx_bind (wallet_get_utxos w (pt_account req)) (\<lambda>outputs.
     let utxos = filter (\<lambda>utxo. uo_asset_id utxo = cw_policy_asset w) (utxos_of outputs (cw_policy_asset w));
         balance = wrap_i64 (u64_sum (map uo_satoshi utxos)) in
     sx_bind (peg_out_send_amount w req balance) (\<lambda>amount.
     sx_bind known_server_status (\<lambda>server_status.
     sx_bind (sx_types w (peg_out_amount
        \<lparr> por_amount = amount, por_is_send_entered = pt_is_send_entered req, por_fee_rate = pt_fee_rate req,
          por_min_peg_out_amount = ss_min_peg_out_amount server_status,
          por_server_fee_percent_peg_out = ss_server_fee_percent_peg_out server_status,
          por_peg_out_bitcoin_tx_vsize = ss_peg_out_bitcoin_tx_vsize server_status \<rparr>)) (\<lambda>amounts.
     let peg_amounts = \<lparr> pa_send_amount = pos_send_amount amounts, pa_recv_amount = pos_recv_amount amounts,
           pa_is_send_entered = pt_is_send_entered req, pa_fee_rate = pt_fee_rate req \<rparr> in
     sx_then (sx_modify (dt_peg_out_server_amounts_update (\<lambda>_. Some peg_amounts)))
     (sx_return (peg_amounts, pt_account req))))))))"

definition process_pegout_amount :: "cl_world \<Rightarrow> peg_out_amount_to \<Rightarrow> unit cl" where
  "process_pegout_amount w req =
     sx_bind (sx_try (try_process_pegout_amount w req)) (\<lambda>result. ui_send (FM_PegOutAmount result))"

definition as_Peg :: "client_response \<Rightarrow> (order_id \<times> string) option" where
  "as_Peg r = (case r of CA_Peg order_id peg_addr \<Rightarrow> Some (order_id, peg_addr) | _ \<Rightarrow> None)"

definition known_device_key :: "string cl" where
  "known_device_key = sx_bind (sx_get (\<lambda>s. st_device_key (dt_settings s))) sx_expect"

definition try_process_pegout_request :: "cl_world \<Rightarrow> peg_out_request \<Rightarrow> order_id cl" where
  "try_process_pegout_request w req =
     sx_then require_connected
     (sx_bind known_server_status (\<lambda>server_status.
     sx_then (check (pq_send_amount req \<ge> ss_min_peg_out_amount server_status)
                (''min '' @ cw_show_f64 w (to_bitcoin (ss_min_peg_out_amount server_status))))
     (sx_bind (sx_take dt_peg_out_server_amounts (dt_peg_out_server_amounts_update (\<lambda>_. None))) (\<lambda>amounts.
     sx_bind (sx_ok_or amounts ''peg_out_server_amounts is None'') (\<lambda>peg_out_server_amounts.
     sx_bind known_device_key (\<lambda>device_key.
     sx_bind (request_as w (CR_Peg
        \<lparr> pr_recv_addr = pq_recv_addr req, pr_send_amount = None, pr_peg_in = False, pr_device_key = Some device_key,
          pr_blocks = Some (pq_blocks req), pr_peg_out_amounts = Some peg_out_server_amounts \<rparr>) as_Peg) (\<lambda>(order_id, peg_addr).
     sx_then (add_peg_monitoring order_id Peg_Out)
     (sx_then (get_wallet (pq_account req))
     (sx_then (wallet_call (pq_account req) (WC_MakePegout (pq_send_amount req) peg_addr (pa_send_amount peg_out_server_amounts))
         (\<lambda>h. cw_make_pegout w h (pq_account req) (pq_send_amount req) peg_addr (pa_send_amount peg_out_server_amounts)))
     (sx_return order_id))))))))))"

definition process_pegout_request :: "cl_world \<Rightarrow> peg_out_request \<Rightarrow> unit cl" where
  "process_pegout_request w req =
     sx_bind (sx_try (try_process_pegout_request w req)) (\<lambda>result.
     case result of
       Inr order_id \<Rightarrow> sx_modify (dt_active_extern_peg_update (\<lambda>_. Some order_id))
     | Inl e \<Rightarrow> ui_send (FM_SwapFailed e))"

definition try_process_pegin_request :: "cl_world \<Rightarrow> (string \<times> address) cl" where
  "try_process_pegin_request w =
     sx_then require_connected
     (sx_bind known_device_key (\<lambda>device_key.
     sx_then (get_wallet ACCOUNT_ID_REG)
     (sx_bind (wallet_get_receive_address w ACCOUNT_ID_REG) (\<lambda>recv_addr.
     sx_bind (request_as w (CR_Peg
        \<lparr> pr_recv_addr = ai_address recv_addr, pr_send_amount = None, pr_peg_in = True, pr_device_key = Some device_key,
          pr_blocks = None, pr_peg_out_amounts = None \<rparr>) as_Peg) (\<lambda>(order_id, peg_addr).
     sx_then (add_peg_monitoring order_id Peg_In)
     (sx_then (sx_modify (dt_active_extern_peg_update (\<lambda>_. Some order_id)))
     (sx_return (peg_addr, ai_address recv_addr))))))))"

definition process_pegin_request :: "cl_world \<Rightarrow> unit cl" where
  "process_pegin_request w =
     sx_bind (sx_try (try_process_pegin_request w)) (\<lambda>result.
     case result of
       Inr (peg_addr, recv_addr) \<Rightarrow> ui_send (FM_PeginWaitTx peg_addr recv_addr)
     | Inl e \<Rightarrow> ui_send (FM_SwapFailed e))"

section \<open>Sending coins\<close>

definition process_get_recv_address :: "cl_world \<Rightarrow> account_id \<Rightarrow> unit cl" where
  "process_get_recv_address w account =
     sx_bind (sx_try (sx_then (get_wallet account) (wallet_get_receive_address w account))) (\<lambda>result.
     case result of
       Inr addr_info \<Rightarrow> ui_send (FM_RecvAddress (ai_address addr_info) account)
     | Inl e \<Rightarrow> show_message e)"

definition created_amount :: "create_tx \<Rightarrow> create_transaction_result \<Rightarrow> tx_addressee \<Rightarrow> (string, u64) outcome" where
  "created_amount req unsigned_tx addr =
     (if ct_account req = ACCOUNT_ID_REG then Ok (ta_satoshi addr)
      else if ct_account req = ACCOUNT_ID_AMP then
        (let outputs = filter (\<lambda>(address, _). address = Some (ta_address addr)) (cx_transaction_outputs unsigned_tx) in
         and_then (ensure (length outputs = 1) CONDITION_FAILED) (\<lambda>_. Ok (snd (hd outputs))))
      else Err ''unknown account id'')"

definition get_created_tx :: "cl_world \<Rightarrow> create_tx \<Rightarrow> string \<Rightarrow> (string, created_tx) outcome" where
  "get_created_tx w req unsigned_tx =
     and_then (case cw_parse_created_tx w unsigned_tx of Inl e \<Rightarrow> Err e | Inr r \<Rightarrow> Ok r) (\<lambda>unsigned_tx.
     and_then (ok_or (cx_transaction unsigned_tx) ''no transaction'') (\<lambda>(inputs, outputs, size).
     and_then (mapM_ok (\<lambda>addr. and_then (created_amount req unsigned_tx addr) (\<lambda>amount.
         Ok \<lparr> aa_address = ta_address addr, aa_amount = wrap_i64 amount, aa_asset_id = ta_asset_id addr \<rparr>))
       (cx_addressees unsigned_tx)) (\<lambda>addressees.
     Ok \<lparr> cd_req = req, cd_input_count = int inputs, cd_output_count = int outputs, cd_size = int size,
          cd_vsize = wrap_i64 (unwrap_or (cx_transaction_vsize unsigned_tx) 0),
          cd_network_fee = wrap_i64 (unwrap_or (cx_fee unsigned_tx) 0),
          cd_fee_per_byte = f64_div (int_as_f64 (unwrap_or (cx_fee_rate unsigned_tx) 0)) (Fin 1000),
          cd_addressees = addressees \<rparr>)))"

definition try_process_create_tx :: "cl_world \<Rightarrow> create_tx \<Rightarrow> (string \<times> created_tx) cl" where
  "try_process_create_tx w req =
     sx_then (get_wallet (ct_account req))
     (sx_bind (wallet_call (ct_account req) (WC_CreateTx req) (\<lambda>h. cw_create_tx w h (ct_account req) req)) (\<lambda>unsigned_tx.
     sx_bind (sx_lift (get_created_tx w req unsigned_tx)) (\<lambda>info.
     sx_return (unsigned_tx, info))))"

definition process_create_tx :: "cl_world \<Rightarrow> create_tx \<Rightarrow> unit cl" where
  "process_create_tx w req =
     sx_bind (sx_try (try_process_create_tx w req)) (\<lambda>result.
     case result of
       Inr (unsigned_tx, info) \<Rightarrow>
         sx_then (sx_modify (dt_unsigned_tx_update (\<lambda>_. Some unsigned_tx))) (ui_send (FM_CreateTxResult (Inr info)))
     | Inl e \<Rightarrow> ui_send (FM_CreateTxResult (Inl e)))"

definition try_process_send_tx :: "cl_world \<Rightarrow> account_id \<Rightarrow> txid cl" where
  "try_process_send_tx w account =
     sx_bind (sx_take dt_unsigned_tx (dt_unsigned_tx_update (\<lambda>_. None))) (\<lambda>unsigned_tx.
     sx_bind (sx_ok_or unsigned_tx ''transaction not found'') (\<lambda>unsigned_tx.
     sx_then (get_wallet account)
     (sx_bind (sx_try (wallet_call account (WC_SendTx unsigned_tx) (\<lambda>h. cw_send_tx w h account unsigned_tx))) (\<lambda>result.
     case result of
       Inl e \<Rightarrow> sx_then (sx_modify (dt_unsigned_tx_update (\<lambda>_. Some unsigned_tx))) (fail e)
     | Inr txid \<Rightarrow> sx_return txid))))"

definition tx_sent :: "string + txid \<Rightarrow> unit cl" where
  "tx_sent result = (case result of
      Inr txid \<Rightarrow> sx_then (sx_modify (dt_sent_txhash_update (\<lambda>_. Some txid))) update_sync_interval
    | Inl e \<Rightarrow> ui_send (FM_SendResult (Inl e)))"

definition process_send_tx :: "cl_world \<Rightarrow> account_id \<Rightarrow> unit cl" where
  "process_send_tx w account = sx_bind (sx_try (try_process_send_tx w account)) tx_sent"

definition process_create_payjoin :: "cl_world \<Rightarrow> ui_create_payjoin \<Rightarrow> unit cl" where
  "process_create_payjoin w req =
     sx_bind (sx_try (sx_then (get_wallet (cj_account req))
        (wallet_call (cj_account req) (WC_CreatePayjoin req) (\<lambda>h. cw_create_payjoin w h (cj_account req) req)))) (\<lambda>result.
     ui_send (FM_CreatePayjoinResult result))"

definition process_send_payjoin :: "cl_world \<Rightarrow> ui_created_payjoin \<Rightarrow> unit cl" where
  "process_send_payjoin w req =
     sx_bind (sx_try (sx_then (get_wallet (cj_account (cq_req req)))
        (wallet_call (cj_account (cq_req req)) (WC_SendPayjoin req) (\<lambda>h. cw_send_payjoin w h (cj_account (cq_req req)) req)))) tx_sent"

fun blinded_values_loop :: "cl_world \<Rightarrow> string \<Rightarrow> account_id list \<Rightarrow> string list cl" where
  "blinded_values_loop w txid [] = sx_return []"
| "blinded_values_loop w txid (a # accounts) =
     sx_bind (sx_try (wallet_call a (WC_BlindedValues txid) (\<lambda>h. cw_blinded_values w h a txid))) (\<lambda>r.
     sx_bind (blinded_values_loop w txid accounts) (\<lambda>rest.
     sx_return ((case r of Inl _ \<Rightarrow> [] | Inr vs \<Rightarrow> vs) @ rest)))"

definition process_blinded_values :: "cl_world \<Rightarrow> string \<Rightarrow> unit cl" where
  "process_blinded_values w txid =
     sx_bind (sx_get (\<lambda>s. btree_keys (dt_wallets s))) (\<lambda>accounts.
     sx_bind (blinded_values_loop w txid accounts) (\<lambda>values. ui_send (FM_BlindedValues txid values)))"

definition process_set_memo :: "cl_world \<Rightarrow> account_id \<Rightarrow> string \<Rightarrow> string \<Rightarrow> unit cl" where
  "process_set_memo w account txid memo =
     sx_bind (sx_try (sx_then (get_wallet account)
        (wallet_call account (WC_SetMemo txid memo) (\<lambda>h. cw_set_memo w h account txid memo)))) (\<lambda>_. sx_return ())"

end
