(* ===== verification/Client_Wallet.thy ===== *)
theory Client_Wallet
  imports Client_Swaps
begin

text \<open>
  What the client does when a wallet changes: it refreshes the balance, the list of transactions and the
  addresses it has registered, reports finished swaps, and logs in to a wallet that has connected.
\<close>

section \<open>Transactions\<close>

definition confirmed_tx :: "int \<Rightarrow> int \<Rightarrow> bool" where
  "confirmed_tx tx_block top_block \<longleftrightarrow>
     tx_block \<noteq> 0 \<and> top_block \<noteq> 0 \<and> tx_block \<le> top_block \<and>
     (u32_add top_block 1 - tx_block) mod 4294967296 \<ge> TX_CONF_COUNT_LIQUID"

definition get_tx_item_confs :: "int \<Rightarrow> int \<Rightarrow> (int \<times> int) option" where
  "get_tx_item_confs tx_block top_block =
     (let tx_block = (if tx_block > top_block then 0 else tx_block) in
      if \<not> confirmed_tx tx_block top_block then
        Some (if tx_block = 0 then 0 else (u32_add top_block 1 - tx_block) mod 4294967296, TX_CONF_COUNT_LIQUID)
      else None)"

definition tx_item :: "account_id \<Rightarrow> int \<Rightarrow> wallet_transaction \<Rightarrow> trans_item" where
  "tx_item account_id top_block item =
     \<lparr> ti_id = Tx_Item account_id (wt_txid item), ti_created_at = wt_created_at item,
       ti_confs = get_tx_item_confs (wt_block_height item) top_block, ti_account = account_id,
       ti_item = Item_Tx \<lparr> ut_balances = filter (\<lambda>b. bl_value b \<noteq> 0) (wt_balances item), ut_txid = wt_txid item,
         ut_network_fee = wt_network_fee item, ut_size = wt_size item, ut_vsize = wt_vsize item,
         ut_memo = wt_memo item, ut_balances_all = wt_balances_all item \<rparr> \<rparr>"

definition item_assets :: "trans_item \<Rightarrow> asset_id list" where
  "item_assets item = (case ti_item item of Item_Tx tx \<Rightarrow> map bl_asset (ut_balances tx) | Item_Peg _ \<Rightarrow> [])"

text \<open>Swaps whose transaction has been seen are reported once.\<close>

definition note_succeed :: "txid \<times> trans_item \<Rightarrow> unit cl" where
  "note_succeed = (\<lambda>(txid, item).
     sx_bind (sx_get id) (\<lambda>s.
     case find (\<lambda>sb. sb_txid sb = Some txid) (btree_values (dt_submit_data s)) of
       None \<Rightarrow> sx_return ()
     | Some sb \<Rightarrow>
         sx_when (sb_order_id sb \<notin> set (dt_shown_succeed s))
           (sx_modify (\<lambda>s. s \<lparr> dt_pending_succeed := dt_pending_succeed s @ [item],
                               dt_shown_succeed := sb_order_id sb # dt_shown_succeed s \<rparr>))))"

definition report_sent :: "(txid \<times> trans_item) list \<Rightarrow> from_msg list cl" where
  "report_sent updated =
     sx_bind (sx_get dt_sent_txhash) (\<lambda>sent.
     case Option.bind sent (map_of updated) of
       None \<Rightarrow> sx_return []
     | Some tx \<Rightarrow>
         sx_then (sx_modify (dt_sent_txhash_update (\<lambda>_. None)))
         (sx_then update_sync_interval (sx_return [FM_SendResult (Inr tx)])))"

definition report_swap :: "(txid \<times> trans_item) list \<Rightarrow> from_msg list cl" where
  "report_swap updated =
     sx_bind (sx_get dt_succeed_swap) (\<lambda>swap.
     case Option.bind swap (map_of updated) of
       None \<Rightarrow> sx_return []
     | Some tx \<Rightarrow>
         sx_then (sx_modify (dt_succeed_swap_update (\<lambda>_. None)))
         (sx_then update_sync_interval (sx_return [FM_SwapSucceed tx])))"

definition unknown_asset :: "cl_world \<Rightarrow> asset_id \<Rightarrow> asset" where
  "unknown_asset w asset_id =
     \<lparr> as_asset_id = asset_id, as_name = take 8 (cw_show_asset w asset_id) @ ''...'',
       as_ticker = take 4 (cw_show_asset w asset_id), as_icon = Some (cw_default_icon w), as_precision = 8,
       as_icon_url = None, as_instant_swaps = Some False, as_domain = None, as_domain_agent = None,
       as_always_show = None, as_issuance_prevout = None, as_issuer_pubkey = None, as_contract = None \<rparr>"

definition add_new_assets :: "cl_world \<Rightarrow> asset_id list \<Rightarrow> unit cl" where
  "add_new_assets w assets =
     sx_bind (sx_get (\<lambda>s. filter (\<lambda>a. btree_get (dt_assets s) a = None) assets)) (\<lambda>new_asset_ids.
     if new_asset_ids = [] then sx_return ()
     else
       sx_bind (sx_try (load_gdk_asset w new_asset_ids)) (\<lambda>loaded.
       let new_assets = (case loaded of Inl _ \<Rightarrow> [] | Inr assets \<Rightarrow> assets) in
       sx_each (\<lambda>asset_id. case find (\<lambda>asset. as_asset_id asset = asset_id) new_assets of
           Some asset \<Rightarrow> register_asset asset False False False
         | None \<Rightarrow> register_asset (unknown_asset w asset_id) False False True) new_asset_ids))"

definition set_txids :: "account_id \<Rightarrow> (txid \<times> trans_item) list \<Rightarrow> cl_data \<Rightarrow> cl_data" where
  "set_txids account_id updated s =
     (let confirmed = unwrap_or (btree_get (dt_confirmed_txids s) account_id) [];
          new_confirmed = map fst (filter (\<lambda>(_, item). ti_confs item = None) updated);
          unconfirmed = map fst (filter (\<lambda>(_, item). ti_confs item \<noteq> None) updated)
      in s \<lparr> dt_confirmed_txids := btree_insert account_id (remdups (confirmed @ new_confirmed)) (dt_confirmed_txids s),
             dt_unconfirmed_txids := btree_insert account_id (remdups unconfirmed) (dt_unconfirmed_txids s) \<rparr>)"

text \<open>A \<open>HashMap\<close> built from a list: the last entry of a key counts, the order of the entries is
  not known.\<close>

definition hash_entries :: "cl_world \<Rightarrow> (txid \<times> 'v) list \<Rightarrow> (txid \<times> 'v) list cl" where
  "hash_entries w xs =
     (let m = map_of (rev xs) in
      sx_bind (ask (\<lambda>h. cw_hash_order w h (remdups (map fst xs)))) (\<lambda>keys.
      sx_return (List.map_filter (\<lambda>k. map_option (Pair k) (m k)) keys)))"

definition send_new_transactions :: "cl_world \<Rightarrow> wallet_transaction list \<Rightarrow> account_id \<Rightarrow> int \<Rightarrow> unit cl" where
  "send_new_transactions w items account_id top_block =
     sx_bind (sx_get (\<lambda>s. unwrap_or (btree_get (dt_confirmed_txids s) account_id) [])) (\<lambda>confirmed_txids.
     sx_bind (sx_get (\<lambda>s. unwrap_or (btree_get (dt_unconfirmed_txids s) account_id) [])) (\<lambda>unconfirmed_txids.
     let items = filter (\<lambda>tx. wt_txid tx \<notin> set confirmed_txids) items in
     sx_bind (hash_entries w (map (\<lambda>item. (wt_txid item, tx_item account_id top_block item)) items)) (\<lambda>updated.
     sx_bind (ask (\<lambda>h. cw_hash_order w h unconfirmed_txids)) (\<lambda>unconfirmed_order.
     let removed = filter (\<lambda>txid. map_of updated txid = None) unconfirmed_order in
     sx_then (sx_each note_succeed updated)
     (sx_bind (report_sent updated) (\<lambda>msgs1.
     sx_bind (report_swap updated) (\<lambda>msgs2.
     sx_then (add_new_assets w (sort (remdups (concat (map (item_assets \<circ> snd) updated)))))
     (sx_then (sx_modify (set_txids account_id updated))
     (sx_then (sx_when (updated \<noteq> []) (ui_send (FM_UpdatedTxs (map snd updated))))
     (sx_then (sx_when (removed \<noteq> []) (ui_send (FM_RemovedTxs removed)))
     (sx_then (sx_each ui_send (msgs1 @ msgs2)) process_pending_succeed)))))))))))"

definition update_used_addresses :: "cl_world \<Rightarrow> account_id \<Rightarrow> wallet_transaction list \<Rightarrow> unit cl" where
  "update_used_addresses w account_id transactions =
     (let pointer_external = foldl max 0 (map wt_max_pointer_external transactions);
          pointer_internal = foldl max 0 (map wt_max_pointer_internal transactions) in
      sx_then (if account_id = ACCOUNT_ID_REG
               then sx_modify (dt_used_single_sig_update (\<lambda>_. (pointer_external, pointer_internal)))
               else sx_when (account_id = ACCOUNT_ID_AMP) (sx_modify (dt_used_multi_sig_update (\<lambda>_. pointer_external))))
      (update_address_registrations w))"

section \<open>Refreshing a wallet\<close>

definition send_gaid :: "cl_world \<Rightarrow> unit cl" where
  "send_gaid w =
     sx_bind (sx_try (sx_then (get_wallet ACCOUNT_ID_AMP) (wallet_get_gaid w ACCOUNT_ID_AMP))) (\<lambda>r.
     case r of Inr gaid \<Rightarrow> ui_send (FM_RegisterAmp gaid) | Inl _ \<Rightarrow> sx_return ())"

definition refresh_balance :: "cl_world \<Rightarrow> account_id \<Rightarrow> unit cl" where
  "refresh_balance w account_id =
     sx_bind (sx_try (sx_then (get_wallet account_id) (wallet_get_balances w account_id))) (\<lambda>r.
     case r of Inr balances \<Rightarrow> ui_send (FM_BalanceUpdate account_id balances) | Inl _ \<Rightarrow> sx_return ())"

definition refresh_utxos :: "cl_world \<Rightarrow> account_id \<Rightarrow> unit cl" where
  "refresh_utxos w account_id =
     sx_bind (sx_try (sx_then (get_wallet account_id) (wallet_get_utxos w account_id))) (\<lambda>r.
     case r of
       Inr outputs \<Rightarrow> ui_send (FM_UtxoUpdate account_id
         (map (\<lambda>u. (uo_txhash u, uo_vout u, uo_asset_id u, uo_satoshi u)) (concat (btree_values outputs))))
     | Inl _ \<Rightarrow> sx_return ())"

definition refresh_transactions :: "cl_world \<Rightarrow> account_id \<Rightarrow> int \<Rightarrow> unit cl" where
  "refresh_transactions w account_id top_block =
     sx_bind (sx_try (sx_then (get_wallet account_id)
        (wallet_call account_id WC_Transactions (\<lambda>h. cw_transactions w h account_id)))) (\<lambda>r.
     case r of
       Inr items \<Rightarrow>
         sx_then (update_used_addresses w account_id items) (send_new_transactions w items account_id top_block)
     | Inl _ \<Rightarrow> sx_return ())"

definition resync_wallet :: "cl_world \<Rightarrow> account_id \<Rightarrow> unit cl" where
  "resync_wallet w account_id =
     sx_then (refresh_balance w account_id)
     (sx_bind (sx_get dt_send_utxo_updates) (\<lambda>send_utxo_updates.
     sx_then (sx_when send_utxo_updates (refresh_utxos w account_id))
     (sx_bind (sx_get (\<lambda>s. btree_get (dt_last_blocks s) account_id)) (\<lambda>last_block.
     case last_block of
       None \<Rightarrow> sx_return ()
     | Some top_block \<Rightarrow> refresh_transactions w account_id top_block))))"

definition send_wallet_loaded :: "unit cl" where
  "send_wallet_loaded =
     sx_bind (sx_get dt_wallet_loaded_sent) (\<lambda>sent.
     sx_when (\<not> sent)
       (sx_then (sx_modify (dt_wallet_loaded_sent_update (\<lambda>_. True))) (ui_send FM_WalletLoaded)))"

definition sync_complete :: "cl_world \<Rightarrow> account_id \<Rightarrow> unit cl" where
  "sync_complete w account_id =
     sx_bind (sx_get dt_sync_complete) (\<lambda>complete.
     sx_then (sx_when (\<not> complete)
       (sx_then (sx_modify (dt_sync_complete_update (\<lambda>_. True)))
       (sx_then send_wallet_loaded
       (sx_then (process_pending_requests w) (ui_send FM_SyncComplete)))))
     (resync_wallet w account_id))"

definition sync_failed :: "unit cl" where
  "sync_failed = show_message ''electrs connection failed''"

definition wallet_block :: "cl_world \<Rightarrow> account_id \<Rightarrow> int option \<Rightarrow> unit cl" where
  "wallet_block w account_id block =
     sx_bind (sx_get id) (\<lambda>s.
     let unconfirmed_txs = (unwrap_or (btree_get (dt_unconfirmed_txids s) account_id) [] \<noteq> []);
         old_value = btree_get (dt_last_blocks s) account_id in
     sx_bind (sx_expect block) (\<lambda>height.
     sx_then (sx_modify (dt_last_blocks_update (btree_insert account_id height)))
     (sx_when (unconfirmed_txs \<or> old_value = None) (resync_wallet w account_id))))"

definition wallet_event :: "cl_world \<Rightarrow> account_id \<Rightarrow> gdk_notification \<Rightarrow> unit cl" where
  "wallet_event w account_id n =
     (if gn_event n = ''transaction'' then resync_wallet w account_id
      else if gn_event n = ''block'' then wallet_block w account_id (gn_block n)
      else if gn_event n = ''subaccount'' then sx_when (gn_subaccount n = Some ''synced'') (sync_complete w account_id)
      else sx_when (gn_event n = ''sync_failed'') sync_failed)"

definition wallet_connected :: "cl_world \<Rightarrow> account_id \<Rightarrow> unit cl" where
  "wallet_connected w account_id =
     sx_bind (sx_try (wallet_call account_id WC_Login (\<lambda>h. cw_login w h account_id))) (\<lambda>connect_result.
     case connect_result of
       Inr _ \<Rightarrow>
         sx_then (sx_when (account_id = ACCOUNT_ID_AMP)
           (sx_then (send_gaid w)
           (sx_then (sx_modify (dt_amp_connected_update (\<lambda>_. True))) (process_pending_requests w))))
         (resync_wallet w account_id)
     | Inl e \<Rightarrow> show_message (''connection failed: '' @ e))"

definition process_wallet_notif :: "cl_world \<Rightarrow> account_id \<Rightarrow> gdk_notification \<Rightarrow> unit cl" where
  "process_wallet_notif w account_id notification =
     sx_bind (sx_get (\<lambda>s. btree_get (dt_wallets s) account_id)) (\<lambda>wallet.
     if wallet = None then sx_return ()
     else
       sx_then (wallet_event w account_id notification)
       (sx_bind (sx_get (\<lambda>s. btree_get (dt_wallets s) account_id)) (\<lambda>wallet.
       sx_then (sx_when (gn_network notification = Some CS_Connected \<and> wallet \<noteq> None) (wallet_connected w account_id))
       (sx_when (gn_network notification = Some CS_Disconnected \<and> account_id = ACCOUNT_ID_AMP)
          (sx_modify (dt_amp_connected_update (\<lambda>_. False)))))))"

end
