(* ===== verification/Client_Worker.thy ===== *)
theory Client_Worker
  imports Client_Wallet
begin

text \<open>
  The worker of the client: connecting to the server, logging in and out, the dispatch of messages from
  the user interface and the server, and the loop.
\<close>

section \<open>The connection to the server\<close>

definition as_LoginClient :: "client_response \<Rightarrow> string option" where
  "as_LoginClient r = (case r of CA_LoginClient cookie \<Rightarrow> Some cookie | _ \<Rightarrow> None)"

definition as_Assets :: "client_response \<Rightarrow> asset list option" where
  "as_Assets r = (case r of CA_Assets assets \<Rightarrow> Some assets | _ \<Rightarrow> None)"

definition as_AmpAssets :: "client_response \<Rightarrow> asset list option" where
  "as_AmpAssets r = (case r of CA_AmpAssets assets \<Rightarrow> Some assets | _ \<Rightarrow> None)"

definition as_ServerStatus :: "client_response \<Rightarrow> server_status option" where
  "as_ServerStatus r = (case r of CA_ServerStatus st \<Rightarrow> Some st | _ \<Rightarrow> None)"

definition as_VerifyDevice :: "client_response \<Rightarrow> bool option" where
  "as_VerifyDevice r = (case r of CA_VerifyDevice registered \<Rightarrow> Some registered | _ \<Rightarrow> None)"

definition as_RegisterDevice :: "client_response \<Rightarrow> string option" where
  "as_RegisterDevice r = (case r of CA_RegisterDevice key \<Rightarrow> Some key | _ \<Rightarrow> None)"

definition as_Login :: "client_response \<Rightarrow> (hash32 \<times> order_created list) option" where
  "as_Login r = (case r of CA_Login session_id orders \<Rightarrow> Some (session_id, orders) | _ \<Rightarrow> None)"

definition login_client :: "cl_world \<Rightarrow> unit cl" where
  "login_client w =
     sx_bind (ask (cw_read_cookie w)) (\<lambda>cookie.
     sx_bind (request_as w (CR_LoginClient CLIENT_API_KEY cookie USER_AGENT (cw_version w)) as_LoginClient) (\<lambda>cookie.
     sx_emit (CE_Cookie cookie)))"

definition download_assets :: "cl_world \<Rightarrow> unit cl" where
  "download_assets w =
     sx_bind (request_as w CR_Assets as_Assets) (\<lambda>assets.
     sx_then (sx_each (\<lambda>asset. subscribe_price_update (as_asset_id asset))
                (filter (\<lambda>asset. as_asset_id asset \<noteq> cw_policy_asset w) assets))
     (sx_bind (sx_get dt_assets_old) (\<lambda>assets_old.
     sx_then (sx_when (assets \<noteq> assets_old)
                (sx_then (sx_emit (CE_AssetsFile assets)) (register_assets w assets False)))
     (sx_bind (request_as w CR_AmpAssets as_AmpAssets) (\<lambda>amp_assets.
     sx_then (ui_send (FM_AmpAssets (map as_asset_id amp_assets)))
     (sx_then (sx_modify (dt_amp_assets_update (\<lambda>_. map as_asset_id amp_assets)))
     (register_assets w amp_assets True)))))))"

definition verify_device_key :: "cl_world \<Rightarrow> unit cl" where
  "verify_device_key w =
     sx_bind (sx_get (\<lambda>s. st_device_key (dt_settings s))) (\<lambda>key.
     case key of
       None \<Rightarrow> sx_return ()
     | Some device_key \<Rightarrow>
         sx_bind (request_as w (CR_VerifyDevice device_key) as_VerifyDevice) (\<lambda>registered.
         sx_when (\<not> registered)
           (sx_then (modify_settings (st_device_key_update (\<lambda>_. None))) save_settings)))"

definition register_device_key :: "cl_world \<Rightarrow> unit cl" where
  "register_device_key w =
     sx_bind (sx_get (\<lambda>s. st_device_key (dt_settings s))) (\<lambda>key.
     sx_when (key = None)
       (sx_bind (request_as w (CR_RegisterDevice (cw_os_type w)) as_RegisterDevice) (\<lambda>device_key.
        sx_then (modify_settings (\<lambda>st. st \<lparr> st_device_key := Some device_key,
           st_single_sig_registered := (0, 0), st_multi_sig_registered := 0 \<rparr>)) save_settings)))"

definition check_device_key :: "cl_world \<Rightarrow> unit cl" where
  "check_device_key w =
     (if \<not> unwrap_or (cw_disable_device_key w) False
      then sx_then (verify_device_key w) (register_device_key w)
      else sx_then (modify_settings (st_device_key_update (\<lambda>_. None))) save_settings)"

definition login_orders :: "cl_world \<Rightarrow> unit cl" where
  "login_orders w =
     sx_bind (sx_get (\<lambda>s. st_session_id (dt_settings s))) (\<lambda>session_id.
     sx_bind (request_as w (CR_Login session_id) as_Login) (\<lambda>(new_session_id, orders).
     sx_then (sx_each (\<lambda>order. add_order w order False) orders)
     (sx_then sync_order_list
     (sx_bind (sx_get (\<lambda>s. st_session_id (dt_settings s))) (\<lambda>session_id.
     sx_when (session_id \<noteq> Some new_session_id)
       (sx_then (modify_settings (st_session_id_update (\<lambda>_. Some new_session_id))) save_settings))))))"

definition try_process_ws_connected :: "cl_world \<Rightarrow> unit cl" where
  "try_process_ws_connected w =
     sx_then (login_client w)
     (sx_then (download_assets w)
     (sx_bind (request_as w CR_ServerStatus as_ServerStatus) (\<lambda>server_status.
     sx_then (process_server_status server_status)
     (sx_then (check_device_key w)
     (sx_then (login_orders w)
     (sx_bind (sx_get id) (\<lambda>s.
     sx_then (case dt_subscribed_price_stream s of
         None \<Rightarrow> sx_return () | Some req \<Rightarrow> post (CR_SubscribePriceStream req))
     (case dt_subscribed_market_data s of
         None \<Rightarrow> sx_return () | Some asset_id \<Rightarrow> post (CR_MarketDataSubscribe asset_id)))))))))"

definition process_ws_connected :: "cl_world \<Rightarrow> unit cl" where
  "process_ws_connected w =
     sx_bind (sx_try (try_process_ws_connected w)) (\<lambda>result.
     case result of
       Inl _ \<Rightarrow> restart_websocket
     | Inr _ \<Rightarrow>
         sx_then (sx_modify (dt_connected_update (\<lambda>_. True)))
         (sx_then (process_pending_requests w)
         (sx_then resume_peg_monitoring
         (sx_then update_push_token
         (sx_then send_subscribe_request
         (sx_then (update_address_registrations w) (ui_send FM_ServerConnected)))))))"

definition process_ws_disconnected :: "cl_world \<Rightarrow> unit cl" where
  "process_ws_disconnected w =
     sx_then (sx_modify (\<lambda>s. s \<lparr> dt_connected := False, dt_orders_last := [] \<rparr>))
     (sx_then sync_order_list
     (sx_then (ui_send FM_ServerDisconnected)
     (sx_bind (sx_take dt_async_requests (dt_async_requests_update (\<lambda>_. []))) (\<lambda>async_requests.
     sx_then (sx_each (\<lambda>request. run_callback request (server_error ''Server disconnected'')) (btree_values async_requests))
     (sx_bind (sx_get (\<lambda>s. dt_wallets s \<noteq> [])) (\<lambda>logged_in.
     sx_when logged_in (send_ws_connect w)))))))"

section \<open>Logging in and out\<close>

definition registration :: "cl_world \<Rightarrow> login_req \<Rightarrow> reg_info cl" where
  "registration w req =
     sx_bind (sx_get (\<lambda>s. st_reg_info_v3 (dt_settings s))) (\<lambda>known.
     case known of
       Some reg_info \<Rightarrow> sx_return reg_info
     | None \<Rightarrow>
         sx_bind (sx_expect (lr_wallet req)) (\<lambda>wallet.
         sx_bind (ask (\<lambda>h. cw_register w h wallet)) (\<lambda>r.
         sx_bind (sx_of_sum r) (\<lambda>reg_info.
         sx_then (modify_settings (st_reg_info_v3_update (\<lambda>_. Some reg_info)))
         (sx_then save_settings (sx_return reg_info))))))"

definition start_wallet :: "cl_world \<Rightarrow> account_id \<Rightarrow> bool \<Rightarrow> (string + unit) cl" where
  "start_wallet w account_id single_sig =
     sx_call (\<lambda>h. cw_start_wallet w h account_id single_sig) (\<lambda>_. CE_StartWallet account_id single_sig)"

definition skip_wallet_sync :: "cl_data \<Rightarrow> bool" where
  "skip_wallet_sync s \<longleftrightarrow> dt_pending_submits s = [] \<and> dt_pending_links s = []"

definition try_process_login_request :: "cl_world \<Rightarrow> login_req \<Rightarrow> unit cl" where
  "try_process_login_request w req =
     sx_then (sx_modify (\<lambda>s. s \<lparr> dt_send_utxo_updates := unwrap_or (lr_send_utxo_updates req) False,
        dt_force_auto_sign_maker := unwrap_or (lr_force_auto_sign_maker req) False,
        dt_network_settings := lr_network req \<rparr>))
     (sx_bind (registration w req) (\<lambda>reg_info.
     sx_bind (sx_expect (lr_wallet req)) (\<lambda>wallet.
     sx_then (case wallet of
         LW_Mnemonic _ \<Rightarrow> sx_return ()
       | LW_JadeId _ \<Rightarrow> check (ri_jade_watch_only reg_info \<noteq> None) ''jade_watch_only is not set'')
     (sx_bind (start_wallet w ACCOUNT_ID_REG True) (\<lambda>wallet_reg.
     sx_then (sx_of_sum wallet_reg)
     (sx_bind (start_wallet w ACCOUNT_ID_AMP False) (\<lambda>wallet_amp_res.
     sx_bind (sx_of_sum (cw_xpubs w reg_info wallet)) (\<lambda>xpubs.
     sx_then (sx_modify (dt_wallets_update (btree_insert ACCOUNT_ID_REG xpubs)))
     (sx_then (case wallet_amp_res of
         Inr _ \<Rightarrow> sx_modify (dt_wallets_update (btree_insert ACCOUNT_ID_AMP xpubs))
       | Inl err \<Rightarrow> show_message (''AMP connection failed: '' @ err))
     (sx_bind (sx_get skip_wallet_sync) (\<lambda>skip.
     sx_then (sx_when skip send_wallet_loaded) (send_ws_connect w))))))))))))"

definition process_login_request :: "cl_world \<Rightarrow> login_req \<Rightarrow> unit cl" where
  "process_login_request w req =
     sx_bind (sx_try (try_process_login_request w req)) (\<lambda>res. ui_send (FM_Login res))"

definition process_logout_request :: "unit cl" where
  "process_logout_request =
     sx_then (sx_modify (\<lambda>s. s \<lparr> dt_wallets := [], dt_sync_complete := False, dt_wallet_loaded_sent := False,
        dt_confirmed_txids := [], dt_unconfirmed_txids := [], dt_active_swap := None, dt_succeed_swap := None,
        dt_active_extern_peg := None, dt_sent_txhash := None, dt_peg_out_server_amounts := None,
        dt_active_submits := [], dt_active_sign := None, dt_used_single_sig := (0, 0), dt_used_multi_sig := 0,
        dt_settings := settings_default \<rparr>))
     (sx_then save_settings (sx_then (ui_send FM_Logout) restart_websocket))"

definition try_change_network :: "cl_world \<Rightarrow> unit cl" where
  "try_change_network w =
     sx_bind (sx_take (\<lambda>s. btree_get (dt_wallets s) ACCOUNT_ID_REG) (dt_wallets_update (btree_remove ACCOUNT_ID_REG))) (\<lambda>wallet.
     sx_bind (sx_ok_or wallet ''no wallet'') (\<lambda>xpubs.
     sx_bind (start_wallet w ACCOUNT_ID_REG True) (\<lambda>r.
     sx_then (sx_of_sum r)
     (sx_modify (dt_wallets_update (btree_insert ACCOUNT_ID_REG xpubs))))))"

definition process_change_network :: "cl_world \<Rightarrow> unit cl" where
  "process_change_network w =
     sx_bind (sx_try (try_change_network w)) (\<lambda>result.
     case result of Inl e \<Rightarrow> show_message (''changing network failed: '' @ e) | Inr _ \<Rightarrow> sx_return ())"

definition process_encrypt_pin :: "cl_world \<Rightarrow> string \<Rightarrow> string \<Rightarrow> unit cl" where
  "process_encrypt_pin w pin mnemonic =
     sx_bind (ask (\<lambda>h. cw_encrypt_pin w h mnemonic pin)) (\<lambda>result. ui_send (FM_EncryptPin result))"

definition process_decrypt_pin :: "cl_world \<Rightarrow> string \<Rightarrow> string \<Rightarrow> string \<Rightarrow> string \<Rightarrow> unit cl" where
  "process_decrypt_pin w pin salt encrypted_data pin_identifier =
     sx_bind (ask (\<lambda>h. cw_decrypt_pin w h salt encrypted_data pin_identifier pin)) (\<lambda>result. ui_send (FM_DecryptPin result))"

section \<open>Hardware wallets\<close>

definition sync_jade :: "unit cl" where
  "sync_jade = sx_bind (sx_get dt_jades) (\<lambda>jades. ui_send (FM_JadePorts jades))"

definition add_jade :: "jade_port \<Rightarrow> jade_port list \<Rightarrow> jade_port list" where
  "add_jade port jades = (if list_ex (\<lambda>d. jp_jade_id d = jp_jade_id port) jades then jades else jades @ [port])"

definition process_scan_jade :: "jade_port list \<Rightarrow> unit cl" where
  "process_scan_jade ports =
     sx_bind (sx_get dt_jades) (\<lambda>jades.
     let added = fold add_jade ports jades;
         kept = filter (\<lambda>d. list_ex (\<lambda>port. jp_jade_id d = jp_jade_id port) ports) added in
     sx_then (sx_modify (dt_jades_update (\<lambda>_. kept)))
     (sx_when (added \<noteq> jades \<or> kept \<noteq> added) sync_jade))"

definition process_jade_rescan_request :: "cl_world \<Rightarrow> unit cl" where
  "process_jade_rescan_request w =
     sx_bind (ask (cw_jade_ports w)) (\<lambda>ports_result.
     process_scan_jade (case ports_result of Inl _ \<Rightarrow> [] | Inr ports \<Rightarrow> ports))"

section \<open>Dispatch\<close>

fun process_ui :: "cl_world \<Rightarrow> to_msg \<Rightarrow> unit cl" where
  "process_ui w (TM_Login req) = process_login_request w req"
| "process_ui w TM_Logout = process_logout_request"
| "process_ui w (TM_ChangeNetwork _) = process_change_network w"
| "process_ui w (TM_EncryptPin pin mnemonic) = process_encrypt_pin w pin mnemonic"
| "process_ui w (TM_DecryptPin pin salt encrypted_data pin_identifier) =
     process_decrypt_pin w pin salt encrypted_data pin_identifier"
| "process_ui w (TM_AppState active) = process_app_state w active"
| "process_ui w (TM_PushMessage req) = process_push_message w req None"
| "process_ui w TM_PegInRequest = process_pegin_request w"
| "process_ui w (TM_PegOutAmount req) = process_pegout_amount w req"
| "process_ui w (TM_PegOutRequest req) = process_pegout_request w req"
| "process_ui w (TM_SwapRequest req) = process_swap_request w req"
| "process_ui w (TM_SwapAccept req) = process_swap_accept w req"
| "process_ui w (TM_GetRecvAddress account) = process_get_recv_address w account"
| "process_ui w (TM_CreateTx req) = process_create_tx w req"
| "process_ui w (TM_SendTx account) = process_send_tx w account"
| "process_ui w (TM_CreatePayjoin req) = process_create_payjoin w req"
| "process_ui w (TM_SendPayjoin req) = process_send_payjoin w req"
| "process_ui w (TM_BlindedValues txid) = process_blinded_values w txid"
| "process_ui w (TM_SetMemo account txid memo) = process_set_memo w account txid memo"
| "process_ui w (TM_UpdatePushToken token) = process_update_push_token token"
| "process_ui w TM_RegisterPhone = sx_return ()"
| "process_ui w TM_VerifyPhone = sx_return ()"
| "process_ui w TM_UnregisterPhone = sx_return ()"
| "process_ui w TM_UploadAvatar = sx_return ()"
| "process_ui w TM_UploadContacts = sx_return ()"
| "process_ui w (TM_SubmitOrder req) = process_submit_order w req"
| "process_ui w (TM_LinkOrder order_id) = process_link_order w order_id"
| "process_ui w (TM_SubmitDecision req) = process_submit_decision w req"
| "process_ui w (TM_EditOrder order_id data) = process_edit_order w order_id data"
| "process_ui w (TM_CancelOrder order_id) = process_cancel_order order_id"
| "process_ui w (TM_Subscribe markets) = process_subscribe w markets"
| "process_ui w (TM_AssetDetails asset_id) = process_asset_details w asset_id"
| "process_ui w (TM_SubscribePrice asset_id) = process_subscribe_price w asset_id"
| "process_ui w (TM_UnsubscribePrice asset_id) = process_unsubscribe_price w asset_id"
| "process_ui w (TM_SubscribePriceStream req) = process_subscribe_price_stream w req"
| "process_ui w TM_UnsubscribePriceStream = process_unsubscribe_price_stream"
| "process_ui w (TM_MarketDataSubscribe asset_id) = process_market_data_subscribe w asset_id"
| "process_ui w TM_MarketDataUnsubscribe = process_market_data_unsubscribe"
| "process_ui w TM_PortfolioPrices = process_portfolio_prices"
| "process_ui w TM_JadeRescan = process_jade_rescan_request w"
| "process_ui w (TM_GaidStatus gaid asset_id) = process_gaid_status_req w gaid asset_id"

fun process_ws_notification :: "cl_world \<Rightarrow> client_notification \<Rightarrow> unit cl" where
  "process_ws_notification w (CN_PegStatus status) = process_peg_status status"
| "process_ws_notification w (CN_ServerStatus resp) = process_server_status resp"
| "process_ws_notification w (CN_PriceUpdate asset price) = process_price_update asset price"
| "process_ws_notification w (CN_Sign msg) = process_sign w msg"
| "process_ws_notification w (CN_Complete msg) = process_complete msg"
| "process_ws_notification w (CN_OrderCreated msg) = process_order_created w msg"
| "process_ws_notification w (CN_OrderRemoved order_id) = process_order_removed order_id"
| "process_ws_notification w (CN_UpdatePrices asset ind last_price) = process_update_prices asset ind last_price"
| "process_ws_notification w (CN_UpdatePriceStream msg) = process_update_price_stream msg"
| "process_ws_notification w (CN_BlindedSwapClient order_id pset) = process_blinded_swap_client w order_id pset"
| "process_ws_notification w (CN_SwapDone msg) = process_swap_done msg"
| "process_ws_notification w (CN_LocalMessage title body) = process_local_message title body"
| "process_ws_notification w (CN_MarketDataUpdate asset point) = process_market_data_update asset point"
| "process_ws_notification w CN_Other = sx_return ()"

fun process_message :: "cl_world \<Rightarrow> cl_msg \<Rightarrow> unit cl" where
  "process_message w (M_Ui msg) = process_ui w msg"
| "process_message w M_ServerConnected = process_ws_connected w"
| "process_message w M_ServerDisconnected = process_ws_disconnected w"
| "process_message w (M_ServerNotification msg) = process_ws_notification w msg"
| "process_message w (M_AsyncResp request_id res) = process_async_resp request_id res"
| "process_message w (M_Notif account_id msg) = process_wallet_notif w account_id msg"
| "process_message w (M_PegStatus msg) = process_peg_status msg"
| "process_message w (M_Subscribe asset orders) = process_subscribe_response w orders"
| "process_message w (M_Unsubscribe asset) = process_unsubscribe_response asset"
| "process_message w (M_MarketDataResponse asset points) = process_market_data_response asset points"
| "process_message w (M_AssetDetails msg) = process_asset_details_response msg"
| "process_message w (M_BackgroundMessage data sender) = process_push_message w data (Some sender)"
| "process_message w M_IdleTimer = process_idle_timer w"

text \<open>The history records which message is being handled.\<close>

definition handle_message :: "cl_world \<Rightarrow> cl_msg \<Rightarrow> unit cl" where
  "handle_message w msg = sx_then (sx_emit (CE_Msg msg)) (process_message w msg)"

section \<open>From the websocket to the worker\<close>

datatype ws_message =
    WM_Connected
  | WM_Disconnected
  | WM_Notification client_notification
  | WM_Response "request_id option" server_result

datatype routed = To_Worker cl_msg | To_Waiter "request_id option" server_result | Not_Routed

text \<open>Answers to requests with a text id go to their callback, answers to subscriptions become messages,
  and all others are for the handler that is waiting in \<open>send_request\<close>.\<close>

fun route :: "ws_message \<Rightarrow> routed" where
  "route WM_Connected = To_Worker M_ServerConnected"
| "route WM_Disconnected = To_Worker M_ServerDisconnected"
| "route (WM_Notification n) = To_Worker (M_ServerNotification n)"
| "route (WM_Response (Some (Id_String request_id)) res) = To_Worker (M_AsyncResp (Id_String request_id) res)"
| "route (WM_Response req_id res) = (case res of
      Inr CA_UnsubscribePriceStream \<Rightarrow> Not_Routed
    | Inr CA_MarketDataUnsubscribe \<Rightarrow> Not_Routed
    | Inr (CA_PegStatus msg) \<Rightarrow> To_Worker (M_PegStatus msg)
    | Inr (CA_Subscribe asset orders) \<Rightarrow> To_Worker (M_Subscribe asset orders)
    | Inr (CA_Unsubscribe asset) \<Rightarrow> To_Worker (M_Unsubscribe asset)
    | Inr (CA_MarketDataSubscribe asset points) \<Rightarrow> To_Worker (M_MarketDataResponse asset points)
    | Inr (CA_LoadPrices asset ind last_price) \<Rightarrow> To_Worker (M_ServerNotification (CN_UpdatePrices asset ind last_price))
    | Inr (CA_AssetDetails msg) \<Rightarrow> To_Worker (M_AssetDetails msg)
    | Inr (CA_SubscribePriceStream msg) \<Rightarrow> To_Worker (M_ServerNotification (CN_UpdatePriceStream msg))
    | _ \<Rightarrow> To_Waiter req_id res)"

section \<open>Start\<close>

definition initial_data :: "settings \<Rightarrow> int \<Rightarrow> i64 \<Rightarrow> cl_data" where
  "initial_data saved_settings now counter =
     \<lparr> dt_app_active = True, dt_amp_active = True, dt_amp_connected = False, dt_connected = False,
       dt_server_status = None, dt_assets = [], dt_amp_assets = [], dt_assets_old = [], dt_unsigned_tx = None,
       dt_sync_complete = False, dt_wallet_loaded_sent = False, dt_confirmed_txids = [], dt_unconfirmed_txids = [],
       dt_orders_last = [], dt_orders_sent = [], dt_send_utxo_updates = False, dt_force_auto_sign_maker = False,
       dt_wallets = [], dt_subscribes = [], dt_active_swap = None, dt_succeed_swap = None,
       dt_active_extern_peg = None, dt_sent_txhash = None, dt_peg_out_server_amounts = None,
       dt_active_submits = [], dt_active_sign = None, dt_settings = saved_settings, dt_push_token = None,
       dt_submit_data = [], dt_pending_signs = [], dt_visible_submit = None, dt_waiting_submit = None,
       dt_processed_signs = [], dt_pending_sign_requests = [], dt_pending_sign_prompts = [],
       dt_pending_submits = [], dt_pending_links = [], dt_downloaded_links = [], dt_shown_succeed = [],
       dt_pending_succeed = [], dt_subscribed_price_stream = None, dt_subscribed_market_data = None,
       dt_last_connection_check = now, dt_last_blocks = [], dt_used_single_sig = (0, 0), dt_used_multi_sig = 0,
       dt_jades = [], dt_async_requests = [], dt_network_settings = None, dt_request_id = counter \<rparr>"

definition start_client :: "cl_world \<Rightarrow> unit cl" where
  "start_client w =
     (let env_data = env_data_of (cw_env w) in
     sx_then (ui_send (FM_EnvSettings (ed_policy_asset env_data) (usdt_asset_id (ed_network env_data))
        (eurx_asset_id (ed_network env_data))))
     (sx_then (master_xpub w) (load_assets w)))"

text \<open>The states the worker goes through, with what has happened so far.\<close>

definition client_reaches :: "cl_world \<Rightarrow> settings \<Rightarrow> cl_data \<Rightarrow> cl_history \<Rightarrow> bool" where
  "client_reaches w saved_settings s h \<longleftrightarrow>
     (\<exists>r s0 h0. start_client w (initial_data saved_settings (cw_now w []) 1) [] = (r, s0, h0) \<and>
        sx_reaches (handle_message w) s0 h0 s h)"

end
