(* ===== verification/Client_Frame.thy ===== *)
theory Client_Frame
  imports Client_Worker
begin

text \<open>
  Which parts of the client do not touch what signing depends on.  An invariant that looks at the state
  only through \<open>sign_view\<close>, and that no event other than a signature can break, is kept by every
  handler that neither changes this view nor signs.  The locale \<open>quiet_frame\<close> says what such an
  invariant is, and its lemmas go through the operations of the client once for all of them.
\<close>

record sign_view =
  vw_submit_data :: "order_id \<Rightarrow> submit_data option"
  vw_active_submits :: "order_id \<Rightarrow> link_response option"
  vw_force :: bool
  vw_prompts :: "sign_notification list"
  vw_active_sign :: "sign_notification option"
  vw_processed :: "order_id list"
  vw_active_swap :: "active_swap option"

text \<open>Of the data of an order everything but the coins and how far it has come.\<close>

definition submit_summary :: "submit_data \<Rightarrow> submit_data" where
  "submit_summary sb = sb \<lparr> sb_txouts := [], sb_txid := None, sb_signed := False \<rparr>"

definition sign_view :: "cl_data \<Rightarrow> sign_view" where
  "sign_view s = \<lparr> vw_submit_data = (\<lambda>id. map_option submit_summary (btree_get (dt_submit_data s) id)),
     vw_active_submits = btree_get (dt_active_submits s), vw_force = dt_force_auto_sign_maker s,
     vw_prompts = dt_pending_sign_prompts s, vw_active_sign = dt_active_sign s,
     vw_processed = dt_processed_signs s, vw_active_swap = dt_active_swap s \<rparr>"

definition signing :: "cl_event \<Rightarrow> bool" where
  "signing ev \<longleftrightarrow> (case ev of CE_Wallet _ (WC_PsbtSign _ _ _ _) \<Rightarrow> True | _ \<Rightarrow> False)"

lemma signing_simps [simp]:
  "\<not> signing (CE_Msg m)" "\<not> signing (CE_Ui u)" "\<not> signing (CE_Request q r)" "\<not> signing (CE_Post i q)"
  "\<not> signing (CE_WsConnect a b c)" "\<not> signing CE_WsDisconnect" "\<not> signing CE_WsHint" "\<not> signing (CE_StartWallet x y)"
  "\<not> signing (CE_Settings st)" "\<not> signing (CE_Cookie k)" "\<not> signing (CE_AssetsFile l)" "\<not> signing (CE_Http url hr)"
  "\<not> signing (CE_Sleep n)" "\<not> signing (CE_Background i')" "\<not> signing CE_Ask"
  by (simp_all add: signing_def)

lemma signing_wallet [simp]:
  "signing (CE_Wallet acc (WC_PsbtSign d am p n))"
  "\<not> signing (CE_Wallet acc WC_Login)" "\<not> signing (CE_Wallet acc WC_Connect)" "\<not> signing (CE_Wallet acc WC_Disconnect)"
  "\<not> signing (CE_Wallet acc WC_Gaid)" "\<not> signing (CE_Wallet acc WC_UnlockHww)" "\<not> signing (CE_Wallet acc (WC_SyncInterval n'))"
  "\<not> signing (CE_Wallet acc WC_Balances)" "\<not> signing (CE_Wallet acc WC_Transactions)" "\<not> signing (CE_Wallet acc WC_ReceiveAddress)"
  "\<not> signing (CE_Wallet acc WC_ChangeAddress)" "\<not> signing (CE_Wallet acc (WC_CreateTx ct))" "\<not> signing (CE_Wallet acc (WC_SendTx tx))"
  "\<not> signing (CE_Wallet acc (WC_CreatePayjoin cj))" "\<not> signing (CE_Wallet acc (WC_SendPayjoin cp))" "\<not> signing (CE_Wallet acc WC_Utxos)"
  "\<not> signing (CE_Wallet acc (WC_TxFee a b c))" "\<not> signing (CE_Wallet acc (WC_MakePegout x y z))" "\<not> signing (CE_Wallet acc (WC_BlindedValues t))"
  "\<not> signing (CE_Wallet acc (WC_PreviousAddresses lp i))" "\<not> signing (CE_Wallet acc (WC_SigSingleMaker a1 a2 a3 a4 a5))"
  "\<not> signing (CE_Wallet acc (WC_PsbtDetails p' r'))" "\<not> signing (CE_Wallet acc (WC_SetMemo t' m'))"
  by (simp_all add: signing_def)

lemma keeps_bool [keeps_rules]: "keeps I m \<Longrightarrow> keeps I n \<Longrightarrow> keeps I (case b of True \<Rightarrow> m | False \<Rightarrow> n)"
  by (cases b) auto

lemma keeps_list [keeps_rules]:
  "(xs = [] \<Longrightarrow> keeps I m) \<Longrightarrow> (\<And>y ys. xs = y # ys \<Longrightarrow> keeps I (f y ys)) \<Longrightarrow> keeps I (case xs of [] \<Rightarrow> m | y # ys \<Rightarrow> f y ys)"
  by (cases xs) auto

locale quiet_frame =
  fixes I :: "cl_data \<Rightarrow> cl_history \<Rightarrow> bool"
  assumes view_only: "sign_view s = sign_view s' \<Longrightarrow> I s h \<Longrightarrow> I s' h"
    and quiet_event: "I s h \<Longrightarrow> \<not> signing ev \<Longrightarrow> I s (h @ [ev])"
begin

lemma quiet_modify [keeps_rules]: "(\<And>s. sign_view (f s) = sign_view s) \<Longrightarrow> keeps I (sx_modify f)"
  by (rule keeps_modify) (metis view_only)

lemma quiet_emit [keeps_rules]: "\<not> signing ev \<Longrightarrow> keeps I (sx_emit ev)"
  by (rule keeps_emit) (rule quiet_event)

lemma quiet_call [keeps_rules]: "(\<And>x. \<not> signing (mk x)) \<Longrightarrow> keeps I (sx_call oracle mk)"
  by (rule keeps_call) (rule quiet_event)

lemma quiet_basic [keeps_rules]:
  "keeps I (ui_send m)" "keeps I (ask f)" "keeps I (modify_settings g)" "keeps I save_settings"
  "keeps I (show_message e)"
  unfolding ui_send_def ask_def modify_settings_def save_settings_def show_message_def
  by (intro keeps_rules; simp add: sign_view_def)+

lemma quiet_requests [keeps_rules]:
  "keeps I (send_request_msg q)" "keeps I (post q)" "keeps I (cl_send_request w q)" "keeps I (request_as w q sel)"
  unfolding post_def request_as_def cl_send_request_def send_request_msg_def
  by (intro keeps_rules; simp add: sign_view_def)+

lemma quiet_callback [keeps_rules]: "keeps I (run_callback cb res)"
  by (cases cb; cases res) (auto intro!: keeps_rules simp: sign_view_def split: client_response.split)

lemma quiet_async [keeps_rules]: "keeps I (make_async_request q cb)" "keeps I (process_async_resp i res)"
  unfolding make_async_request_def process_async_resp_def
  by (intro keeps_rules; simp add: sign_view_def)+

lemma quiet_wallet [keeps_rules]:
  "keeps I (get_wallet a)" "\<not> signing (CE_Wallet a c) \<Longrightarrow> keeps I (wallet_call a c oracle)"
  "\<not> signing (CE_Wallet a c) \<Longrightarrow> keeps I (wallet_tell a c)"
  unfolding get_wallet_def wallet_call_def wallet_tell_def by (intro keeps_rules; simp)+

lemma quiet_wallet_calls [keeps_rules]:
  "keeps I (wallet_get_balances w a)" "keeps I (wallet_get_utxos w a)" "keeps I (wallet_get_change_address w a)"
  "keeps I (wallet_get_receive_address w a)" "keeps I (wallet_get_gaid w a)" "keeps I (wallet_unlock_hww w a)"
  "keeps I (wallet_get_balance w a asset)"
  unfolding wallet_get_balances_def wallet_get_utxos_def wallet_get_change_address_def wallet_get_balance_def
    wallet_get_receive_address_def wallet_get_gaid_def wallet_unlock_hww_def
  by (intro keeps_rules; simp)+

lemma quiet_assets1 [keeps_rules]:
  "keeps I (register_asset a x y z)" "keeps I (master_xpub w)"
  unfolding register_asset_def master_xpub_def
  by (intro keeps_rules; simp add: sign_view_def)+

lemma quiet_assets2 [keeps_rules]:
  "keeps I (load_gdk_asset w ids)" "keeps I (register_assets w as b)"
  unfolding load_gdk_asset_def register_assets_def
  by (intro keeps_rules; simp add: sign_view_def)+

lemma quiet_assets3 [keeps_rules]:
  "keeps I (try_add_asset w i)" "keeps I (load_assets w)"
  unfolding try_add_asset_def load_assets_def
  by (intro keeps_rules; simp add: sign_view_def)+

lemma quiet_sync1 [keeps_rules]:
  "keeps I (sync_removed i)" "keeps I (sync_updated p)"
  unfolding sync_removed_def sync_updated_def
  by (intro keeps_rules; simp add: sign_view_def)+

lemma quiet_sync2 [keeps_rules]:
  "keeps I sync_order_list"
  unfolding sync_order_list_def
  by (intro keeps_rules; simp add: sign_view_def)+

lemma quiet_conn1 [keeps_rules]:
  "keeps I restart_websocket" "keeps I (send_ws_connect w)" "keeps I update_amp_connection"
  "keeps I (check_amp_connection w)" "keeps I (check_ws_connection w)"
  unfolding Let_def restart_websocket_def send_ws_connect_def update_amp_connection_def check_amp_connection_def
    check_ws_connection_def
  by (intro keeps_rules; simp add: sign_view_def)+

lemma quiet_conn2 [keeps_rules]:
  "keeps I (check_connections w)"
  unfolding check_connections_def
  by (intro keeps_rules; simp add: sign_view_def)+

lemma quiet_conn3 [keeps_rules]:
  "keeps I (process_app_state w b)" "keeps I (process_idle_timer w)"
  unfolding process_app_state_def process_idle_timer_def
  by (intro keeps_rules; simp add: sign_view_def)+

lemma quiet_peg1 [keeps_rules]: "keeps I (start_peg_monitoring p)"
  unfolding start_peg_monitoring_def by (cases "snd p") (auto intro: keeps_rules)

lemma quiet_peg2 [keeps_rules]:
  "keeps I (add_peg_monitoring i d)" "keeps I resume_peg_monitoring" "keeps I update_push_token"
  "keeps I (update_single_sig w b)" "keeps I (update_multi_sig w)"
  unfolding Let_def add_peg_monitoring_def resume_peg_monitoring_def update_push_token_def update_single_sig_def
    update_multi_sig_def
  by (intro keeps_rules; simp add: sign_view_def)+

lemma quiet_registrations [keeps_rules]:
  "keeps I (update_address_registrations w)" "keeps I (process_update_push_token t)"
  unfolding update_address_registrations_def process_update_push_token_def
  by (intro keeps_rules; simp add: sign_view_def)+

lemma quiet_data1 [keeps_rules]:
  "keeps I (parse_asset w t)" "keeps I (subscribe_price_update a)" "keeps I send_subscribe_request"
  unfolding parse_asset_def subscribe_price_update_def send_subscribe_request_def
  by (intro keeps_rules; simp add: sign_view_def)+

lemma quiet_markets [keeps_rules]: "keeps I (parse_markets w ms)"
  by (induction w ms rule: parse_markets.induct) (auto intro!: keeps_rules)

lemma quiet_data2 [keeps_rules]:
  "keeps I (process_subscribe w ms)" "keeps I (process_asset_details w t)"
  "keeps I (process_subscribe_price w t)" "keeps I (process_unsubscribe_price w t)"
  "keeps I (process_subscribe_price_stream w r)" "keeps I process_unsubscribe_price_stream"
  "keeps I process_market_data_unsubscribe" "keeps I process_portfolio_prices"
  "keeps I (process_gaid_status_req w g t)"
  unfolding Let_def process_subscribe_def process_asset_details_def process_subscribe_price_def
    process_unsubscribe_price_def process_subscribe_price_stream_def process_unsubscribe_price_stream_def
    process_market_data_unsubscribe_def process_portfolio_prices_def process_gaid_status_req_def
  by (intro keeps_rules; simp add: sign_view_def)+

lemma quiet_data3 [keeps_rules]:
  "keeps I (process_market_data_subscribe w t)"
  unfolding process_market_data_subscribe_def
  by (intro keeps_rules; simp add: sign_view_def)+

lemma quiet_news [keeps_rules]:
  "keeps I (process_server_status st)" "keeps I (process_price_update a p)" "keeps I (process_peg_status ps)"
  "keeps I (process_market_data_response a pts)" "keeps I (process_asset_details_response ad)"
  "keeps I (process_update_prices a i l)" "keeps I (process_update_price_stream u)"
  "keeps I (process_local_message t b)" "keeps I (process_market_data_update a pt)"
  unfolding Let_def process_server_status_def process_price_update_def process_peg_status_def
    process_market_data_response_def process_asset_details_response_def process_update_prices_def
    process_update_price_stream_def process_local_message_def process_market_data_update_def
  by (intro keeps_rules; simp add: sign_view_def)+

lemma quiet_update_submit [keeps_rules]:
  "(\<And>sb. submit_summary (f sb) = submit_summary sb) \<Longrightarrow> keeps I (sx_modify (update_submit i f))"
  by (rule quiet_modify) (auto simp: sign_view_def update_submit_def fun_eq_iff split: option.split)

lemma quiet_take [keeps_rules]: "(\<And>s. sign_view (clear s) = sign_view s) \<Longrightarrow> keeps I (sx_take get clear)"
  unfolding sx_take_def by (intro keeps_rules) simp

lemma quiet_orders1 [keeps_rules]:
  "keeps I (try_process_link_order w i)" "keeps I (submit_bitcoin_amount w a v)"
  "keeps I (tx_chaining w a sd sa am)" "keeps I (cl_verify w d)" "keeps I (known_asset i)"
  "keeps I (get_submit i e)" "keeps I (find_own_address_info w ad)"
  unfolding Let_def try_process_link_order_def submit_bitcoin_amount_def tx_chaining_def cl_verify_def
    known_asset_def get_submit_def find_own_address_info_def
  by (intro keeps_rules; simp add: sign_view_def)+

lemma quiet_orders2 [keeps_rules]:
  "keeps I (try_process_submit_order w so)"
  "keeps I (receive_address_for w i b1 b2 a)" "keeps I (make_signed_half w req b a d ai ins)"
  unfolding Let_def try_process_submit_order_def receive_address_for_def
    make_signed_half_def
  by (intro keeps_rules; simp add: sign_view_def)+

lemma quiet_orders3 [keeps_rules]:
  "keeps I (send_pset_request w req i a d b ins ai ad)" "keeps I (submit_pending w so)"
  "keeps I (link_pending w t)"
  "keeps I (process_cancel_order t)" "keeps I (remove_order i)" "keeps I (process_order_removed i)"
  "keeps I (process_unsubscribe_response ao)"
  unfolding Let_def send_pset_request_def submit_pending_def link_pending_def process_cancel_order_def remove_order_def process_order_removed_def
    process_unsubscribe_response_def
  by (intro keeps_rules; simp add: sign_view_def)+

lemma quiet_succeed [keeps_rules]: "keeps I (succeed_loop n)" "keeps I process_pending_succeed"
proof -
  show loop: "keeps I (succeed_loop n)" for n
    by (induction n) (auto intro!: keeps_rules simp: sign_view_def)
  show "keeps I process_pending_succeed"
    unfolding process_pending_succeed_def by (intro keeps_rules loop)
qed

lemma quiet_sync_interval [keeps_rules]:
  "keeps I update_sync_interval"
  unfolding Let_def update_sync_interval_def
  by (intro keeps_rules; simp add: sign_view_def)+

lemma quiet_swaps1 [keeps_rules]:
  "keeps I (swap_asset w t)" "keeps I (no_amp_assets am)" "keeps I (send_rest_request w hr u)"
  "keeps I known_server_status" "keeps I require_connected" "keeps I (peg_out_send_amount w po bal)"
  "keeps I known_device_key"
  unfolding Let_def swap_asset_def no_amp_assets_def send_rest_request_def known_server_status_def
    require_connected_def peg_out_send_amount_def known_device_key_def
  by (intro keeps_rules; simp add: sign_view_def)+

lemma quiet_swap_inputs [keeps_rules]: "keeps I (select_swap_inputs ins am)"
  unfolding select_swap_inputs_def by (intro keeps_rules)

lemma quiet_on_error [keeps_rules]: "keeps I m \<Longrightarrow> keeps I (swap_failed_on_error m)"
  unfolding swap_failed_on_error_def by (intro keeps_rules)

lemma quiet_swaps2 [keeps_rules]:
  "keeps I (try_process_pegout_amount w po)" "keeps I (try_process_pegout_request w pr)"
  "keeps I (try_process_pegin_request w)"
  unfolding Let_def try_process_pegout_amount_def try_process_pegout_request_def try_process_pegin_request_def
  by (intro keeps_rules; simp add: sign_view_def)+

lemma quiet_swaps3 [keeps_rules]:
  "keeps I (process_pegout_amount w po)" "keeps I (process_pegout_request w pr)"
  "keeps I (process_pegin_request w)" "keeps I (process_get_recv_address w a)"
  "keeps I (try_process_create_tx w ct)" "keeps I (try_process_send_tx w a)" "keeps I (tx_sent r)"
  unfolding Let_def process_pegout_amount_def process_pegout_request_def process_pegin_request_def
    process_get_recv_address_def try_process_create_tx_def try_process_send_tx_def tx_sent_def
  by (intro keeps_rules; simp add: sign_view_def)+

lemma quiet_swaps4 [keeps_rules]:
  "keeps I (process_create_tx w ct)" "keeps I (process_send_tx w a)" "keeps I (process_create_payjoin w cj)"
  "keeps I (process_send_payjoin w cp)" "keeps I (process_set_memo w a t mm)"
  unfolding Let_def process_create_tx_def process_send_tx_def process_create_payjoin_def
    process_send_payjoin_def process_set_memo_def
  by (intro keeps_rules; simp add: sign_view_def)+

lemma quiet_blinded [keeps_rules]: "keeps I (blinded_values_loop w t as)" "keeps I (process_blinded_values w t)"
proof -
  show loop: "keeps I (blinded_values_loop w t as)" for as
    by (induction as) (auto intro!: keeps_rules)
  show "keeps I (process_blinded_values w t)"
    unfolding process_blinded_values_def by (intro keeps_rules loop)
qed

lemma quiet_wallet1 [keeps_rules]:
  "keeps I (note_succeed p)" "keeps I (report_sent u)" "keeps I (report_swap u)"
  "keeps I (add_new_assets w as)" "keeps I (hash_entries w xs)" "keeps I (update_used_addresses w a txs)"
  unfolding Let_def note_succeed_def report_sent_def report_swap_def add_new_assets_def hash_entries_def
    update_used_addresses_def
  by (intro keeps_rules; simp add: sign_view_def)+

lemma quiet_wallet2 [keeps_rules]:
  "keeps I (send_new_transactions w txs a tb)" "keeps I (send_gaid w)" "keeps I (refresh_balance w a)"
  "keeps I (refresh_utxos w a)" "keeps I send_wallet_loaded" "keeps I sync_failed"
  unfolding Let_def send_new_transactions_def send_gaid_def refresh_balance_def refresh_utxos_def
    send_wallet_loaded_def sync_failed_def
  by (intro keeps_rules; simp add: sign_view_def set_txids_def Let_def)+

lemma quiet_wallet3 [keeps_rules]:
  "keeps I (refresh_transactions w a tb)"
  unfolding Let_def refresh_transactions_def
  by (intro keeps_rules; simp add: sign_view_def)+

lemma quiet_wallet4 [keeps_rules]:
  "keeps I (resync_wallet w a)"
  unfolding Let_def resync_wallet_def
  by (intro keeps_rules; simp add: sign_view_def)+

lemma quiet_wallet5 [keeps_rules]:
  "keeps I (wallet_block w a bl)"
  unfolding Let_def wallet_block_def
  by (intro keeps_rules; simp add: sign_view_def)+

lemma quiet_worker1 [keeps_rules]:
  "keeps I (login_client w)" "keeps I (download_assets w)" "keeps I (verify_device_key w)"
  "keeps I (register_device_key w)"
  unfolding Let_def login_client_def download_assets_def verify_device_key_def register_device_key_def
  by (intro keeps_rules; simp add: sign_view_def)+

lemma quiet_worker2 [keeps_rules]:
  "keeps I (check_device_key w)" "keeps I (registration w lr)" "keeps I (start_wallet w a b)"
  "keeps I (try_change_network w)" "keeps I (process_encrypt_pin w p1 p2)"
  "keeps I (process_decrypt_pin w p1 p2 p3 p4)" "keeps I sync_jade"
  unfolding Let_def check_device_key_def registration_def start_wallet_def try_change_network_def
    process_encrypt_pin_def process_decrypt_pin_def sync_jade_def
  by (intro keeps_rules; simp add: sign_view_def)+

lemma quiet_worker3 [keeps_rules]:
  "keeps I (process_change_network w)" "keeps I (process_scan_jade ports)"
  unfolding Let_def process_change_network_def process_scan_jade_def
  by (intro keeps_rules; simp add: sign_view_def)+

lemma quiet_worker4 [keeps_rules]:
  "keeps I (process_jade_rescan_request w)" "keeps I (start_client w)"
  unfolding Let_def process_jade_rescan_request_def start_client_def
  by (intro keeps_rules; simp add: sign_view_def)+

lemma quiet_disconnected [keeps_rules]: "keeps I (process_ws_disconnected w)"
  unfolding process_ws_disconnected_def by (intro keeps_rules; simp add: sign_view_def)

end

section \<open>Invariants of signing\<close>

text \<open>
  What an invariant has to say about the few operations that do touch the view, for the handlers built
  from them to keep it: signing on request of the server, showing prompts and quotes, downloading a
  request to sign (which may recover the data of an own order), forgetting an order and forgetting the
  instant swap.
\<close>

locale sign_invariant = quiet_frame I for I :: "cl_data \<Rightarrow> cl_history \<Rightarrow> bool" +
  fixes w :: cl_world
  assumes keeps_sign [keeps_rules]: "keeps I (try_process_sign w msg)"
    and keeps_prompts [keeps_rules]: "keeps I process_pending_sign_prompts"
    and keeps_shown [keeps_rules]: "keeps I (show_downloaded w lr)"
    and keeps_download [keeps_rules]: "keeps I m \<Longrightarrow> keeps I (download_sign_request w m i)"
    and keeps_remove [keeps_rules]: "keeps I (sx_modify (dt_submit_data_update (btree_remove i)))"
    and keeps_no_swap [keeps_rules]: "keeps I (sx_modify (dt_active_swap_update (\<lambda>_. None)))"
begin

lemma sign_report [keeps_rules]:
  "keeps I (sign_or_report w sn)"
  unfolding Let_def sign_or_report_def
  by (intro keeps_rules; simp add: sign_view_def)+

lemma sign_loop [keeps_rules]: "keeps I (sign_requests_loop w n)"
  by (induction n) (auto intro!: keeps_rules simp: sign_view_def)

lemma sign_downloads [keeps_rules]: "(\<And>i. keeps I (dl i)) \<Longrightarrow> keeps I (download_signs dl ps)"
  by (induction dl ps rule: download_signs.induct) (auto intro!: keeps_rules)

lemma sign_pending_body [keeps_rules]: "(\<And>i. keeps I (dl i)) \<Longrightarrow> keeps I (process_pending_body w dl)"
  unfolding process_pending_body_def by (intro keeps_rules; simp add: sign_view_def)

lemma sign_pending_inner [keeps_rules]: "keeps I (process_pending_inner w)"
  unfolding process_pending_inner_def by (intro keeps_rules)

lemma sign_with [keeps_rules]: "keeps I m \<Longrightarrow> keeps I (process_sign_with w m sn)"
  unfolding process_sign_with_def by (intro keeps_rules; simp add: sign_view_def)

lemma sign_pending [keeps_rules]: "keeps I (process_pending_requests w)"
  unfolding process_pending_requests_def by (intro keeps_rules)

lemma sign_queue [keeps_rules]:
  "keeps I (process_sign w sn)" "keeps I (process_submit_order w so)" "keeps I (process_link_order w t)"
  "keeps I (decision_done sr)" "keeps I (process_swap_done sd)"
  unfolding Let_def process_sign_def process_submit_order_def process_link_order_def decision_done_def
    process_swap_done_def
  by (intro keeps_rules; simp add: sign_view_def)+

lemma sign_push [keeps_rules]: "keeps I (process_push_message w t p)"
  unfolding process_push_message_def
  by (auto intro!: keeps_rules simp: sign_view_def split: option.split fcm_message.split)

lemma sign_complete [keeps_rules]: "keeps I (process_complete cn)"
  unfolding process_complete_def Let_def by (intro keeps_rules; simp add: submit_summary_def)

lemma sign_wallet1 [keeps_rules]:
  "keeps I (sync_complete w a)" "keeps I (wallet_connected w a)"
  unfolding Let_def sync_complete_def wallet_connected_def
  by (intro keeps_rules; simp add: sign_view_def)+

lemma sign_wallet2 [keeps_rules]:
  "keeps I (wallet_event w a gn)"
  unfolding Let_def wallet_event_def
  by (intro keeps_rules; simp add: sign_view_def)+

lemma sign_wallet3 [keeps_rules]:
  "keeps I (process_wallet_notif w a gn)"
  unfolding Let_def process_wallet_notif_def
  by (intro keeps_rules; simp add: sign_view_def)+

end

end
