(* ===== verification/Client_Signing.thy ===== *)
theory Client_Signing
  imports Client_Frame
begin

text \<open>
  What the client signs.  Over every run and for every behaviour of the server, the wallets and the
  system: a transaction is signed only for a deal that was agreed to, and only when it does to the wallet
  what the client has recorded of that deal.  For instant swaps and links these are the amounts of the
  user's request.  For an order they are the terms the user accepted in a review, or for an own order
  those the server reports: the asset, the direction and the amount the order fixes are kept, the other
  amount follows from the price.
\<close>

section \<open>Moving from one assertion to another\<close>

definition moves :: "('s \<Rightarrow> 'ev list \<Rightarrow> bool) \<Rightarrow> ('s, 'ev, 'a) sx \<Rightarrow> ('s \<Rightarrow> 'ev list \<Rightarrow> bool) \<Rightarrow> bool" where
  "moves P m Q \<longleftrightarrow> triple P m (\<lambda>_. Q) Q"

lemma moves_keeps: "keeps P m \<Longrightarrow> (\<And>s h. P s h \<Longrightarrow> Q s h) \<Longrightarrow> moves P m Q"
  unfolding moves_def keeps_def by (erule triple_weaken) auto

lemma keeps_moves: "keeps P m \<longleftrightarrow> moves P m P"
  by (simp add: moves_def keeps_def)

lemma moves_bind: "keeps P m \<Longrightarrow> (\<And>x. moves P (f x) Q) \<Longrightarrow> (\<And>s h. P s h \<Longrightarrow> Q s h) \<Longrightarrow> moves P (sx_bind m f) Q"
  unfolding moves_def keeps_def by (rule triple_bind [where R = "\<lambda>_. P"]) (erule triple_weaken, auto)

lemma moves_then: "moves P m Q \<Longrightarrow> (\<And>x. keeps Q (f x)) \<Longrightarrow> moves P (sx_bind m f) Q"
  unfolding moves_def keeps_def by (rule triple_bind [where R = "\<lambda>_. Q"])

lemma moves_weaken:
  "moves P m Q \<Longrightarrow> (\<And>s h. P' s h \<Longrightarrow> P s h) \<Longrightarrow> (\<And>s h. Q s h \<Longrightarrow> Q' s h) \<Longrightarrow> moves P' m Q'"
  unfolding moves_def by (erule triple_weaken) auto

lemma moves_get:
  "(\<And>x. moves (\<lambda>s h. P s h \<and> f s = x) (g x) Q) \<Longrightarrow> moves P (sx_bind (sx_get f) g) Q"
  unfolding moves_def by (rule triple_get_bind) (rule triple_weaken, assumption, auto)

lemma moves_modify: "(\<And>s h. P s h \<Longrightarrow> Q (f s) h) \<Longrightarrow> moves P (sx_modify f) Q"
  unfolding moves_def by (rule triple_modify)

lemma moves_modify_then:
  "(\<And>s h. P s h \<Longrightarrow> R (f s) h) \<Longrightarrow> moves R m Q \<Longrightarrow> moves P (sx_bind (sx_modify f) (\<lambda>_. m)) Q"
  unfolding moves_def by (rule triple_bind [where R = "\<lambda>_. R"]) (auto intro: triple_modify)

text \<open>A condition that was checked holds afterwards.\<close>

lemma moves_check:
  "(b \<Longrightarrow> moves P m Q) \<Longrightarrow> (\<And>s h. P s h \<Longrightarrow> Q s h) \<Longrightarrow> moves P (sx_bind (check b e) (\<lambda>_. m)) Q"
  unfolding moves_def by (cases b) (simp_all add: check_def triple_def sx_bind_def sx_lift_def)

lemma moves_ok_or:
  "(\<And>v. x = Some v \<Longrightarrow> moves P (f v) Q) \<Longrightarrow> (\<And>s h. P s h \<Longrightarrow> Q s h) \<Longrightarrow> moves P (sx_bind (sx_ok_or x e) f) Q"
  unfolding moves_def by (cases x) (auto simp: sx_ok_or_def triple_def sx_bind_def sx_lift_def)

lemma moves_expect:
  "(\<And>v. x = Some v \<Longrightarrow> moves P (f v) Q) \<Longrightarrow> (\<And>s h. P s h \<Longrightarrow> Q s h) \<Longrightarrow> moves P (sx_bind (sx_expect x) f) Q"
  unfolding moves_def by (cases x) (auto simp: sx_expect_def triple_def sx_bind_def sx_lift_def)

text \<open>What the amounts of an order were checked for.\<close>

lemma moves_verify:
  assumes "\<And>s. verify_amounts w s d = Ok () \<Longrightarrow> moves P (f ()) Q" "\<And>s h. P s h \<Longrightarrow> Q s h"
  shows "moves P (sx_bind (cl_verify w d) f) Q"
proof -
  have "moves (\<lambda>s h. P s h \<and> verify_amounts w s d = r) (sx_bind (sx_lift r) f) Q" for r
  proof (cases "\<exists>s. verify_amounts w s d = r \<and> r = Ok ()")
    case True
    then show ?thesis using assms(1) by (auto simp: moves_def triple_def sx_bind_def sx_lift_def)
  next
    case False
    then show ?thesis using assms(2) by (cases r) (auto simp: moves_def triple_def sx_bind_def sx_lift_def)
  qed
  then have "moves P (sx_bind (sx_get (\<lambda>s. verify_amounts w s d)) (\<lambda>r. sx_bind (sx_lift r) f)) Q" by (rule moves_get)
  moreover have "sx_bind (cl_verify w d) f = sx_bind (sx_get (\<lambda>s. verify_amounts w s d)) (\<lambda>r. sx_bind (sx_lift r) f)"
    by (simp add: cl_verify_def fun_eq_iff sx_bind_def sx_get_def)
  ultimately show ?thesis by simp
qed

lemma moves_get_submit:
  assumes "\<And>sb. moves (\<lambda>s h. P s h \<and> btree_get (dt_submit_data s) i = Some sb) (f sb) Q" "\<And>s h. P s h \<Longrightarrow> Q s h"
  shows "moves P (sx_bind (get_submit i e) f) Q"
proof -
  have "sx_bind (get_submit i e) f = sx_bind (sx_get (\<lambda>s. btree_get (dt_submit_data s) i)) (\<lambda>x. sx_bind (sx_ok_or x e) f)"
    by (simp add: get_submit_def fun_eq_iff sx_bind_def sx_get_def)
  moreover have "moves P (sx_bind (sx_get (\<lambda>s. btree_get (dt_submit_data s) i)) (\<lambda>x. sx_bind (sx_ok_or x e) f)) Q"
    by (rule moves_get, rule moves_ok_or) (auto intro: moves_weaken [OF assms(1)] assms(2))
  ultimately show ?thesis by simp
qed

text \<open>What the server answered.\<close>

lemma request_as_answer:
  "triple (\<lambda>s h. True) (request_as w q sel) (\<lambda>x s h. \<exists>resp. sel resp = Some x \<and> CE_Request q (Inr resp) \<in> set h) (\<lambda>s h. True)"
  unfolding request_as_def cl_send_request_def send_request_msg_def
  by (rule tripleI) (auto simp: sx_defs sx_result_defs ok_or_def split: prod.splits outcome.splits sum.splits option.splits)

lemma as_GetSign_Some: "as_GetSign resp = Some x \<Longrightarrow> resp = CA_GetSign x"
  by (cases resp) (auto simp: as_GetSign_def)

lemma triple_conj:
  assumes "triple P m Q E" "triple P' m Q' E'"
  shows "triple (\<lambda>s h. P s h \<and> P' s h) m (\<lambda>x s h. Q x s h \<and> Q' x s h) (\<lambda>s h. E s h \<and> E' s h)"
proof (rule tripleI)
  fix s h r s' h'
  assume "P s h \<and> P' s h" "m s h = (r, s', h')"
  with tripleD [OF assms(1)] tripleD [OF assms(2)] have "sx_post Q E r s' h'" "sx_post Q' E' r s' h'" by blast+
  then show "sx_post (\<lambda>x s h. Q x s h \<and> Q' x s h) (\<lambda>s h. E s h \<and> E' s h) r s' h'" by (cases r) auto
qed

section \<open>The check before signing\<close>

lemma verify_and_sign_moves:
  assumes frame: "quiet_frame P" and weaken: "\<And>s h. P s h \<Longrightarrow> Q s h"
    and sign: "\<And>s h d. P s h \<Longrightarrow> CE_Wallet acc (WC_PsbtDetails pset (Inr d)) = last h \<Longrightarrow> h \<noteq> [] \<Longrightarrow>
      pset_amounts_ok w am d \<Longrightarrow> Q s (h @ [CE_Wallet acc (WC_PsbtSign deal am pset nonces)])"
  shows "moves P (verify_and_sign_pset w deal acc am pset nonces) Q"
proof -
  note q = quiet_frame.quiet_event [OF frame]
  let ?D = "\<lambda>r s h. P s h \<and> h \<noteq> [] \<and> CE_Wallet acc (WC_PsbtDetails pset r) = last h"
  have details: "triple P (sx_call (\<lambda>h. cw_psbt_details w h acc pset utxos) (\<lambda>r. CE_Wallet acc (WC_PsbtDetails pset r))) ?D Q" for utxos
    by (rule triple_call) (simp add: q)
  have signed: "moves (?D (Inr d)) (if am_send_amount am = 0 then sx_return pset
      else sx_bind (sx_call (\<lambda>h. cw_psbt_sign w h acc pset utxos nonces)
              (\<lambda>_. CE_Wallet acc (WC_PsbtSign deal am pset nonces))) (\<lambda>r. sx_of_sum (prefix_error e r))) Q"
    if "pset_amounts_ok w am d" for d utxos e
    unfolding moves_def
    by (intro triple_if triple_return triple_bind [where R = "\<lambda>_. Q"] triple_call)
       (auto simp: weaken sx_of_sum_def that intro: sign triple_lift)
  have checked: "moves (?D r) (sx_bind (sx_of_sum (prefix_error e r)) (\<lambda>d.
      sx_bind (check (pset_amounts_ok w am d) e') (\<lambda>_. if am_send_amount am = 0 then sx_return pset
      else sx_bind (sx_call (\<lambda>h. cw_psbt_sign w h acc pset utxos nonces)
              (\<lambda>_. CE_Wallet acc (WC_PsbtSign deal am pset nonces))) (\<lambda>r. sx_of_sum (prefix_error e2 r))))) Q" for r utxos e e' e2
  proof (cases r)
    case (Inl a)
    then show ?thesis by (simp add: moves_def triple_def sx_of_sum_def prefix_error_def sx_bind_def sx_lift_def weaken)
  next
    case (Inr d)
    have "moves (?D (Inr d)) (sx_bind (check (pset_amounts_ok w am d) e') (\<lambda>_. if am_send_amount am = 0 then sx_return pset
      else sx_bind (sx_call (\<lambda>h. cw_psbt_sign w h acc pset utxos nonces)
              (\<lambda>_. CE_Wallet acc (WC_PsbtSign deal am pset nonces))) (\<lambda>r. sx_of_sum (prefix_error e2 r)))) Q"
      by (rule moves_check [OF signed]) (auto simp: weaken)
    then show ?thesis
      by (simp add: Inr moves_def triple_def sx_of_sum_def prefix_error_def sx_bind_def sx_lift_def)
  qed
  have "keeps P (wallet_get_utxos w acc)" by (rule quiet_frame.quiet_wallet_calls(2) [OF frame])
  then show ?thesis
    unfolding verify_and_sign_pset_def Let_def
    by (rule moves_bind) (unfold moves_def, rule triple_bind [OF details checked [unfolded moves_def]], rule weaken)
qed

text \<open>\<open>R sb\<close> is what is known once the data of the order has been looked up.\<close>

lemma try_sign_moves:
  assumes R: "\<And>sb. quiet_frame (R sb)" and Q: "quiet_frame Q"
    and known: "\<And>s h sb. P s h \<Longrightarrow> btree_get (dt_submit_data s) (sn_order_id msg) = Some sb \<Longrightarrow> R sb s h"
    and weaken: "\<And>s h. P s h \<Longrightarrow> Q s h" "\<And>s h sb. R sb s h \<Longrightarrow> Q s h"
    and sign: "\<And>s h sb acc d nonces. R sb s h \<Longrightarrow> CE_Wallet acc (WC_PsbtDetails (sn_pset msg) (Inr d)) = last h \<Longrightarrow> h \<noteq> [] \<Longrightarrow>
      pset_amounts_ok w (order_amounts w sb) d \<Longrightarrow>
      Q s (h @ [CE_Wallet acc (WC_PsbtSign (For_Order (sn_order_id msg)) (order_amounts w sb) (sn_pset msg) nonces)])"
  shows "moves P (try_sign w msg) Q"
proof -
  have after: "keeps Q (sx_then (request_as w (CR_Sign r) as_Sign)
     (sx_then (sx_modify (update_submit (sn_order_id msg) (sb_signed_update (\<lambda>_. True))))
     (sx_then (sx_when b (ui_send u)) (sx_return False))))" for r b u
    by (intro keeps_rules quiet_frame.quiet_requests [OF Q] quiet_frame.quiet_update_submit [OF Q] quiet_frame.quiet_basic [OF Q])
       (simp add: submit_summary_def)
  have signed: "moves (R sb) (verify_and_sign_pset w (For_Order (sn_order_id msg)) acc (order_amounts w sb) (sn_pset msg) nonces) Q" for sb acc nonces
    by (rule verify_and_sign_moves [OF R]) (auto intro: weaken sign)
  have nonces: "keeps (R sb) (if b then sx_ok_or x e else sx_return y)" for sb b x e y
    by (intro keeps_rules)
  have rest: "moves (R sb) (sx_then (check (sb_order_id sb = sn_order_id msg) e)
     (sx_bind (sx_get (\<lambda>s. sb_asset sb \<in> set (dt_amp_assets s))) (\<lambda>is_amp.
     sx_bind (if is_amp then sx_ok_or (sn_nonces msg) e' else sx_return []) (\<lambda>nonces.
     sx_then (get_wallet (if is_amp then ACCOUNT_ID_AMP else ACCOUNT_ID_REG))
     (sx_bind (verify_and_sign_pset w (For_Order (sn_order_id msg)) (if is_amp then ACCOUNT_ID_AMP else ACCOUNT_ID_REG)
         (order_amounts w sb) (sn_pset msg) nonces) (\<lambda>signed_pset.
     sx_then (request_as w (CR_Sign (r signed_pset)) as_Sign)
     (sx_then (sx_modify (update_submit (sn_order_id msg) (sb_signed_update (\<lambda>_. True))))
     (sx_then (sx_when b (ui_send u)) (sx_return False))))))))) Q" for sb e e' r b u
    apply (rule moves_bind [OF keeps_results(4)])
     apply (rule moves_bind [OF keeps_get])
      apply (rule moves_bind [OF nonces])
       apply (rule moves_bind [OF quiet_frame.quiet_wallet(1) [OF R]])
        apply (rule moves_then [OF signed after])
       apply (erule weaken(2))+
    done
  show ?thesis
    unfolding try_sign_def Let_def
    by (rule moves_get_submit, rule moves_weaken [OF rest]) (auto intro: known weaken)
qed

section \<open>What counts as agreement\<close>

text \<open>The user accepted the order in the review (of the quote or of the transaction).\<close>

definition accepted_by_user :: "cl_history \<Rightarrow> order_id \<Rightarrow> bool" where
  "accepted_by_user h order_id \<longleftrightarrow> (\<exists>d. CE_Msg (M_Ui (TM_SubmitDecision d)) \<in> set h \<and> de_accept d \<and>
     (hash32_from_str (de_order_id d) = Some order_id \<or> de_order_id d = hash32_to_string order_id))"

text \<open>The user switched on automatic signing of an order.\<close>

definition auto_sign_by_user :: "cl_history \<Rightarrow> order_id \<Rightarrow> bool" where
  "auto_sign_by_user h order_id \<longleftrightarrow> (\<exists>txt. CE_Msg (M_Ui (TM_EditOrder txt (Some (Edit_AutoSign True)))) \<in> set h \<and>
     hash32_from_str txt = Some order_id)"

text \<open>The server said that the order is an own two-step order (which was signed in advance).\<close>

definition announced :: "cl_history \<Rightarrow> order_created \<Rightarrow> bool" where
  "announced h oc \<longleftrightarrow> CE_Msg (M_ServerNotification (CN_OrderCreated oc)) \<in> set h \<or>
     (\<exists>a ocs. CE_Msg (M_Subscribe a ocs) \<in> set h \<and> oc \<in> set ocs) \<or>
     (\<exists>q sid ocs. CE_Request q (Inr (CA_Login sid ocs)) \<in> set h \<and> oc \<in> set ocs)"

definition announced_two_step :: "cl_history \<Rightarrow> order_id \<Rightarrow> bool" where
  "announced_two_step h order_id \<longleftrightarrow>
     (\<exists>oc. announced h oc \<and> oc_order_id oc = order_id \<and> oc_own oc \<noteq> None \<and> oc_two_step oc)"

text \<open>The wallet was opened with the setting that signs everything the user offers.\<close>

definition auto_sign_forced :: "cl_history \<Rightarrow> bool" where
  "auto_sign_forced h \<longleftrightarrow> (\<exists>req. CE_Msg (M_Ui (TM_Login req)) \<in> set h \<and> lr_force_auto_sign_maker req = Some True)"

definition consent :: "cl_history \<Rightarrow> order_id \<Rightarrow> bool" where
  "consent h order_id \<longleftrightarrow> accepted_by_user h order_id \<or> auto_sign_by_user h order_id \<or>
     announced_two_step h order_id \<or> auto_sign_forced h"

text \<open>The user accepted an order after having been shown this review of it.\<close>

definition accepted_review :: "cl_history \<Rightarrow> order_id \<Rightarrow> submit_review \<Rightarrow> bool" where
  "accepted_review h order_id rv \<longleftrightarrow> (\<exists>h1 d h2. h = h1 @ CE_Msg (M_Ui (TM_SubmitDecision d)) # h2 \<and> de_accept d \<and>
     hash32_from_str (de_order_id d) = Some order_id \<and> CE_Ui (FM_SubmitReview rv) \<in> set h1 \<and> rv_order_id rv = order_id)"

text \<open>The server reported an own order with these details.\<close>

definition own_order :: "cl_history \<Rightarrow> order_id \<Rightarrow> details \<Rightarrow> bool" where
  "own_order h order_id d \<longleftrightarrow>
     (\<exists>oc. announced h oc \<and> oc_order_id oc = order_id \<and> oc_own oc \<noteq> None \<and> oc_details oc = d) \<or>
     (\<exists>sn. CE_Request (CR_GetSign order_id) (Inr (CA_GetSign sn)) \<in> set h \<and> sn_details sn = d)"

text \<open>An order has the same asset, the same direction and the same fixed amount: the bitcoin amount and
  the server fee, or the asset amount.\<close>

definition fixed_terms :: "submit_data \<Rightarrow> asset_id \<Rightarrow> bool \<Rightarrow> amount \<Rightarrow> amount \<Rightarrow> amount \<Rightarrow> bool" where
  "fixed_terms sb asset sell_bitcoin bitcoin_amount server_fee asset_amount \<longleftrightarrow>
     sb_asset sb = asset \<and> sb_sell_bitcoin sb = sell_bitcoin \<and>
     (case sb_order_type sb of
        OT_Bitcoin \<Rightarrow> sb_bitcoin_amount sb = bitcoin_amount \<and> sb_server_fee sb = server_fee
      | OT_Asset \<Rightarrow> sb_asset_amount sb = asset_amount)"

definition review_terms :: "submit_data \<Rightarrow> submit_review \<Rightarrow> bool" where
  "review_terms sb rv \<longleftrightarrow> fixed_terms sb (rv_asset rv) (rv_sell_bitcoin rv) (rv_bitcoin_amount rv) (rv_server_fee rv) (rv_asset_amount rv)"

definition own_terms :: "submit_data \<Rightarrow> details \<Rightarrow> bool" where
  "own_terms sb d \<longleftrightarrow> fixed_terms sb (d_asset d) (d_send_bitcoins d = (d_side d = Maker))
     (d_bitcoin_amount d) (d_server_fee d) (d_asset_amount d)"

text \<open>The other amount is what the price makes of the fixed one (with some precision of the asset and in
  one of the markets), and the fee is the one of the bitcoin amount.\<close>

definition priced :: "submit_data \<Rightarrow> bool" where
  "priced sb \<longleftrightarrow> sb_server_fee sb = get_server_fee (sb_bitcoin_amount sb) \<and>
     (\<exists>precision market. case sb_order_type sb of
        OT_Bitcoin \<Rightarrow> types_asset_amount (sb_bitcoin_amount sb) (sb_price sb) precision market = (Ok (sb_asset_amount sb) :: (string, amount) outcome)
      | OT_Asset \<Rightarrow> types_bitcoin_amount (sb_asset_amount sb) (sb_price sb) precision market = (Ok (sb_bitcoin_amount sb) :: (string, amount) outcome))"

text \<open>The price of the review, or one the user entered later.\<close>

definition user_price :: "cl_history \<Rightarrow> order_id \<Rightarrow> submit_review \<Rightarrow> f64 \<Rightarrow> bool" where
  "user_price h order_id rv p \<longleftrightarrow> p = rv_price rv \<or>
     (\<exists>txt. CE_Msg (M_Ui (TM_EditOrder txt (Some (Edit_Price p)))) \<in> set h \<and> hash32_from_str txt = Some order_id)"

definition same_price :: "f64 \<Rightarrow> f64 \<Rightarrow> bool" where
  "same_price p q \<longleftrightarrow> q = p \<or> f64_eq (f64_div (f64_abs (f64_sub q p)) p) (Fin 0)"

text \<open>The terms of an order have a known origin: the user accepted a review with these terms, and as a
  taker at this price; or it is an own order and the server reported it with these terms.\<close>

definition terms_agreed :: "cl_history \<Rightarrow> order_id \<Rightarrow> submit_data \<Rightarrow> bool" where
  "terms_agreed h order_id sb \<longleftrightarrow> priced sb \<and> (case sb_side sb of
      Taker \<Rightarrow> \<exists>rv p. accepted_review h order_id rv \<and> review_terms sb rv \<and> user_price h order_id rv p \<and> same_price p (sb_price sb)
    | Maker \<Rightarrow> (\<exists>rv. accepted_review h order_id rv \<and> review_terms sb rv) \<or> (\<exists>d. own_order h order_id d \<and> own_terms sb d))"

definition request_amounts :: "cl_world \<Rightarrow> swap_request \<Rightarrow> asset_id \<Rightarrow> swap_amounts" where
  "request_amounts w req asset =
     \<lparr> am_send_asset = (if sw_send_bitcoins req then cw_policy_asset w else asset),
       am_send_amount = wrap_u64 (sw_send_amount req),
       am_recv_asset = (if sw_send_bitcoins req then asset else cw_policy_asset w),
       am_recv_amount = wrap_u64 (sw_recv_amount req) \<rparr>"

definition link_amounts :: "swap_details \<Rightarrow> asset_id \<Rightarrow> asset_id \<Rightarrow> swap_amounts" where
  "link_amounts req send_asset recv_asset =
     \<lparr> am_send_asset = send_asset, am_send_amount = wrap_u64 (sl_send_amount req),
       am_recv_asset = recv_asset, am_recv_amount = wrap_u64 (sl_recv_amount req) \<rparr>"

fun deal_agreed :: "cl_world \<Rightarrow> cl_history \<Rightarrow> deal \<Rightarrow> swap_amounts \<Rightarrow> bool" where
  "deal_agreed w h (For_Order order_id) am =
     (consent h order_id \<and> (\<exists>sb. terms_agreed h order_id sb \<and> am = order_amounts w sb))"
| "deal_agreed w h (For_Swap order_id) am =
     (\<exists>req asset. CE_Msg (M_Ui (TM_SwapRequest req)) \<in> set h \<and> cw_parse_asset w (sw_asset req) = Some asset \<and>
        am = request_amounts w req asset)"
| "deal_agreed w h (For_Link order_id) am =
     (\<exists>req send_asset recv_asset. CE_Msg (M_Ui (TM_SwapAccept req)) \<in> set h \<and>
        hash32_from_str (sl_order_id req) = Some order_id \<and> cw_parse_asset w (sl_send_asset req) = Some send_asset \<and>
        cw_parse_asset w (sl_recv_asset req) = Some recv_asset \<and> am = link_amounts req send_asset recv_asset)"

text \<open>A signature at the end of a history: the event just before it is the wallet's account of what this
  very transaction does, and that is the agreed exchange.\<close>

definition justified :: "cl_world \<Rightarrow> cl_history \<Rightarrow> cl_event \<Rightarrow> bool" where
  "justified w h ev \<longleftrightarrow> (\<forall>acc deal am pset nonces. ev = CE_Wallet acc (WC_PsbtSign deal am pset nonces) \<longrightarrow>
     deal_agreed w h deal am \<and>
     (\<exists>d. h \<noteq> [] \<and> last h = CE_Wallet acc (WC_PsbtDetails pset (Inr d)) \<and> pset_amounts_ok w am d))"

definition all_justified :: "cl_world \<Rightarrow> cl_history \<Rightarrow> bool" where
  "all_justified w h \<longleftrightarrow> (\<forall>h1 ev h2. h = h1 @ ev # h2 \<longrightarrow> justified w h1 ev)"

lemma all_justified_Nil [simp]: "all_justified w []"
  by (simp add: all_justified_def)

lemma all_justified_snoc [simp]: "all_justified w (h @ [ev]) \<longleftrightarrow> all_justified w h \<and> justified w h ev"
proof
  assume a: "all_justified w (h @ [ev])"
  show "all_justified w h \<and> justified w h ev"
    unfolding all_justified_def
  proof (intro conjI allI impI)
    show "justified w h1 e" if "h = h1 @ e # h2" for h1 e h2
      using a that unfolding all_justified_def by (metis append_Cons append_assoc)
    show "justified w h ev" using a unfolding all_justified_def by blast
  qed
next
  assume a: "all_justified w h \<and> justified w h ev"
  show "all_justified w (h @ [ev])"
    unfolding all_justified_def
  proof (intro allI impI)
    fix h1 e h2
    assume eq: "h @ [ev] = h1 @ e # h2"
    show "justified w h1 e"
    proof (cases h2 rule: rev_cases)
      case Nil
      with eq a show ?thesis by simp
    next
      case (snoc ys y)
      with eq have "h = h1 @ e # ys" by simp
      with a show ?thesis unfolding all_justified_def by blast
    qed
  qed
qed

lemma justified_quiet [simp]: "\<not> signing ev \<Longrightarrow> justified w h ev"
  by (auto simp: justified_def)

definition lasting :: "(cl_history \<Rightarrow> bool) \<Rightarrow> bool" where
  "lasting F \<longleftrightarrow> (\<forall>h ev. F h \<longrightarrow> F (h @ [ev]))"

lemma lasting_simps [simp, intro]:
  "lasting (\<lambda>h. True)" "lasting (\<lambda>h. ev \<in> set h)" "lasting F \<Longrightarrow> lasting G \<Longrightarrow> lasting (\<lambda>h. F h \<and> G h)"
  by (auto simp: lasting_def)

lemma agreement_lasts:
  "accepted_by_user h i \<Longrightarrow> accepted_by_user (h @ [ev]) i" "auto_sign_forced h \<Longrightarrow> auto_sign_forced (h @ [ev])"
  "announced h oc \<Longrightarrow> announced (h @ [ev]) oc" "auto_sign_by_user h i \<Longrightarrow> auto_sign_by_user (h @ [ev]) i"
  unfolding accepted_by_user_def auto_sign_forced_def announced_def auto_sign_by_user_def set_append by blast+

lemma consent_lasts: "consent h i \<Longrightarrow> consent (h @ [ev]) i"
  unfolding consent_def announced_two_step_def by (auto dest: agreement_lasts)

lemma accepted_review_lasts: "accepted_review h i rv \<Longrightarrow> accepted_review (h @ [ev]) i rv"
  unfolding accepted_review_def by (metis append_Cons append_assoc)

lemma accepted_review_user: "accepted_review h i rv \<Longrightarrow> accepted_by_user h i"
  unfolding accepted_review_def accepted_by_user_def by force

lemma terms_lasts:
  "own_order h i d \<Longrightarrow> own_order (h @ [ev]) i d" "user_price h i rv p \<Longrightarrow> user_price (h @ [ev]) i rv p"
  unfolding own_order_def user_price_def by (auto dest: agreement_lasts(3))

lemma terms_agreed_lasts: "terms_agreed h i sb \<Longrightarrow> terms_agreed (h @ [ev]) i sb"
  unfolding terms_agreed_def
  by (cases "sb_side sb") (simp_all, (blast dest: accepted_review_lasts terms_lasts)+)

lemma deal_agreed_lasts: "deal_agreed w h deal am \<Longrightarrow> deal_agreed w (h @ [ev]) deal am"
  by (cases deal) (auto dest: consent_lasts terms_agreed_lasts)

section \<open>What the client keeps of an order\<close>

text \<open>Before an order is admitted for signing the price is still the one of the user.\<close>

definition fresh_terms :: "cl_history \<Rightarrow> order_id \<Rightarrow> submit_data \<Rightarrow> bool" where
  "fresh_terms h i sb \<longleftrightarrow> (sb_side sb = Taker \<longrightarrow>
     (\<exists>rv. accepted_review h i rv \<and> review_terms sb rv \<and> user_price h i rv (sb_price sb)))"

definition submit_ok :: "cl_history \<Rightarrow> bool \<Rightarrow> order_id \<Rightarrow> submit_data \<Rightarrow> bool" where
  "submit_ok h admitted i sb \<longleftrightarrow> sb_order_id sb = i \<and> (sb_auto_sign sb \<longrightarrow> consent h i) \<and> terms_agreed h i sb \<and>
     (\<not> admitted \<longrightarrow> fresh_terms h i sb)"

lemmas terms_defs = terms_agreed_def fresh_terms_def review_terms_def own_terms_def fixed_terms_def priced_def

lemma terms_summary [simp]:
  "terms_agreed h i (submit_summary sb) = terms_agreed h i sb" "fresh_terms h i (submit_summary sb) = fresh_terms h i sb"
  "terms_agreed h i (sb_auto_sign_update f sb) = terms_agreed h i sb" "fresh_terms h i (sb_auto_sign_update f sb) = fresh_terms h i sb"
  by (simp_all add: terms_defs submit_summary_def cong: order_type.case_cong order_side.case_cong)

lemma submit_ok_summary [simp]: "submit_ok h b i (submit_summary sb) = submit_ok h b i sb"
  unfolding submit_ok_def terms_summary by (simp add: submit_summary_def)

lemma submit_ok_lasts: "submit_ok h b i sb \<Longrightarrow> submit_ok (h @ [ev]) b i sb"
  unfolding submit_ok_def fresh_terms_def
  by (blast dest: consent_lasts terms_agreed_lasts accepted_review_lasts terms_lasts)

lemma submit_ok_admitted: "submit_ok h b i sb \<Longrightarrow> submit_ok h True i sb"
  by (simp add: submit_ok_def)

lemma submit_ok_auto: "submit_ok h b i sb \<Longrightarrow> (auto \<Longrightarrow> consent h i) \<Longrightarrow> submit_ok h b i (sb_auto_sign_update (\<lambda>_. auto) sb)"
  unfolding submit_ok_def terms_summary by simp

lemma verified_price:
  assumes "verify_amounts w s d = Ok ()"
  shows "d_server_fee d = get_server_fee (d_bitcoin_amount d) \<and> (\<exists>precision. case d_order_type d of
      OT_Bitcoin \<Rightarrow> types_asset_amount (d_bitcoin_amount d) (d_price d) precision (d_market d) = (Ok (d_asset_amount d) :: (string, amount) outcome)
    | OT_Asset \<Rightarrow> types_bitcoin_amount (d_asset_amount d) (d_price d) precision (d_market d) = (Ok (d_bitcoin_amount d) :: (string, amount) outcome))"
  using assms by (cases "d_order_type d") (auto simp: verify_amounts_def verify_price_def ensure_def split: if_splits)

text \<open>An accepted quote, an own order reported by the server, and the details of a transaction to sign.\<close>

definition review_of :: "link_response \<Rightarrow> submit_review \<Rightarrow> bool" where
  "review_of resp rv \<longleftrightarrow> rv_asset rv = d_asset (lk_details resp) \<and> rv_sell_bitcoin rv = d_send_bitcoins (lk_details resp) \<and>
     rv_bitcoin_amount rv = d_bitcoin_amount (lk_details resp) \<and> rv_server_fee rv = d_server_fee (lk_details resp) \<and>
     rv_asset_amount rv = d_asset_amount (lk_details resp) \<and> rv_price rv = d_price (lk_details resp)"

lemma accepted_submit_ok:
  assumes "accepted_review h i rv" "review_of resp rv" "verify_amounts w s (lk_details resp) = Ok ()"
  shows "submit_ok h b i (new_submit_data i (lk_details resp) ip p txs auto)"
proof -
  have "priced (new_submit_data i (lk_details resp) ip p txs auto)"
    using verified_price [OF assms(3)] by (auto simp: priced_def new_submit_data_def split: order_type.splits)
  moreover have "review_terms (new_submit_data i (lk_details resp) ip p txs auto) rv"
    using assms(2) by (simp add: terms_defs review_of_def new_submit_data_def split: order_type.split)
  moreover have "user_price h i rv (d_price (lk_details resp))" using assms(2) by (simp add: user_price_def review_of_def)
  moreover have "sb_price (new_submit_data i (lk_details resp) ip p txs auto) = d_price (lk_details resp)"
    "sb_order_id (new_submit_data i (lk_details resp) ip p txs auto) = i" by (simp_all add: new_submit_data_def)
  ultimately show ?thesis
    using assms(1) accepted_review_user [OF assms(1)]
    by (auto simp: submit_ok_def terms_agreed_def fresh_terms_def same_price_def consent_def split: order_side.split)
qed

lemma missing_submit_ok:
  assumes "own_order h i d" "verify_amounts w s d = Ok ()" "two_step \<Longrightarrow> consent h i"
  shows "submit_ok h b i (missing_submit_data i d p two_step)"
proof -
  have "priced (missing_submit_data i d p two_step)"
    using verified_price [OF assms(2)] by (auto simp: priced_def missing_submit_data_def split: order_type.splits)
  moreover have "own_terms (missing_submit_data i d p two_step) d"
    by (simp add: own_terms_def fixed_terms_def missing_submit_data_def split: order_type.split)
  ultimately show ?thesis
    using assms(1,3) by (auto simp: submit_ok_def terms_agreed_def fresh_terms_def missing_submit_data_def)
qed

lemma take_details_fixed:
  assumes "sign_matches sb d"
  shows "fixed_terms (take_details d sb) a sell b f v = fixed_terms sb a sell b f v" "sb_side (take_details d sb) = sb_side sb"
  using assms by (auto simp: fixed_terms_def take_details_def sign_matches_def split: order_type.splits)

lemma take_details_ok:
  assumes "submit_ok h False i sb" "sign_matches sb d" "verify_amounts w s d = Ok ()"
    and "f64_eq (price_change sb d) (Fin 0) \<or> sb_side sb \<noteq> Taker"
  shows "submit_ok h True i (take_details d sb)"
proof -
  have "sb_order_type (take_details d sb) = d_order_type d" using assms(2) by (simp add: sign_matches_def take_details_def)
  then have "priced (take_details d sb)"
    using verified_price [OF assms(3)] by (auto simp: priced_def take_details_def split: order_type.splits)
  moreover have "same_price (sb_price sb) (sb_price (take_details d sb))" if "sb_side sb = Taker"
    using assms(4) that by (simp add: same_price_def price_change_def take_details_def)
  moreover have "sb_order_id (take_details d sb) = sb_order_id sb" "sb_auto_sign (take_details d sb) = sb_auto_sign sb"
    by (simp_all add: take_details_def)
  ultimately show ?thesis
    using assms(1) unfolding submit_ok_def terms_agreed_def fresh_terms_def review_terms_def own_terms_def take_details_fixed [OF assms(2)]
    by (cases "sb_side sb") auto
qed

lemma reprice_fixed:
  assumes "reprice p sb = Ok am"
  shows "fixed_terms (set_amounts p am sb) a sell b f v = fixed_terms sb a sell b f v" "sb_side (set_amounts p am sb) = sb_side sb"
  using assms by (auto simp: fixed_terms_def set_amounts_def reprice_def split: order_type.splits prod.split)

lemma reprice_ok:
  assumes "submit_ok h b i sb" "reprice p sb = Ok am"
    and "CE_Msg (M_Ui (TM_EditOrder txt (Some (Edit_Price p)))) \<in> set h" "hash32_from_str txt = Some i"
  shows "submit_ok h b i (set_amounts p am sb)"
proof -
  have "priced (set_amounts p am sb)"
    using assms(1,2) by (auto simp: submit_ok_def terms_agreed_def priced_def set_amounts_def reprice_def
      split: order_type.splits prod.split)
  moreover have "user_price h i rv p" for rv using assms(3,4) by (auto simp: user_price_def)
  moreover have "sb_order_id (set_amounts p am sb) = sb_order_id sb" "sb_auto_sign (set_amounts p am sb) = sb_auto_sign sb"
    "sb_price (set_amounts p am sb) = p" by (simp_all add: set_amounts_def split: prod.split)
  moreover have "same_price p p" by (simp add: same_price_def)
  ultimately show ?thesis
    using assms(1) unfolding submit_ok_def terms_agreed_def fresh_terms_def review_terms_def own_terms_def reprice_fixed [OF assms(2)]
    by (cases "sb_side sb") auto
qed

section \<open>Every signature is agreed\<close>

definition shown :: "cl_history \<Rightarrow> order_id \<Rightarrow> link_response \<Rightarrow> bool" where
  "shown h i resp \<longleftrightarrow> (\<exists>rv. CE_Ui (FM_SubmitReview rv) \<in> set h \<and> rv_order_id rv = i \<and> review_of resp rv)"

definition agreed :: "cl_world \<Rightarrow> cl_data \<Rightarrow> cl_history \<Rightarrow> bool" where
  "agreed w s h \<longleftrightarrow>
     (\<forall>i sb. vw_submit_data (sign_view s) i = Some sb \<longrightarrow> submit_ok h (i \<in> set (vw_processed (sign_view s))) i sb) \<and>
     (vw_force (sign_view s) \<longrightarrow> auto_sign_forced h) \<and>
     (\<forall>swap. vw_active_swap (sign_view s) = Some swap \<longrightarrow>
        deal_agreed w h (For_Swap (aw_order_id swap)) (active_swap_amounts swap)) \<and>
     all_justified w h \<and>
     (\<forall>i resp. vw_active_submits (sign_view s) i = Some resp \<longrightarrow> shown h i resp)"

abbreviation agreed_and :: "cl_world \<Rightarrow> (cl_history \<Rightarrow> bool) \<Rightarrow> cl_data \<Rightarrow> cl_history \<Rightarrow> bool" where
  "agreed_and w F s h \<equiv> agreed w s h \<and> F h"

lemma agreedD:
  assumes "agreed w s h"
  shows "vw_submit_data (sign_view s) i = Some sb \<Longrightarrow> submit_ok h (i \<in> set (vw_processed (sign_view s))) i sb"
    and "vw_force (sign_view s) \<Longrightarrow> auto_sign_forced h"
    and "vw_active_swap (sign_view s) = Some swap \<Longrightarrow> deal_agreed w h (For_Swap (aw_order_id swap)) (active_swap_amounts swap)"
    and "all_justified w h"
    and "vw_active_submits (sign_view s) i = Some resp \<Longrightarrow> shown h i resp"
  using assms unfolding agreed_def by blast+

lemma shown_lasts: "shown h i resp \<Longrightarrow> shown (h @ [ev]) i resp"
  by (auto simp: shown_def)

lemma agreed_quiet:
  assumes "agreed w s h" "justified w h ev"
  shows "agreed w s (h @ [ev])"
  unfolding agreed_def
proof (intro conjI allI impI)
  note f = agreedD [OF assms(1)]
  show "submit_ok (h @ [ev]) (i \<in> set (vw_processed (sign_view s))) i sb" if "vw_submit_data (sign_view s) i = Some sb" for i sb
    using f(1) [OF that] by (rule submit_ok_lasts)
  show "auto_sign_forced (h @ [ev])" if "vw_force (sign_view s)" using f(2) [OF that] agreement_lasts(2) by blast
  show "deal_agreed w (h @ [ev]) (For_Swap (aw_order_id swap)) (active_swap_amounts swap)"
    if "vw_active_swap (sign_view s) = Some swap" for swap using f(3) [OF that] by (rule deal_agreed_lasts)
  show "all_justified w (h @ [ev])" using f(4) assms(2) by simp
  show "shown (h @ [ev]) i resp" if "vw_active_submits (sign_view s) i = Some resp" for i resp
    using f(5) [OF that] by (rule shown_lasts)
qed

lemma agreed_cong: "sign_view s = sign_view s' \<Longrightarrow> agreed w s h \<Longrightarrow> agreed w s' h"
  by (simp add: agreed_def)

lemma agreed_frame: "lasting F \<Longrightarrow> quiet_frame (agreed_and w F)"
  by unfold_locales (metis agreed_cong, simp add: agreed_quiet lasting_def)

text \<open>\<open>F\<close> is what is known of the history while a message is handled: which message it is, and later
  what the server answered.\<close>

locale agreement =
  fixes w :: cl_world and F :: "cl_history \<Rightarrow> bool"
  assumes lasting_F: "lasting F"

sublocale agreement \<subseteq> quiet_frame "agreed_and w F"
  by (rule agreed_frame) (rule lasting_F)

lemma lasting_consent [simp, intro]:
  "lasting (\<lambda>h. consent h i)" "lasting (\<lambda>h. accepted_by_user h i)" "lasting (\<lambda>h. announced h oc)"
  "lasting (\<lambda>h. accepted_review h i rv)" "lasting (\<lambda>h. own_order h i d)" "lasting (\<lambda>h. terms_agreed h i sb)"
  by (auto simp: lasting_def dest: consent_lasts agreement_lasts accepted_review_lasts terms_lasts terms_agreed_lasts)

lemma agreement_extend: "agreement F \<Longrightarrow> lasting G \<Longrightarrow> agreement (\<lambda>h. F h \<and> G h)"
  by (simp add: agreement_def lasting_simps)

lemma agreed_modify:
  assumes "\<And>s. vw_submit_data (sign_view (f s)) = vw_submit_data (sign_view s)"
    "\<And>s. vw_force (sign_view (f s)) = vw_force (sign_view s)"
    "\<And>s. vw_active_swap (sign_view (f s)) = vw_active_swap (sign_view s)"
    "\<And>s. vw_active_submits (sign_view (f s)) = vw_active_submits (sign_view s)"
    "\<And>s. set (vw_processed (sign_view s)) \<subseteq> set (vw_processed (sign_view (f s)))"
  shows "keeps (agreed_and w F) (sx_modify f)"
proof (rule keeps_modify)
  fix s h
  assume a: "agreed w s h \<and> F h"
  have "submit_ok h (i \<in> set (vw_processed (sign_view (f s)))) i sb" if "vw_submit_data (sign_view s) i = Some sb" for i sb
    using agreedD(1) [OF conjunct1 [OF a] that] subsetD [OF assms(5), of i s] submit_ok_admitted
    by (cases "i \<in> set (vw_processed (sign_view s))"; cases "i \<in> set (vw_processed (sign_view (f s)))") auto
  with a show "agreed w (f s) h \<and> F h" by (simp add: agreed_def assms(1-4))
qed

lemma agreed_active_submits:
  assumes "agreed w s h" "\<And>i resp. btree_get (f (dt_active_submits s)) i = Some resp \<Longrightarrow> shown h i resp"
  shows "agreed w (dt_active_submits_update f s) h"
  using assms unfolding agreed_def by (auto simp: sign_view_def)

lemma agreed_submit:
  assumes "agreed w s h" "submit_ok h (i \<in> set (dt_processed_signs s)) i sb"
  shows "agreed w (dt_submit_data_update (btree_insert i sb) s) h"
  using assms unfolding agreed_def by (auto simp: sign_view_def)

lemma agreed_update_submit:
  assumes "agreed w s h"
    and "\<And>sb. btree_get (dt_submit_data s) i = Some sb \<Longrightarrow> submit_ok h (i \<in> set (dt_processed_signs s)) i (f sb)"
  shows "agreed w (update_submit i f s) h"
  using assms unfolding agreed_def update_submit_def by (auto simp: sign_view_def split: option.split)

lemma agreed_forget_quote: "agreed w s h \<Longrightarrow> agreed w (dt_active_submits_update (btree_remove i) s) h"
  using agreedD(5) [of w s h] by (intro agreed_active_submits) (auto simp: sign_view_def split: if_splits)

lemma agreed_start_swap:
  assumes "agreed w s h" "deal_agreed w h (For_Swap (aw_order_id swap)) (active_swap_amounts swap)"
  shows "agreed w (dt_active_swap_update (\<lambda>_. Some swap) s) h"
  using assms unfolding agreed_def by (auto simp: sign_view_def simp del: deal_agreed.simps)

lemma agreed_stored:
  assumes "agreed w s h" "btree_get (dt_submit_data s) i = Some sb"
  shows "submit_ok h (i \<in> set (dt_processed_signs s)) i sb"
proof -
  have "vw_submit_data (sign_view s) i = Some (submit_summary sb)" using assms(2) by (simp add: sign_view_def)
  from agreedD(1) [OF assms(1) this] show ?thesis by (simp add: sign_view_def)
qed

lemma agreed_consent:
  assumes "agreed w s h" "btree_get (dt_submit_data s) i = Some sb" "auto_sign_allowed (dt_force_auto_sign_maker s) sb d"
  shows "consent h i"
proof -
  note f = agreed_stored [OF assms(1,2)]
  have "vw_force (sign_view s) = dt_force_auto_sign_maker s" by (simp add: sign_view_def)
  with f agreedD(2) [OF assms(1)] assms(3) show ?thesis
    by (cases "sb_side sb") (auto simp: auto_sign_allowed_def consent_def submit_ok_def terms_agreed_def dest: accepted_review_user)
qed

context agreement
begin

lemma agreed_prompts [keeps_rules]: "keeps (agreed_and w F) process_pending_sign_prompts"
proof -
  have rest: "keeps (agreed_and w F) (sx_modify (dt_pending_sign_prompts_update (\<lambda>_. rest)))" for rest
    by (rule agreed_modify) (simp_all add: sign_view_def)
  have show_prompt: "keeps (agreed_and w F) (show_sign_prompt msg sb)" for msg sb
    unfolding show_sign_prompt_def by (intro keeps_bind keeps_rules agreed_modify) (simp_all add: sign_view_def)
  have "keeps (agreed_and w F) (sign_prompts_loop n)" for n
    by (induction n) (simp only: sign_prompts_loop.simps, intro rest show_prompt keeps_rules; assumption?)+
  then show ?thesis unfolding process_pending_sign_prompts_def by (intro keeps_rules)
qed

lemma agreed_try_sign:
  assumes "\<And>h. F h \<Longrightarrow> consent h (sn_order_id msg)"
  shows "keeps (agreed_and w F) (try_sign w msg)"
  unfolding keeps_moves
proof (rule try_sign_moves [where R = "\<lambda>sb. agreed_and w (\<lambda>h. F h \<and> terms_agreed h (sn_order_id msg) sb)"])
  show "quiet_frame (agreed_and w (\<lambda>h. F h \<and> terms_agreed h (sn_order_id msg) sb))" for sb
    by (intro agreed_frame lasting_simps lasting_F lasting_consent)
  show "quiet_frame (agreed_and w F)" by (rule agreed_frame [OF lasting_F])
  show "agreed w s h \<and> F h \<and> terms_agreed h (sn_order_id msg) sb"
    if "agreed w s h \<and> F h" "btree_get (dt_submit_data s) (sn_order_id msg) = Some sb" for s h sb
    using agreed_stored [OF conjunct1 [OF that(1)] that(2)] that(1) by (simp add: submit_ok_def)
  fix s h sb acc d nonces
  let ?ev = "CE_Wallet acc (WC_PsbtSign (For_Order (sn_order_id msg)) (order_amounts w sb) (sn_pset msg) nonces)"
  assume a: "agreed w s h \<and> F h \<and> terms_agreed h (sn_order_id msg) sb"
    "CE_Wallet acc (WC_PsbtDetails (sn_pset msg) (Inr d)) = last h" "h \<noteq> []" "pset_amounts_ok w (order_amounts w sb) d"
  then have "justified w h ?ev"
    using assms a(2) [symmetric] by (auto simp: justified_def)
  then show "agreed w s (h @ [?ev]) \<and> F (h @ [?ev])"
    using a(1) lasting_F agreed_quiet by (auto simp: lasting_def)
qed auto

lemma agreed_try_process_sign [keeps_rules]: "keeps (agreed_and w F) (try_process_sign w msg)"
proof -
  let ?i = "sn_order_id msg" and ?d = "sn_details msg"
  let ?I = "agreed_and w F"
  let ?C = "agreed_and w (\<lambda>h. F h \<and> consent h ?i)"
  let ?A = "\<lambda>s h. ?I s h \<and> ?i \<in> set (dt_processed_signs s) \<and>
    (\<forall>sb. btree_get (dt_submit_data s) ?i = Some sb \<longrightarrow> submit_ok h False ?i sb)"
  have admit: "?A (dt_processed_signs_update (\<lambda>ids. ?i # ids) s) h" if "?I s h \<and> ?i \<notin> set (dt_processed_signs s)" for s h
    using that agreed_stored [of w s h ?i] keepsD [OF agreed_modify [of "dt_processed_signs_update (\<lambda>ids. ?i # ids)" w F]]
    by (auto simp: sign_view_def sx_modify_def)
  have prompt: "keeps ?I (sx_modify (dt_pending_sign_prompts_update f))" for f
    by (rule agreed_modify) (simp_all add: sign_view_def)
  have ext: "agreement (\<lambda>h. F h \<and> consent h ?i)"
    by unfold_locales (intro lasting_simps lasting_F lasting_consent)
  have sign: "moves ?C (sx_then (try_sign w msg) (sx_return ())) ?I"
    by (rule moves_weaken [OF keeps_bind [OF agreement.agreed_try_sign [OF ext] keeps_return, unfolded keeps_moves]]) auto
  have ask_or_sign: "moves (\<lambda>s h. (?A s h \<and> btree_get (dt_submit_data s) ?i = Some sb) \<and> dt_force_auto_sign_maker s = force)
      (sx_then (sx_modify (update_submit ?i (take_details ?d)))
        (if \<not> auto_sign_allowed force sb ?d then
           sx_then (sx_modify (dt_pending_sign_prompts_update (\<lambda>q. q @ [msg]))) process_pending_sign_prompts
         else sx_then (try_sign w msg) (sx_return ()))) ?I"
    if ok: "sign_matches sb ?d" "f64_eq (price_change sb ?d) (Fin 0) \<or> sb_side sb \<noteq> Taker" "verify_amounts w s0 ?d = Ok ()" for sb force s0
  proof (rule moves_modify_then)
    let ?K = "\<lambda>s h. ?I s h \<and> (auto_sign_allowed force sb ?d \<longrightarrow> consent h ?i)"
    show "?K (update_submit ?i (take_details ?d) s) h"
      if a: "(?A s h \<and> btree_get (dt_submit_data s) ?i = Some sb) \<and> dt_force_auto_sign_maker s = force" for s h
      using a agreed_consent [of w s h ?i sb ?d] take_details_ok [OF _ ok(1,3,2)]
      by (auto intro!: agreed_update_submit)
    have "moves ?I (sx_then (sx_modify (dt_pending_sign_prompts_update (\<lambda>q. q @ [msg]))) process_pending_sign_prompts) ?I"
      unfolding keeps_moves [symmetric] by (intro prompt keeps_rules)
    then show "moves ?K (if \<not> auto_sign_allowed force sb ?d then
           sx_then (sx_modify (dt_pending_sign_prompts_update (\<lambda>q. q @ [msg]))) process_pending_sign_prompts
         else sx_then (try_sign w msg) (sx_return ())) ?I"
      using sign by (auto elim!: moves_weaken)
  qed
  have matched: "moves ?A (sx_then (cl_verify w ?d)
       (sx_bind (get_submit ?i e) (\<lambda>sb.
       sx_then (check (?i = sb_order_id sb) e1)
       (sx_then (check (sign_matches sb ?d) e2)
       (sx_then (check (f64_eq (price_change sb ?d) (Fin 0) \<or> sb_side sb \<noteq> Taker) e3)
       (sx_bind (sx_get dt_force_auto_sign_maker) (\<lambda>force.
       sx_then (sx_modify (update_submit ?i (take_details ?d)))
       (if \<not> auto_sign_allowed force sb ?d then
          sx_then (sx_modify (dt_pending_sign_prompts_update (\<lambda>q. q @ [msg]))) process_pending_sign_prompts
        else sx_then (try_sign w msg) (sx_return ()))))))))) ?I" for e e1 e2 e3
    by (rule moves_verify, rule moves_get_submit, (rule moves_check)+, rule moves_get, rule ask_or_sign) auto
  show ?thesis
    unfolding try_process_sign_def keeps_moves
    apply (rule moves_get)
    apply (split if_split, intro conjI impI)
     apply (rule moves_keeps [OF keeps_return], simp)
    apply (rule moves_modify_then [OF _ matched])
    using admit by auto
qed

lemma agreed_add_missing:
  assumes "\<And>h. F h \<Longrightarrow> own_order h i d" "\<And>h. F h \<Longrightarrow> two_step \<Longrightarrow> consent h i"
  shows "keeps (agreed_and w F) (add_missing_submit_data w i d two_step)"
proof -
  have new: "keeps (agreed_and w F) (sx_modify (dt_submit_data_update (btree_insert i (missing_submit_data i d p two_step))))"
    if "verify_amounts w s0 d = Ok ()" for p s0
    by (rule keeps_modify) (auto intro!: agreed_submit missing_submit_ok [OF _ that] assms)
  have checked: "keeps (agreed_and w F) (sx_then (cl_verify w d)
     (sx_modify (dt_submit_data_update (btree_insert i (missing_submit_data i d p two_step)))))" for p
    unfolding keeps_moves by (rule moves_verify, unfold keeps_moves [symmetric], erule new)
  show ?thesis
    unfolding add_missing_submit_data_def by (intro checked keeps_rules)
qed

lemma agreed_forget [keeps_rules]:
  "keeps (agreed_and w F) (sx_modify (dt_submit_data_update (btree_remove i)))"
  "keeps (agreed_and w F) (sx_modify (dt_active_swap_update (\<lambda>_. None)))"
  by (rule keeps_modify, auto simp: agreed_def sign_view_def split: if_splits)+

lemma agreed_shown [keeps_rules]: "keeps (agreed_and w F) (show_downloaded w resp)"
proof -
  let ?F = "\<lambda>rv h. F h \<and> CE_Ui (FM_SubmitReview rv) \<in> set h"
  have note_shown: "keeps (agreed_and w (?F rv)) (sx_modify (dt_active_submits_update (btree_insert (lk_order_id resp) resp)))"
    if "rv_order_id rv = lk_order_id resp" "review_of resp rv" for rv
  proof (rule keeps_modify)
    fix s h
    assume a: "agreed w s h \<and> ?F rv h"
    then have "shown h (lk_order_id resp) resp" using that by (auto simp: shown_def)
    moreover have "shown h i r" if "btree_get (dt_active_submits s) i = Some r" for i r
      using agreedD(5) [OF conjunct1 [OF a]] that by (simp add: sign_view_def)
    ultimately show "agreed w (dt_active_submits_update (btree_insert (lk_order_id resp) resp) s) h \<and> ?F rv h"
      using a by (auto intro!: agreed_active_submits split: if_splits)
  qed
  have visible: "keeps (agreed_and w (?F rv)) (sx_modify (dt_visible_submit_update f))" for rv f
    by (rule agreed_modify) (simp_all add: sign_view_def)
  have review: "keeps (agreed_and w F) (sx_then (ui_send (FM_SubmitReview rv)) (sx_then (sx_modify (dt_visible_submit_update f))
      (sx_then (sx_modify (dt_active_submits_update (btree_insert (lk_order_id resp) resp))) (sx_return None))))"
    if "rv_order_id rv = lk_order_id resp" "review_of resp rv" for rv f
  proof -
    have "triple (agreed_and w F) (ui_send (FM_SubmitReview rv)) (\<lambda>_. agreed_and w (?F rv)) (agreed_and w F)"
      unfolding ui_send_def by (rule triple_emit) (use lasting_F in \<open>auto simp: agreed_quiet lasting_def\<close>)
    moreover have "moves (agreed_and w (?F rv)) (sx_then (sx_modify (dt_visible_submit_update f))
      (sx_then (sx_modify (dt_active_submits_update (btree_insert (lk_order_id resp) resp))) (sx_return None))) (agreed_and w F)"
      by (rule moves_keeps) (intro keeps_bind visible note_shown that keeps_return, simp)
    ultimately show ?thesis
      unfolding keeps_def moves_def by (rule triple_bind)
  qed
  show ?thesis
    unfolding show_downloaded_def try_process_downloaded_link_def Let_def
    by (intro review keeps_rules; simp add: review_of_def)
qed

lemma agreed_download [keeps_rules]:
  assumes "keeps (agreed_and w F) m"
  shows "keeps (agreed_and w F) (download_sign_request w m i)"
proof -
  let ?G = "\<lambda>sn h. F h \<and> CE_Request (CR_GetSign i) (Inr (CA_GetSign sn)) \<in> set h"
  have ext: "agreement (?G sn)" for sn by unfold_locales (intro lasting_simps lasting_F)
  note frame = agreed_frame [OF agreement.lasting_F [OF ext]]
  have "keeps (agreed_and w F) (process_sign_with w m sn)" for sn
    unfolding process_sign_with_def sign_or_report_def by (intro assms keeps_rules; simp add: sign_view_def)
  then have sign: "moves (agreed_and w (?G sn)) (process_sign_with w m sn) (agreed_and w F)" for sn
    unfolding keeps_moves by (rule moves_weaken) auto
  have missing: "keeps (agreed_and w (?G sn)) (add_missing_submit_data w i (sn_details sn) False)" for sn
    by (rule agreement.agreed_add_missing [OF ext]) (auto simp: own_order_def)
  have rest: "moves (agreed_and w (?G sn)) (sx_then (try_add_asset w a)
     (sx_then (add_missing_submit_data w i (sn_details sn) False) (process_sign_with w m sn))) (agreed_and w F)" for sn a
    by (rule moves_bind [OF quiet_frame.quiet_assets3(1) [OF frame] moves_bind [OF missing sign]]) auto
  have "triple (agreed_and w F) (request_as w (CR_GetSign i) as_GetSign) (\<lambda>sn. agreed_and w (?G sn)) (agreed_and w F)"
    by (rule triple_weaken [OF triple_conj [OF quiet_requests(4) [unfolded keeps_def] request_as_answer]])
       (auto dest!: as_GetSign_Some)
  then show ?thesis
    unfolding download_sign_request_def keeps_def by (rule triple_bind) (rule rest [unfolded moves_def])
qed

end

sublocale agreement \<subseteq> sign_invariant "agreed_and w F" w
  by unfold_locales (auto intro: keeps_rules agreed_try_process_sign agreed_prompts agreed_shown agreed_download agreed_forget)

text \<open>A message is handled right after it arrived.\<close>

abbreviation just_arrived :: "cl_msg \<Rightarrow> cl_history \<Rightarrow> bool" where
  "just_arrived m h \<equiv> h \<noteq> [] \<and> last h = CE_Msg m"

context agreement
begin

lemma agreed_accept_order:
  assumes "\<And>h. F h \<Longrightarrow> accepted_review h i rv" "review_of resp rv"
  shows "keeps (agreed_and w F) (accept_order w req i resp)"
proof -
  have new: "keeps (agreed_and w F) (sx_modify (dt_submit_data_update (btree_insert i (new_submit_data i (lk_details resp) ip p txs auto))))"
    if "verify_amounts w s0 (lk_details resp) = Ok ()" for s0 ip p txs auto
    by (rule keeps_modify) (auto intro!: agreed_submit accepted_submit_ok [OF _ assms(2) that] assms(1))
  have verified: "keeps (agreed_and w F) (sx_bind (cl_verify w (lk_details resp)) f)"
    if "\<And>s0. verify_amounts w s0 (lk_details resp) = Ok () \<Longrightarrow> keeps (agreed_and w F) (f ())" for f :: "unit \<Rightarrow> bool cl"
    unfolding keeps_moves by (rule moves_verify, unfold keeps_moves [symmetric]) (erule that)
  show ?thesis unfolding accept_order_def Let_def by (intro verified new keeps_rules) (auto intro!: new keeps_rules)
qed

text \<open>A decision is handled right after it arrived, so what was shown was shown before.\<close>

lemma agreed_submit_decision:
  assumes "\<And>h. F h \<Longrightarrow> CE_Msg (M_Ui (TM_SubmitDecision req)) \<in> set h"
  shows "moves (\<lambda>s h. agreed_and w F s h \<and> just_arrived (M_Ui (TM_SubmitDecision req)) h)
    (try_process_submit_decision w req) (agreed_and w F)"
proof -
  let ?I = "agreed_and w F"
  let ?N = "\<lambda>s h. ?I s h \<and> just_arrived (M_Ui (TM_SubmitDecision req)) h"
  have sign: "moves ?N (sx_then (sx_modify (dt_active_sign_update (\<lambda>_. None))) (try_sign w msg)) ?I"
    if "de_accept req" "de_order_id req = hash32_to_string (sn_order_id msg)" for msg
  proof -
    have "keeps ?I (sx_modify (dt_active_sign_update (\<lambda>_. None)))"
      by (rule agreed_modify) (simp_all add: sign_view_def)
    moreover have "keeps ?I (try_sign w msg)"
      by (rule agreed_try_sign) (use assms that in \<open>auto simp: consent_def accepted_by_user_def\<close>)
    ultimately have "keeps ?I (sx_then (sx_modify (dt_active_sign_update (\<lambda>_. None))) (try_sign w msg))" by (rule keeps_bind)
    then show ?thesis by (auto simp: keeps_moves elim!: moves_weaken)
  qed
  have accepted: "\<exists>rv. accepted_review h i rv \<and> review_of resp rv"
    if "?N s h" "btree_get (dt_active_submits s) i = Some resp" "de_accept req" "hash32_from_str (de_order_id req) = Some i" for s h i resp
  proof -
    have "shown h i resp" using that(1,2) agreedD(5) [of w s h i resp] by (simp add: sign_view_def)
    moreover have "h = butlast h @ [CE_Msg (M_Ui (TM_SubmitDecision req))]" using that(1) by (metis append_butlast_last_id)
    ultimately obtain rv where "CE_Ui (FM_SubmitReview rv) \<in> set (butlast h)" "rv_order_id rv = i" "review_of resp rv"
      unfolding shown_def by (metis Un_iff cl_event.distinct(1) empty_iff empty_set set_append set_ConsD)
    with that \<open>h = _\<close> show ?thesis unfolding accepted_review_def by metis
  qed
  have accept: "moves (\<lambda>s h. \<exists>rv. agreed_and w F s h \<and> accepted_review h i rv \<and> review_of resp rv) (accept_order w req i resp) ?I" for i resp
  proof -
    have "moves (agreed_and w (\<lambda>h. F h \<and> accepted_review h i rv)) (accept_order w req i resp) (agreed_and w F)"
      if "review_of resp rv" for rv
    proof -
      have "agreement (\<lambda>h. F h \<and> accepted_review h i rv)" by unfold_locales (intro lasting_simps lasting_F lasting_consent)
      from agreement.agreed_accept_order [OF this, of i rv resp w req] that show ?thesis
        by (auto simp: keeps_moves elim!: moves_weaken)
    qed
    then show ?thesis unfolding moves_def triple_def by blast
  qed
  have quote: "moves ?N (sx_bind (sx_ok_or (hash32_from_str (de_order_id req)) e) (\<lambda>order_id.
            sx_bind (sx_get (\<lambda>s. btree_get (dt_active_submits s) order_id)) (\<lambda>resp.
            sx_then (sx_modify (dt_active_submits_update (btree_remove order_id)))
            (sx_bind (sx_ok_or resp e') (\<lambda>resp.
            accept_order w req order_id resp))))) ?I" if "de_accept req" for e e'
  proof (rule moves_ok_or)
    fix i
    assume i: "hash32_from_str (de_order_id req) = Some i"
    let ?R = "\<lambda>resp s h. ?I s h \<and> (\<forall>r. resp = Some r \<longrightarrow> (\<exists>rv. accepted_review h i rv \<and> review_of r rv))"
    have "moves (?R resp) (sx_bind (sx_ok_or resp e') (accept_order w req i)) ?I" for resp
      by (rule moves_ok_or) (auto intro!: moves_weaken [OF accept])
    moreover have "?R resp (dt_active_submits_update (btree_remove i) s) h"
      if "?N s h \<and> btree_get (dt_active_submits s) i = resp" for resp s h
    proof -
      have "agreed w (dt_active_submits_update (btree_remove i) s) h" using that by (blast intro: agreed_forget_quote)
      moreover have "\<exists>rv. accepted_review h i rv \<and> review_of r rv" if "resp = Some r" for r
        by (rule accepted [of s, OF _ _ \<open>de_accept req\<close> i]) (use that \<open>?N s h \<and> _\<close> in simp_all)
      ultimately show ?thesis using that by blast
    qed
    ultimately show "moves ?N (sx_bind (sx_get (\<lambda>s. btree_get (dt_active_submits s) i)) (\<lambda>resp.
            sx_then (sx_modify (dt_active_submits_update (btree_remove i)))
            (sx_bind (sx_ok_or resp e') (\<lambda>resp. accept_order w req i resp)))) ?I"
      by (intro moves_get moves_modify_then)
  qed auto
  show ?thesis
    unfolding try_process_submit_decision_def
    apply (split if_split, intro conjI impI)
     apply (rule moves_keeps [OF keeps_return], simp)
    apply (rule moves_get)
    apply (auto split: option.split intro!: moves_weaken [OF sign] moves_weaken [OF quote])
    done
qed

lemma agreed_process_decision:
  assumes "\<And>h. F h \<Longrightarrow> CE_Msg (M_Ui (TM_SubmitDecision req)) \<in> set h"
  shows "moves (\<lambda>s h. agreed_and w F s h \<and> just_arrived (M_Ui (TM_SubmitDecision req)) h)
    (process_submit_decision w req) (agreed_and w F)"
proof -
  have waiting: "keeps (agreed_and w F) (sx_modify (\<lambda>s. s \<lparr> dt_waiting_submit := dt_visible_submit s, dt_visible_submit := None \<rparr>))"
    by (rule quiet_modify) (simp add: sign_view_def)
  have "moves (\<lambda>s h. agreed_and w F s h \<and> just_arrived (M_Ui (TM_SubmitDecision req)) h)
    (sx_try (try_process_submit_decision w req)) (agreed_and w F)"
    using agreed_submit_decision [OF assms] unfolding moves_def by (intro triple_try) (simp add: assms)
  then show ?thesis
    unfolding process_submit_decision_def
    by (intro moves_bind [OF keeps_get] moves_then waiting keeps_rules) auto
qed

lemma agreed_edit:
  assumes "\<And>h. F h \<Longrightarrow> CE_Msg (M_Ui (TM_EditOrder txt data)) \<in> set h"
  shows "keeps (agreed_and w F) (process_edit_order w txt data)"
proof -
  have auto_sign: "keeps (agreed_and w F) (try_edit_order_auto_sign i b)"
    if "hash32_from_str txt = Some i" "data = Some (Edit_AutoSign b)" for i b
  proof -
    have set_auto: "keeps (agreed_and w F) (sx_modify (update_submit i (sb_auto_sign_update (\<lambda>_. b))))"
    proof (rule keeps_modify)
      fix s h
      assume a: "agreed w s h \<and> F h"
      then have "b \<Longrightarrow> consent h i" using assms that by (auto simp: auto_sign_by_user_def consent_def)
      with a show "agreed w (update_submit i (sb_auto_sign_update (\<lambda>_. b)) s) h \<and> F h"
        by (auto intro!: agreed_update_submit submit_ok_auto intro: agreed_stored)
    qed
    show ?thesis
      unfolding try_edit_order_auto_sign_def by (intro set_auto keeps_rules; simp add: sign_view_def)
  qed
  have price: "keeps (agreed_and w F) (try_edit_order_price w i p ip)"
    if "hash32_from_str txt = Some i" "\<And>x. p = Some x \<Longrightarrow> data = Some (Edit_Price x)" for i p ip
  proof -
    let ?S = "\<lambda>sb s h. agreed_and w F s h \<and> btree_get (dt_submit_data s) i = Some sb"
    have "moves (?S sb) (sx_bind (sx_lift (reprice x sb)) (\<lambda>am. sx_modify (update_submit i (set_amounts x am)))) (agreed_and w F)"
      if "data = Some (Edit_Price x)" for x sb
    proof (cases "reprice x sb")
      case (Ok am)
      have "moves (?S sb) (sx_modify (update_submit i (set_amounts x am))) (agreed_and w F)"
      proof (rule moves_modify)
        fix s h
        assume a: "?S sb s h"
        then have "CE_Msg (M_Ui (TM_EditOrder txt (Some (Edit_Price x)))) \<in> set h" using assms that by auto
        from reprice_ok [OF agreed_stored Ok this \<open>hash32_from_str txt = Some i\<close>] a
        show "agreed w (update_submit i (set_amounts x am) s) h \<and> F h" by (auto intro!: agreed_update_submit)
      qed
      then show ?thesis by (simp add: Ok moves_def triple_def sx_bind_def sx_lift_def)
    qed (auto simp: moves_def triple_def sx_bind_def sx_lift_def)
    then have set_price: "keeps (agreed_and w F) (sx_bind (sx_get (\<lambda>s. btree_get (dt_submit_data s) i)) (\<lambda>submit.
          case submit of None \<Rightarrow> sx_return ()
          | Some sb \<Rightarrow> sx_bind (sx_lift (reprice x sb)) (\<lambda>amounts. sx_modify (update_submit i (set_amounts x amounts)))))"
      if "data = Some (Edit_Price x)" for x
      unfolding keeps_moves using that
      by (intro moves_get) (auto split: option.split intro: moves_keeps [OF keeps_return] elim!: moves_weaken)
    show ?thesis
      unfolding try_edit_order_price_def by (intro set_price keeps_rules that)
  qed
  show ?thesis
    unfolding process_edit_order_def keeps_moves
    by (rule moves_expect, rule moves_expect, unfold keeps_moves [symmetric])
       (auto intro!: keeps_rules auto_sign price split: edit_data.split)
qed

lemma agreed_add_order:
  assumes "\<And>h. F h \<Longrightarrow> announced h oc"
  shows "keeps (agreed_and w F) (add_order w oc b)"
proof -
  have "keeps (agreed_and w F) (add_missing_submit_data w (oc_order_id oc) (oc_details oc) (oc_two_step oc))"
    if "oc_own oc \<noteq> None"
    by (rule agreed_add_missing) (use assms that in \<open>auto simp: consent_def announced_two_step_def own_order_def\<close>)
  then show ?thesis unfolding add_order_def by (intro keeps_rules) (simp_all add: sign_view_def)
qed

lemma agreed_verify:
  assumes "\<And>h. F h \<Longrightarrow> deal_agreed w h deal am"
  shows "keeps (agreed_and w F) (verify_and_sign_pset w deal acc am pset nonces)"
  unfolding keeps_moves
proof (rule verify_and_sign_moves)
  show "quiet_frame (agreed_and w F)" by (rule agreed_frame [OF lasting_F])
  fix s h d
  assume a: "agreed w s h \<and> F h" "CE_Wallet acc (WC_PsbtDetails pset (Inr d)) = last h" "h \<noteq> []" "pset_amounts_ok w am d"
  then have "justified w h (CE_Wallet acc (WC_PsbtSign deal am pset nonces))"
    using assms a(2) [symmetric] by (auto simp: justified_def)
  then show "agreed w s (h @ [CE_Wallet acc (WC_PsbtSign deal am pset nonces)]) \<and> F (h @ [CE_Wallet acc (WC_PsbtSign deal am pset nonces)])"
    using a(1) lasting_F agreed_quiet by (auto simp: lasting_def)
qed

lemma agreed_swap_request:
  assumes "\<And>h. F h \<Longrightarrow> CE_Msg (M_Ui (TM_SwapRequest req)) \<in> set h"
  shows "keeps (agreed_and w F) (process_swap_request w req)"
proof -
  have start: "keeps (agreed_and w F) (sx_modify (dt_active_swap_update (\<lambda>_. Some
        \<lparr> aw_order_id = i, aw_send_asset = sa, aw_recv_asset = ra,
          aw_send_amount = wrap_u64 (sw_send_amount req), aw_recv_amount = wrap_u64 (sw_recv_amount req) \<rparr>)))"
    if "cw_parse_asset w (sw_asset req) = Some asset"
      "(sa, ra) = (if sw_send_bitcoins req then (cw_policy_asset w, asset) else (asset, cw_policy_asset w))" for i sa ra asset
    by (rule keeps_modify)
       (use assms that in \<open>auto intro!: agreed_start_swap exI [of _ req] simp: active_swap_amounts_def request_amounts_def split: if_splits\<close>)
  have "keeps (agreed_and w F) (try_process_swap_request w req)"
    unfolding try_process_swap_request_def Let_def keeps_moves
    apply (rule moves_bind [OF keeps_get])
     apply (rule moves_bind [OF keeps_results(4)])
      apply (unfold swap_asset_def)
      apply (rule moves_ok_or, unfold keeps_moves [symmetric])
    by (intro start keeps_rules; (assumption | erule sym | simp))+
  then show ?thesis unfolding process_swap_request_def by (rule quiet_on_error)
qed

lemma agreed_blinded_swap [keeps_rules]: "keeps (agreed_and w F) (process_blinded_swap_client w i pset)"
proof -
  let ?P = "\<lambda>swap s h. agreed_and w F s h \<and> dt_active_swap s = Some swap"
  let ?D = "\<lambda>swap h. F h \<and> deal_agreed w h (For_Swap (aw_order_id swap)) (active_swap_amounts swap)"
  have known: "agreed_and w (?D swap) s h" if "?P swap s h" for swap s h
    using agreedD(3) [of w s h swap] that by (simp add: sign_view_def)
  have ext: "agreement (?D swap)" for swap
    by unfold_locales (intro lasting_simps lasting_F, auto simp: lasting_def)
  have sign: "moves (agreed_and w (?D swap)) (sx_then (no_amp_assets (active_swap_amounts swap))
     (sx_then (get_wallet ACCOUNT_ID_REG)
     (sx_bind (verify_and_sign_pset w (For_Swap i) ACCOUNT_ID_REG (active_swap_amounts swap) pset []) (\<lambda>signed_pset.
     sx_bind (request_as w (CR_SignedSwapClient i signed_pset) as_SignedSwapClient) sx_return)))) (agreed_and w F)" for swap
  proof (rule moves_keeps)
    note frame = agreed_frame [OF agreement.lasting_F [OF ext]]
    show "keeps (agreed_and w (?D swap)) (sx_then (no_amp_assets (active_swap_amounts swap))
     (sx_then (get_wallet ACCOUNT_ID_REG)
     (sx_bind (verify_and_sign_pset w (For_Swap i) ACCOUNT_ID_REG (active_swap_amounts swap) pset []) (\<lambda>signed_pset.
     sx_bind (request_as w (CR_SignedSwapClient i signed_pset) as_SignedSwapClient) sx_return))))"
      by (intro keeps_bind keeps_return agreement.agreed_verify [OF ext] quiet_frame.quiet_swaps1 [OF frame] quiet_frame.quiet_wallet [OF frame]
            quiet_frame.quiet_requests [OF frame]) simp
  qed simp
  have "moves (agreed_and w F) (try_process_blinded_swap_client w i pset) (agreed_and w F)"
    unfolding try_process_blinded_swap_client_def
    apply (rule moves_get)
    apply (rule moves_ok_or)
     apply (rule moves_check)
      apply (rule moves_weaken [OF sign])
    using known by auto
  then show ?thesis
    unfolding process_blinded_swap_client_def keeps_moves [symmetric] by (rule quiet_on_error)
qed

lemma agreed_swap_accept:
  assumes "\<And>h. F h \<Longrightarrow> CE_Msg (M_Ui (TM_SwapAccept req)) \<in> set h"
  shows "keeps (agreed_and w F) (process_swap_accept w req)"
proof -
  have sign: "keeps (agreed_and w F) (verify_and_sign_pset w (For_Link i) acc
      \<lparr> am_send_asset = sa, am_send_amount = wrap_u64 (sl_send_amount req),
        am_recv_asset = ra, am_recv_amount = wrap_u64 (sl_recv_amount req) \<rparr> pset nonces)"
    if "hash32_from_str (sl_order_id req) = Some i" "cw_parse_asset w (sl_send_asset req) = Some sa"
      "cw_parse_asset w (sl_recv_asset req) = Some ra" for i sa ra acc pset nonces
    by (rule agreed_verify) (use assms that in \<open>auto simp: link_amounts_def\<close>)
  have "keeps (agreed_and w F) (try_process_swap_accept w req)"
    unfolding try_process_swap_accept_def Let_def keeps_moves swap_asset_def
    apply (rule moves_expect)
     apply (rule moves_ok_or)
      apply (rule moves_ok_or, unfold keeps_moves [symmetric])
       apply (intro sign keeps_rules; assumption?)
    by (simp_all add: sign_view_def)
  then show ?thesis unfolding process_swap_accept_def by (rule quiet_on_error)
qed

end

end
