(* ===== verification/Client_Sample.thy ===== *)
theory Client_Sample
  imports Client_Worker
begin

text \<open>A concrete client: what the wallet, the server and the counterparty of a link answer in the sample
  runs the properties are applied to.\<close>

definition sample_order_text :: string where
  "sample_order_text = replicate 64 (CHR ''1'')"

definition sample_order :: order_id where
  "sample_order = replicate 32 (CHR 0x11)"

definition sample_utxo :: unspent_output where
  "sample_utxo = \<lparr> uo_txhash = ''tx'', uo_vout = 0, uo_prevout_script = [], uo_asset_id = ''LBTC'', uo_satoshi = 500000,
     uo_amountblinder = [], uo_assetblinder = [], uo_public_key = None \<rparr>"

definition sample_address :: address_info where
  "sample_address = \<lparr> ai_address = ''addr'', ai_pointer = 1, ai_data = [] \<rparr>"

definition sample_asset :: asset where
  "sample_asset = \<lparr> as_asset_id = ''USDT'', as_name = [], as_ticker = [], as_icon = Some [], as_precision = 8,
     as_icon_url = None, as_instant_swaps = None, as_domain = None, as_domain_agent = None, as_always_show = None,
     as_issuance_prevout = None, as_issuer_pubkey = None, as_contract = None \<rparr>"

definition sample_status :: server_status where
  "sample_status = \<lparr> ss_min_peg_in_amount = 0, ss_min_peg_out_amount = 0, ss_server_fee_percent_peg_in = Fin 0,
     ss_server_fee_percent_peg_out = Fin 0, ss_min_submit_amount = 0, ss_price_band = Fin 0, ss_elements_fee_rate = Fin 0,
     ss_bitcoin_fee_rates = [], ss_upload_url = [], ss_policy_asset = ''LBTC'', ss_peg_out_bitcoin_tx_vsize = 0 \<rparr>"

text \<open>The quote of an order: 100000 sat at a price of 2 units of the asset.\<close>

definition sample_details :: details where
  "sample_details = \<lparr> d_asset = ''USDT'', d_bitcoin_amount = 100000, d_asset_amount = 200000, d_price = Fin 2,
     d_server_fee = 500, d_side = Taker, d_send_bitcoins = True, d_order_type = OT_Bitcoin, d_market = Stablecoin,
     d_two_step = None \<rparr>"

fun sample_answer :: "client_request \<Rightarrow> server_result" where
  "sample_answer (CR_LoginClient _ _ _ _) = Inr (CA_LoginClient [])"
| "sample_answer CR_Assets = Inr (CA_Assets [sample_asset])"
| "sample_answer CR_AmpAssets = Inr (CA_AmpAssets [])"
| "sample_answer CR_ServerStatus = Inr (CA_ServerStatus sample_status)"
| "sample_answer (CR_Login _) = Inr (CA_Login [] [])"
| "sample_answer (CR_Link _) = Inr (CA_Link \<lparr> lk_order_id = sample_order, lk_details = sample_details, lk_index_price = False \<rparr>)"
| "sample_answer (CR_PsetTaker _) = Inr CA_PsetTaker"
| "sample_answer (CR_StartSwapClient r) = Inr (CA_StartSwapClient sample_order)"
| "sample_answer (CR_SignedSwapClient i p) = Inr CA_SignedSwapClient"
| "sample_answer (CR_Sign r) = Inr CA_Sign"
| "sample_answer q = Inr CA_Other"

text \<open>What the sample transactions do to the wallet.\<close>

definition sample_effect :: "string \<Rightarrow> pset_details" where
  "sample_effect pset =
     (if pset = ''pset'' then \<lparr> pd_satoshi = [(''LBTC'', -100000), (''USDT'', 3000000)], pd_fee = None \<rparr>
      else if pset = ''good'' then \<lparr> pd_satoshi = [(''LBTC'', -100500), (''USDT'', 200000)], pd_fee = None \<rparr>
      else \<lparr> pd_satoshi = [(''LBTC'', -100500), (''USDT'', 50000)], pd_fee = None \<rparr>)"

definition sample_world :: cl_world where
  "sample_world = \<lparr> cw_env = Env_Prod, cw_policy_asset = ''LBTC'', cw_version = ''1'', cw_disable_device_key = Some True,
     cw_os_type = 0, cw_default_icon = [],
     cw_parse_asset = Some, cw_show_asset = id, cw_show_f64 = (\<lambda>_. []),
     cw_parse_fcm = (\<lambda>_. None), cw_parse_created_tx = (\<lambda>_. Inl []), cw_redeem_script = (\<lambda>_. []),
     cw_single_sig_address = (\<lambda>_ _ _ _. []), cw_multi_sig_address = (\<lambda>_ _ _ _. []), cw_fake_p2sh_address = (\<lambda>_. []),
     cw_hash_order = (\<lambda>_ xs. xs), cw_polls = (\<lambda>h q i. [Poll_Resp (Some i) (sample_answer q)]),
     cw_http = (\<lambda>h u q. case q of HR_SwapStart _ _ _ _ _ _ _ _ \<Rightarrow> Inr (HA_SwapStart ''sub'' ''pset'') | _ \<Rightarrow> Inr (HA_SwapSign ''txid'')),
     cw_now = (\<lambda>_. 0), cw_read_cookie = (\<lambda>_. None), cw_read_assets = (\<lambda>_. None), cw_new_master_pub_key = (\<lambda>_. ''xpub''),
     cw_registry = (\<lambda>_ _ _ _. Inl []), cw_encrypt_pin = (\<lambda>_ _ _. Inl []), cw_decrypt_pin = (\<lambda>_ _ _ _ _. Inl []),
     cw_register = (\<lambda>_ _. Inl []), cw_start_wallet = (\<lambda>_ _ single_sig. if single_sig then Inr () else Inl ''offline''),
     cw_xpubs = (\<lambda>_ _. Inr \<lparr> xp_single_sig_account = [], xp_multi_sig_service_xpub = [], xp_multi_sig_user_xpub = [] \<rparr>),
     cw_jade_ports = (\<lambda>_. Inl []), cw_login = (\<lambda>_ _. Inr ()), cw_gaid = (\<lambda>_ _. Inl []), cw_unlock_hww = (\<lambda>_ _. Inr ()),
     cw_balances = (\<lambda>_ _. Inr [(''LBTC'', 500000)]), cw_transactions = (\<lambda>_ _. Inl []), cw_receive_address = (\<lambda>_ _. Inr sample_address),
     cw_change_address = (\<lambda>_ _. Inr sample_address), cw_create_tx = (\<lambda>_ _ _. Inl []), cw_send_tx = (\<lambda>_ _ _. Inl []),
     cw_create_payjoin = (\<lambda>_ _ _. Inl []), cw_send_payjoin = (\<lambda>_ _ _. Inl []),
     cw_utxos = (\<lambda>_ _. Inr [(''LBTC'', [sample_utxo])]), cw_tx_fee = (\<lambda>_ _ _ _ _. Inl []), cw_make_pegout = (\<lambda>_ _ _ _ _. Inl []),
     cw_blinded_values = (\<lambda>_ _ _. Inl []), cw_previous_addresses = (\<lambda>_ _. Inl []), cw_address_pages = (\<lambda>_ _ _. []),
     cw_sig_single_maker = (\<lambda>_ _ _ _ _ _ _. Inl []),
     cw_psbt_details = (\<lambda>_ _ pset _. Inr (sample_effect pset)),
     cw_psbt_sign = (\<lambda>_ _ _ _ _. Inr ''signed''), cw_set_memo = (\<lambda>_ _ _ _. Inl []) \<rparr>"

definition sample_settings :: settings where
  "sample_settings = settings_default \<lparr> st_master_pub_key := Some ''xpub'', st_reg_info_v3 :=
     Some \<lparr> ri_jade_watch_only = None, ri_multi_sig_service_xpub = [], ri_multi_sig_user_path = [] \<rparr> \<rparr>"

definition sample_login :: cl_msg where
  "sample_login = M_Ui (TM_Login \<lparr> lr_wallet = Some (LW_Mnemonic ''m''), lr_network = None, lr_send_utxo_updates = None,
     lr_force_auto_sign_maker = None \<rparr>)"

definition sample_accept :: submit_decision where
  "sample_accept = \<lparr> de_order_id = sample_order_text, de_accept = True, de_auto_sign = None, de_private = None,
     de_two_step = None, de_ttl_seconds = None, de_tx_chaining_allowed = None, de_only_unused_utxos = None \<rparr>"

definition sample_sign :: "string \<Rightarrow> details \<Rightarrow> cl_msg" where
  "sample_sign pset d = M_ServerNotification (CN_Sign \<lparr> sn_order_id = sample_order, sn_pset = pset, sn_details = d, sn_nonces = None \<rparr>)"

section \<open>Running messages\<close>

definition run_step :: "cl_world \<Rightarrow> cl_msg \<Rightarrow> cl_data \<times> cl_history \<Rightarrow> cl_data \<times> cl_history" where
  "run_step w m = (\<lambda>(s, h). snd (handle_message w m s h))"

definition client_run :: "cl_world \<Rightarrow> settings \<Rightarrow> cl_msg list \<Rightarrow> cl_data \<times> cl_history" where
  "client_run w st ms = fold (run_step w) ms (snd (start_client w (initial_data st (cw_now w []) 1) []))"

lemma run_step_message:
  "run_step w m p = (case p of (s, h) \<Rightarrow> snd (process_message w m s (h @ [CE_Msg m])))"
  by (simp add: run_step_def handle_message_def sx_bind_def sx_emit_def split: prod.split)

text \<open>With these the handler of a message is known before it is evaluated.\<close>

lemmas run_unfold = client_run_def fold_simps run_step_message process_message.simps process_ui.simps
  process_ws_notification.simps

lemma run_step_reaches:
  "sx_reaches (handle_message w) s0 h0 (fst p) (snd p) \<Longrightarrow> sx_reaches (handle_message w) s0 h0 (fst (run_step w m p)) (snd (run_step w m p))"
  by (cases p; cases "handle_message w m (fst p) (snd p)") (auto simp: run_step_def intro: sx_step)

lemma client_run_reaches: "client_reaches w st (fst (client_run w st ms)) (snd (client_run w st ms))"
proof -
  obtain r s0 h0 where start: "start_client w (initial_data st (cw_now w []) 1) [] = (r, s0, h0)"
    using prod_cases3 by blast
  have "sx_reaches (handle_message w) s0 h0 (fst (fold (run_step w) ms p)) (snd (fold (run_step w) ms p))"
    if "sx_reaches (handle_message w) s0 h0 (fst p) (snd p)" for p
    using that by (induction ms arbitrary: p) (simp_all del: split_paired_All add: run_step_reaches)
  from this [of "(s0, h0)"] show ?thesis
    by (auto simp: client_reaches_def client_run_def start intro: sx_refl)
qed

end
