(* ===== verification/Client_Agreed.thy ===== *)
theory Client_Agreed
  imports Client_Signing Client_Sample
begin

text \<open>
  Every message the client handles keeps the agreement of \<open>Client_Signing\<close>, so it holds in every
  state that a run reaches.
\<close>

section \<open>Orders announced by the server\<close>

lemma as_Login_Some: "as_Login resp = Some x \<Longrightarrow> resp = CA_Login (fst x) (snd x)"
  by (cases resp) (auto simp: as_Login_def)

lemma keeps_login_wallet [keeps_rules]:
  "keeps I m \<Longrightarrow> keeps I n \<Longrightarrow> keeps I (case wallet of LW_Mnemonic _ \<Rightarrow> m | LW_JadeId _ \<Rightarrow> n)"
  by (cases wallet) auto

context agreement
begin

lemma agreed_order_list:
  assumes "\<And>h oc. F h \<Longrightarrow> oc \<in> set orders \<Longrightarrow> announced h oc"
  shows "keeps (agreed_and w F) (sx_each (\<lambda>order. add_order w order b) orders)"
  by (rule keeps_each) (rule agreed_add_order, auto intro: assms)

lemma agreed_subscribe_response:
  assumes "\<And>h. F h \<Longrightarrow> CE_Msg (M_Subscribe a orders) \<in> set h"
  shows "keeps (agreed_and w F) (process_subscribe_response w orders)"
  unfolding process_subscribe_response_def
  by (intro agreed_order_list keeps_rules) (use assms in \<open>auto simp: announced_def\<close>)

lemma agreed_order_created:
  assumes "\<And>h. F h \<Longrightarrow> CE_Msg (M_ServerNotification (CN_OrderCreated oc)) \<in> set h"
  shows "keeps (agreed_and w F) (process_order_created w oc)"
  unfolding process_order_created_def
  by (intro agreed_add_order keeps_rules) (use assms in \<open>auto simp: announced_def\<close>)

lemma agreed_login_orders [keeps_rules]: "keeps (agreed_and w F) (login_orders w)"
proof -
  let ?G = "\<lambda>orders h. F h \<and> (\<exists>q sid. CE_Request q (Inr (CA_Login sid orders)) \<in> set h)"
  have ext: "agreement (?G orders)" for orders
    by unfold_locales (auto simp: lasting_def lasting_F [unfolded lasting_def])
  have after: "keeps (agreed_and w (?G orders)) (sx_then (sx_each (\<lambda>order. add_order w order False) orders)
     (sx_then sync_order_list
     (sx_bind (sx_get (\<lambda>s. st_session_id (dt_settings s))) (\<lambda>session_id.
     sx_when (session_id \<noteq> Some new_session_id)
       (sx_then (modify_settings (st_session_id_update (\<lambda>_. Some new_session_id))) save_settings)))))" for orders new_session_id
    by (intro agreement.agreed_order_list [OF ext] keeps_rules quiet_frame.quiet_basic [OF agreed_frame [OF agreement.lasting_F [OF ext]]]
          quiet_frame.quiet_sync2 [OF agreed_frame [OF agreement.lasting_F [OF ext]]]) (auto simp: announced_def)
  have answer: "triple (agreed_and w F) (request_as w q as_Login) (\<lambda>x. agreed_and w (?G (snd x))) (agreed_and w F)" for q
    by (rule triple_weaken [OF triple_conj [OF quiet_requests(4) [unfolded keeps_def] request_as_answer]])
       (auto dest!: as_Login_Some)
  have "triple (agreed_and w F) (sx_bind (request_as w q as_Login) (\<lambda>(new_session_id, orders).
     sx_then (sx_each (\<lambda>order. add_order w order False) orders)
     (sx_then sync_order_list
     (sx_bind (sx_get (\<lambda>s. st_session_id (dt_settings s))) (\<lambda>session_id.
     sx_when (session_id \<noteq> Some new_session_id)
       (sx_then (modify_settings (st_session_id_update (\<lambda>_. Some new_session_id))) save_settings)))))) (\<lambda>_. agreed_and w F) (agreed_and w F)" for q
    by (rule triple_bind [OF answer]) (auto split: prod.split intro: triple_weaken [OF after [unfolded keeps_def]])
  then show ?thesis
    unfolding login_orders_def by (intro keeps_bind [OF keeps_get]) (simp add: keeps_def)
qed

lemma agreed_ws_connected [keeps_rules]: "keeps (agreed_and w F) (process_ws_connected w)"
  unfolding process_ws_connected_def try_process_ws_connected_def
  by (intro keeps_rules; simp add: sign_view_def)

lemma agreed_login:
  assumes "\<And>h. F h \<Longrightarrow> CE_Msg (M_Ui (TM_Login req)) \<in> set h"
  shows "keeps (agreed_and w F) (process_login_request w req)"
proof -
  have start: "keeps (agreed_and w F) (sx_modify (\<lambda>s. s \<lparr> dt_send_utxo_updates := unwrap_or (lr_send_utxo_updates req) False,
        dt_force_auto_sign_maker := unwrap_or (lr_force_auto_sign_maker req) False,
        dt_network_settings := lr_network req \<rparr>))"
  proof (rule keeps_modify)
    fix s h
    assume a: "agreed w s h \<and> F h"
    then have "unwrap_or (lr_force_auto_sign_maker req) False \<Longrightarrow> auto_sign_forced h"
      using assms by (auto simp: auto_sign_forced_def unwrap_or_def split: option.splits)
    with a show "agreed w (s \<lparr> dt_send_utxo_updates := unwrap_or (lr_send_utxo_updates req) False,
        dt_force_auto_sign_maker := unwrap_or (lr_force_auto_sign_maker req) False,
        dt_network_settings := lr_network req \<rparr>) h \<and> F h"
      by (simp add: agreed_def sign_view_def)
  qed
  show ?thesis
    unfolding process_login_request_def try_process_login_request_def
    by (intro start keeps_rules; simp add: sign_view_def)
qed

lemma agreed_logout [keeps_rules]: "keeps (agreed_and w F) process_logout_request"
proof -
  have forget: "keeps (agreed_and w F) (sx_modify (\<lambda>s. s \<lparr> dt_wallets := [], dt_sync_complete := False, dt_wallet_loaded_sent := False,
        dt_confirmed_txids := [], dt_unconfirmed_txids := [], dt_active_swap := None, dt_succeed_swap := None,
        dt_active_extern_peg := None, dt_sent_txhash := None, dt_peg_out_server_amounts := None,
        dt_active_submits := [], dt_active_sign := None, dt_used_single_sig := (0, 0), dt_used_multi_sig := 0,
        dt_settings := settings_default \<rparr>))"
    by (rule keeps_modify) (auto simp: agreed_def sign_view_def)
  show ?thesis unfolding process_logout_request_def by (intro forget keeps_rules)
qed

lemma agreed_ui:
  assumes "\<And>h. F h \<Longrightarrow> CE_Msg (M_Ui m) \<in> set h"
  shows "moves (\<lambda>s h. agreed_and w F s h \<and> just_arrived (M_Ui m) h) (process_ui w m) (agreed_and w F)"
proof (cases "\<exists>d. m = TM_SubmitDecision d")
  case True
  then obtain d where m: "m = TM_SubmitDecision d" by blast
  show ?thesis unfolding m process_ui.simps by (rule agreed_process_decision) (use assms m in simp)
next
  case False
  with assms have "keeps (agreed_and w F) (process_ui w m)"
    by (cases m) (auto intro!: keeps_rules agreed_login agreed_edit agreed_swap_request agreed_swap_accept)
  then show ?thesis unfolding keeps_moves by (rule moves_weaken) auto
qed

lemma agreed_notification:
  assumes "\<And>h. F h \<Longrightarrow> CE_Msg (M_ServerNotification m) \<in> set h"
  shows "keeps (agreed_and w F) (process_ws_notification w m)"
  using assms by (cases m) (auto intro!: keeps_rules agreed_order_created)

lemma agreed_message:
  assumes "\<And>h. F h \<Longrightarrow> CE_Msg m \<in> set h"
  shows "moves (\<lambda>s h. agreed_and w F s h \<and> just_arrived m h) (process_message w m) (agreed_and w F)"
proof (cases "\<exists>u. m = M_Ui u")
  case True
  then obtain u where m: "m = M_Ui u" by blast
  show ?thesis unfolding m process_message.simps by (rule agreed_ui) (use assms m in simp)
next
  case False
  with assms have "keeps (agreed_and w F) (process_message w m)"
    by (cases m) (auto intro!: keeps_rules agreed_notification agreed_subscribe_response)
  then show ?thesis unfolding keeps_moves by (rule moves_weaken) auto
qed

end

section \<open>Every run\<close>

interpretation handling: agreement w "\<lambda>h. CE_Msg m \<in> set h" for w m
  by unfold_locales simp

lemma agreed_handle: "keeps (agreed w) (handle_message w m)"
proof -
  let ?P = "\<lambda>s h. agreed_and w (\<lambda>h. CE_Msg m \<in> set h) s h \<and> just_arrived m h"
  have "triple (agreed w) (sx_emit (CE_Msg m)) (\<lambda>_. ?P) (agreed w)"
    by (rule triple_emit) (simp add: agreed_quiet)
  moreover have "moves ?P (process_message w m) (agreed w)"
    by (rule moves_weaken [OF handling.agreed_message]) auto
  ultimately show ?thesis unfolding handle_message_def keeps_def moves_def by (rule triple_bind)
qed

interpretation agreed_loop: sx_loop "handle_message w" "agreed w" for w
  by unfold_locales (rule agreed_handle)

lemma agreed_initial: "agreed w (initial_data st now c) []"
  by (simp add: agreed_def sign_view_def initial_data_def)

lemma agreed_reached: "client_reaches w st s h \<Longrightarrow> agreed w s h"
proof -
  have F: "agreement (\<lambda>h. True)" by unfold_locales simp
  have start: "keeps (agreed w) (start_client w)"
    using quiet_frame.quiet_worker4(2) [OF agreed_frame [OF agreement.lasting_F [OF F], of w]] by simp
  show "agreed w s h" if "client_reaches w st s h"
    using that agreed_loop.reaches_inv keepsD [OF start agreed_initial] unfolding client_reaches_def by blast
qed

end
