(* ===== verification/Client_Gaps.thy ===== *)
theory Client_Gaps
  imports Client_Agreed
begin

text \<open>
  What the checks before a signature do not cover.  An order is compared with what the user accepted by
  asset, direction, the fixed amount and the price, but not by market, and the market decides whether
  the price multiplies or divides: the other amount can be another one.  And the transaction of an
  instant swap is signed whenever the server sends one, as often as it does.

  The runs are those of the sample client; each step is evaluated on its own, with the floating point
  comparisons evaluated beforehand.
\<close>

section \<open>Nothing in the history is lost\<close>

lemma history_kept:
  assumes "agreed w s h" "ev \<in> set h" "handle_message w m s h = (r, s', h')"
  shows "agreed w s' h' \<and> ev \<in> set h'"
proof -
  let ?F = "\<lambda>h. CE_Msg m \<in> set h \<and> ev \<in> set h"
  have F: "agreement ?F" by unfold_locales (intro lasting_simps)
  have run: "process_message w m s (h @ [CE_Msg m]) = (r, s', h')"
    using assms(3) by (simp add: handle_message_def sx_bind_def sx_emit_def)
  have start: "agreed_and w ?F s (h @ [CE_Msg m]) \<and> just_arrived m (h @ [CE_Msg m])" using assms(1,2) by (simp add: agreed_quiet)
  have "moves (\<lambda>s h. agreed_and w ?F s h \<and> just_arrived m h) (process_message w m) (agreed_and w ?F)"
    by (rule agreement.agreed_message [OF F]) simp
  from tripleD [OF this [unfolded moves_def] start run] show ?thesis by (cases r) simp_all
qed

section \<open>A sample order, accepted and signed\<close>

text \<open>The quote of the sample order again, with the price read the other way round.\<close>

definition sample_offer :: details where
  "sample_offer = sample_details \<lparr> d_market := Token, d_asset_amount := 50000 \<rparr>"

lemma sample_floats [simp]:
  "verify_price sample_world sample_details 8 = Ok ()" "verify_price sample_world sample_offer 8 = Ok ()"
  "get_server_fee 100000 = 500" "f64_gt (Fin 2) (Fin 0)"
  "f64_eq (f64_div (f64_abs (f64_sub (Fin 2) (Fin 2))) (Fin 2)) (Fin 0)"
  by code_simp+

lemma sample_details_simps [simp]:
  "d_asset sample_details = ''USDT''" "d_bitcoin_amount sample_details = 100000" "d_asset_amount sample_details = 200000"
  "d_price sample_details = Fin 2" "d_server_fee sample_details = 500" "d_side sample_details = Taker"
  "d_send_bitcoins sample_details" "d_order_type sample_details = OT_Bitcoin"  "d_two_step sample_details = None"
  "d_asset sample_offer = ''USDT''" "d_bitcoin_amount sample_offer = 100000" "d_asset_amount sample_offer = 50000"
  "d_price sample_offer = Fin 2" "d_server_fee sample_offer = 500" "d_side sample_offer = Taker"
  "d_send_bitcoins sample_offer" "d_order_type sample_offer = OT_Bitcoin"  "d_two_step sample_offer = None"
  by (simp_all add: sample_details_def sample_offer_def)

lemma sample_world_simps [simp]:
  "cw_policy_asset sample_world = ''LBTC''" "cw_change_address sample_world h a = Inr sample_address"
  "cw_utxos sample_world h a = Inr [(''LBTC'', [sample_utxo])]" "cw_receive_address sample_world h a = Inr sample_address"
  "cw_unlock_hww sample_world h a = Inr ()" "cw_polls sample_world h q i = [Poll_Resp (Some i) (sample_answer q)]"
  "cw_psbt_details sample_world h a pset us = Inr (sample_effect pset)" "cw_psbt_sign sample_world h a pset us ns = Inr ''signed''"
  by (simp_all add: sample_world_def)

definition sample_submit :: submit_data where
  "sample_submit = new_submit_data sample_order sample_details False 8 [utxo_tx_out sample_utxo] False"

lemma sample_verify [simp]:
  assumes "dt_assets s = [(''USDT'', sample_asset)]"
  shows "verify_amounts sample_world s sample_details = Ok ()" "verify_amounts sample_world s sample_offer = Ok ()"
  by (simp_all add: assms verify_amounts_def sample_asset_def MIN_BITCOIN_AMOUNT_def MIN_SERVER_FEE_def ensure_def ok_or_def)

definition sample_wallets :: "(account_id, xpub_info) btree_map" where
  "sample_wallets = [(ACCOUNT_ID_REG, \<lparr> xp_single_sig_account = [], xp_multi_sig_service_xpub = [], xp_multi_sig_user_xpub = [] \<rparr>)]"

definition sample_bad_amounts :: swap_amounts where
  "sample_bad_amounts = \<lparr> am_send_asset = ''LBTC'', am_send_amount = 100500, am_recv_asset = ''USDT'', am_recv_amount = 50000 \<rparr>"

lemma sample_amounts:
  "order_amounts sample_world (take_details sample_offer sample_submit) = sample_bad_amounts"
  "pset_amounts_ok sample_world sample_bad_amounts (sample_effect ''bad'')" "sb_asset sample_submit = ''USDT''"
  "sb_order_id sample_submit = sample_order" "sb_side sample_submit = Taker" "sign_matches sample_submit sample_offer"
  "f64_eq (price_change sample_submit sample_offer) (Fin 0)" "auto_sign_allowed b sample_submit sample_offer"
  "sb_side (take_details sample_offer sample_submit) = Taker" "sb_order_id (take_details sample_offer sample_submit) = sample_order"
  "sb_asset (take_details sample_offer sample_submit) = ''USDT''"
          apply code_simp
         apply code_simp
        apply (simp_all add: sample_submit_def new_submit_data_def sign_matches_def price_change_def auto_sign_allowed_def take_details_def)
  done

lemma sample_pset_signed:
  "verify_and_sign_pset sample_world deal a sample_bad_amounts ''bad'' [] s h = (Ok ''signed'', s,
     h @ [CE_Wallet a WC_Utxos, CE_Wallet a (WC_PsbtDetails ''bad'' (Inr (sample_effect ''bad''))),
          CE_Wallet a (WC_PsbtSign deal sample_bad_amounts ''bad'' [])])"
  using sample_amounts(2)
  by (simp add: verify_and_sign_pset_def wallet_get_utxos_def wallet_call_def sx_defs sx_result_defs ensure_def prefix_error_def sample_bad_amounts_def)

definition sample_accepted :: "cl_data \<Rightarrow> bool" where
  "sample_accepted s \<longleftrightarrow> dt_submit_data s = [(sample_order, sample_submit)] \<and> dt_assets s = [(''USDT'', sample_asset)] \<and>
     dt_amp_assets s = [] \<and> dt_wallets s = sample_wallets \<and> dt_processed_signs s = []"

lemma sample_sign_run:
  assumes "sample_accepted s"
  shows "CE_Wallet ACCOUNT_ID_REG (WC_PsbtSign (For_Order sample_order) sample_bad_amounts ''bad'' [])
     \<in> set (snd (run_step sample_world (sample_sign ''bad'' sample_offer) (s, h)))"
  using assms unfolding sample_sign_def run_unfold
  by (simp add: sample_accepted_def process_sign_def process_sign_with_def sign_or_report_def sx_defs try_process_sign_def
    cl_verify_def sx_result_defs ensure_def ok_or_def get_submit_def sample_amounts sample_pset_signed sample_wallets_def
    try_sign_def update_submit_def get_wallet_def
     request_as_def cl_send_request_def send_request_msg_def as_Sign_def ui_send_def split: prod.split)


definition sample_link_response :: link_response where
  "sample_link_response = \<lparr> lk_order_id = sample_order, lk_details = sample_details, lk_index_price = False \<rparr>"

lemma sample_hash: "hash32_from_str sample_order_text = Some sample_order"
  by code_simp

lemma sample_chosen: "choose_utxos [] False [sample_utxo] 100500 = Ok [sample_utxo]"
  by code_simp

lemma sample_i64: "i64_add 100000 500 = 100500" by code_simp

lemma sample_decision:
  assumes "dt_active_submits s = [(sample_order, sample_link_response)]" "dt_assets s = [(''USDT'', sample_asset)]"
    "dt_amp_assets s = []" "dt_wallets s = sample_wallets" "dt_submit_data s = []" "dt_active_sign s = None"
    "dt_pending_sign_prompts s = []" "dt_pending_succeed s = []" "dt_processed_signs s = []"
  shows "sample_accepted (fst (run_step sample_world (M_Ui (TM_SubmitDecision sample_accept)) (s, h)))"
  unfolding run_unfold sample_accepted_def
  by (simp add: process_submit_decision_def try_process_submit_decision_def sx_defs sample_accept_def assms sample_hash decision_agent_def
    sample_link_response_def sample_asset_def sx_result_defs ensure_def ok_or_def accept_order_def details_send_def sample_i64
    known_asset_def cl_verify_def get_wallet_def sample_wallets_def wallet_get_change_address_def wallet_get_utxos_def wallet_call_def
    receive_address_for_def wallet_get_receive_address_def reserved_txouts_def utxos_of_def sample_chosen
    send_pset_request_def wallet_unlock_hww_def request_as_def cl_send_request_def send_request_msg_def as_PsetTaker_def
    sample_submit_def process_pending_sign_prompts_def process_pending_succeed_def Let_def
    split: prod.split)

definition sample_review_run :: "cl_data \<times> cl_history" where
  "sample_review_run = client_run sample_world sample_settings [sample_login, M_ServerConnected, M_Ui (TM_LinkOrder sample_order_text)]"

definition sample_review :: submit_review where
  "sample_review = \<lparr> rv_order_id = sample_order, rv_asset = ''USDT'', rv_bitcoin_amount = 100000, rv_server_fee = 500,
     rv_asset_amount = 200000, rv_price = Fin 2, rv_sell_bitcoin = True, rv_step = Step_Quote, rv_index_price = False,
     rv_auto_sign = False, rv_two_step = None, rv_tx_chaining_required = None \<rparr>"

lemma sample_review_state:
  "(case sample_review_run of (s, h) \<Rightarrow> dt_active_submits s = [(sample_order, sample_link_response)] \<and>
     dt_assets s = [(''USDT'', sample_asset)] \<and> dt_amp_assets s = [] \<and> dt_wallets s = sample_wallets \<and>
     dt_submit_data s = [] \<and> dt_active_sign s = None \<and> dt_pending_sign_prompts s = [] \<and>
     dt_pending_succeed s = [] \<and> dt_processed_signs s = [] \<and> h \<noteq> [] \<and> last h = CE_Ui (FM_SubmitReview sample_review))"
  unfolding sample_review_run_def sample_login_def run_unfold by code_simp

definition sample_market_run :: "cl_data \<times> cl_history" where
  "sample_market_run = client_run sample_world sample_settings [sample_login, M_ServerConnected, M_Ui (TM_LinkOrder sample_order_text),
     M_Ui (TM_SubmitDecision sample_accept), sample_sign ''bad'' sample_offer]"

lemma sample_market_steps:
  "sample_market_run = run_step sample_world (sample_sign ''bad'' sample_offer)
     (run_step sample_world (M_Ui (TM_SubmitDecision sample_accept)) sample_review_run)"
  by (simp add: sample_market_run_def sample_review_run_def client_run_def)

lemma run_step_kept:
  assumes "agreed w (fst p) (snd p)" "ev \<in> set (snd p)"
  shows "agreed w (fst (run_step w m p)) (snd (run_step w m p)) \<and> ev \<in> set (snd (run_step w m p))"
  using history_kept [OF assms] by (cases "handle_message w m (fst p) (snd p)") (simp add: run_step_def split_beta)

lemma sample_market_history:
  "CE_Ui (FM_SubmitReview sample_review) \<in> set (snd sample_market_run) \<and>
   CE_Wallet ACCOUNT_ID_REG (WC_PsbtSign (For_Order sample_order) sample_bad_amounts ''bad'' []) \<in> set (snd sample_market_run)"
proof
  obtain s h where run: "sample_review_run = (s, h)" by (cases sample_review_run)
  let ?p = "run_step sample_world (M_Ui (TM_SubmitDecision sample_accept)) (s, h)"
  note at_review = sample_review_state [unfolded run prod.case]
  have "sample_accepted (fst ?p)" using at_review by (intro sample_decision) blast+
  from sample_sign_run [OF this, of "snd ?p"]
  show "CE_Wallet ACCOUNT_ID_REG (WC_PsbtSign (For_Order sample_order) sample_bad_amounts ''bad'' []) \<in> set (snd sample_market_run)"
    unfolding sample_market_steps run prod.collapse .
  have "agreed sample_world (fst (s, h)) (snd (s, h))"
    unfolding run [symmetric] sample_review_run_def by (rule agreed_reached [OF client_run_reaches])
  moreover have "CE_Ui (FM_SubmitReview sample_review) \<in> set (snd (s, h))" using at_review last_in_set [of h] by simp
  ultimately show "CE_Ui (FM_SubmitReview sample_review) \<in> set (snd sample_market_run)"
    unfolding sample_market_steps run using run_step_kept by blast
qed

section \<open>The market is not compared\<close>

text \<open>
  (C19) The user is shown a quote, 200000 units of the asset for 100000 satoshi at a price of 2, and accepts
  it.  The server then asks to sign the same order with the market \<open>Token\<close> in place of
  \<open>Stablecoin\<close>: the price of 2 is the same number, the fixed amount is the same, all checks pass,
  and the client signs for 50000 units without asking again.
\<close>

theorem market_not_compared:
  "client_reaches sample_world sample_settings (fst sample_market_run) (snd sample_market_run) \<and>
   CE_Ui (FM_SubmitReview sample_review) \<in> set (snd sample_market_run) \<and> rv_asset_amount sample_review = 200000 \<and>
   CE_Wallet ACCOUNT_ID_REG (WC_PsbtSign (For_Order sample_order) sample_bad_amounts ''bad'' []) \<in> set (snd sample_market_run) \<and>
   am_recv_amount sample_bad_amounts = 50000"
  using sample_market_history client_run_reaches [of sample_world sample_settings] unfolding sample_market_run_def
  by (simp add: sample_review_def sample_bad_amounts_def)

section \<open>An instant swap is signed as often as the server asks\<close>

definition sample_swap :: swap_request where
  "sample_swap = \<lparr> sw_send_bitcoins = True, sw_asset = ''USDT'', sw_send_amount = 100000, sw_recv_amount = 3000000, sw_price = Fin 30 \<rparr>"

definition sample_blinded :: cl_msg where
  "sample_blinded = M_ServerNotification (CN_BlindedSwapClient sample_order ''pset'')"

definition sample_active_swap :: active_swap where
  "sample_active_swap = \<lparr> aw_order_id = sample_order, aw_send_asset = ''LBTC'', aw_recv_asset = ''USDT'',
     aw_send_amount = 100000, aw_recv_amount = 3000000 \<rparr>"

definition sample_swapping :: "cl_data \<Rightarrow> bool" where
  "sample_swapping s \<longleftrightarrow> dt_active_swap s = Some sample_active_swap \<and> dt_amp_assets s = [] \<and> dt_wallets s = sample_wallets"

definition sample_swap_run :: "cl_data \<times> cl_history" where
  "sample_swap_run = client_run sample_world sample_settings [sample_login, M_ServerConnected, M_Ui (TM_SwapRequest sample_swap)]"

lemma sample_swap_state: "sample_swapping (fst sample_swap_run)"
  unfolding sample_swap_run_def sample_login_def run_unfold by code_simp

fun swap_sign :: "cl_event \<Rightarrow> order_id option" where
  "swap_sign (CE_Wallet _ (WC_PsbtSign (For_Swap i) _ _ _)) = Some i"
| "swap_sign _ = None"

definition swap_signs_of :: "cl_history \<Rightarrow> order_id \<Rightarrow> nat" where
  "swap_signs_of h i = length (filter (\<lambda>ev. swap_sign ev = Some i) h)"

lemma sample_swap_pset:
  "verify_and_sign_pset sample_world deal a (active_swap_amounts sample_active_swap) ''pset'' [] s h = (Ok ''signed'', s,
     h @ [CE_Wallet a WC_Utxos, CE_Wallet a (WC_PsbtDetails ''pset'' (Inr (sample_effect ''pset''))),
          CE_Wallet a (WC_PsbtSign deal (active_swap_amounts sample_active_swap) ''pset'' [])])"
proof -
  have "pset_amounts_ok sample_world (active_swap_amounts sample_active_swap) (sample_effect ''pset'')" by code_simp
  then show ?thesis
    by (simp add: verify_and_sign_pset_def wallet_get_utxos_def wallet_call_def sx_defs sx_result_defs ensure_def prefix_error_def
        active_swap_amounts_def sample_active_swap_def)
qed

lemma sample_swap_amounts:
  "aw_order_id sample_active_swap = sample_order" "am_send_asset (active_swap_amounts sample_active_swap) = ''LBTC''"
  "am_recv_asset (active_swap_amounts sample_active_swap) = ''USDT''"
  by (simp_all add: sample_active_swap_def active_swap_amounts_def)

lemma sample_swap_step:
  assumes "sample_swapping s"
  shows "sample_swapping (fst (run_step sample_world sample_blinded (s, h))) \<and>
    swap_signs_of (snd (run_step sample_world sample_blinded (s, h))) sample_order = Suc (swap_signs_of h sample_order)"
  using assms unfolding sample_blinded_def run_unfold
  by (simp add: sample_swapping_def swap_signs_of_def process_blinded_swap_client_def swap_failed_on_error_def try_process_blinded_swap_client_def
      sx_defs sx_result_defs ensure_def ok_or_def no_amp_assets_def get_wallet_def sample_wallets_def sample_swap_pset
      request_as_def cl_send_request_def send_request_msg_def as_SignedSwapClient_def sample_swap_amounts split: prod.split)

text \<open>
  (C20) The user asks for one instant swap.  The server sends its transaction twice (they could be two
  different transactions), and the client signs both: nothing marks the swap as signed, it stays active
  until the server says that it is done.
\<close>

theorem instant_swap_signed_twice:
  "case client_run sample_world sample_settings
      [sample_login, M_ServerConnected, M_Ui (TM_SwapRequest sample_swap), sample_blinded, sample_blinded] of (s, h) \<Rightarrow>
   client_reaches sample_world sample_settings s h \<and> 2 \<le> swap_signs_of h sample_order"
proof -
  let ?p = "run_step sample_world sample_blinded sample_swap_run"
  have "client_run sample_world sample_settings
      [sample_login, M_ServerConnected, M_Ui (TM_SwapRequest sample_swap), sample_blinded, sample_blinded] = run_step sample_world sample_blinded ?p"
    by (simp add: client_run_def sample_swap_run_def)
  moreover have "sample_swapping (fst ?p) \<and> swap_signs_of (snd ?p) sample_order = Suc (swap_signs_of (snd sample_swap_run) sample_order)"
    using sample_swap_step [OF sample_swap_state, of "snd sample_swap_run"] by simp
  moreover then have "swap_signs_of (snd (run_step sample_world sample_blinded ?p)) sample_order = Suc (swap_signs_of (snd ?p) sample_order)"
    using sample_swap_step [of "fst ?p" "snd ?p"] by simp
  ultimately show ?thesis
    using client_run_reaches [of sample_world sample_settings
      "[sample_login, M_ServerConnected, M_Ui (TM_SwapRequest sample_swap), sample_blinded, sample_blinded]"] by (simp add: split_beta)
qed

end
