(* ===== verification/Client_Once.thy ===== *)
theory Client_Once
  imports Client_Gaps
begin

text \<open>
  An order is signed at most once.  Every order id is admitted once (\<open>processed_signs\<close>), and the
  permission to sign then sits in exactly one place: with the handler, in the queue of prompts, or with
  the prompt the user is looking at.
\<close>

section \<open>The invariant\<close>

fun order_sign :: "cl_event \<Rightarrow> order_id option" where
  "order_sign (CE_Wallet _ (WC_PsbtSign (For_Order i) _ _ _)) = Some i"
| "order_sign _ = None"

definition signs_of :: "cl_history \<Rightarrow> order_id \<Rightarrow> nat" where
  "signs_of h i = length (filter (\<lambda>ev. order_sign ev = Some i) h)"

lemma signs_of_simps [simp]:
  "signs_of [] i = 0"
  "signs_of (h @ [ev]) i = signs_of h i + (if order_sign ev = Some i then 1 else 0)"
  by (simp_all add: signs_of_def)

lemma signs_of_pos: "ev \<in> set h \<Longrightarrow> order_sign ev = Some i \<Longrightarrow> 0 < signs_of h i"
  by (auto simp: signs_of_def filter_empty_conv)

lemma order_sign_quiet [simp]: "\<not> signing ev \<Longrightarrow> order_sign ev = None"
  by (cases ev rule: order_sign.cases) auto

definition holds :: "order_id option \<Rightarrow> order_id \<Rightarrow> nat" where
  "holds p i = (if p = Some i then 1 else 0)"

text \<open>\<open>p\<close> is the order the running handler has the permission to sign.\<close>

definition claims :: "order_id option \<Rightarrow> cl_data \<Rightarrow> cl_history \<Rightarrow> order_id \<Rightarrow> nat" where
  "claims p s h i = signs_of h i + count_list (map sn_order_id (dt_pending_sign_prompts s)) i +
     holds (map_option sn_order_id (dt_active_sign s)) i + holds p i"

definition once :: "order_id option \<Rightarrow> cl_data \<Rightarrow> cl_history \<Rightarrow> bool" where
  "once p s h \<longleftrightarrow> (\<forall>i. claims p s h i \<le> (if i \<in> set (dt_processed_signs s) then 1 else 0))"

lemma once_step:
  assumes "once p s h" "dt_processed_signs s' = dt_processed_signs s" "\<And>i. claims p' s' h' i \<le> claims p s h i"
  shows "once p' s' h'"
  using assms unfolding once_def by (metis order_trans)

lemma once_weaken: "once p s h \<Longrightarrow> once None s h"
  by (erule once_step) (simp_all add: claims_def holds_def)

lemma once_frame: "quiet_frame (once p)"
proof
  show "once p s' h" if "sign_view s = sign_view s'" "once p s h" for s s' h
    using that by (auto simp: once_def claims_def sign_view_def)
  show "once p s (h @ [ev])" if "once p s h" "\<not> signing ev" for s h ev
    using that by (auto simp: once_def claims_def)
qed

interpretation once: quiet_frame "once p" for p
  by (rule once_frame)

lemma once_modify:
  assumes "\<And>s. dt_pending_sign_prompts (f s) = dt_pending_sign_prompts s" "\<And>s. dt_active_sign (f s) = dt_active_sign s"
    "\<And>s. dt_processed_signs (f s) = dt_processed_signs s"
  shows "keeps (once p) (sx_modify f)"
  by (rule keeps_modify, erule once_step) (simp_all add: assms claims_def)

section \<open>Where the permission goes\<close>

lemma once_admit:
  assumes "once None s h" "i \<notin> set (dt_processed_signs s)"
  shows "once (Some i) (dt_processed_signs_update (\<lambda>ids. i # ids) s) h"
  unfolding once_def
proof
  fix j
  have "claims None s h j \<le> (if j \<in> set (dt_processed_signs s) then 1 else 0)" using assms(1) by (simp add: once_def)
  then show "claims (Some i) (dt_processed_signs_update (\<lambda>ids. i # ids) s) h j
      \<le> (if j \<in> set (dt_processed_signs (dt_processed_signs_update (\<lambda>ids. i # ids) s)) then 1 else 0)"
    using assms(2) by (auto simp: claims_def holds_def split: if_splits)
qed

lemma once_queue:
  "once (Some (sn_order_id msg)) s h \<Longrightarrow> once None (dt_pending_sign_prompts_update (\<lambda>q. q @ [msg]) s) h"
  by (erule once_step) (auto simp: claims_def holds_def)

lemma once_unqueue:
  "once None s h \<Longrightarrow> dt_pending_sign_prompts s = msg # rest \<Longrightarrow>
    once (Some (sn_order_id msg)) (dt_pending_sign_prompts_update (\<lambda>_. rest) s) h"
  by (erule once_step) (auto simp: claims_def holds_def)

lemma once_show:
  "once (Some (sn_order_id msg)) s h \<Longrightarrow> once None (s \<lparr> dt_visible_submit := v, dt_active_sign := Some msg \<rparr>) h"
  by (erule once_step) (auto simp: claims_def holds_def)

lemma once_take:
  "once None s h \<Longrightarrow> dt_active_sign s = Some msg \<Longrightarrow> once (Some (sn_order_id msg)) (dt_active_sign_update (\<lambda>_. None) s) h"
  by (erule once_step) (auto simp: claims_def holds_def)

lemma once_signed:
  "once (Some i) s h \<Longrightarrow> once None s (h @ [CE_Wallet acc (WC_PsbtSign (For_Order i) am pset nonces)])"
  by (erule once_step) (auto simp: claims_def holds_def)

lemma once_sign: "moves (once (Some (sn_order_id msg))) (try_sign w msg) (once None)"
  by (rule try_sign_moves [where R = "\<lambda>_. once (Some (sn_order_id msg))", OF once_frame once_frame]) (auto intro: once_weaken once_signed)

lemma once_verify_other [keeps_rules]:
  "keeps (once p) (verify_and_sign_pset w (For_Swap i) acc am pset nonces)"
  "keeps (once p) (verify_and_sign_pset w (For_Link i) acc am pset nonces)"
  unfolding keeps_moves
  by (rule verify_and_sign_moves [OF once_frame], assumption, erule once_step, simp_all add: claims_def)+

section \<open>The handlers that sign orders\<close>

lemma once_prompts: "keeps (once None) process_pending_sign_prompts"
proof -
  have show_prompt: "moves (once (Some (sn_order_id msg))) (show_sign_prompt msg sb) (once None)" for msg sb
    unfolding show_sign_prompt_def
    by (rule moves_bind [OF once.quiet_basic(1)], rule moves_modify, erule once_show, erule once_weaken)
  have loop: "keeps (once None) (sign_prompts_loop n)" for n
  proof (induction n)
    case (Suc n)
    have shown: "moves (once (Some (sn_order_id msg)))
        (case x of None \<Rightarrow> sx_return () | Some sb \<Rightarrow> show_sign_prompt msg sb) (once None)" for msg x
      by (cases x) (auto intro: show_prompt moves_keeps [OF keeps_return] once_weaken)
    have "moves (\<lambda>s h. once None s h \<and> s = s0)
        (if dt_visible_submit s0 \<noteq> None then sx_return ()
         else case dt_pending_sign_prompts s0 of
           [] \<Rightarrow> sx_return ()
         | msg # rest \<Rightarrow>
             sx_then (sx_modify (dt_pending_sign_prompts_update (\<lambda>_. rest)))
             (sx_then (case btree_get (dt_submit_data s0) (sn_order_id msg) of
                 None \<Rightarrow> sx_return ()
               | Some sb \<Rightarrow> show_sign_prompt msg sb)
             (sign_prompts_loop n))) (once None)" for s0
      by (auto split: list.split intro!: moves_keeps [OF keeps_return] moves_modify_then [OF _ moves_then [OF shown Suc]] once_unqueue)
    then show ?case
      unfolding sign_prompts_loop.simps keeps_moves by (intro moves_get) simp
  qed (simp add: keeps_return)
  show ?thesis
    unfolding process_pending_sign_prompts_def by (intro keeps_bind keeps_get loop)
qed

lemma once_try_process_sign: "keeps (once None) (try_process_sign w msg)"
proof -
  let ?P = "once (Some (sn_order_id msg))"
  have queue: "moves ?P (sx_then (sx_modify (dt_pending_sign_prompts_update (\<lambda>q. q @ [msg]))) process_pending_sign_prompts) (once None)"
    by (rule moves_modify_then [OF once_queue once_prompts [unfolded keeps_moves]])
  have sign: "moves ?P (sx_then (try_sign w msg) (sx_return ())) (once None)"
    by (rule moves_then [OF once_sign keeps_return])
  have update: "keeps ?P (sx_modify (update_submit (sn_order_id msg) f))" for f
    by (rule once_modify) (auto simp: update_submit_def split: option.split)
  show ?thesis
    unfolding try_process_sign_def keeps_moves
    apply (rule moves_get)
    apply (split if_split, intro conjI impI)
     apply (rule moves_keeps [OF keeps_return], simp)
    apply (rule moves_modify_then [where R = ?P])
     apply (simp add: once_admit)
    apply (rule moves_bind [OF once.quiet_orders1(4)])
     apply (rule moves_bind [OF once.quiet_orders1(6)])
      apply (rule moves_bind [OF keeps_results(4)])+
         apply (rule moves_bind [OF keeps_get])
          apply (rule moves_bind [OF update])
           apply (split if_split, intro conjI impI queue sign)
    by (erule once_weaken)+
qed

lemma once_missing [keeps_rules]: "keeps (once None) (add_missing_submit_data w i d b)"
  unfolding add_missing_submit_data_def by (intro once_modify keeps_rules; simp)

lemma once_shown: "keeps (once None) (show_downloaded w resp)"
  unfolding show_downloaded_def try_process_downloaded_link_def Let_def by (intro once_modify keeps_rules; simp)

lemma once_download: "keeps (once None) m \<Longrightarrow> keeps (once None) (download_sign_request w m i)"
  unfolding download_sign_request_def process_sign_with_def sign_or_report_def
  by (intro once_try_process_sign once_modify keeps_rules; simp)

interpretation once_signs: sign_invariant "once None" w for w
  by unfold_locales (auto intro: once_try_process_sign once_prompts once_shown once_download intro!: once_modify)

lemma once_decision [keeps_rules]: "keeps (once None) (process_submit_decision w req)"
proof -
  have signs: "moves (\<lambda>s h. once None s h \<and> dt_active_sign s = Some msg)
      (sx_then (sx_modify (dt_active_sign_update (\<lambda>_. None))) (try_sign w msg)) (once None)" for msg
    by (rule moves_modify_then [OF _ once_sign]) (auto intro: once_take)
  have accept: "keeps (once None) (accept_order w req i resp)" for i resp
    unfolding accept_order_def Let_def by (intro once_modify keeps_rules; simp)
  have accepted: "keeps (once None) (sx_bind (sx_ok_or (hash32_from_str (de_order_id req)) HEX_ERROR) (\<lambda>order_id.
            sx_bind (sx_get (\<lambda>s. btree_get (dt_active_submits s) order_id)) (\<lambda>resp.
            sx_then (sx_modify (dt_active_submits_update (btree_remove order_id)))
            (sx_bind (sx_ok_or resp ''data not found'') (\<lambda>resp.
            accept_order w req order_id resp)))))"
    by (intro accept once_modify keeps_rules; simp)
  have "keeps (once None) (try_process_submit_decision w req)"
    unfolding try_process_submit_decision_def keeps_moves
    apply (split if_split, intro conjI impI)
     apply (rule moves_keeps [OF keeps_return], simp)
    apply (rule moves_get)
    apply (auto split: option.split intro!: signs moves_weaken [OF accepted [unfolded keeps_moves]])
    done
  then show ?thesis
    unfolding process_submit_decision_def by (intro keeps_rules; simp add: sign_view_def)
qed

section \<open>All other messages\<close>

lemma once_swaps [keeps_rules]:
  "keeps (once None) (process_swap_request w sr)" "keeps (once None) (process_blinded_swap_client w i pset)"
  "keeps (once None) (process_swap_accept w sl)"
  unfolding process_swap_request_def try_process_swap_request_def process_blinded_swap_client_def
    try_process_blinded_swap_client_def process_swap_accept_def try_process_swap_accept_def Let_def
  by (intro once_modify keeps_rules; simp)+

lemma once_orders [keeps_rules]:
  "keeps (once None) (process_edit_order w txt data)" "keeps (once None) (add_order w oc b)"
proof -
  have "keeps (once None) (try_edit_order_auto_sign i b)" for i b
    unfolding try_edit_order_auto_sign_def
    by (intro once_modify keeps_rules; simp add: update_submit_def split: option.split)
  moreover have "keeps (once None) (try_edit_order_price w i p ip)" for i p ip
    unfolding try_edit_order_price_def
    by (intro once_modify keeps_rules; simp add: update_submit_def split: option.split)
  ultimately show "keeps (once None) (process_edit_order w txt data)"
    unfolding process_edit_order_def by (auto intro!: keeps_rules split: edit_data.split)
  show "keeps (once None) (add_order w oc b)"
    unfolding add_order_def by (intro keeps_rules; simp add: sign_view_def)
qed

lemma once_server [keeps_rules]:
  "keeps (once None) (process_order_created w oc)" "keeps (once None) (process_subscribe_response w ocs)"
  "keeps (once None) (login_orders w)"
  unfolding process_order_created_def process_subscribe_response_def login_orders_def
  by (intro keeps_rules)+

lemma once_sessions [keeps_rules]:
  "keeps (once None) (process_ws_connected w)" "keeps (once None) (process_login_request w req)"
  "keeps (once None) process_logout_request"
proof -
  show "keeps (once None) (process_ws_connected w)"
    unfolding process_ws_connected_def try_process_ws_connected_def by (intro keeps_rules; simp add: sign_view_def)
  show "keeps (once None) (process_login_request w req)"
    unfolding process_login_request_def try_process_login_request_def by (intro once_modify keeps_rules; simp)
  have forget: "keeps (once None) (sx_modify (\<lambda>s. s \<lparr> dt_wallets := [], dt_sync_complete := False, dt_wallet_loaded_sent := False,
        dt_confirmed_txids := [], dt_unconfirmed_txids := [], dt_active_swap := None, dt_succeed_swap := None,
        dt_active_extern_peg := None, dt_sent_txhash := None, dt_peg_out_server_amounts := None,
        dt_active_submits := [], dt_active_sign := None, dt_used_single_sig := (0, 0), dt_used_multi_sig := 0,
        dt_settings := settings_default \<rparr>))"
    by (rule keeps_modify, erule once_step) (simp_all add: claims_def holds_def)
  show "keeps (once None) process_logout_request"
    unfolding process_logout_request_def by (intro forget keeps_rules)
qed

lemma once_message: "keeps (once None) (handle_message w m)"
proof -
  have ui: "keeps (once None) (process_ui w u)" for u by (cases u) (auto intro!: keeps_rules)
  have news: "keeps (once None) (process_ws_notification w n)" for n by (cases n) (auto intro!: keeps_rules)
  have "keeps (once None) (process_message w m)" by (cases m) (auto intro!: keeps_rules ui news)
  then show ?thesis unfolding handle_message_def by (intro keeps_rules) simp_all
qed

interpretation once_loop: sx_loop "handle_message w" "once None" for w
  by unfold_locales (rule once_message)

lemma once_reached: "client_reaches w st s h \<Longrightarrow> once None s h"
proof -
  have initial: "once None (initial_data st now c) []" for now c
    by (simp add: once_def claims_def holds_def initial_data_def)
  show "once None s h" if "client_reaches w st s h"
    using that once_loop.reaches_inv keepsD [OF once.quiet_worker4(2) initial] unfolding client_reaches_def by blast
qed

text \<open>
  (C3) Whatever messages the server sends, and however often it sends the same one, an order is signed at
  most once.
\<close>

theorem client_signs_order_once:
  assumes "client_reaches w st s h"
  shows "signs_of h i \<le> 1"
proof -
  have "claims None s h i \<le> 1" using once_reached [OF assms] unfolding once_def by (rule allE [where x = i]) (simp split: if_splits)
  then show ?thesis by (simp add: claims_def)
qed

theorem client_signs_order_once_witness:
  "client_reaches sample_world sample_settings (fst sample_market_run) (snd sample_market_run) \<and>
   signs_of (snd sample_market_run) sample_order = 1"
proof -
  have reach: "client_reaches sample_world sample_settings (fst sample_market_run) (snd sample_market_run)"
    unfolding sample_market_run_def by (rule client_run_reaches)
  have "0 < signs_of (snd sample_market_run) sample_order"
    by (rule signs_of_pos [OF conjunct2 [OF sample_market_history]]) simp
  with client_signs_order_once [OF reach, of sample_order] reach show ?thesis by simp
qed

end
