(* ===== verification/Client_Deals.thy ===== *)
theory Client_Deals
  imports Client_Gaps
begin

text \<open>
  What was agreed about the transactions the client signs, over every run.  The deal of a signature is
  described by \<open>deal_agreed\<close>: for instant swaps and links the amounts of the user's request, for
  orders the terms that the user accepted or, for own orders, the server reported.
\<close>



end
