(* ===== verification/F64_Order.thy ===== *)
theory F64_Order
  imports F64
begin

text \<open>
  Order and sign facts about the binary64 operations that hold for all values, infinities included:
  multiplying or dividing a price by a factor of at least one moves it in the right direction
  despite the rounding, and sums, products and quotients of non-negative values are non-negative.
\<close>

lemma f64_le_trans: "f64_le a b \<Longrightarrow> f64_le b c \<Longrightarrow> f64_le a c"
  by (cases a; cases b; cases c) (auto simp: f64_le_def)

lemma f64_of_rat_le:
  assumes "x \<le> y" shows "f64_le (f64_of_rat x) (f64_of_rat y)"
  using rnd_mono [OF assms] assms
  by (auto simp: f64_of_rat_def Let_def f64_le_def) (use rnd_mono [OF assms] in \<open>simp add: less_le\<close>)+

lemma f64_of_rat_self: "f64_wf (Fin q) \<Longrightarrow> f64_of_rat q = Fin q"
  by (auto simp: f64_of_rat_def Let_def abs_if split: if_splits)

lemma f64_mul_ge:
  assumes "f64_wf (Fin a)" "0 < a" "1 \<le> i"
  shows "f64_le (Fin a) (f64_mul (Fin a) (Fin i))"
proof -
  have "a \<le> a * i" using assms(2,3) by simp
  moreover have "f64_mul (Fin a) (Fin i) = f64_of_rat (a * i)"
    using assms by (simp add: f64_mul_def)
  ultimately show ?thesis using f64_of_rat_le [of a "a * i"] f64_of_rat_self [OF assms(1)] by simp
qed

lemma f64_div_le:
  assumes "f64_wf (Fin a)" "0 < a" "1 \<le> i"
  shows "f64_le (f64_div (Fin a) (Fin i)) (Fin a)"
proof -
  have "a / i \<le> a" using assms(2,3) by (simp add: divide_le_eq)
  moreover have "f64_div (Fin a) (Fin i) = f64_of_rat (a / i)"
    using assms by (simp add: f64_div_def)
  ultimately show ?thesis using f64_of_rat_le [of "a / i" a] f64_of_rat_self [OF assms(1)] by simp
qed

lemma f64_le_one_cases:
  assumes "f64_le (Fin 1) i" "f64_le i (f64_of_rat (11 / 10))"
  obtains q where "i = Fin q" "1 \<le> q"
proof -
  have "\<bar>rnd (11 / 10)\<bar> < f64_huge" by (rule rnd_below_huge [of _ 4]) simp_all
  then have "f64_of_rat (11 / 10) = Fin (rnd (11 / 10))" by (rule f64_of_rat_Fin) simp
  with assms that show ?thesis by (cases i) (auto simp: f64_le_def)
qed

definition good_price :: "f64 \<Rightarrow> bool" where
  "good_price x \<longleftrightarrow> f64_wf x \<and> is_fin x \<and> 0 < f64_val x"

lemma good_price_Fin: "good_price x \<Longrightarrow> \<exists>q. x = Fin q \<and> f64_wf (Fin q) \<and> 0 < q"
  by (cases x) (auto simp: good_price_def)

definition f64_nn :: "f64 \<Rightarrow> bool" where "f64_nn x \<longleftrightarrow> x = PInf \<or> (\<exists>q\<ge>0. x = Fin q)"
definition f64_ge1 :: "f64 \<Rightarrow> bool" where "f64_ge1 x \<longleftrightarrow> x = PInf \<or> (\<exists>q\<ge>1. x = Fin q)"

lemma f64_of_rat_nn: "0 \<le> q \<Longrightarrow> f64_nn (f64_of_rat q)"
  using rnd_nonneg [of q] f64_huge_pos(1) by (auto simp: f64_of_rat_def Let_def f64_nn_def simp del: rnd_nonneg)

lemma f64_of_rat_ge1: "1 \<le> q \<Longrightarrow> f64_ge1 (f64_of_rat q)"
  using rnd_mono [of 1 q] rnd_of_int [of 1] f64_huge_pos(1) by (auto simp: f64_of_rat_def Let_def f64_ge1_def)

lemma f64_add_one_ge1: "f64_nn x \<Longrightarrow> f64_ge1 (f64_add (Fin 1) x)"
  by (auto simp: f64_nn_def f64_add_def f64_ge1_def [of PInf] intro!: f64_of_rat_ge1)

lemma f64_mul_ge1: "f64_ge1 a \<Longrightarrow> f64_ge1 b \<Longrightarrow> f64_ge1 (f64_mul a b)"
proof -
  assume "f64_ge1 a" "f64_ge1 b"
  moreover have "f64_ge1 (f64_of_rat (p * q))" if "1 \<le> p" "1 \<le> q" for p q
    using mult_mono [of 1 p 1 q] that by (intro f64_of_rat_ge1) simp
  ultimately show ?thesis
    by (auto simp: f64_ge1_def [of a] f64_ge1_def [of b] f64_mul_def f64_inf_def f64_ge1_def [of PInf])
qed

lemma f64_mul_nn: "f64_nn a \<Longrightarrow> 0 < q \<Longrightarrow> f64_nn (f64_mul a (Fin q))"
  using f64_of_rat_nn by (auto simp: f64_nn_def [of a] f64_mul_def f64_inf_def f64_zero_def f64_nn_def [of PInf] f64_nn_def [of "Fin _"])

lemma f64_div_nn: "f64_nn a \<Longrightarrow> 0 < q \<Longrightarrow> f64_nn (f64_div a (Fin q))"
  using f64_of_rat_nn by (auto simp: f64_nn_def [of a] f64_div_def f64_inf_def f64_zero_def f64_nn_def [of PInf] f64_nn_def [of "Fin _"])

lemma f64_mul_ge_any: "good_price a \<Longrightarrow> f64_ge1 b \<Longrightarrow> f64_le a (f64_mul a b)"
proof -
  assume "good_price a" "f64_ge1 b"
  then obtain q where q: "a = Fin q" "f64_wf (Fin q)" "0 < q" using good_price_Fin by blast
  from \<open>f64_ge1 b\<close> consider "b = PInf" | r where "b = Fin r" "1 \<le> r" by (auto simp: f64_ge1_def)
  then show ?thesis
  proof cases
    case 1
    with q show ?thesis by (auto simp: f64_mul_def f64_inf_def f64_le_def)
  next
    case 2
    with f64_mul_ge [OF q(2,3) 2(2)] q(1) show ?thesis by simp
  qed
qed

lemma f64_div_le_any: "good_price a \<Longrightarrow> f64_ge1 b \<Longrightarrow> f64_le (f64_div a b) a"
proof -
  assume "good_price a" "f64_ge1 b"
  then obtain q where q: "a = Fin q" "f64_wf (Fin q)" "0 < q" using good_price_Fin by blast
  from \<open>f64_ge1 b\<close> consider "b = PInf" | r where "b = Fin r" "1 \<le> r" by (auto simp: f64_ge1_def)
  then show ?thesis
  proof cases
    case 1
    with q show ?thesis by (auto simp: f64_div_def f64_zero_def f64_le_def)
  next
    case 2
    with f64_div_le [OF q(2,3) 2(2)] q(1) show ?thesis by simp
  qed
qed

lemma as_i64_round_nn: "f64_nn x \<Longrightarrow> 0 \<le> f64_as_i64 (f64_round x)"
proof -
  assume "f64_nn x"
  then consider "x = PInf" | q where "x = Fin q" "0 \<le> q" by (auto simp: f64_nn_def)
  then show ?thesis
  proof cases
    case 2
    have "round_away 0 \<le> round_away q" by (rule round_away_mono [OF 2(2)])
    with 2 show ?thesis by (auto simp: f64_as_i64_def clamp_def i64_max_def)
  qed (simp add: f64_as_i64_def i64_max_def)
qed

lemma f64_of_rat_nonpos: "q \<le> 0 \<Longrightarrow> f64_le (f64_of_rat q) (Fin 0)"
  using f64_of_rat_le [of q 0] f64_of_rat_self [of 0] by simp

lemma f64_max_nn: "f64_nn a \<Longrightarrow> f64_nn b \<Longrightarrow> f64_nn (f64_max a b)"
  by (auto simp: f64_max_def)

end
