(* ===== verification/Payjoin.thy ===== *)
theory Payjoin
  imports Api_Types Rust_IO F64_Order
begin

text \<open>
  The payjoin client (\<open>sideswap_payjoin\<close>): sending an asset when the wallet has no bitcoins for
  the network fee.  The server contributes bitcoin inputs, and is paid for them in the asset.
  \<open>network_fee.rs\<close> estimates the network fee from the number of inputs and outputs,
  \<open>pset.rs\<close> builds, blinds and signs the partially signed transaction, and \<open>lib.rs\<close> runs the
  protocol: ask the server for its terms, choose inputs, construct the transaction, have the server
  sign its inputs and copy these signatures.

  The crates \<open>elements\<close> and \<open>secp256k1_zkp\<close>, the random generator, JSON, base64 and the HTTP
  client are fields of the record \<open>pj_world\<close>; \<open>elements_docs\<close> says what the code relies on.
\<close>

section \<open>Network fee\<close>

definition FEE_RATE :: f64 where "FEE_RATE = f64_of_rat (1 / 10)"
definition WEIGHT_FIXED :: int where "WEIGHT_FIXED = 44"
definition WEIGHT_VIN_SINGLE_SIG :: int where "WEIGHT_VIN_SINGLE_SIG = 367"
definition WEIGHT_VIN_MULTI_SIG :: int where "WEIGHT_VIN_MULTI_SIG = 526"
definition WEIGHT_VOUT :: int where "WEIGHT_VOUT = 4810"
definition WEIGHT_FEE :: int where "WEIGHT_FEE = 178"

definition expected_network_fee :: "nat \<Rightarrow> nat \<Rightarrow> nat \<Rightarrow> u64" where
  "expected_network_fee single_sig_inputs multi_sig_inputs blinded_outputs =
     (let weight = wrap_u64 (WEIGHT_FIXED + WEIGHT_VIN_SINGLE_SIG * int single_sig_inputs
            + WEIGHT_VIN_MULTI_SIG * int multi_sig_inputs + WEIGHT_VOUT * int blinded_outputs + WEIGHT_FEE);
          vsize = u64_add weight 3 div 4
      in f64_as_u64 (f64_ceil (f64_mul (int_as_f64 vsize) FEE_RATE)))"

section \<open>Messages of the server\<close>

record pj_address =
  pa_params :: string
  pa_payload :: string
  pa_blinding_pubkey :: "string option"

record pj_utxo =
  ju_txid :: txid
  ju_vout :: int
  ju_script_pub_key :: script
  ju_asset_id :: asset_id
  ju_value :: u64
  ju_asset_bf :: blinding_factor
  ju_value_bf :: blinding_factor
  ju_asset_commitment :: string
  ju_value_commitment :: string

record start_request =
  sq_asset_id :: asset_id
  sq_user_agent :: string

record start_response =
  st_order_id :: string
  st_expires_at :: u64
  st_fee :: u64
  st_price :: f64
  st_fixed_fee :: u64
  st_fee_address :: pj_address
  st_change_address :: pj_address
  st_utxos :: "pj_utxo list"

record pj_sign_request =
  jr_order_id :: string
  jr_pset :: string

record accepted_asset =
  aa_asset_id :: asset_id
  aa_fee :: u64

datatype pj_request = PJ_Req_AcceptedAssets | PJ_Req_Start start_request | PJ_Req_Sign pj_sign_request
datatype pj_response = PJ_AcceptedAssets "accepted_asset list" | PJ_Start start_response | PJ_Sign string

section \<open>Partially signed transactions\<close>

datatype conf_value = Val_Null | Val_Explicit u64 | Val_Confidential string
datatype conf_asset = Ast_Null | Ast_Explicit asset_id | Ast_Confidential string
datatype conf_nonce = Nonce_Null | Nonce_Explicit string | Nonce_Confidential string

record pj_txout =
  jt_asset :: conf_asset
  jt_value :: conf_value
  jt_nonce :: conf_nonce
  jt_script_pubkey :: script

record pj_in =
  ji_previous_txid :: txid
  ji_previous_vout :: int
  ji_witness_utxo :: "pj_txout option"
  ji_final_script_sig :: "script option"
  ji_final_script_witness :: "string list option"
  ji_proprietary :: "(string, string) btree_map"
  ji_other :: string

record pj_out =
  jo_amount :: "u64 option"
  jo_asset :: "asset_id option"
  jo_script_pubkey :: script
  jo_blinding_key :: "string option"
  jo_blinder_index :: "int option"
  jo_other :: string

record pj_pset =
  jp_inputs :: "pj_in list"
  jp_outputs :: "pj_out list"
  jp_global :: string

record txo_secrets =
  xs_asset :: asset_id
  xs_asset_bf :: blinding_factor
  xs_value :: u64
  xs_value_bf :: blinding_factor

section \<open>The outside\<close>

datatype http_result = Http_Ok string | Http_Transport string | Http_Status int string

datatype pj_event =
    PJ_Post string pj_request http_result
  | PJ_Random "nat list"
  | PJ_Proofs "string option \<times> string option"
  | PJ_Blind pj_pset "pj_pset option"

record pj_world =
  jw_post :: "string \<Rightarrow> pj_request \<Rightarrow> pj_event list \<Rightarrow> http_result"
  jw_dec_response :: "string \<Rightarrow> pj_response option"
  jw_dec_error :: "string \<Rightarrow> string option"
  jw_into_string :: "string \<Rightarrow> string option"
  jw_shuffle :: "nat \<Rightarrow> pj_event list \<Rightarrow> nat list"
  jw_script_pubkey :: "pj_address \<Rightarrow> script"
  jw_from_prevout :: "txid \<Rightarrow> int \<Rightarrow> pj_in"
  jw_from_txout :: "pj_txout \<Rightarrow> pj_out"
  jw_new_fee :: "u64 \<Rightarrow> asset_id \<Rightarrow> pj_txout"
  jw_public_key :: "string \<Rightarrow> string option"
  jw_new_v2 :: pj_pset
  jw_add_input :: "pj_pset \<Rightarrow> pj_in \<Rightarrow> pj_pset"
  jw_add_output :: "pj_pset \<Rightarrow> pj_out \<Rightarrow> pj_pset"
  jw_into_asset_gen :: "conf_asset \<Rightarrow> string option"
  jw_surjection_proof :: "txo_secrets \<Rightarrow> pj_event list \<Rightarrow> string option"
  jw_range_proof :: "txo_secrets \<Rightarrow> string \<Rightarrow> string \<Rightarrow> pj_event list \<Rightarrow> string option"
  jw_pset_pair :: "nat \<Rightarrow> string \<Rightarrow> string"
  jw_ser_value :: "u64 \<Rightarrow> string"
  jw_ser_asset :: "asset_id \<Rightarrow> string"
  jw_ser_proof :: "string \<Rightarrow> string"
  jw_blind_last :: "pj_pset \<Rightarrow> (nat \<times> txo_secrets) list \<Rightarrow> pj_event list \<Rightarrow> pj_pset option"
  jw_pset_encode :: "pj_pset \<Rightarrow> string"
  jw_pset_decode :: "string \<Rightarrow> pj_pset option"
  jw_b64_encode :: "string \<Rightarrow> string"
  jw_b64_decode :: "string \<Rightarrow> string option"
  jw_extract_tx :: "pj_pset \<Rightarrow> string option"

text \<open>
  What the code relies on: a shuffle permutes; a fresh transaction is empty and inputs and outputs are
  appended; an output made of explicit asset and value carries them, has the script, and no blinding
  key yet; a fee output is explicit; an input made of an outpoint refers to it; blinding a transaction
  leaves its inputs alone.
\<close>

definition elements_docs :: "pj_world \<Rightarrow> bool" where
  "elements_docs w \<longleftrightarrow>
     (\<forall>n h. mset (jw_shuffle w n h) = mset [0..<n])
   \<and> jp_inputs (jw_new_v2 w) = [] \<and> jp_outputs (jw_new_v2 w) = []
   \<and> (\<forall>p i. jp_inputs (jw_add_input w p i) = jp_inputs p @ [i] \<and> jp_outputs (jw_add_input w p i) = jp_outputs p)
   \<and> (\<forall>p out. jp_inputs (jw_add_output w p out) = jp_inputs p \<and> jp_outputs (jw_add_output w p out) = jp_outputs p @ [out])
   \<and> (\<forall>t a v. jt_asset t = Ast_Explicit a \<longrightarrow> jt_value t = Val_Explicit v \<longrightarrow>
        jo_asset (jw_from_txout w t) = Some a \<and> jo_amount (jw_from_txout w t) = Some v)
   \<and> (\<forall>t. jo_script_pubkey (jw_from_txout w t) = jt_script_pubkey t \<and> jo_blinding_key (jw_from_txout w t) = None)
   \<and> (\<forall>v a. jt_asset (jw_new_fee w v a) = Ast_Explicit a \<and> jt_value (jw_new_fee w v a) = Val_Explicit v
        \<and> jt_script_pubkey (jw_new_fee w v a) = [])
   \<and> (\<forall>txid vout. ji_previous_txid (jw_from_prevout w txid vout) = txid
        \<and> ji_previous_vout (jw_from_prevout w txid vout) = vout
        \<and> ji_proprietary (jw_from_prevout w txid vout) = [])
   \<and> (\<forall>p secrets h b. jw_blind_last w p secrets h = Some b \<longrightarrow> jp_inputs b = jp_inputs p)"

section \<open>Building the transaction\<close>

definition is_blinded :: "pj_address \<Rightarrow> bool" where
  "is_blinded a \<longleftrightarrow> pa_blinding_pubkey a \<noteq> None"

record pj_input_args =
  ja_txid :: txid
  ja_vout :: int
  ja_script_pub_key :: script
  ja_asset_commitment :: conf_asset
  ja_value_commitment :: conf_value

record pj_output_args =
  jb_address :: pj_address
  jb_asset :: asset_id
  jb_amount :: u64

definition pj_pset_input :: "pj_world \<Rightarrow> pj_input_args \<Rightarrow> pj_in" where
  "pj_pset_input w a =
     (jw_from_prevout w (ja_txid a) (ja_vout a))\<lparr> ji_witness_utxo := Some \<lparr>
        jt_asset = ja_asset_commitment a, jt_value = ja_value_commitment a, jt_nonce = Nonce_Null,
        jt_script_pubkey = ja_script_pub_key a \<rparr> \<rparr>"

definition pj_pset_output :: "pj_world \<Rightarrow> pj_output_args \<Rightarrow> (string, pj_out) outcome" where
  "pj_pset_output w a =
     and_then (ok_or (pa_blinding_pubkey (jb_address a)) ''only blinded addresses allowed'') (\<lambda>blinding_pubkey.
     and_then (ensure (jb_amount a > 0) ''amount > 0'') (\<lambda>_.
     let txout = \<lparr> jt_asset = Ast_Explicit (jb_asset a), jt_value = Val_Explicit (jb_amount a),
           jt_nonce = Nonce_Confidential blinding_pubkey, jt_script_pubkey = jw_script_pubkey w (jb_address a) \<rparr>
     in and_then (unwrap (jw_public_key w blinding_pubkey)) (\<lambda>key.
     Ok ((jw_from_txout w txout)\<lparr> jo_blinding_key := Some key, jo_blinder_index := Some 0 \<rparr>))))"

definition pset_network_fee :: "pj_world \<Rightarrow> asset_id \<Rightarrow> u64 \<Rightarrow> pj_out" where
  "pset_network_fee w asset amount = jw_from_txout w (jw_new_fee w amount asset)"

definition PSET_IN_EXPLICIT_VALUE :: nat where "PSET_IN_EXPLICIT_VALUE = 17"
definition PSET_IN_VALUE_PROOF :: nat where "PSET_IN_VALUE_PROOF = 18"
definition PSET_IN_EXPLICIT_ASSET :: nat where "PSET_IN_EXPLICIT_ASSET = 19"
definition PSET_IN_ASSET_PROOF :: nat where "PSET_IN_ASSET_PROOF = 20"

text \<open>\<open>commitment()\<close>, and the panicking \<open>Vec::remove(0)\<close>.\<close>

fun value_commitment :: "conf_value \<Rightarrow> string option" where
  "value_commitment (Val_Confidential c) = Some c"
| "value_commitment _ = None"

fun remove_first :: "'a list \<Rightarrow> ('e, 'a list) outcome" where
  "remove_first [] = Panic"
| "remove_first (x # xs) = Ok xs"

definition add_input_explicit_proofs ::
    "pj_world \<Rightarrow> pj_in \<Rightarrow> txo_secrets \<Rightarrow> (pj_event, string, pj_in) io" where
  "add_input_explicit_proofs w input secret =
     io_bind (io_lift (unwrap (ji_witness_utxo input))) (\<lambda>utxo.
     io_bind (io_lift (unwrap (jw_into_asset_gen w (jt_asset utxo)))) (\<lambda>asset_gen_blinded.
     io_bind (io_call (jw_surjection_proof w secret) (\<lambda>p. PJ_Proofs (p, None))) (\<lambda>asset_proof.
     io_bind (io_lift (unwrap asset_proof)) (\<lambda>blind_asset_proof.
     io_bind (io_lift (unwrap (value_commitment (jt_value utxo)))) (\<lambda>commitment.
     io_bind (io_call (jw_range_proof w secret commitment asset_gen_blinded) (\<lambda>p. PJ_Proofs (None, p))) (\<lambda>value_proof.
     io_bind (io_lift (ok_or value_proof ''range proof'')) (\<lambda>blind_value_proof.
     let proprietary = btree_insert (jw_pset_pair w PSET_IN_EXPLICIT_VALUE []) (jw_ser_value w (xs_value secret)) (ji_proprietary input);
         proprietary = btree_insert (jw_pset_pair w PSET_IN_EXPLICIT_ASSET []) (jw_ser_asset w (xs_asset secret)) proprietary
     in
     io_bind (io_lift (remove_first (jw_ser_proof w blind_value_proof))) (\<lambda>blind_value_proof.
     io_bind (io_lift (remove_first (jw_ser_proof w blind_asset_proof))) (\<lambda>blind_asset_proof.
     let proprietary = btree_insert (jw_pset_pair w PSET_IN_VALUE_PROOF []) blind_value_proof proprietary;
         proprietary = btree_insert (jw_pset_pair w PSET_IN_ASSET_PROOF []) blind_asset_proof proprietary
     in io_return (input\<lparr> ji_proprietary := proprietary \<rparr>))))))))))"

definition remove_explicit_input :: "pj_world \<Rightarrow> pj_in \<Rightarrow> pj_in" where
  "remove_explicit_input w input =
     input\<lparr> ji_proprietary := fold (\<lambda>subtype. btree_remove (jw_pset_pair w subtype []))
       [PSET_IN_EXPLICIT_VALUE, PSET_IN_EXPLICIT_ASSET, PSET_IN_VALUE_PROOF, PSET_IN_ASSET_PROOF] (ji_proprietary input) \<rparr>"

definition remove_explicit_values :: "pj_world \<Rightarrow> pj_pset \<Rightarrow> pj_pset" where
  "remove_explicit_values w pset = pset\<lparr> jp_inputs := map (remove_explicit_input w) (jp_inputs pset) \<rparr>"

definition copy_signature :: "pj_in \<Rightarrow> pj_in \<Rightarrow> pj_in" where
  "copy_signature dst src =
     (if ji_final_script_witness src \<noteq> None then
        dst\<lparr> ji_final_script_sig := ji_final_script_sig src, ji_final_script_witness := ji_final_script_witness src \<rparr>
      else dst)"

definition copy_signatures :: "pj_pset \<Rightarrow> pj_pset \<Rightarrow> (string, pj_pset) outcome" where
  "copy_signatures dst src =
     and_then (ensure (length (jp_inputs dst) = length (jp_inputs src)) ''inputs'') (\<lambda>_.
     and_then (ensure (length (jp_outputs dst) = length (jp_outputs src)) ''outputs'') (\<lambda>_.
     Ok (dst\<lparr> jp_inputs := map2 copy_signature (jp_inputs dst) (jp_inputs src) \<rparr>)))"

text \<open>\<open>shuffle\<close> and \<open>swap\<close> of slices.\<close>

definition shuffled :: "'a list \<Rightarrow> nat list \<Rightarrow> 'a list" where
  "shuffled xs perm = map ((!) xs) perm"

definition list_swap :: "'a list \<Rightarrow> nat \<Rightarrow> nat \<Rightarrow> 'a list" where
  "list_swap xs i j = xs[i := xs ! j, j := xs ! i]"

definition add_proved_input :: "pj_world \<Rightarrow> pj_in \<times> txo_secrets \<Rightarrow> pj_pset \<Rightarrow> (pj_event, string, pj_pset) io" where
  "add_proved_input w x pset =
     io_bind (add_input_explicit_proofs w (fst x) (snd x)) (\<lambda>input. io_return (jw_add_input w pset input))"

definition randomize_and_blind_pset ::
    "pj_world \<Rightarrow> pj_pset \<Rightarrow> txo_secrets list \<Rightarrow> (pj_event, string, pj_pset) io" where
  "randomize_and_blind_pset w pset input_secrets =
     io_bind (io_lift (ensure (length (jp_inputs pset) = length input_secrets) ''inputs'')) (\<lambda>_.
     let inputs = zip (jp_inputs pset) input_secrets; outputs = jp_outputs pset in
     io_bind (io_call (jw_shuffle w (length inputs)) PJ_Random) (\<lambda>perm.
     let inputs = shuffled inputs perm in
     io_bind (io_call (jw_shuffle w (length outputs)) PJ_Random) (\<lambda>perm.
     let outputs = shuffled outputs perm in
     io_bind (io_lift (ok_or (position (\<lambda>out. jo_blinding_key out = None) outputs) (''can'' @ [CHR 0x27] @ ''t find network fee output''))) (\<lambda>fee_output.
     let output_count = length outputs; outputs = list_swap outputs fee_output (output_count - 1) in
     io_bind (io_fold (add_proved_input w) inputs (jw_new_v2 w)) (\<lambda>pset.
     let pset = fold (\<lambda>out pset. jw_add_output w pset out) outputs pset;
         inp_txout_sec = enumerate 0 (map snd inputs)
     in
     io_bind (io_call (jw_blind_last w pset inp_txout_sec) (PJ_Blind pset)) (\<lambda>blinded.
     io_lift (ok_or blinded ''blind'')))))))"

section \<open>The protocol\<close>

record construct_pset_args =
  ca_selected_utxos :: "pj_utxo list"
  ca_send_address :: pj_address
  ca_send_asset_id :: asset_id
  ca_send_amount :: u64
  ca_fee_address :: pj_address
  ca_fixed_fee :: u64
  ca_price :: f64
  ca_client_change_address :: pj_address
  ca_utxo_asset_amount :: u64
  ca_utxo_lbtc_amount :: u64
  ca_server_change_address :: pj_address
  ca_lbtc_asset_id :: asset_id

definition payjoin_asset_fee :: "u64 \<Rightarrow> f64 \<Rightarrow> u64 \<Rightarrow> u64" where
  "payjoin_asset_fee fixed_fee price network_fee =
     u64_add fixed_fee (f64_as_u64 (f64_round (f64_mul price (int_as_f64 network_fee))))"

definition utxo_input :: "pj_world \<Rightarrow> pj_utxo \<Rightarrow> pj_in" where
  "utxo_input w u = pj_pset_input w \<lparr> ja_txid = ju_txid u, ja_vout = ju_vout u, ja_script_pub_key = ju_script_pub_key u,
     ja_asset_commitment = Ast_Confidential (ju_asset_commitment u),
     ja_value_commitment = Val_Confidential (ju_value_commitment u) \<rparr>"

definition utxo_secrets :: "pj_utxo \<Rightarrow> txo_secrets" where
  "utxo_secrets u = \<lparr> xs_asset = ju_asset_id u, xs_asset_bf = ju_asset_bf u, xs_value = ju_value u, xs_value_bf = ju_value_bf u \<rparr>"

definition add_payment :: "pj_world \<Rightarrow> pj_address \<Rightarrow> asset_id \<Rightarrow> u64 \<Rightarrow> pj_pset \<Rightarrow> (string, pj_pset) outcome" where
  "add_payment w address asset amount pset =
     and_then (pj_pset_output w \<lparr> jb_address = address, jb_asset = asset, jb_amount = amount \<rparr>) (\<lambda>out.
     Ok (jw_add_output w pset out))"

definition unblinded_pset :: "pj_world \<Rightarrow> construct_pset_args \<Rightarrow> (string, pj_pset) outcome" where
  "unblinded_pset w a =
     (let pset = fold (\<lambda>u pset. jw_add_input w pset (utxo_input w u)) (ca_selected_utxos a) (jw_new_v2 w) in
      and_then (add_payment w (ca_send_address a) (ca_send_asset_id a) (ca_send_amount a) pset) (\<lambda>pset.
      let network_fee = expected_network_fee (length (jp_inputs pset)) 0 4;
          asset_fee = payjoin_asset_fee (ca_fixed_fee a) (ca_price a) network_fee in
      and_then (add_payment w (ca_fee_address a) (ca_send_asset_id a) asset_fee pset) (\<lambda>pset.
      let asset_change_amount = u64_sub (u64_sub (ca_utxo_asset_amount a) (ca_send_amount a)) asset_fee in
      and_then (if asset_change_amount > 0
        then add_payment w (ca_client_change_address a) (ca_send_asset_id a) asset_change_amount pset else Ok pset) (\<lambda>pset.
      let lbtc_change_amount = u64_sub (ca_utxo_lbtc_amount a) network_fee in
      and_then (if lbtc_change_amount > 0
        then add_payment w (ca_server_change_address a) (ca_lbtc_asset_id a) lbtc_change_amount pset else Ok pset) (\<lambda>pset.
      Ok (jw_add_output w pset (pset_network_fee w (ca_lbtc_asset_id a) network_fee)))))))"

definition construct_pset :: "pj_world \<Rightarrow> construct_pset_args \<Rightarrow> (pj_event, string, pj_pset) io" where
  "construct_pset w a =
     io_bind (io_lift (unblinded_pset w a)) (\<lambda>pset.
     randomize_and_blind_pset w pset (map utxo_secrets (ca_selected_utxos a)))"

record create_payjoin_req =
  cp_base_url :: string
  cp_user_agent :: string
  cp_asset_id :: asset_id
  cp_amount :: u64
  cp_address :: pj_address
  cp_subtract_fee_from_amount :: bool
  cp_change_address :: pj_address
  cp_utxos :: "pj_utxo list"

record created_payjoin =
  cd_pset :: pj_pset
  cd_asset_fee :: u64

definition make_server_request :: "pj_world \<Rightarrow> string \<Rightarrow> pj_request \<Rightarrow> (pj_event, string, pj_response) io" where
  "make_server_request w url req =
     io_bind (io_call (jw_post w url req) (PJ_Post url req)) (\<lambda>res. case res of
        Http_Ok body \<Rightarrow> io_lift (ok_or (jw_dec_response w body) ''json'')
      | Http_Transport err \<Rightarrow> io_lift (Err (''unexpected HTTP transport error: '' @ err))
      | Http_Status status body \<Rightarrow>
          (if status = 400 then io_bind (io_lift (ok_or (jw_dec_error w body) ''json'')) (\<lambda>err.
             io_lift (Err (''unexpected server error: '' @ err)))
           else io_bind (io_lift (ok_or (jw_into_string w body) ''text'')) (\<lambda>err.
             io_lift (Err (''unexpected HTTP status: '' @ err)))))"

text \<open>The loop that takes coins until they cover an amount: what it took and their sum.\<close>

fun take_utxos :: "u64 \<Rightarrow> pj_utxo list \<Rightarrow> u64 \<Rightarrow> pj_utxo list \<Rightarrow> u64 \<times> pj_utxo list" where
  "take_utxos needed [] amount selected = (amount, selected)"
| "take_utxos needed (u # us) amount selected =
     (let amount = u64_add amount (ju_value u); selected = selected @ [u] in
      if amount \<ge> needed then (amount, selected) else take_utxos needed us amount selected)"

definition check_request :: "create_payjoin_req \<Rightarrow> (string, unit) outcome" where
  "check_request req =
     and_then (ensure (cp_utxos req \<noteq> []) ''client_utxos'') (\<lambda>_.
     and_then (ensure (list_all (\<lambda>u. ju_asset_id u = cp_asset_id req) (cp_utxos req)) ''asset_id'') (\<lambda>_.
     and_then (ensure (is_blinded (cp_address req)) ''send_address'') (\<lambda>_.
     and_then (ensure (is_blinded (cp_change_address req)) ''client_change_address'') (\<lambda>_.
     and_then (ensure (pa_params (cp_address req) = pa_params (cp_change_address req)) ''params'') (\<lambda>_.
     ensure (cp_amount req > 0) ''send_amount'')))))"

definition payjoin_max_fees :: "create_payjoin_req \<Rightarrow> start_response \<Rightarrow> u64 \<times> u64" where
  "payjoin_max_fees req st =
     (let max_network_fee = expected_network_fee (length (cp_utxos req) + length (st_utxos st)) 0 4
      in (max_network_fee, payjoin_asset_fee (st_fixed_fee st) (st_price st) max_network_fee))"

definition plan_payjoin :: "create_payjoin_req \<Rightarrow> start_response \<Rightarrow> (string, construct_pset_args \<times> u64) outcome" where
  "plan_payjoin req st =
     and_then (ensure (pa_params (cp_address req) = pa_params (st_fee_address st)) ''params'') (\<lambda>_.
     and_then (ensure (pa_params (cp_address req) = pa_params (st_change_address st)) ''params'') (\<lambda>_.
     and_then (ensure (is_blinded (st_fee_address st)) ''fee_address'') (\<lambda>_.
     and_then (ensure (is_blinded (st_change_address st)) ''server_change_address'') (\<lambda>_.
     and_then (ensure (st_utxos st \<noteq> []) ''server_utxos'') (\<lambda>_.
     let (max_network_fee, max_asset_fee) = payjoin_max_fees req st in
     and_then (if cp_subtract_fee_from_amount req
       then and_then (ensure (cp_amount req > max_asset_fee) ''send_amount'') (\<lambda>_. Ok (u64_sub (cp_amount req) max_asset_fee))
       else Ok (cp_amount req)) (\<lambda>send_amount.
     and_then (unwrap (if st_utxos st = [] then None else Some (hd (st_utxos st)))) (\<lambda>first.
     let lbtc_asset_id = ju_asset_id first;
         (utxo_asset_amount, selected) = take_utxos (u64_add send_amount max_asset_fee) (cp_utxos req) 0 [];
         (utxo_lbtc_amount, selected) = take_utxos max_network_fee (st_utxos st) 0 selected
     in
     and_then (ensure (utxo_asset_amount \<ge> u64_add send_amount max_asset_fee) ''utxo_asset_amount'') (\<lambda>_.
     and_then (ensure (utxo_lbtc_amount \<ge> max_network_fee) ''utxo_lbtc_amount'') (\<lambda>_.
     Ok (\<lparr> ca_selected_utxos = selected, ca_send_address = cp_address req, ca_send_asset_id = cp_asset_id req,
          ca_send_amount = send_amount, ca_fee_address = st_fee_address st, ca_fixed_fee = st_fixed_fee st, ca_price = st_price st,
          ca_client_change_address = cp_change_address req, ca_utxo_asset_amount = utxo_asset_amount,
          ca_utxo_lbtc_amount = utxo_lbtc_amount, ca_server_change_address = st_change_address st,
          ca_lbtc_asset_id = lbtc_asset_id \<rparr>, max_asset_fee))))))))))"

fun start_of :: "pj_response \<Rightarrow> (string, start_response) outcome" where
  "start_of (PJ_Start resp) = Ok resp"
| "start_of _ = Err ''unexpected response''"

fun sign_of :: "pj_response \<Rightarrow> (string, string) outcome" where
  "sign_of (PJ_Sign resp) = Ok resp"
| "sign_of _ = Err ''unexpected response''"

definition sign_payjoin :: "pj_world \<Rightarrow> string \<Rightarrow> string \<Rightarrow> pj_pset \<Rightarrow> (pj_event, string, pj_pset) io" where
  "sign_payjoin w url order_id blinded_pset =
     (let server_pset = jw_pset_encode w (remove_explicit_values w blinded_pset) in
      io_bind (make_server_request w url (PJ_Req_Sign \<lparr> jr_order_id = order_id, jr_pset = jw_b64_encode w server_pset \<rparr>)) (\<lambda>resp.
      io_bind (io_lift (sign_of resp)) (\<lambda>server_signed_pset.
      io_bind (io_lift (ok_or (jw_b64_decode w server_signed_pset) ''base64'')) (\<lambda>bytes.
      io_bind (io_lift (ok_or (jw_pset_decode w bytes) ''pset'')) (\<lambda>server_signed_pset.
      io_lift (copy_signatures blinded_pset server_signed_pset))))))"

definition create_payjoin :: "pj_world \<Rightarrow> create_payjoin_req \<Rightarrow> (pj_event, string, created_payjoin) io" where
  "create_payjoin w req =
     io_bind (io_lift (check_request req)) (\<lambda>_.
     let url = cp_base_url req @ ''/payjoin'' in
     io_bind (make_server_request w url (PJ_Req_Start \<lparr> sq_asset_id = cp_asset_id req, sq_user_agent = cp_user_agent req \<rparr>)) (\<lambda>resp.
     io_bind (io_lift (start_of resp)) (\<lambda>st.
     io_bind (io_lift (plan_payjoin req st)) (\<lambda>(args, max_asset_fee).
     io_bind (construct_pset w args) (\<lambda>blinded_pset.
     io_bind (sign_payjoin w url (st_order_id st) blinded_pset) (\<lambda>pset.
     io_return \<lparr> cd_pset = pset, cd_asset_fee = max_asset_fee \<rparr>))))))"

definition final_tx :: "pj_world \<Rightarrow> pj_pset \<Rightarrow> pj_pset \<Rightarrow> (string, string) outcome" where
  "final_tx w pset_client pset_server =
     and_then (copy_signatures pset_client pset_server) (\<lambda>pset. ok_or (jw_extract_tx w pset) ''extract_tx'')"

end
