(* ===== verification/Jade_Types.thy ===== *)
theory Jade_Types
  imports Client_Base
begin

text \<open>
  The messages of the hardware wallet Jade (\<open>sideswap_jade/src/models.rs\<close> and the enumerations of
  \<open>sideswap_jade/src/lib.rs\<close>), and the two data formats they are exchanged in: JSON values
  (\<open>serde_json::Value\<close>) and CBOR values (\<open>ciborium::Value\<close>), with the conversions the code
  has between them.  Byte vectors are strings.
\<close>

section \<open>JSON and CBOR\<close>

text \<open>A JSON number as far as the code looks at it: an \<open>i64\<close>, a finite \<open>f64\<close>, or neither.\<close>

datatype json_number = Num_I64 i64 | Num_F64 f64 | Num_Text string

datatype (plugins only: code size) json =
    J_Null
  | J_Bool bool
  | J_Number json_number
  | J_String string
  | J_Array "json list"
  | J_Object "(string \<times> json) list"

datatype (plugins only: code size) cbor =
    C_Integer int
  | C_Bytes string
  | C_Float f64
  | C_Text string
  | C_Bool bool
  | C_Null
  | C_Tag int cbor
  | C_Array "cbor list"
  | C_Map "(cbor \<times> cbor) list"

text \<open>\<open>gdk_ses_impl::convert_value\<close>.\<close>

fun convert_value :: "json \<Rightarrow> cbor" where
  "convert_value J_Null = C_Null"
| "convert_value (J_Bool b) = C_Bool b"
| "convert_value (J_Number (Num_I64 n)) = C_Integer n"
| "convert_value (J_Number (Num_F64 f)) = C_Float f"
| "convert_value (J_Number (Num_Text t)) = C_Text t"
| "convert_value (J_String s) = C_Text s"
| "convert_value (J_Array xs) = C_Array (map convert_value xs)"
| "convert_value (J_Object m) = C_Map (map (\<lambda>(key, v). (C_Text key, convert_value v)) m)"

text \<open>\<open>collect\<close> into a \<open>Result\<close> stops at the first error.\<close>

fun collect_ok :: "('e, 'a) outcome list \<Rightarrow> ('e, 'a list) outcome" where
  "collect_ok [] = Ok []"
| "collect_ok (r # rs) = and_then r (\<lambda>x. map_ok ((#) x) (collect_ok rs))"

fun json_to_cbor :: "json \<Rightarrow> (string, cbor) outcome" where
  "json_to_cbor J_Null = Ok C_Null"
| "json_to_cbor (J_Bool b) = Ok (C_Bool b)"
| "json_to_cbor (J_String s) = Ok (C_Text s)"
| "json_to_cbor (J_Number (Num_F64 f)) = Ok (C_Float f)"
| "json_to_cbor (J_Number n) = Err ''unsupported number''"
| "json_to_cbor (J_Array xs) = map_ok C_Array (collect_ok (map json_to_cbor xs))"
| "json_to_cbor (J_Object m) =
     map_ok C_Map (collect_ok (map (\<lambda>(key, v). map_ok (\<lambda>v. (C_Text key, v)) (json_to_cbor v)) m))"

definition number_from_f64 :: "f64 \<Rightarrow> json_number option" where
  "number_from_f64 f = (case f of Fin _ \<Rightarrow> Some (Num_F64 f) | NZero \<Rightarrow> Some (Num_F64 f) | _ \<Rightarrow> None)"

definition as_text :: "cbor \<Rightarrow> string" where
  "as_text c = (case c of C_Text t \<Rightarrow> t | _ \<Rightarrow> [])"

definition json_object :: "(string \<times> json) list \<Rightarrow> json" where
  "json_object kvs = J_Object (fold (\<lambda>(k, v). btree_insert k v) kvs [])"

fun cbor_to_json :: "cbor \<Rightarrow> (string, json) outcome" where
  "cbor_to_json (C_Integer n) =
     map_ok J_Number (ok_or (number_from_f64 (int_as_f64 n)) ''integer number conversion failed'')"
| "cbor_to_json (C_Float f) = map_ok J_Number (ok_or (number_from_f64 f) ''float number conversion failed'')"
| "cbor_to_json (C_Text t) = Ok (J_String t)"
| "cbor_to_json (C_Bool b) = Ok (J_Bool b)"
| "cbor_to_json C_Null = Ok J_Null"
| "cbor_to_json (C_Array xs) = map_ok J_Array (collect_ok (map cbor_to_json xs))"
| "cbor_to_json (C_Map m) =
     map_ok json_object (collect_ok (map (\<lambda>(key, v). map_ok (Pair (as_text key)) (cbor_to_json v)) m))"
| "cbor_to_json (C_Bytes _) = Err ''unsupported CBOR value''"
| "cbor_to_json (C_Tag _ _) = Err ''unsupported CBOR value''"

text \<open>The JSON values the code can get: the keys of an object are sorted and different, floats are finite.\<close>

fun json_wf :: "json \<Rightarrow> bool" where
  "json_wf (J_Number (Num_F64 f)) \<longleftrightarrow> number_from_f64 f \<noteq> None"
| "json_wf (J_Array xs) \<longleftrightarrow> (\<forall>x \<in> set xs. json_wf x)"
| "json_wf (J_Object m) \<longleftrightarrow> btree_inv m \<and> (\<forall>(k, v) \<in> set m. json_wf v)"
| "json_wf _ \<longleftrightarrow> True"

lemma map_ok_Ok_iff [simp]: "map_ok f r = Ok y \<longleftrightarrow> (\<exists>x. r = Ok x \<and> y = f x)"
  by (cases r) auto

lemma collect_ok_Ok_iff: "collect_ok rs = Ok xs \<longleftrightarrow> rs = map Ok xs"
  by (induction rs arbitrary: xs) (auto simp: Cons_eq_map_conv)

lemma btree_insert_last: "\<forall>k' \<in> fst ` set m. k' < k \<Longrightarrow> btree_insert k v m = m @ [(k, v)]"
  by (induction k v m rule: btree_insert.induct) auto

lemma fold_btree_insert_sorted:
  "btree_inv (m @ m') \<Longrightarrow> fold (\<lambda>(k, v). btree_insert k v) m' m = m @ m'"
proof (induction m' arbitrary: m)
  case (Cons kv m')
  then have "btree_insert (fst kv) (snd kv) m = m @ [kv]"
    by (subst btree_insert_last) (auto simp: btree_inv_def sorted_wrt_append)
  with Cons show ?case by (simp add: case_prod_beta)
qed simp

lemma json_object_sorted: "btree_inv m \<Longrightarrow> json_object m = J_Object m"
  using fold_btree_insert_sorted [of "[]" m] by (simp add: json_object_def)


lemma map_Ok_transfer:
  assumes "map f xs = map Ok ys" and "\<And>x y. x \<in> set xs \<Longrightarrow> f x = Ok y \<Longrightarrow> g y = Ok x"
  shows "map g ys = map Ok xs"
  using assms
proof (induction xs arbitrary: ys)
  case (Cons x xs)
  then show ?case by (cases ys) auto
qed simp

text \<open>What is sent to a web service as JSON and comes back as CBOR loses nothing.\<close>

lemma json_cbor_roundtrip: "json_wf j \<Longrightarrow> json_to_cbor j = Ok c \<Longrightarrow> cbor_to_json c = Ok j"
proof (induction j arbitrary: c rule: json_to_cbor.induct)
  case (4 f)
  then show ?case by (auto simp: number_from_f64_def split: f64.splits)
next
  case (6 xs)
  then obtain cs where cs: "c = C_Array cs" "map json_to_cbor xs = map Ok cs" by (auto simp: collect_ok_Ok_iff)
  have "map cbor_to_json cs = map Ok xs"
    by (rule map_Ok_transfer [OF cs(2)]) (use 6 in auto)
  then show ?case by (simp add: cs(1) collect_ok_Ok_iff)
next
  case (7 m)
  then obtain cs where cs: "c = C_Map cs" "map (\<lambda>(key, v). map_ok (\<lambda>v. (C_Text key, v)) (json_to_cbor v)) m = map Ok cs"
    by (auto simp: collect_ok_Ok_iff)
  have "map (\<lambda>(key, v). map_ok (Pair (as_text key)) (cbor_to_json v)) cs = map Ok m"
    by (rule map_Ok_transfer [OF cs(2)]) (use 7 in \<open>auto simp: as_text_def\<close>)
  with 7(2) show ?case by (auto simp: cs(1) collect_ok_Ok_iff json_object_sorted)
qed auto

section \<open>Numbers as text\<close>

definition is_i32 :: "int \<Rightarrow> bool" where "is_i32 n \<longleftrightarrow> - 2147483648 \<le> n \<and> n \<le> 2147483647"

definition i32_add :: "int \<Rightarrow> int \<Rightarrow> int" where
  "i32_add a b = (a + b + 2147483648) mod 4294967296 - 2147483648"

fun parse_digits :: "int \<Rightarrow> string \<Rightarrow> int option" where
  "parse_digits n [] = Some n"
| "parse_digits n (c # cs) = (let d = of_char c - 48 in if 0 \<le> d \<and> d \<le> 9 then parse_digits (10 * n + d) cs else None)"

definition parse_nat :: "string \<Rightarrow> int option" where
  "parse_nat s = (if s = [] then None else parse_digits 0 s)"

text \<open>\<open>str::parse::<i32>\<close>.\<close>

definition parse_i32 :: "string \<Rightarrow> int option" where
  "parse_i32 s =
     (let n = (if s \<noteq> [] \<and> hd s = CHR ''-'' then map_option uminus (parse_nat (tl s))
               else if s \<noteq> [] \<and> hd s = CHR ''+'' then parse_nat (tl s)
               else parse_nat s)
      in case n of Some n \<Rightarrow> if is_i32 n then Some n else None | None \<Rightarrow> None)"

lemma i32_add_range [simp]: "is_i32 (i32_add a b)"
  by (simp add: is_i32_def i32_add_def)

lemma decimal_digit_value: "0 \<le> d \<Longrightarrow> d \<le> 9 \<Longrightarrow> of_char (decimal_digit d) = 48 + d"
  using of_nat_of_char [of "decimal_digit d", where 'a = int] by (simp add: decimal_digit_def)

lemma parse_digits_append: "parse_digits n (xs @ ys) = Option.bind (parse_digits n xs) (\<lambda>m. parse_digits m ys)"
  by (induction n xs rule: parse_digits.induct) (auto simp: Let_def)

lemma parse_digits_show: "0 \<le> n \<Longrightarrow> parse_digits 0 (show_nat_digits n) = Some n"
proof (induction n rule: show_nat_digits.induct)
  case (1 n)
  then show ?case by (subst show_nat_digits.simps) (auto simp: parse_digits_append decimal_digit_value Let_def)
qed

lemma show_nat_digits_first: "0 \<le> n \<Longrightarrow> \<exists>d ds. show_nat_digits n = decimal_digit d # ds \<and> 0 \<le> d \<and> d \<le> 9"
proof (induction n rule: show_nat_digits.induct)
  case (1 n)
  then show ?case by (subst show_nat_digits.simps) fastforce
qed

lemma decimal_digit_no_sign: "0 \<le> d \<Longrightarrow> d \<le> 9 \<Longrightarrow> decimal_digit d \<noteq> CHR ''-'' \<and> decimal_digit d \<noteq> CHR ''+''"
  using decimal_digit_value [of d] by auto

lemma parse_nat_show: "0 \<le> n \<Longrightarrow> parse_nat (show_nat_digits n) = Some n"
  using show_nat_digits_first [of n] by (auto simp: parse_nat_def parse_digits_show)

text \<open>A request id that was printed is read back.\<close>

lemma parse_show_i32: "is_i32 n \<Longrightarrow> parse_i32 (show_int n) = Some n"
proof (cases "n < 0")
  case True
  then show "is_i32 n \<Longrightarrow> ?thesis" by (simp add: parse_i32_def show_int_def parse_nat_show)
next
  case False
  then obtain d ds where d: "show_nat_digits n = decimal_digit d # ds" "0 \<le> d" "d \<le> 9"
    using show_nat_digits_first [of n] by auto
  then have "parse_nat (decimal_digit d # ds) = Some n" using parse_nat_show [of n] False by simp
  then show "is_i32 n \<Longrightarrow> ?thesis"
    using decimal_digit_no_sign [OF d(2,3)] False d by (simp add: parse_i32_def show_int_def)
qed

section \<open>Messages of the device\<close>

datatype status_network = SN_All | SN_Main | SN_Test
datatype lock_state = Dev_Ready | Dev_Temp | Dev_Unsaved | Dev_Locked | Dev_Uninit
datatype jade_network = JN_Liquid | JN_TestnetLiquid
datatype blinding_factor_type = BF_Asset | BF_Value
datatype output_variant = V_P2pkh | V_P2wpkh | V_P2wpkhP2sh | V_MultiP2wsh | V_MultiP2sh | V_MultiP2wshP2sh

fun network_name :: "jade_network \<Rightarrow> string" where
  "network_name JN_Liquid = ''liquid''"
| "network_name JN_TestnetLiquid = ''testnet-liquid''"

type_synonym bytes = string
type_synonym key_path = "int list"

text \<open>\<open>models::AssetId\<close>: the bytes of an asset id in reverse order.\<close>

definition jade_asset_id :: "asset_id \<Rightarrow> bytes" where "jade_asset_id a = rev a"

record version_info =
  vi_jade_version :: string
  vi_jade_state :: lock_state
  vi_jade_networks :: status_network
  vi_jade_has_pin :: bool
  vi_efusemac :: string

record auth_request =
  au_urls :: "string list"
  au_method :: string
  au_accept :: string
  au_data :: cbor
  au_on_reply :: string

record get_commitments_req =
  gc_asset_id :: bytes
  gc_value :: u64
  gc_hash_prevouts :: bytes
  gc_output_index :: int
  gc_vbf :: "bytes option"

record jade_commitments =
  jc_abf :: bytes
  jc_vbf :: bytes
  jc_asset_generator :: bytes
  jc_value_commitment :: bytes
  jc_asset_id :: bytes
  jc_value :: u64

record trusted_commitment =
  tc_asset_id :: bytes
  tc_value :: u64
  tc_asset_generator :: bytes
  tc_value_commitment :: bytes
  tc_blinding_key :: bytes
  tc_abf :: blinding_factor
  tc_vbf :: blinding_factor

record jade_output =
  ou_variant :: "output_variant option"
  ou_path :: key_path
  ou_recovery_xpub :: "string option"
  ou_is_change :: bool

record asset_info =
  af_asset_id :: string
  af_contract :: cbor
  af_issuance_prevout :: "string \<times> int"

text \<open>The transaction type is always a swap.\<close>

record sign_tx_info =
  si_is_partial :: bool
  si_wallet_input_summary :: "(bytes \<times> u64) list"
  si_wallet_output_summary :: "(bytes \<times> u64) list"

record req_sign_tx =
  rs_network :: string
  rs_use_ae_signatures :: bool
  rs_txn :: bytes
  rs_num_inputs :: int
  rs_trusted_commitments :: "trusted_commitment option list"
  rs_change :: "jade_output option list"
  rs_asset_info :: "asset_info list"
  rs_additional_info :: "sign_tx_info option"

record req_tx_input =
  rt_is_witness :: bool
  rt_path :: key_path
  rt_script :: bytes
  rt_sighash :: "int option"
  rt_value_commitment :: bytes
  rt_ae_host_commitment :: bytes
  rt_ae_host_entropy :: bytes
  rt_value :: u64
  rt_abf :: blinding_factor
  rt_vbf :: blinding_factor
  rt_asset_id :: bytes
  rt_asset_generator :: bytes

text \<open>\<open>Req\<close> and \<open>Resp\<close>: what the client asks and is answered.\<close>

datatype (plugins only: code) jade_req =
    JR_ReadStatus
  | JR_AuthUser jade_network
  | JR_ResolveXpub jade_network key_path
  | JR_GetMasterBlindingKey
  | JR_SignMessage key_path string bytes
  | JR_GetSignature "bytes option"
  | JR_GetSharedNonce bytes bytes
  | JR_GetBlindingKey bytes
  | JR_GetBlindingFactor bytes int blinding_factor_type
  | JR_GetCommitments get_commitments_req
  | JR_SignTx req_sign_tx
  | JR_TxInput "req_tx_input option"

datatype (plugins only: code) jade_resp =
    JA_ReadStatus version_info
  | JA_AuthUser bool
  | JA_ResolveXpub string
  | JA_GetMasterBlindingKey bytes
  | JA_SignMessage bytes
  | JA_GetSignature "bytes option"
  | JA_GetSharedNonce bytes
  | JA_GetBlindingKey bytes
  | JA_GetBlindingFactor bytes
  | JA_GetCommitments jade_commitments
  | JA_SignTx bool
  | JA_TxInput bytes

text \<open>\<open>WorkerResp\<close>.\<close>

datatype (plugins only: code) worker_resp = WR_Resp "string + jade_resp" | WR_FatalError string

text \<open>The requests as they go to the device (\<open>models::Req\<close>): id, method and parameters.\<close>

datatype (plugins only: code) jade_params =
    P_None
  | P_Cbor cbor
  | P_AuthUser string
  | P_GetXPub string key_path
  | P_SignMessage key_path string bytes
  | P_GetSignature "bytes option"
  | P_GetSharedNonce bytes bytes
  | P_GetBlindingKey bytes
  | P_GetBlindingFactor bytes int string
  | P_GetCommitments get_commitments_req
  | P_SignTx req_sign_tx
  | P_TxInput req_tx_input
  | P_TxInputEmpty

record wire_req =
  wr_id :: string
  wr_method :: string
  wr_params :: jade_params

record 'a wire_resp =
  ws_id :: string
  ws_result :: "'a option"
  ws_error :: "(int \<times> string) option"

end
