(* ===== verification/Jade_Device.thy ===== *)
theory Jade_Device
  imports Jade_Types
begin

text \<open>
  The serial port of the hardware wallet Jade (\<open>sideswap_jade/src/serial.rs\<close>, \<open>reader.rs\<close>): the
  thread that writes requests and cuts what it reads into CBOR messages, and that the pieces in which the
  data arrives do not matter.  The port itself and the decoder of the crate \<open>ciborium\<close> are outside.
\<close>

section \<open>Reading from the port\<close>

record buf_reader =
  rd_data :: bytes
  rd_pos :: nat

definition buf_empty :: buf_reader where "buf_empty = \<lparr> rd_data = [], rd_pos = 0 \<rparr>"

definition read_exact :: "buf_reader \<Rightarrow> nat \<Rightarrow> (bytes \<times> buf_reader) option" where
  "read_exact buf n =
     (if rd_pos buf + n \<le> length (rd_data buf)
      then Some (take n (drop (rd_pos buf) (rd_data buf)), buf \<lparr> rd_pos := rd_pos buf + n \<rparr>) else None)"

definition reset_pos :: "buf_reader \<Rightarrow> buf_reader" where "reset_pos buf = buf \<lparr> rd_pos := 0 \<rparr>"

definition remove_read :: "buf_reader \<Rightarrow> bytes \<times> buf_reader" where
  "remove_read buf = (take (rd_pos buf) (rd_data buf), \<lparr> rd_data = drop (rd_pos buf) (rd_data buf), rd_pos = 0 \<rparr>)"

definition append_data :: "buf_reader \<Rightarrow> bytes \<Rightarrow> buf_reader" where
  "append_data buf data = buf \<lparr> rd_data := rd_data buf @ data \<rparr>"

text \<open>The decoder says which value the data starts with and how many bytes it has read for it.\<close>

type_synonym decoder = "bytes \<Rightarrow> (cbor \<times> nat) option"

definition from_reader :: "decoder \<Rightarrow> buf_reader \<Rightarrow> (cbor \<times> buf_reader) option" where
  "from_reader dec buf = (case dec (drop (rd_pos buf) (rd_data buf)) of
      None \<Rightarrow> None
    | Some (v, n) \<Rightarrow> (case read_exact buf n of None \<Rightarrow> None | Some (_, buf) \<Rightarrow> Some (v, buf)))"

definition is_log_message :: "cbor \<Rightarrow> bool" where
  "is_log_message v = (case v of C_Map m \<Rightarrow> list_ex (\<lambda>(key, _). key = C_Text ''log'') m | _ \<Rightarrow> False)"

text \<open>The inner loop: take complete messages off the buffer.  Every message has at least one byte, so the
  length of the buffer bounds the number of rounds.\<close>

fun take_messages :: "decoder \<Rightarrow> nat \<Rightarrow> buf_reader \<Rightarrow> bytes list \<times> buf_reader" where
  "take_messages dec 0 buf = ([], buf)"
| "take_messages dec (Suc fuel) buf =
     (let buf = reset_pos buf in
      case from_reader dec buf of
        None \<Rightarrow> ([], buf)
      | Some (v, buf) \<Rightarrow>
          (let (data, buf) = remove_read buf;
               out = (if is_log_message v then [] else [data])
           in if rd_data buf = [] then (out, buf)
              else let (more, buf) = take_messages dec fuel buf in (out @ more, buf)))"

definition port_read :: "decoder \<Rightarrow> buf_reader \<Rightarrow> bytes \<Rightarrow> bytes list \<times> buf_reader" where
  "port_read dec buf bytes =
     (let buf = append_data buf bytes in take_messages dec (Suc (length (rd_data buf))) buf)"

text \<open>The thread: first it drops what the device had sent before, then it writes what it is given and reads
  what the device sends.\<close>

datatype from_port = FP_Data bytes | FP_FatalError string

datatype port_event =
    PE_Read bytes
  | PE_TimedOut
  | PE_ReadFailed string
  | PE_Written bytes
  | PE_WriteFailed string
  | PE_Disconnected

datatype port_thread = PT_Discard | PT_Running buf_reader | PT_Stopped

fun port_step :: "decoder \<Rightarrow> port_thread \<Rightarrow> port_event \<Rightarrow> port_thread \<times> from_port list" where
  "port_step dec PT_Discard PE_TimedOut = (PT_Running buf_empty, [])"
| "port_step dec PT_Discard (PE_ReadFailed e) = (PT_Stopped, [FP_FatalError e])"
| "port_step dec PT_Discard _ = (PT_Discard, [])"
| "port_step dec (PT_Running buf) (PE_Read bytes) =
     (let (out, buf) = port_read dec buf bytes in (PT_Running buf, map FP_Data out))"
| "port_step dec (PT_Running buf) (PE_ReadFailed e) = (PT_Stopped, [FP_FatalError e])"
| "port_step dec (PT_Running buf) (PE_WriteFailed e) = (PT_Stopped, [FP_FatalError e])"
| "port_step dec (PT_Running buf) PE_Disconnected = (PT_Stopped, [])"
| "port_step dec (PT_Running buf) _ = (PT_Running buf, [])"
| "port_step dec PT_Stopped _ = (PT_Stopped, [])"

fun port_run :: "decoder \<Rightarrow> port_thread \<Rightarrow> port_event list \<Rightarrow> port_thread \<times> from_port list" where
  "port_run dec st [] = (st, [])"
| "port_run dec st (ev # evs) =
     (let (st, out) = port_step dec st ev; (st, more) = port_run dec st evs in (st, out @ more))"

text \<open>
  What the code relies on: a CBOR value is not empty, and where it ends does not depend on what comes
  after it (RFC 8949: data items are self-delimiting).
\<close>

definition cbor_docs :: "decoder \<Rightarrow> bool" where
  "cbor_docs dec \<longleftrightarrow> (\<forall>bs v n. dec bs = Some (v, n) \<longrightarrow>
     0 < n \<and> n \<le> length bs \<and> (\<forall>xs. dec (bs @ xs) = Some (v, n)))"

lemma cbor_docsD:
  assumes "cbor_docs dec" "dec bs = Some (v, n)"
  shows "0 < n" "n \<le> length bs" "dec (bs @ xs) = Some (v, n)"
  using assms by (auto simp: cbor_docs_def)

text \<open>The reference: the messages of a stream that is read at once.\<close>

fun stream_messages :: "decoder \<Rightarrow> nat \<Rightarrow> bytes \<Rightarrow> bytes list \<times> bytes" where
  "stream_messages dec 0 bs = ([], bs)"
| "stream_messages dec (Suc fuel) bs = (case dec bs of
      None \<Rightarrow> ([], bs)
    | Some (v, n) \<Rightarrow>
        (let (more, rest) = stream_messages dec fuel (drop n bs)
         in ((if is_log_message v then [] else [take n bs]) @ more, rest)))"

definition messages_of :: "decoder \<Rightarrow> bytes \<Rightarrow> bytes list \<times> bytes" where
  "messages_of dec bs = stream_messages dec (length bs) bs"

lemma stream_messages_fuel:
  assumes "cbor_docs dec" "length bs \<le> fuel"
  shows "stream_messages dec fuel bs = messages_of dec bs"
  using assms(2)
proof (induction "length bs" arbitrary: bs fuel rule: less_induct)
  case less
  show ?case
  proof (cases "dec bs")
    case None
    then show ?thesis by (cases fuel; cases "length bs") (auto simp: messages_of_def)
  next
    case (Some vn)
    then obtain v n where dec: "dec bs = Some (v, n)" by (cases vn) auto
    note n = cbor_docsD [OF assms(1) dec]
    then obtain f m where f: "fuel = Suc f" "length bs = Suc m" using less.prems by (cases fuel; cases "length bs") auto
    have "stream_messages dec f (drop n bs) = messages_of dec (drop n bs)"
      "stream_messages dec m (drop n bs) = messages_of dec (drop n bs)"
      using n f less.prems by (auto intro!: less.hyps)
    then show ?thesis using dec f by (simp add: messages_of_def)
  qed
qed

lemma messages_of_unfold:
  assumes "cbor_docs dec"
  shows "messages_of dec bs = (case dec bs of
      None \<Rightarrow> ([], bs)
    | Some (v, n) \<Rightarrow>
        (let (more, rest) = messages_of dec (drop n bs)
         in ((if is_log_message v then [] else [take n bs]) @ more, rest)))"
proof -
  have "messages_of dec bs = stream_messages dec (Suc (length bs)) bs"
    by (rule sym, rule stream_messages_fuel [OF assms]) simp
  then show ?thesis by (simp add: stream_messages_fuel [OF assms] split: option.splits)
qed

text \<open>The stream may be cut anywhere.\<close>

lemma messages_of_append:
  assumes "cbor_docs dec"
  shows "messages_of dec (bs @ xs) =
    (let (m, rest) = messages_of dec bs; (m', rest') = messages_of dec (rest @ xs) in (m @ m', rest'))"
proof (induction "length bs" arbitrary: bs rule: less_induct)
  case less
  show ?case
  proof (cases "dec bs")
    case None
    then show ?thesis by (simp add: messages_of_unfold [OF assms, of bs] split: prod.splits)
  next
    case (Some vn)
    then obtain v n where dec: "dec bs = Some (v, n)" by (cases vn) auto
    note n = cbor_docsD [OF assms dec]
    have "messages_of dec (drop n bs @ xs) =
      (let (m, rest) = messages_of dec (drop n bs); (m', rest') = messages_of dec (rest @ xs) in (m @ m', rest'))"
      using n by (intro less.hyps) auto
    moreover have "take n (bs @ xs) = take n bs" "drop n (bs @ xs) = drop n bs @ xs" using n by auto
    ultimately show ?thesis
      using dec n(3) [of xs]
      by (simp add: messages_of_unfold [OF assms, of bs] messages_of_unfold [OF assms, of "bs @ xs"] split: prod.splits)
  qed
qed

lemma messages_of_Nil: "cbor_docs dec \<Longrightarrow> messages_of dec [] = ([], [])"
  by (simp add: messages_of_def)

lemma take_messages_eq:
  assumes "cbor_docs dec" "length (rd_data buf) < fuel"
  shows "take_messages dec fuel buf =
    (let (m, rest) = messages_of dec (rd_data buf) in (m, \<lparr> rd_data = rest, rd_pos = 0 \<rparr>))"
  using assms(2)
proof (induction "length (rd_data buf)" arbitrary: buf fuel rule: less_induct)
  case less
  then obtain f where f: "fuel = Suc f" by (cases fuel) auto
  show ?case
  proof (cases "dec (rd_data buf)")
    case None
    then show ?thesis
      using f by (simp add: from_reader_def reset_pos_def messages_of_unfold [OF assms(1), of "rd_data buf"])
  next
    case (Some vn)
    then obtain v n where dec: "dec (rd_data buf) = Some (v, n)" by (cases vn) auto
    note n = cbor_docsD [OF assms(1) dec]
    let ?rest = "\<lparr> rd_data = drop n (rd_data buf), rd_pos = 0 \<rparr>"
    have "from_reader dec (reset_pos buf) = Some (v, buf \<lparr> rd_pos := n \<rparr>)"
      using dec n by (simp add: from_reader_def reset_pos_def read_exact_def)
    moreover have "remove_read (buf \<lparr> rd_pos := n \<rparr>) = (take n (rd_data buf), ?rest)" by (simp add: remove_read_def)
    moreover have "take_messages dec f ?rest =
        (let (m, rest) = messages_of dec (rd_data ?rest) in (m, \<lparr> rd_data = rest, rd_pos = 0 \<rparr>))"
      using n less.prems f by (intro less.hyps) auto
    ultimately show ?thesis
      using f dec messages_of_Nil [OF assms(1)]
      by (auto simp: messages_of_unfold [OF assms(1), of "rd_data buf"] Let_def split: prod.splits)
  qed
qed

lemma port_read_eq:
  assumes "cbor_docs dec"
  shows "port_read dec buf bytes =
    (let (m, rest) = messages_of dec (rd_data buf @ bytes) in (m, \<lparr> rd_data = rest, rd_pos = 0 \<rparr>))"
  unfolding port_read_def Let_def by (subst take_messages_eq [OF assms]) (auto simp: append_data_def)

lemma messages_of_rest:
  assumes "cbor_docs dec" "messages_of dec bs = (m, rest)"
  shows "messages_of dec rest = ([], rest)"
  using assms(2)
proof (induction "length bs" arbitrary: bs m rule: less_induct)
  case less
  show ?case
  proof (cases "dec bs")
    case None
    with less.prems messages_of_unfold [OF assms(1), of bs] show ?thesis by auto
  next
    case (Some vn)
    then obtain v n where dec: "dec bs = Some (v, n)" by (cases vn) auto
    note n = cbor_docsD [OF assms(1) dec]
    obtain m' rest' where r: "messages_of dec (drop n bs) = (m', rest')" by fastforce
    with less.prems dec have "rest' = rest" by (simp add: messages_of_unfold [OF assms(1), of bs])
    with r have "messages_of dec (drop n bs) = (m', rest)" by simp
    then show ?thesis by (rule less.hyps [rotated]) (use n in auto)
  qed
qed

text \<open>Over any reads, interleaved with writes and timeouts, the messages are those of the whole stream.\<close>

fun quiet_port_event :: "port_event \<Rightarrow> bool" where
  "quiet_port_event (PE_Read _) = True"
| "quiet_port_event PE_TimedOut = True"
| "quiet_port_event (PE_Written _) = True"
| "quiet_port_event _ = False"

fun read_bytes :: "port_event list \<Rightarrow> bytes" where
  "read_bytes [] = []"
| "read_bytes (PE_Read bytes # evs) = bytes @ read_bytes evs"
| "read_bytes (ev # evs) = read_bytes evs"

lemma port_run_messages:
  assumes "cbor_docs dec"
  shows "list_all quiet_port_event evs \<Longrightarrow> messages_of dec (rd_data buf) = ([], rd_data buf) \<Longrightarrow> rd_pos buf = 0 \<Longrightarrow>
    port_run dec (PT_Running buf) evs =
      (let (m, rest) = messages_of dec (rd_data buf @ read_bytes evs)
       in (PT_Running \<lparr> rd_data = rest, rd_pos = 0 \<rparr>, map FP_Data m))"
proof (induction evs arbitrary: buf rule: read_bytes.induct)
  case (2 bytes evs)
  obtain m rest where m: "messages_of dec (rd_data buf @ bytes) = (m, rest)" by fastforce
  have rest: "messages_of dec rest = ([], rest)" by (rule messages_of_rest [OF assms m])
  obtain m' rest' where m': "messages_of dec (rest @ read_bytes evs) = (m', rest')" by fastforce
  have "messages_of dec (rd_data buf @ bytes @ read_bytes evs) = (m @ m', rest')"
    using messages_of_append [OF assms, of "rd_data buf @ bytes" "read_bytes evs"] m m' by simp
  moreover have "port_run dec (PT_Running \<lparr> rd_data = rest, rd_pos = 0 \<rparr>) evs =
      (PT_Running \<lparr> rd_data = rest', rd_pos = 0 \<rparr>, map FP_Data m')"
    using 2 rest m' by simp
  ultimately show ?case using m by (simp add: port_read_eq [OF assms])
qed (auto split: prod.splits)

lemma port_run_discard: "port_run dec PT_Discard (map PE_Read old @ evs) = port_run dec PT_Discard evs"
  by (induction old) auto

text \<open>
  (C12) The driver finds the messages of the device whatever pieces the serial port delivers: after the
  old data is dropped, the thread reports exactly the messages of the stream as it is read at once, in
  order and without the log messages, and keeps exactly the bytes of an unfinished message; writes and
  timeouts in between change nothing.
\<close>

theorem port_run_stream:
  assumes "cbor_docs dec" "list_all quiet_port_event evs"
  shows "port_run dec PT_Discard (map PE_Read old @ PE_TimedOut # evs) =
    (PT_Running \<lparr> rd_data = snd (messages_of dec (read_bytes evs)), rd_pos = 0 \<rparr>,
     map FP_Data (fst (messages_of dec (read_bytes evs))))"
  using port_run_messages [OF assms, of buf_empty]
  by (simp add: port_run_discard buf_empty_def messages_of_Nil [OF assms(1)] case_prod_beta)

text \<open>A fragment of CBOR: byte strings of less than 24 bytes.\<close>

definition short_bytes :: decoder where
  "short_bytes bs = (case bs of [] \<Rightarrow> None | c # cs \<Rightarrow>
     (let n = (of_char c :: nat) - 64 in
      if 64 \<le> (of_char c :: nat) \<and> (of_char c :: nat) < 88 \<and> n \<le> length cs then Some (C_Bytes (take n cs), Suc n) else None))"

lemma short_bytes_docs: "cbor_docs short_bytes"
  by (auto simp: cbor_docs_def short_bytes_def Let_def split: list.splits if_splits)

theorem port_run_stream_witness:
  "port_run short_bytes PT_Discard (map PE_Read [''x''] @ PE_TimedOut # [PE_Read ''Aa'', PE_Read ''BbcC'', PE_Written ''q'', PE_Read ''de''])
     = (PT_Running \<lparr> rd_data = ''Cde'', rd_pos = 0 \<rparr>, [FP_Data ''Aa'', FP_Data ''Bbc''])"
proof -
  have m: "messages_of short_bytes ''AaBbcCde'' = ([''Aa'', ''Bbc''], ''Cde'')" by code_simp
  show ?thesis
    by (subst port_run_stream [OF short_bytes_docs]) (simp_all add: m)
qed

end
