(* ===== verification/Jade_Worker.thy ===== *)
theory Jade_Worker
  imports Jade_Device
begin

text \<open>
  The worker of the Jade driver (\<open>sideswap_jade/src/lib.rs\<close>): it numbers the requests, remembers what
  each of them was, and turns the answers of the device into responses; unlocking the device goes through
  the web service of the PIN server.  The serial port, this service and the decoding of the answers are
  fields of \<open>jade_world\<close>.
\<close>

section \<open>The state and the outside\<close>

datatype pending_request =
    PR_ReadStatus
  | PR_HttpRequest
  | PR_AuthComplete
  | PR_GetXPub
  | PR_GetMasterBlindingKey
  | PR_SignMessage
  | PR_GetSignature
  | PR_GetSharedNonce
  | PR_GetBlindingKey
  | PR_GetBlindingFactor
  | PR_GetCommitments
  | PR_SignTx
  | PR_TxInput

record jade_state =
  jk_pending_requests :: "(int, pending_request) btree_map"
  jk_last_request_id :: int

datatype (plugins only: code) worker_req = WQ_Req jade_req | WQ_Quit | WQ_FromPort from_port

datatype (plugins only: code) jade_event =
    JE_Msg worker_req
  | JE_Send wire_req
  | JE_Http string string
  | JE_Callback worker_resp

type_synonym 'a jd = "(jade_state, jade_event, 'a) sx"

record jade_world =
  jx_send :: "jade_event list \<Rightarrow> wire_req \<Rightarrow> string + unit"
  jx_post :: "jade_event list \<Rightarrow> string \<Rightarrow> string \<Rightarrow> string + string"
  jx_json_text :: "json \<Rightarrow> string"
  jx_parse_json :: "string \<Rightarrow> string + json"
  jx_b64_decode :: "string \<Rightarrow> bytes option"
  jx_debug :: "cbor option \<Rightarrow> string"
  jx_dec_value :: "bytes \<Rightarrow> string + cbor wire_resp"
  jx_dec_version :: "bytes \<Rightarrow> string + version_info wire_resp"
  jx_dec_auth :: "bytes \<Rightarrow> string + auth_request wire_resp"
  jx_dec_bool :: "bytes \<Rightarrow> string + bool wire_resp"
  jx_dec_text :: "bytes \<Rightarrow> string + string wire_resp"
  jx_dec_vec :: "bytes \<Rightarrow> string + bytes wire_resp"
  jx_dec_bytes :: "bytes \<Rightarrow> string + bytes wire_resp"
  jx_dec_commitments :: "bytes \<Rightarrow> string + jade_commitments wire_resp"

definition jade_callback :: "worker_resp \<Rightarrow> unit jd" where
  "jade_callback r = sx_emit (JE_Callback r)"

section \<open>Requests\<close>

definition send_wire :: "jade_world \<Rightarrow> string \<Rightarrow> jade_params \<Rightarrow> pending_request \<Rightarrow> unit jd" where
  "send_wire w method params kind =
     sx_then (sx_modify (jk_last_request_id_update (\<lambda>n. i32_add n 1)))
     (sx_bind (sx_get jk_last_request_id) (\<lambda>request_id.
      let req = \<lparr> wr_id = show_int request_id, wr_method = method, wr_params = params \<rparr> in
      sx_bind (sx_call (\<lambda>h. jx_send w h req) (\<lambda>_. JE_Send req)) (\<lambda>result.
      case result of
        Inl e \<Rightarrow> jade_callback (WR_FatalError e)
      | Inr _ \<Rightarrow> sx_modify (jk_pending_requests_update (btree_insert request_id kind)))))"

fun factor_type_name :: "blinding_factor_type \<Rightarrow> string" where
  "factor_type_name BF_Asset = ''ASSET''"
| "factor_type_name BF_Value = ''VALUE''"

fun wire_of :: "jade_req \<Rightarrow> string \<times> jade_params \<times> pending_request" where
  "wire_of JR_ReadStatus = (''get_version_info'', P_None, PR_ReadStatus)"
| "wire_of (JR_AuthUser network) = (''auth_user'', P_AuthUser (network_name network), PR_HttpRequest)"
| "wire_of (JR_ResolveXpub network path) = (''get_xpub'', P_GetXPub (network_name network) path, PR_GetXPub)"
| "wire_of JR_GetMasterBlindingKey = (''get_master_blinding_key'', P_None, PR_GetMasterBlindingKey)"
| "wire_of (JR_SignMessage path message ae_host_commitment) =
     (''sign_message'', P_SignMessage path message ae_host_commitment, PR_SignMessage)"
| "wire_of (JR_GetSignature ae_host_entropy) = (''get_signature'', P_GetSignature ae_host_entropy, PR_GetSignature)"
| "wire_of (JR_GetSharedNonce script their_pubkey) =
     (''get_shared_nonce'', P_GetSharedNonce script their_pubkey, PR_GetSharedNonce)"
| "wire_of (JR_GetBlindingKey script) = (''get_blinding_key'', P_GetBlindingKey script, PR_GetBlindingKey)"
| "wire_of (JR_GetBlindingFactor hash_prevouts output_index factor_type) =
     (''get_blinding_factor'', P_GetBlindingFactor hash_prevouts output_index (factor_type_name factor_type), PR_GetBlindingFactor)"
| "wire_of (JR_GetCommitments req) = (''get_commitments'', P_GetCommitments req, PR_GetCommitments)"
| "wire_of (JR_SignTx msg) = (''sign_liquid_tx'', P_SignTx msg, PR_SignTx)"
| "wire_of (JR_TxInput (Some msg)) = (''tx_input'', P_TxInput msg, PR_TxInput)"
| "wire_of (JR_TxInput None) = (''tx_input'', P_TxInputEmpty, PR_TxInput)"

definition send_req :: "jade_world \<Rightarrow> jade_req \<Rightarrow> unit jd" where
  "send_req w req = (case wire_of req of (method, params, kind) \<Rightarrow> send_wire w method params kind)"

text \<open>A request for the status replaces older ones, and is dropped while anything else is going on.\<close>

definition send_read_status :: "jade_world \<Rightarrow> unit jd" where
  "send_read_status w =
     sx_then (sx_modify (jk_pending_requests_update (filter (\<lambda>(_, request). request \<noteq> PR_ReadStatus))))
     (sx_bind (sx_get jk_pending_requests) (\<lambda>pending_requests.
      sx_when (pending_requests = []) (send_req w JR_ReadStatus)))"

section \<open>Answers\<close>

definition handle_http_request :: "jade_world \<Rightarrow> auth_request \<Rightarrow> cbor jd" where
  "handle_http_request w details =
     sx_bind (sx_ok_or (case au_urls details of [] \<Rightarrow> None | url # _ \<Rightarrow> Some url) ''empty urls array'') (\<lambda>url.
     sx_bind (sx_lift (cbor_to_json (au_data details))) (\<lambda>data.
     let data = jx_json_text w data in
     sx_bind (sx_call (\<lambda>h. jx_post w h url data) (\<lambda>_. JE_Http url data)) (\<lambda>response.
     sx_bind (sx_of_sum response) (\<lambda>response.
     sx_bind (sx_of_sum (jx_parse_json w response)) (\<lambda>response.
     sx_lift (json_to_cbor response))))))"

definition deliver :: "string \<Rightarrow> (string + 'a wire_resp) \<Rightarrow> ('a option \<Rightarrow> unit jd) \<Rightarrow> unit jd" where
  "deliver name resp on_result = (case resp of
      Inl e \<Rightarrow> jade_callback (WR_FatalError (''parsing '' @ name @ '' response failed: '' @ e))
    | Inr v \<Rightarrow> (case ws_error v of
        Some (_, message) \<Rightarrow> jade_callback (WR_Resp (Inl (''request failed: '' @ message)))
      | None \<Rightarrow> on_result (ws_result v)))"

definition deliver_as :: "('a \<Rightarrow> jade_resp) \<Rightarrow> 'a option \<Rightarrow> unit jd" where
  "deliver_as mk result = (case result of
      Some v \<Rightarrow> jade_callback (WR_Resp (Inr (mk v)))
    | None \<Rightarrow> jade_callback (WR_Resp (Inl ''unexpected response'')))"

definition auth_result :: "jade_world \<Rightarrow> auth_request option \<Rightarrow> unit jd" where
  "auth_result w result = (case result of
      Some v \<Rightarrow>
        sx_bind (sx_try (handle_http_request w v)) (\<lambda>result.
        case result of
          Inr pin \<Rightarrow> send_wire w (au_on_reply v) (P_Cbor pin)
            (if au_on_reply v = ''handshake_complete'' then PR_AuthComplete else PR_HttpRequest)
        | Inl e \<Rightarrow> jade_callback (WR_Resp (Inl (''auth request failed: '' @ e))))
    | None \<Rightarrow> jade_callback (WR_Resp (Inl ''unexpected response'')))"

definition signature_result :: "jade_world \<Rightarrow> cbor option \<Rightarrow> unit jd" where
  "signature_result w result = (case result of
      Some (C_Text v) \<Rightarrow>
        sx_bind (sx_expect (jx_b64_decode w v)) (\<lambda>v. jade_callback (WR_Resp (Inr (JA_GetSignature (Some v)))))
    | Some (C_Bytes v) \<Rightarrow> jade_callback (WR_Resp (Inr (JA_GetSignature (Some v))))
    | Some C_Null \<Rightarrow> jade_callback (WR_Resp (Inr (JA_GetSignature None)))
    | resp \<Rightarrow> jade_callback (WR_Resp (Inl (''unexpected response: '' @ jx_debug w resp))))"

fun handle_pending :: "jade_world \<Rightarrow> bytes \<Rightarrow> pending_request \<Rightarrow> unit jd" where
  "handle_pending w data PR_ReadStatus = deliver ''ReadStatus'' (jx_dec_version w data) (deliver_as JA_ReadStatus)"
| "handle_pending w data PR_HttpRequest = deliver ''AuthUser'' (jx_dec_auth w data) (auth_result w)"
| "handle_pending w data PR_AuthComplete = deliver ''AuthComplete'' (jx_dec_bool w data) (deliver_as JA_AuthUser)"
| "handle_pending w data PR_GetXPub = deliver ''ReadStatus'' (jx_dec_text w data) (deliver_as JA_ResolveXpub)"
| "handle_pending w data PR_GetMasterBlindingKey =
     deliver ''ReadStatus'' (jx_dec_vec w data) (deliver_as JA_GetMasterBlindingKey)"
| "handle_pending w data PR_SignMessage = deliver ''SignMessage'' (jx_dec_bytes w data) (deliver_as JA_SignMessage)"
| "handle_pending w data PR_GetSignature = deliver ''GetSignature'' (jx_dec_value w data) (signature_result w)"
| "handle_pending w data PR_GetSharedNonce = deliver ''GetSharedNonce'' (jx_dec_bytes w data) (deliver_as JA_GetSharedNonce)"
| "handle_pending w data PR_GetBlindingKey = deliver ''GetBlindingKey'' (jx_dec_bytes w data) (deliver_as JA_GetBlindingKey)"
| "handle_pending w data PR_GetBlindingFactor =
     deliver ''GetBlindingFactor'' (jx_dec_bytes w data) (deliver_as JA_GetBlindingFactor)"
| "handle_pending w data PR_GetCommitments =
     deliver ''GetCommitments'' (jx_dec_commitments w data) (deliver_as JA_GetCommitments)"
| "handle_pending w data PR_SignTx = deliver ''SignTx'' (jx_dec_bool w data) (deliver_as JA_SignTx)"
| "handle_pending w data PR_TxInput = deliver ''TxInput'' (jx_dec_bytes w data) (deliver_as JA_TxInput)"

definition handle_port_msg :: "jade_world \<Rightarrow> bytes \<Rightarrow> unit jd" where
  "handle_port_msg w data = (case jx_dec_value w data of
      Inl e \<Rightarrow> jade_callback (WR_FatalError (''unexpected response from Jade: '' @ e))
    | Inr jade_resp \<Rightarrow>
        (let request_id = unwrap_or (parse_i32 (ws_id jade_resp)) 0 in
         sx_bind (sx_get (\<lambda>s. btree_get (jk_pending_requests s) request_id)) (\<lambda>pending_request.
         case pending_request of
           None \<Rightarrow> sx_return ()
         | Some kind \<Rightarrow>
             sx_then (sx_modify (jk_pending_requests_update (btree_remove request_id)))
               (handle_pending w data kind))))"

section \<open>The worker\<close>

text \<open>Quitting ends the loop; the runs considered below may go on, and so are more than the real ones.\<close>

definition jade_initial :: jade_state where
  "jade_initial = \<lparr> jk_pending_requests = [], jk_last_request_id = 25000 \<rparr>"

fun jade_process :: "jade_world \<Rightarrow> worker_req \<Rightarrow> unit jd" where
  "jade_process w WQ_Quit = sx_return ()"
| "jade_process w (WQ_FromPort (FP_Data data)) = handle_port_msg w data"
| "jade_process w (WQ_FromPort (FP_FatalError e)) = jade_callback (WR_FatalError e)"
| "jade_process w (WQ_Req JR_ReadStatus) = send_read_status w"
| "jade_process w (WQ_Req req) = send_req w req"

definition jade_handle :: "jade_world \<Rightarrow> worker_req \<Rightarrow> unit jd" where
  "jade_handle w msg = sx_then (sx_emit (JE_Msg msg)) (jade_process w msg)"

section \<open>One answer per request\<close>

text \<open>Unlocking takes several requests to the device, which all belong to one request of the client.\<close>

fun kind_class :: "pending_request \<Rightarrow> pending_request" where
  "kind_class PR_AuthComplete = PR_HttpRequest"
| "kind_class k = k"

fun resp_class :: "jade_resp \<Rightarrow> pending_request" where
  "resp_class (JA_ReadStatus _) = PR_ReadStatus"
| "resp_class (JA_AuthUser _) = PR_HttpRequest"
| "resp_class (JA_ResolveXpub _) = PR_GetXPub"
| "resp_class (JA_GetMasterBlindingKey _) = PR_GetMasterBlindingKey"
| "resp_class (JA_SignMessage _) = PR_SignMessage"
| "resp_class (JA_GetSignature _) = PR_GetSignature"
| "resp_class (JA_GetSharedNonce _) = PR_GetSharedNonce"
| "resp_class (JA_GetBlindingKey _) = PR_GetBlindingKey"
| "resp_class (JA_GetBlindingFactor _) = PR_GetBlindingFactor"
| "resp_class (JA_GetCommitments _) = PR_GetCommitments"
| "resp_class (JA_SignTx _) = PR_SignTx"
| "resp_class (JA_TxInput _) = PR_TxInput"

definition req_class :: "jade_req \<Rightarrow> pending_request" where
  "req_class req = snd (snd (wire_of req))"

text \<open>Answers, open requests and requests of a class; with \<open>K = None\<close> of all classes, and then errors count as
  answers too.\<close>

definition of_class :: "pending_request option \<Rightarrow> pending_request \<Rightarrow> bool" where
  "of_class K k \<longleftrightarrow> K = None \<or> K = Some (kind_class k)"

fun is_answer :: "pending_request option \<Rightarrow> jade_event \<Rightarrow> bool" where
  "is_answer K (JE_Callback (WR_Resp (Inr r))) \<longleftrightarrow> K = None \<or> K = Some (resp_class r)"
| "is_answer K (JE_Callback (WR_Resp (Inl e))) \<longleftrightarrow> K = None"
| "is_answer K _ \<longleftrightarrow> False"

fun is_request :: "pending_request option \<Rightarrow> jade_event \<Rightarrow> bool" where
  "is_request K (JE_Msg (WQ_Req req)) \<longleftrightarrow> of_class K (req_class req)"
| "is_request K _ \<longleftrightarrow> False"

definition answers :: "pending_request option \<Rightarrow> jade_event list \<Rightarrow> nat" where
  "answers K h = length (filter (is_answer K) h)"

definition requests :: "pending_request option \<Rightarrow> jade_event list \<Rightarrow> nat" where
  "requests K h = length (filter (is_request K) h)"

definition open_requests :: "pending_request option \<Rightarrow> jade_state \<Rightarrow> nat" where
  "open_requests K s = length (filter (\<lambda>(_, k). of_class K k) (jk_pending_requests s))"

text \<open>\<open>n\<close> is what a handler may still spend: the answer or the follow-up of the request it is at.\<close>

definition answers_ok :: "pending_request option \<Rightarrow> nat \<Rightarrow> jade_state \<Rightarrow> jade_event list \<Rightarrow> bool" where
  "answers_ok K n s h \<longleftrightarrow> btree_inv (jk_pending_requests s) \<and> answers K h + open_requests K s + n \<le> requests K h"

definition credit :: "pending_request option \<Rightarrow> pending_request \<Rightarrow> nat" where
  "credit K k = (if of_class K k then 1 else 0)"

lemma answers_weaken: "answers_ok K n s h \<Longrightarrow> m \<le> n \<Longrightarrow> answers_ok K m s h"
  by (simp add: answers_ok_def)

lemma req_class_eq [simp]: "kind_class (req_class req) = req_class req"
  by (cases req rule: wire_of.cases) (auto simp: req_class_def)

lemma filter_btree_insert_le:
  "length (filter (\<lambda>(_, k). p k) (btree_insert i k m)) \<le> length (filter (\<lambda>(_, k). p k) m) + (if p k then 1 else 0)"
  by (induction i k m rule: btree_insert.induct) auto

lemma filter_btree_remove:
  "btree_inv m \<Longrightarrow> btree_get m i = Some k \<Longrightarrow>
    length (filter (\<lambda>(_, k). p k) (btree_remove i m)) + (if p k then 1 else 0) = length (filter (\<lambda>(_, k). p k) m)"
proof (induction m)
  case (Cons a m)
  have "btree_inv m" using Cons.prems by (simp add: btree_inv_def)
  moreover have "btree_remove i m = m" if "fst a = i"
    using Cons.prems that by (auto simp: btree_inv_def btree_remove_def filter_id_conv)
  ultimately show ?case using Cons by (cases a) (auto simp: btree_remove_def split: if_splits)
qed simp

lemma btree_inv_filter [simp]: "btree_inv m \<Longrightarrow> btree_inv (filter p m)"
  by (induction m) (auto simp: btree_inv_def)

lemma filter_filter_le: "length (filter p (filter q xs)) \<le> length (filter p xs)"
  by (induction xs) auto

lemma answers_event:
  "answers_ok K n s h \<Longrightarrow> m + (if is_answer K ev then 1 else 0) \<le> n \<Longrightarrow> answers_ok K m s (h @ [ev])"
  by (auto simp: answers_ok_def answers_def requests_def)

lemma triple_callback:
  "m + (if is_answer K (JE_Callback r) then 1 else 0) \<le> n \<Longrightarrow> triple (answers_ok K n) (jade_callback r) (\<lambda>_. answers_ok K m) E"
  unfolding jade_callback_def by (rule triple_emit) (rule answers_event)

lemma triple_send_wire:
  "triple (answers_ok K (credit K k)) (send_wire w method params k) (\<lambda>_. answers_ok K 0) (answers_ok K 0)"
proof -
  have ins: "answers_ok K 0 (jk_pending_requests_update (btree_insert i k) s) h" if "answers_ok K (credit K k) s h" for i s h
    using that filter_btree_insert_le [of "of_class K" i k "jk_pending_requests s"]
    by (auto simp: answers_ok_def open_requests_def credit_def split: if_splits)
  have call: "triple (\<lambda>s h. answers_ok K (credit K k) s h \<and> x = jk_last_request_id s) (sx_call f (\<lambda>_. JE_Send req))
      (\<lambda>_. answers_ok K (credit K k)) (answers_ok K 0)" for x f req
    by (rule triple_call) (auto elim: answers_event)
  show ?thesis
    unfolding send_wire_def Let_def
    apply (rule triple_bind [where R = "\<lambda>_. answers_ok K (credit K k)"])
     apply (rule triple_modify, simp add: answers_ok_def open_requests_def)
    apply (rule triple_get_bind)
    apply (rule triple_bind [OF call], rule triple_sum)
     apply (rule triple_callback, simp)
    apply (rule triple_modify, erule ins)
    done
qed

lemma triple_http_request:
  "triple (answers_ok K n) (handle_http_request w v) (\<lambda>_. answers_ok K n) (answers_ok K n)"
proof -
  have "keeps (answers_ok K n) (handle_http_request w v)"
    unfolding handle_http_request_def Let_def sx_result_defs
    by (intro keeps_rules keeps_call) (auto elim: answers_event)
  then show ?thesis by (simp add: keeps_def)
qed

lemma triple_deliver:
  assumes "\<And>r. triple (answers_ok K (credit K k)) (f r) (\<lambda>_. answers_ok K 0) (answers_ok K 0)"
  shows "triple (answers_ok K (credit K k)) (deliver name resp f) (\<lambda>_. answers_ok K 0) (answers_ok K 0)"
  unfolding deliver_def
  by (intro triple_sum triple_option triple_prod triple_callback assms) (auto simp: credit_def of_class_def)

lemma triple_deliver_as:
  "(\<And>v. resp_class (mk v) = kind_class k) \<Longrightarrow>
    triple (answers_ok K (credit K k)) (deliver_as mk r) (\<lambda>_. answers_ok K 0) (answers_ok K 0)"
  unfolding deliver_as_def by (intro triple_option triple_callback) (auto simp: credit_def of_class_def)

lemma triple_auth_result:
  "triple (answers_ok K (credit K PR_HttpRequest)) (auth_result w r) (\<lambda>_. answers_ok K 0) (answers_ok K 0)"
proof -
  let ?c = "credit K PR_HttpRequest"
  have send: "triple (answers_ok K ?c) (send_wire w m p (if b then PR_AuthComplete else PR_HttpRequest)) (\<lambda>_. answers_ok K 0) (answers_ok K 0)"
    for m p b
    using triple_send_wire [of K "if b then PR_AuthComplete else PR_HttpRequest" w m p]
    by (cases b) (simp_all add: credit_def of_class_def)
  have err: "triple (answers_ok K ?c) (jade_callback (WR_Resp (Inl e))) (\<lambda>_. answers_ok K 0) (answers_ok K 0)" for e
    by (rule triple_callback) (simp add: credit_def of_class_def)
  have attempt: "triple (answers_ok K ?c) (sx_try (handle_http_request w v)) (\<lambda>_. answers_ok K ?c) (answers_ok K 0)" for v
    by (rule triple_try, rule triple_weaken [OF triple_http_request]) (auto elim: answers_weaken)
  show ?thesis
    unfolding auth_result_def by (intro triple_option err triple_bind [OF attempt] triple_sum send)
qed

lemma triple_signature_result:
  "triple (answers_ok K (credit K PR_GetSignature)) (signature_result w r) (\<lambda>_. answers_ok K 0) (answers_ok K 0)"
proof -
  let ?P = "answers_ok K (credit K PR_GetSignature)"
  have answer: "triple ?P (jade_callback (WR_Resp (Inr (JA_GetSignature v)))) (\<lambda>_. answers_ok K 0) (answers_ok K 0)" for v
    by (rule triple_callback) (auto simp: credit_def of_class_def)
  have err: "triple ?P (jade_callback (WR_Resp (Inl e))) (\<lambda>_. answers_ok K 0) (answers_ok K 0)" for e
    by (rule triple_callback) (auto simp: credit_def of_class_def)
  have expect: "triple ?P (sx_expect y) (\<lambda>_. ?P) (answers_ok K 0)" for y :: "bytes option"
    unfolding sx_expect_def by (rule triple_lift) (auto elim: answers_weaken)
  show ?thesis
  proof (cases r)
    case (Some c)
    then show ?thesis by (cases c) (simp_all add: signature_result_def answer err triple_bind [OF expect answer])
  qed (simp add: signature_result_def err)
qed

lemma triple_handle_pending:
  "triple (answers_ok K (credit K k)) (handle_pending w data k) (\<lambda>_. answers_ok K 0) (answers_ok K 0)"
  by (cases k) (simp_all add: triple_deliver triple_deliver_as triple_auth_result triple_signature_result)

lemma triple_port_msg: "triple (answers_ok K 0) (handle_port_msg w data) (\<lambda>_. answers_ok K 0) (answers_ok K 0)"
proof -
  have rem: "answers_ok K (credit K k) (jk_pending_requests_update (btree_remove i) s) h"
    if "answers_ok K 0 s h \<and> Some k = btree_get (jk_pending_requests s) i" for s h k i
    using that filter_btree_remove [of "jk_pending_requests s" i k "of_class K"]
    by (auto simp: answers_ok_def open_requests_def credit_def split: if_splits)
  show ?thesis
    unfolding handle_port_msg_def Let_def
    by (intro triple_sum triple_callback triple_get_bind triple_option triple_bind [OF triple_modify triple_handle_pending])
      (auto intro!: rem triple_return)
qed

lemma triple_send_req:
  "triple (answers_ok K (credit K (req_class req))) (send_req w req) (\<lambda>_. answers_ok K 0) (answers_ok K 0)"
  unfolding send_req_def req_class_def by (cases "wire_of req") (simp add: triple_send_wire)

lemma triple_read_status:
  "triple (answers_ok K (credit K PR_ReadStatus)) (send_read_status w) (\<lambda>_. answers_ok K 0) (answers_ok K 0)"
proof -
  have "answers_ok K (credit K PR_ReadStatus) (jk_pending_requests_update (filter p) s) h"
    if "answers_ok K (credit K PR_ReadStatus) s h" for p s h
    using that filter_filter_le [of "\<lambda>(_, k). of_class K k" p "jk_pending_requests s"]
    by (auto simp: answers_ok_def open_requests_def simp del: filter_filter)
  moreover have "triple (\<lambda>s h. answers_ok K (credit K PR_ReadStatus) s h \<and> x = jk_pending_requests s) (sx_when b (send_req w JR_ReadStatus))
      (\<lambda>_. answers_ok K 0) (answers_ok K 0)" for x b
    by (rule triple_if, rule triple_weaken [OF triple_send_req]) (auto simp: req_class_def intro: triple_return elim: answers_weaken)
  ultimately show ?thesis
    unfolding send_read_status_def
    by (intro triple_bind [OF triple_modify [where Q = "\<lambda>_. answers_ok K (credit K PR_ReadStatus)"]] triple_get_bind) auto
qed

lemma answers_msg: "answers_ok K 0 s h \<Longrightarrow> answers_ok K (case m of WQ_Req req \<Rightarrow> credit K (req_class req) | _ \<Rightarrow> 0) s (h @ [JE_Msg m])"
  by (cases m) (auto simp: answers_ok_def answers_def requests_def credit_def)

lemma answers_process:
  "triple (answers_ok K (case m of WQ_Req req \<Rightarrow> credit K (req_class req) | _ \<Rightarrow> 0)) (jade_process w m) (\<lambda>_. answers_ok K 0) (answers_ok K 0)"
proof (cases "(w, m)" rule: jade_process.cases)
  case (4 w)
  then show ?thesis using triple_read_status [of K w] by (simp add: req_class_def)
qed (auto intro: triple_return triple_port_msg triple_callback triple_send_req)

lemma answers_handle: "keeps (answers_ok K 0) (jade_handle w m)"
  unfolding jade_handle_def keeps_def
  by (rule triple_bind [OF triple_emit answers_process]) (rule answers_msg)

interpretation jade_loop: sx_loop "jade_handle w" "answers_ok K 0" for w K
  by unfold_locales (rule answers_handle)

text \<open>
  (C13) The driver never invents or repeats an answer of the device.  Whatever the device sends and the
  client asks: of every kind there are at most as many successful responses as there were requests of
  this kind (all steps of unlocking count as the one request to unlock), even together with the requests
  that are still open; and responses and errors together are at most as many as the requests.
\<close>

theorem jade_answers_requests:
  assumes "sx_reaches (jade_handle w) jade_initial [] s h"
  shows "answers (Some k) h + open_requests (Some k) s \<le> requests (Some k) h \<and>
    answers None h + length (jk_pending_requests s) \<le> requests None h"
proof -
  have I: "answers_ok K 0 s h" for K
    by (rule jade_loop.reaches_inv [OF assms]) (simp add: answers_ok_def jade_initial_def answers_def requests_def open_requests_def)
  from I [of "Some k"] I [of None] show ?thesis
    by (simp add: answers_ok_def) (simp add: open_requests_def of_class_def case_prod_beta)
qed

text \<open>A device that always answers to request 25001, and a client that asks for two blinding keys.\<close>

definition sample_jade :: jade_world where
  "sample_jade = \<lparr> jx_send = (\<lambda>_ _. Inr ()), jx_post = (\<lambda>_ _ _. Inl []), jx_json_text = (\<lambda>_. []), jx_parse_json = (\<lambda>_. Inl []),
     jx_b64_decode = (\<lambda>_. None), jx_debug = (\<lambda>_. []), jx_dec_value = (\<lambda>d. Inr \<lparr> ws_id = ''25001'', ws_result = Some (C_Bytes d), ws_error = None \<rparr>),
     jx_dec_version = (\<lambda>_. Inl []), jx_dec_auth = (\<lambda>_. Inl []), jx_dec_bool = (\<lambda>_. Inl []), jx_dec_text = (\<lambda>_. Inl []),
     jx_dec_vec = (\<lambda>_. Inl []), jx_dec_bytes = (\<lambda>d. Inr \<lparr> ws_id = ''25001'', ws_result = Some d, ws_error = None \<rparr>),
     jx_dec_commitments = (\<lambda>_. Inl []) \<rparr>"

definition sample_jade_history :: "jade_event list" where
  "sample_jade_history =
     [JE_Msg (WQ_Req (JR_GetBlindingKey ''a'')),
      JE_Send \<lparr> wr_id = ''25001'', wr_method = ''get_blinding_key'', wr_params = P_GetBlindingKey ''a'' \<rparr>,
      JE_Msg (WQ_Req (JR_GetBlindingKey ''b'')),
      JE_Send \<lparr> wr_id = ''25002'', wr_method = ''get_blinding_key'', wr_params = P_GetBlindingKey ''b'' \<rparr>,
      JE_Msg (WQ_FromPort (FP_Data ''k'')), JE_Callback (WR_Resp (Inr (JA_GetBlindingKey ''k''))),
      JE_Msg (WQ_FromPort (FP_Data ''k''))]"

lemma sample_jade_reaches:
  "sx_reaches (jade_handle sample_jade) jade_initial []
     \<lparr> jk_pending_requests = [(25002, PR_GetBlindingKey)], jk_last_request_id = 25002 \<rparr> sample_jade_history"
proof -
  note defs = jade_handle_def sx_defs sx_result_defs send_req_def send_wire_def i32_add_def Let_def sample_jade_def
    handle_port_msg_def deliver_def deliver_as_def jade_callback_def btree_remove_def
  have show_ids: "show_int 25001 = ''25001''" "show_int 25002 = ''25002''" by code_simp+
  have parse_id: "parse_i32 ''25001'' = Some 25001" by code_simp
  let ?s1 = "\<lparr> jk_pending_requests = [(25001, PR_GetBlindingKey)], jk_last_request_id = 25001 \<rparr>"
  let ?s2 = "\<lparr> jk_pending_requests = [(25001, PR_GetBlindingKey), (25002, PR_GetBlindingKey)], jk_last_request_id = 25002 \<rparr>"
  have "sx_reaches (jade_handle sample_jade) jade_initial [] ?s1 (take 2 sample_jade_history)"
    by (rule sx_step [OF sx_refl, where m = "WQ_Req (JR_GetBlindingKey ''a'')"])
      (simp add: defs jade_initial_def sample_jade_history_def show_ids)
  then have "sx_reaches (jade_handle sample_jade) jade_initial [] ?s2 (take 4 sample_jade_history)"
    by (rule sx_step [where m = "WQ_Req (JR_GetBlindingKey ''b'')"]) (simp add: defs sample_jade_history_def show_ids)
  then have "sx_reaches (jade_handle sample_jade) jade_initial []
      \<lparr> jk_pending_requests = [(25002, PR_GetBlindingKey)], jk_last_request_id = 25002 \<rparr> (take 6 sample_jade_history)"
    by (rule sx_step [where m = "WQ_FromPort (FP_Data ''k'')"]) (simp add: defs sample_jade_history_def parse_id)
  then show ?thesis
    by (rule sx_step [where m = "WQ_FromPort (FP_Data ''k'')"]) (simp add: defs sample_jade_history_def parse_id)
qed

theorem jade_answers_requests_witness:
  "answers (Some PR_GetBlindingKey) sample_jade_history = 1 \<and> requests (Some PR_GetBlindingKey) sample_jade_history = 2
   \<and> answers (Some PR_GetBlindingKey) sample_jade_history + 1 \<le> requests (Some PR_GetBlindingKey) sample_jade_history"
  using jade_answers_requests [OF sample_jade_reaches, of PR_GetBlindingKey]
  by (simp add: open_requests_def of_class_def) (simp add: answers_def requests_def sample_jade_history_def of_class_def req_class_def)

end
