(* ===== verification/Jade_Manager.thy ===== *)
theory Jade_Manager
  imports Jade_Worker
begin

text \<open>
  Which devices there are: the serial ports that belong to a Jade (\<open>sideswap_jade/src/serial.rs\<close>), a
  device that is opened when it is first used (\<open>ManagedJade\<close>) and the list of devices with their state
  (\<open>JadeMng\<close>), both of \<open>sideswap_client/src/jade_mng.rs\<close>.  The operating system and the worker
  thread of a device answer through the fields of \<open>mng_world\<close>.
\<close>

section \<open>Ports\<close>

record usb_port =
  ub_port_name :: string
  ub_vid :: int
  ub_pid :: int
  ub_serial_number :: "string option"

record serial_port =
  sp_jade_id :: string
  sp_port_name :: string
  sp_serial_number :: string

text \<open>\<open>{:#06x}\<close> of a 16 bit number.\<close>

definition hex_u16 :: "int \<Rightarrow> string" where
  "hex_u16 n = ''0x'' @ [hex_char (n div 4096 mod 16), hex_char (n div 256 mod 16), hex_char (n div 16 mod 16), hex_char (n mod 16)]"

definition get_jade_id :: "usb_port \<Rightarrow> string" where
  "get_jade_id port = hex_u16 (ub_vid port) @ ''-'' @ hex_u16 (ub_pid port) @ ''-'' @ unwrap_or (ub_serial_number port) ''unknown''"

definition is_jade :: "usb_port \<Rightarrow> bool" where
  "is_jade port \<longleftrightarrow> (ub_vid port = 4292 \<and> ub_pid port = 60000) \<or> (ub_vid port = 6790 \<and> ub_pid port = 21972)
     \<or> (ub_vid port = 1027 \<and> ub_pid port = 24577) \<or> (ub_vid port = 6790 \<and> ub_pid port = 29987)"

definition jade_ports :: "usb_port list \<Rightarrow> serial_port list" where
  "jade_ports usb = map (\<lambda>port. \<lparr> sp_jade_id = get_jade_id port, sp_port_name = ub_port_name port,
      sp_serial_number = unwrap_or (ub_serial_number port) [] \<rparr>) (filter is_jade usb)"

section \<open>One device\<close>

datatype (plugins only: code) mng_event =
    MV_Ports
  | MV_Open serial_port
  | MV_Send string jade_req
  | MV_Recv string int
  | MV_Quit string

text \<open>What the worker thread has for a receiver: nothing in time, or a response.\<close>

record mng_world =
  mw_available_ports :: "mng_event list \<Rightarrow> string + usb_port list"
  mw_open :: "mng_event list \<Rightarrow> serial_port \<Rightarrow> string + unit"
  mw_recv :: "mng_event list \<Rightarrow> string \<Rightarrow> int \<Rightarrow> worker_resp option"

record managed_jade =
  mj_jade_id :: string
  mj_jade :: bool

definition handle_ports :: "mng_world \<Rightarrow> ('s, mng_event, serial_port list) sx" where
  "handle_ports w =
     sx_bind (sx_call (mw_available_ports w) (\<lambda>_. MV_Ports)) (\<lambda>r.
     sx_bind (sx_of_sum r) (\<lambda>usb. sx_return (jade_ports usb)))"

definition jade_try_send :: "mng_world \<Rightarrow> jade_req \<Rightarrow> (managed_jade, mng_event, unit) sx" where
  "jade_try_send w req =
     sx_bind (sx_get id) (\<lambda>data.
     sx_then (sx_when (\<not> mj_jade data)
       (sx_bind (handle_ports w) (\<lambda>ports.
        sx_bind (sx_ok_or (List.find (\<lambda>port. sp_jade_id port = mj_jade_id data) ports) ''jade device not found'') (\<lambda>port.
        sx_bind (sx_call (\<lambda>h. mw_open w h port) (\<lambda>_. MV_Open port)) (\<lambda>r.
        sx_then (sx_of_sum r) (sx_modify (mj_jade_update (\<lambda>_. True))))))))
     (sx_emit (MV_Send (mj_jade_id data) req)))"

definition jade_try_recv :: "mng_world \<Rightarrow> int \<Rightarrow> (managed_jade, mng_event, jade_resp) sx" where
  "jade_try_recv w timeout =
     sx_bind (sx_get id) (\<lambda>data.
     sx_then (check (mj_jade data) ''jade is not connected'')
     (sx_bind (sx_call (\<lambda>h. mw_recv w h (mj_jade_id data) timeout) (\<lambda>_. MV_Recv (mj_jade_id data) timeout)) (\<lambda>r.
      sx_bind (sx_ok_or r ''jade response timeout'') (\<lambda>result.
      case result of
        WR_Resp v \<Rightarrow> sx_of_sum v
      | WR_FatalError e \<Rightarrow>
          sx_then (sx_modify (mj_jade_update (\<lambda>_. False)))
            (fail (''unexpected fatal Jade error: '' @ e))))))"

definition managed_send :: "mng_world \<Rightarrow> jade_req \<Rightarrow> (managed_jade, mng_event, unit) sx" where
  "managed_send w req = sx_bind (sx_try (jade_try_send w req)) (\<lambda>_. sx_return ())"

section \<open>The list of devices\<close>

datatype jade_dev_state = Jade_Uninit | Jade_Main | Jade_Test

record jade_status =
  js_port_name :: string
  js_version :: string
  js_serial :: string
  js_state :: jade_dev_state

type_synonym jade_mng = "(string, jade_status) btree_map"

definition mng_serial :: "string \<Rightarrow> ('e, string) outcome" where
  "mng_serial efusemac = (if length efusemac < 6 then Panic else Ok (drop 6 efusemac))"

fun mng_state :: "lock_state \<Rightarrow> status_network \<Rightarrow> jade_dev_state" where
  "mng_state Dev_Locked SN_Test = Jade_Test"
| "mng_state Dev_Ready SN_Test = Jade_Test"
| "mng_state Dev_Locked _ = Jade_Main"
| "mng_state Dev_Ready _ = Jade_Main"
| "mng_state _ _ = Jade_Uninit"

text \<open>A device used only within one operation: it is closed at the end, when it was opened.\<close>

definition with_managed :: "string \<Rightarrow> (managed_jade, mng_event, 'a) sx \<Rightarrow> ('s, mng_event, 'a) sx" where
  "with_managed jade_id m s h = (case m \<lparr> mj_jade_id = jade_id, mj_jade = False \<rparr> h of
      (r, dev, h') \<Rightarrow> (r, s, if mj_jade dev then h' @ [MV_Quit jade_id] else h'))"

definition read_status :: "mng_world \<Rightarrow> (managed_jade, mng_event, string + jade_resp) sx" where
  "read_status w = sx_then (managed_send w JR_ReadStatus) (sx_try (jade_try_recv w 1))"

definition add_device :: "mng_world \<Rightarrow> serial_port \<Rightarrow> (jade_mng, mng_event, unit) sx" where
  "add_device w jade =
     sx_bind (sx_get (\<lambda>known_ports. btree_get known_ports (sp_jade_id jade))) (\<lambda>known.
     sx_when (known = None)
       (sx_bind (with_managed (sp_jade_id jade) (read_status w)) (\<lambda>res.
        case res of
          Inr (JA_ReadStatus status) \<Rightarrow>
            sx_bind (sx_lift (mng_serial (vi_efusemac status))) (\<lambda>serial.
            sx_modify (btree_insert (sp_jade_id jade)
              \<lparr> js_port_name = sp_port_name jade, js_version = vi_jade_version status, js_serial = serial,
                js_state = mng_state (vi_jade_state status) (vi_jade_networks status) \<rparr>))
        | _ \<Rightarrow> sx_return ())))"

definition mng_ports :: "mng_world \<Rightarrow> (jade_mng, mng_event, (string \<times> jade_status) list) sx" where
  "mng_ports w =
     sx_bind (handle_ports w) (\<lambda>ports.
     let ports = fold (\<lambda>port. btree_insert (sp_jade_id port) port) ports [] in
     sx_then (sx_modify (filter (\<lambda>(jade_id, _). btree_get ports jade_id \<noteq> None)))
     (sx_then (sx_each (add_device w) (btree_values ports))
     (sx_get id)))"

section \<open>What the list holds\<close>

lemma with_managed_keeps: "(\<And>s h h'. I s h \<Longrightarrow> I s h') \<Longrightarrow> keeps I (with_managed i m)"
  by (rule sx_keepsI) (auto simp: with_managed_def split: prod.splits)

lemma add_device_keeps:
  assumes "sp_jade_id jade \<in> A"
  shows "keeps (\<lambda>m h. btree_inv m \<and> fst ` set m \<subseteq> A) (add_device w jade)"
proof -
  have "keeps (\<lambda>m h. btree_inv m \<and> fst ` set m \<subseteq> A) (sx_modify (btree_insert (sp_jade_id jade) v))" for v
    by (rule keeps_modify) (use assms btree_keys_insert [of "sp_jade_id jade" v] in auto)
  then show ?thesis
    unfolding add_device_def
    by (intro keeps_rules with_managed_keeps) (auto split: jade_resp.splits intro!: keeps_rules)
qed

lemma fold_insert_ports:
  "fst ` set (fold (\<lambda>port. btree_insert (sp_jade_id port) port) ports m) = fst ` set m \<union> sp_jade_id ` set ports"
  by (induction ports arbitrary: m) auto

lemma fold_insert_values:
  "snd ` set (fold (\<lambda>port. btree_insert (sp_jade_id port) port) ports m) \<subseteq> snd ` set m \<union> set ports"
proof (induction ports arbitrary: m)
  case (Cons port ports)
  have "snd ` set (btree_insert (sp_jade_id port) port m) \<subseteq> insert port (snd ` set m)"
    using set_btree_insert [of "sp_jade_id port" port m] by fastforce
  with Cons [of "btree_insert (sp_jade_id port) port m"] show ?case by auto
qed simp

text \<open>Every listed device is connected at the time of the listing, and none is listed twice.\<close>

lemma mng_ports_connected:
  assumes "mng_ports w m h = (Ok devices, m', h')" "btree_inv m"
  shows "\<exists>usb. mw_available_ports w h = Inr usb \<and> devices = m' \<and> btree_inv m' \<and>
    fst ` set m' \<subseteq> get_jade_id ` {port \<in> set usb. is_jade port}"
proof -
  obtain usb where usb: "mw_available_ports w h = Inr usb"
    using assms(1) by (cases "mw_available_ports w h") (auto simp: mng_ports_def handle_ports_def sx_defs sx_result_defs)
  let ?A = "get_jade_id ` {port \<in> set usb. is_jade port}"
  let ?I = "\<lambda>(m :: jade_mng) (h :: mng_event list). btree_inv m \<and> fst ` set m \<subseteq> ?A"
  define ports where "ports = fold (\<lambda>port. btree_insert (sp_jade_id port) port) (jade_ports usb) []"
  define m1 where "m1 = filter (\<lambda>(jade_id, _). btree_get ports jade_id \<noteq> None) m"
  have ids: "sp_jade_id ` set (jade_ports usb) = ?A" by (auto simp: jade_ports_def image_iff)
  have keys: "fst ` set ports = ?A" using fold_insert_ports [of "jade_ports usb" "[]"] ids by (simp add: ports_def)
  have "sp_jade_id port \<in> ?A" if "port \<in> set (map snd ports)" for port
    using that fold_insert_values [of "jade_ports usb" "[]"] ids by (auto simp: ports_def)
  then have each: "keeps ?I (sx_each (add_device w) (map snd ports))" by (intro keeps_each add_device_keeps)
  have inv: "?I m1 (h @ [MV_Ports])"
    using assms(2) keys by (auto simp: m1_def map_of_eq_None_iff)
  have run: "(case sx_each (add_device w) (map snd ports) m1 (h @ [MV_Ports]) of
      (Ok _, s, h) \<Rightarrow> sx_get id s h | (Err e, s, h) \<Rightarrow> (Err e, s, h) | (Panic, s, h) \<Rightarrow> (Panic, s, h)) = (Ok devices, m', h')"
    using assms(1) usb by (simp add: mng_ports_def handle_ports_def sx_defs sx_result_defs m1_def ports_def Let_def)
  then obtain u where "sx_each (add_device w) (map snd ports) m1 (h @ [MV_Ports]) = (Ok u, m', h')" "devices = m'"
    by (auto simp: sx_get_def split: prod.splits outcome.splits)
  with keepsD [OF each inv] usb show ?thesis by blast
qed

end
