(* ===== verification/Gdk_Types.thy ===== *)
theory Gdk_Types
  imports Payjoin Jade_Manager
begin

text \<open>
  What a wallet session exchanges with the GDK library (\<open>sideswap_client/src/gdk_json.rs\<close>) and what it
  keeps (\<open>GdkSesImpl\<close> of \<open>gdk_ses_impl.rs\<close>, \<open>LoginInfo\<close> and \<open>HwData\<close> of \<open>gdk_ses.rs\<close>).

  GDK is a C library: a call returns a code, and most calls hand out an auth handler, whose status is
  read and resolved until it is done.  GDK, the hardware wallet, the decoding of JSON and the crates
  \<open>elements\<close> and \<open>secp256k1\<close> are fields of \<open>gdk_world\<close>; answers that may change are functions of the
  history.  The conversion of a value to GDK's JSON type, which the code asserts to succeed, is left out.
\<close>

section \<open>Data of GDK\<close>

datatype gdk_address_type = AT_P2shP2wpkh | AT_P2wsh

record gdk_utxo =
  gu_subaccount :: int
  gu_address_type :: gdk_address_type
  gu_block_height :: "int option"
  gu_txhash :: txid
  gu_vout :: int
  gu_pointer :: int
  gu_prevout_script :: script
  gu_asset_id :: asset_id
  gu_satoshi :: u64
  gu_is_internal :: bool
  gu_is_blinded :: bool
  gu_is_confidential :: "bool option"
  gu_asset_tag :: conf_asset
  gu_commitment :: conf_value
  gu_amountblinder :: blinding_factor
  gu_assetblinder :: blinding_factor
  gu_nonce_commitment :: string
  gu_script :: "script option"
  gu_script_type :: "int option"
  gu_subtype :: "int option"
  gu_user_status :: "int option"
  gu_public_key :: "string option"
  gu_user_path :: "key_path option"
  gu_user_sighash :: "int option"

type_synonym gdk_utxos = "(asset_id, gdk_utxo list) btree_map"

record gdk_address =
  gr_address :: pj_address
  gr_subaccount :: int
  gr_address_type :: gdk_address_type
  gr_pointer :: int
  gr_user_path :: key_path
  gr_unconfidential_address :: string
  gr_blinding_key :: string
  gr_is_confidential :: bool
  gr_scriptpubkey :: string
  gr_is_internal :: "bool option"
  gr_public_key :: "string option"
  gr_script :: "script option"
  gr_branch :: "int option"
  gr_script_type :: "int option"
  gr_service_xpub :: "string option"
  gr_subtype :: "int option"
  gr_tx_count :: "int option"

record gdk_tx_input =
  gi_asset_id :: "asset_id option"
  gi_satoshi :: "u64 option"
  gi_assetblinder :: "blinding_factor option"
  gi_amountblinder :: "blinding_factor option"
  gi_is_relevant :: bool

record gdk_tx_output =
  go_asset_id :: "asset_id option"
  go_satoshi :: "u64 option"
  go_assetblinder :: "blinding_factor option"
  go_amountblinder :: "blinding_factor option"
  go_is_relevant :: bool
  go_is_internal :: bool
  go_pointer :: "int option"

record gdk_transaction =
  gt_txhash :: txid
  gt_block_height :: int
  gt_created_at_ts :: i64
  gt_fee :: int
  gt_transaction_vsize :: int
  gt_transaction_weight :: int
  gt_memo :: string
  gt_inputs :: "gdk_tx_input list"
  gt_outputs :: "gdk_tx_output list"

record subaccount =
  sa_hidden :: bool
  sa_name :: string
  sa_pointer :: int
  sa_receiving_id :: string
  sa_type :: string

text \<open>A transaction of the crate \<open>elements\<close>, as far as it is looked into.\<close>

record elements_tx =
  et_input_len :: nat
  et_output :: "pj_txout list"
  et_data :: string

record gdk_addressee =
  ka_address :: string
  ka_satoshi :: u64
  ka_asset_id :: asset_id
  ka_is_greedy :: "bool option"

record internal_addressee =
  kb_address_info :: gdk_address
  kb_satoshi :: u64
  kb_asset_id :: asset_id
  kb_is_greedy :: "bool option"

record created_output =
  ko_address :: "string option"
  ko_asset_id :: "asset_id option"
  ko_satoshi :: u64
  ko_is_change :: "bool option"
  ko_amountblinder :: "blinding_factor option"
  ko_assetblinder :: "blinding_factor option"
  ko_eph_private_key :: "string option"
  ko_scriptpubkey :: string

record create_result =
  kr_addressees :: "gdk_addressee list"
  kr_transaction_outputs :: "created_output list"
  kr_transaction :: "elements_tx option"
  kr_fee :: "u64 option"
  kr_fee_rate :: "u64 option"
  kr_transaction_vsize :: "u64 option"
  kr_transaction_weight :: "u64 option"
  kr_error :: string

record sign_result =
  kg_transaction_inputs :: "gdk_utxo list"
  kg_transaction_outputs :: "created_output list"
  kg_transaction :: "elements_tx option"
  kg_fee :: "u64 option"
  kg_error :: string

section \<open>Auth handlers\<close>

datatype auth_status = AH_Done | AH_Error | AH_RequestCode | AH_ResolveCode | AH_Call

datatype hw_action =
    HW_GetXpubs
  | HW_GetBlindingPublicKeys
  | HW_GetBlindingNonces
  | HW_SignTx
  | HW_SignMessage
  | HW_GetMasterBlindingKey

record hw_device_details =
  hd_name :: string
  hd_supports_ae_protocol :: int
  hd_supports_arbitrary_scripts :: bool
  hd_supports_host_unblinding :: bool
  hd_supports_liquid :: int
  hd_supports_low_r :: bool

record sign_tx_input =
  sg_txhash :: string
  sg_pt_idx :: int
  sg_asset_id :: asset_id
  sg_satoshi :: u64
  sg_redeem_script :: "script option"
  sg_address_type :: "gdk_address_type option"
  sg_ae_host_commitment :: "string option"
  sg_ae_host_entropy :: "string option"
  sg_assetblinder :: "blinding_factor option"
  sg_amountblinder :: "blinding_factor option"
  sg_asset_tag :: "string option"
  sg_user_path :: "key_path option"
  sg_public_key :: "string option"
  sg_prevout_script :: "string option"
  sg_commitment :: "string option"
  sg_user_sighash :: "int option"
  sg_skip_signing :: "bool option"
  sg_value_blind_proof :: "string option"
  sg_asset_blind_proof :: "string option"

record sign_tx_output =
  sh_scriptpubkey :: string
  sh_address :: "string option"
  sh_address_type :: "gdk_address_type option"
  sh_is_change :: "bool option"
  sh_is_internal :: "bool option"
  sh_asset_id :: asset_id
  sh_satoshi :: u64
  sh_blinding_key :: "string option"
  sh_assetblinder :: "blinding_factor option"
  sh_amountblinder :: "blinding_factor option"
  sh_user_path :: "key_path option"

record required_data =
  rq_action :: hw_action
  rq_device :: hw_device_details
  rq_paths :: "key_path list option"
  rq_path :: "key_path option"
  rq_message :: "string option"
  rq_use_ae_protocol :: "bool option"
  rq_ae_host_commitment :: "string option"
  rq_ae_host_entropy :: "string option"
  rq_blinding_keys_required :: "bool option"
  rq_scripts :: "string list option"
  rq_public_keys :: "string list option"
  rq_is_partial :: "bool option"
  rq_transaction :: "string option"
  rq_transaction_inputs :: "sign_tx_input list option"
  rq_transaction_outputs :: "sign_tx_output list option"

record auth_handler =
  ah_result :: "json option"
  ah_error :: "string option"
  ah_required_data :: "required_data option"
  ah_status :: auth_status

text \<open>What an auth handler is resolved with.\<close>

record sign_tx_res =
  sr_signatures :: "string option list"
  sr_signer_commitments :: "string list"
  sr_asset_commitments :: "string option list"
  sr_value_commitments :: "string option list"
  sr_assetblinders :: "blinding_factor option list"
  sr_amountblinders :: "blinding_factor option list"

datatype (plugins only: code) resolve_data =
    RV_Xpubs "string list"
  | RV_BlindingPublicKeys "string list"
  | RV_BlindingNonces "string list" "string list"
  | RV_SignTx sign_tx_res
  | RV_SignMessage string string
  | RV_MasterBlindingKey string

section \<open>The session\<close>

datatype tx_type = TX_Normal | TX_Swap | TX_OfflineSwapOutput | TX_OfflineSwap

text \<open>What the user is told to do on the device.\<close>

datatype jade_status_msg = JSt_Idle | JSt_ReadStatus | JSt_AuthUser | JSt_MasterBlindingKey | JSt_SignTx tx_type

record hw_data =
  hw_env :: env
  hw_name :: string
  hw_master_blinding_key :: string
  hw_xpubs :: "(key_path, string) btree_map"

datatype ses_wallet = WI_Mnemonic string | WI_HwData hw_data | WI_WatchOnly string string

record login_info =
  li_account_id :: account_id
  li_env :: env
  li_cache_dir :: string
  li_wallet_info :: ses_wallet
  li_single_sig :: bool
  li_network :: "network_selected option"
  li_proxy :: "string option"

fun wallet_mnemonic :: "ses_wallet \<Rightarrow> string option" where
  "wallet_mnemonic (WI_Mnemonic mnemonic) = Some mnemonic"
| "wallet_mnemonic _ = None"

fun wallet_hw_data :: "ses_wallet \<Rightarrow> hw_data option" where
  "wallet_hw_data (WI_HwData hw) = Some hw"
| "wallet_hw_data _ = None"

fun wallet_watch_only :: "ses_wallet \<Rightarrow> (string \<times> string) option" where
  "wallet_watch_only (WI_WatchOnly username password) = Some (username, password)"
| "wallet_watch_only _ = None"

definition get_hw_device :: "hw_data option \<Rightarrow> hw_device_details option" where
  "get_hw_device hw = map_option (\<lambda>hw. \<lparr> hd_name = hw_name hw, hd_supports_ae_protocol = 1, hd_supports_arbitrary_scripts = True,
     hd_supports_host_unblinding = True, hd_supports_liquid = 1, hd_supports_low_r = True \<rparr>) hw"

record gdk_ses =
  gs_login_info :: login_info
  gs_hw_data :: "hw_data option"
  gs_subaccount :: "int option"
  gs_receiving_id :: "string option"
  gs_policy_asset :: asset_id

record peg_payment =
  pp_sent_amount :: i64
  pp_sent_txid :: txid
  pp_signed_tx :: string

record sig_single_maker_res =
  sk_proposal :: string
  sk_chaining_tx :: "(pset_input \<times> elements_tx) option"
  sk_unspent_output :: gdk_utxo

section \<open>Calls\<close>

datatype (plugins only: code) ga_call =
    GA_init string
  | GA_create_session
  | GA_set_notification_handler account_id
  | GA_get_networks
  | GA_register_network string json
  | GA_connect string "string option" bool
  | GA_reconnect_hint bool
  | GA_set_watch_only string string
  | GA_register_user "hw_device_details option" "string option"
  | GA_login_user "hw_device_details option" "string option" "string option" "string option"
  | GA_get_subaccounts
  | GA_create_subaccount string string
  | GA_get_transactions int int int
  | GA_get_receive_address int bool
  | GA_get_unspent_outputs int int
  | GA_get_balance int int
  | GA_get_previous_addresses int "int option"
  | GA_set_transaction_memo string string
  | GA_create_transaction int "gdk_addressee list" gdk_utxos
  | GA_create_internal_transaction int "internal_addressee list" gdk_utxos
  | GA_blind_transaction json
  | GA_sign_transaction json
  | GA_send_transaction json
  | GA_psbt_get_details "gdk_utxo list" string
  | GA_psbt_sign "gdk_utxo list" string "string list"
  | GA_create_swap_transaction asset_id u64 gdk_utxo gdk_address

datatype (plugins only: code) gdk_event =
    GE_Call ga_call int
  | GE_Details
  | GE_Status
  | GE_Resolve resolve_data int
  | GE_JadeSend jade_req
  | GE_JadeRecv int
  | GE_JadeClear "jade_resp list"
  | GE_JadeStatus jade_status_msg
  | GE_Payjoin pj_event

type_synonym gdk_history = "gdk_event list"
type_synonym 'a gs = "(gdk_ses, gdk_event, 'a) sx"

record gdk_world =
  gx_rc :: "gdk_history \<Rightarrow> ga_call \<Rightarrow> int"
  gx_details :: "gdk_history \<Rightarrow> int \<times> string"
  gx_status :: "gdk_history \<Rightarrow> int \<times> string"
  gx_resolve :: "gdk_history \<Rightarrow> resolve_data \<Rightarrow> int"
  gx_networks :: "gdk_history \<Rightarrow> json"
  gx_queued :: "gdk_history \<Rightarrow> jade_resp list"
  gx_recv :: "gdk_history \<Rightarrow> int \<Rightarrow> string + jade_resp"
  gx_rounds :: nat
  gx_pages :: nat
  gx_hash_order :: "gdk_transaction list \<Rightarrow> gdk_transaction list"
  gx_payjoin :: pj_world
  gx_dec_details :: "string \<Rightarrow> string + string"
  gx_dec_auth :: "string \<Rightarrow> string + auth_handler"
  gx_dec_transactions :: "json \<Rightarrow> string + gdk_transaction list"
  gx_dec_address :: "json \<Rightarrow> string + gdk_address"
  gx_dec_utxos :: "json \<Rightarrow> string + gdk_utxos"
  gx_dec_created :: "json \<Rightarrow> string + create_result"
  gx_dec_signed :: "json \<Rightarrow> string + sign_result"
  gx_dec_sent :: "json \<Rightarrow> string + txid"
  gx_dec_pset :: "json \<Rightarrow> string + string"
  gx_dec_pset_details :: "json \<Rightarrow> string + pset_details"
  gx_dec_swap :: "json \<Rightarrow> string + string"
  gx_dec_balances :: "json \<Rightarrow> string + (asset_id, i64) btree_map"
  gx_dec_addresses :: "json \<Rightarrow> string + (int option \<times> gdk_address list)"
  gx_dec_login :: "json \<Rightarrow> string + string"
  gx_dec_subaccounts :: "json \<Rightarrow> string + subaccount list"
  gx_dec_subaccount :: "json \<Rightarrow> string + subaccount"
  gx_parse_asset :: "string \<Rightarrow> asset_id option"
  gx_parse_address :: "string \<Rightarrow> string + pj_address"
  gx_parse_txid :: "string \<Rightarrow> string + txid"
  gx_parse_xpub :: "string \<Rightarrow> string + string"
  gx_asset_text :: "asset_id \<Rightarrow> string"
  gx_txid_text :: "txid \<Rightarrow> string"
  gx_address_text :: "pj_address \<Rightarrow> string"
  gx_nonce_text :: "conf_nonce \<Rightarrow> string"
  gx_factor_text :: "blinding_factor \<Rightarrow> string"
  gx_zero_factor :: blinding_factor
  gx_contract :: "string \<Rightarrow> json"
  gx_asset_generator :: "asset_id \<Rightarrow> blinding_factor \<Rightarrow> bytes"
  gx_value_commitment :: "u64 \<Rightarrow> bytes \<Rightarrow> blinding_factor \<Rightarrow> bytes"
  gx_signature_der :: "bytes \<Rightarrow> string + bytes"
  gx_txid :: "elements_tx \<Rightarrow> txid"
  gx_tx_hex :: "elements_tx \<Rightarrow> string"
  gx_p2pkh_script :: "string \<Rightarrow> script"
  gx_p2shwpkh_redeem :: "string \<Rightarrow> script"
  gx_wsh_redeem :: "script \<Rightarrow> script"

end
