(* ===== verification/Gdk_Handler.thy ===== *)
theory Gdk_Handler
  imports Gdk_Types
begin

text \<open>
  Auth handlers (\<open>run_auth_handler\<close> of \<open>sideswap_client/src/gdk_ses_impl.rs\<close>): GDK asks for what only the
  hardware wallet knows (keys, blinding nonces, signatures), and the session gets it from the device.
  The rounds of questions GDK may ask are bounded by \<open>gx_rounds\<close>; a run that has not ended by then is
  cut off there, so that statements about every \<open>gdk_world\<close> cover every prefix of every run.  The
  texts of errors leave out the values that are printed with \<open>{:?}\<close>.
\<close>

section \<open>The device\<close>

fun sx_collect :: "('x \<Rightarrow> ('s, 'ev, 'a) sx) \<Rightarrow> 'x list \<Rightarrow> ('s, 'ev, 'a list) sx" where
  "sx_collect f [] = sx_return []"
| "sx_collect f (x # xs) = sx_bind (f x) (\<lambda>y. sx_bind (sx_collect f xs) (\<lambda>ys. sx_return (y # ys)))"

type_synonym ('s, 'a) gx = "('s, gdk_event, 'a) sx"

definition jade_send :: "jade_req \<Rightarrow> ('s, unit) gx" where
  "jade_send req = sx_emit (GE_JadeSend req)"

definition get_resp_with_timeout :: "gdk_world \<Rightarrow> int \<Rightarrow> ('s, jade_resp) gx" where
  "get_resp_with_timeout w time = sx_bind (sx_call (\<lambda>h. gx_recv w h time) (\<lambda>_. GE_JadeRecv time)) sx_of_sum"

definition clear_queue :: "gdk_world \<Rightarrow> ('s, unit) gx" where
  "clear_queue w = sx_bind (sx_call (gx_queued w) GE_JadeClear) (\<lambda>_. sx_return ())"

definition set_status :: "jade_status_msg \<Rightarrow> ('s, unit) gx" where
  "set_status status = sx_emit (GE_JadeStatus status)"

definition UNEXPECTED_JADE :: string where "UNEXPECTED_JADE = ''unexpected Jade response''"

definition expect_resp :: "(jade_resp \<Rightarrow> 'a option) \<Rightarrow> string + jade_resp \<Rightarrow> ('s, 'a) gx" where
  "expect_resp sel resp = (case resp of
      Inr resp \<Rightarrow> sx_ok_or (sel resp) UNEXPECTED_JADE
    | Inl _ \<Rightarrow> fail UNEXPECTED_JADE)"

definition get_resp_as :: "gdk_world \<Rightarrow> int \<Rightarrow> (jade_resp \<Rightarrow> 'a option) \<Rightarrow> ('s, 'a) gx" where
  "get_resp_as w time sel = sx_bind (sx_try (get_resp_with_timeout w time)) (expect_resp sel)"

fun sel_status :: "jade_resp \<Rightarrow> version_info option" where
  "sel_status (JA_ReadStatus v) = Some v" | "sel_status _ = None"
fun sel_auth :: "jade_resp \<Rightarrow> bool option" where
  "sel_auth (JA_AuthUser v) = Some v" | "sel_auth _ = None"
fun sel_xpub :: "jade_resp \<Rightarrow> string option" where
  "sel_xpub (JA_ResolveXpub v) = Some v" | "sel_xpub _ = None"
fun sel_blinding_key :: "jade_resp \<Rightarrow> bytes option" where
  "sel_blinding_key (JA_GetBlindingKey v) = Some v" | "sel_blinding_key _ = None"
fun sel_shared_nonce :: "jade_resp \<Rightarrow> bytes option" where
  "sel_shared_nonce (JA_GetSharedNonce v) = Some v" | "sel_shared_nonce _ = None"
fun sel_sign_tx :: "jade_resp \<Rightarrow> bool option" where
  "sel_sign_tx (JA_SignTx v) = Some v" | "sel_sign_tx _ = None"
fun sel_tx_input :: "jade_resp \<Rightarrow> bytes option" where
  "sel_tx_input (JA_TxInput v) = Some v" | "sel_tx_input _ = None"
fun sel_signature :: "jade_resp \<Rightarrow> bytes option option" where
  "sel_signature (JA_GetSignature v) = Some v" | "sel_signature _ = None"
fun sel_sign_message :: "jade_resp \<Rightarrow> bytes option" where
  "sel_sign_message (JA_SignMessage v) = Some v" | "sel_sign_message _ = None"

definition jade_network_of :: "env \<Rightarrow> jade_network" where
  "jade_network_of env = (if ed_mainnet (env_data_of env) then JN_Liquid else JN_TestnetLiquid)"

text \<open>The device is asked for its state, and unlocked when it is locked.\<close>

definition read_jade_status :: "gdk_world \<Rightarrow> ('s, version_info) gx" where
  "read_jade_status w =
     sx_then (jade_send JR_ReadStatus)
     (sx_bind (sx_try (get_resp_with_timeout w 1)) (\<lambda>resp.
      sx_bind (case resp of
          Inr _ \<Rightarrow> sx_return resp
        | Inl _ \<Rightarrow>
            sx_then (set_status JSt_ReadStatus)
            (sx_bind (sx_try (get_resp_with_timeout w 10)) (\<lambda>resp.
             sx_then (set_status JSt_Idle) (sx_return resp)))) (expect_resp sel_status)))"

definition auth_user :: "gdk_world \<Rightarrow> env \<Rightarrow> ('s, unit) gx" where
  "auth_user w env =
     sx_then (jade_send (JR_AuthUser (jade_network_of env)))
     (sx_then (set_status JSt_AuthUser)
     (sx_bind (sx_try (get_resp_with_timeout w 120)) (\<lambda>resp.
      sx_then (set_status JSt_Idle)
      (sx_bind (expect_resp sel_auth resp) (\<lambda>res. check res ''unlock failed'')))))"

definition unlock_hw :: "gdk_world \<Rightarrow> env \<Rightarrow> ('s, unit) gx" where
  "unlock_hw w env =
     sx_then (clear_queue w)
     (sx_bind (read_jade_status w) (\<lambda>status.
      case vi_jade_state status of
        Dev_Ready \<Rightarrow> sx_return ()
      | Dev_Locked \<Rightarrow> auth_user w env
      | Dev_Uninit \<Rightarrow> fail ''please initialize Jade first''
      | _ \<Rightarrow> fail ''unexpected jade state''))"

definition resolve_xpub :: "gdk_world \<Rightarrow> jade_network \<Rightarrow> key_path \<Rightarrow> ('s, string) gx" where
  "resolve_xpub w network path =
     sx_then (jade_send (JR_ResolveXpub network path))
     (sx_bind (get_resp_as w 20 sel_xpub) (\<lambda>xpub. sx_of_sum (gx_parse_xpub w xpub)))"

section \<open>Parameters\<close>

record handler_params =
  hp_assets :: "(asset_id, asset) btree_map option"
  hp_tx_type :: tx_type

definition new_params :: handler_params where
  "new_params = \<lparr> hp_assets = None, hp_tx_type = TX_Normal \<rparr>"

definition with_assets :: "handler_params \<Rightarrow> (asset_id, asset) btree_map \<Rightarrow> handler_params" where
  "with_assets p assets = p \<lparr> hp_assets := Some assets \<rparr>"

definition with_tx_status :: "handler_params \<Rightarrow> tx_type \<Rightarrow> handler_params" where
  "with_tx_status p status = p \<lparr> hp_tx_type := status \<rparr>"

definition get_jade_asset_info :: "gdk_world \<Rightarrow> asset_id \<Rightarrow> (asset_id, asset) btree_map \<Rightarrow> asset_info option" where
  "get_jade_asset_info w asset_id assets = (case btree_get assets asset_id of
      None \<Rightarrow> None
    | Some asset \<Rightarrow> (case (as_issuance_prevout asset, as_contract asset) of
        (Some (txid, vout), Some contract) \<Rightarrow>
          (let contract = convert_value (gx_contract w contract) in
           if contract = C_Null then None
           else Some \<lparr> af_asset_id = gx_asset_text w asset_id, af_contract = contract,
                       af_issuance_prevout = (gx_txid_text w txid, vout) \<rparr>)
      | _ \<Rightarrow> None))"

section \<open>Answers to GDK\<close>

definition resolve_code :: "gdk_world \<Rightarrow> resolve_data \<Rightarrow> ('s, unit) gx" where
  "resolve_code w data =
     sx_bind (sx_call (\<lambda>h. gx_resolve w h data) (GE_Resolve data)) (\<lambda>rc.
     check (rc = 0) ''GA_auth_handler_resolve_code failed'')"

definition resolve_xpubs :: "gdk_world \<Rightarrow> hw_data \<Rightarrow> required_data \<Rightarrow> ('s, unit) gx" where
  "resolve_xpubs w hw rd =
     sx_bind (sx_expect (rq_paths rd)) (\<lambda>paths.
     sx_bind (sx_collect (\<lambda>path. case btree_get (hw_xpubs hw) path of
         Some xpub \<Rightarrow> sx_return xpub
       | None \<Rightarrow> sx_then (clear_queue w) (resolve_xpub w (jade_network_of (hw_env hw)) path)) paths) (\<lambda>xpubs.
     resolve_code w (RV_Xpubs xpubs)))"

definition resolve_blinding_public_keys :: "gdk_world \<Rightarrow> required_data \<Rightarrow> ('s, unit) gx" where
  "resolve_blinding_public_keys w rd =
     sx_bind (sx_expect (rq_scripts rd)) (\<lambda>scripts.
     sx_then (clear_queue w)
     (sx_then (sx_each (\<lambda>script. sx_bind (sx_expect (hex_decode script)) (\<lambda>script. jade_send (JR_GetBlindingKey script))) scripts)
     (sx_bind (sx_collect (\<lambda>_. get_resp_as w 10 sel_blinding_key) scripts) (\<lambda>blinding_keys.
      resolve_code w (RV_BlindingPublicKeys (map hex_encode blinding_keys))))))"

definition ask_nonce :: "bool \<Rightarrow> string \<times> string \<Rightarrow> ('s, unit) gx" where
  "ask_nonce blinding_keys_required script_key =
     sx_bind (sx_expect (hex_decode (fst script_key))) (\<lambda>script.
     sx_bind (sx_expect (hex_decode (snd script_key))) (\<lambda>public_key.
     sx_then (jade_send (JR_GetSharedNonce script public_key))
     (sx_when blinding_keys_required (jade_send (JR_GetBlindingKey script)))))"

definition read_nonce :: "gdk_world \<Rightarrow> bool \<Rightarrow> ('s, string \<times> string list) gx" where
  "read_nonce w blinding_keys_required =
     sx_bind (get_resp_as w 10 sel_shared_nonce) (\<lambda>nonce.
     if blinding_keys_required
     then sx_bind (get_resp_as w 10 sel_blinding_key) (\<lambda>key. sx_return (hex_encode nonce, [hex_encode key]))
     else sx_return (hex_encode nonce, []))"

definition resolve_blinding_nonces :: "gdk_world \<Rightarrow> required_data \<Rightarrow> ('s, unit) gx" where
  "resolve_blinding_nonces w rd =
     sx_bind (sx_expect (rq_blinding_keys_required rd)) (\<lambda>blinding_keys_required.
     sx_bind (sx_expect (rq_scripts rd)) (\<lambda>scripts.
     sx_bind (sx_expect (rq_public_keys rd)) (\<lambda>public_keys.
     sx_then (check (length scripts = length public_keys) CONDITION_FAILED)
     (sx_then (clear_queue w)
     (sx_then (sx_each (ask_nonce blinding_keys_required) (zip scripts public_keys))
     (sx_bind (sx_collect (\<lambda>_. read_nonce w blinding_keys_required) scripts) (\<lambda>results.
      resolve_code w (RV_BlindingNonces (map fst results) (concat (map snd results))))))))))"

definition resolve_master_blinding_key :: "gdk_world \<Rightarrow> hw_data \<Rightarrow> ('s, unit) gx" where
  "resolve_master_blinding_key w hw = resolve_code w (RV_MasterBlindingKey (hw_master_blinding_key hw))"

text \<open>A compact signature, possibly with a recovery byte in front, becomes a DER signature.\<close>

definition compact_signature :: "bytes \<Rightarrow> (string, bytes) outcome" where
  "compact_signature signature =
     (if length signature = 64 then Ok signature
      else if length signature = 65 then Ok (tl signature)
      else Err (''unexpected signature size: '' @ show_int (int (length signature))))"

definition resolve_sign_message :: "gdk_world \<Rightarrow> required_data \<Rightarrow> ('s, unit) gx" where
  "resolve_sign_message w rd =
     sx_bind (sx_expect (rq_path rd)) (\<lambda>path.
     sx_bind (sx_expect (rq_message rd)) (\<lambda>message.
     sx_then (check (unwrap_or (rq_use_ae_protocol rd) False) CONDITION_FAILED)
     (sx_bind (sx_expect (rq_ae_host_commitment rd)) (\<lambda>ae_host_commitment.
      sx_bind (sx_expect (hex_decode ae_host_commitment)) (\<lambda>ae_host_commitment.
      sx_bind (sx_expect (rq_ae_host_entropy rd)) (\<lambda>ae_host_entropy.
      sx_bind (sx_expect (hex_decode ae_host_entropy)) (\<lambda>ae_host_entropy.
      sx_then (clear_queue w)
      (sx_then (jade_send (JR_SignMessage path message ae_host_commitment))
      (sx_bind (get_resp_as w 10 sel_sign_message) (\<lambda>signer_commitment.
       sx_then (jade_send (JR_GetSignature (Some ae_host_entropy)))
       (sx_bind (get_resp_as w 10 sel_signature) (\<lambda>signature.
        sx_bind (sx_expect signature) (\<lambda>signature.
        sx_bind (sx_lift (compact_signature signature)) (\<lambda>signature.
        sx_bind (sx_of_sum (gx_signature_der w signature)) (\<lambda>signature.
        resolve_code w (RV_SignMessage (hex_encode signature) (hex_encode signer_commitment)))))))))))))))))"

section \<open>Signing a transaction on the device\<close>

definition sign_commitment :: "gdk_world \<Rightarrow> sign_tx_output \<Rightarrow> (string, trusted_commitment option) outcome" where
  "sign_commitment w out = (case (sh_amountblinder out, sh_assetblinder out) of
      (Some amountblinder, Some assetblinder) \<Rightarrow>
        (let generator = gx_asset_generator w (sh_asset_id out) assetblinder;
             commitment = gx_value_commitment w (sh_satoshi out) generator amountblinder
         in and_then (unwrap (sh_blinding_key out)) (\<lambda>blinding_key.
            and_then (unwrap (hex_decode blinding_key)) (\<lambda>blinding_key.
            Ok (Some \<lparr> tc_asset_id = jade_asset_id (sh_asset_id out), tc_value = sh_satoshi out, tc_asset_generator = generator,
                       tc_value_commitment = commitment, tc_blinding_key = blinding_key, tc_abf = assetblinder, tc_vbf = amountblinder \<rparr>))))
    | _ \<Rightarrow> Ok None)"

definition sign_change :: "sign_tx_output \<Rightarrow> (string, jade_output option) outcome" where
  "sign_change out = (case sh_user_path out of
      None \<Rightarrow> Ok None
    | Some user_path \<Rightarrow>
        and_then (unwrap (sh_address_type out)) (\<lambda>address_type.
        Ok (Some \<lparr> ou_variant = (case address_type of AT_P2shP2wpkh \<Rightarrow> Some V_P2wpkhP2sh | AT_P2wsh \<Rightarrow> None),
                   ou_path = user_path, ou_recovery_xpub = None,
                   ou_is_change = unwrap_or (sh_is_change out) False \<or> unwrap_or (sh_is_internal out) False \<rparr>)))"

type_synonym asset_sums = "(asset_id, u64) btree_map"

definition sum_add :: "asset_id \<Rightarrow> u64 \<Rightarrow> asset_sums \<Rightarrow> asset_sums" where
  "sum_add asset_id satoshi m = btree_insert asset_id (u64_add (unwrap_or (btree_get m asset_id) 0) satoshi) m"

definition sum_sub :: "asset_id \<Rightarrow> u64 \<Rightarrow> asset_sums \<Rightarrow> asset_sums" where
  "sum_sub asset_id satoshi m = btree_insert asset_id (u64_sub (unwrap_or (btree_get m asset_id) 0) satoshi) m"

definition input_sum :: "sign_tx_input list \<Rightarrow> asset_sums" where
  "input_sum inputs = fold (\<lambda>input m. if sg_user_path input \<noteq> None then sum_add (sg_asset_id input) (sg_satoshi input) m else m) inputs []"

definition output_sums :: "asset_id \<Rightarrow> sign_tx_output list \<Rightarrow> asset_sums \<Rightarrow> asset_sums \<times> asset_sums" where
  "output_sums send_asset outputs ins =
     fold (\<lambda>out (ins, outs).
        if sh_user_path out \<noteq> None then
          if sh_asset_id out = send_asset then (sum_sub (sh_asset_id out) (sh_satoshi out) ins, outs)
          else (ins, sum_add (sh_asset_id out) (sh_satoshi out) outs)
        else (ins, outs)) outputs (ins, [])"

definition summary :: "asset_sums \<Rightarrow> (bytes \<times> u64) list" where
  "summary m = map (\<lambda>(asset_id, amount). (jade_asset_id asset_id, amount)) m"

text \<open>What the device shows for a swap: what the wallet gives, less its change, and what it gets.\<close>

definition sign_additional_info ::
    "sign_tx_input list \<Rightarrow> sign_tx_output list \<Rightarrow> (string, sign_tx_info) outcome" where
  "sign_additional_info inputs outputs =
     (let ins = input_sum inputs in
      and_then (ensure (length ins = 1) CONDITION_FAILED) (\<lambda>_.
      let (ins, outs) = output_sums (fst (hd ins)) outputs ins in
      and_then (ensure (length outs = 1) CONDITION_FAILED) (\<lambda>_.
      Ok \<lparr> si_is_partial = (length inputs = 1 \<and> length outputs = 1),
           si_wallet_input_summary = summary ins, si_wallet_output_summary = summary outs \<rparr>)))"

definition sign_asset_info ::
    "gdk_world \<Rightarrow> (asset_id, asset) btree_map option \<Rightarrow> sign_tx_input list \<Rightarrow> sign_tx_output list \<Rightarrow> asset_info list" where
  "sign_asset_info w assets inputs outputs =
     (let asset_ids = sort (remdups (map sg_asset_id inputs @ map sh_asset_id outputs)) in
      case assets of
        None \<Rightarrow> []
      | Some assets \<Rightarrow> List.map_filter (\<lambda>asset_id. get_jade_asset_info w asset_id assets) asset_ids)"

definition decode_field :: "string option \<Rightarrow> (string, bytes) outcome" where
  "decode_field x = and_then (unwrap x) (\<lambda>v. unwrap (hex_decode v))"

definition sign_input_req :: "sign_tx_input \<Rightarrow> (string, req_tx_input option) outcome" where
  "sign_input_req input =
     (if unwrap_or (sg_skip_signing input) False then Ok None
      else
        and_then (unwrap (sg_user_path input)) (\<lambda>path.
        and_then (decode_field (sg_prevout_script input)) (\<lambda>script.
        and_then (decode_field (sg_commitment input)) (\<lambda>commitment.
        and_then (decode_field (sg_ae_host_commitment input)) (\<lambda>ae_host_commitment.
        and_then (decode_field (sg_ae_host_entropy input)) (\<lambda>ae_host_entropy.
        and_then (unwrap (sg_assetblinder input)) (\<lambda>abf.
        and_then (unwrap (sg_amountblinder input)) (\<lambda>vbf.
        and_then (decode_field (sg_asset_tag input)) (\<lambda>asset_generator.
        Ok (Some \<lparr> rt_is_witness = True, rt_path = path, rt_script = script, rt_sighash = sg_user_sighash input,
             rt_value_commitment = commitment, rt_ae_host_commitment = ae_host_commitment,
             rt_ae_host_entropy = ae_host_entropy, rt_value = sg_satoshi input, rt_abf = abf, rt_vbf = vbf,
             rt_asset_id = jade_asset_id (sg_asset_id input), rt_asset_generator = asset_generator \<rparr>))))))))))"

definition sign_one_input :: "gdk_world \<Rightarrow> sign_tx_input \<Rightarrow> ('s, string) gx" where
  "sign_one_input w input =
     sx_bind (sx_lift (sign_input_req input)) (\<lambda>req.
     sx_then (jade_send (JR_TxInput req))
     (sx_bind (get_resp_as w 10 sel_tx_input) (\<lambda>tx_input. sx_return (hex_encode tx_input))))"

definition get_input_signature :: "gdk_world \<Rightarrow> sign_tx_input \<Rightarrow> ('s, string option) gx" where
  "get_input_signature w input =
     sx_bind (sx_lift (if unwrap_or (sg_skip_signing input) False then Ok None
        else map_ok Some (decode_field (sg_ae_host_entropy input)))) (\<lambda>req.
     sx_then (jade_send (JR_GetSignature req))
     (sx_bind (get_resp_as w 10 sel_signature) (\<lambda>signature. sx_return (map_option hex_encode signature))))"

definition sign_tx_result ::
    "trusted_commitment option list \<Rightarrow> string option list \<Rightarrow> string list \<Rightarrow> sign_tx_res" where
  "sign_tx_result commitments signatures signer_commitments =
     \<lparr> sr_signatures = signatures, sr_signer_commitments = signer_commitments,
       sr_asset_commitments = map (map_option (\<lambda>v. hex_encode (tc_asset_generator v))) commitments,
       sr_value_commitments = map (map_option (\<lambda>v. hex_encode (tc_value_commitment v))) commitments,
       sr_assetblinders = map (map_option tc_abf) commitments,
       sr_amountblinders = map (map_option tc_vbf) commitments \<rparr>"

text \<open>The request for the device; everything that can fail here does so before anything is sent.\<close>

definition sign_tx_request ::
    "gdk_world \<Rightarrow> hw_data \<Rightarrow> handler_params \<Rightarrow> required_data \<Rightarrow> string \<Rightarrow> sign_tx_input list \<Rightarrow> sign_tx_output list
      \<Rightarrow> (string, req_sign_tx) outcome" where
  "sign_tx_request w hw params rd transaction inputs outputs =
     and_then (collect_ok (map (\<lambda>input. case gx_parse_txid w (sg_txhash input) of Inl _ \<Rightarrow> Panic | Inr txid \<Rightarrow> Ok txid) inputs)) (\<lambda>_.
     and_then (ensure (list_ex (\<lambda>out. sh_scriptpubkey out \<noteq> []) outputs) ''can't find non-fee output'') (\<lambda>_.
     and_then (collect_ok (map (sign_commitment w) outputs)) (\<lambda>commitments.
     and_then (collect_ok (map sign_change outputs)) (\<lambda>change.
     and_then (if rq_is_partial rd = Some True then map_ok Some (sign_additional_info inputs outputs) else Ok None) (\<lambda>additional_info.
     and_then (unwrap (hex_decode transaction)) (\<lambda>txn.
     Ok \<lparr> rs_network = network_name (jade_network_of (hw_env hw)), rs_use_ae_signatures = True, rs_txn = txn,
          rs_num_inputs = int (length inputs), rs_trusted_commitments = commitments, rs_change = change,
          rs_asset_info = sign_asset_info w (hp_assets params) inputs outputs, rs_additional_info = additional_info \<rparr>))))))"

definition resolve_sign_tx :: "gdk_world \<Rightarrow> hw_data \<Rightarrow> handler_params \<Rightarrow> required_data \<Rightarrow> ('s, unit) gx" where
  "resolve_sign_tx w hw params rd =
     sx_then (set_status (JSt_SignTx (hp_tx_type params)))
     (sx_bind (sx_expect (rq_transaction rd)) (\<lambda>transaction.
      sx_bind (sx_expect (rq_transaction_inputs rd)) (\<lambda>inputs.
      sx_bind (sx_expect (rq_transaction_outputs rd)) (\<lambda>outputs.
      sx_then (check (unwrap_or (rq_use_ae_protocol rd) False) CONDITION_FAILED)
      (sx_then (clear_queue w)
      (sx_bind (sx_lift (sign_tx_request w hw params rd transaction inputs outputs)) (\<lambda>sign_tx.
       sx_then (jade_send (JR_SignTx sign_tx))
       (sx_bind (get_resp_as w 120 sel_sign_tx) (\<lambda>sign_tx_ok.
        sx_then (check sign_tx_ok ''sign tx request failed'')
        (sx_bind (sx_collect (sign_one_input w) inputs) (\<lambda>signer_commitments.
         sx_bind (sx_collect (get_input_signature w) inputs) (\<lambda>signatures.
         resolve_code w (RV_SignTx (sign_tx_result (rs_trusted_commitments sign_tx) signatures signer_commitments))))))))))))))"

section \<open>The loop\<close>

definition required_hw :: "hw_data \<Rightarrow> required_data \<Rightarrow> bool" where
  "required_hw hw rd = (case rq_action rd of
      HW_GetXpubs \<Rightarrow> list_ex (\<lambda>path. btree_get (hw_xpubs hw) path = None) (unwrap_or (rq_paths rd) [])
    | HW_GetMasterBlindingKey \<Rightarrow> False
    | _ \<Rightarrow> True)"

definition resolve_action :: "gdk_world \<Rightarrow> hw_data \<Rightarrow> handler_params \<Rightarrow> required_data \<Rightarrow> ('s, unit) gx" where
  "resolve_action w hw params rd = (case rq_action rd of
      HW_GetXpubs \<Rightarrow> resolve_xpubs w hw rd
    | HW_GetBlindingPublicKeys \<Rightarrow> resolve_blinding_public_keys w rd
    | HW_GetBlindingNonces \<Rightarrow> resolve_blinding_nonces w rd
    | HW_SignTx \<Rightarrow> resolve_sign_tx w hw params rd
    | HW_SignMessage \<Rightarrow> resolve_sign_message w rd
    | HW_GetMasterBlindingKey \<Rightarrow> resolve_master_blinding_key w hw)"

definition parsing_failed :: "string \<Rightarrow> string \<Rightarrow> string" where
  "parsing_failed e txt = ''parsing failed: '' @ e @ '', json: '' @ txt"

fun auth_rounds ::
    "gdk_world \<Rightarrow> hw_data option \<Rightarrow> handler_params \<Rightarrow> nat \<Rightarrow> ('s, string \<times> auth_handler) gx" where
  "auth_rounds w hw params 0 = sx_panic"
| "auth_rounds w hw params (Suc rounds) =
     sx_bind (sx_call (gx_status w) (\<lambda>_. GE_Status)) (\<lambda>(rc, txt).
     sx_then (check (rc = 0) ''GA_auth_handler_get_status failed'')
     (sx_bind (sx_of_sum (case gx_dec_auth w txt of Inl e \<Rightarrow> Inl (parsing_failed e txt) | Inr r \<Rightarrow> Inr r)) (\<lambda>result.
      if ah_status result \<noteq> AH_ResolveCode then sx_return (txt, result)
      else
        sx_bind (sx_ok_or hw ''can't resolve auth handler without hw_data'') (\<lambda>hw_data.
        sx_bind (sx_ok_or (ah_required_data result) ''required_data is empty'') (\<lambda>required_data.
        sx_then (sx_when (required_hw hw_data required_data) (unlock_hw w (hw_env hw_data)))
        (sx_then (resolve_action w hw_data params required_data)
        (auth_rounds w hw params rounds)))))))"

definition run_auth_handler_impl ::
    "gdk_world \<Rightarrow> hw_data option \<Rightarrow> handler_params \<Rightarrow> (json \<Rightarrow> string + 'a) \<Rightarrow> ('s, 'a) gx" where
  "run_auth_handler_impl w hw params dec =
     sx_bind (auth_rounds w hw params (gx_rounds w)) (\<lambda>(txt, ah).
     sx_bind (case ah_result ah of
         None \<Rightarrow> sx_return None
       | Some j \<Rightarrow> (case dec j of Inl e \<Rightarrow> fail (parsing_failed e txt) | Inr v \<Rightarrow> sx_return (Some v))) (\<lambda>result.
     if ah_status ah = AH_Error then fail (unwrap_or (ah_error ah) ''unknown auth handler error'')
     else
       sx_then (check (ah_status ah = AH_Done) ''unexpected auth handler status'')
       (sx_ok_or result ''auth handler error: no result field'')))"

definition run_auth_handler ::
    "gdk_world \<Rightarrow> hw_data option \<Rightarrow> handler_params \<Rightarrow> (json \<Rightarrow> string + 'a) \<Rightarrow> ('s, 'a) gx" where
  "run_auth_handler w hw params dec =
     sx_bind (sx_try (run_auth_handler_impl w hw params dec)) (\<lambda>result.
     sx_then (sx_when (hw \<noteq> None) (set_status JSt_Idle)) (sx_of_sum result))"

end
