(* ===== verification/Gdk_Session.thy ===== *)
theory Gdk_Session
  imports Gdk_Handler
begin

text \<open>
  The operations of a wallet session (\<open>sideswap_client/src/gdk_ses_impl.rs\<close>): login, addresses,
  transactions and balances, sending, payjoin, signing swaps, peg-out payments.  Each of them is a
  sequence of calls to GDK, whose results are checked on the way.
\<close>

section \<open>Calling GDK\<close>

definition last_gdk_error_details :: "gdk_world \<Rightarrow> ('s, string) gx" where
  "last_gdk_error_details w =
     sx_bind (sx_call (gx_details w) (\<lambda>_. GE_Details)) (\<lambda>(rc, txt).
     sx_then (check (rc = 0) ''GA_get_thread_error_details failed'') (sx_of_sum (gx_dec_details w txt)))"

definition ga_call_rc :: "gdk_world \<Rightarrow> ga_call \<Rightarrow> ('s, int) gx" where
  "ga_call_rc w call = sx_call (\<lambda>h. gx_rc w h call) (GE_Call call)"

definition ga_checked :: "gdk_world \<Rightarrow> string \<Rightarrow> ga_call \<Rightarrow> ('s, unit) gx" where
  "ga_checked w name call =
     sx_bind (ga_call_rc w call) (\<lambda>rc.
     if rc = 0 then sx_return ()
     else sx_bind (sx_try (last_gdk_error_details w)) (\<lambda>details.
       fail (name @ '' failed: '' @ (case details of Inr txt \<Rightarrow> txt | Inl _ \<Rightarrow> []))))"

definition with_context :: "string \<Rightarrow> ('s, 'a) gx \<Rightarrow> ('s, 'a) gx" where
  "with_context txt m = sx_bind (sx_try m) (\<lambda>r. sx_of_sum (prefix_error txt r))"

text \<open>A call that hands out an auth handler, and the handler run to its end.\<close>

definition ga_request ::
    "gdk_world \<Rightarrow> hw_data option \<Rightarrow> handler_params \<Rightarrow> string \<Rightarrow> ga_call \<Rightarrow> string \<Rightarrow> (json \<Rightarrow> string + 'a) \<Rightarrow> ('s, 'a) gx" where
  "ga_request w hw params name call context dec =
     sx_then (ga_checked w name call) (with_context context (run_auth_handler w hw params dec))"

definition CSTRING_OK :: "string \<Rightarrow> bool" where "CSTRING_OK s \<longleftrightarrow> CHR 0x00 \<notin> set s"

text \<open>\<open>CString::new(..).unwrap()\<close>.\<close>

definition cstring :: "string \<Rightarrow> ('s, unit) gx" where
  "cstring s = (if CSTRING_OK s then sx_return () else sx_panic)"

definition get_subaccount :: "int gs" where
  "get_subaccount = sx_bind (sx_get gs_subaccount) (\<lambda>a. sx_ok_or a ''not connected, subaccount is not set'')"

section \<open>Addresses, outputs and balances\<close>

definition try_get_gaid :: "string gs" where
  "try_get_gaid = sx_bind (sx_get gs_receiving_id) (\<lambda>r. sx_ok_or r ''not connected, receiving_id is not set'')"

definition unlock_hww :: "gdk_world \<Rightarrow> unit gs" where
  "unlock_hww w = sx_bind (sx_get gs_hw_data) (\<lambda>hw. case hw of
      Some hw \<Rightarrow> unlock_hw w (hw_env hw) | None \<Rightarrow> sx_return ())"

definition try_get_addr_info :: "gdk_world \<Rightarrow> bool \<Rightarrow> gdk_address gs" where
  "try_get_addr_info w is_internal =
     sx_bind get_subaccount (\<lambda>subaccount.
     sx_bind (sx_get gs_hw_data) (\<lambda>hw.
     ga_request w hw new_params ''GA_get_receive_address'' (GA_get_receive_address subaccount is_internal)
       ''receiving new address failed: '' (gx_dec_address w)))"

definition try_get_unspent_outputs :: "gdk_world \<Rightarrow> gdk_utxos gs" where
  "try_get_unspent_outputs w =
     sx_bind get_subaccount (\<lambda>subaccount.
     sx_bind (sx_get gs_hw_data) (\<lambda>hw.
     ga_request w hw new_params ''GA_get_unspent_outputs'' (GA_get_unspent_outputs subaccount 0)
       ''loading unspent outputs failed: '' (gx_dec_utxos w)))"

definition get_balances :: "gdk_world \<Rightarrow> (asset_id, i64) btree_map gs" where
  "get_balances w =
     sx_bind get_subaccount (\<lambda>subaccount.
     sx_bind (sx_get gs_hw_data) (\<lambda>hw.
     ga_request w hw new_params ''GA_get_balance'' (GA_get_balance subaccount 0)
       ''loading balances failed: '' (gx_dec_balances w)))"

definition get_previous_addresses :: "gdk_world \<Rightarrow> int option \<Rightarrow> bool \<Rightarrow> (int option \<times> gdk_address list) gs" where
  "get_previous_addresses w last_pointer is_internal =
     sx_bind get_subaccount (\<lambda>subaccount.
     if is_internal then sx_return (Some 0, [])
     else sx_bind (sx_get gs_hw_data) (\<lambda>hw.
       ga_request w hw new_params ''GA_get_previous_addresses'' (GA_get_previous_addresses subaccount last_pointer)
         ''loading previous addresses failed: '' (gx_dec_addresses w)))"

definition set_memo :: "gdk_world \<Rightarrow> string \<Rightarrow> string \<Rightarrow> unit gs" where
  "set_memo w txid memo =
     sx_then (cstring txid) (sx_then (cstring memo)
     (ga_checked w ''GA_set_transaction_memo'' (GA_set_transaction_memo txid memo)))"

section \<open>Transactions\<close>

definition convert_input :: "gdk_tx_input \<Rightarrow> balance option" where
  "convert_input input = (case (gi_is_relevant input, gi_asset_id input, gi_satoshi input) of
      (True, Some asset_id, Some satoshi) \<Rightarrow>
        if satoshi \<noteq> 0 then Some \<lparr> bl_asset = asset_id, bl_value = i64_neg (wrap_i64 satoshi) \<rparr> else None
    | _ \<Rightarrow> None)"

definition convert_output :: "gdk_tx_output \<Rightarrow> balance option" where
  "convert_output out = (case (go_is_relevant out, go_asset_id out, go_satoshi out) of
      (True, Some asset_id, Some satoshi) \<Rightarrow>
        if satoshi \<noteq> 0 then Some \<lparr> bl_asset = asset_id, bl_value = wrap_i64 satoshi \<rparr> else None
    | _ \<Rightarrow> None)"

definition balance_change :: "(int \<Rightarrow> int \<Rightarrow> int) \<Rightarrow> asset_id option \<times> u64 option \<Rightarrow> (asset_id, i64) btree_map \<Rightarrow> (asset_id, i64) btree_map" where
  "balance_change f item balances = (case item of
      (Some asset_id, Some amount) \<Rightarrow>
        btree_insert asset_id (f (unwrap_or (btree_get balances asset_id) 0) (wrap_i64 amount)) balances
    | _ \<Rightarrow> balances)"

definition tx_balances :: "gdk_transaction \<Rightarrow> (asset_id, i64) btree_map" where
  "tx_balances tx =
     fold (\<lambda>out. balance_change i64_add (go_asset_id out, go_satoshi out)) (gt_outputs tx)
       (fold (\<lambda>input. balance_change i64_sub (gi_asset_id input, gi_satoshi input)) (gt_inputs tx) [])"

definition max_pointer :: "(gdk_tx_output \<Rightarrow> bool) \<Rightarrow> gdk_tx_output list \<Rightarrow> int" where
  "max_pointer p outputs = fold max (List.map_filter go_pointer (filter p outputs)) 0"

text \<open>Milliseconds become seconds; the division truncates towards zero.\<close>

definition i64_div :: "int \<Rightarrow> int \<Rightarrow> int" where "i64_div a b = sgn a * (\<bar>a\<bar> div b)"

definition convert_tx :: "gdk_transaction \<Rightarrow> wallet_transaction" where
  "convert_tx tx = \<lparr> wt_txid = gt_txhash tx, wt_network_fee = gt_fee tx, wt_size = 0, wt_vsize = gt_transaction_vsize tx,
     wt_memo = gt_memo tx,
     wt_balances = map (\<lambda>(asset_id, v). \<lparr> bl_asset = asset_id, bl_value = v \<rparr>) (tx_balances tx),
     wt_created_at = i64_div (gt_created_at_ts tx) 1000, wt_block_height = gt_block_height tx,
     wt_balances_all = List.map_filter convert_input (gt_inputs tx) @ List.map_filter convert_output (gt_outputs tx),
     wt_max_pointer_external = max_pointer (\<lambda>out. go_is_relevant out \<and> \<not> go_is_internal out) (gt_outputs tx),
     wt_max_pointer_internal = max_pointer (\<lambda>out. go_is_relevant out \<and> go_is_internal out) (gt_outputs tx) \<rparr>"

definition TX_PAGE :: int where "TX_PAGE = 900"

text \<open>Pages are loaded until one is not full; \<open>gx_pages\<close> bounds their number, as \<open>gx_rounds\<close> does the rounds
  of a handler.  The table is a \<open>HashMap\<close>: a transaction listed twice is kept once.\<close>

fun load_pages :: "gdk_world \<Rightarrow> int \<Rightarrow> nat \<Rightarrow> int \<Rightarrow> (txid, gdk_transaction) btree_map \<Rightarrow> (txid, gdk_transaction) btree_map gs" where
  "load_pages w subaccount 0 first result = sx_panic"
| "load_pages w subaccount (Suc pages) first result =
     sx_bind (ga_call_rc w (GA_get_transactions subaccount first TX_PAGE)) (\<lambda>rc.
     sx_then (check (rc = 0) ''GA_get_transactions failed'')
     (sx_bind (sx_get gs_hw_data) (\<lambda>hw.
      sx_bind (run_auth_handler w hw new_params (gx_dec_transactions w)) (\<lambda>transactions.
      let result = fold (\<lambda>tx. btree_insert (gt_txhash tx) tx) transactions result in
      if int (length transactions) = TX_PAGE
      then load_pages w subaccount pages (i32_add first (int (length transactions))) result
      else sx_return result))))"

definition load_transactions :: "gdk_world \<Rightarrow> gdk_transaction list gs" where
  "load_transactions w =
     sx_bind get_subaccount (\<lambda>subaccount.
     sx_bind (load_pages w subaccount (gx_pages w) 0 []) (\<lambda>result. sx_return (gx_hash_order w (btree_values result))))"

definition get_transactions :: "gdk_world \<Rightarrow> wallet_transaction list gs" where
  "get_transactions w = sx_bind (load_transactions w) (\<lambda>list. sx_return (map convert_tx list))"

definition get_blinded_value :: "gdk_world \<Rightarrow> u64 \<Rightarrow> asset_id \<Rightarrow> blinding_factor \<Rightarrow> blinding_factor \<Rightarrow> string" where
  "get_blinded_value w value asset value_bf asset_bf =
     show_int value @ '','' @ gx_asset_text w asset @ '','' @ gx_factor_text w value_bf @ '','' @ gx_factor_text w asset_bf"

definition blinded_value_of ::
    "gdk_world \<Rightarrow> u64 option \<Rightarrow> asset_id option \<Rightarrow> blinding_factor option \<Rightarrow> blinding_factor option \<Rightarrow> string option" where
  "blinded_value_of w value asset value_bf asset_bf = (case (value, asset, value_bf, asset_bf) of
      (Some value, Some asset, Some value_bf, Some asset_bf) \<Rightarrow> Some (get_blinded_value w value asset value_bf asset_bf)
    | _ \<Rightarrow> None)"

definition get_blinded_values :: "gdk_world \<Rightarrow> string \<Rightarrow> string list gs" where
  "get_blinded_values w txid =
     sx_bind (sx_of_sum (gx_parse_txid w txid)) (\<lambda>txid.
     sx_bind (load_transactions w) (\<lambda>transaction_list.
     sx_bind (sx_ok_or (List.find (\<lambda>tx. gt_txhash tx = txid) transaction_list) ''tx not found'') (\<lambda>tx.
     sx_return
       (List.map_filter (\<lambda>input. blinded_value_of w (gi_satoshi input) (gi_asset_id input) (gi_amountblinder input) (gi_assetblinder input)) (gt_inputs tx)
        @ List.map_filter (\<lambda>out. blinded_value_of w (go_satoshi out) (go_asset_id out) (go_amountblinder out) (go_assetblinder out)) (gt_outputs tx)))))"

section \<open>Sending\<close>

definition utxo_total :: "gdk_utxos \<Rightarrow> asset_id \<Rightarrow> u64" where
  "utxo_total utxos asset_id = u64_sum (map gu_satoshi (unwrap_or (btree_get utxos asset_id) []))"

text \<open>A transaction is created, and refused unless it has no error and a fee.\<close>

definition create_checked :: "gdk_world \<Rightarrow> hw_data option \<Rightarrow> ga_call \<Rightarrow> (json \<times> create_result) gs" where
  "create_checked w hw call =
     sx_bind (ga_request w hw new_params ''GA_create_transaction'' call ''creating transaction failed: '' Inr) (\<lambda>created_tx_json.
     sx_bind (sx_of_sum (prefix_error ''parsing created transaction JSON failed: '' (gx_dec_created w created_tx_json))) (\<lambda>created_tx.
     sx_then (check (kr_error created_tx = []) (kr_error created_tx))
     (sx_then (check (unwrap_or (kr_fee created_tx) 0 > 0) ''network fee is 0'')
     (sx_return (created_tx_json, created_tx)))))"

definition blind_tx :: "gdk_world \<Rightarrow> hw_data option \<Rightarrow> json \<Rightarrow> json gs" where
  "blind_tx w hw tx = ga_request w hw new_params ''GA_blind_transaction'' (GA_blind_transaction tx) ''blinding transaction failed: '' Inr"

definition sign_tx :: "gdk_world \<Rightarrow> hw_data option \<Rightarrow> handler_params \<Rightarrow> json \<Rightarrow> (json \<Rightarrow> string + 'a) \<Rightarrow> 'a gs" where
  "sign_tx w hw params tx dec = ga_request w hw params ''GA_sign_transaction'' (GA_sign_transaction tx) ''signing tx failed: '' dec"

definition send_signed :: "gdk_world \<Rightarrow> hw_data option \<Rightarrow> json \<Rightarrow> txid gs" where
  "send_signed w hw tx = ga_request w hw new_params ''GA_send_transaction'' (GA_send_transaction tx) ''sending tx failed: '' (gx_dec_sent w)"

definition try_create_tx :: "gdk_world \<Rightarrow> create_tx \<Rightarrow> json gs" where
  "try_create_tx w tx =
     sx_bind get_subaccount (\<lambda>subaccount.
     sx_bind (sx_expect (gx_parse_asset w (bl_asset (ct_balance tx)))) (\<lambda>send_asset.
     sx_bind (try_get_unspent_outputs w) (\<lambda>unspent_outputs.
     sx_bind (sx_get id) (\<lambda>data.
     let amount = bl_value (ct_balance tx);
         bitcoin_balance = utxo_total unspent_outputs (gs_policy_asset data);
         total = wrap_i64 (utxo_total unspent_outputs send_asset)
     in
     sx_then (check (amount \<le> total) ''Insufficient funds'')
     (sx_then (check (bitcoin_balance > 0) ''Insufficient L-BTC to pay network fee'')
     (let send_all = (amount = total \<and> send_asset = gs_policy_asset data);
          addressee = \<lparr> ka_address = ct_addr tx, ka_satoshi = wrap_u64 amount, ka_asset_id = send_asset, ka_is_greedy = Some send_all \<rparr>
      in
      sx_bind (create_checked w (gs_hw_data data) (GA_create_transaction subaccount [addressee] unspent_outputs)) (\<lambda>(created_tx_json, _).
      blind_tx w (gs_hw_data data) created_tx_json)))))))"

definition try_send_tx :: "gdk_world \<Rightarrow> json \<Rightarrow> (asset_id, asset) btree_map \<Rightarrow> txid gs" where
  "try_send_tx w tx assets =
     sx_bind (sx_get gs_hw_data) (\<lambda>hw.
     sx_bind (sign_tx w hw (with_assets new_params assets) tx Inr) (\<lambda>signed_tx_json.
     sx_bind (sx_of_sum (prefix_error ''parsing signed transaction JSON failed: '' (gx_dec_signed w signed_tx_json))) (\<lambda>signed_tx.
     sx_then (check (kg_error signed_tx = []) (kg_error signed_tx))
     (sx_then (check (list_all (\<lambda>v. (ko_address v = None) = (ko_scriptpubkey v = [])) (kg_transaction_outputs signed_tx)) CONDITION_FAILED)
     (send_signed w hw signed_tx_json)))))"

definition get_tx_fee :: "gdk_world \<Rightarrow> asset_id \<Rightarrow> i64 \<Rightarrow> string \<Rightarrow> (nat \<times> u64) gs" where
  "get_tx_fee w asset_id send_amount addr =
     sx_bind get_subaccount (\<lambda>subaccount.
     sx_bind (try_get_unspent_outputs w) (\<lambda>unspent_outputs.
     sx_bind (sx_get id) (\<lambda>data.
     let total = wrap_i64 (utxo_total unspent_outputs asset_id) in
     sx_then (check (send_amount \<le> total) ''Insufficient funds'')
     (let send_all = (send_amount = total \<and> asset_id = gs_policy_asset data);
          addressee = \<lparr> ka_address = addr, ka_satoshi = wrap_u64 send_amount, ka_asset_id = asset_id, ka_is_greedy = Some send_all \<rparr>
      in
      sx_bind (ga_request w (gs_hw_data data) new_params ''GA_create_transaction'' (GA_create_transaction subaccount [addressee] unspent_outputs)
         ''creating transaction failed: '' (gx_dec_created w)) (\<lambda>created_tx.
      sx_then (check (kr_error created_tx = []) (kr_error created_tx))
      (sx_then (check (unwrap_or (kr_fee created_tx) 0 > 0) ''network fee is 0'')
      (sx_bind (sx_ok_or (kr_transaction created_tx) ''transaction is empty'') (\<lambda>transaction.
       sx_return (et_input_len transaction, unwrap_or (kr_fee created_tx) 0)))))))))"

definition make_pegout_payment :: "gdk_world \<Rightarrow> i64 \<Rightarrow> string \<Rightarrow> i64 \<Rightarrow> peg_payment gs" where
  "make_pegout_payment w send_amount peg_addr send_amount_exact =
     sx_bind get_subaccount (\<lambda>subaccount.
     sx_bind (sx_get gs_policy_asset) (\<lambda>send_asset.
     sx_bind (try_get_unspent_outputs w) (\<lambda>unspent_outputs.
     sx_bind (sx_get gs_hw_data) (\<lambda>hw.
     let total = wrap_i64 (utxo_total unspent_outputs send_asset) in
     sx_then (check (send_amount \<le> total) ''Insufficient funds'')
     (let send_all = (send_amount = total);
          addressee = \<lparr> ka_address = peg_addr, ka_satoshi = wrap_u64 send_amount, ka_asset_id = send_asset, ka_is_greedy = Some send_all \<rparr>
      in
      sx_bind (create_checked w hw (GA_create_transaction subaccount [addressee] unspent_outputs)) (\<lambda>(created_tx_json, created_tx).
      sx_bind (if send_all then sx_bind (sx_expect (kr_fee created_tx)) (\<lambda>fee. sx_return (i64_sub send_amount (wrap_i64 fee)))
               else sx_return send_amount) (\<lambda>sent_amount.
      sx_then (check (send_amount_exact = sent_amount) CONDITION_FAILED)
      (sx_bind (blind_tx w hw created_tx_json) (\<lambda>blinded_tx_json.
       sx_bind (sign_tx w hw new_params blinded_tx_json Inr) (\<lambda>signed_tx_json.
       sx_bind (sx_of_sum (gx_dec_signed w signed_tx_json)) (\<lambda>signed_tx.
       sx_then (check (kg_error signed_tx = []) (kg_error signed_tx))
       (sx_bind (send_signed w hw signed_tx_json) (\<lambda>sent_txid.
        sx_bind (sx_ok_or (kg_transaction signed_tx) ''transaction is empty'') (\<lambda>transaction.
        sx_return \<lparr> pp_sent_amount = sent_amount, pp_sent_txid = sent_txid, pp_signed_tx = gx_tx_hex w transaction \<rparr>))))))))))))))"

section \<open>Payjoin\<close>

text \<open>The payjoin client runs within the session: its own history is the part of the session's that it
  caused.\<close>

fun payjoin_events :: "gdk_history \<Rightarrow> pj_event list" where
  "payjoin_events [] = []"
| "payjoin_events (GE_Payjoin ev # h) = ev # payjoin_events h"
| "payjoin_events (_ # h) = payjoin_events h"

definition run_payjoin :: "(pj_event, string, 'a) io \<Rightarrow> ('s, 'a) gx" where
  "run_payjoin m s h = (let ph = payjoin_events h in case m ph of
      (r, ph') \<Rightarrow> (r, s, h @ map GE_Payjoin (drop (length ph) ph')))"

definition payjoin_utxo_ok :: "gdk_world \<Rightarrow> gdk_utxo \<Rightarrow> bool" where
  "payjoin_utxo_ok w utxo \<longleftrightarrow>
     (case gu_asset_tag utxo of Ast_Confidential _ \<Rightarrow> True | _ \<Rightarrow> False)
     \<and> (case gu_commitment utxo of Val_Confidential _ \<Rightarrow> True | _ \<Rightarrow> False)
     \<and> gu_amountblinder utxo \<noteq> gx_zero_factor w \<and> gu_assetblinder utxo \<noteq> gx_zero_factor w"

definition payjoin_utxo :: "gdk_world \<Rightarrow> gdk_utxo \<Rightarrow> (string, pj_utxo) outcome" where
  "payjoin_utxo w utxo =
     and_then (case gu_script utxo of Some script \<Rightarrow> Ok script
         | None \<Rightarrow> map_ok (gx_p2pkh_script w) (unwrap (gu_public_key utxo))) (\<lambda>script_pub_key.
     and_then (unwrap (jw_into_asset_gen (gx_payjoin w) (gu_asset_tag utxo))) (\<lambda>asset_commitment.
     and_then (unwrap (value_commitment (gu_commitment utxo))) (\<lambda>value_commitment.
     Ok \<lparr> ju_txid = gu_txhash utxo, ju_vout = gu_vout utxo, ju_script_pub_key = script_pub_key, ju_asset_id = gu_asset_id utxo,
          ju_value = gu_satoshi utxo, ju_asset_bf = gu_assetblinder utxo, ju_value_bf = gu_amountblinder utxo,
          ju_asset_commitment = asset_commitment, ju_value_commitment = value_commitment \<rparr>)))"

definition try_create_payjoin :: "gdk_world \<Rightarrow> ui_create_payjoin \<Rightarrow> ui_created_payjoin gs" where
  "try_create_payjoin w req =
     sx_then (check (bl_value (cj_balance req) > 0) CONDITION_FAILED)
     (let send_amount = wrap_u64 (bl_value (cj_balance req)) in
      sx_bind (sx_expect (gx_parse_asset w (bl_asset (cj_balance req)))) (\<lambda>send_asset.
      sx_bind (sx_of_sum (gx_parse_address w (cj_addr req))) (\<lambda>address.
      sx_bind (try_get_unspent_outputs w) (\<lambda>unspent_outputs.
      let unspent_outputs = unwrap_or (btree_get unspent_outputs send_asset) [];
          balance = u64_sum (map gu_satoshi unspent_outputs)
      in
      sx_then (check (send_amount \<le> balance) ''Insufficient funds'')
      (sx_then (check (list_all (payjoin_utxo_ok w) unspent_outputs) CONDITION_FAILED)
      (sx_then (check (list_all (\<lambda>utxo. gu_public_key utxo \<noteq> None \<or> gu_script utxo \<noteq> None) unspent_outputs) CONDITION_FAILED)
      (sx_bind (try_get_addr_info w True) (\<lambda>change_address.
       sx_bind (sx_lift (collect_ok (map (payjoin_utxo w) unspent_outputs))) (\<lambda>utxos.
       sx_bind (sx_get (\<lambda>data. li_env (gs_login_info data))) (\<lambda>env.
       sx_bind (run_payjoin (create_payjoin (gx_payjoin w)
          \<lparr> cp_base_url = base_server_url (env_data_of env), cp_user_agent = USER_AGENT, cp_asset_id = send_asset,
            cp_amount = send_amount, cp_address = address, cp_subtract_fee_from_amount = (balance = send_amount),
            cp_change_address = gr_address change_address, cp_utxos = utxos \<rparr>)) (\<lambda>resp.
       sx_return \<lparr> cq_req = req,
         cq_pset = jw_b64_encode (gx_payjoin w) (jw_pset_encode (gx_payjoin w) (Payjoin.cd_pset resp)),
         cq_asset_fee = wrap_i64 (Payjoin.cd_asset_fee resp) \<rparr>)))))))))))"

definition json_insert :: "string \<Rightarrow> json \<Rightarrow> json \<Rightarrow> (string, json) outcome" where
  "json_insert key v j = (case j of J_Object m \<Rightarrow> Ok (J_Object (btree_insert key v m)) | _ \<Rightarrow> Panic)"

definition decode_pset :: "gdk_world \<Rightarrow> string \<Rightarrow> (string, pj_pset) outcome" where
  "decode_pset w pset =
     and_then (ok_or (jw_b64_decode (gx_payjoin w) pset) ''base64'') (\<lambda>bytes.
     ok_or (jw_pset_decode (gx_payjoin w) bytes) ''pset'')"

definition psbt_sign ::
    "gdk_world \<Rightarrow> handler_params \<Rightarrow> gdk_utxo list \<Rightarrow> string \<Rightarrow> string list \<Rightarrow> (json \<Rightarrow> string + 'a) \<Rightarrow> 'a gs" where
  "psbt_sign w params utxos pset nonces dec =
     sx_bind (sx_get gs_hw_data) (\<lambda>hw.
     ga_request w hw params ''GA_sign_psbt'' (GA_psbt_sign utxos pset nonces) ''signing pset failed: '' dec)"

definition try_send_payjoin :: "gdk_world \<Rightarrow> ui_created_payjoin \<Rightarrow> (asset_id, asset) btree_map \<Rightarrow> txid gs" where
  "try_send_payjoin w req assets =
     sx_bind (sx_expect (gx_parse_asset w (bl_asset (cj_balance (cq_req req))))) (\<lambda>send_asset.
     sx_bind (try_get_unspent_outputs w) (\<lambda>unspent_outputs.
     let utxos = unwrap_or (btree_get unspent_outputs send_asset) [] in
     sx_bind (psbt_sign w (with_assets new_params assets) utxos (cq_pset req) [] Inr) (\<lambda>signed_pset_json.
     sx_bind (sx_of_sum (gx_dec_pset w signed_pset_json)) (\<lambda>signed_pset.
     sx_bind (sx_lift (decode_pset w (cq_pset req))) (\<lambda>pset_server.
     sx_bind (sx_lift (decode_pset w signed_pset)) (\<lambda>pset_client.
     sx_bind (sx_lift (final_tx (gx_payjoin w) pset_client pset_server)) (\<lambda>tx.
     sx_bind (sx_lift (json_insert ''transaction'' (J_String tx) signed_pset_json)) (\<lambda>signed_pset_json.
     sx_bind (sx_get gs_hw_data) (\<lambda>hw.
     send_signed w hw signed_pset_json)))))))))"

section \<open>Swaps\<close>

definition session_amounts_ok :: "asset_id \<Rightarrow> swap_amounts \<Rightarrow> pset_details \<Rightarrow> bool" where
  "session_amounts_ok policy_asset amounts details \<longleftrightarrow>
     list_all (\<lambda>asset. asset = am_send_asset amounts \<or> asset = am_recv_asset amounts) (btree_keys (pd_satoshi details)) \<and>
     (let send_amount = i64_neg (unwrap_or (btree_get (pd_satoshi details) (am_send_asset amounts)) 0);
          recv_amount = unwrap_or (btree_get (pd_satoshi details) (am_recv_asset amounts)) 0;
          send_amount = (if am_send_asset amounts = policy_asset \<and> send_amount \<noteq> 0
                         then i64_add send_amount (unwrap_or (pd_fee details) 0) else send_amount)
      in send_amount = wrap_i64 (am_send_amount amounts) \<and> recv_amount = wrap_i64 (am_recv_amount amounts))"

definition ses_verify_and_sign_pset ::
    "gdk_world \<Rightarrow> swap_amounts \<Rightarrow> string \<Rightarrow> string list \<Rightarrow> (asset_id, asset) btree_map \<Rightarrow> string gs" where
  "ses_verify_and_sign_pset w amounts pset nonces assets =
     sx_bind (try_get_unspent_outputs w) (\<lambda>unspent_outputs.
     sx_bind (sx_get id) (\<lambda>data.
     let utxos = concat (btree_values unspent_outputs) in
     sx_bind (ga_request w (gs_hw_data data) new_params ''GA_psbt_get_details'' (GA_psbt_get_details utxos pset)
        ''loading PSET details failed: '' (gx_dec_pset_details w)) (\<lambda>pset_details.
     sx_then (check (session_amounts_ok (gs_policy_asset data) amounts pset_details) CONDITION_FAILED)
     (if am_send_amount amounts = 0 then sx_return pset
      else psbt_sign w (with_tx_status (with_assets new_params assets) TX_Swap) utxos pset nonces (gx_dec_pset w)))))"

definition get_redeem_script :: "gdk_world \<Rightarrow> gdk_utxo \<Rightarrow> script" where
  "get_redeem_script w utxo = (case gu_public_key utxo of
      Some public_key \<Rightarrow> gx_p2shwpkh_redeem w public_key
    | None \<Rightarrow> gx_wsh_redeem w (gu_prevout_script utxo))"

definition maker_output_ok :: "gdk_world \<Rightarrow> gdk_address \<Rightarrow> asset_id \<Rightarrow> u64 \<Rightarrow> bool \<Rightarrow> created_output \<Rightarrow> bool" where
  "maker_output_ok w address_info send_asset value send_all out \<longleftrightarrow>
     ko_address out = Some (gx_address_text w (gr_address address_info))
     \<and> (ko_satoshi out = value \<or> send_all) \<and> ko_asset_id out = Some send_asset"

text \<open>The output of the transaction just signed, as GDK would list it.\<close>

definition chained_utxo ::
    "gdk_world \<Rightarrow> bool \<Rightarrow> gdk_address \<Rightarrow> elements_tx \<Rightarrow> nat \<Rightarrow> created_output \<Rightarrow> (string, gdk_utxo) outcome" where
  "chained_utxo w single_sig address_info tx pt_idx out =
     and_then (ok_or (ko_assetblinder out) ''assetblinder is not set'') (\<lambda>asset_bf.
     and_then (ok_or (ko_amountblinder out) ''amountblinder is not set'') (\<lambda>value_bf.
     and_then (unwrap (if pt_idx < length (et_output tx) then Some (et_output tx ! pt_idx) else None)) (\<lambda>tx_out.
     and_then (case gr_script address_info of
         Some script \<Rightarrow> Ok script
       | None \<Rightarrow> (case gr_public_key address_info of
           Some public_key \<Rightarrow> and_then (ensure single_sig CONDITION_FAILED) (\<lambda>_. Ok (gx_p2pkh_script w public_key))
         | None \<Rightarrow> Err ''script or public_key must be known'')) (\<lambda>prevout_script.
     and_then (unwrap (ko_asset_id out)) (\<lambda>asset_id.
     Ok \<lparr> gu_subaccount = gr_subaccount address_info, gu_address_type = gr_address_type address_info, gu_block_height = None,
          gu_txhash = gx_txid w tx, gu_vout = int pt_idx, gu_pointer = gr_pointer address_info, gu_prevout_script = prevout_script,
          gu_asset_id = asset_id, gu_satoshi = ko_satoshi out, gu_is_internal = False, gu_is_blinded = True,
          gu_is_confidential = Some True, gu_asset_tag = jt_asset tx_out, gu_commitment = jt_value tx_out,
          gu_amountblinder = value_bf, gu_assetblinder = asset_bf, gu_nonce_commitment = gx_nonce_text w (jt_nonce tx_out),
          gu_script = gr_script address_info, gu_script_type = gr_script_type address_info, gu_subtype = gr_subtype address_info,
          gu_user_status = None, gu_public_key = gr_public_key address_info, gu_user_path = Some (gr_user_path address_info),
          gu_user_sighash = None \<rparr>)))))"

definition chaining_input :: "gdk_world \<Rightarrow> asset_id \<Rightarrow> gdk_utxo \<Rightarrow> pset_input" where
  "chaining_input w send_asset utxo = \<lparr> pi_txid = gu_txhash utxo, pi_vout = gu_vout utxo, pi_asset = send_asset,
     pi_asset_bf = gu_assetblinder utxo, pi_value = gu_satoshi utxo, pi_value_bf = gu_amountblinder utxo,
     pi_redeem_script = Some (get_redeem_script w utxo) \<rparr>"

text \<open>An output of exactly the wanted value is used as it is; otherwise the wallet makes one for itself.\<close>

definition make_maker_utxo ::
    "gdk_world \<Rightarrow> asset_id \<Rightarrow> u64 \<Rightarrow> (asset_id, asset) btree_map \<Rightarrow> gdk_utxos \<Rightarrow> (gdk_utxo \<times> (pset_input \<times> elements_tx) option) gs" where
  "make_maker_utxo w send_asset value assets unspent_outputs =
     sx_bind get_subaccount (\<lambda>subaccount.
     sx_bind (try_get_addr_info w False) (\<lambda>address_info.
     sx_bind (sx_get id) (\<lambda>data.
     let hw = gs_hw_data data;
         single_sig = li_single_sig (gs_login_info data);
         send_all = (value = utxo_total unspent_outputs (gs_policy_asset data) \<and> send_asset = gs_policy_asset data);
         addressee = \<lparr> kb_address_info = address_info, kb_satoshi = value, kb_asset_id = send_asset, kb_is_greedy = Some send_all \<rparr>
     in
     sx_bind (create_checked w hw (GA_create_internal_transaction subaccount [addressee] unspent_outputs)) (\<lambda>(created_tx_json, _).
     sx_bind (if \<not> single_sig
        then sx_lift (json_insert ''sign_with'' (J_Array [J_String ''user'', J_String ''green-backend'']) created_tx_json)
        else sx_return created_tx_json) (\<lambda>created_tx_json.
     sx_bind (blind_tx w hw created_tx_json) (\<lambda>blinded_tx_json.
     sx_bind (sign_tx w hw (with_tx_status (with_assets new_params assets) TX_OfflineSwapOutput) blinded_tx_json (gx_dec_signed w)) (\<lambda>signed_tx.
     sx_then (check (kg_error signed_tx = []) (kg_error signed_tx))
     (sx_bind (sx_ok_or (kg_transaction signed_tx) ''transaction is empty'') (\<lambda>tx.
      sx_then (check (\<not> send_all \<or> length (kg_transaction_outputs signed_tx) = 2) CONDITION_FAILED)
      (sx_bind (sx_ok_or (List.find (\<lambda>(_, out). maker_output_ok w address_info send_asset value send_all out)
          (List.enumerate 0 (kg_transaction_outputs signed_tx))) ''constructed UTXO not found'') (\<lambda>(pt_idx, out).
       sx_bind (sx_lift (chained_utxo w single_sig address_info tx pt_idx out)) (\<lambda>utxo.
       sx_return (utxo, Some (chaining_input w send_asset utxo, tx))))))))))))))"

definition sig_single_maker_utxo ::
    "gdk_world \<Rightarrow> asset_id \<Rightarrow> u64 \<Rightarrow> (asset_id, asset) btree_map \<Rightarrow> (gdk_utxo \<times> (pset_input \<times> elements_tx) option) gs" where
  "sig_single_maker_utxo w send_asset value assets =
     sx_bind (try_get_unspent_outputs w) (\<lambda>unspent_outputs.
     case List.find (\<lambda>utxo. gu_satoshi utxo = value) (unwrap_or (btree_get unspent_outputs send_asset) []) of
       Some unspent_output \<Rightarrow> sx_return (unspent_output, None)
     | None \<Rightarrow> make_maker_utxo w send_asset value assets unspent_outputs)"

definition sig_single_maker_tx ::
    "gdk_world \<Rightarrow> asset_id \<Rightarrow> u64 \<Rightarrow> asset_id \<Rightarrow> u64 \<Rightarrow> gdk_address \<Rightarrow> (asset_id, asset) btree_map \<Rightarrow> sig_single_maker_res gs" where
  "sig_single_maker_tx w send_asset send_value recv_asset recv_value recv_address assets =
     sx_bind (sig_single_maker_utxo w send_asset send_value assets) (\<lambda>(unspent_output, chaining_tx).
     sx_bind (sx_get gs_hw_data) (\<lambda>hw.
     sx_bind (ga_request w hw (with_tx_status (with_assets new_params assets) TX_OfflineSwap) ''GA_create_swap_transaction''
        (GA_create_swap_transaction recv_asset recv_value unspent_output recv_address) ''creating swap failed: '' (gx_dec_swap w)) (\<lambda>proposal.
     sx_return \<lparr> sk_proposal = proposal, sk_chaining_tx = chaining_tx, sk_unspent_output = unspent_output \<rparr>)))"

section \<open>Login\<close>

definition SUBACCOUNT_NAME_REG :: string where "SUBACCOUNT_NAME_REG = ''Main account''"
definition SUBACCOUNT_TYPE_REG :: string where "SUBACCOUNT_TYPE_REG = ''p2sh-p2wpkh''"
definition SUBACCOUNT_NAME_AMP :: string where "SUBACCOUNT_NAME_AMP = ''AMP''"
definition SUBACCOUNT_TYPE_AMP :: string where "SUBACCOUNT_TYPE_AMP = ''2of2_no_recovery''"

definition ses_register :: "gdk_world \<Rightarrow> unit gs" where
  "ses_register w =
     sx_bind (sx_get (\<lambda>data. li_wallet_info (gs_login_info data))) (\<lambda>wallet.
     let hw = wallet_hw_data wallet in
     sx_bind (ga_request w hw new_params ''GA_register_user'' (GA_register_user (get_hw_device hw) (wallet_mnemonic wallet))
       ''registration failed: '' Inr) (\<lambda>_. sx_return ()))"

definition login_subaccount :: "gdk_world \<Rightarrow> hw_data option \<Rightarrow> subaccount gs" where
  "login_subaccount w hw =
     sx_bind (ga_request w hw new_params ''GA_get_subaccounts'' GA_get_subaccounts
        ''loading subaccounts failed: '' (gx_dec_subaccounts w)) (\<lambda>subaccounts.
     sx_bind (sx_get (\<lambda>data. li_single_sig (gs_login_info data))) (\<lambda>single_sig.
     let (name, type) = (if single_sig then (SUBACCOUNT_NAME_REG, SUBACCOUNT_TYPE_REG) else (SUBACCOUNT_NAME_AMP, SUBACCOUNT_TYPE_AMP)) in
     case List.find (\<lambda>account. sa_type account = type) subaccounts of
       Some account \<Rightarrow> sx_return account
     | None \<Rightarrow> ga_request w hw new_params ''GA_create_subaccount'' (GA_create_subaccount name type)
         ''creating AMP subaccount failed: '' (gx_dec_subaccount w)))"

definition ses_login :: "gdk_world \<Rightarrow> unit gs" where
  "ses_login w =
     sx_bind (sx_get gs_login_info) (\<lambda>info.
     let wallet = li_wallet_info info;
         hw = wallet_hw_data wallet;
         watch_only = wallet_watch_only wallet
     in
     sx_bind (ga_request w hw new_params ''GA_login_user''
        (GA_login_user (get_hw_device hw) (wallet_mnemonic wallet) (map_option fst watch_only) (map_option snd watch_only))
        ''login failed: '' (gx_dec_login w)) (\<lambda>_.
     if \<not> li_single_sig info then
       sx_bind (login_subaccount w hw) (\<lambda>account.
       sx_modify (\<lambda>data. data \<lparr> gs_subaccount := Some (sa_pointer account), gs_receiving_id := Some (sa_receiving_id account) \<rparr>))
     else sx_modify (gs_subaccount_update (\<lambda>_. Some 0))))"

definition ses_set_watch_only :: "gdk_world \<Rightarrow> string \<Rightarrow> string \<Rightarrow> unit gs" where
  "ses_set_watch_only w username password =
     sx_then (cstring username) (sx_then (cstring password)
     (ga_checked w ''GA_set_watch_only'' (GA_set_watch_only username password)))"

text \<open>A hint that is refused is only logged.\<close>

definition reconnect_hint :: "gdk_world \<Rightarrow> bool \<Rightarrow> unit gs" where
  "reconnect_hint w hint_connect =
     sx_bind (sx_try (ga_checked w ''GA_reconnect_hint'' (GA_reconnect_hint hint_connect))) (\<lambda>_. sx_return ())"

section \<open>Starting a session\<close>

fun gdk_network :: "network \<Rightarrow> bool \<Rightarrow> string option" where
  "gdk_network Net_Mainnet False = Some ''liquid''"
| "gdk_network Net_Testnet False = Some ''testnet-liquid''"
| "gdk_network Net_Mainnet True = Some ''electrum-liquid''"
| "gdk_network Net_Testnet True = Some ''electrum-testnet-liquid''"
| "gdk_network _ _ = None"

definition is_liquid_env :: "env \<Rightarrow> bool" where
  "is_liquid_env env \<longleftrightarrow> env \<in> {Env_Prod, Env_Staging, Env_LocalLiquid}"

fun custom_electrum :: "env \<Rightarrow> network_selected option \<Rightarrow> (string, (string \<times> int \<times> bool) option) outcome" where
  "custom_electrum env None = Ok None"
| "custom_electrum env (Some NS_Blockstream) = Ok None"
| "custom_electrum env (Some NS_Sideswap) =
     (if is_liquid_env env then Ok (Some (''electrs.sideswap.io'', 12001, True))
      else if env \<in> {Env_Testnet, Env_LocalTestnet} then Ok (Some (''electrs.sideswap.io'', 12002, True))
      else Panic)"
| "custom_electrum env (Some NS_SideswapCn) =
     (if is_liquid_env env then Ok (Some (''cn.sideswap.io'', 12001, True)) else Ok None)"
| "custom_electrum env (Some (NS_Custom host port use_tls)) = Ok (Some (host, port, use_tls))"

definition json_get :: "string \<Rightarrow> json \<Rightarrow> (string, json) outcome" where
  "json_get key j = (case j of J_Object m \<Rightarrow> unwrap (btree_get m key) | _ \<Rightarrow> Panic)"

definition ga_asserted :: "gdk_world \<Rightarrow> ga_call \<Rightarrow> ('s, unit) gx" where
  "ga_asserted w call = sx_bind (ga_call_rc w call) (\<lambda>rc. sx_lift (assert_that (rc = 0)))"

text \<open>What the call just made has returned.\<close>

definition ga_output :: "(gdk_history \<Rightarrow> 'a) \<Rightarrow> ('s, 'a) gx" where
  "ga_output f s h = (Ok (f h), s, h)"

definition register_custom_network :: "gdk_world \<Rightarrow> string \<Rightarrow> string \<times> int \<times> bool \<Rightarrow> ('s, string) gx" where
  "register_custom_network w network custom = (case custom of (custom_host, custom_port, custom_tls) \<Rightarrow>
     sx_then (ga_asserted w GA_get_networks)
     (sx_bind (ga_output (gx_networks w)) (\<lambda>networks.
      sx_bind (sx_lift (json_get network networks)) (\<lambda>new_network.
      sx_bind (sx_lift (json_insert ''electrum_url'' (J_String (custom_host @ '':'' @ show_int custom_port)) new_network)) (\<lambda>new_network.
      sx_bind (sx_lift (json_insert ''electrum_tls'' (J_Bool custom_tls) new_network)) (\<lambda>new_network.
      let custom_name = network @ ''-custom'' in
      sx_then (ga_asserted w (GA_register_network custom_name new_network)) (sx_return custom_name)))))))"

definition select_network :: "gdk_world \<Rightarrow> login_info \<Rightarrow> ('s, string) gx" where
  "select_network w info =
     sx_bind (sx_expect (gdk_network (ed_network (env_data_of (li_env info))) (li_single_sig info))) (\<lambda>network.
     sx_bind (sx_lift (custom_electrum (li_env info) (li_network info))) (\<lambda>custom.
     case custom of
       Some custom \<Rightarrow> if li_single_sig info then register_custom_network w network custom else sx_return network
     | None \<Rightarrow> sx_return network))"

fun is_init :: "gdk_event \<Rightarrow> bool" where
  "is_init (GE_Call (GA_init _) _) = True"
| "is_init _ = False"

text \<open>\<open>GDK_INITIALIZED.call_once\<close>.\<close>

definition init_once :: "gdk_world \<Rightarrow> string \<Rightarrow> ('s, unit) gx" where
  "init_once w datadir s h = (if list_ex is_init h then (Ok (), s, h) else ga_asserted w (GA_init datadir) s h)"

definition start_processing :: "gdk_world \<Rightarrow> login_info \<Rightarrow> bool \<Rightarrow> ('s, gdk_ses) gx" where
  "start_processing w info with_callback =
     sx_then (init_once w (li_cache_dir info))
     (sx_then (ga_asserted w GA_create_session)
     (sx_then (sx_when with_callback (ga_asserted w (GA_set_notification_handler (li_account_id info))))
     (sx_bind (select_network w info) (\<lambda>network.
      sx_bind (sx_expect (gx_parse_asset w (ed_policy_asset (env_data_of (li_env info))))) (\<lambda>policy_asset.
      sx_then (ga_checked w ''GA_connect'' (GA_connect network (li_proxy info) (li_proxy info \<noteq> None)))
      (sx_return \<lparr> gs_login_info = info, gs_hw_data = wallet_hw_data (li_wallet_info info), gs_subaccount = None,
         gs_receiving_id = None, gs_policy_asset = policy_asset \<rparr>))))))"

end
