(* ===== verification/Gdk_Jade.thy ===== *)
theory Gdk_Jade
  imports Gdk_Session
begin

text \<open>
  The trait \<open>GdkSes\<close> (\<open>sideswap_client/src/gdk_ses.rs\<close>) as a type of operations, its implementation by a
  GDK session (\<open>gdk_ses_impl.rs\<close>), and the one for hardware wallets (\<open>gdk_ses_jade.rs\<close>): a watch-only
  session for everything that needs no key, and a second session with the device, which is logged in when
  it is first needed.  Notifications arrive on threads of GDK; here they are handled between operations.
\<close>

section \<open>Operations\<close>

type_synonym assets = "(asset_id, asset) btree_map"

datatype (plugins only: code) ses_op =
    Op_Login
  | Op_Register
  | Op_SetWatchOnly string string
  | Op_Connect
  | Op_Disconnect
  | Op_GetGaid
  | Op_UnlockHww
  | Op_UpdateSyncInterval int
  | Op_GetBalances
  | Op_GetTransactions
  | Op_GetReceiveAddress
  | Op_GetChangeAddress
  | Op_CreateTx create_tx
  | Op_SendTx json assets
  | Op_CreatePayjoin ui_create_payjoin
  | Op_SendPayjoin ui_created_payjoin assets
  | Op_GetUtxos
  | Op_GetTxFee asset_id i64 string
  | Op_MakePegoutPayment i64 string i64
  | Op_GetBlindedValues string
  | Op_GetPreviousAddresses "int option" bool
  | Op_SigSingleMakerTx asset_id u64 asset_id u64 gdk_address assets
  | Op_VerifyAndSignPset swap_amounts string "string list" assets
  | Op_SetMemo string string

datatype (plugins only: code) ses_value =
    SV_Unit
  | SV_Text string
  | SV_Texts "string list"
  | SV_Balances "(asset_id, i64) btree_map"
  | SV_Transactions "wallet_transaction list"
  | SV_Address gdk_address
  | SV_Addresses "int option" "gdk_address list"
  | SV_Json json
  | SV_Txid txid
  | SV_Payjoin ui_created_payjoin
  | SV_Utxos gdk_utxos
  | SV_TxFee nat u64
  | SV_PegPayment peg_payment
  | SV_SigSingleMaker sig_single_maker_res

definition sx_map :: "('a \<Rightarrow> 'b) \<Rightarrow> ('s, 'ev, 'a) sx \<Rightarrow> ('s, 'ev, 'b) sx" where
  "sx_map f m = sx_bind m (\<lambda>x. sx_return (f x))"

fun ses_run :: "gdk_world \<Rightarrow> ses_op \<Rightarrow> ses_value gs" where
  "ses_run w Op_Login = sx_map (\<lambda>_. SV_Unit) (ses_login w)"
| "ses_run w Op_Register = sx_map (\<lambda>_. SV_Unit) (ses_register w)"
| "ses_run w (Op_SetWatchOnly username password) = sx_map (\<lambda>_. SV_Unit) (ses_set_watch_only w username password)"
| "ses_run w Op_Connect = sx_map (\<lambda>_. SV_Unit) (reconnect_hint w True)"
| "ses_run w Op_Disconnect = sx_map (\<lambda>_. SV_Unit) (reconnect_hint w False)"
| "ses_run w Op_GetGaid = sx_map SV_Text try_get_gaid"
| "ses_run w Op_UnlockHww = sx_map (\<lambda>_. SV_Unit) (unlock_hww w)"
| "ses_run w (Op_UpdateSyncInterval _) = sx_return SV_Unit"
| "ses_run w Op_GetBalances = sx_map SV_Balances (get_balances w)"
| "ses_run w Op_GetTransactions = sx_map SV_Transactions (get_transactions w)"
| "ses_run w Op_GetReceiveAddress = sx_map SV_Address (try_get_addr_info w False)"
| "ses_run w Op_GetChangeAddress = sx_map SV_Address (try_get_addr_info w True)"
| "ses_run w (Op_CreateTx tx) = sx_map SV_Json (try_create_tx w tx)"
| "ses_run w (Op_SendTx tx assets) = sx_map SV_Txid (try_send_tx w tx assets)"
| "ses_run w (Op_CreatePayjoin req) = sx_map SV_Payjoin (try_create_payjoin w req)"
| "ses_run w (Op_SendPayjoin req assets) = sx_map SV_Txid (try_send_payjoin w req assets)"
| "ses_run w Op_GetUtxos = sx_map SV_Utxos (try_get_unspent_outputs w)"
| "ses_run w (Op_GetTxFee asset_id send_amount addr) =
     sx_map (\<lambda>(input_count, fee). SV_TxFee input_count fee) (get_tx_fee w asset_id send_amount addr)"
| "ses_run w (Op_MakePegoutPayment send_amount peg_addr send_amount_exact) =
     sx_map SV_PegPayment (make_pegout_payment w send_amount peg_addr send_amount_exact)"
| "ses_run w (Op_GetBlindedValues txid) = sx_map SV_Texts (get_blinded_values w txid)"
| "ses_run w (Op_GetPreviousAddresses last_pointer is_internal) =
     sx_map (\<lambda>(last_pointer, list). SV_Addresses last_pointer list) (get_previous_addresses w last_pointer is_internal)"
| "ses_run w (Op_SigSingleMakerTx send_asset send_value recv_asset recv_value recv_address assets) =
     sx_map SV_SigSingleMaker (sig_single_maker_tx w send_asset send_value recv_asset recv_value recv_address assets)"
| "ses_run w (Op_VerifyAndSignPset amounts pset nonces assets) =
     sx_map SV_Text (ses_verify_and_sign_pset w amounts pset nonces assets)"
| "ses_run w (Op_SetMemo txid memo) = sx_map (\<lambda>_. SV_Unit) (set_memo w txid memo)"

section \<open>Two sessions\<close>

datatype gdk_state = GS_Disconnected | GS_Connected | GS_LoggedIn

record gdk_mng =
  mg_watch_only :: gdk_ses
  mg_jade :: gdk_ses
  mg_jade_state :: gdk_state

datatype (plugins only: code) ses_event = SE_WatchOnly gdk_event | SE_Jade gdk_event | SE_Op ses_op

fun watch_only_events :: "ses_event list \<Rightarrow> gdk_history" where
  "watch_only_events [] = []"
| "watch_only_events (SE_WatchOnly ev # h) = ev # watch_only_events h"
| "watch_only_events (_ # h) = watch_only_events h"

fun jade_events :: "ses_event list \<Rightarrow> gdk_history" where
  "jade_events [] = []"
| "jade_events (SE_Jade ev # h) = ev # jade_events h"
| "jade_events (_ # h) = jade_events h"

type_synonym 'a mg = "(gdk_mng, ses_event, 'a) sx"

definition on_watch_only :: "'a gs \<Rightarrow> 'a mg" where
  "on_watch_only m s h = (let h0 = watch_only_events h in case m (mg_watch_only s) h0 of
      (r, ses, h1) \<Rightarrow> (r, s \<lparr> mg_watch_only := ses \<rparr>, h @ map SE_WatchOnly (drop (length h0) h1)))"

definition on_jade :: "'a gs \<Rightarrow> 'a mg" where
  "on_jade m s h = (let h0 = jade_events h in case m (mg_jade s) h0 of
      (r, ses, h1) \<Rightarrow> (r, s \<lparr> mg_jade := ses \<rparr>, h @ map SE_Jade (drop (length h0) h1)))"

definition set_jade_state :: "gdk_state \<Rightarrow> unit mg" where
  "set_jade_state st = sx_modify (mg_jade_state_update (\<lambda>_. st))"

definition check_jade :: "gdk_world \<Rightarrow> unit mg" where
  "check_jade wj =
     sx_bind (sx_get mg_jade_state) (\<lambda>st. case st of
        GS_Disconnected \<Rightarrow> fail ''GDK jade is disconnected''
      | GS_Connected \<Rightarrow> sx_then (on_jade (ses_login wj)) (set_jade_state GS_LoggedIn)
      | GS_LoggedIn \<Rightarrow> sx_return ())"

text \<open>The operations that need the key go to the device; what the user interface asks first of a page of
  addresses is also used to find a lost connection.\<close>

fun needs_key :: "ses_op \<Rightarrow> bool" where
  "needs_key (Op_SendTx _ _) = True"
| "needs_key (Op_SendPayjoin _ _) = True"
| "needs_key (Op_MakePegoutPayment _ _ _) = True"
| "needs_key (Op_SigSingleMakerTx _ _ _ _ _ _) = True"
| "needs_key (Op_VerifyAndSignPset _ _ _ _) = True"
| "needs_key _ = False"

definition check_jade_connection :: "gdk_world \<Rightarrow> int option \<Rightarrow> bool \<Rightarrow> unit mg" where
  "check_jade_connection wj last_pointer is_internal =
     sx_bind (sx_get mg_jade_state) (\<lambda>st.
     sx_when (last_pointer = None \<and> st = GS_LoggedIn)
       (sx_bind (sx_try (on_jade (get_previous_addresses wj None is_internal))) (\<lambda>check_result.
        case check_result of
          Inr _ \<Rightarrow> sx_return ()
        | Inl _ \<Rightarrow>
            sx_then (on_jade (reconnect_hint wj False))
            (sx_then (on_jade (reconnect_hint wj True))
            (set_jade_state GS_Disconnected)))))"

fun mng_run :: "gdk_world \<Rightarrow> gdk_world \<Rightarrow> ses_op \<Rightarrow> ses_value mg" where
  "mng_run ww wj Op_Register = fail ''not implemented''"
| "mng_run ww wj (Op_SetWatchOnly _ _) = fail ''not implemented''"
| "mng_run ww wj Op_UnlockHww = on_jade (ses_run wj Op_UnlockHww)"
| "mng_run ww wj (Op_UpdateSyncInterval _) = sx_return SV_Unit"
| "mng_run ww wj (Op_GetPreviousAddresses last_pointer is_internal) =
     sx_then (check_jade_connection wj last_pointer is_internal)
       (on_watch_only (ses_run ww (Op_GetPreviousAddresses last_pointer is_internal)))"
| "mng_run ww wj op =
     (if needs_key op then sx_then (check_jade wj) (on_jade (ses_run wj op)) else on_watch_only (ses_run ww op))"

text \<open>What the session with the device reports: the two conditions of the callback, one after the other.\<close>

definition jade_notification :: "gdk_notification \<Rightarrow> unit mg" where
  "jade_notification notif =
     sx_then (sx_when (gn_network notif = Some CS_Connected) (set_jade_state GS_Connected))
       (sx_when (gn_network notif = Some CS_Disconnected) (set_jade_state GS_Disconnected))"

text \<open>The library is initialised once, for both sessions.\<close>

definition start_jade_sessions :: "gdk_world \<Rightarrow> gdk_world \<Rightarrow> login_info \<Rightarrow> string \<times> string \<Rightarrow> (string, gdk_mng) outcome \<times> gdk_history \<times> gdk_history" where
  "start_jade_sessions ww wj info_jade watch_only =
     (let info_watch_only = info_jade \<lparr> li_wallet_info := WI_WatchOnly (fst watch_only) (snd watch_only) \<rparr> in
      case start_processing ww info_watch_only True () [] of
        (Ok ses_watch_only, _, hw) \<Rightarrow>
          (case start_processing wj info_jade True () (filter is_init hw) of
             (Ok ses_jade, _, hj) \<Rightarrow>
               (Ok \<lparr> mg_watch_only = ses_watch_only, mg_jade = ses_jade, mg_jade_state = GS_Disconnected \<rparr>, hw, hj)
           | (Err e, _, hj) \<Rightarrow> (Err e, hw, hj)
           | (Panic, _, hj) \<Rightarrow> (Panic, hw, hj))
      | (Err e, _, hw) \<Rightarrow> (Err e, hw, [])
      | (Panic, _, hw) \<Rightarrow> (Panic, hw, []))"

datatype (plugins only: code) mng_msg = MM_Op ses_op | MM_JadeNotif gdk_notification

fun mng_handle :: "gdk_world \<Rightarrow> gdk_world \<Rightarrow> mng_msg \<Rightarrow> unit mg" where
  "mng_handle ww wj (MM_Op op) = sx_then (sx_emit (SE_Op op)) (sx_then (mng_run ww wj op) (sx_return ()))"
| "mng_handle ww wj (MM_JadeNotif notif) = jade_notification notif"

end
