(* ===== verification/Gdk_Sample.thy ===== *)
theory Gdk_Sample
  imports Gdk_Jade
begin

text \<open>
  A concrete GDK for examples: it accepts every call, and the wallet has one output of 5000 satoshi.  The
  status of a handler carries the number of calls made so far, so that the JSON of each step differs.
\<close>

definition sample_pj :: pj_world where
  "sample_pj = \<lparr>
     jw_post = (\<lambda>_ _ _. Http_Transport []), jw_dec_response = (\<lambda>_. None), jw_dec_error = Some, jw_into_string = Some,
     jw_shuffle = (\<lambda>n _. [0..<n]), jw_script_pubkey = pa_payload,
     jw_from_prevout = (\<lambda>txid vout. \<lparr> ji_previous_txid = txid, ji_previous_vout = vout, ji_witness_utxo = None,
       ji_final_script_sig = None, ji_final_script_witness = None, ji_proprietary = [], ji_other = [] \<rparr>),
     jw_from_txout = (\<lambda>t. \<lparr> jo_amount = None, jo_asset = None, jo_script_pubkey = jt_script_pubkey t, jo_blinding_key = None,
       jo_blinder_index = None, jo_other = [] \<rparr>),
     jw_new_fee = (\<lambda>v a. \<lparr> jt_asset = Ast_Explicit a, jt_value = Val_Explicit v, jt_nonce = Nonce_Null, jt_script_pubkey = [] \<rparr>),
     jw_public_key = Some, jw_new_v2 = \<lparr> jp_inputs = [], jp_outputs = [], jp_global = [] \<rparr>,
     jw_add_input = (\<lambda>p i. p\<lparr> jp_inputs := jp_inputs p @ [i] \<rparr>), jw_add_output = (\<lambda>p out. p\<lparr> jp_outputs := jp_outputs p @ [out] \<rparr>),
     jw_into_asset_gen = (\<lambda>_. None), jw_surjection_proof = (\<lambda>_ _. None), jw_range_proof = (\<lambda>_ _ _ _. None),
     jw_pset_pair = (\<lambda>_ s. s), jw_ser_value = (\<lambda>_. []), jw_ser_asset = id, jw_ser_proof = id, jw_blind_last = (\<lambda>p _ _. Some p),
     jw_pset_encode = (\<lambda>_. []), jw_pset_decode = (\<lambda>_. None), jw_b64_encode = id, jw_b64_decode = Some, jw_extract_tx = (\<lambda>_. None) \<rparr>"

definition sample_gdk_utxo :: gdk_utxo where
  "sample_gdk_utxo = \<lparr> gu_subaccount = 1, gu_address_type = AT_P2wsh, gu_block_height = Some 7, gu_txhash = ''t0'', gu_vout = 0,
     gu_pointer = 1, gu_prevout_script = ''script'', gu_asset_id = ''lbtc'', gu_satoshi = 5000, gu_is_internal = False,
     gu_is_blinded = True, gu_is_confidential = Some True, gu_asset_tag = Ast_Confidential ''tag'', gu_commitment = Val_Confidential ''vc'',
     gu_amountblinder = ''vbf'', gu_assetblinder = ''abf'', gu_nonce_commitment = ''nonce'', gu_script = None, gu_script_type = None,
     gu_subtype = None, gu_user_status = None, gu_public_key = None, gu_user_path = None, gu_user_sighash = None \<rparr>"

definition sample_tx :: elements_tx where
  "sample_tx = \<lparr> et_input_len = 1, et_output = [], et_data = ''tx'' \<rparr>"

definition sample_created :: create_result where
  "sample_created = \<lparr> kr_addressees = [], kr_transaction_outputs = [], kr_transaction = Some sample_tx, kr_fee = Some 50,
       kr_fee_rate = None, kr_transaction_vsize = None, kr_transaction_weight = None, kr_error = [] \<rparr>"

definition sample_signed :: sign_result where
  "sample_signed = \<lparr> kg_transaction_inputs = [], kg_transaction_outputs = [], kg_transaction = Some sample_tx,
       kg_fee = Some 50, kg_error = [] \<rparr>"

definition sample_subaccount :: subaccount where
  "sample_subaccount = \<lparr> sa_hidden = False, sa_name = ''AMP'', sa_pointer = 1, sa_receiving_id = ''gaid'', sa_type = ''2of2_no_recovery'' \<rparr>"

definition sample_gdk :: gdk_world where
  "sample_gdk = \<lparr>
     gx_rc = (\<lambda>_ _. 0), gx_details = (\<lambda>_. (0, [])), gx_status = (\<lambda>h. (0, replicate (length h) CHR ''x'')), gx_resolve = (\<lambda>_ _. 0),
     gx_networks = (\<lambda>_. J_Null), gx_queued = (\<lambda>_. []), gx_recv = (\<lambda>_ _. Inl []), gx_rounds = 10, gx_pages = 10, gx_hash_order = id,
     gx_payjoin = sample_pj, gx_dec_details = Inr,
     gx_dec_auth = (\<lambda>txt. Inr \<lparr> ah_result = Some (J_String txt), ah_error = None, ah_required_data = None, ah_status = AH_Done \<rparr>),
     gx_dec_transactions = (\<lambda>_. Inr []), gx_dec_address = (\<lambda>_. Inl []), gx_dec_utxos = (\<lambda>_. Inr [(''lbtc'', [sample_gdk_utxo])]),
     gx_dec_created = (\<lambda>_. Inr sample_created),
     gx_dec_signed = (\<lambda>_. Inr sample_signed),
     gx_dec_sent = (\<lambda>_. Inr ''txid''), gx_dec_pset = (\<lambda>_. Inl []), gx_dec_pset_details = (\<lambda>_. Inl []), gx_dec_swap = (\<lambda>_. Inl []),
     gx_dec_balances = (\<lambda>_. Inr [(''lbtc'', 5000)]), gx_dec_addresses = (\<lambda>_. Inr (None, [])), gx_dec_login = (\<lambda>_. Inr []),
     gx_dec_subaccounts = (\<lambda>_. Inr [sample_subaccount]), gx_dec_subaccount = (\<lambda>_. Inl []), gx_parse_asset = Some, gx_parse_address = (\<lambda>_. Inl []),
     gx_parse_txid = Inr, gx_parse_xpub = Inr, gx_asset_text = id, gx_txid_text = id, gx_address_text = pa_payload,
     gx_nonce_text = (\<lambda>_. []), gx_factor_text = id, gx_zero_factor = [], gx_contract = J_String, gx_asset_generator = (\<lambda>a _. a),
     gx_value_commitment = (\<lambda>_ g _. g), gx_signature_der = Inr, gx_txid = et_data, gx_tx_hex = et_data, gx_p2pkh_script = id,
     gx_p2shwpkh_redeem = id, gx_wsh_redeem = id \<rparr>"

definition sample_gdk_login :: login_info where
  "sample_gdk_login = \<lparr> li_account_id = 1, li_env = Env_Prod, li_cache_dir = ''cache'', li_wallet_info = WI_Mnemonic ''words'',
     li_single_sig = False, li_network = None, li_proxy = None \<rparr>"

definition sample_gdk_ses :: gdk_ses where
  "sample_gdk_ses = \<lparr> gs_login_info = sample_gdk_login, gs_hw_data = None, gs_subaccount = Some 1, gs_receiving_id = Some ''gaid'',
     gs_policy_asset = ''lbtc'' \<rparr>"

definition sample_json :: "nat \<Rightarrow> json" where
  "sample_json n = J_String (replicate n CHR ''x'')"

text \<open>A peg-out payment of 1000 satoshi from start to end.\<close>

definition sample_pegout_calls :: "ga_call list" where
  "sample_pegout_calls = [GA_get_unspent_outputs 1 0,
     GA_create_transaction 1 [\<lparr> ka_address = ''peg'', ka_satoshi = 1000, ka_asset_id = ''lbtc'', ka_is_greedy = Some False \<rparr>]
       [(''lbtc'', [sample_gdk_utxo])],
     GA_blind_transaction (sample_json 3), GA_sign_transaction (sample_json 5), GA_send_transaction (sample_json 7)]"

definition sample_pegout_history :: gdk_history where
  "sample_pegout_history = concat (map (\<lambda>c. [GE_Call c 0, GE_Status]) sample_pegout_calls)"

lemma sample_request:
  "ga_request sample_gdk None params name c txt dec s h =
     (case dec (sample_json (Suc (length h))) of Inr v \<Rightarrow> Ok v
      | Inl e \<Rightarrow> Err (txt @ parsing_failed e (replicate (Suc (length h)) CHR ''x'')), s, h @ [GE_Call c 0, GE_Status])"
  by (simp add: ga_request_def ga_checked_def ga_call_rc_def with_context_def run_auth_handler_def run_auth_handler_impl_def
      sx_defs sx_result_defs sample_gdk_def eval_nat_numeral prefix_error_def ensure_def ok_or_def sample_json_def split: sum.splits)

lemma sample_pegout:
  "make_pegout_payment sample_gdk 1000 ''peg'' 1000 sample_gdk_ses [] =
     (Ok \<lparr> pp_sent_amount = 1000, pp_sent_txid = ''txid'', pp_signed_tx = ''tx'' \<rparr>, sample_gdk_ses, sample_pegout_history)"
proof -
  have w: "gx_dec_utxos sample_gdk = (\<lambda>_. Inr [(''lbtc'', [sample_gdk_utxo])])" "gx_dec_sent sample_gdk = (\<lambda>_. Inr ''txid'')"
    "gx_tx_hex sample_gdk = et_data" "gx_dec_created sample_gdk = (\<lambda>_. Inr sample_created)"
    "gx_dec_signed sample_gdk = (\<lambda>_. Inr sample_signed)"
    by (simp_all add: sample_gdk_def)
  have u: "utxo_total [(''lbtc'', [sample_gdk_utxo])] ''lbtc'' = 5000"
    by (simp add: utxo_total_def sample_gdk_utxo_def u64_sum_def wrap_u64_def u64_add_def)
  show ?thesis
    by (simp add: make_pegout_payment_def try_get_unspent_outputs_def create_checked_def blind_tx_def sign_tx_def send_signed_def
      get_subaccount_def sx_defs sx_result_defs sample_request w u prefix_error_def ensure_def ok_or_def sample_gdk_ses_def
      sample_pegout_history_def sample_pegout_calls_def sample_tx_def sample_created_def sample_signed_def wrap_i64_def wrap_u64_def eval_nat_numeral)
qed

end
