(* ===== verification/Gdk_Safety.thy ===== *)
theory Gdk_Safety
  imports Gdk_Sample
begin

text \<open>
  Which calls to GDK an operation of a wallet session makes.  Two locales say what an invariant over the
  calls has to satisfy so that the device, the auth handlers and the operations keep it; the first use is
  which operations can broadcast a transaction, and how often.
\<close>

section \<open>Calls of an operation\<close>

fun calls :: "gdk_history \<Rightarrow> (ga_call \<times> int) list" where
  "calls [] = []"
| "calls (GE_Call c rc # h) = (c, rc) # calls h"
| "calls (_ # h) = calls h"

lemma calls_append [simp]: "calls (h @ h') = calls h @ calls h'"
  by (induction h rule: calls.induct) auto

lemma calls_payjoin [simp]: "calls (map GE_Payjoin evs) = []"
  by (induction evs) auto

fun is_call :: "gdk_event \<Rightarrow> bool" where
  "is_call (GE_Call _ _) = True"
| "is_call _ = False"

lemma calls_other [simp]: "\<not> is_call ev \<Longrightarrow> calls [ev] = []"
  by (cases ev) auto

fun is_send :: "ga_call \<Rightarrow> bool" where
  "is_send (GA_send_transaction _) = True"
| "is_send _ = False"

fun uses_key :: "ga_call \<Rightarrow> bool" where
  "uses_key (GA_sign_transaction _) = True"
| "uses_key (GA_psbt_sign _ _ _) = True"
| "uses_key (GA_create_swap_transaction _ _ _ _) = True"
| "uses_key (GA_send_transaction _) = True"
| "uses_key _ = False"

lemma keeps_collect [keeps_rules]: "(\<And>x. x \<in> set xs \<Longrightarrow> keeps I (f x)) \<Longrightarrow> keeps I (sx_collect f xs)"
  by (induction xs) (auto intro!: keeps_rules)

lemma keeps_context [keeps_rules]: "keeps I m \<Longrightarrow> keeps I (with_context txt m)"
  unfolding with_context_def by (intro keeps_rules)

lemma keeps_map [keeps_rules]: "keeps I m \<Longrightarrow> keeps I (sx_map f m)"
  unfolding sx_map_def by (intro keeps_rules)

text \<open>An invariant that only the calls of an operation could break: the device, the auth handlers and the
  payjoin client keep it.\<close>

locale quiet_session =
  fixes I :: "gdk_ses \<Rightarrow> gdk_history \<Rightarrow> bool"
  assumes other_event: "I s h \<Longrightarrow> \<not> is_call ev \<Longrightarrow> I s (h @ [ev])"
begin

lemma keeps_device [keeps_rules]:
  "keeps I (jade_send req)" "keeps I (set_status st)" "keeps I (get_resp_with_timeout w t)" "keeps I (clear_queue w)"
  "keeps I (expect_resp sel resp)"
  unfolding jade_send_def set_status_def get_resp_with_timeout_def clear_queue_def expect_resp_def
  by (intro keeps_rules keeps_emit keeps_call; simp add: other_event)+

lemma keeps_get_resp [keeps_rules]: "keeps I (get_resp_as w t sel)"
  unfolding get_resp_as_def by (intro keeps_rules)

lemma keeps_unlock [keeps_rules]: "keeps I (unlock_hw w env)"
  unfolding unlock_hw_def read_jade_status_def auth_user_def
  by (intro keeps_rules) (auto intro!: keeps_rules split: lock_state.splits)

lemma keeps_resolve_code [keeps_rules]: "keeps I (resolve_code w d)"
  unfolding resolve_code_def by (intro keeps_rules keeps_call; simp add: other_event)

lemma keeps_resolve_action [keeps_rules]: "keeps I (resolve_action w hw params rd)"
proof -
  have "keeps I (resolve_xpubs w hw rd)" "keeps I (resolve_blinding_public_keys w rd)"
    "keeps I (resolve_blinding_nonces w rd)" "keeps I (resolve_sign_tx w hw params rd)"
    "keeps I (resolve_sign_message w rd)" "keeps I (resolve_master_blinding_key w hw)"
    unfolding resolve_xpubs_def resolve_xpub_def resolve_blinding_public_keys_def resolve_blinding_nonces_def ask_nonce_def
      read_nonce_def resolve_sign_tx_def sign_one_input_def get_input_signature_def resolve_sign_message_def resolve_master_blinding_key_def
    by (intro keeps_rules)+
  then show ?thesis unfolding resolve_action_def by (auto split: hw_action.splits)
qed

lemma keeps_auth_rounds [keeps_rules]: "keeps I (auth_rounds w hw params n)"
  by (induction n) (auto intro!: keeps_rules keeps_call simp: other_event)

lemma keeps_auth_handler [keeps_rules]: "keeps I (run_auth_handler w hw params dec)"
  unfolding run_auth_handler_def run_auth_handler_impl_def by (intro keeps_rules)

lemma keeps_error_details [keeps_rules]: "keeps I (last_gdk_error_details w)"
  unfolding last_gdk_error_details_def by (intro keeps_rules keeps_call; simp add: other_event)

lemma payjoin_events_keep: "I s h \<Longrightarrow> I s (h @ map GE_Payjoin evs)"
  by (induction evs arbitrary: h rule: rev_induct) (simp_all add: other_event flip: append_assoc)

lemma keeps_run_payjoin [keeps_rules]: "keeps I (run_payjoin m)"
  by (rule sx_keepsI) (auto simp: run_payjoin_def Let_def payjoin_events_keep split: prod.splits)

end

text \<open>An invariant that also the calls of a certain kind keep, among them all that need no key; a login may
  happen at any time.\<close>

locale calling_session = quiet_session I for I :: "gdk_ses \<Rightarrow> gdk_history \<Rightarrow> bool" +
  fixes good :: "ga_call \<Rightarrow> bool"
  assumes good_call: "I s h \<Longrightarrow> good c \<Longrightarrow> I s (h @ [GE_Call c rc])"
    and keyless_good: "\<not> uses_key c \<Longrightarrow> good c"
    and logged_in: "I s h \<Longrightarrow> I (s \<lparr> gs_subaccount := Some a \<rparr>) h" "I s h \<Longrightarrow> I (s \<lparr> gs_receiving_id := Some r \<rparr>) h"
begin

lemma keeps_ga_call [keeps_rules]: "good c \<Longrightarrow> keeps I (ga_call_rc w c)"
  unfolding ga_call_rc_def by (rule keeps_call) (rule good_call)

lemma keeps_checked [keeps_rules]: "good c \<Longrightarrow> keeps I (ga_checked w name c)"
  unfolding ga_checked_def by (intro keeps_rules)

lemma keeps_request [keeps_rules]: "good c \<Longrightarrow> keeps I (ga_request w hw params name c txt dec)"
  unfolding ga_request_def by (intro keeps_rules)

lemma keeps_pages [keeps_rules]: "keeps I (load_pages w a k first result)"
  by (induction k arbitrary: first result) (auto simp: Let_def keyless_good intro!: keeps_rules)

lemma keeps_small [keeps_rules]:
  "keeps I get_subaccount" "keeps I try_get_gaid" "keeps I (cstring txt)" "keeps I (try_get_addr_info w b)"
  "keeps I (try_get_unspent_outputs w)" "keeps I (blind_tx w hw j)"
  unfolding get_subaccount_def try_get_gaid_def cstring_def try_get_addr_info_def try_get_unspent_outputs_def blind_tx_def
  by (intro keeps_rules; simp add: keyless_good)+

lemma keeps_create [keeps_rules]: "good c \<Longrightarrow> keeps I (create_checked w hw c)"
  unfolding create_checked_def by (intro keeps_rules)

lemma keeps_login [keeps_rules]: "keeps I (ses_login w)"
  unfolding ses_login_def login_subaccount_def Let_def
  by (intro keeps_rules keeps_modify; simp add: keyless_good logged_in)

lemma keeps_big [keeps_rules]:
  "keeps I (unlock_hww w)" "keeps I (get_balances w)" "keeps I (get_previous_addresses w lp b)" "keeps I (set_memo w txid memo)"
  "keeps I (load_transactions w)" "keeps I (get_transactions w)" "keeps I (get_blinded_values w txid)"
  "keeps I (get_tx_fee w asset amount addr)" "keeps I (try_create_tx w tx)" "keeps I (try_create_payjoin w req)"
  "keeps I (ses_register w)" "keeps I (ses_set_watch_only w txid memo)" "keeps I (reconnect_hint w b)"
  unfolding unlock_hww_def get_balances_def get_previous_addresses_def set_memo_def load_transactions_def get_transactions_def
    get_blinded_values_def get_tx_fee_def try_create_tx_def try_create_payjoin_def ses_register_def
    ses_set_watch_only_def reconnect_hint_def Let_def
  by (intro keeps_rules; simp add: keyless_good)+

lemma keeps_keyless: "\<not> needs_key op \<Longrightarrow> keeps I (ses_run w op)"
  by (cases op) (auto intro!: keeps_rules)

lemma keeps_signing:
  assumes "\<And>c. \<not> is_send c \<Longrightarrow> good c"
  shows "keeps I (sign_tx w hw params j dec)" "keeps I (psbt_sign w params utxos pset nonces dec')"
  unfolding sign_tx_def psbt_sign_def by (intro keeps_rules; simp add: assms)+

lemma keeps_swaps:
  assumes "\<And>c. \<not> is_send c \<Longrightarrow> good c"
  shows "keeps I (ses_verify_and_sign_pset w amounts pset nonces assets)"
    "keeps I (sig_single_maker_tx w send_asset send_value recv_asset recv_value recv_address assets)"
  unfolding ses_verify_and_sign_pset_def sig_single_maker_tx_def sig_single_maker_utxo_def make_maker_utxo_def Let_def
  by (intro keeps_rules keeps_signing assms; simp add: assms)+

lemma keeps_broadcasting:
  assumes "\<And>c. good c"
  shows "keeps I (try_send_tx w tx assets)" "keeps I (try_send_payjoin w req assets)" "keeps I (make_pegout_payment w amount addr exact)"
  unfolding try_send_tx_def try_send_payjoin_def make_pegout_payment_def send_signed_def Let_def
  by (intro keeps_rules keeps_signing assms)+

lemma keeps_everything: "(\<And>c. good c) \<Longrightarrow> keeps I (ses_run w op)"
  by (cases "needs_key op"; cases op) (auto intro!: keeps_rules keeps_keyless keeps_swaps keeps_broadcasting)

end

text \<open>A request makes its one call, and has returned a result only when the call was accepted.\<close>

interpretation unmoved: quiet_session "\<lambda>s h. P s \<and> calls h = cs" for P cs
  by unfold_locales simp

lemma triple_keep:
  assumes "keeps (\<lambda>s h. P s \<and> calls h = cs) m"
  shows "triple (\<lambda>s h. P s \<and> calls h = cs) m (\<lambda>_ s h. P s \<and> calls h = cs) (\<lambda>s h. calls h = cs)"
  using assms unfolding keeps_def by (rule triple_weaken) auto

lemma triple_checked:
  fixes P :: "gdk_ses \<Rightarrow> bool"
  shows "triple (\<lambda>s h. P s \<and> calls h = cs) (ga_checked w name c) (\<lambda>_ s h. P s \<and> calls h = cs @ [(c, 0)]) (\<lambda>s h. \<exists>rc. calls h = cs @ [(c, rc)])"
proof -
  let ?E = "\<lambda>s h. \<exists>rc. calls h = cs @ [(c, rc)]"
  have call: "triple (\<lambda>s h. P s \<and> calls h = cs) (ga_call_rc w c) (\<lambda>rc s h. P s \<and> calls h = cs @ [(c, rc)]) ?E"
    unfolding ga_call_rc_def by (rule triple_call) simp
  have refused: "triple (\<lambda>s h. P s \<and> calls h = cs @ [(c, rc)]) (sx_bind (sx_try (last_gdk_error_details w)) (\<lambda>d. fail (f d))) Q ?E"
    for Q rc and f :: "string + string \<Rightarrow> string"
    by (rule triple_bind [where R = "\<lambda>_. ?E"], rule triple_weaken [OF triple_keep [OF keeps_try [OF unmoved.keeps_error_details]]])
      (auto simp: fail_def intro!: triple_lift)
  show ?thesis
    unfolding ga_checked_def
    by (rule triple_bind [OF call], rule triple_if, rule triple_return, simp, rule refused)
qed

lemma triple_request:
  fixes P :: "gdk_ses \<Rightarrow> bool"
  shows "triple (\<lambda>s h. P s \<and> calls h = cs) (ga_request w hw params name c txt dec) (\<lambda>_ s h. P s \<and> calls h = cs @ [(c, 0)])
     (\<lambda>s h. \<exists>rc. calls h = cs @ [(c, rc)])"
  unfolding ga_request_def
  by (rule triple_bind [OF triple_checked], rule triple_weaken [OF triple_keep [OF keeps_context [OF unmoved.keeps_auth_handler]]]) auto

section \<open>Broadcasting\<close>

definition sends :: "(ga_call \<times> int) list \<Rightarrow> nat" where
  "sends cs = length (filter (\<lambda>(c, _). is_send c) cs)"

fun broadcasts :: "ses_op \<Rightarrow> bool" where
  "broadcasts (Op_SendTx _ _) = True"
| "broadcasts (Op_SendPayjoin _ _) = True"
| "broadcasts (Op_MakePegoutPayment _ _ _) = True"
| "broadcasts _ = False"

lemma sends_append [simp]: "sends (cs @ cs') = sends cs + sends cs'"
  by (simp add: sends_def)

lemma sends_single: "\<not> is_send c \<Longrightarrow> sends [(c, rc)] = 0" "sends [(c, rc)] \<le> 1" "sends [] = 0"
  by (simp_all add: sends_def)

text \<open>The operations that never send.\<close>

definition made_calls :: "(ga_call \<times> int) list \<Rightarrow> (nat \<Rightarrow> bool) \<Rightarrow> (ga_call \<times> int) list \<Rightarrow> bool" where
  "made_calls c0 p cs \<longleftrightarrow> (\<exists>M. cs = c0 @ M \<and> p (sends M))"

lemma made_calls_quiet: "made_calls c0 p cs \<Longrightarrow> \<not> is_send c \<Longrightarrow> made_calls c0 p (cs @ [(c, rc)])"
  unfolding made_calls_def by (metis append_assoc sends_append sends_single(1) add.right_neutral)

lemma made_calls_send: "made_calls c0 ((=) n) cs \<Longrightarrow> made_calls c0 (\<lambda>k. k \<le> Suc n) (cs @ [(c, rc)])"
proof -
  assume "made_calls c0 ((=) n) cs"
  then obtain M where "cs = c0 @ M" "n = sends M" by (auto simp: made_calls_def)
  then have "cs @ [(c, rc)] = c0 @ (M @ [(c, rc)]) \<and> sends (M @ [(c, rc)]) \<le> Suc n"
    using sends_single(2) [of c rc] by simp
  then show ?thesis unfolding made_calls_def by blast
qed

abbreviation sent_so_far :: "(ga_call \<times> int) list \<Rightarrow> (nat \<Rightarrow> bool) \<Rightarrow> gdk_ses \<Rightarrow> gdk_history \<Rightarrow> bool" where
  "sent_so_far c0 p \<equiv> \<lambda>s h. made_calls c0 p (calls h)"

interpretation sending: calling_session "sent_so_far c0 p" "\<lambda>c. \<not> is_send c" for c0 p
  by unfold_locales (auto simp: made_calls_quiet elim: is_send.elims)

lemma quiet_operation: "\<not> broadcasts op \<Longrightarrow> keeps (sent_so_far c0 p) (ses_run w op)"
  by (cases "needs_key op"; cases op) (auto intro!: keeps_rules sending.keeps_keyless sending.keeps_swaps)

definition may_send :: "'a gs \<Rightarrow> bool" where
  "may_send m \<longleftrightarrow> (\<forall>c0. triple (sent_so_far c0 ((=) 0)) m (\<lambda>_. sent_so_far c0 (\<lambda>k. k \<le> 1)) (sent_so_far c0 (\<lambda>k. k \<le> 1)))"

lemma quiet_then_send:
  assumes "\<And>c0 p. keeps (sent_so_far c0 p) m" "\<And>x. may_send (f x)"
  shows "may_send (sx_bind m f)"
proof -
  have "triple (sent_so_far c0 ((=) 0)) m (\<lambda>_. sent_so_far c0 ((=) 0)) (sent_so_far c0 (\<lambda>k. k \<le> 1))" for c0
    using assms(1) [of c0 "(=) 0"] unfolding keeps_def by (rule triple_weaken) (auto simp: made_calls_def)
  then show ?thesis using assms(2) unfolding may_send_def by (blast intro: triple_bind)
qed

lemma send_then_quiet:
  assumes "may_send m" "\<And>c0 p x. keeps (sent_so_far c0 p) (f x)"
  shows "may_send (sx_bind m f)"
  using assms unfolding may_send_def keeps_def by (blast intro: triple_bind)

lemma may_send_prod: "(\<And>a b. x = (a, b) \<Longrightarrow> may_send (f a b)) \<Longrightarrow> may_send (case x of (a, b) \<Rightarrow> f a b)"
  by (cases x) simp

lemma may_send_signed: "may_send (send_signed w hw tx)"
proof -
  have "triple (sent_so_far c0 ((=) 0)) (ga_checked w name c) (\<lambda>_. sent_so_far c0 (\<lambda>k. k \<le> 1)) (sent_so_far c0 (\<lambda>k. k \<le> 1))" for c0 name c
  proof -
    have call: "triple (sent_so_far c0 ((=) 0)) (ga_call_rc w c) (\<lambda>_. sent_so_far c0 (\<lambda>k. k \<le> 1)) (sent_so_far c0 (\<lambda>k. k \<le> 1))"
      unfolding ga_call_rc_def by (rule triple_call) (use made_calls_send [where n = 0] in simp)
    show ?thesis
      unfolding ga_checked_def
      by (rule triple_bind [OF call], rule keeps_def [THEN iffD1]) (intro keeps_rules)
  qed
  then show ?thesis
    unfolding send_signed_def ga_request_def may_send_def
    by (auto intro!: triple_bind keeps_def [THEN iffD1] keeps_rules)
qed

lemma may_send_operations:
  "may_send (try_send_tx w tx assets)" "may_send (try_send_payjoin w req assets)" "may_send (make_pegout_payment w amount addr exact)"
  unfolding try_send_tx_def try_send_payjoin_def make_pegout_payment_def Let_def
  by (intro quiet_then_send may_send_prod send_then_quiet [OF may_send_signed] may_send_signed sending.keeps_signing keeps_rules; simp)+

text \<open>
  (C10) Only three operations of a wallet session can broadcast a transaction (sending, sending a payjoin,
  and a peg-out payment), and each of them does so at most once, whatever GDK and the hardware wallet
  answer and whether the operation succeeds or not; the calls made before stay as they are.
\<close>

theorem session_broadcasts:
  assumes "ses_run w op s h = (r, s', h')"
  shows "\<exists>M. calls h' = calls h @ M \<and> sends M \<le> (if broadcasts op then 1 else 0)"
proof (cases "broadcasts op")
  case True
  have I: "sent_so_far (calls h) ((=) 0) s h" by (simp add: made_calls_def sends_single)
  have "may_send (ses_run w op)"
    using True by (cases op) (auto simp: sx_map_def intro!: send_then_quiet may_send_operations keeps_rules)
  then have "sx_post (\<lambda>_. sent_so_far (calls h) (\<lambda>k. k \<le> 1)) (sent_so_far (calls h) (\<lambda>k. k \<le> 1)) r s' h'"
    unfolding may_send_def using I assms by (auto dest: tripleD)
  then show ?thesis using True by (cases r) (auto simp: made_calls_def)
next
  case False
  have "sent_so_far (calls h) ((=) 0) s' h'"
    by (rule keepsD [OF quiet_operation [OF False] _ assms]) (simp add: made_calls_def sends_single)
  then show ?thesis using False by (auto simp: made_calls_def)
qed

lemma sample_pegout_made: "calls sample_pegout_history = map (\<lambda>c. (c, 0)) sample_pegout_calls"
  by (simp add: sample_pegout_history_def sample_pegout_calls_def)

theorem session_broadcasts_witness:
  "sends (calls sample_pegout_history) = 1 \<and> sends (calls sample_pegout_history) \<le> 1"
proof -
  have run: "ses_run sample_gdk (Op_MakePegoutPayment 1000 ''peg'' 1000) sample_gdk_ses [] =
      (Ok (SV_PegPayment \<lparr> pp_sent_amount = 1000, pp_sent_txid = ''txid'', pp_signed_tx = ''tx'' \<rparr>), sample_gdk_ses, sample_pegout_history)"
    by (simp add: sx_map_def sx_defs sample_pegout)
  from session_broadcasts [OF run] have "sends (calls sample_pegout_history) \<le> 1" by auto
  then show ?thesis by (simp add: sample_pegout_made sample_pegout_calls_def sends_def)
qed

end
