(* ===== verification/Gdk_Pegout.thy ===== *)
theory Gdk_Pegout
  imports Gdk_Safety
begin

text \<open>
  Peg-out payments of a wallet session, step by step: the rules follow one run of the operation, and keep
  the exact list of calls made so far.
\<close>

section \<open>Following a run\<close>

named_theorems step_rules \<open>rules that follow a run\<close>

lemma sx_bind_assoc: "sx_bind (sx_bind m f) g = sx_bind m (\<lambda>x. sx_bind (f x) g)"
  by (intro ext) (simp add: sx_bind_def split: prod.splits outcome.splits)

lemma step_request [step_rules]:
  fixes s0 :: gdk_ses
  assumes "\<And>x. triple (\<lambda>s h. s = s0 \<and> calls h = c0 @ M @ [(c, 0)]) (f x) Q E" "\<And>s h rc. calls h = c0 @ M @ [(c, rc)] \<Longrightarrow> E s h"
  shows "triple (\<lambda>s h. s = s0 \<and> calls h = c0 @ M) (sx_bind (ga_request w hw params name c txt dec) f) Q E"
proof (rule triple_bind)
  show "triple (\<lambda>s h. s = s0 \<and> calls h = c0 @ M) (ga_request w hw params name c txt dec) (\<lambda>_ s h. s = s0 \<and> calls h = c0 @ M @ [(c, 0)]) E"
    by (rule triple_weaken [OF triple_request [where P = "\<lambda>s. s = s0" and cs = "c0 @ M" and c = c]]) (use assms(2) in auto)
qed (rule assms(1))

lemma step_lift:
  assumes "\<And>x. r = Ok x \<Longrightarrow> triple P (f x) Q E" "\<And>s h. P s h \<Longrightarrow> E s h"
  shows "triple P (sx_bind (sx_lift r) f) Q E"
proof (cases r)
  case (Ok x)
  then have "sx_bind (sx_lift r) f = f x" by (intro ext) (simp add: sx_defs)
  with assms(1) Ok show ?thesis by simp
qed (use assms(2) in \<open>auto intro!: tripleI simp: sx_defs\<close>)

lemma step_check [step_rules]: "(b \<Longrightarrow> triple P m Q E) \<Longrightarrow> (\<And>s h. P s h \<Longrightarrow> E s h) \<Longrightarrow> triple P (sx_then (check b e) m) Q E"
  unfolding check_def by (rule step_lift) auto

lemma step_sum [step_rules]: "(\<And>x. r = Inr x \<Longrightarrow> triple P (f x) Q E) \<Longrightarrow> (\<And>s h. P s h \<Longrightarrow> E s h) \<Longrightarrow> triple P (sx_bind (sx_of_sum r) f) Q E"
  unfolding sx_of_sum_def by (rule step_lift) (auto split: sum.splits)

lemma step_ok_or [step_rules]: "(\<And>x. r = Some x \<Longrightarrow> triple P (f x) Q E) \<Longrightarrow> (\<And>s h. P s h \<Longrightarrow> E s h) \<Longrightarrow> triple P (sx_bind (sx_ok_or r e) f) Q E"
  unfolding sx_ok_or_def by (rule step_lift) auto

lemma step_expect [step_rules]: "(\<And>x. r = Some x \<Longrightarrow> triple P (f x) Q E) \<Longrightarrow> (\<And>s h. P s h \<Longrightarrow> E s h) \<Longrightarrow> triple P (sx_bind (sx_expect r) f) Q E"
  unfolding sx_expect_def by (rule step_lift) auto

lemma step_get [step_rules]: "triple (\<lambda>s h. s = s0 \<and> P h) (f (g s0)) Q E \<Longrightarrow> triple (\<lambda>s h. s = s0 \<and> P h) (sx_bind (sx_get g) f) Q E"
  by (rule triple_get_bind) (auto simp: triple_def)

lemma step_return [step_rules]: "triple P (f x) Q E \<Longrightarrow> triple P (sx_bind (sx_return x) f) Q E"
  by (simp add: triple_def sx_defs)

lemma step_assoc [step_rules]: "triple P (sx_bind m (\<lambda>x. sx_bind (f x) g)) Q E \<Longrightarrow> triple P (sx_bind (sx_bind m f) g) Q E"
  by (simp add: sx_bind_assoc)

lemma step_pair [step_rules]: "triple P (f a b) Q E \<Longrightarrow> triple P (case (a, b) of (x, y) \<Rightarrow> f x y) Q E"
  by simp

lemma step_if [step_rules]:
  "(b \<Longrightarrow> triple P (sx_bind m f) Q E) \<Longrightarrow> (\<not> b \<Longrightarrow> triple P (sx_bind n f) Q E) \<Longrightarrow> triple P (sx_bind (if b then m else n) f) Q E"
  by simp

lemmas session_requests = try_get_unspent_outputs_def create_checked_def blind_tx_def sign_tx_def send_signed_def get_subaccount_def

section \<open>Peg-out\<close>

text \<open>The calls of a payment that reaches the network, and what was checked between them.\<close>

definition pegout_trace :: "gdk_world \<Rightarrow> gdk_ses \<Rightarrow> i64 \<Rightarrow> string \<Rightarrow> i64 \<Rightarrow> json \<Rightarrow> int \<Rightarrow> (ga_call \<times> int) list \<Rightarrow> bool" where
  "pegout_trace w s amount addr exact tx rc M \<longleftrightarrow>
     (\<exists>sub utxos created blinded c fee g.
        (let total = wrap_i64 (utxo_total utxos (gs_policy_asset s)) in
         gs_subaccount s = Some sub \<and> amount \<le> total \<and>
         M = [(GA_get_unspent_outputs sub 0, 0),
              (GA_create_transaction sub [\<lparr> ka_address = addr, ka_satoshi = wrap_u64 amount, ka_asset_id = gs_policy_asset s,
                 ka_is_greedy = Some (amount = total) \<rparr>] utxos, 0),
              (GA_blind_transaction created, 0), (GA_sign_transaction blinded, 0), (GA_send_transaction tx, rc)] \<and>
         gx_dec_created w created = Inr c \<and> kr_error c = [] \<and> kr_fee c = Some fee \<and> fee > 0 \<and>
         exact = (if amount = total then i64_sub amount (wrap_i64 fee) else amount) \<and>
         gx_dec_signed w tx = Inr g \<and> kg_error g = []))"

definition pegout_calls :: "gdk_world \<Rightarrow> gdk_ses \<Rightarrow> i64 \<Rightarrow> string \<Rightarrow> i64 \<Rightarrow> (ga_call \<times> int) list \<Rightarrow> gdk_history \<Rightarrow> bool" where
  "pegout_calls w s amount addr exact c0 h \<longleftrightarrow>
     (\<exists>M. calls h = c0 @ M \<and> (\<forall>tx rc. (GA_send_transaction tx, rc) \<in> set M \<longrightarrow> pegout_trace w s amount addr exact tx rc M))"

lemma prefix_error_Inr [simp]: "prefix_error t r = Inr x \<longleftrightarrow> r = Inr x"
  by (cases r) (auto simp: prefix_error_def)

lemma fee_present: "unwrap_or x 0 > (0 :: int) \<Longrightarrow> \<exists>fee. x = Some fee \<and> fee > 0"
  by (cases x) auto

lemma pegout_quiet: "calls h = c0 @ M \<Longrightarrow> list_all (\<lambda>(c, _). \<not> is_send c) M \<Longrightarrow> pegout_calls w s amount addr exact c0 h"
  unfolding pegout_calls_def by (auto simp: list_all_iff)

lemma pegout_quiet_state:
  "s' = s \<and> calls h = c0 @ M \<Longrightarrow> list_all (\<lambda>(c, _). \<not> is_send c) M \<Longrightarrow> pegout_calls w s amount addr exact c0 h"
  by (rule pegout_quiet) auto

lemma pegout_sent: "calls h = c0 @ M \<Longrightarrow> pegout_trace w s amount addr exact tx rc M \<Longrightarrow> pegout_calls w s amount addr exact c0 h"
  unfolding pegout_calls_def by (rule exI [of _ M]) (auto simp: pegout_trace_def Let_def)

lemma pegout_traceI:
  assumes "gs_subaccount s = Some sub" "gs_subaccount s = Some sub'" "amount \<le> wrap_i64 (utxo_total utxos (gs_policy_asset s))"
    "prefix_error t (gx_dec_created w created) = Inr c" "kr_error c = []" "0 < unwrap_or (kr_fee c) 0"
    "exact = (if amount = wrap_i64 (utxo_total utxos (gs_policy_asset s)) then i64_sub amount (wrap_i64 (unwrap_or (kr_fee c) 0)) else amount)"
    "gx_dec_signed w tx = Inr g" "kg_error g = []"
  shows "pegout_trace w s amount addr exact tx rc
    ((((([] @ [(GA_get_unspent_outputs sub' 0, 0)]) @
      [(GA_create_transaction sub [\<lparr> ka_address = addr, ka_satoshi = wrap_u64 amount, ka_asset_id = gs_policy_asset s,
         ka_is_greedy = Some (amount = wrap_i64 (utxo_total utxos (gs_policy_asset s))) \<rparr>] utxos, 0)]) @
      [(GA_blind_transaction created, 0)]) @ [(GA_sign_transaction blinded, 0)]) @ [(GA_send_transaction tx, rc)])"
  using assms fee_present [of "kr_fee c"] unfolding pegout_trace_def Let_def by auto

lemma pegout_followed:
  "triple (\<lambda>s h. s = s0 \<and> calls h = c0 @ []) (make_pegout_payment w amount addr exact)
     (\<lambda>p s h. pp_sent_amount p = exact \<and> (\<exists>M. calls h = c0 @ M \<and> (\<exists>tx. pegout_trace w s0 amount addr exact tx 0 M)))
     (\<lambda>s h. pegout_calls w s0 amount addr exact c0 h)"
  unfolding make_pegout_payment_def session_requests sx_bind_assoc Let_def
  apply (intro step_rules triple_return)
  apply ((erule pegout_quiet_state pegout_quiet, simp; fail)
       | (rule pegout_sent, (assumption | erule conjunct2), rule pegout_traceI, assumption+, simp, assumption+)
       | (rule conjI, simp, rule exI, rule conjI, erule conjunct2, rule exI, rule pegout_traceI, assumption+, simp, assumption+))+
  done

text \<open>
  (C4) A peg-out payment is exact.  Whatever GDK and the hardware wallet answer: a transaction is
  broadcast only as the last of five calls, of which the second creates a payment of the requested amount
  in bitcoins to the peg address of the server.  The transaction created had no error and a positive fee,
  and what it pays, which is the requested amount less the fee when the whole balance is sent, is exactly
  the amount agreed with the server; the transaction sent had no signing error.  And when the operation
  succeeds, this is what has happened and the amount it reports is that amount.
\<close>

theorem pegout_payment_exact:
  assumes "make_pegout_payment w amount addr exact s h = (r, s', h')"
  shows "\<exists>M. calls h' = calls h @ M \<and>
    (\<forall>tx rc. (GA_send_transaction tx, rc) \<in> set M \<longrightarrow> pegout_trace w s amount addr exact tx rc M) \<and>
    (\<forall>p. r = Ok p \<longrightarrow> pp_sent_amount p = exact \<and> (\<exists>tx. pegout_trace w s amount addr exact tx 0 M))"
proof -
  have "sx_post (\<lambda>p s1 h1. pp_sent_amount p = exact \<and> (\<exists>M. calls h1 = calls h @ M \<and> (\<exists>tx. pegout_trace w s amount addr exact tx 0 M)))
      (\<lambda>s1 h1. pegout_calls w s amount addr exact (calls h) h1) r s' h'"
    using tripleD [OF pegout_followed, where s = s and h = h] assms by auto
  then show ?thesis
  proof (cases r)
    case (Ok p)
    with \<open>sx_post _ _ r s' h'\<close> obtain M tx where M: "pp_sent_amount p = exact" "calls h' = calls h @ M" "pegout_trace w s amount addr exact tx 0 M"
      by auto
    from pegout_sent [OF M(2,3)] M show ?thesis using Ok by (auto simp: pegout_calls_def)
  qed (auto simp: pegout_calls_def)
qed

theorem pegout_payment_exact_witness:
  "\<exists>tx. pegout_trace sample_gdk sample_gdk_ses 1000 ''peg'' 1000 tx 0 (map (\<lambda>c. (c, 0)) sample_pegout_calls)"
  using pegout_payment_exact [OF sample_pegout] by (simp add: sample_pegout_made)

end
