(* ===== verification/Gdk_Keys.thy ===== *)
theory Gdk_Keys
  imports Gdk_Safety
begin

text \<open>
  Where a wallet with a hardware device uses its keys (\<open>gdk_ses_jade.rs\<close>): the session that is only
  watching makes no call that needs a key, and the session with the device is used for such calls only
  after its login.
\<close>

section \<open>Two histories\<close>

lemma watch_only_append [simp]: "watch_only_events (h @ h') = watch_only_events h @ watch_only_events h'"
  by (induction h rule: watch_only_events.induct) auto

lemma watch_only_own [simp]: "watch_only_events (map SE_WatchOnly evs) = evs"
  by (induction evs) auto

lemma watch_only_other [simp]: "watch_only_events (map SE_Jade evs) = []"
  by (induction evs) auto

text \<open>Operations only add to the history, make no call that needs a key unless they are of this kind, and
  never log out.\<close>

interpretation extending: calling_session "\<lambda>s h. \<exists>t. h = h0 @ t" "\<lambda>_. True" for h0
  by unfold_locales auto

definition keyless_calls :: "gdk_history \<Rightarrow> bool" where
  "keyless_calls h \<longleftrightarrow> list_all (\<lambda>(c, _). \<not> uses_key c) (calls h)"

interpretation keyless: calling_session "\<lambda>s h. keyless_calls h" "\<lambda>c. \<not> uses_key c"
  by unfold_locales (auto simp: keyless_calls_def)

interpretation subaccount: calling_session "\<lambda>s h. gs_subaccount s \<noteq> None" "\<lambda>_. True"
  by unfold_locales auto

lemma extends:
  assumes "m s h = (r, s', h')" "\<And>h0. keeps (\<lambda>s h. \<exists>t. h = h0 @ t) m"
  shows "h @ drop (length h) h' = h'"
  using keepsD [OF assms(2) [of h] _ assms(1)] by auto

lemma login_sets_subaccount: "triple (\<lambda>s h. True) (ses_login w) (\<lambda>_ s h. gs_subaccount s \<noteq> None) (\<lambda>s h. True)"
  by (rule tripleI) (auto simp: ses_login_def sx_defs Let_def split: prod.splits outcome.splits if_splits elim!: sx_post.elims)

section \<open>The invariant\<close>

definition mng_inv :: "gdk_mng \<Rightarrow> ses_event list \<Rightarrow> bool" where
  "mng_inv s h \<longleftrightarrow> keyless_calls (watch_only_events h) \<and> (mg_jade_state s = GS_LoggedIn \<longrightarrow> gs_subaccount (mg_jade s) \<noteq> None)"

lemma mng_watch_only:
  assumes "keeps (\<lambda>s h. keyless_calls h) m" "\<And>h0. keeps (\<lambda>s h. \<exists>t. h = h0 @ t) m"
  shows "keeps mng_inv (on_watch_only m)"
proof (rule sx_keepsI)
  fix s h r s' h'
  assume I: "mng_inv s h" and run: "on_watch_only m s h = (r, s', h')"
  obtain r1 ses h1 where m: "m (mg_watch_only s) (watch_only_events h) = (r1, ses, h1)" by (cases "m (mg_watch_only s) (watch_only_events h)")
  from I have "keyless_calls h1" using keepsD [OF assms(1) _ m] by (simp add: mng_inv_def)
  then show "mng_inv s' h'"
    using I run m extends [OF m assms(2)] by (auto simp: mng_inv_def on_watch_only_def Let_def)
qed

lemma mng_jade:
  assumes "keeps (\<lambda>s h. gs_subaccount s \<noteq> None) m"
  shows "keeps mng_inv (on_jade m)"
proof (rule sx_keepsI)
  fix s h r s' h'
  assume I: "mng_inv s h" and run: "on_jade m s h = (r, s', h')"
  obtain r1 ses h1 where m: "m (mg_jade s) (jade_events h) = (r1, ses, h1)" by (cases "m (mg_jade s) (jade_events h)")
  show "mng_inv s' h'"
    using I run m keepsD [OF assms _ m] by (auto simp: mng_inv_def on_jade_def Let_def)
qed

lemma mng_login: "triple mng_inv (on_jade (ses_login w)) (\<lambda>_ s h. mng_inv s h \<and> gs_subaccount (mg_jade s) \<noteq> None) mng_inv"
proof (rule tripleI)
  fix s h r s' h'
  assume I: "mng_inv s h" and run: "on_jade (ses_login w) s h = (r, s', h')"
  obtain r1 ses h1 where m: "ses_login w (mg_jade s) (jade_events h) = (r1, ses, h1)" by (cases "ses_login w (mg_jade s) (jade_events h)")
  from run m have r: "r = r1" and s: "mg_jade s' = ses" by (auto simp: on_jade_def Let_def)
  have "mng_inv s' h'" by (rule keepsD [OF mng_jade [OF subaccount.keeps_login] I run])
  moreover have "sx_post (\<lambda>_ s h. gs_subaccount s \<noteq> None) (\<lambda>s h. True) r1 ses h1"
    by (rule tripleD [OF login_sets_subaccount _ m]) simp
  ultimately show "sx_post (\<lambda>_ s h. mng_inv s h \<and> gs_subaccount (mg_jade s) \<noteq> None) mng_inv r s' h'"
    using r s by (cases r) auto
qed

lemma mng_state: "st \<noteq> GS_LoggedIn \<Longrightarrow> keeps mng_inv (set_jade_state st)"
  unfolding set_jade_state_def by (rule keeps_modify) (simp add: mng_inv_def)

lemma mng_check [keeps_rules]: "keeps mng_inv (check_jade wj)"
proof -
  have "triple mng_inv (sx_then (on_jade (ses_login wj)) (set_jade_state GS_LoggedIn)) (\<lambda>_. mng_inv) mng_inv"
    by (rule triple_bind [OF mng_login]) (auto simp: set_jade_state_def mng_inv_def intro!: triple_modify)
  then show ?thesis
    unfolding check_jade_def by (intro keeps_rules) (auto simp: keeps_def [symmetric] intro: keeps_rules split: gdk_state.split)
qed

lemma mng_connection [keeps_rules]: "keeps mng_inv (check_jade_connection wj lp b)"
  unfolding check_jade_connection_def
  by (intro keeps_rules mng_jade mng_state) simp

lemma mng_keyless [keeps_rules]: "\<not> needs_key op \<Longrightarrow> keeps mng_inv (on_watch_only (ses_run w op))"
  by (intro mng_watch_only keyless.keeps_keyless extending.keeps_everything TrueI)

lemma mng_any [keeps_rules]: "keeps mng_inv (on_jade (ses_run w op))"
  by (intro mng_jade subaccount.keeps_everything TrueI)

lemma mng_run_keeps: "keeps mng_inv (mng_run ww wj op)"
  by (cases op) (auto intro!: keeps_rules simp del: ses_run.simps)

interpretation mng_loop: sx_loop "mng_handle ww wj" mng_inv for ww wj
proof
  show "keeps mng_inv (mng_handle ww wj m)" for m
    by (cases m) (auto simp: jade_notification_def mng_inv_def intro!: keeps_rules mng_run_keeps keeps_emit mng_state)
qed

text \<open>An operation that needs a key is refused while the device is not connected, and nothing is asked of
  GDK or the device.\<close>

lemma disconnected_refused:
  "needs_key op \<Longrightarrow> mg_jade_state s = GS_Disconnected \<Longrightarrow> mng_run ww wj op s h = (Err ''GDK jade is disconnected'', s, h)"
  by (cases op) (simp_all add: check_jade_def sx_defs sx_result_defs)

text \<open>
  (C5) A wallet with a hardware device keeps keys apart: from the start, whatever the operations and the
  notifications, the watch-only session never makes a call that signs or broadcasts, and the session with
  the device counts as logged in only when its login has set the subaccount.
\<close>

theorem jade_keys_apart:
  assumes "start_jade_sessions ww wj info watch_only = (Ok s0, hw, hj)"
    and "sx_reaches (mng_handle ww wj) s0 [] s h"
  shows "((c, rc) \<in> set (calls (watch_only_events h)) \<longrightarrow> \<not> uses_key c) \<and>
    (mg_jade_state s = GS_LoggedIn \<longrightarrow> gs_subaccount (mg_jade s) \<noteq> None)"
proof -
  have "mng_inv s0 []"
    using assms(1) by (auto simp: start_jade_sessions_def mng_inv_def keyless_calls_def Let_def split: prod.splits outcome.splits)
  from mng_loop.reaches_inv [OF assms(2) this] show ?thesis
    by (auto simp: mng_inv_def keyless_calls_def list_all_iff)
qed

text \<open>Both sessions start; the watch-only one logs in, the device gets connected, and a transaction is sent
  with it, which logs in first.\<close>

fun mng_runs :: "gdk_world \<Rightarrow> gdk_world \<Rightarrow> mng_msg list \<Rightarrow> gdk_mng \<times> ses_event list \<Rightarrow> gdk_mng \<times> ses_event list" where
  "mng_runs ww wj [] sh = sh"
| "mng_runs ww wj (m # ms) (s, h) = mng_runs ww wj ms (snd (mng_handle ww wj m s h))"

lemma mng_runs_reaches:
  "sx_reaches (mng_handle ww wj) s0 h0 s h \<Longrightarrow> sx_reaches (mng_handle ww wj) s0 h0 (fst (mng_runs ww wj ms (s, h))) (snd (mng_runs ww wj ms (s, h)))"
proof (induction ms arbitrary: s h)
  case (Cons m ms)
  obtain r s1 h1 where m: "mng_handle ww wj m s h = (r, s1, h1)" by (cases "mng_handle ww wj m s h")
  from Cons.IH [OF sx_step [OF Cons.prems m]] m show ?case by simp
qed simp

definition sample_mng :: gdk_mng where
  "sample_mng = (let ses = \<lparr> gs_login_info = sample_gdk_login, gs_hw_data = None, gs_subaccount = None, gs_receiving_id = None,
       gs_policy_asset = ed_policy_asset (env_data_of Env_Prod) \<rparr>
     in \<lparr> mg_watch_only = ses \<lparr> gs_login_info := sample_gdk_login \<lparr> li_wallet_info := WI_WatchOnly ''user'' ''pass'' \<rparr> \<rparr>,
          mg_jade = ses, mg_jade_state = GS_Disconnected \<rparr>)"

definition sample_mng_end :: "gdk_mng \<times> ses_event list" where
  "sample_mng_end = mng_runs sample_gdk sample_gdk
     [MM_Op Op_Login, MM_JadeNotif \<lparr> gn_event = ''network'', gn_block = None, gn_subaccount = None, gn_network = Some CS_Connected \<rparr>,
      MM_Op (Op_SendTx J_Null [])] (sample_mng, [])"

lemma sample_mng_start: "\<exists>hw hj. start_jade_sessions sample_gdk sample_gdk sample_gdk_login (''user'', ''pass'') = (Ok sample_mng, hw, hj)"
  by (simp add: ENV_PROD_def start_jade_sessions_def start_processing_def init_once_def ga_asserted_def ga_checked_def ga_call_rc_def select_network_def
      sx_defs sx_result_defs sample_gdk_def sample_gdk_login_def sample_mng_def assert_that_def Let_def)

lemma sample_login:
  assumes "\<not> li_single_sig (gs_login_info s)" "wallet_hw_data (li_wallet_info (gs_login_info s)) = None"
  shows "ses_login sample_gdk s h = (Ok (), s \<lparr> gs_subaccount := Some 1, gs_receiving_id := Some ''gaid'' \<rparr>,
    h @ [GE_Call (GA_login_user None (wallet_mnemonic (li_wallet_info (gs_login_info s)))
           (map_option fst (wallet_watch_only (li_wallet_info (gs_login_info s))))
           (map_option snd (wallet_watch_only (li_wallet_info (gs_login_info s))))) 0, GE_Status,
         GE_Call GA_get_subaccounts 0, GE_Status])"
proof -
  have w: "gx_dec_login sample_gdk = (\<lambda>_. Inr [])" "gx_dec_subaccounts sample_gdk = (\<lambda>_. Inr [sample_subaccount])"
    by (simp_all add: sample_gdk_def)
  show ?thesis
    by (simp add: ses_login_def login_subaccount_def sx_defs sample_request w assms get_hw_device_def sample_subaccount_def SUBACCOUNT_TYPE_AMP_def Let_def)
qed

lemma sample_send:
  assumes "gs_hw_data s = None"
  shows "try_send_tx sample_gdk tx assets s h = (Ok ''txid'', s, h @ [GE_Call (GA_sign_transaction tx) 0, GE_Status,
    GE_Call (GA_send_transaction (sample_json (Suc (length h)))) 0, GE_Status])"
proof -
  have w: "gx_dec_signed sample_gdk = (\<lambda>_. Inr sample_signed)" "gx_dec_sent sample_gdk = (\<lambda>_. Inr ''txid'')"
    by (simp_all add: sample_gdk_def)
  show ?thesis
    by (simp add: try_send_tx_def sign_tx_def send_signed_def sx_defs sx_result_defs ensure_def prefix_error_def sample_request w assms
        sample_signed_def)
qed

lemma sample_mng_runs:
  "mg_jade_state (fst sample_mng_end) = GS_LoggedIn \<and>
   map fst (calls (watch_only_events (snd sample_mng_end))) = [GA_login_user None None (Some ''user'') (Some ''pass''), GA_get_subaccounts] \<and>
   sends (calls (jade_events (snd sample_mng_end))) = 1"
  by (simp add: sample_mng_end_def sample_mng_def on_watch_only_def on_jade_def sx_map_def sx_defs sample_login sample_send
      jade_notification_def check_jade_def set_jade_state_def sample_gdk_login_def Let_def sends_def)

theorem jade_keys_apart_witness:
  "mg_jade_state (fst sample_mng_end) = GS_LoggedIn \<and> gs_subaccount (mg_jade (fst sample_mng_end)) \<noteq> None \<and>
   \<not> uses_key (GA_login_user None None (Some ''user'') (Some ''pass''))"
proof -
  obtain hw hj where start: "start_jade_sessions sample_gdk sample_gdk sample_gdk_login (''user'', ''pass'') = (Ok sample_mng, hw, hj)"
    using sample_mng_start by blast
  have reach: "sx_reaches (mng_handle sample_gdk sample_gdk) sample_mng [] (fst sample_mng_end) (snd sample_mng_end)"
    unfolding sample_mng_end_def by (rule mng_runs_reaches) (rule sx_refl)
  obtain rc where "(GA_login_user None None (Some ''user'') (Some ''pass''), rc) \<in> set (calls (watch_only_events (snd sample_mng_end)))"
    using sample_mng_runs by (cases "calls (watch_only_events (snd sample_mng_end))") auto
  with jade_keys_apart [OF start reach] sample_mng_runs show ?thesis by blast
qed

end
