(* ===== verification/Gdk_Display.thy ===== *)
theory Gdk_Display
  imports Gdk_Handler
begin

text \<open>
  What the hardware wallet shows before it signs a swap (\<open>additional_info\<close> of the request to sign): the
  sums over the wallet's own inputs and outputs, kept in wrapping 64-bit arithmetic, against the sums as
  integers.
\<close>

section \<open>Sums by asset\<close>

definition total_of :: "asset_id \<Rightarrow> (asset_id \<times> u64) list \<Rightarrow> int" where
  "total_of asset xs = sum_list (map snd (filter (\<lambda>(a, _). a = asset) xs))"

lemma total_of_simps [simp]:
  "total_of asset [] = 0" "total_of asset ((a, v) # xs) = (if a = asset then v + total_of asset xs else total_of asset xs)"
  by (simp_all add: total_of_def)

lemma total_of_others: "b \<noteq> a \<Longrightarrow> total_of b (filter (\<lambda>(c, _). c \<noteq> a) xs) = total_of b xs"
  by (induction xs) auto

lemma other_assets: "fst ` set (filter (\<lambda>(c, _). c \<noteq> a) xs) = fst ` set xs - {a}"
  by (induction xs) auto

lemma wrap_u64_nested [simp]:
  "wrap_u64 (wrap_u64 a + b) = wrap_u64 (a + b)" "wrap_u64 (wrap_u64 a - b) = wrap_u64 (a - b)" "wrap_u64 (wrap_u64 a) = wrap_u64 a"
  by (simp_all add: wrap_u64_def mod_simps)

lemma get_sum_add [simp]:
  "btree_get (sum_add a v m) asset = (if asset = a then Some (wrap_u64 (unwrap_or (btree_get m a) 0 + v)) else btree_get m asset)"
  by (simp add: sum_add_def u64_add_def)

lemma fold_sum_add:
  "btree_get (fold (\<lambda>(a, v). sum_add a v) xs m) asset =
     (if asset \<in> fst ` set xs then Some (wrap_u64 (unwrap_or (btree_get m asset) 0 + total_of asset xs)) else btree_get m asset)"
proof (induction xs arbitrary: m)
  case (Cons x xs)
  have "asset \<notin> fst ` set xs \<Longrightarrow> total_of asset xs = 0" by (induction xs) auto
  then show ?case by (cases x) (auto simp: Cons.IH add.assoc)
qed simp

lemma fold_sum_sub: "fold (\<lambda>(a, v). sum_sub asset v) xs [(asset, wrap_u64 v)] = [(asset, wrap_u64 (v - sum_list (map snd xs)))]"
  by (induction xs arbitrary: v) (auto simp: sum_sub_def u64_sub_def diff_diff_eq)

lemma fold_filtered: "fold (\<lambda>x m. if c x then f x m else m) xs m = fold f (filter c xs) m"
  by (induction xs arbitrary: m) auto

lemma one_key:
  assumes "length (m :: asset_sums) = 1"
  obtains a v where "m = [(a, v)]" "\<And>k. btree_get m k = (if k = a then Some v else None)"
  using assms by (cases m) auto

section \<open>The wallet's share\<close>

definition wallet_inputs :: "sign_tx_input list \<Rightarrow> (asset_id \<times> u64) list" where
  "wallet_inputs inputs = map (\<lambda>i. (sg_asset_id i, sg_satoshi i)) (filter (\<lambda>i. sg_user_path i \<noteq> None) inputs)"

definition wallet_outputs :: "sign_tx_output list \<Rightarrow> (asset_id \<times> u64) list" where
  "wallet_outputs outputs = map (\<lambda>out. (sh_asset_id out, sh_satoshi out)) (filter (\<lambda>out. sh_user_path out \<noteq> None) outputs)"

lemma input_sum_own: "input_sum inputs = fold (\<lambda>(a, v). sum_add a v) (wallet_inputs inputs) []"
  by (simp add: input_sum_def wallet_inputs_def fold_filtered fold_map comp_def)

lemma output_sums_own:
  "output_sums asset outputs ins =
     (fold (\<lambda>(a, v). sum_sub asset v) (filter (\<lambda>(a, _). a = asset) (wallet_outputs outputs)) ins,
      fold (\<lambda>(a, v). sum_add a v) (filter (\<lambda>(a, _). a \<noteq> asset) (wallet_outputs outputs)) [])"
proof -
  have "fold (\<lambda>out (ins, outs). if sh_user_path out \<noteq> None then
          if sh_asset_id out = asset then (sum_sub (sh_asset_id out) (sh_satoshi out) ins, outs)
          else (ins, sum_add (sh_asset_id out) (sh_satoshi out) outs)
        else (ins, outs)) outputs (ins, outs) =
     (fold (\<lambda>(a, v). sum_sub asset v) (filter (\<lambda>(a, _). a = asset) (wallet_outputs outputs)) ins,
      fold (\<lambda>(a, v). sum_add a v) (filter (\<lambda>(a, _). a \<noteq> asset) (wallet_outputs outputs)) outs)" for outs
    by (induction outputs arbitrary: ins outs) (auto simp: wallet_outputs_def)
  then show ?thesis by (simp add: output_sums_def)
qed

lemma single_asset:
  assumes "fold (\<lambda>(a, v). sum_add a v) xs [] = [(a, v)]"
  shows "fst ` set xs = {a} \<and> v = wrap_u64 (total_of a xs)"
proof -
  have get: "(if k = a then Some v else None) = (if k \<in> fst ` set xs then Some (wrap_u64 (total_of k xs)) else None)" for k
    using fold_sum_add [of xs "[]" k] assms by simp
  have "k \<in> fst ` set xs \<longleftrightarrow> k = a" for k using get [of k] by (auto split: if_splits)
  moreover from this get [of a] have "v = wrap_u64 (total_of a xs)" by (auto split: if_splits)
  ultimately show ?thesis by auto
qed

text \<open>
  (C11) What the hardware wallet shows for a swap is what the wallet gives and gets.  When the request to
  sign carries a summary, all of the wallet's own inputs are of one asset, its own outputs are of this
  asset (the change) and of exactly one other asset; the amount shown as sent is the sum of the inputs
  less the change, and the amount shown as received is the sum of the outputs in the other asset, both
  modulo \<open>2\<^sup>6\<^sup>4\<close>, so that they are exact whenever they are amounts at all.
\<close>

theorem jade_shows_net_amounts:
  assumes "sign_additional_info inputs outputs = Ok info"
  shows "\<exists>send_asset recv_asset.
     send_asset \<noteq> recv_asset \<and> fst ` set (wallet_inputs inputs) = {send_asset}
     \<and> recv_asset \<in> fst ` set (wallet_outputs outputs) \<and> fst ` set (wallet_outputs outputs) \<subseteq> {send_asset, recv_asset}
     \<and> si_wallet_input_summary info = [(jade_asset_id send_asset,
          wrap_u64 (total_of send_asset (wallet_inputs inputs) - total_of send_asset (wallet_outputs outputs)))]
     \<and> si_wallet_output_summary info = [(jade_asset_id recv_asset, wrap_u64 (total_of recv_asset (wallet_outputs outputs)))]"
proof -
  from assms have "length (input_sum inputs) = 1"
    by (auto simp: sign_additional_info_def Let_def ensure_def split: if_splits)
  then obtain a v where a: "input_sum inputs = [(a, v)]" by (cases "input_sum inputs") auto
  let ?change = "filter (\<lambda>(b, _). b = a) (wallet_outputs outputs)" and ?got = "filter (\<lambda>(b, _). b \<noteq> a) (wallet_outputs outputs)"
  let ?outs = "fold (\<lambda>(a, v). sum_add a v) ?got []"
  from a have ins: "fst ` set (wallet_inputs inputs) = {a}" "v = wrap_u64 (total_of a (wallet_inputs inputs))"
    using single_asset [of "wallet_inputs inputs" a v] by (auto simp: input_sum_own)
  have info: "length ?outs = 1" "si_wallet_output_summary info = summary ?outs"
    "si_wallet_input_summary info = summary (fold (\<lambda>(b, v). sum_sub a v) ?change [(a, v)])"
    using assms a by (auto simp: sign_additional_info_def Let_def ensure_def output_sums_own split: if_splits)
  from info(1) obtain b u where b: "?outs = [(b, u)]" by (cases ?outs) auto
  from single_asset [OF b] have outs: "fst ` set ?got = {b}" "u = wrap_u64 (total_of b ?got)" by auto
  then have "b \<noteq> a" by auto
  moreover from this have "total_of b ?got = total_of b (wallet_outputs outputs)"
    by (rule total_of_others)
  moreover have "fst ` set (wallet_outputs outputs) \<subseteq> {a, b}" "b \<in> fst ` set (wallet_outputs outputs)"
    using outs(1) unfolding other_assets by blast+
  ultimately show ?thesis
    using ins b outs(2) fold_sum_sub [of a ?change "total_of a (wallet_inputs inputs)"]
    by (intro exI [of _ a] exI [of _ b]) (simp add: info(2,3) summary_def total_of_def)
qed

text \<open>A swap of 5000 satoshi with 1500 change for 70 of another asset; the fee and the counterparty are not shown.\<close>

definition sample_sign_input :: "asset_id \<Rightarrow> u64 \<Rightarrow> bool \<Rightarrow> sign_tx_input" where
  "sample_sign_input asset v own = \<lparr> sg_txhash = ''t'', sg_pt_idx = 0, sg_asset_id = asset, sg_satoshi = v, sg_redeem_script = None,
     sg_address_type = None, sg_ae_host_commitment = None, sg_ae_host_entropy = None, sg_assetblinder = None, sg_amountblinder = None,
     sg_asset_tag = None, sg_user_path = (if own then Some [0] else None), sg_public_key = None, sg_prevout_script = None,
     sg_commitment = None, sg_user_sighash = None, sg_skip_signing = None, sg_value_blind_proof = None, sg_asset_blind_proof = None \<rparr>"

definition sample_sign_output :: "asset_id \<Rightarrow> u64 \<Rightarrow> bool \<Rightarrow> sign_tx_output" where
  "sample_sign_output asset v own = \<lparr> sh_scriptpubkey = ''s'', sh_address = None, sh_address_type = None, sh_is_change = None,
     sh_is_internal = None, sh_asset_id = asset, sh_satoshi = v, sh_blinding_key = None, sh_assetblinder = None,
     sh_amountblinder = None, sh_user_path = (if own then Some [0] else None) \<rparr>"

theorem jade_shows_net_amounts_witness:
  "\<exists>info. sign_additional_info [sample_sign_input ''lbtc'' 5000 True, sample_sign_input ''usdt'' 90 False]
       [sample_sign_output ''lbtc'' 1500 True, sample_sign_output ''usdt'' 70 True, sample_sign_output ''usdt'' 20 False] = Ok info
     \<and> si_wallet_input_summary info = [(jade_asset_id ''lbtc'', 3500)] \<and> si_wallet_output_summary info = [(jade_asset_id ''usdt'', 70)]"
  (is "\<exists>info. sign_additional_info ?i ?o = _ \<and> _")
proof -
  have own: "wallet_inputs ?i = [(''lbtc'', 5000)]" "wallet_outputs ?o = [(''lbtc'', 1500), (''usdt'', 70)]"
    by (simp_all add: wallet_inputs_def wallet_outputs_def sample_sign_input_def sample_sign_output_def)
  obtain info where "sign_additional_info ?i ?o = Ok info"
    by (simp add: sign_additional_info_def input_sum_own output_sums_own own Let_def ensure_def sum_add_def sum_sub_def)
  from jade_shows_net_amounts [OF this] this show ?thesis by (auto simp: own wrap_u64_def)
qed

end
