(* ===== verification/Amount_Bounds.thy ===== *)
theory Amount_Bounds
  imports Common_Types
begin

text \<open>
  Error analysis of the amount arithmetic of \<open>sideswap_common/src/types.rs\<close> over the
  exact binary64 semantics of the theory F64: conversions between satoshis and bitcoins are
  lossless up to the money supply, the server fee is monotone, the largest payable amount leaves
  room for its own fee, and a peg-out quote never pays out more than it charges.
\<close>

section \<open>Accuracy of the conversions and fees\<close>

definition SAT_MAX :: int where "SAT_MAX = 2100000000000000"

definition fee_rate :: rat where "fee_rate = 1152921504606847 / 1152921504606846976"
definition fee_share :: rat where "fee_share = 4499100526843 / 4503599627370496"

lemma SERVER_FEE_RATE_val: "SERVER_FEE_RATE = Fin fee_rate"
  by code_simp

lemma fee_share_val:
  "f64_sub (Fin 1) (f64_div (Fin 1) (f64_add (Fin 1) SERVER_FEE_RATE)) = Fin fee_share"
  by code_simp

lemma COIN_val: "int_as_f64 COIN = Fin 100000000"
  by (simp add: int_as_f64_exact COIN_def)

lemma to_bitcoin_fin:
  assumes "\<bar>a\<bar> \<le> 2 ^ 53"
  shows "is_fin (to_bitcoin a)" "f64_val (to_bitcoin a) = rnd (of_int a / 10 ^ 8)"
proof -
  have "\<bar>of_int a :: rat\<bar> \<le> of_int (2 ^ 53)" using assms by (metis of_int_abs of_int_le_iff)
  then have "\<bar>of_int a / 10 ^ 8 :: rat\<bar> \<le> 2 ^ 53" by (simp add: abs_divide)
  then have "\<bar>rnd (of_int a / 10 ^ 8)\<bar> < f64_huge" by (rule rnd_below_huge) simp
  with assms show "is_fin (to_bitcoin a)" "f64_val (to_bitcoin a) = rnd (of_int a / 10 ^ 8)"
    by (simp_all add: to_bitcoin_def int_as_f64_exact COIN_val f64_div_fin)
qed

lemma from_bitcoin_fin:
  assumes "is_fin x" "\<bar>f64_val x\<bar> \<le> 2 ^ 30"
  shows "from_bitcoin x = round_away (rnd (f64_val x * 10 ^ 8))"
proof -
  have "\<bar>f64_val x * 10 ^ 8\<bar> \<le> 2 ^ 57" using assms(2) by (simp add: abs_mult)
  then have b: "\<bar>rnd (f64_val x * 10 ^ 8)\<bar> \<le> 2 ^ 57" by (rule rnd_abs_le [OF rnd_pow2])
  then have "\<bar>rnd (f64_val x * 10 ^ 8)\<bar> < f64_huge" using f64_huge_gt [of 57] by linarith
  then have m: "is_fin (f64_mul x (Fin 100000000))" "f64_val (f64_mul x (Fin 100000000)) = rnd (f64_val x * 10 ^ 8)"
    using assms(1) by (simp_all add: f64_mul_fin)
  have "\<bar>of_int (round_away (rnd (f64_val x * 10 ^ 8))) :: rat\<bar> \<le> 2 ^ 57 + 1"
    using round_away_dist [of "rnd (f64_val x * 10 ^ 8)"] b by linarith
  then have "(of_int \<bar>round_away (rnd (f64_val x * 10 ^ 8))\<bar> :: rat) \<le> of_int (2 ^ 57 + 1)" by simp
  then have "\<bar>round_away (rnd (f64_val x * 10 ^ 8))\<bar> \<le> 2 ^ 57 + 1" by (simp only: of_int_le_iff)
  with m show ?thesis
    by (simp add: from_bitcoin_def COIN_val f64_as_i64_round i64_min_def i64_max_def)
qed

text \<open>The common shape of the fee computations: convert to bitcoins, multiply, convert back.\<close>

definition scaled :: "int \<Rightarrow> rat \<Rightarrow> rat" where
  "scaled a k = rnd (rnd (rnd (of_int a / 10 ^ 8) * k) * 10 ^ 8)"

lemma scaled_mono: "a \<le> b \<Longrightarrow> 0 \<le> k \<Longrightarrow> scaled a k \<le> scaled b k"
  unfolding scaled_def by (intro rnd_mono mult_right_mono divide_right_mono) auto

lemma rnd_scale_bounds:
  assumes "1 / 10 ^ 13 \<le> lo" "lo \<le> x" "x \<le> hi"
  shows "lo * (1 - f64_eps) \<le> rnd x" "rnd x \<le> hi * (1 + f64_eps)"
proof -
  have x: "1 / 10 ^ 20 \<le> x" using assms(1,2) by (rule order_trans [OF order_trans, rotated]) simp
  then have "0 \<le> x" by (rule order_trans [rotated]) simp
  note b = rnd_bounds [OF this disjI2 [OF x]]
  have "0 \<le> 1 - f64_eps" "0 \<le> 1 + f64_eps" by (simp_all add: f64_eps_def)
  then have "lo * (1 - f64_eps) \<le> x * (1 - f64_eps)" "x * (1 + f64_eps) \<le> hi * (1 + f64_eps)"
    using assms by (auto intro: mult_right_mono)
  with b show "lo * (1 - f64_eps) \<le> rnd x" "rnd x \<le> hi * (1 + f64_eps)" by linarith+
qed

lemma scaled_bounds:
  assumes "0 \<le> a" "1 / 10 ^ 4 \<le> k"
  shows "of_int a * (k * (1 - f64_eps) ^ 3) \<le> scaled a k" "scaled a k \<le> of_int a * (k * (1 + f64_eps) ^ 3)"
proof -
  let ?l = "1 - f64_eps" and ?h = "1 + f64_eps"
  have k: "0 < k" using assms(2) by (rule less_le_trans [rotated]) simp
  have l: "1 / 2 \<le> ?l" by (simp add: f64_eps_def)
  have "of_int a * (k * ?l ^ 3) \<le> scaled a k \<and> scaled a k \<le> of_int a * (k * ?h ^ 3)"
  proof (cases "a = 0")
    case True
    then show ?thesis by (simp add: scaled_def)
  next
    case False
    with assms(1) have a: "(1 :: rat) \<le> of_int a" by simp
    define x where "x = (of_int a :: rat) / 10 ^ 8"
    have x: "1 / 10 ^ 8 \<le> x" using a by (simp add: x_def)
    define x1 where "x1 = rnd x"
    have b1: "x * ?l \<le> x1" "x1 \<le> x * ?h"
      unfolding x1_def using x by (auto intro!: rnd_scale_bounds order_trans [OF _ x])
    define y where "y = rnd (x1 * k)"
    have "1 / 10 ^ 8 * (1 / 2) * (1 / 10 ^ 4) \<le> x * ?l * k"
      using x l assms(2) by (intro mult_mono) auto
    then have lo2: "1 / 10 ^ 13 \<le> x * ?l * k" by (rule order_trans [rotated]) simp
    have b2: "x * ?l * k * ?l \<le> y" "y \<le> x * ?h * k * ?h"
      unfolding y_def using k
        rnd_scale_bounds [OF lo2 mult_right_mono [OF b1(1)] mult_right_mono [OF b1(2)]] by auto
    have "1 / 10 ^ 13 * 1 \<le> (x * ?l * k) * (?l * 10 ^ 8)"
      using lo2 l by (intro mult_mono) auto
    then have lo3: "1 / 10 ^ 13 \<le> x * ?l * k * ?l * 10 ^ 8" by (simp add: mult_ac)
    have "x * ?l * k * ?l * 10 ^ 8 * ?l \<le> scaled a k" "scaled a k \<le> x * ?h * k * ?h * 10 ^ 8 * ?h"
      unfolding scaled_def x_def [symmetric] x1_def [symmetric] y_def [symmetric]
      using rnd_scale_bounds [OF lo3 mult_right_mono [OF b2(1)] mult_right_mono [OF b2(2)]] by auto
    moreover have "x * t * k * t * 10 ^ 8 * t = of_int a * (k * t ^ 3)" for t
      by (simp add: x_def power3_eq_cube)
    ultimately show ?thesis by (simp only:)
  qed
  then show "of_int a * (k * ?l ^ 3) \<le> scaled a k" "scaled a k \<le> of_int a * (k * ?h ^ 3)" by auto
qed

lemma scaled_err:
  assumes "0 \<le> a" "1 / 10 ^ 4 \<le> k"
    and "c - d \<le> k * (1 - f64_eps) ^ 3" "k * (1 + f64_eps) ^ 3 \<le> c + d"
  shows "of_int a * (c - d) \<le> scaled a k" "scaled a k \<le> of_int a * (c + d)"
proof -
  have a: "(0 :: rat) \<le> of_int a" using assms(1) by simp
  have "of_int a * (c - d) \<le> of_int a * (k * (1 - f64_eps) ^ 3)"
    "of_int a * (k * (1 + f64_eps) ^ 3) \<le> of_int a * (c + d)"
    using assms(3,4) a by (auto intro: mult_left_mono)
  with scaled_bounds [OF assms(1,2)]
  show "of_int a * (c - d) \<le> scaled a k" "scaled a k \<le> of_int a * (c + d)" by linarith+
qed

lemma scaled_fee_rate:
  assumes "0 \<le> a"
  shows "of_int a * (1 / 1000 - 1 / 10 ^ 18) \<le> scaled a fee_rate" "scaled a fee_rate \<le> of_int a * (1 / 1000 + 1 / 10 ^ 18)"
  using assms by (intro scaled_err; simp add: fee_rate_def f64_eps_def power3_eq_cube)+

lemma scaled_fee_share:
  assumes "0 \<le> a"
  shows "of_int a * (1 / 1001 - 2 / 10 ^ 16) \<le> scaled a fee_share" "scaled a fee_share \<le> of_int a * (1 / 1001 + 2 / 10 ^ 16)"
  using assms by (intro scaled_err; simp add: fee_share_def f64_eps_def power3_eq_cube)+

lemma from_bitcoin_scaled:
  assumes "0 \<le> a" "a \<le> SAT_MAX" "is_fin x" "f64_val x = k" "1 / 10 ^ 4 \<le> k" "k \<le> 1"
  shows "from_bitcoin (f64_mul (to_bitcoin a) x) = round_away (scaled a k)"
proof -
  have a: "\<bar>a\<bar> \<le> 2 ^ 53" using assms(1,2) by (simp add: SAT_MAX_def)
  have "(of_int a :: rat) / 10 ^ 8 \<le> 2 ^ 29"
    using assms(2) by (simp add: SAT_MAX_def field_simps)
  then have "rnd (of_int a / 10 ^ 8) \<le> rnd (2 ^ 29)" by (rule rnd_mono)
  then have le: "rnd (of_int a / 10 ^ 8) \<le> 2 ^ 29" by (simp only: rnd_pow2)
  have nn: "0 \<le> rnd (of_int a / 10 ^ 8)" using assms(1) by simp
  have "rnd (of_int a / 10 ^ 8) * k \<le> 2 ^ 29 * 1"
    using le nn assms(5,6) by (intro mult_mono) auto
  moreover have "0 \<le> rnd (of_int a / 10 ^ 8) * k"
    using nn assms(5) by (intro mult_nonneg_nonneg) (auto intro: order_trans [rotated])
  ultimately have ab: "\<bar>rnd (of_int a / 10 ^ 8) * k\<bar> \<le> 2 ^ 29" by simp
  then have r: "\<bar>rnd (rnd (of_int a / 10 ^ 8) * k)\<bar> \<le> 2 ^ 29" by (rule rnd_abs_le [OF rnd_pow2])
  then have "\<bar>rnd (rnd (of_int a / 10 ^ 8) * k)\<bar> < f64_huge" using f64_huge_gt [of 29] by linarith
  then have m: "is_fin (f64_mul (to_bitcoin a) x)"
    "f64_val (f64_mul (to_bitcoin a) x) = rnd (rnd (of_int a / 10 ^ 8) * k)"
    using assms(3,4) to_bitcoin_fin [OF a] by (simp_all add: f64_mul_fin)
  with r show ?thesis by (subst from_bitcoin_fin) (auto simp: scaled_def)
qed

lemma get_server_fee_eq:
  assumes "0 \<le> a" "a \<le> SAT_MAX"
  shows "get_server_fee a = max (round_away (scaled a fee_rate)) 500"
proof -
  have "from_bitcoin (f64_mul (to_bitcoin a) SERVER_FEE_RATE) = round_away (scaled a fee_rate)"
    using assms by (intro from_bitcoin_scaled) (simp_all add: SERVER_FEE_RATE_val fee_rate_def)
  then show ?thesis by (simp add: get_server_fee_def MIN_SERVER_FEE_def)
qed

lemma get_server_fee_mono_aux:
  assumes "0 \<le> a" "a \<le> b" "b \<le> SAT_MAX"
  shows "get_server_fee a \<le> get_server_fee b"
proof -
  have "scaled a fee_rate \<le> scaled b fee_rate" using assms by (intro scaled_mono) (auto simp: fee_rate_def)
  then show ?thesis using assms by (auto simp: get_server_fee_eq max_def dest!: round_away_mono)
qed

text \<open>The server fee is one per mille of the amount, rounded, within one satoshi.\<close>

lemma server_fee_bounds:
  assumes "0 \<le> a" "a \<le> SAT_MAX"
  defines "f \<equiv> round_away (scaled a fee_rate)"
  shows "of_int a / 1000 - 1 / 2 - 3 / 1000 \<le> (of_int f :: rat)" "(of_int f :: rat) \<le> of_int a / 1000 + 1 / 2 + 3 / 1000"
proof -
  have "(of_int a :: rat) \<le> of_int SAT_MAX" "(0 :: rat) \<le> of_int a" using assms by simp_all
  then have "(of_int a :: rat) \<le> 2100000000000000" "(0 :: rat) \<le> of_int a" by (simp_all add: SAT_MAX_def)
  then show "of_int a / 1000 - 1 / 2 - 3 / 1000 \<le> (of_int f :: rat)" "(of_int f :: rat) \<le> of_int a / 1000 + 1 / 2 + 3 / 1000"
    unfolding f_def using scaled_fee_rate [OF assms(1)] round_away_bounds [of "scaled a fee_rate"]
    by (auto simp: field_simps)
qed

lemma network_fee_bounds:
  assumes "0 \<le> b" "b \<le> SAT_MAX"
  defines "n \<equiv> round_away (scaled b fee_share)"
  shows "of_int b / 1001 - 1 / 2 - 42 / 100 \<le> (of_int n :: rat)" "(of_int n :: rat) \<le> of_int b / 1001 + 1 / 2 + 42 / 100"
proof -
  have "(of_int b :: rat) \<le> of_int SAT_MAX" "(0 :: rat) \<le> of_int b" using assms by simp_all
  then have "(of_int b :: rat) \<le> 2100000000000000" "(0 :: rat) \<le> of_int b" by (simp_all add: SAT_MAX_def)
  then show "of_int b / 1001 - 1 / 2 - 42 / 100 \<le> (of_int n :: rat)" "(of_int n :: rat) \<le> of_int b / 1001 + 1 / 2 + 42 / 100"
    unfolding n_def using scaled_fee_share [OF assms(1)] round_away_bounds [of "scaled b fee_share"]
    by (auto simp: field_simps)
qed

lemma int_le_of_rat_less: "(of_int m :: rat) < of_int n + 1 \<Longrightarrow> m \<le> n"
  by (metis of_int_1 of_int_add of_int_less_iff zle_add1_eq_le)

lemma get_max_core:
  assumes b: "2500 \<le> b" "b \<le> SAT_MAX"
  defines "n \<equiv> max (round_away (scaled b fee_share)) 500"
  shows "500 \<le> n" "n \<le> b - 2" "get_server_fee (b - n) \<le> n + 1" "n - 1 \<le> get_server_fee (b - n)"
proof -
  let ?N = "round_away (scaled b fee_share)"
  have b0: "0 \<le> b" using b by simp
  note N = network_fee_bounds [OF b0 b(2)]
  have "(of_int 2500 :: rat) \<le> of_int b" using b(1) by (simp only: of_int_le_iff)
  then have br: "(2500 :: rat) \<le> of_int b" by simp
  show n500: "500 \<le> n" by (simp add: n_def)
  have "(of_int ?N :: rat) < of_int (b - 2) + 1" using N(2) br by simp
  then have "?N \<le> b - 2" by (rule int_le_of_rat_less)
  then show nb: "n \<le> b - 2" using b(1) by (simp add: n_def)
  have rng: "0 \<le> b - n" "b - n \<le> SAT_MAX" using nb n500 b(2) by simp_all
  let ?F = "round_away (scaled (b - n) fee_rate)"
  note F = server_fee_bounds [OF rng]
  have "(of_int ?N :: rat) \<le> of_int n" by (simp add: n_def)
  with N(1) have n_lo: "of_int b / 1001 - 92 / 100 \<le> (of_int n :: rat)" by linarith
  then have "(of_int ?F :: rat) < of_int (n + 1) + 1" using F(2) by (simp add: field_simps)
  then have "?F \<le> n + 1" by (rule int_le_of_rat_less)
  then show "get_server_fee (b - n) \<le> n + 1" using n500 rng by (simp add: get_server_fee_eq)
  show "n - 1 \<le> get_server_fee (b - n)"
  proof (cases "?N \<le> 500")
    case True
    then show ?thesis using rng by (simp add: get_server_fee_eq n_def)
  next
    case False
    then have "n = ?N" by (simp add: n_def)
    with N(2) have "(of_int n :: rat) \<le> of_int b / 1001 + 92 / 100" by simp
    then have "(of_int (n - 1) :: rat) < of_int ?F + 1" using F(1) by (simp add: field_simps)
    then have "n - 1 \<le> ?F" by (rule int_le_of_rat_less)
    then show ?thesis using rng by (simp add: get_server_fee_eq)
  qed
qed

lemma server_fee_step:
  assumes "1 \<le> a" "a \<le> SAT_MAX"
  shows "get_server_fee a - 1 \<le> get_server_fee (a - 1)"
proof -
  let ?f = "round_away (scaled a fee_rate)" and ?g = "round_away (scaled (a - 1) fee_rate)"
  have a: "0 \<le> a" "0 \<le> a - 1" "a - 1 \<le> SAT_MAX" using assms by simp_all
  have "(of_int (?f - 1) :: rat) < of_int ?g + 1"
    using server_fee_bounds(2) [OF a(1) assms(2)] server_fee_bounds(1) [OF a(2,3)] by (simp add: field_simps)
  then have "?f - 1 \<le> ?g" by (rule int_le_of_rat_less)
  then show ?thesis using a assms by (simp add: get_server_fee_eq)
qed

lemma get_max_bitcoin_amount_bounds:
  assumes b: "2500 \<le> b" "b \<le> SAT_MAX"
  obtains a where "get_max_bitcoin_amount b = Ok a" "0 < a" "a \<le> b"
    "b - 1 \<le> a + get_server_fee a" "a + get_server_fee a \<le> b"
proof -
  define n where "n = max (round_away (scaled b fee_share)) 500"
  note c = get_max_core [OF b, folded n_def]
  let ?f = "get_server_fee (b - n)"
  have rng: "0 \<le> b - n" "b - n \<le> SAT_MAX" "1 \<le> b - n" using c b by simp_all
  have "from_bitcoin (f64_mul (to_bitcoin b)
      (f64_sub (Fin 1) (f64_div (Fin 1) (f64_add (Fin 1) SERVER_FEE_RATE)))) = round_away (scaled b fee_share)"
    using b by (intro from_bitcoin_scaled) (simp_all add: fee_share_val fee_share_def)
  moreover have "i64_sub b n = b - n" "i64_add (b - n) ?f = b - n + ?f" "i64_sub (b - n) 1 = b - n - 1"
    using c b by (auto intro!: i64_sub_exact i64_add_exact simp: i64_bounds SAT_MAX_def)
  moreover have "i64_add MIN_BITCOIN_AMOUNT MIN_SERVER_FEE = 2500" by code_simp
  ultimately have eq: "get_max_bitcoin_amount b = Ok (if b < b - n + ?f then b - n - 1 else b - n)"
    using b by (simp add: get_max_bitcoin_amount_def Let_def MIN_SERVER_FEE_def n_def [symmetric])
  show thesis
  proof (cases "b < b - n + ?f")
    case True
    have "get_server_fee (b - n - 1) \<le> ?f" using rng c b by (intro get_server_fee_mono_aux) auto
    moreover have "?f - 1 \<le> get_server_fee (b - n - 1)" using rng by (intro server_fee_step) auto
    ultimately show thesis using that [of "b - n - 1"] eq True c b by simp
  next
    case False
    then show thesis using that [of "b - n"] eq c b by simp
  qed
qed

lemma sat_range_rat: "\<bar>a\<bar> \<le> SAT_MAX \<Longrightarrow> \<bar>of_int a :: rat\<bar> \<le> 2100000000000000"
proof -
  assume "\<bar>a\<bar> \<le> SAT_MAX"
  then have "(of_int \<bar>a\<bar> :: rat) \<le> of_int SAT_MAX" by (simp only: of_int_le_iff)
  then show ?thesis by (simp add: SAT_MAX_def)
qed

text \<open>Dividing by a power of ten and multiplying by it again loses less than half a unit.\<close>

lemma scale_roundtrip_near:
  assumes "a \<noteq> 0" "\<bar>a\<bar> \<le> SAT_MAX" "1 \<le> D" "D \<le> 10 ^ 18"
  shows "\<bar>rnd (rnd (of_int a / D) * D) - of_int a\<bar> < 1 / 2"
proof -
  let ?A = "\<bar>of_int a :: rat\<bar>" and ?x = "(of_int a :: rat) / D"
  let ?y = "rnd ?x * D"
  have D: "0 < D" using assms(3) by simp
  have A: "1 \<le> ?A" "?A \<le> 2100000000000000"
    using assms sat_range_rat by (simp_all flip: of_int_abs)
  have "1 / 10 ^ 18 \<le> ?A / D" using A(1) D assms(4) by (intro frac_le) auto
  then have "\<bar>rnd ?x - ?x\<bar> \<le> \<bar>?x\<bar> * f64_eps" using D by (intro rel_err) (simp add: abs_divide)
  then have "\<bar>rnd ?x - ?x\<bar> * D \<le> \<bar>?x\<bar> * f64_eps * D" using D by (intro mult_right_mono) auto
  moreover have "?y - of_int a = (rnd ?x - ?x) * D" using D by (simp add: left_diff_distrib)
  then have "\<bar>?y - of_int a\<bar> = \<bar>rnd ?x - ?x\<bar> * D" using D by (simp add: abs_mult)
  ultimately have y: "\<bar>?y - of_int a\<bar> \<le> ?A * f64_eps" using D by (simp add: abs_divide)
  then have ya: "\<bar>?y\<bar> \<le> ?A + ?A * f64_eps" "?A - ?A * f64_eps \<le> \<bar>?y\<bar>" by linarith+
  have "1 / 10 ^ 20 \<le> \<bar>?y\<bar>" using ya(2) A by (simp add: f64_eps_def)
  then have "\<bar>rnd ?y - ?y\<bar> \<le> \<bar>?y\<bar> * f64_eps" by (intro rel_err) simp
  also have "\<dots> \<le> (?A + ?A * f64_eps) * f64_eps" using ya(1) by (rule mult_right_mono) (simp add: f64_eps_def)
  finally have "\<bar>rnd ?y - of_int a\<bar> \<le> (?A + ?A * f64_eps) * f64_eps + ?A * f64_eps" using y by linarith
  also have "\<dots> < 1 / 2" using A(2) by (simp add: f64_eps_def field_simps)
  finally show ?thesis .
qed

lemma scale_roundtrip:
  "\<bar>a\<bar> \<le> SAT_MAX \<Longrightarrow> 1 \<le> D \<Longrightarrow> D \<le> 10 ^ 18 \<Longrightarrow> round_away (rnd (rnd (of_int a / D) * D)) = a"
  using scale_roundtrip_near [of a D] by (cases "a = 0") (auto intro!: round_away_near)

lemma bitcoin_roundtrip:
  assumes "\<bar>a\<bar> \<le> SAT_MAX"
  shows "from_bitcoin (to_bitcoin a) = a"
proof -
  let ?x = "(of_int a :: rat) / 10 ^ 8"
  have a53: "\<bar>a\<bar> \<le> 2 ^ 53" using assms by (simp add: SAT_MAX_def)
  have "\<bar>?x\<bar> \<le> 2 ^ 30" using sat_range_rat [OF assms] by (simp add: abs_divide)
  then have "\<bar>rnd ?x\<bar> \<le> 2 ^ 30" by (rule rnd_abs_le [OF rnd_pow2])
  then have "from_bitcoin (to_bitcoin a) = round_away (rnd (rnd ?x * 10 ^ 8))"
    using to_bitcoin_fin [OF a53] by (simp add: from_bitcoin_fin)
  also have "\<dots> = a" using assms by (intro scale_roundtrip) simp_all
  finally show ?thesis .
qed

lemma asset_scale_Ok:
  assumes "p \<le> 18"
  shows "asset_scale p = Ok (Fin (10 ^ p))"
proof -
  have "(10 :: int) ^ p \<le> 10 ^ 18" using assms by (intro power_increasing) auto
  then have le: "(10 :: int) ^ p \<le> i64_max" by (simp add: i64_max_def)
  have "(5 :: int) ^ p \<le> 5 ^ 18" using assms by (intro power_increasing) auto
  then have "\<bar>(5 :: int) ^ p\<bar> \<le> 2 ^ 53" by simp
  then have r: "rnd (10 ^ p) = 10 ^ p"
    by (intro rnd_exact [of _ "5 ^ p" "int p"]) (simp_all flip: power_mult_distrib)
  have "(10 :: rat) ^ p \<le> 10 ^ 18" using assms by (intro power_increasing) auto
  then have "\<bar>(10 :: rat) ^ p\<bar> \<le> 2 ^ 60" by simp
  then have "\<bar>rnd (10 ^ p)\<bar> < f64_huge" by (rule rnd_below_huge) simp
  then have "int_as_f64 (10 ^ p) = Fin (10 ^ p)" using r by (simp add: int_as_f64_def f64_of_rat_Fin)
  with le show ?thesis by (simp add: asset_scale_def)
qed

lemma asset_scale_Panic: "18 < p \<Longrightarrow> asset_scale p = Panic"
proof -
  assume "18 < p"
  then have "(10 :: int) ^ 19 \<le> 10 ^ p" by (intro power_increasing) auto
  then show ?thesis by (simp add: asset_scale_def i64_max_def)
qed

lemma asset_roundtrip:
  assumes "\<bar>a\<bar> \<le> SAT_MAX" "p \<le> 18"
  shows "and_then (asset_float_amount a p) (\<lambda>x. asset_int_amount x p) = (Ok a :: ('e, i64) outcome)"
proof -
  let ?D = "(10 :: rat) ^ p" and ?x = "(of_int a :: rat) / 10 ^ p"
  have D: "1 \<le> ?D" "?D \<le> 10 ^ 18" using assms(2) by (simp, intro power_increasing) auto
  have a53: "\<bar>a\<bar> \<le> 2 ^ 53" using assms(1) by (simp add: SAT_MAX_def)
  have xa: "\<bar>?x\<bar> \<le> \<bar>of_int a\<bar>" using D by (simp add: abs_divide divide_le_eq mult_le_cancel_left1)
  then have "\<bar>?x\<bar> \<le> 2 ^ 51" using sat_range_rat [OF assms(1)] by simp
  then have xb: "\<bar>rnd ?x\<bar> \<le> 2 ^ 51" by (rule rnd_abs_le [OF rnd_pow2])
  then have "\<bar>rnd ?x\<bar> < f64_huge" using f64_huge_gt [of 51] by linarith
  then have q: "is_fin (f64_div (int_as_f64 a) (Fin ?D))" "f64_val (f64_div (int_as_f64 a) (Fin ?D)) = rnd ?x"
    using a53 D by (simp_all add: int_as_f64_exact f64_div_fin)
  have "\<bar>rnd ?x * ?D\<bar> \<le> 2 ^ 51 * 10 ^ 18"
    using xb D unfolding abs_mult by (intro mult_mono) auto
  then have "\<bar>rnd ?x * ?D\<bar> \<le> 2 ^ 120" by simp
  then have "\<bar>rnd (rnd ?x * ?D)\<bar> < f64_huge" by (rule rnd_below_huge) simp
  then have m: "is_fin (f64_mul (f64_div (int_as_f64 a) (Fin ?D)) (Fin ?D))"
    "f64_val (f64_mul (f64_div (int_as_f64 a) (Fin ?D)) (Fin ?D)) = rnd (rnd ?x * ?D)"
    using q by (simp_all add: f64_mul_fin)
  have "clamp i64_min i64_max a = a"
    using assms(1) by (simp add: SAT_MAX_def i64_min_def i64_max_def)
  then have "f64_as_i64 (f64_round (f64_mul (f64_div (int_as_f64 a) (Fin ?D)) (Fin ?D))) = a"
    using m scale_roundtrip [OF assms(1) D] by (simp add: f64_as_i64_round)
  then show ?thesis using assms(2)
    by (simp add: asset_float_amount_def asset_int_amount_def asset_scale_Ok)
qed

section \<open>Peg-out quotes\<close>

lemma as_i64_round_ge:
  assumes "0 \<le> n" "n \<le> 2 ^ 53" "of_int n \<le> q"
  shows "n \<le> f64_as_i64 (f64_round (f64_of_rat q))"
proof -
  have q: "0 \<le> q" using assms by (meson of_int_0_le_iff order_trans)
  have "rnd (of_int n) \<le> rnd q" using assms(3) by (rule rnd_mono)
  then have "of_int n \<le> rnd q" using assms by simp
  then have "round_away (of_int n) \<le> round_away (rnd q)" by (rule round_away_mono)
  then have "n \<le> round_away (rnd q)" by simp
  then have "n \<le> clamp i64_min i64_max (round_away (rnd q))"
    using assms(1,2) by (simp add: clamp_def i64_min_def i64_max_def)
  moreover have "f64_of_rat q = PInf \<or> f64_of_rat q = Fin (rnd q)"
    using q rnd_nonneg [OF q] f64_huge_pos(1) by (auto simp: f64_of_rat_def Let_def simp del: rnd_nonneg)
  ultimately show ?thesis using assms(1,2) f64_as_i64_round [of "Fin (rnd q)"]
    by (auto simp: f64_as_i64_def i64_max_def simp del: f64_round.simps(1))
qed

lemma as_i64_round_le:
  assumes "0 \<le> q" "q \<le> of_int n" "n \<le> 2 ^ 53"
  shows "0 \<le> f64_as_i64 (f64_round (f64_of_rat q))" "f64_as_i64 (f64_round (f64_of_rat q)) \<le> n"
proof -
  have n: "0 \<le> n" using assms by (meson of_int_0_le_iff order_trans)
  have le: "rnd q \<le> of_int n" using rnd_mono [OF assms(2)] n assms(3) by simp
  then have "round_away (rnd q) \<le> round_away (of_int n)" by (rule round_away_mono)
  then have u: "round_away (rnd q) \<le> n" by simp
  have "round_away 0 \<le> round_away (rnd q)" using assms(1) by (intro round_away_mono) simp
  then have l: "0 \<le> round_away (rnd q)" by simp
  have "(of_int n :: rat) \<le> of_int (2 ^ 53)" using assms(3) by (simp only: of_int_le_iff)
  then have "\<bar>rnd q\<bar> < f64_huge" using le assms(1) f64_huge_gt [of 53] by simp
  then have "f64_of_rat q = Fin (rnd q)" using assms(1) by (rule f64_of_rat_Fin)
  then have "f64_as_i64 (f64_round (f64_of_rat q)) = round_away (rnd q)"
    using u l n assms(3) f64_as_i64_round [of "Fin (rnd q)"] by (simp add: i64_min_def i64_max_def del: f64_round.simps)
  with u l show "0 \<le> f64_as_i64 (f64_round (f64_of_rat q))" "f64_as_i64 (f64_round (f64_of_rat q)) \<le> n" by simp_all
qed

lemma f64_mul_nonneg:
  assumes "is_fin a" "is_fin b" "0 \<le> f64_val a" "0 \<le> f64_val b"
  shows "f64_as_i64 (f64_round (f64_mul a b)) = f64_as_i64 (f64_round (f64_of_rat (f64_val a * f64_val b)))"
  using assms by (cases "f64_val a * f64_val b = 0")
    (auto simp: f64_mul_def is_fin_not_inf Let_def f64_zero_def f64_of_rat_def f64_as_i64_def
      i64_min_def i64_max_def)

text \<open>A fee percentage between 0 and 100 gives a payout rate between 0 and 1.\<close>

lemma peg_out_rate:
  assumes "is_fin p" "0 \<le> f64_val p" "f64_val p \<le> 100"
  defines "rate \<equiv> f64_sub (Fin 1) (f64_div p (Fin 100))"
  shows "is_fin rate" "0 \<le> f64_val rate" "f64_val rate \<le> 1" "rate \<noteq> NZero"
proof -
  let ?q = "rnd (f64_val p / 100)"
  have "rnd (f64_val p / 100) \<le> rnd 1" using assms(3) by (intro rnd_mono) simp
  moreover have "rnd 1 = 1" using rnd_of_int [of 1] by simp
  ultimately have q: "0 \<le> ?q" "?q \<le> 1" using assms(2) by simp_all
  then have "\<bar>?q\<bar> < f64_huge" using f64_huge_gt [of 0] by simp
  then have d: "is_fin (f64_div p (Fin 100))" "f64_val (f64_div p (Fin 100)) = ?q"
    using assms(1) by (simp_all add: f64_div_fin)
  have r: "0 \<le> rnd (1 - ?q)" "rnd (1 - ?q) \<le> 1"
    using q rnd_mono [of "1 - ?q" 1] \<open>rnd 1 = 1\<close> by simp_all
  then have "\<bar>rnd (1 - ?q)\<bar> < f64_huge" using f64_huge_gt [of 0] by simp
  then show "is_fin rate" "0 \<le> f64_val rate" "f64_val rate \<le> 1"
    using d r f64_sub_fin [of "Fin 1" "f64_div p (Fin 100)"] by (simp_all add: rate_def)
  show "rate \<noteq> NZero"
    using q d by (auto simp: rate_def f64_sub_def f64_add_def f64_of_rat_def Let_def)
qed

lemma fixed_fee_range:
  assumes "0 \<le> v" "v \<le> 10 ^ 6" "is_fin r" "0 \<le> f64_val r" "f64_val r \<le> 10 ^ 6"
  shows "0 \<le> f64_as_i64 (f64_round (f64_mul (int_as_f64 v) r))"
    "f64_as_i64 (f64_round (f64_mul (int_as_f64 v) r)) \<le> 10 ^ 12"
proof -
  have e: "int_as_f64 v = Fin (of_int v)" using assms(1,2) by (intro int_as_f64_exact) simp
  have v: "(0 :: rat) \<le> of_int v" "(of_int v :: rat) \<le> of_int (10 ^ 6)"
    using assms(1,2) by (simp, simp only: of_int_le_iff)
  have "of_int v * f64_val r \<le> 10 ^ 6 * 10 ^ 6" using v assms(4,5) by (intro mult_mono) auto
  then have "of_int v * f64_val r \<le> of_int (10 ^ 12)" by simp
  then show "0 \<le> f64_as_i64 (f64_round (f64_mul (int_as_f64 v) r))"
    "f64_as_i64 (f64_round (f64_mul (int_as_f64 v) r)) \<le> 10 ^ 12"
    using v assms(3,4) as_i64_round_le [of "of_int v * f64_val r" "10 ^ 12"]
    by (simp_all add: e f64_mul_nonneg)
qed

lemma payout_le:
  assumes "0 < a" "a \<le> SAT_MAX" "is_fin rate" "0 \<le> f64_val rate" "f64_val rate \<le> 1"
  shows "0 \<le> f64_as_i64 (f64_round (f64_mul (int_as_f64 a) rate))"
    "f64_as_i64 (f64_round (f64_mul (int_as_f64 a) rate)) \<le> a"
proof -
  have e: "int_as_f64 a = Fin (of_int a)" using assms(1,2) by (intro int_as_f64_exact) (simp add: SAT_MAX_def)
  have "of_int a * f64_val rate \<le> of_int a * 1" using assms(1,5) by (intro mult_left_mono) auto
  then show "0 \<le> f64_as_i64 (f64_round (f64_mul (int_as_f64 a) rate))"
    "f64_as_i64 (f64_round (f64_mul (int_as_f64 a) rate)) \<le> a"
    using assms as_i64_round_le [of "of_int a * f64_val rate" a] by (simp_all add: e f64_mul_nonneg SAT_MAX_def)
qed

lemma charge_ge:
  assumes "0 < a" "a \<le> 2 ^ 53" "is_fin rate" "0 \<le> f64_val rate" "f64_val rate \<le> 1" "rate \<noteq> NZero"
  shows "a \<le> f64_as_i64 (f64_round (f64_div (int_as_f64 a) rate))"
proof (cases "f64_val rate = 0")
  case True
  then have "rate = Fin 0" using assms(3,6) by (cases rate) auto
  then show ?thesis using assms(1,2)
    by (simp add: int_as_f64_exact f64_div_def is_inf_def f64_inf_def f64_as_i64_def i64_max_def)
next
  case False
  then have "of_int a * f64_val rate \<le> of_int a * 1" using assms(1,5) by (intro mult_left_mono) auto
  then have "of_int a \<le> of_int a / f64_val rate" using assms(4) False by (simp add: pos_le_divide_eq)
  then have "a \<le> f64_as_i64 (f64_round (f64_of_rat (of_int a / f64_val rate)))"
    using assms(1,2) by (intro as_i64_round_ge) auto
  moreover have "f64_div (int_as_f64 a) rate = f64_of_rat (of_int a / f64_val rate)"
    using assms False by (simp add: int_as_f64_exact f64_div_def is_fin_not_inf Let_def)
  ultimately show ?thesis by simp
qed

lemma peg_out_amount_bounds:
  assumes "peg_out_amount req = Ok resp" "por_amount req \<le> SAT_MAX"
    and "0 \<le> por_peg_out_bitcoin_tx_vsize req" "por_peg_out_bitcoin_tx_vsize req \<le> 10 ^ 6"
    and "is_fin (por_fee_rate req)" "0 \<le> f64_val (por_fee_rate req)" "f64_val (por_fee_rate req) \<le> 10 ^ 6"
    and "is_fin (por_server_fee_percent_peg_out req)" "0 \<le> f64_val (por_server_fee_percent_peg_out req)"
      "f64_val (por_server_fee_percent_peg_out req) \<le> 100"
  shows "pos_recv_amount resp \<le> pos_send_amount resp"
proof -
  let ?rate = "f64_sub (Fin 1) (f64_div (por_server_fee_percent_peg_out req) (Fin 100))"
  let ?fee = "f64_as_i64 (f64_round (f64_mul (int_as_f64 (por_peg_out_bitcoin_tx_vsize req)) (por_fee_rate req)))"
  note rate = peg_out_rate [OF assms(8-10)] and fee = fixed_fee_range [OF assms(3-7)]
  have a: "0 < por_amount req" using assms(1) by (auto simp: peg_out_amount_def Let_def split: if_splits)
  show ?thesis
  proof (cases "por_is_send_entered req")
    case True
    let ?out = "f64_as_i64 (f64_round (f64_mul (int_as_f64 (por_amount req)) ?rate))"
    have out: "0 \<le> ?out" "?out \<le> por_amount req" using payout_le [OF a assms(2) rate(1-3)] by auto
    then have "i64_sub ?out ?fee = ?out - ?fee"
      using fee assms(2) by (intro i64_sub_exact) (simp add: i64_bounds SAT_MAX_def)
    with True out fee assms(1) show ?thesis by (auto simp: peg_out_amount_def Let_def)
  next
    case False
    have "i64_add (por_amount req) ?fee = por_amount req + ?fee"
      using a fee assms(2) by (intro i64_add_exact) (simp add: i64_bounds SAT_MAX_def)
    moreover have "por_amount req + ?fee \<le>
        f64_as_i64 (f64_round (f64_div (int_as_f64 (por_amount req + ?fee)) ?rate))"
      using a fee assms(2) rate by (intro charge_ge) (auto simp: SAT_MAX_def)
    ultimately show ?thesis using False fee assms(1) by (auto simp: peg_out_amount_def Let_def)
  qed
qed

section \<open>Properties\<close>

text \<open>
  (C16) The largest amount \<open>get_max_bitcoin_amount\<close> offers for a balance of at least 2500 satoshis
  leaves room for its own server fee, and wastes at most one satoshi: amount plus fee is the
  balance or one less.  (The unit test of the source samples the first half at random.)
\<close>
theorem get_max_bitcoin_amount_fits:
  assumes "2500 \<le> balance" "balance \<le> SAT_MAX"
  shows "\<exists>a. get_max_bitcoin_amount balance = Ok a \<and> 0 < a \<and>
    balance - 1 \<le> a + get_server_fee a \<and> a + get_server_fee a \<le> balance"
  using get_max_bitcoin_amount_bounds [OF assms] by metis

theorem get_max_bitcoin_amount_fits_witness:
  "\<exists>a. get_max_bitcoin_amount 123456789 = Ok a \<and> 0 < a \<and>
    123456788 \<le> a + get_server_fee a \<and> a + get_server_fee a \<le> 123456789"
  using get_max_bitcoin_amount_fits [of 123456789] by (simp add: SAT_MAX_def)

text \<open>
  The server fee never decreases when the amount grows, and is never below the minimum fee.
\<close>
theorem get_server_fee_mono:
  assumes "0 \<le> a" "a \<le> b" "b \<le> SAT_MAX"
  shows "MIN_SERVER_FEE \<le> get_server_fee a \<and> get_server_fee a \<le> get_server_fee b"
  using get_server_fee_mono_aux [OF assms] by (simp add: get_server_fee_def)

theorem get_server_fee_mono_witness:
  "MIN_SERVER_FEE \<le> get_server_fee 600000 \<and> get_server_fee 600000 \<le> get_server_fee 100000000"
  using get_server_fee_mono [of 600000 100000000] by (simp add: SAT_MAX_def)

text \<open>
  (C31) Converting satoshis to bitcoins and back returns the same amount for every amount up to
  the money supply, positive or negative, in spite of two roundings.
\<close>
theorem from_to_bitcoin:
  assumes "\<bar>a\<bar> \<le> SAT_MAX"
  shows "from_bitcoin (to_bitcoin a) = a"
  using assms by (rule bitcoin_roundtrip)

theorem from_to_bitcoin_witness: "from_bitcoin (to_bitcoin 2099999999999999) = 2099999999999999"
  using from_to_bitcoin [of 2099999999999999] by (simp add: SAT_MAX_def)

text \<open>
  (C33) The same for asset amounts of every precision: for at most 18 decimals the integer amount
  comes back from its float form, and from 19 decimals on the scale computation panics.
\<close>
theorem asset_amount_roundtrip:
  assumes "\<bar>a\<bar> \<le> SAT_MAX"
  shows "and_then (asset_float_amount a p) (\<lambda>x. asset_int_amount x p) =
    ((if p \<le> 18 then Ok a else Panic) :: (types_error, i64) outcome)"
  using asset_roundtrip [OF assms] by (auto simp: asset_float_amount_def asset_scale_Panic)

theorem asset_amount_roundtrip_witness:
  "and_then (asset_float_amount 123456789012 2) (\<lambda>x. asset_int_amount x 2) = (Ok 123456789012 :: (types_error, i64) outcome)"
  using asset_amount_roundtrip [of 123456789012 2] by (simp add: SAT_MAX_def)

text \<open>
  (C32) A peg-out quote that is given, in either direction, charges at least the minimum, pays out a
  positive amount and never pays out more than it charges, whatever the fee percentage in 0..100
  and a non-negative network fee.
\<close>
theorem peg_out_amount_sound:
  assumes "peg_out_amount req = Ok resp" "por_amount req \<le> SAT_MAX"
    and "0 \<le> por_peg_out_bitcoin_tx_vsize req" "por_peg_out_bitcoin_tx_vsize req \<le> 10 ^ 6"
    and "is_fin (por_fee_rate req)" "0 \<le> f64_val (por_fee_rate req)" "f64_val (por_fee_rate req) \<le> 10 ^ 6"
    and "is_fin (por_server_fee_percent_peg_out req)" "0 \<le> f64_val (por_server_fee_percent_peg_out req)"
      "f64_val (por_server_fee_percent_peg_out req) \<le> 100"
  shows "0 < pos_recv_amount resp \<and> pos_recv_amount resp \<le> pos_send_amount resp \<and>
    por_min_peg_out_amount req \<le> pos_send_amount resp \<and>
    (if por_is_send_entered req then pos_send_amount resp else pos_recv_amount resp) = por_amount req"
  using peg_out_amount_bounds [OF assms] assms(1)
  by (auto simp: peg_out_amount_def Let_def split: if_splits)

definition peg_out_example :: peg_out_amount_req where
  "peg_out_example = \<lparr>por_amount = 1000000, por_is_send_entered = True, por_fee_rate = Fin 5,
     por_min_peg_out_amount = 100000, por_server_fee_percent_peg_out = f64_of_rat (1 / 10),
     por_peg_out_bitcoin_tx_vsize = 200\<rparr>"

theorem peg_out_amount_sound_witness:
  "peg_out_amount peg_out_example = Ok \<lparr>pos_send_amount = 1000000, pos_recv_amount = 998000\<rparr> \<and>
   (998000 :: int) \<le> 1000000"
proof -
  have e: "peg_out_amount peg_out_example = Ok \<lparr>pos_send_amount = 1000000, pos_recv_amount = 998000\<rparr>"
    by code_simp
  have p: "por_server_fee_percent_peg_out peg_out_example = Fin (3602879701896397 / 36028797018963968)"
    by code_simp
  have "pos_recv_amount \<lparr>pos_send_amount = 1000000, pos_recv_amount = 998000\<rparr>
      \<le> pos_send_amount \<lparr>pos_send_amount = 1000000, pos_recv_amount = 998000\<rparr>"
    using peg_out_amount_sound [OF e] unfolding p by (simp add: peg_out_example_def SAT_MAX_def)
  with e show ?thesis by simp
qed

end
