(* ===== verification/Dealer.thy ===== *)
theory Dealer
  imports Outside_World
begin

text \<open>
  The order dealer of \<open>sideswap_dealer/src/dealer.rs\<close>: the decision whether an order is good enough
  to take or to sign, the inputs offered for it, the signing of the own inputs of a transaction, the
  maintenance of the own orders in the order book, and the worker that drives them from the
  messages of the server, the node and its owner.
\<close>

section \<open>Data\<close>

datatype dealer_ticker = DealerTicker (dt_name: string)

instantiation dealer_ticker :: linorder
begin

definition less_eq_dealer_ticker :: "dealer_ticker \<Rightarrow> dealer_ticker \<Rightarrow> bool" where
  "less_eq_dealer_ticker a b \<longleftrightarrow> dt_name a \<le> dt_name b"

definition less_dealer_ticker :: "dealer_ticker \<Rightarrow> dealer_ticker \<Rightarrow> bool" where
  "less_dealer_ticker a b \<longleftrightarrow> dt_name a < dt_name b"

instance
  by standard (auto simp: less_eq_dealer_ticker_def less_dealer_ticker_def intro: dealer_ticker.expand)

end

definition DEALER_LBTC :: dealer_ticker where "DEALER_LBTC = DealerTicker TICKER_LBTC"
definition DEALER_USDT :: dealer_ticker where "DEALER_USDT = DealerTicker TICKER_USDT"
definition DEALER_EURX :: dealer_ticker where "DEALER_EURX = DealerTicker TICKER_EURX"
definition DEALER_LCAD :: dealer_ticker where "DEALER_LCAD = DealerTicker TICKER_LCAD"
definition DEALER_AUDL :: dealer_ticker where "DEALER_AUDL = DealerTicker TICKER_AUDL"

lemmas dealer_ticker_defs = DEALER_LBTC_def DEALER_USDT_def DEALER_EURX_def DEALER_LCAD_def
  DEALER_AUDL_def ticker_defs

record rpc_server =
  rs_host :: string
  rs_port :: int
  rs_login :: string
  rs_password :: string

record params =
  p_env :: env
  p_server_host :: string
  p_server_port :: int
  p_server_use_tls :: bool
  p_rpc :: rpc_server
  p_interest_submit_usdt :: f64
  p_interest_sign_usdt :: f64
  p_interest_submit_eurx :: f64
  p_interest_sign_eurx :: f64
  p_tickers :: "dealer_ticker list"
  p_bitcoin_amount_submit :: amount
  p_bitcoin_amount_min :: amount
  p_bitcoin_amount_max :: amount

record utxo =
  u_item :: unspent_item
  u_amount :: i64

type_synonym utxos = "(tx_out, utxo) btree_map"
type_synonym wallet_balances = "(dealer_ticker, f64) btree_map"

record price_timestamp =
  pts_price :: price_pair
  pts_timestamp :: int

type_synonym index_prices = "(dealer_ticker, price_timestamp) btree_map"

record all_balances =
  ab_wallet :: wallet_balances
  ab_max_send :: wallet_balances
  ab_max_recv :: wallet_balances

record own_order =
  oo_order_id :: order_id
  oo_bitcoin_amount :: amount
  oo_price :: f64

record own_order_key =
  ok_ticker :: dealer_ticker
  ok_send_bitcoins :: bool

instantiation own_order_key_ext :: (linorder) linorder
begin

definition less_eq_own_order_key_ext :: "'a own_order_key_scheme \<Rightarrow> 'a own_order_key_scheme \<Rightarrow> bool" where
  "less_eq_own_order_key_ext a b \<longleftrightarrow>
     (ok_ticker a, ok_send_bitcoins a, own_order_key.more a)
       \<le> (ok_ticker b, ok_send_bitcoins b, own_order_key.more b)"

definition less_own_order_key_ext :: "'a own_order_key_scheme \<Rightarrow> 'a own_order_key_scheme \<Rightarrow> bool" where
  "less_own_order_key_ext a b \<longleftrightarrow>
     (ok_ticker a, ok_send_bitcoins a, own_order_key.more a)
       < (ok_ticker b, ok_send_bitcoins b, own_order_key.more b)"

instance
  by standard
    (auto simp: less_eq_own_order_key_ext_def less_own_order_key_ext_def intro: own_order_key.equality)

end

datatype dealer_to =
    To_Price dealer_ticker "price_pair option"
  | To_LimitBalance dealer_ticker bool f64
  | To_ResetPrices

record swap_succeed =
  sw_txid :: txid
  sw_ticker :: dealer_ticker
  sw_bitcoin_amount :: amount
  sw_send_bitcoins :: bool

datatype dealer_from = From_Swap swap_succeed | From_WalletBalanceUpdated

datatype dealer_msg = M_To dealer_to | M_Timer | M_Connected | M_Disconnected
  | M_Notification api_notification | M_ReloadUtxo

text \<open>What the worker sends: messages to itself and messages to its owner.\<close>

datatype dealer_out = Out_Self dealer_msg | Out_From dealer_from

type_synonym dealer_event = "dealer_out event"
type_synonym dealer_world = "dealer_out world"

datatype dealer_error = Ticker_not_found string | Condition_failed | Index_price_unknown
  | Price_below_ask | Price_above_bid | Bitcoin_amount_too_big | Rpc_error string | Pset_error

definition EXTRA_ASSET_UTXO_FRACTION :: f64 where "EXTRA_ASSET_UTXO_FRACTION = f64_of_rat (3 / 100)"
definition RECREATE_ORDER_AMOUNT_FRACTION :: f64 where "RECREATE_ORDER_AMOUNT_FRACTION = f64_of_rat (5 / 100)"
definition DEALER_MIN_BITCOIN_AMOUNT :: f64 where "DEALER_MIN_BITCOIN_AMOUNT = f64_of_rat (1 / 10000)"
definition PRICE_EXPIRATON_TIME :: int where "PRICE_EXPIRATON_TIME = from_secs 60"
definition PRICE_EDIT_MIN_DELAY :: int where "PRICE_EDIT_MIN_DELAY = from_secs 5"

section \<open>Tickers and prices\<close>

definition ticker_from_string :: "string \<Rightarrow> (dealer_error, dealer_ticker) outcome" where
  "ticker_from_string asset =
     (if asset \<in> set [TICKER_LBTC, TICKER_USDT, TICKER_EURX, TICKER_LCAD, TICKER_AUDL]
      then Ok (DealerTicker asset) else Err (Ticker_not_found asset))"

definition ticker_from_asset :: "asset \<Rightarrow> (dealer_error, dealer_ticker) outcome" where
  "ticker_from_asset a = ticker_from_string (as_ticker a)"

definition apply_interest :: "price_pair \<Rightarrow> f64 \<Rightarrow> ('e, price_pair) outcome" where
  "apply_interest price interest =
     and_then (assert_that (f64_le (Fin 1) interest \<and> f64_le interest (f64_of_rat (11 / 10)))) (\<lambda>_.
     Ok \<lparr> pp_bid = f64_div (pp_bid price) interest, pp_ask = f64_mul (pp_ask price) interest \<rparr>)"

definition get_price_pair :: "price_timestamp \<Rightarrow> price_pair" where
  "get_price_pair price = pts_price price"

definition balance_of :: "('k, f64) btree_map \<Rightarrow> 'k \<Rightarrow> f64" where
  "balance_of m k = unwrap_or (btree_get m k) (Fin 0)"

definition get_bitcoin_amount :: "all_balances \<Rightarrow> dealer_ticker \<Rightarrow> f64 \<Rightarrow> bool \<Rightarrow> bool \<Rightarrow> amount" where
  "get_bitcoin_amount all ticker price send_bitcoins max_amount =
     (let wallet_asset = balance_of (ab_wallet all) ticker;
          wallet_bitcoin = f64_div (balance_of (ab_wallet all) DEALER_LBTC) (f64_add (Fin 1) SERVER_FEE_RATE);
          bitcoin_max_send = unwrap_or (btree_get (ab_max_send all) DEALER_LBTC) f64_MAX;
          bitcoin_max_recv = unwrap_or (btree_get (ab_max_recv all) DEALER_LBTC) f64_MAX;
          asset_max_send = unwrap_or (btree_get (ab_max_send all) ticker) f64_MAX;
          asset_max_recv = unwrap_or (btree_get (ab_max_recv all) ticker) f64_MAX;
          extra_asset_downscale =
            (if max_amount then Fin 1 else f64_div (Fin 1) (f64_add (Fin 1) EXTRA_ASSET_UTXO_FRACTION))
      in if send_bitcoins then
           from_bitcoin (f64_min
             (f64_min wallet_bitcoin (f64_div (f64_mul asset_max_recv extra_asset_downscale) price))
             bitcoin_max_send)
         else
           from_bitcoin (f64_min
             (f64_min (f64_div (f64_mul wallet_asset extra_asset_downscale) price) bitcoin_max_recv)
             (f64_div (f64_mul asset_max_send extra_asset_downscale) price)))"

text \<open>The bitcoins a trade really moves: the server fee is paid on top or taken off.\<close>

definition actual_bitcoins :: "details \<Rightarrow> amount" where
  "actual_bitcoins details =
     (if d_send_bitcoins details then i64_add (d_bitcoin_amount details) (d_server_fee details)
      else i64_sub (d_bitcoin_amount details) (d_server_fee details))"

section \<open>Taking an order\<close>

definition take_order ::
    "params \<Rightarrow> asset list \<Rightarrow> details \<Rightarrow> all_balances \<Rightarrow> index_prices \<Rightarrow> f64 \<Rightarrow> (dealer_error, unit) outcome" where
  "take_order params assets details all index_prices interest =
     and_then (ensure (d_bitcoin_amount details \<ge> p_bitcoin_amount_min params) Condition_failed) (\<lambda>_.
     and_then (ensure (d_bitcoin_amount details \<le> p_bitcoin_amount_max params) Condition_failed) (\<lambda>_.
     and_then (unwrap (List.find (\<lambda>a. as_asset_id a = d_asset details) assets)) (\<lambda>asset.
     and_then (ticker_from_asset asset) (\<lambda>ticker.
     and_then (asset_float_amount (d_asset_amount details) (as_precision asset)) (\<lambda>asset_amount.
     let actual_price = f64_div asset_amount (to_bitcoin (actual_bitcoins details)) in
     and_then (assert_that (f64_gt actual_price (Fin 0))) (\<lambda>_.
     and_then (ok_or (btree_get index_prices ticker) Index_price_unknown) (\<lambda>index_price.
     and_then (apply_interest (get_price_pair index_price) interest) (\<lambda>dealer_price.
     let bitcoin_amount_max = get_bitcoin_amount all ticker actual_price (d_send_bitcoins details) True in
     and_then
       (if d_send_bitcoins details
        then ensure (f64_ge actual_price (pp_ask dealer_price)) Price_below_ask
        else ensure (f64_le actual_price (pp_bid dealer_price)) Price_above_bid) (\<lambda>_.
     ensure (d_bitcoin_amount details \<le> bitcoin_amount_max) Bitcoin_amount_too_big)))))))))"

section \<open>Offering inputs\<close>

definition spendable :: "asset_id \<Rightarrow> utxo \<Rightarrow> bool" where
  "spendable asset u \<longleftrightarrow> ui_asset (u_item u) = asset \<and> ui_amountblinder (u_item u) \<noteq> None
     \<and> ui_assetblinder (u_item u) \<noteq> None"

text \<open>The loop that turns the selected amounts into inputs.\<close>

fun take_inputs :: "asset_id \<Rightarrow> utxo list \<Rightarrow> i64 list \<Rightarrow> pset_input list \<Rightarrow> (dealer_error, pset_input list) outcome" where
  "take_inputs send_asset asset_utxos [] inputs = Ok inputs"
| "take_inputs send_asset asset_utxos (amount # selected) inputs =
     and_then (unwrap (position (\<lambda>v. u_amount v = amount) asset_utxos)) (\<lambda>index.
     and_then (swap_remove asset_utxos index) (\<lambda>(utxo, asset_utxos).
     and_then (unwrap (ui_assetblinder (u_item utxo))) (\<lambda>asset_bf.
     and_then (unwrap (ui_amountblinder (u_item utxo))) (\<lambda>value_bf.
     take_inputs send_asset asset_utxos selected (inputs @
       [\<lparr> pi_txid = ui_txid (u_item utxo), pi_vout = ui_vout (u_item utxo), pi_asset = send_asset,
          pi_asset_bf = asset_bf, pi_value = wrap_u64 amount, pi_value_bf = value_bf,
          pi_redeem_script = ui_redeem_script (u_item utxo) \<rparr>])))))"

definition select_inputs ::
    "asset_id \<Rightarrow> i64 \<Rightarrow> utxos \<Rightarrow> bool \<Rightarrow> (dealer_error, pset_input list) outcome" where
  "select_inputs send_asset send_amount utxos extra =
     (let asset_utxos = filter (spendable send_asset) (btree_values utxos);
          utxos_amounts = map u_amount asset_utxos;
          total = i64_sum utxos_amounts in
      and_then (ensure (send_amount \<le> total) Condition_failed) (\<lambda>_.
      let utxo_amount =
            (if extra then min total (f64_as_i64 (f64_round (f64_mul (int_as_f64 send_amount)
                (f64_add (Fin 1) EXTRA_ASSET_UTXO_FRACTION))))
             else send_amount) in
      and_then (select_utxo utxos_amounts utxo_amount) (\<lambda>selected.
      take_inputs send_asset asset_utxos selected [])))"

definition new_address :: "'m world \<Rightarrow> ('m event, 'e, address) io" where
  "new_address w = io_expect (make_rpc_call w (w_dec_address w) get_new_address)"

definition get_pset ::
    "dealer_world \<Rightarrow> order_id \<Rightarrow> details \<Rightarrow> utxos \<Rightarrow> params \<Rightarrow> bool
      \<Rightarrow> (dealer_event, dealer_error, pset_maker_request) io" where
  "get_pset w order_id details utxos params extra_asset_utxo =
     io_bind (io_lift (unwrap (w_asset_id w (ed_policy_asset (env_data_of (p_env params)))))) (\<lambda>bitcoin_asset.
     let (send_asset, send_amount) =
           (if d_send_bitcoins details
            then (bitcoin_asset, i64_add (d_bitcoin_amount details) (d_server_fee details))
            else (d_asset details, d_asset_amount details)) in
     io_bind (io_lift (select_inputs send_asset send_amount utxos
       (extra_asset_utxo \<and> \<not> d_send_bitcoins details))) (\<lambda>inputs.
     io_bind (new_address w) (\<lambda>recv_addr.
     io_bind (new_address w) (\<lambda>change_addr.
     io_return \<lparr> pm_order_id = order_id, pm_price = d_price details, pm_private = False,
       pm_ttl_seconds = None, pm_inputs = inputs, pm_recv_addr = recv_addr,
       pm_change_addr = change_addr, pm_signed_half = None \<rparr>))))"

section \<open>Signing\<close>

text \<open>One input of the transaction: signed when it spends an own output, left alone otherwise.\<close>

definition sign_input ::
    "'m world \<Rightarrow> utxos \<Rightarrow> transaction \<Rightarrow> nat \<times> tx_out \<Rightarrow> pset \<Rightarrow> ('m event, dealer_error, pset) io" where
  "sign_input w utxos tx = (\<lambda>(index, tx_out) pset.
     case btree_get utxos tx_out of
       None \<Rightarrow> io_return pset
     | Some utxo \<Rightarrow>
         io_bind (io_try (make_rpc_call w (w_dec_text w) (dumpprivkey (ui_address (u_item utxo))))) (\<lambda>r.
         case r of Inl e \<Rightarrow> io_lift (Err (Rpc_error e)) | Inr priv_key \<Rightarrow>
         io_bind (io_lift (ok_or (w_privkey w priv_key) Pset_error)) (\<lambda>private_key.
         io_bind (io_lift (unwrap (ui_amountcommitment (u_item utxo)))) (\<lambda>commitment.
         io_bind (io_lift (unwrap (w_hex_decode w commitment))) (\<lambda>commitment.
         io_bind (io_lift (unwrap (w_value_decode w commitment))) (\<lambda>value_commitment.
         let input_sign = internal_sign_elements w tx index private_key value_commitment SIGHASH_ALL;
             public_key = w_public_key w private_key in
         if index < length (ps_inputs pset) then
           io_return (pset\<lparr> ps_inputs := (ps_inputs pset)[index := (ps_inputs pset ! index)
             \<lparr> psi_final_script_sig := map_option (w_push_slice w) (ui_redeem_script (u_item utxo)),
               psi_final_script_witness := Some [input_sign, public_key] \<rparr>] \<rparr>)
         else io_lift Panic))))))"

definition sign_pset ::
    "'m world \<Rightarrow> sign_notification \<Rightarrow> utxos \<Rightarrow> ('m event, dealer_error, sign_request) io" where
  "sign_pset w data utxos =
     io_bind (io_lift (ok_or (w_base64_decode w (sn_pset data)) Pset_error)) (\<lambda>bytes.
     io_bind (io_lift (ok_or (w_pset_decode w bytes) Pset_error)) (\<lambda>pset.
     io_bind (io_lift (ok_or (w_extract_tx w pset) Pset_error)) (\<lambda>tx.
     io_bind (io_fold (sign_input w utxos tx) (enumerate 0 (tx_input tx)) pset) (\<lambda>pset.
     io_return \<lparr> sr_order_id = sn_order_id data,
       sr_signed_pset = w_base64_encode w (w_pset_encode w pset),
       sr_side = d_side (sn_details data) \<rparr>))))"

section \<open>Maintaining an own order\<close>

definition get_price :: "price_pair \<Rightarrow> bool \<Rightarrow> f64 \<Rightarrow> f64" where
  "get_price price send_bitcoins interest =
     (if send_bitcoins then f64_mul (pp_ask price) interest else f64_div (pp_bid price) interest)"

definition amount_change :: "amount \<Rightarrow> amount \<Rightarrow> f64" where
  "amount_change new old = f64_div (f64_sub (to_bitcoin new) (to_bitcoin old)) (to_bitcoin old)"

fun as_cancel :: "api_response \<Rightarrow> unit option" where
  "as_cancel Resp_Cancel = Some ()" | "as_cancel _ = None"

fun as_submit :: "api_response \<Rightarrow> (order_id \<times> details) option" where
  "as_submit (Resp_Submit order_id details) = Some (order_id, details)" | "as_submit _ = None"

fun as_pset_maker :: "api_response \<Rightarrow> unit option" where
  "as_pset_maker Resp_PsetMaker = Some ()" | "as_pset_maker _ = None"

fun as_edit :: "api_response \<Rightarrow> unit option" where
  "as_edit Resp_Edit = Some ()" | "as_edit _ = None"

text \<open>A failed cancellation is only logged.\<close>

definition cancel_order :: "dealer_world \<Rightarrow> own_order \<Rightarrow> (dealer_event, dealer_error, unit) io" where
  "cancel_order w data =
     io_bind (io_try (send_request_as w as_cancel (Req_Cancel (oo_order_id data)))) (\<lambda>_. io_return ())"

definition interest_submit_of :: "params \<Rightarrow> dealer_ticker \<Rightarrow> ('e, f64) outcome" where
  "interest_submit_of params ticker =
     (if ticker = DEALER_USDT then Ok (p_interest_submit_usdt params)
      else if ticker = DEALER_EURX then Ok (p_interest_submit_eurx params)
      else Panic)"

text \<open>The branch that submits a new order and offers inputs for it.\<close>

definition submit_order ::
    "dealer_world \<Rightarrow> bool \<Rightarrow> asset \<Rightarrow> f64 \<Rightarrow> amount \<Rightarrow> utxos \<Rightarrow> params
      \<Rightarrow> (dealer_event, dealer_error, own_order option) io" where
  "submit_order w send_bitcoins asset price new_bitcoin_amount_normal utxos params =
     io_bind (io_try (send_request_as w as_submit (Req_Submit
       \<lparr> po_asset = as_asset_id asset,
         po_bitcoin_amount = Some (if send_bitcoins then f64_neg (to_bitcoin new_bitcoin_amount_normal)
           else to_bitcoin new_bitcoin_amount_normal),
         po_asset_amount = None, po_price = Some price, po_index_price = None,
         po_force_private = None, po_disable_price_edit = None \<rparr>))) (\<lambda>submit_result.
     case submit_result of Inl e \<Rightarrow> io_return None | Inr (order_id, details) \<Rightarrow>
     io_bind (io_try (get_pset w order_id details utxos params True)) (\<lambda>pset.
     case pset of Inl e \<Rightarrow> io_return None | Inr pset_maker_req \<Rightarrow>
     io_bind (io_try (send_request_as w as_pset_maker (Req_PsetMaker pset_maker_req))) (\<lambda>addr_result.
     case addr_result of
       Inl e \<Rightarrow> io_return None
     | Inr _ \<Rightarrow> io_return (Some \<lparr> oo_order_id = order_id,
         oo_bitcoin_amount = new_bitcoin_amount_normal, oo_price = price \<rparr>))))"

text \<open>The branch that moves the price of an existing order; when the edit is refused the order is
  cancelled and forgotten.\<close>

definition edit_order ::
    "dealer_world \<Rightarrow> own_order \<Rightarrow> f64 \<Rightarrow> (dealer_event, dealer_error, own_order option) io" where
  "edit_order w data price =
     (if \<not> f64_eq (oo_price data) price then
        io_bind (io_try (send_request_as w as_edit (Req_Edit (oo_order_id data) (Some price) None))) (\<lambda>edit_result.
        case edit_result of
          Inr _ \<Rightarrow> io_return (Some (data\<lparr> oo_price := price \<rparr>))
        | Inl e \<Rightarrow>
            io_bind (io_try (send_request_as w as_cancel (Req_Cancel (oo_order_id data)))) (\<lambda>_.
            io_return None))
      else io_return (Some data))"

definition new_amounts ::
    "params \<Rightarrow> all_balances \<Rightarrow> dealer_ticker \<Rightarrow> bool \<Rightarrow> f64 option \<Rightarrow> amount \<times> amount" where
  "new_amounts params all ticker send_bitcoins price =
     (case price of
        None \<Rightarrow> (0, 0)
      | Some price \<Rightarrow>
          (min (get_bitcoin_amount all ticker price send_bitcoins False) (p_bitcoin_amount_submit params),
           get_bitcoin_amount all ticker price send_bitcoins True))"

definition submit_price ::
    "params \<Rightarrow> f64 \<Rightarrow> bool \<Rightarrow> price_timestamp option \<Rightarrow> f64 option" where
  "submit_price params interest_submit send_bitcoins price =
     (let expected_server_fee = from_bitcoin (f64_max
            (f64_mul SERVER_FEE_RATE (to_bitcoin (p_bitcoin_amount_submit params)))
            (to_bitcoin MIN_SERVER_FEE));
          interest_take_ajusted = f64_mul interest_submit (f64_add (Fin 1)
            (f64_div (to_bitcoin expected_server_fee) (to_bitcoin (p_bitcoin_amount_submit params))))
      in map_option (\<lambda>p. get_price (pts_price p) send_bitcoins interest_take_ajusted) price)"

definition update_price ::
    "dealer_world \<Rightarrow> own_order option \<Rightarrow> bool \<Rightarrow> asset list \<Rightarrow> dealer_ticker \<Rightarrow> index_prices \<Rightarrow> all_balances
      \<Rightarrow> utxos \<Rightarrow> params \<Rightarrow> (dealer_event, dealer_error, own_order option) io" where
  "update_price w own send_bitcoins assets ticker index_prices all utxos params =
     io_bind (io_lift (unwrap (List.find (\<lambda>a. as_ticker a = dt_name ticker) assets))) (\<lambda>asset.
     io_bind (io_lift (interest_submit_of params ticker)) (\<lambda>interest_submit.
     let price = submit_price params interest_submit send_bitcoins (btree_get index_prices ticker);
         (new_bitcoin_amount_normal, new_bitcoin_amount_max) = new_amounts params all ticker send_bitcoins price in
     case (own, price) of
       (None, Some price) \<Rightarrow>
         (if new_bitcoin_amount_normal \<ge> p_bitcoin_amount_min params
          then submit_order w send_bitcoins asset price new_bitcoin_amount_normal utxos params
          else io_return None)
     | (Some data, Some price) \<Rightarrow>
         (if new_bitcoin_amount_max = 0 \<or> oo_bitcoin_amount data > new_bitcoin_amount_max
             \<or> f64_ge (amount_change new_bitcoin_amount_normal (oo_bitcoin_amount data)) RECREATE_ORDER_AMOUNT_FRACTION
          then io_bind (cancel_order w data) (\<lambda>_. io_return own)
          else edit_order w data price)
     | (Some data, None) \<Rightarrow> io_bind (cancel_order w data) (\<lambda>_. io_return own)
     | (None, None) \<Rightarrow> io_return None))"

section \<open>The worker\<close>

record dealer_state =
  ds_assets :: "asset list"
  ds_server_connected :: bool
  ds_utxos :: utxos
  ds_orders :: "(order_id, order_created) btree_map"
  ds_taken_orders :: "order_id list"
  ds_all_balances :: all_balances
  ds_index_prices :: index_prices
  ds_pending_signs :: "(order_id, details) btree_map"
  ds_own_orders :: "(own_order_key, own_order option) btree_map"
  ds_wallet_balance :: "wallet_info option"
  ds_last_price_edit :: int

text \<open>The asset ids the worker parses once at its start.\<close>

record dealer_consts =
  dc_asset_usdt :: asset_id
  dc_asset_eurx :: asset_id

definition own_order_keys :: "dealer_ticker list \<Rightarrow> own_order_key list" where
  "own_order_keys tickers = concat (map (\<lambda>t. [\<lparr> ok_ticker = t, ok_send_bitcoins = False \<rparr>,
     \<lparr> ok_ticker = t, ok_send_bitcoins = True \<rparr>]) tickers)"

definition check_params :: "params \<Rightarrow> ('e, unit) outcome" where
  "check_params params = assert_that
     (f64_ge (to_bitcoin (p_bitcoin_amount_min params)) DEALER_MIN_BITCOIN_AMOUNT
      \<and> p_bitcoin_amount_submit params \<ge> p_bitcoin_amount_min params
      \<and> p_bitcoin_amount_submit params \<le> p_bitcoin_amount_max params
      \<and> f64_gt (p_interest_sign_usdt params) (Fin 1)
      \<and> f64_gt (p_interest_submit_usdt params) (p_interest_sign_usdt params)
      \<and> f64_lt (p_interest_submit_usdt params) (f64_of_rat (11 / 10))
      \<and> f64_gt (p_interest_sign_eurx params) (Fin 1)
      \<and> f64_gt (p_interest_submit_eurx params) (p_interest_sign_eurx params)
      \<and> f64_lt (p_interest_submit_eurx params) (f64_of_rat (11 / 10)))"

definition worker_init :: "dealer_world \<Rightarrow> params \<Rightarrow> (dealer_event, dealer_error, dealer_consts \<times> dealer_state) io" where
  "worker_init w params =
     io_bind (io_lift (check_params params)) (\<lambda>_.
     let net = ed_network (env_data_of (p_env params)) in
     io_bind (io_lift (unwrap (w_asset_id w (usdt_asset_id net)))) (\<lambda>asset_usdt.
     io_bind (io_lift (unwrap (w_asset_id w (eurx_asset_id net)))) (\<lambda>asset_eurx.
     io_bind (instant_now w) (\<lambda>now.
     io_return (\<lparr> dc_asset_usdt = asset_usdt, dc_asset_eurx = asset_eurx \<rparr>,
       \<lparr> ds_assets = [], ds_server_connected = False, ds_utxos = [], ds_orders = [],
         ds_taken_orders = [], ds_all_balances = \<lparr> ab_wallet = [], ab_max_send = [], ab_max_recv = [] \<rparr>,
         ds_index_prices = [], ds_pending_signs = [],
         ds_own_orders = fold (\<lambda>k. btree_insert k None) (own_order_keys (p_tickers params)) [],
         ds_wallet_balance = None, ds_last_price_edit = now \<rparr>)))))"

definition self_send :: "dealer_msg \<Rightarrow> (dealer_event, 'e, unit) io" where
  "self_send m = io_emit (Ev_Out (Out_Self m))"

fun as_assets :: "api_response \<Rightarrow> asset list option" where
  "as_assets (Resp_Assets assets) = Some assets" | "as_assets _ = None"

fun as_login :: "api_response \<Rightarrow> order_created list option" where
  "as_login (Resp_Login _ orders) = Some orders" | "as_login _ = None"

fun as_subscribe :: "api_response \<Rightarrow> order_created list option" where
  "as_subscribe (Resp_Subscribe _ orders) = Some orders" | "as_subscribe _ = None"

fun as_sign :: "api_response \<Rightarrow> unit option" where
  "as_sign Resp_Sign = Some ()" | "as_sign _ = None"

fun as_pset_taker :: "api_response \<Rightarrow> unit option" where
  "as_pset_taker Resp_PsetTaker = Some ()" | "as_pset_taker _ = None"

definition insert_orders ::
    "order_created list \<Rightarrow> (order_id, order_created) btree_map \<Rightarrow> (order_id, order_created) btree_map" where
  "insert_orders new orders = fold (\<lambda>order. btree_insert (oc_order_id order) order) new orders"

definition on_connected :: "dealer_world \<Rightarrow> params \<Rightarrow> dealer_state \<Rightarrow> (dealer_event, dealer_error, dealer_state) io" where
  "on_connected w params s =
     io_bind (io_expect (send_request_as w as_assets (Req_Assets False))) (\<lambda>assets.
     io_bind (io_expect (send_request_as w as_login (Req_Login None))) (\<lambda>login_orders.
     io_bind (io_lift (assert_that (login_orders = []))) (\<lambda>_.
     io_bind (io_fold (\<lambda>asset orders.
         io_bind (io_expect (send_request_as w as_subscribe (Req_Subscribe (Some (as_asset_id asset))))) (\<lambda>new.
         io_return (insert_orders new orders)))
       (filter (\<lambda>asset. \<exists>t\<in>set (p_tickers params). dt_name t = as_ticker asset) assets) (ds_orders s)) (\<lambda>orders.
     io_bind (self_send M_ReloadUtxo) (\<lambda>_.
     io_return (s\<lparr> ds_assets := assets, ds_orders := orders, ds_server_connected := True \<rparr>))))))"

definition on_disconnected :: "dealer_state \<Rightarrow> dealer_state" where
  "on_disconnected s = s\<lparr> ds_server_connected := False, ds_orders := [], ds_taken_orders := [],
     ds_own_orders := btree_map_values (\<lambda>_ _. None) (ds_own_orders s) \<rparr>"

definition interest_of_asset :: "dealer_consts \<Rightarrow> asset_id \<Rightarrow> f64 \<Rightarrow> f64 \<Rightarrow> ('e, f64) outcome" where
  "interest_of_asset c asset usdt eurx =
     (if asset = dc_asset_usdt c then Ok usdt else if asset = dc_asset_eurx c then Ok eurx else Panic)"

definition on_sign ::
    "dealer_world \<Rightarrow> params \<Rightarrow> dealer_consts \<Rightarrow> sign_notification \<Rightarrow> dealer_state
      \<Rightarrow> (dealer_event, dealer_error, dealer_state) io" where
  "on_sign w params c order s =
     io_bind (io_lift (interest_of_asset c (d_asset (sn_details order))
       (p_interest_sign_usdt params) (p_interest_sign_eurx params))) (\<lambda>interest_sign.
     io_bind (io_try (io_lift (take_order params (ds_assets s) (sn_details order) (ds_all_balances s)
       (ds_index_prices s) interest_sign))) (\<lambda>result.
     case result of
       Inl e \<Rightarrow> io_return s
     | Inr _ \<Rightarrow>
         io_bind (io_expect (sign_pset w order (ds_utxos s))) (\<lambda>signed.
         io_bind (io_expect (send_request_as w as_sign (Req_Sign signed))) (\<lambda>_.
         io_return (s\<lparr> ds_pending_signs :=
           btree_insert (sn_order_id order) (sn_details order) (ds_pending_signs s) \<rparr>)))))"

definition forget_own :: "order_id \<Rightarrow> own_order option \<Rightarrow> own_order option" where
  "forget_own order_id own = (if map_option oo_order_id own = Some order_id then None else own)"

definition on_complete ::
    "complete_notification \<Rightarrow> dealer_state \<Rightarrow> (dealer_event, dealer_error, dealer_state) io" where
  "on_complete msg s =
     (let details = btree_get (ds_pending_signs s) (cn_order_id msg);
          s' = s\<lparr> ds_own_orders := btree_map_values (\<lambda>_. forget_own (cn_order_id msg)) (ds_own_orders s),
                 ds_pending_signs := btree_remove (cn_order_id msg) (ds_pending_signs s) \<rparr>
      in case cn_txid msg of
        None \<Rightarrow> io_return s'
      | Some txid \<Rightarrow>
          io_bind (io_lift (unwrap details)) (\<lambda>details.
          io_bind (io_lift (unwrap (List.find (\<lambda>a. as_asset_id a = d_asset details) (ds_assets s)))) (\<lambda>asset.
          io_bind (io_expect (io_lift (ticker_from_asset asset))) (\<lambda>ticker.
          io_bind (io_emit (Ev_Out (Out_From (From_Swap \<lparr> sw_txid = txid, sw_ticker = ticker,
            sw_bitcoin_amount = actual_bitcoins details, sw_send_bitcoins = d_send_bitcoins details \<rparr>)))) (\<lambda>_.
          io_return s')))))"

definition on_notification ::
    "dealer_world \<Rightarrow> params \<Rightarrow> dealer_consts \<Rightarrow> api_notification \<Rightarrow> dealer_state
      \<Rightarrow> (dealer_event, dealer_error, dealer_state) io" where
  "on_notification w params c msg s = (case msg of
      Ntf_OrderCreated order \<Rightarrow>
        (if oc_own order = None then
           io_bind (self_send M_Timer) (\<lambda>_.
           io_return (s\<lparr> ds_orders := btree_insert (oc_order_id order) order (ds_orders s) \<rparr>))
         else io_return s)
    | Ntf_OrderRemoved order_id \<Rightarrow> io_return (s\<lparr> ds_orders := btree_remove order_id (ds_orders s) \<rparr>)
    | Ntf_Sign order \<Rightarrow> on_sign w params c order s
    | Ntf_Complete msg \<Rightarrow> on_complete msg s
    | _ \<Rightarrow> io_return s)"

text \<open>Reloading the wallet: balances per ticker, and the table of unspent outputs.\<close>

definition asset_amounts_of ::
    "'m world \<Rightarrow> unspent_item list \<Rightarrow> (dealer_error, (asset_id, f64) btree_map) outcome" where
  "asset_amounts_of w items = fold_ok (\<lambda>item m.
     and_then (from_rpc w (ui_amount item)) (\<lambda>amount.
     Ok (btree_insert (ui_asset item) (f64_add (balance_of m (ui_asset item)) (to_bitcoin amount)) m)))
     items []"

definition ticker_balances :: "asset list \<Rightarrow> (asset_id, f64) btree_map \<Rightarrow> wallet_balances" where
  "ticker_balances assets amounts = fold (\<lambda>asset m.
     (case btree_get amounts (as_asset_id asset) of
        None \<Rightarrow> m
      | Some balance \<Rightarrow> (case ticker_from_asset asset of Ok ticker \<Rightarrow> btree_insert ticker balance m | _ \<Rightarrow> m)))
     assets []"

definition add_utxo :: "'m world \<Rightarrow> unspent_item \<Rightarrow> utxos \<Rightarrow> (dealer_error, utxos) outcome" where
  "add_utxo w item utxos = (case btree_get utxos (ui_tx_out item) of
      Some _ \<Rightarrow> Ok utxos
    | None \<Rightarrow> and_then (from_rpc w (ui_amount item)) (\<lambda>amount.
        Ok (btree_insert (ui_tx_out item) \<lparr> u_item = item, u_amount = amount \<rparr> utxos)))"

definition add_utxos :: "'m world \<Rightarrow> unspent_item list \<Rightarrow> utxos \<Rightarrow> (dealer_error, utxos) outcome" where
  "add_utxos w items utxos = fold_ok (add_utxo w) items utxos"

definition remove_spent :: "tx_out list \<Rightarrow> unspent_item list \<Rightarrow> utxos \<Rightarrow> utxos" where
  "remove_spent old_keys items utxos =
     fold btree_remove (filter (\<lambda>k. k \<notin> ui_tx_out ` set items) old_keys) utxos"

text \<open>The derived \<open>PartialEq\<close> of maps to floats: equal keys, and values equal as floats.\<close>

definition balances_eq :: "('k, f64) btree_map \<Rightarrow> ('k, f64) btree_map \<Rightarrow> bool" where
  "balances_eq a b \<longleftrightarrow> list_all2 (\<lambda>(k, v) (k', v'). k = k' \<and> f64_eq v v') a b"

definition reload_utxos :: "'m world \<Rightarrow> unspent_item list \<Rightarrow> utxos \<Rightarrow> (dealer_error, utxos) outcome" where
  "reload_utxos w items utxos =
     and_then (add_utxos w items utxos) (\<lambda>utxos'. Ok (remove_spent (btree_keys utxos) items utxos'))"

definition on_reload_utxo :: "dealer_world \<Rightarrow> dealer_state \<Rightarrow> (dealer_event, dealer_error, dealer_state) io" where
  "on_reload_utxo w s =
     io_bind (io_expect (make_rpc_call w (w_dec_unspent w) (listunspent 0))) (\<lambda>unspent_with_zc.
     io_bind (io_lift (asset_amounts_of w unspent_with_zc)) (\<lambda>asset_amounts.
     let wallet_balances_new = ticker_balances (ds_assets s) asset_amounts;
         all = ds_all_balances s;
         all = (if \<not> balances_eq (ab_wallet all) wallet_balances_new
                then all\<lparr> ab_wallet := wallet_balances_new \<rparr> else all) in
     io_bind (io_lift (reload_utxos w unspent_with_zc (ds_utxos s))) (\<lambda>utxos.
     io_return (s\<lparr> ds_all_balances := all, ds_utxos := utxos \<rparr>))))"

definition on_to :: "dealer_world \<Rightarrow> dealer_to \<Rightarrow> dealer_state \<Rightarrow> (dealer_event, dealer_error, dealer_state) io" where
  "on_to w to s = (case to of
      To_Price ticker price \<Rightarrow>
        io_bind (case price of
            Some v \<Rightarrow> io_bind (instant_now w) (\<lambda>now. io_return
              (btree_insert ticker \<lparr> pts_price = v, pts_timestamp = now \<rparr> (ds_index_prices s)))
          | None \<Rightarrow> io_return (btree_remove ticker (ds_index_prices s))) (\<lambda>index_prices.
        io_bind (self_send M_Timer) (\<lambda>_.
        io_return (s\<lparr> ds_index_prices := index_prices \<rparr>)))
    | To_LimitBalance ticker recv_limit balance \<Rightarrow>
        (let all = ds_all_balances s;
             all = (if recv_limit then all\<lparr> ab_max_recv := btree_insert ticker balance (ab_max_recv all) \<rparr>
                    else all\<lparr> ab_max_send := btree_insert ticker balance (ab_max_send all) \<rparr>) in
         io_bind (self_send M_Timer) (\<lambda>_. io_return (s\<lparr> ds_all_balances := all \<rparr>)))
    | To_ResetPrices \<Rightarrow> io_return (s\<lparr> ds_index_prices := [] \<rparr>))"

section \<open>The timer\<close>

definition update_own_orders :: "dealer_world \<Rightarrow> params \<Rightarrow> dealer_state \<Rightarrow> (dealer_event, dealer_error, dealer_state) io" where
  "update_own_orders w params s =
     io_bind (io_mapM (\<lambda>(key, own).
       io_bind (update_price w own (ok_send_bitcoins key) (ds_assets s) (ok_ticker key) (ds_index_prices s)
         (ds_all_balances s) (ds_utxos s) params) (\<lambda>own'. io_return (key, own'))) (ds_own_orders s)) (\<lambda>own_orders.
     io_return (s\<lparr> ds_own_orders := own_orders \<rparr>))"

definition taker_request :: "pset_maker_request \<Rightarrow> pset_taker_request" where
  "taker_request r = \<lparr> pt_order_id = pm_order_id r, pt_price = pm_price r, pt_inputs = pm_inputs r,
     pt_recv_addr = pm_recv_addr r, pt_change_addr = pm_change_addr r \<rparr>"

definition try_take ::
    "dealer_world \<Rightarrow> params \<Rightarrow> dealer_consts \<Rightarrow> dealer_state \<Rightarrow> order_created \<Rightarrow> order_id list
      \<Rightarrow> (dealer_event, dealer_error, order_id list) io" where
  "try_take w params c s order taken_orders =
     (if oc_order_id order \<in> set taken_orders then io_return taken_orders
      else
        io_bind (io_lift (interest_of_asset c (d_asset (oc_details order))
          (p_interest_submit_usdt params) (p_interest_submit_eurx params))) (\<lambda>interest_submit.
        io_bind (io_try (io_lift (take_order params (ds_assets s) (oc_details order) (ds_all_balances s)
          (ds_index_prices s) interest_submit))) (\<lambda>result.
        case result of
          Inl e \<Rightarrow> io_return taken_orders
        | Inr _ \<Rightarrow>
            io_bind (io_try (get_pset w (oc_order_id order) (oc_details order) (ds_utxos s) params False)) (\<lambda>result.
            case result of
              Inl e \<Rightarrow> io_return taken_orders
            | Inr pset_req \<Rightarrow>
                io_bind (io_try (send_request_as w as_pset_taker (Req_PsetTaker (taker_request pset_req)))) (\<lambda>addr_result.
                case addr_result of
                  Inl e \<Rightarrow> io_return taken_orders
                | Inr _ \<Rightarrow> io_return (List.insert (oc_order_id order) taken_orders))))))"

definition take_orders :: "dealer_world \<Rightarrow> params \<Rightarrow> dealer_consts \<Rightarrow> dealer_state \<Rightarrow> (dealer_event, dealer_error, dealer_state) io" where
  "take_orders w params c s =
     io_bind (io_fold (try_take w params c s) (btree_values (ds_orders s)) (ds_taken_orders s)) (\<lambda>taken_orders.
     io_return (s\<lparr> ds_taken_orders := taken_orders \<rparr>))"

definition wallet_info_eq :: "wallet_info \<Rightarrow> wallet_info \<Rightarrow> bool" where
  "wallet_info_eq a b \<longleftrightarrow> balances_eq (wi_balance a) (wi_balance b)
     \<and> balances_eq (wi_unconfirmed_balance a) (wi_unconfirmed_balance b)
     \<and> balances_eq (wi_immature_balance a) (wi_immature_balance b)
     \<and> wi_private_keys_enabled a = wi_private_keys_enabled b"

definition check_wallet :: "dealer_world \<Rightarrow> dealer_state \<Rightarrow> (dealer_event, dealer_error, dealer_state) io" where
  "check_wallet w s =
     io_bind (io_try (make_rpc_call w (w_dec_wallet_info w) get_wallet_info)) (\<lambda>wallet_result.
     case wallet_result of
       Inl e \<Rightarrow> io_return s
     | Inr v \<Rightarrow>
         (if (case ds_wallet_balance s of None \<Rightarrow> True | Some old \<Rightarrow> \<not> wallet_info_eq old v) then
            io_bind (self_send M_ReloadUtxo) (\<lambda>_.
            io_bind (io_emit (Ev_Out (Out_From From_WalletBalanceUpdated))) (\<lambda>_.
            io_return (s\<lparr> ds_wallet_balance := Some v \<rparr>)))
          else io_return s))"

definition expire_prices :: "int \<Rightarrow> index_prices \<Rightarrow> index_prices" where
  "expire_prices now index_prices =
     fold btree_remove
       (map fst (filter (\<lambda>(_, price). duration_since now (pts_timestamp price) > PRICE_EXPIRATON_TIME) index_prices))
       index_prices"

definition on_timer :: "dealer_world \<Rightarrow> params \<Rightarrow> dealer_consts \<Rightarrow> dealer_state \<Rightarrow> (dealer_event, dealer_error, dealer_state) io" where
  "on_timer w params c s =
     io_bind (instant_now w) (\<lambda>now.
     io_bind (if ds_server_connected s \<and> duration_since now (ds_last_price_edit s) \<ge> PRICE_EDIT_MIN_DELAY
              then io_bind (update_own_orders w params s) (\<lambda>s. io_return (s\<lparr> ds_last_price_edit := now \<rparr>))
              else io_return s) (\<lambda>s.
     io_bind (take_orders w params c s) (\<lambda>s.
     io_bind (check_wallet w s) (\<lambda>s.
     io_bind (instant_now w) (\<lambda>now.
     io_return (s\<lparr> ds_index_prices := expire_prices now (ds_index_prices s) \<rparr>))))))"

definition dealer_handle ::
    "dealer_world \<Rightarrow> params \<Rightarrow> dealer_consts \<Rightarrow> dealer_msg \<Rightarrow> dealer_state
      \<Rightarrow> (dealer_event, dealer_error, dealer_state) io" where
  "dealer_handle w params c msg s = (case msg of
      M_Connected \<Rightarrow> on_connected w params s
    | M_Disconnected \<Rightarrow> io_return (on_disconnected s)
    | M_Notification msg \<Rightarrow> on_notification w params c msg s
    | M_ReloadUtxo \<Rightarrow> on_reload_utxo w s
    | M_To to \<Rightarrow> on_to w to s
    | M_Timer \<Rightarrow> on_timer w params c s)"

end
