(* ===== verification/Dealer_Pricing.thy ===== *)
theory Dealer_Pricing
  imports Dealer Amount_Bounds F64_Order
begin

text \<open>
  The prices at which the dealer trades: an order is only taken, and an own order is only quoted, at
  the index price or better for the dealer, whatever the floating point rounding does.
\<close>

section \<open>Taking orders\<close>

lemma apply_interest_safe:
  assumes "apply_interest p interest = Ok p'" "good_price (pp_bid p)" "good_price (pp_ask p)"
  shows "f64_le (pp_ask p) (pp_ask p')" "f64_le (pp_bid p') (pp_bid p)"
proof -
  from assms(1) have i: "f64_le (Fin 1) interest" "f64_le interest (f64_of_rat (11 / 10))"
    and p': "p' = \<lparr> pp_bid = f64_div (pp_bid p) interest, pp_ask = f64_mul (pp_ask p) interest \<rparr>"
    by (auto simp: apply_interest_def)
  obtain q where "interest = Fin q" "1 \<le> q" using f64_le_one_cases [OF i] .
  then show "f64_le (pp_ask p) (pp_ask p')" "f64_le (pp_bid p') (pp_bid p)"
    using assms(2,3) p' good_price_Fin f64_mul_ge f64_div_le by force+
qed

lemma take_order_Ok:
  assumes "take_order params assets d all index_prices interest = Ok u"
  obtains asset ticker asset_amount index_price dealer_price where
    "p_bitcoin_amount_min params \<le> d_bitcoin_amount d" "d_bitcoin_amount d \<le> p_bitcoin_amount_max params"
    "List.find (\<lambda>a. as_asset_id a = d_asset d) assets = Some asset"
    "ticker_from_asset asset = Ok ticker"
    "asset_float_amount (d_asset_amount d) (as_precision asset) = (Ok asset_amount :: (dealer_error, f64) outcome)"
    "btree_get index_prices ticker = Some index_price"
    "apply_interest (pts_price index_price) interest = (Ok dealer_price :: (dealer_error, price_pair) outcome)"
    "f64_gt (f64_div asset_amount (to_bitcoin (actual_bitcoins d))) (Fin 0)"
    "if d_send_bitcoins d
     then f64_le (pp_ask dealer_price) (f64_div asset_amount (to_bitcoin (actual_bitcoins d)))
     else f64_le (f64_div asset_amount (to_bitcoin (actual_bitcoins d))) (pp_bid dealer_price)"
    "d_bitcoin_amount d \<le> get_bitcoin_amount all ticker
       (f64_div asset_amount (to_bitcoin (actual_bitcoins d))) (d_send_bitcoins d) True"
  using assms
  by (auto simp: take_order_def Let_def get_price_pair_def f64_ge_def split: if_splits)

section \<open>Signs of amounts\<close>

lemma from_bitcoin_nn: "f64_nn x \<Longrightarrow> 0 \<le> from_bitcoin x"
  unfolding from_bitcoin_def COIN_val by (intro as_i64_round_nn f64_mul_nn) simp_all

lemma to_bitcoin_nn: "0 \<le> a \<Longrightarrow> f64_nn (to_bitcoin a)"
  unfolding to_bitcoin_def COIN_val int_as_f64_def [of a] by (intro f64_div_nn f64_of_rat_nn) simp_all

lemma to_bitcoin_pos:
  assumes "0 < a" "a \<le> 2 ^ 53"
  shows "\<exists>q>0. to_bitcoin a = Fin q"
proof -
  have a: "(1 :: rat) \<le> of_int a" using assms(1) by simp
  have "f64_val (to_bitcoin a) = rnd (of_int a / 10 ^ 8)" "is_fin (to_bitcoin a)"
    using to_bitcoin_fin [of a] assms by simp_all
  moreover have "rnd (1 / 2 ^ 27) \<le> rnd (of_int a / 10 ^ 8)"
    using a by (intro rnd_mono) (simp add: divide_simps)
  moreover have "0 < rnd (1 / 2 ^ 27)" by code_simp
  ultimately show ?thesis by (cases "to_bitcoin a") auto
qed

lemma to_bitcoin_nonpos:
  assumes "a \<le> 0"
  shows "\<not> f64_gt (to_bitcoin a) (Fin 0)"
proof -
  have "f64_le (int_as_f64 a) (Fin 0)" unfolding int_as_f64_def by (rule f64_of_rat_nonpos) (use assms in simp)
  then have "int_as_f64 a = NInf \<or> int_as_f64 a = NZero \<or> (\<exists>q\<le>0. int_as_f64 a = Fin q)"
    by (cases "int_as_f64 a") (auto simp: f64_le_def)
  moreover have "\<not> f64_lt (Fin 0) (f64_of_rat (q / 100000000))" if "q \<le> 0" for q
  proof -
    have "f64_le (f64_of_rat (q / 100000000)) (Fin 0)" using that by (intro f64_of_rat_nonpos) simp
    then show ?thesis by (cases "f64_of_rat (q / 100000000)") (auto simp: f64_le_def)
  qed
  ultimately show ?thesis
    by (auto simp: to_bitcoin_def COIN_val f64_div_def f64_gt_def f64_inf_def f64_zero_def split: if_splits)
qed

section \<open>Quotes\<close>

lemma interest_ge1:
  assumes "f64_gt sign (Fin 1)" "f64_gt submit sign"
  shows "f64_ge1 submit"
  using assms by (cases sign; cases submit) (auto simp: f64_gt_def f64_ge1_def)

lemma min_amount_pos:
  assumes "f64_ge (to_bitcoin a) DEALER_MIN_BITCOIN_AMOUNT"
  shows "0 < a"
proof (rule ccontr)
  assume "\<not> 0 < a"
  then have np: "\<not> f64_gt (to_bitcoin a) (Fin 0)" by (intro to_bitcoin_nonpos) simp
  have "0 < f64_val DEALER_MIN_BITCOIN_AMOUNT" by code_simp
  moreover have "\<exists>q>0. x = Fin q" if "0 < f64_val x" for x using that by (cases x) auto
  ultimately obtain q where q: "0 < q" "DEALER_MIN_BITCOIN_AMOUNT = Fin q" by blast
  have "f64_ge (to_bitcoin a) (Fin q)" using assms unfolding q(2) .
  with q(1) np show False by (cases "to_bitcoin a") (auto simp: f64_ge_def f64_le_def f64_gt_def)
qed

lemma submit_price_safe:
  assumes "check_params params = (Ok () :: (dealer_error, unit) outcome)"
    and "interest_submit_of params ticker = (Ok interest :: (dealer_error, f64) outcome)"
    and "p_bitcoin_amount_submit params \<le> 2 ^ 53"
    and "submit_price params interest send_bitcoins (Some index) = Some price"
    and "good_price (pp_bid (pts_price index))" "good_price (pp_ask (pts_price index))"
  shows "if send_bitcoins then f64_le (pp_ask (pts_price index)) price else f64_le price (pp_bid (pts_price index))"
proof -
  let ?submit = "p_bitcoin_amount_submit params"
  let ?fee = "from_bitcoin (f64_max (f64_mul SERVER_FEE_RATE (to_bitcoin ?submit)) (to_bitcoin MIN_SERVER_FEE))"
  from assms(1) have c: "f64_ge (to_bitcoin (p_bitcoin_amount_min params)) DEALER_MIN_BITCOIN_AMOUNT"
      "p_bitcoin_amount_min params \<le> ?submit" "f64_ge1 (p_interest_submit_usdt params)" "f64_ge1 (p_interest_submit_eurx params)"
    by (auto simp: check_params_def intro: interest_ge1)
  have "0 < ?submit" using min_amount_pos [OF c(1)] c(2) by simp
  then obtain q where q: "to_bitcoin ?submit = Fin q" "0 < q" using to_bitcoin_pos assms(3) by blast
  have i: "f64_ge1 interest" using assms(2) c(3,4) by (auto simp: interest_submit_of_def split: if_splits)
  have "f64_nn SERVER_FEE_RATE" unfolding SERVER_FEE_RATE_def by (rule f64_of_rat_nn) simp
  then have "f64_nn (f64_max (f64_mul SERVER_FEE_RATE (to_bitcoin ?submit)) (to_bitcoin MIN_SERVER_FEE))"
    using q by (intro f64_max_nn to_bitcoin_nn) (simp_all add: f64_mul_nn MIN_SERVER_FEE_def)
  then have "f64_nn (to_bitcoin ?fee)" by (intro to_bitcoin_nn from_bitcoin_nn)
  then have "f64_ge1 (f64_mul interest (f64_add (Fin 1) (f64_div (to_bitcoin ?fee) (to_bitcoin ?submit))))"
    using i q by (intro f64_mul_ge1 f64_add_one_ge1) (simp_all add: f64_div_nn)
  then show ?thesis
    using assms(4-6) by (auto simp: submit_price_def get_price_def f64_mul_ge_any f64_div_le_any)
qed

section \<open>Properties\<close>

text \<open>
  (C8) Trades are never worse than the index.  When the dealer accepts an order, the amount is within
  the configured limits and within what its balances allow; the asset is a known one with a known
  index price; and the price of the trade, all bitcoins it moves and the server fee included, is
  positive and at least the index ask price when the dealer sells bitcoins, at most the index bid
  price when it buys them.
\<close>
theorem take_order_safe:
  assumes "take_order params assets d all index_prices interest = Ok ()"
    and "\<forall>p\<in>set (btree_values index_prices). good_price (pp_bid (pts_price p)) \<and> good_price (pp_ask (pts_price p))"
  shows "p_bitcoin_amount_min params \<le> d_bitcoin_amount d \<and> d_bitcoin_amount d \<le> p_bitcoin_amount_max params
    \<and> (\<exists>asset ticker asset_amount index.
       List.find (\<lambda>a. as_asset_id a = d_asset d) assets = Some asset \<and> ticker_from_asset asset = Ok ticker
       \<and> asset_float_amount (d_asset_amount d) (as_precision asset) = (Ok asset_amount :: (dealer_error, f64) outcome)
       \<and> btree_get index_prices ticker = Some index
       \<and> (let price = f64_div asset_amount (to_bitcoin (actual_bitcoins d)) in
            f64_lt (Fin 0) price
            \<and> (if d_send_bitcoins d then f64_le (pp_ask (pts_price index)) price
               else f64_le price (pp_bid (pts_price index)))
            \<and> d_bitcoin_amount d \<le> get_bitcoin_amount all ticker price (d_send_bitcoins d) True))"
  using assms(1)
proof (rule take_order_Ok)
  fix asset ticker asset_amount index dealer_price
  let ?price = "f64_div asset_amount (to_bitcoin (actual_bitcoins d))"
  assume *: "btree_get index_prices ticker = Some index"
    "apply_interest (pts_price index) interest = (Ok dealer_price :: (dealer_error, price_pair) outcome)"
    "if d_send_bitcoins d then f64_le (pp_ask dealer_price) ?price else f64_le ?price (pp_bid dealer_price)"
  have "good_price (pp_bid (pts_price index))" "good_price (pp_ask (pts_price index))"
    using assms(2) map_of_SomeD [OF *(1)] by force+
  from apply_interest_safe [OF *(2) this] *(3)
  have "if d_send_bitcoins d then f64_le (pp_ask (pts_price index)) ?price else f64_le ?price (pp_bid (pts_price index))"
    by (auto intro: f64_le_trans split: if_splits)
  moreover assume "p_bitcoin_amount_min params \<le> d_bitcoin_amount d" "d_bitcoin_amount d \<le> p_bitcoin_amount_max params"
    "List.find (\<lambda>a. as_asset_id a = d_asset d) assets = Some asset" "ticker_from_asset asset = Ok ticker"
    "asset_float_amount (d_asset_amount d) (as_precision asset) = (Ok asset_amount :: (dealer_error, f64) outcome)"
    "f64_gt ?price (Fin 0)" "d_bitcoin_amount d \<le> get_bitcoin_amount all ticker ?price (d_send_bitcoins d) True"
  ultimately show ?thesis using *(1) by (auto simp: Let_def f64_gt_def)
qed

definition ex_asset :: asset where
  "ex_asset = \<lparr> as_asset_id = ''usdt'', as_name = ''Tether'', as_ticker = ''USDt'', as_icon = None,
     as_precision = 8, as_icon_url = None, as_instant_swaps = None, as_domain = None,
     as_domain_agent = None, as_always_show = None, as_issuance_prevout = None,
     as_issuer_pubkey = None, as_contract = None \<rparr>"

definition ex_details :: details where
  "ex_details = \<lparr> d_asset = ''usdt'', d_bitcoin_amount = 12490000, d_asset_amount = 51200000000,
     d_price = Fin 4096, d_server_fee = 10000, d_side = Taker, d_send_bitcoins = True,
     d_order_type = OT_Bitcoin, d_market = Stablecoin, d_two_step = None \<rparr>"

definition ex_params :: params where
  "ex_params = \<lparr> p_env = Env_Local, p_server_host = ''localhost'', p_server_port = 4001,
     p_server_use_tls = False, p_rpc = \<lparr> rs_host = ''localhost'', rs_port = 7041, rs_login = ''user'', rs_password = ''pass'' \<rparr>,
     p_interest_submit_usdt = Fin (17 / 16), p_interest_sign_usdt = Fin (33 / 32),
     p_interest_submit_eurx = Fin (17 / 16), p_interest_sign_eurx = Fin (33 / 32),
     p_tickers = [DealerTicker ''EURx'', DealerTicker ''USDt''], p_bitcoin_amount_submit = 25000000,
     p_bitcoin_amount_min = 1000000, p_bitcoin_amount_max = 100000000 \<rparr>"

definition ex_prices :: index_prices where
  "ex_prices = [(DealerTicker ''USDt'', \<lparr> pts_price = \<lparr> pp_bid = Fin 3700, pp_ask = Fin 3750 \<rparr>, pts_timestamp = 0 \<rparr>)]"

definition ex_balances :: all_balances where
  "ex_balances = \<lparr> ab_wallet = [(DealerTicker ''L-BTC'', Fin 2), (DealerTicker ''USDt'', Fin 10000)], ab_max_send = [(DealerTicker ''L-BTC'', Fin 5)], ab_max_recv = [(DealerTicker ''USDt'', Fin 50000)] \<rparr>"

lemma ex_prices_good:
  "\<forall>p\<in>set (btree_values ex_prices). good_price (pp_bid (pts_price p)) \<and> good_price (pp_ask (pts_price p))"
  using rnd_of_int [of 3700] rnd_of_int [of 3750] f64_huge_gt [of 12]
  by (simp add: ex_prices_def good_price_def)

lemma ex_take_order:
  "take_order ex_params [ex_asset] ex_details ex_balances ex_prices (Fin (33 / 32)) = Ok ()"
proof -
  have "ticker_from_asset ex_asset = Ok (DealerTicker ''USDt'')" by code_simp
  moreover have "asset_float_amount (d_asset_amount ex_details) (as_precision ex_asset) = (Ok (Fin 512) :: (dealer_error, f64) outcome)"
    by code_simp
  moreover have "f64_div (Fin 512) (to_bitcoin (actual_bitcoins ex_details)) = Fin 4096" by code_simp
  moreover have "f64_le (Fin (33 / 32)) (f64_of_rat (11 / 10))" "f64_le (f64_mul (Fin 3750) (Fin (33 / 32))) (Fin 4096)"
    by code_simp+
  moreover have "12490000 \<le> get_bitcoin_amount ex_balances (DealerTicker ''USDt'') (Fin 4096) True True" by code_simp
  moreover have "f64_gt (Fin 4096) (Fin 0)" "f64_le (Fin 1) (Fin (33 / 32))" by (simp_all add: f64_gt_def f64_le_def)
  moreover have "List.find (\<lambda>a. as_asset_id a = d_asset ex_details) [ex_asset] = Some ex_asset"
    "btree_get ex_prices (DealerTicker ''USDt'') = Some \<lparr> pts_price = \<lparr> pp_bid = Fin 3700, pp_ask = Fin 3750 \<rparr>, pts_timestamp = 0 \<rparr>"
    "p_bitcoin_amount_min ex_params = 1000000" "p_bitcoin_amount_max ex_params = 100000000"
    "d_bitcoin_amount ex_details = 12490000" "d_send_bitcoins ex_details"
    by (simp_all add: ex_asset_def ex_details_def ex_prices_def ex_params_def)
  ultimately show ?thesis
    by (simp add: take_order_def Let_def apply_interest_def get_price_pair_def f64_ge_def)
qed

theorem take_order_safe_witness:
  "\<exists>asset_amount. asset_float_amount 51200000000 8 = (Ok asset_amount :: (dealer_error, f64) outcome)
     \<and> f64_le (Fin 3750) (f64_div asset_amount (to_bitcoin (actual_bitcoins ex_details)))"
  using take_order_safe [OF ex_take_order ex_prices_good]
  by (auto simp: Let_def ex_details_def ex_prices_def ex_asset_def split: if_splits)

text \<open>
  (C35) Quotes never cross the index.  With parameters the worker accepts at its start, the price of
  an own order is at least the index ask price when the order sells bitcoins and at most the index
  bid price when it buys them: the interest and the share of the expected server fee only move the
  quote away from the index.
\<close>
theorem quote_safe:
  assumes "check_params params = (Ok () :: (dealer_error, unit) outcome)"
    and "interest_submit_of params ticker = (Ok interest :: (dealer_error, f64) outcome)"
    and "p_bitcoin_amount_submit params \<le> 2 ^ 53"
    and "good_price (pp_bid (pts_price index))" "good_price (pp_ask (pts_price index))"
  shows "\<exists>price. submit_price params interest send_bitcoins (Some index) = Some price
    \<and> (if send_bitcoins then f64_le (pp_ask (pts_price index)) price else f64_le price (pp_bid (pts_price index)))"
proof -
  obtain price where "submit_price params interest send_bitcoins (Some index) = Some price"
    by (simp add: submit_price_def Let_def)
  with submit_price_safe [OF assms(1-3) this assms(4,5)] show ?thesis by blast
qed

theorem quote_safe_witness:
  "\<exists>price. submit_price ex_params (Fin (17 / 16)) True (Some (snd (hd ex_prices))) = Some price
     \<and> f64_le (Fin 3750) price"
proof -
  have "check_params ex_params = (Ok () :: (dealer_error, unit) outcome)" by code_simp
  moreover have "interest_submit_of ex_params DEALER_USDT = (Ok (Fin (17 / 16)) :: (dealer_error, f64) outcome)"
    by (simp add: interest_submit_of_def ex_params_def)
  moreover have "p_bitcoin_amount_submit ex_params \<le> 2 ^ 53" by (simp add: ex_params_def)
  moreover have "good_price (pp_bid (pts_price (snd (hd ex_prices))))" "good_price (pp_ask (pts_price (snd (hd ex_prices))))"
    using ex_prices_good by (simp_all add: ex_prices_def)
  ultimately show ?thesis
    using quote_safe [of ex_params DEALER_USDT "Fin (17 / 16)" "snd (hd ex_prices)" True]
    by (simp add: ex_prices_def)
qed

end
