(* ===== verification/Dealer_Inputs.thy ===== *)
theory Dealer_Inputs
  imports Dealer_Pricing
begin

text \<open>
  The wallet side of the dealer: the table of unspent outputs and how it is reloaded, the inputs
  offered for a trade, and the signing of the own inputs of a transaction.
\<close>

section \<open>The table of unspent outputs\<close>

definition utxos_ok :: "utxos \<Rightarrow> bool" where
  "utxos_ok utxos \<longleftrightarrow> btree_inv utxos \<and> (\<forall>(k, u)\<in>set utxos. ui_tx_out (u_item u) = k)"

lemma utxos_ok_add: "utxos_ok m \<Longrightarrow> add_utxo w item m = Ok m' \<Longrightarrow> utxos_ok m'"
  using set_btree_insert [of "ui_tx_out item" _ m]
  by (fastforce simp: add_utxo_def utxos_ok_def split: option.splits)

lemma utxos_ok_add_utxos: "utxos_ok m \<Longrightarrow> add_utxos w items m = Ok m' \<Longrightarrow> utxos_ok m'"
  unfolding add_utxos_def by (erule fold_ok_inv [where P = utxos_ok]) (auto intro: utxos_ok_add)

lemma utxos_ok_remove: "utxos_ok m \<Longrightarrow> utxos_ok (btree_remove k m)"
  using set_btree_remove [of k m] by (auto simp: utxos_ok_def)

lemma fold_remove_inv: "(\<And>k m. P m \<Longrightarrow> P (btree_remove k m)) \<Longrightarrow> P m \<Longrightarrow> P (fold btree_remove ks m)"
  by (induction ks arbitrary: m) simp_all

lemma utxos_ok_remove_spent: "utxos_ok m \<Longrightarrow> utxos_ok (remove_spent ks items m)"
  unfolding remove_spent_def by (rule fold_remove_inv) (auto intro: utxos_ok_remove)

lemma add_utxos_get:
  "add_utxos w items m = Ok m' \<Longrightarrow>
     (btree_get m' k \<noteq> None \<longleftrightarrow> btree_get m k \<noteq> None \<or> k \<in> ui_tx_out ` set items) \<and>
     (btree_get m k \<noteq> None \<longrightarrow> btree_get m' k = btree_get m k)"
proof (induction items arbitrary: m)
  case (Cons item items)
  then obtain m1 where m1: "add_utxo w item m = Ok m1" "add_utxos w items m1 = Ok m'"
    by (auto simp: add_utxos_def)
  have "btree_get m1 k \<noteq> None \<longleftrightarrow> btree_get m k \<noteq> None \<or> k = ui_tx_out item"
    "btree_get m k \<noteq> None \<longrightarrow> btree_get m1 k = btree_get m k"
    using m1(1) by (auto simp: add_utxo_def split: option.splits if_splits)
  with Cons.IH [OF m1(2)] show ?case by auto
qed (simp add: add_utxos_def)

lemma get_remove_spent:
  "btree_inv m \<Longrightarrow> btree_get (remove_spent ks items m) k =
     (if k \<in> set ks \<and> k \<notin> ui_tx_out ` set items then None else btree_get m k)"
  unfolding remove_spent_def by (subst btree.get_fold_remove) auto

lemma reload_utxos_Ok:
  assumes "utxos_ok m" "reload_utxos w items m = Ok m'"
  shows "utxos_ok m'" and "btree_get m' k \<noteq> None \<longleftrightarrow> k \<in> ui_tx_out ` set items"
    and "btree_get m k \<noteq> None \<and> k \<in> ui_tx_out ` set items \<longrightarrow> btree_get m' k = btree_get m k"
proof -
  from assms(2) obtain m1 where m1: "add_utxos w items m = Ok m1" and m': "m' = remove_spent (map fst m) items m1"
    by (auto simp: reload_utxos_def)
  have inv: "utxos_ok m1" using utxos_ok_add_utxos [OF assms(1) m1] .
  then show "utxos_ok m'" by (simp add: m' utxos_ok_remove_spent)
  have g: "btree_get m' k = (if k \<in> set (map fst m) \<and> k \<notin> ui_tx_out ` set items then None else btree_get m1 k)"
    unfolding m' by (rule get_remove_spent) (use inv in \<open>simp add: utxos_ok_def\<close>)
  have "k \<in> set (map fst m) \<longleftrightarrow> btree_get m k \<noteq> None" by (simp add: map_of_eq_None_iff)
  with g add_utxos_get [OF m1, of k] show "btree_get m' k \<noteq> None \<longleftrightarrow> k \<in> ui_tx_out ` set items"
    "btree_get m k \<noteq> None \<and> k \<in> ui_tx_out ` set items \<longrightarrow> btree_get m' k = btree_get m k" by auto
qed

section \<open>Offered inputs\<close>

lemma extra_scale_ge1: "\<exists>q. f64_add (Fin 1) EXTRA_ASSET_UTXO_FRACTION = Fin q \<and> 1 \<le> q"
proof -
  have "\<bar>rnd (3 / 100)\<bar> < f64_huge" by (rule rnd_below_huge [of _ 0]) simp_all
  then have e: "EXTRA_ASSET_UTXO_FRACTION = Fin (rnd (3 / 100))"
    unfolding EXTRA_ASSET_UTXO_FRACTION_def by (rule f64_of_rat_Fin) simp
  have r: "0 \<le> rnd (3 / 100)" "rnd (3 / 100) \<le> 1"
    using rnd_mono [of "3 / 100" 1] rnd_of_int [of 1] by simp_all
  then have "\<bar>rnd (1 + rnd (3 / 100))\<bar> < f64_huge" by (intro rnd_below_huge [of _ 1]) simp_all
  then have "f64_of_rat (1 + rnd (3 / 100)) = Fin (rnd (1 + rnd (3 / 100)))"
    using r by (intro f64_of_rat_Fin) simp_all
  moreover have "1 \<le> rnd (1 + rnd (3 / 100))"
    using rnd_mono [of 1 "1 + rnd (3 / 100)"] rnd_of_int [of 1] r by simp
  ultimately show ?thesis using r by (auto simp: e f64_add_def)
qed

lemma extra_amount_ge:
  assumes "0 < s" "s \<le> 2 ^ 53"
  shows "s \<le> f64_as_i64 (f64_round (f64_mul (int_as_f64 s) (f64_add (Fin 1) EXTRA_ASSET_UTXO_FRACTION)))"
proof -
  obtain q where q: "f64_add (Fin 1) EXTRA_ASSET_UTXO_FRACTION = Fin q" "1 \<le> q"
    using extra_scale_ge1 by blast
  have "int_as_f64 s = Fin (of_int s)" using assms by (intro int_as_f64_exact) simp
  moreover have "(of_int s :: rat) \<le> of_int s * q" using assms(1) q(2) by simp
  ultimately show ?thesis
    using assms q as_i64_round_ge [of s "of_int s * q"] by (simp add: f64_mul_nonneg)
qed

definition input_of :: "asset_id \<Rightarrow> utxo \<Rightarrow> pset_input" where
  "input_of send_asset u = \<lparr> pi_txid = ui_txid (u_item u), pi_vout = ui_vout (u_item u),
     pi_asset = send_asset, pi_asset_bf = the (ui_assetblinder (u_item u)),
     pi_value = wrap_u64 (u_amount u), pi_value_bf = the (ui_amountblinder (u_item u)),
     pi_redeem_script = ui_redeem_script (u_item u) \<rparr>"

lemma take_inputs_Ok:
  assumes "mset selected \<subseteq># mset (map u_amount us)" "\<forall>u\<in>set us. spendable a u"
  shows "\<exists>sel. take_inputs a us selected acc = (Ok (acc @ map (input_of a) sel) :: (dealer_error, pset_input list) outcome)
    \<and> map u_amount sel = selected \<and> mset sel \<subseteq># mset us"
  using assms
proof (induction selected arbitrary: us acc)
  case Nil
  then show ?case by simp
next
  case (Cons v selected)
  have "v \<in># mset (map u_amount us)" using Cons.prems(1) by (metis mset.simps(2) mset_subset_eq_insertD)
  then obtain u where "u \<in> set us" "u_amount u = v" by auto
  then obtain i where i: "position (\<lambda>u. u_amount u = v) us = Some i"
    using position_ex [of u us "\<lambda>u. u_amount u = v"] by auto
  then have il: "i < length us" "u_amount (us ! i) = v" using position_SomeD [OF i] by auto
  have sp: "spendable a (us ! i)" using Cons.prems(2) il(1) by simp
  then have bf: "ui_assetblinder (u_item (us ! i)) \<noteq> None" "ui_amountblinder (u_item (us ! i)) \<noteq> None"
    by (auto simp: spendable_def)
  define rest where "rest = butlast (us[i := last us])"
  have sr: "swap_remove us i = (Ok (us ! i, rest) :: ('e, utxo \<times> utxo list) outcome)"
    using il by (simp add: swap_remove_def rest_def)
  have m: "mset us = add_mset (us ! i) (mset rest)" by (rule swap_remove_Ok(3) [OF sr])
  have "mset selected \<subseteq># mset (map u_amount rest)" using Cons.prems(1) by (simp add: m il(2))
  moreover have "\<forall>u\<in>set rest. spendable a u"
  proof
    fix u assume "u \<in> set rest"
    then have "u \<in># mset us" by (simp add: m)
    then show "spendable a u" using Cons.prems(2) by simp
  qed
  ultimately obtain sel where "take_inputs a rest selected (acc @ [input_of a (us ! i)]) =
      (Ok ((acc @ [input_of a (us ! i)]) @ map (input_of a) sel) :: (dealer_error, pset_input list) outcome)"
    "map u_amount sel = selected" "mset sel \<subseteq># mset rest" using Cons.IH by blast
  then show ?case using i il m bf
    by (intro exI [of _ "us ! i # sel"]) (auto simp: sr input_of_def)
qed

definition spendables :: "asset_id \<Rightarrow> utxos \<Rightarrow> utxo list" where
  "spendables a utxos = filter (spendable a) (btree_values utxos)"

lemma select_inputs_Ok:
  assumes pos: "\<forall>u\<in>set (spendables a utxos). 0 < u_amount u"
    and max: "sum_list (map u_amount (spendables a utxos)) \<le> i64_max"
    and am: "0 < amount" "amount \<le> 2 ^ 53"
  shows "if amount \<le> sum_list (map u_amount (spendables a utxos))
    then \<exists>sel. select_inputs a amount utxos extra = Ok (map (input_of a) sel) \<and>
      mset sel \<subseteq># mset (spendables a utxos) \<and> amount \<le> sum_list (map u_amount sel) \<and>
      (\<not> extra \<longrightarrow> (\<forall>u\<in>set sel. sum_list (map u_amount sel) - u_amount u < amount))
    else select_inputs a amount utxos extra = Err Condition_failed"
proof -
  let ?us = "spendables a utxos" and ?vs = "map u_amount (spendables a utxos)"
  let ?more = "f64_as_i64 (f64_round (f64_mul (int_as_f64 amount) (f64_add (Fin 1) EXTRA_ASSET_UTXO_FRACTION)))"
  define want where "want = (if extra then min (sum_list ?vs) ?more else amount)"
  have tot: "i64_sum ?vs = sum_list ?vs" using pos max by (intro i64_sum_exact) (auto simp: less_imp_le)
  show ?thesis
  proof (cases "amount \<le> sum_list ?vs")
    case True
    have want: "amount \<le> want" "want \<le> sum_list ?vs" "0 < want"
      using True am extra_amount_ge [OF am] by (auto simp: want_def)
    obtain r where r: "select_utxo ?vs want = (Ok r :: (dealer_error, i64 list) outcome)" "mset r \<subseteq># mset ?vs"
        "want \<le> sum_list r" "\<forall>x\<in>set r. sum_list r - x < want"
      using select_utxo_Ok [of ?vs want] pos max want by auto
    have "\<forall>u\<in>set ?us. spendable a u" by (simp add: spendables_def)
    then obtain sel where sel: "take_inputs a ?us r [] = (Ok (map (input_of a) sel) :: (dealer_error, pset_input list) outcome)"
        "map u_amount sel = r" "mset sel \<subseteq># mset ?us"
      using take_inputs_Ok [OF r(2), of a "[]"] by auto
    have "\<not> extra \<longrightarrow> (\<forall>u\<in>set sel. sum_list (map u_amount sel) - u_amount u < amount)"
      using r(4) unfolding sel(2) [symmetric] by (auto simp: want_def)
    moreover have "select_inputs a amount utxos extra = Ok (map (input_of a) sel)"
      using True r(1) sel(1) tot unfolding want_def
      by (cases extra) (simp_all add: select_inputs_def Let_def spendables_def [symmetric])
    ultimately show ?thesis using sel(2,3) r(3) want(1) True by (auto intro!: exI [of _ sel])
  next
    case False
    then show ?thesis using tot
      by (simp add: select_inputs_def Let_def spendables_def [symmetric])
  qed
qed

lemma get_pset_Ok:
  assumes "get_pset w i d utxos params extra h = (Ok req, h')"
  obtains b where "w_asset_id w (ed_policy_asset (env_data_of (p_env params))) = Some b"
    "select_inputs (if d_send_bitcoins d then b else d_asset d)
       (if d_send_bitcoins d then i64_add (d_bitcoin_amount d) (d_server_fee d) else d_asset_amount d)
       utxos (extra \<and> \<not> d_send_bitcoins d) = Ok (pm_inputs req)"
    "pm_order_id req = i" "pm_price req = d_price d"
  using assms
  by (cases "d_send_bitcoins d") (auto simp: get_pset_def io_bind_Ok io_run_simps)

lemma distinct_sub_mset:
  assumes "mset xs \<subseteq># mset ys" "distinct (map f ys)"
  shows "distinct (map f xs)"
proof -
  obtain M where "mset ys = mset xs + M" using assms(1) by (metis subset_mset.le_iff_add)
  moreover obtain zs where "mset zs = M" using ex_mset by blast
  ultimately have "mset (map f ys) = mset (map f (xs @ zs))" by simp
  then have "distinct (map f (xs @ zs))" using assms(2) mset_eq_imp_distinct_iff by blast
  then show ?thesis by simp
qed

lemma utxos_ok_outpoints:
  assumes "utxos_ok utxos"
  shows "distinct (map (\<lambda>u. ui_tx_out (u_item u)) (btree_values utxos))"
proof -
  have e: "map (\<lambda>u. ui_tx_out (u_item u)) (btree_values utxos) = btree_keys utxos"
    using assms by (auto simp: utxos_ok_def)
  have "distinct (btree_keys utxos)" using assms by (simp add: utxos_ok_def btree_inv_distinct)
  then show ?thesis unfolding e .
qed

lemma select_inputs_covers:
  assumes s: "select_inputs a amount utxos extra = Ok inputs" and ok: "utxos_ok utxos"
    and pos: "\<forall>u\<in>set (btree_values utxos). 0 < u_amount u"
    and max: "sum_list (map u_amount (btree_values utxos)) \<le> i64_max"
    and am: "0 < amount" "amount \<le> 2 ^ 53"
  shows "amount \<le> sum_list (map pi_value inputs)"
    and "distinct (map (\<lambda>i. (pi_txid i, pi_vout i)) inputs)"
    and "\<forall>i\<in>set inputs. pi_asset i = a \<and> (\<exists>u\<in>set (btree_values utxos).
         spendable a u \<and> ui_txid (u_item u) = pi_txid i \<and> ui_vout (u_item u) = pi_vout i \<and> pi_value i = u_amount u)"
proof -
  have sub: "mset (spendables a utxos) \<subseteq># mset (btree_values utxos)" by (simp add: spendables_def multiset_filter_subset)
  have bnd: "\<forall>u\<in>set (spendables a utxos). 0 < u_amount u" using pos by (auto simp: spendables_def)
  have "sum_list (map u_amount (spendables a utxos)) \<le> sum_list (map u_amount (btree_values utxos))"
    using pos image_mset_subseteq_mono [OF sub, of u_amount]
    by (intro sub_mset_sum_le) (auto simp: multiset.map_comp)
  then obtain sel where sel: "inputs = map (input_of a) sel" "mset sel \<subseteq># mset (spendables a utxos)"
      "amount \<le> sum_list (map u_amount sel)"
    using select_inputs_Ok [OF bnd _ am, of extra] s max by (auto split: if_splits)
  have mem: "u \<in> set (btree_values utxos) \<and> spendable a u \<and> 0 < u_amount u \<and> u_amount u \<le> i64_max" if "u \<in> set sel" for u
  proof -
    have "u \<in> set (spendables a utxos)" using sel(2) that by (metis mset_subset_eqD set_mset_mset)
    then have u: "u \<in> set (btree_values utxos)" "spendable a u" by (auto simp: spendables_def)
    then have "u_amount u \<le> sum_list (map u_amount (btree_values utxos))"
      using pos by (intro member_le_sum_list) (auto simp: less_imp_le)
    with u pos max show ?thesis by force
  qed
  have v: "pi_value (input_of a u) = u_amount u" if "u \<in> set sel" for u
  proof -
    have "is_u64 (u_amount u)" using mem [OF that] by (simp add: is_u64_def u64_max_def i64_max_def)
    then show ?thesis by (simp add: input_of_def)
  qed
  then have "map pi_value inputs = map u_amount sel" unfolding sel(1) by simp
  then show "amount \<le> sum_list (map pi_value inputs)" using sel(3) by simp
  have "distinct (map (\<lambda>u. ui_tx_out (u_item u)) sel)"
    using distinct_sub_mset [OF _ utxos_ok_outpoints [OF ok]] subset_mset.order_trans [OF sel(2) sub] by blast
  then show "distinct (map (\<lambda>i. (pi_txid i, pi_vout i)) inputs)"
    by (auto simp: sel(1) input_of_def ui_tx_out_def distinct_map inj_on_def)
  show "\<forall>i\<in>set inputs. pi_asset i = a \<and> (\<exists>u\<in>set (btree_values utxos).
         spendable a u \<and> ui_txid (u_item u) = pi_txid i \<and> ui_vout (u_item u) = pi_vout i \<and> pi_value i = u_amount u)"
    using mem v by (auto simp: sel(1)) (auto simp: input_of_def)
qed

section \<open>Signing\<close>

definition signed_as :: "'m world \<Rightarrow> transaction \<Rightarrow> nat \<Rightarrow> utxo \<Rightarrow> pset_in \<Rightarrow> pset_in \<Rightarrow> bool" where
  "signed_as w tx i u old new \<longleftrightarrow> (\<exists>key value. new = old
     \<lparr> psi_final_script_sig := map_option (w_push_slice w) (ui_redeem_script (u_item u)),
       psi_final_script_witness := Some [internal_sign_elements w tx i key value SIGHASH_ALL, w_public_key w key] \<rparr>)"

lemma sign_input_Ok:
  assumes "sign_input w utxos tx (i, out) pset h = (Ok pset', h')"
  shows "case btree_get utxos out of
      None \<Rightarrow> pset' = pset
    | Some u \<Rightarrow> i < length (ps_inputs pset) \<and> (\<exists>x. signed_as w tx i u (ps_inputs pset ! i) x
        \<and> pset' = pset\<lparr> ps_inputs := (ps_inputs pset)[i := x] \<rparr>)"
  using assms
  by (auto simp: sign_input_def io_bind_Ok io_run_simps Let_def signed_as_def split_sum_ex split: option.splits if_split_asm)

lemma sign_fold_Ok:
  assumes "io_fold (sign_input w utxos tx) (enumerate n outs) pset h = (Ok pset', h')"
  shows "length (ps_inputs pset') = length (ps_inputs pset) \<and> ps_data pset' = ps_data pset \<and>
    (\<forall>i. i < n \<or> n + length outs \<le> i \<longrightarrow> ps_inputs pset' ! i = ps_inputs pset ! i) \<and>
    (\<forall>j<length outs. case btree_get utxos (outs ! j) of
        None \<Rightarrow> ps_inputs pset' ! (n + j) = ps_inputs pset ! (n + j)
      | Some u \<Rightarrow> n + j < length (ps_inputs pset)
          \<and> signed_as w tx (n + j) u (ps_inputs pset ! (n + j)) (ps_inputs pset' ! (n + j)))"
  using assms
proof (induction outs arbitrary: n pset h)
  case Nil
  then show ?case by (simp add: io_run_simps)
next
  case (Cons out outs)
  then obtain p1 h1 where p1: "sign_input w utxos tx (n, out) pset h = (Ok p1, h1)"
    "io_fold (sign_input w utxos tx) (enumerate (Suc n) outs) p1 h1 = (Ok pset', h')"
    by (auto simp: io_bind_Ok)
  have 1: "length (ps_inputs p1) = length (ps_inputs pset)" "ps_data p1 = ps_data pset"
    "\<forall>i. i \<noteq> n \<longrightarrow> ps_inputs p1 ! i = ps_inputs pset ! i"
    using sign_input_Ok [OF p1(1)] by (auto split: option.splits)
  note IH = Cons.IH [OF p1(2)]
  have n: "ps_inputs pset' ! n = ps_inputs p1 ! n" using IH by simp
  have "case btree_get utxos ((out # outs) ! j) of
        None \<Rightarrow> ps_inputs pset' ! (n + j) = ps_inputs pset ! (n + j)
      | Some u \<Rightarrow> n + j < length (ps_inputs pset)
          \<and> signed_as w tx (n + j) u (ps_inputs pset ! (n + j)) (ps_inputs pset' ! (n + j))"
    if "j < length (out # outs)" for j
  proof (cases j)
    case 0
    then show ?thesis using sign_input_Ok [OF p1(1)] n by (auto split: option.splits)
  next
    case (Suc k)
    then show ?thesis using IH that 1 by (auto split: option.splits)
  qed
  then show ?case using IH 1 by auto
qed

section \<open>Properties\<close>


text \<open>
  (C21) Offered inputs pay for the trade.  When \<open>get_pset\<close> succeeds over a wallet of positive coins,
  the inputs it offers are different outputs of the wallet, all of the asset to be sent and with
  known blinding factors, each offered at its value, and together they cover the amount to be sent
  (for bitcoins the server fee included); the request carries the order and its price.
\<close>
theorem get_pset_covers:
  assumes "get_pset w order_id d utxos params extra h = (Ok req, h')" and ok: "utxos_ok utxos"
    and pos: "\<forall>u\<in>set (btree_values utxos). 0 < u_amount u"
    and max: "sum_list (map u_amount (btree_values utxos)) \<le> i64_max"
    and "amount = (if d_send_bitcoins d then i64_add (d_bitcoin_amount d) (d_server_fee d) else d_asset_amount d)"
    and am: "0 < amount" "amount \<le> 2 ^ 53"
  shows "\<exists>b a. w_asset_id w (ed_policy_asset (env_data_of (p_env params))) = Some b
    \<and> a = (if d_send_bitcoins d then b else d_asset d)
    \<and> amount \<le> sum_list (map pi_value (pm_inputs req))
    \<and> distinct (map (\<lambda>i. (pi_txid i, pi_vout i)) (pm_inputs req))
    \<and> (\<forall>i\<in>set (pm_inputs req). pi_asset i = a \<and> (\<exists>u\<in>set (btree_values utxos).
         spendable a u \<and> ui_txid (u_item u) = pi_txid i \<and> ui_vout (u_item u) = pi_vout i \<and> pi_value i = u_amount u))
    \<and> pm_order_id req = order_id \<and> pm_price req = d_price d"
proof (rule get_pset_Ok [OF assms(1)])
  fix b
  assume b: "w_asset_id w (ed_policy_asset (env_data_of (p_env params))) = Some b"
    and s: "select_inputs (if d_send_bitcoins d then b else d_asset d)
       (if d_send_bitcoins d then i64_add (d_bitcoin_amount d) (d_server_fee d) else d_asset_amount d)
       utxos (extra \<and> \<not> d_send_bitcoins d) = Ok (pm_inputs req)"
    and "pm_order_id req = order_id" "pm_price req = d_price d"
  with select_inputs_covers [OF s [folded assms(5)] ok pos max am] show ?thesis by blast
qed

text \<open>A small wallet and an outside world that answers every request, to run the dealer on.\<close>

definition ex_item :: "string \<Rightarrow> unspent_item" where
  "ex_item txid = \<lparr> ui_txid = txid, ui_vout = 0, ui_address = ''addr'', ui_amount = ''0.1'', ui_confirmations = 2,
     ui_asset = ''lbtc'', ui_script_pub_key = ''spk'', ui_redeem_script = Some ''redeem'',
     ui_assetblinder = Some ''abf'', ui_amountblinder = Some ''vbf'', ui_assetcommitment = Some ''ac'',
     ui_amountcommitment = Some ''vc'' \<rparr>"

definition ex_out :: "string \<Rightarrow> tx_out" where "ex_out txid = \<lparr> to_txid = txid, to_vout = 0 \<rparr>"

definition ex_utxos :: utxos where
  "ex_utxos = [(ex_out ''a'', \<lparr> u_item = ex_item ''a'', u_amount = 10000000 \<rparr>),
     (ex_out ''b'', \<lparr> u_item = ex_item ''b'', u_amount = 10000000 \<rparr>)]"

definition ex_pset :: pset where
  "ex_pset = \<lparr> ps_inputs = replicate 2 \<lparr> psi_final_script_sig = None, psi_final_script_witness = None, psi_data = ''in'' \<rparr>,
     ps_data = ''rest'' \<rparr>"

fun ex_server :: "api_request \<Rightarrow> api_response" where
  "ex_server (Req_Submit _) = Resp_Submit ''o1'' ex_details"
| "ex_server (Req_PsetMaker _) = Resp_PsetMaker"
| "ex_server (Req_PsetTaker _) = Resp_PsetTaker"
| "ex_server (Req_Sign _) = Resp_Sign"
| "ex_server (Req_Assets _) = Resp_Assets [ex_asset]"
| "ex_server (Req_Login _) = Resp_Login ''session'' []"
| "ex_server (Req_Subscribe a) = Resp_Subscribe a []"
| "ex_server (Req_Edit _ _ _) = Resp_Edit"
| "ex_server _ = Resp_Cancel"

definition ex_world :: "'m world" where
  "ex_world = \<lparr> w_server = (\<lambda>r _. Reply_Ok (ex_server r)), w_http = (\<lambda>_ _. Some ''body''), w_clock = (\<lambda>h. int (length h)),
     w_dec_address = (\<lambda>_. Some \<lparr> rr_result = Some ''addr'', rr_error = None \<rparr>),
     w_dec_unspent = (\<lambda>_. Some \<lparr> rr_result = Some [ex_item ''b'', ex_item ''c''], rr_error = None \<rparr>),
     w_dec_wallet_info = (\<lambda>_. None), w_dec_text = (\<lambda>_. Some \<lparr> rr_result = Some ''key'', rr_error = None \<rparr>),
     w_asset_id = (\<lambda>_. Some ''lbtc''), w_signed_amount = (\<lambda>_. Some 10000000), w_base64_decode = Some,
     w_base64_encode = id, w_hex_decode = Some, w_pset_decode = (\<lambda>_. Some ex_pset), w_pset_encode = ps_data,
     w_extract_tx = (\<lambda>_. Some \<lparr> tx_input = [ex_out ''x'', ex_out ''a''], tx_data = ''tx'' \<rparr>),
     w_value_decode = Some, w_privkey = Some, w_public_key = id, w_p2pkh_script = id,
     w_sighash = (\<lambda>_ _ _ _ _. ''hash''), w_sign_ecdsa = (\<lambda>_ _. ''sig''), w_push_slice = id \<rparr>"

lemma ex_utxos_ok: "utxos_ok ex_utxos"
proof -
  have "btree_inv ex_utxos" by code_simp
  then show ?thesis by (simp add: utxos_ok_def ex_utxos_def ex_out_def ex_item_def ui_tx_out_def)
qed

lemma new_address_ex [simp]: "new_address (ex_world :: dealer_world) h = (Ok ''addr'', h @ [Ev_Rpc get_new_address (Some ''body'')])"
  by (simp add: new_address_def make_rpc_call_def make_rpc_call_silent_def make_rpc_def io_bind_Ok io_run_simps ex_world_def)

lemma ex_get_pset: "\<exists>req h'. get_pset ex_world ''o1'' ex_details ex_utxos ex_params True h = (Ok req, h')"
proof -
  have "is_ok (select_inputs ''lbtc'' 12500000 ex_utxos False)" by code_simp
  then obtain inputs where "select_inputs ''lbtc'' 12500000 ex_utxos False = Ok inputs" by (auto simp: is_ok_iff)
  moreover have "w_asset_id (ex_world :: dealer_world) x = Some ''lbtc''" for x by (simp add: ex_world_def)
  moreover have "i64_add 12490000 10000 = 12500000" by code_simp
  ultimately show ?thesis
    by (simp add: get_pset_def ex_details_def io_bind_run [OF new_address_ex] io_run_simps)
qed

theorem get_pset_covers_witness:
  "\<exists>req h'. get_pset ex_world ''o1'' ex_details ex_utxos ex_params True [] = (Ok req, h')
     \<and> 12500000 \<le> sum_list (map pi_value (pm_inputs req)) \<and> distinct (map (\<lambda>i. (pi_txid i, pi_vout i)) (pm_inputs req))"
proof -
  obtain req h' where r: "get_pset ex_world ''o1'' ex_details ex_utxos ex_params True [] = (Ok req, h')"
    using ex_get_pset by blast
  have "12500000 = (if d_send_bitcoins ex_details then i64_add (d_bitcoin_amount ex_details) (d_server_fee ex_details)
      else d_asset_amount ex_details)" by code_simp
  with r show ?thesis using get_pset_covers [OF r ex_utxos_ok]
    by (auto simp: ex_utxos_def i64_max_def)
qed

text \<open>
  (C25) Signing touches the own inputs only.  The transaction \<open>sign_pset\<close> sends back is the one it was
  given, with exactly the inputs that spend outputs of the wallet finalised: the redeem script of
  the output and a signature of that input with the public key to the key that made it; every other input
  and the rest of the transaction are unchanged, and the request names the order and side it was asked for.
\<close>
theorem sign_pset_signs_own_inputs:
  assumes "sign_pset w data utxos h = (Ok r, h')"
  shows "\<exists>bytes pset tx pset'. w_base64_decode w (sn_pset data) = Some bytes \<and> w_pset_decode w bytes = Some pset
    \<and> w_extract_tx w pset = Some tx
    \<and> r = \<lparr> sr_order_id = sn_order_id data, sr_signed_pset = w_base64_encode w (w_pset_encode w pset'),
        sr_side = d_side (sn_details data) \<rparr>
    \<and> ps_data pset' = ps_data pset \<and> length (ps_inputs pset') = length (ps_inputs pset)
    \<and> (\<forall>i<length (ps_inputs pset).
         case (if i < length (tx_input tx) then btree_get utxos (tx_input tx ! i) else None) of
           None \<Rightarrow> ps_inputs pset' ! i = ps_inputs pset ! i
         | Some u \<Rightarrow> signed_as w tx i u (ps_inputs pset ! i) (ps_inputs pset' ! i))"
proof -
  from assms obtain bytes pset tx pset' h1 where
    1: "w_base64_decode w (sn_pset data) = Some bytes" "w_pset_decode w bytes = Some pset"
      "w_extract_tx w pset = Some tx"
    and f: "io_fold (sign_input w utxos tx) (enumerate 0 (tx_input tx)) pset h = (Ok pset', h1)"
    and r: "r = \<lparr> sr_order_id = sn_order_id data, sr_signed_pset = w_base64_encode w (w_pset_encode w pset'),
        sr_side = d_side (sn_details data) \<rparr>"
    by (auto simp: sign_pset_def io_bind_Ok io_run_simps)
  have "case (if i < length (tx_input tx) then btree_get utxos (tx_input tx ! i) else None) of
           None \<Rightarrow> ps_inputs pset' ! i = ps_inputs pset ! i
         | Some u \<Rightarrow> signed_as w tx i u (ps_inputs pset ! i) (ps_inputs pset' ! i)" for i
    using sign_fold_Ok [OF f] by (auto split: option.splits)
  with 1 r sign_fold_Ok [OF f] show ?thesis by blast
qed

definition ex_sign :: sign_notification where
  "ex_sign = \<lparr> sn_order_id = ''o1'', sn_pset = ''pset'', sn_details = ex_details, sn_nonces = None \<rparr>"

lemma ex_sign_pset: "\<exists>r h'. sign_pset (ex_world :: dealer_world) ex_sign ex_utxos [] = (Ok r, h')"
  by (simp add: sign_pset_def sign_input_def ex_world_def ex_sign_def ex_utxos_def ex_out_def ex_item_def ex_pset_def
      make_rpc_call_def make_rpc_call_silent_def make_rpc_def io_bind_def io_run_simps io_try_def numeral_2_eq_2 Let_def)

theorem sign_pset_signs_own_inputs_witness:
  "\<exists>r h' (pset' :: pset). sign_pset (ex_world :: dealer_world) ex_sign ex_utxos [] = (Ok r, h')
     \<and> ps_inputs pset' ! 0 = ps_inputs ex_pset ! 0 \<and> ps_data pset' = ''rest''
     \<and> signed_as (ex_world :: dealer_world) \<lparr> tx_input = [ex_out ''x'', ex_out ''a''], tx_data = ''tx'' \<rparr> 1
         \<lparr> u_item = ex_item ''a'', u_amount = 10000000 \<rparr> (ps_inputs ex_pset ! 1) (ps_inputs pset' ! 1)"
proof -
  obtain r h' where r: "sign_pset (ex_world :: dealer_world) ex_sign ex_utxos [] = (Ok r, h')"
    using ex_sign_pset by blast
  have w: "w_pset_decode (ex_world :: dealer_world) x = Some ex_pset"
    "w_extract_tx (ex_world :: dealer_world) p = Some \<lparr> tx_input = [ex_out ''x'', ex_out ''a''], tx_data = ''tx'' \<rparr>" for x p
    by (simp_all add: ex_world_def)
  have l: "length (ps_inputs ex_pset) = 2" "ps_data ex_pset = ''rest''" by (simp_all add: ex_pset_def)
  have "btree_get ex_utxos (ex_out ''x'') = None"
    "btree_get ex_utxos (ex_out ''a'') = Some \<lparr> u_item = ex_item ''a'', u_amount = 10000000 \<rparr>"
    by (simp_all add: ex_utxos_def ex_out_def)
  moreover obtain bytes pset tx and pset' :: pset where p: "w_pset_decode (ex_world :: dealer_world) bytes = Some pset"
      "w_extract_tx (ex_world :: dealer_world) pset = Some tx" "ps_data pset' = ps_data pset"
    and all: "\<forall>i<length (ps_inputs pset).
         case (if i < length (tx_input tx) then btree_get ex_utxos (tx_input tx ! i) else None) of
           None \<Rightarrow> ps_inputs pset' ! i = ps_inputs pset ! i
         | Some u \<Rightarrow> signed_as (ex_world :: dealer_world) tx i u (ps_inputs pset ! i) (ps_inputs pset' ! i)"
    using sign_pset_signs_own_inputs [OF r] by blast
  moreover have "pset = ex_pset" "tx = \<lparr> tx_input = [ex_out ''x'', ex_out ''a''], tx_data = ''tx'' \<rparr>"
    using p(1,2) by (simp_all add: w)
  ultimately show ?thesis
    using r all [rule_format, of 0] all [rule_format, of 1]
    by (intro exI [of _ r] exI [of _ h'] exI [of _ pset']) (simp add: l)
qed

text \<open>
  Reloading the wallet makes the table of unspent outputs exact: afterwards the known outputs are
  precisely those the node listed, an output that was known before keeps its entry, and every entry
  is filed under its own outpoint.
\<close>
theorem reload_utxos_exact:
  assumes "utxos_ok m" "reload_utxos w items m = Ok m'"
  shows "utxos_ok m' \<and> (btree_get m' k \<noteq> None \<longleftrightarrow> k \<in> ui_tx_out ` set items)
    \<and> (btree_get m k \<noteq> None \<and> k \<in> ui_tx_out ` set items \<longrightarrow> btree_get m' k = btree_get m k)"
  using reload_utxos_Ok [OF assms] by blast

theorem reload_utxos_exact_witness:
  "\<exists>m'. reload_utxos (ex_world :: dealer_world) [ex_item ''b'', ex_item ''c''] ex_utxos = Ok m'
     \<and> btree_get m' (ex_out ''a'') = None \<and> btree_get m' (ex_out ''b'') = btree_get ex_utxos (ex_out ''b'')
     \<and> btree_get m' (ex_out ''c'') \<noteq> None"
proof -
  have "is_ok (reload_utxos (ex_world :: dealer_world) [ex_item ''b'', ex_item ''c''] ex_utxos)"
    by (simp add: reload_utxos_def add_utxos_def add_utxo_def ex_world_def from_rpc_def is_ok_def split: option.splits)
  then obtain m' where m': "reload_utxos (ex_world :: dealer_world) [ex_item ''b'', ex_item ''c''] ex_utxos = Ok m'"
    by (auto simp: is_ok_iff)
  have b: "btree_get ex_utxos (ex_out ''b'') \<noteq> None" by (simp add: ex_utxos_def ex_out_def)
  show ?thesis
    using m' b reload_utxos_exact [OF ex_utxos_ok m', of "ex_out ''a''"] reload_utxos_exact [OF ex_utxos_ok m', of "ex_out ''b''"]
      reload_utxos_exact [OF ex_utxos_ok m', of "ex_out ''c''"]
    by (auto simp: ex_out_def ex_item_def ui_tx_out_def)
qed

end
