(* ===== verification/Dealer_Worker.thy ===== *)
theory Dealer_Worker
  imports Dealer_Inputs
begin

text \<open>
  The worker loop of the dealer: its invariant, the requests and RPC calls its handlers can cause,
  and what follows for every state the loop reaches from its start.
\<close>

section \<open>The invariant\<close>

definition orders_ok :: "(order_id, order_created) btree_map \<Rightarrow> bool" where
  "orders_ok orders \<longleftrightarrow> btree_inv orders \<and> (\<forall>(k, order)\<in>set orders. oc_order_id order = k)"

definition dealer_inv :: "params \<Rightarrow> dealer_state \<Rightarrow> bool" where
  "dealer_inv params s \<longleftrightarrow> utxos_ok (ds_utxos s) \<and> orders_ok (ds_orders s)
     \<and> btree_inv (ds_index_prices s) \<and> btree_inv (ds_pending_signs s) \<and> btree_inv (ds_own_orders s)
     \<and> set (btree_keys (ds_own_orders s)) = set (own_order_keys (p_tickers params))
     \<and> (\<not> ds_server_connected s \<longrightarrow> (\<forall>own\<in>set (btree_values (ds_own_orders s)). own = None))"

lemma orders_ok_insert: "orders_ok m \<Longrightarrow> orders_ok (btree_insert (oc_order_id order) order m)"
  using set_btree_insert [of "oc_order_id order" order m] by (auto simp: orders_ok_def)

lemma orders_ok_insert_orders: "orders_ok m \<Longrightarrow> orders_ok (insert_orders new m)"
  by (induction new arbitrary: m) (auto simp: insert_orders_def orders_ok_insert)

lemma orders_ok_remove: "orders_ok m \<Longrightarrow> orders_ok (btree_remove k m)"
  using set_btree_remove [of k m] by (auto simp: orders_ok_def)


section \<open>The handlers keep the invariant\<close>

lemma dealer_invI:
  assumes "utxos_ok (ds_utxos s)" "orders_ok (ds_orders s)" "btree_inv (ds_index_prices s)"
    "btree_inv (ds_pending_signs s)" "btree_inv (ds_own_orders s)"
    "set (btree_keys (ds_own_orders s)) = set (own_order_keys (p_tickers params))"
    "\<not> ds_server_connected s \<Longrightarrow> (\<forall>own\<in>set (btree_values (ds_own_orders s)). own = None)"
  shows "dealer_inv params s"
  using assms by (simp add: dealer_inv_def)

lemma returns_on_connected:
  assumes "dealer_inv params s"
  shows "returns (dealer_inv params) (on_connected w params s)"
  unfolding on_connected_def
  by (rule returns_bind_any, rule returns_bind_any, rule returns_bind_any, rule returns_bind [where R = orders_ok])
    (use assms in \<open>auto simp: dealer_inv_def orders_ok_insert_orders
      intro!: returns_fold returns_return returns_bind_any\<close>)

lemma own_keys_map_values: "set (map fst (btree_map_values f m)) = set (map fst m)"
  by simp

lemma values_map_values: "set (map snd (btree_map_values (\<lambda>_. f) m)) = f ` set (map snd m)"
  by (force simp: btree_map_values_def)

lemma values_all_None: "\<forall>own\<in>snd ` set (btree_map_values (\<lambda>_ _. None) m). own = None"
  by (auto simp: btree_map_values_def)

lemma inv_on_disconnected: "dealer_inv params s \<Longrightarrow> dealer_inv params (on_disconnected s)"
  using own_keys_map_values [of "\<lambda>_ _. None" "ds_own_orders s"] values_all_None [of "ds_own_orders s"]
  by (simp add: dealer_inv_def on_disconnected_def orders_ok_def)

lemma returns_on_sign:
  "dealer_inv params s \<Longrightarrow> returns (dealer_inv params) (on_sign w params c order s)"
  unfolding on_sign_def by (intro returns_intros) (auto simp: dealer_inv_def)

lemma inv_complete:
  assumes "dealer_inv params s"
  shows "dealer_inv params (s\<lparr> ds_own_orders := btree_map_values (\<lambda>_. forget_own i) (ds_own_orders s),
    ds_pending_signs := btree_remove i (ds_pending_signs s) \<rparr>)"
  using assms own_keys_map_values [of "\<lambda>_. forget_own i" "ds_own_orders s"]
    values_map_values [of "forget_own i" "ds_own_orders s"]
  by (simp add: dealer_inv_def) (auto simp: forget_own_def)

lemma returns_on_complete:
  "dealer_inv params s \<Longrightarrow> returns (dealer_inv params) (on_complete msg s)"
  unfolding on_complete_def Let_def by (intro returns_intros inv_complete)

lemma returns_on_notification:
  "dealer_inv params s \<Longrightarrow> returns (dealer_inv params) (on_notification w params c msg s)"
  unfolding on_notification_def
  by (cases msg) (auto intro!: returns_intros returns_on_sign returns_on_complete
    simp: dealer_inv_def orders_ok_insert orders_ok_remove)

lemma returns_on_reload:
  assumes "dealer_inv params s"
  shows "returns (dealer_inv params) (on_reload_utxo w s)"
  unfolding on_reload_utxo_def Let_def
  by (rule returns_bind_any, rule returns_bind_any, rule returns_bind [where R = utxos_ok])
    (use assms reload_utxos_Ok(1) in \<open>auto simp: dealer_inv_def intro!: returns_lift returns_return\<close>)

lemma returns_on_to:
  assumes "dealer_inv params s"
  shows "returns (dealer_inv params) (on_to w to s)"
proof (cases to)
  case (To_Price t p)
  then show ?thesis using assms unfolding on_to_def
    by (cases p) (auto simp: io_bind_assoc dealer_inv_def intro!: returns_intros)
qed (use assms in \<open>auto simp: on_to_def Let_def dealer_inv_def intro!: returns_intros\<close>)

lemma inv_index_prices: "dealer_inv params s \<Longrightarrow> dealer_inv params (s\<lparr> ds_index_prices := expire_prices now (ds_index_prices s) \<rparr>)"
  by (simp add: dealer_inv_def expire_prices_def btree.inv_fold_remove)

lemma returns_take_orders:
  "dealer_inv params s \<Longrightarrow> returns (\<lambda>s'. dealer_inv params s' \<and> ds_index_prices s' = ds_index_prices s) (take_orders w params c s)"
  unfolding take_orders_def by (intro returns_intros) (auto simp: dealer_inv_def)

lemma returns_check_wallet:
  "dealer_inv params s \<Longrightarrow> returns (\<lambda>s'. dealer_inv params s' \<and> ds_index_prices s' = ds_index_prices s) (check_wallet w s)"
  unfolding check_wallet_def by (intro returns_intros) (auto simp: dealer_inv_def)

lemma returns_update_own_orders:
  assumes "dealer_inv params s" "ds_server_connected s"
  shows "returns (\<lambda>s'. dealer_inv params s' \<and> ds_index_prices s' = ds_index_prices s) (update_own_orders w params s)"
  unfolding update_own_orders_def
proof (rule returns_bind [where R = "\<lambda>own. map fst own = map fst (ds_own_orders s)"])
  let ?f = "\<lambda>(key, own). io_bind (update_price w own (ok_send_bitcoins key) (ds_assets s) (ok_ticker key) (ds_index_prices s)
         (ds_all_balances s) (ds_utxos s) params) (\<lambda>own'. io_return (key, own'))"
  have "returns (list_all2 (\<lambda>x y. fst x = fst y) (ds_own_orders s)) (io_mapM ?f (ds_own_orders s))"
    by (rule returns_mapM) (auto intro!: returns_intros)
  then show "returns (\<lambda>own. map fst own = map fst (ds_own_orders s)) (io_mapM ?f (ds_own_orders s))"
    by (rule returns_mono) (auto simp: list_all2_conv_all_nth intro!: nth_equalityI)
next
  fix own :: "(own_order_key \<times> own_order option) list" assume "map fst own = map fst (ds_own_orders s)"
  with assms show "returns (\<lambda>s'. dealer_inv params s' \<and> ds_index_prices s' = ds_index_prices s) (io_return (s\<lparr>ds_own_orders := own\<rparr>))"
    by (intro returns_return) (simp add: dealer_inv_def btree_inv_def flip: set_map)
qed

lemma inv_last_price_edit [simp]: "dealer_inv params (s\<lparr> ds_last_price_edit := t \<rparr>) = dealer_inv params s"
  by (simp add: dealer_inv_def)

lemma returns_timer_edit:
  assumes "dealer_inv params s"
  shows "returns (\<lambda>s'. dealer_inv params s' \<and> ds_index_prices s' = ds_index_prices s)
     (if ds_server_connected s \<and> PRICE_EDIT_MIN_DELAY \<le> duration_since now (ds_last_price_edit s)
      then io_bind (update_own_orders w params s) (\<lambda>s. io_return (s\<lparr>ds_last_price_edit := now\<rparr>))
      else io_return s)"
  using assms by (intro returns_if returns_bind [OF returns_update_own_orders] returns_return) auto

lemma returns_on_timer:
  assumes "dealer_inv params s"
  shows "returns (dealer_inv params) (on_timer w params c s)"
  unfolding on_timer_def
  by (rule returns_bind_any, rule returns_bind [OF returns_timer_edit [OF assms]])
    (intro returns_bind [OF returns_take_orders] returns_bind [OF returns_check_wallet [where params = params]]
      returns_bind_any returns_return inv_index_prices; auto)

lemma returns_dealer_handle:
  "dealer_inv params s \<Longrightarrow> returns (dealer_inv params) (dealer_handle w params c msg s)"
  unfolding dealer_handle_def
  by (cases msg) (auto intro: returns_on_connected inv_on_disconnected returns_return returns_on_notification
    returns_on_reload returns_on_to returns_on_timer)

section \<open>The events of the handlers\<close>

definition dealer_rpc_ok :: "rpc_request \<Rightarrow> bool" where
  "dealer_rpc_ok req \<longleftrightarrow> rpc_method req \<in> {''listunspent'', ''getwalletinfo'', ''getnewaddress'', ''dumpprivkey''}"

fun dealer_event_ok :: "dealer_event \<Rightarrow> bool" where
  "dealer_event_ok (Ev_Rpc req _) = dealer_rpc_ok req"
| "dealer_event_ok _ = True"

lemma rpc_ok_simps [simp]:
  "dealer_rpc_ok get_new_address" "dealer_rpc_ok get_wallet_info" "dealer_rpc_ok (listunspent n)"
  "dealer_rpc_ok (dumpprivkey a)"
  by (simp_all add: dealer_rpc_ok_def get_new_address_def get_new_address_with_type_def
      get_wallet_info_def listunspent_def dumpprivkey_def)

lemma emits_self_send [emits_intros]: "Q (Ev_Out (Out_Self m)) \<Longrightarrow> emits Q (self_send m)"
  unfolding self_send_def by (intro emits_intros)

lemma emits_get_pset [emits_intros]:
  "(\<And>r. Q (Ev_Rpc get_new_address r)) \<Longrightarrow> emits Q (get_pset w i d utxos params x)"
  unfolding get_pset_def new_address_def Let_def by (intro emits_intros)

lemma emits_update_price [emits_intros]:
  assumes "\<And>r. Q (Ev_Rpc get_new_address r)" "\<And>r x. (\<forall>sr. r \<noteq> Req_Sign sr) \<Longrightarrow> Q (Ev_Request r x)"
  shows "emits Q (update_price w own sb assets t ip all utxos params)"
  unfolding update_price_def submit_order_def edit_order_def cancel_order_def Let_def case_prod_beta
  using assms by (intro emits_intros) auto

lemma emits_sign_input [emits_intros]:
  "(\<And>a r. Q (Ev_Rpc (dumpprivkey a) r)) \<Longrightarrow> emits Q (sign_input w utxos tx x pset)"
  unfolding sign_input_def Let_def by (cases x) (simp only: prod.case, intro emits_intros)

lemma emits_sign_pset [emits_intros]:
  "(\<And>a r. Q (Ev_Rpc (dumpprivkey a) r)) \<Longrightarrow> emits Q (sign_pset w data utxos)"
  unfolding sign_pset_def by (intro emits_intros)

lemma emits_on_timer:
  assumes "\<And>r x. dealer_rpc_ok r \<Longrightarrow> Q (Ev_Rpc r x)" "\<And>r x. (\<forall>sr. r \<noteq> Req_Sign sr) \<Longrightarrow> Q (Ev_Request r x)"
    "\<And>t. Q (Ev_Now t)" "\<And>x. Q (Ev_Out x)"
  shows "emits Q (on_timer w params c s)"
  unfolding on_timer_def update_own_orders_def take_orders_def try_take_def check_wallet_def
  using assms by (intro emits_intros) auto


lemma emits_others:
  assumes "\<And>r x. dealer_rpc_ok r \<Longrightarrow> Q (Ev_Rpc r x)" "\<And>r x. (\<forall>sr. r \<noteq> Req_Sign sr) \<Longrightarrow> Q (Ev_Request r x)"
    "\<And>t. Q (Ev_Now t)" "\<And>x. Q (Ev_Out x)"
  shows "emits Q (on_connected w params s)" "emits Q (on_reload_utxo w s)" "emits Q (on_to w to s)"
    "emits Q (on_complete cmsg s)"
  using assms
  by (auto simp: on_connected_def on_reload_utxo_def on_to_def on_complete_def Let_def
      intro!: emits_intros split: dealer_to.splits)

text \<open>When the worker may send a signature.\<close>

definition sign_allowed :: "params \<Rightarrow> dealer_consts \<Rightarrow> dealer_msg \<Rightarrow> dealer_state \<Rightarrow> sign_request \<Rightarrow> bool" where
  "sign_allowed params c msg s r \<longleftrightarrow> (\<exists>n interest. msg = M_Notification (Ntf_Sign n) \<and> sr_order_id r = sn_order_id n
     \<and> interest_of_asset c (d_asset (sn_details n)) (p_interest_sign_usdt params) (p_interest_sign_eurx params)
         = (Ok interest :: (dealer_error, f64) outcome)
     \<and> take_order params (ds_assets s) (sn_details n) (ds_all_balances s) (ds_index_prices s) interest = Ok ())"

lemma returns_sign_pset: "returns (\<lambda>r. sr_order_id r = sn_order_id data \<and> sr_side r = d_side (sn_details data)) (sign_pset w data utxos)"
  unfolding sign_pset_def by (intro returns_intros) simp

lemma emits_on_sign:
  assumes rpc: "\<And>r x. dealer_rpc_ok r \<Longrightarrow> Q (Ev_Rpc r x)"
    and sign: "\<And>r x. sign_allowed params c (M_Notification (Ntf_Sign n)) s r \<Longrightarrow> Q (Ev_Request (Req_Sign r) x)"
  shows "emits Q (on_sign w params c n s)"
proof (cases "interest_of_asset c (d_asset (sn_details n)) (p_interest_sign_usdt params) (p_interest_sign_eurx params)
         :: (dealer_error, f64) outcome")
  case (Ok interest)
  show ?thesis
  proof (cases "take_order params (ds_assets s) (sn_details n) (ds_all_balances s) (ds_index_prices s) interest")
    case Ok': (Ok u)
    have "emits Q (io_bind (io_expect (sign_pset w n (ds_utxos s))) (\<lambda>signed.
         io_bind (io_expect (send_request_as w as_sign (Req_Sign signed))) (\<lambda>_.
         io_return (s\<lparr> ds_pending_signs :=
           btree_insert (sn_order_id n) (sn_details n) (ds_pending_signs s) \<rparr>))))"
      by (rule emits_bind_returns [OF _ returns_expect [OF returns_sign_pset]])
        (use Ok Ok' in \<open>auto intro!: emits_intros rpc sign simp: sign_allowed_def\<close>)
    then show ?thesis by (simp add: on_sign_def Ok Ok' io_bind_try_lift)
  qed (auto simp: on_sign_def Ok io_bind_try_lift intro: emits_intros)
qed (auto simp: on_sign_def intro: emits_intros)

lemma emits_dealer_handle:
  "emits (\<lambda>ev. dealer_event_ok ev \<and> (\<forall>r x. ev = Ev_Request (Req_Sign r) x \<longrightarrow> sign_allowed params c msg s r))
     (dealer_handle w params c msg s)"
proof (cases msg)
  case (M_Notification n)
  then show ?thesis
    by (cases n) (auto simp: dealer_handle_def on_notification_def intro!: emits_intros emits_on_sign emits_others)
qed (auto simp: dealer_handle_def intro!: emits_intros emits_on_timer emits_others)

interpretation dealer_loop: event_loop "dealer_handle w params c" "dealer_inv params" dealer_event_ok
  for w params c
  by unfold_locales (auto intro: returns_dealer_handle emits_mono [OF emits_dealer_handle])

lemma fold_insert_None:
  "btree_inv m \<Longrightarrow> \<forall>v\<in>snd ` set m. v = None \<Longrightarrow>
    btree_inv (fold (\<lambda>k. btree_insert k None) ks m) \<and>
    fst ` set (fold (\<lambda>k. btree_insert k None) ks m) = fst ` set m \<union> set ks \<and>
    (\<forall>v\<in>snd ` set (fold (\<lambda>k. btree_insert k None) ks m). v = None)"
proof (induction ks arbitrary: m)
  case (Cons k ks)
  have "\<forall>v\<in>snd ` set (btree_insert k None m). v = None"
    using Cons.prems(2) set_btree_insert [of k None m] by fastforce
  with Cons.IH [of "btree_insert k None m"] Cons.prems show ?case by auto
qed simp

lemma worker_init_inv:
  assumes "worker_init w params h = (Ok (c, s), h')"
  shows "dealer_inv params s"
proof -
  have "ds_own_orders s = fold (\<lambda>k. btree_insert k None) (own_order_keys (p_tickers params)) []"
    "ds_utxos s = []" "ds_orders s = []" "ds_index_prices s = []" "ds_pending_signs s = []"
    using assms by (auto simp: worker_init_def io_bind_Ok Let_def io_run_simps)
  then show ?thesis using fold_insert_None [of "[]" "own_order_keys (p_tickers params)"]
    by (intro dealer_invI) (auto simp: utxos_ok_def orders_ok_def)
qed

section \<open>Own orders\<close>

lemma submit_order_Ok:
  assumes "submit_order w sb asset price amt utxos params h = (Ok (Some own), h')"
  shows "\<exists>po details req t. oo_bitcoin_amount own = amt \<and> oo_price own = price \<and> pm_order_id req = oo_order_id own
    \<and> po_asset po = as_asset_id asset \<and> po_price po = Some price
    \<and> h' = h @ [Ev_Request (Req_Submit po) (Reply_Ok (Resp_Submit (oo_order_id own) details))] @ t
        @ [Ev_Request (Req_PsetMaker req) (Reply_Ok Resp_PsetMaker)]"
proof -
  let ?po = "\<lparr> po_asset = as_asset_id asset,
         po_bitcoin_amount = Some (if sb then f64_neg (to_bitcoin amt) else to_bitcoin amt),
         po_asset_amount = None, po_price = Some price, po_index_price = None,
         po_force_private = None, po_disable_price_edit = None \<rparr>"
  from assms obtain i d h1 req h2 where
    s: "send_request_as w as_submit (Req_Submit ?po) h = (Ok (i, d), h1)"
    and g: "get_pset w i d utxos params True h1 = (Ok req, h2)"
    and m: "send_request_as w as_pset_maker (Req_PsetMaker req) h2 = (Ok (), h')"
    and own: "own = \<lparr> oo_order_id = i, oo_bitcoin_amount = amt, oo_price = price \<rparr>"
    by (auto simp: submit_order_def io_bind_Ok io_run_simps io_try_Ok split_sum_ex)
  obtain r1 where h1: "h1 = h @ [Ev_Request (Req_Submit ?po) (Reply_Ok r1)]" "as_submit r1 = Some (i, d)"
    using send_request_as_Ok [OF s] by blast
  obtain r2 where h': "h' = h2 @ [Ev_Request (Req_PsetMaker req) (Reply_Ok r2)]" "as_pset_maker r2 = Some ()"
    using send_request_as_Ok [OF m] by blast
  have "emits (\<lambda>_. True) (get_pset w i d utxos params True)" by (rule emits_get_pset) simp
  from this g obtain t where "h2 = h1 @ t" by (rule emitsD)
  moreover have "r1 = Resp_Submit i d" using h1(2) by (cases r1) auto
  moreover have "r2 = Resp_PsetMaker" using h'(2) by (cases r2) auto
  moreover have "pm_order_id req = i"
    by (rule get_pset_Ok [OF g])
  ultimately show ?thesis using h1(1) h'(1) own
    by (intro exI [of _ ?po] exI [of _ d] exI [of _ req] exI [of _ t]) simp
qed

lemma expire_prices_get:
  "btree_inv m \<Longrightarrow> btree_get (expire_prices now m) t = (case btree_get m t of
      None \<Rightarrow> None
    | Some p \<Rightarrow> if duration_since now (pts_timestamp p) > PRICE_EXPIRATON_TIME then None else Some p)"
  by (auto simp: expire_prices_def btree.get_fold_remove btree_get_mem image_iff
      split: option.splits dest: map_of_SomeD)

section \<open>Properties\<close>

text \<open>A dealer that is connected, has one asset, its prices and its wallet.\<close>

definition ex_consts :: dealer_consts where
  "ex_consts = \<lparr> dc_asset_usdt = ''usdt'', dc_asset_eurx = ''eurx'' \<rparr>"

definition ex_state :: dealer_state where
  "ex_state = \<lparr> ds_assets = [ex_asset], ds_server_connected = False, ds_utxos = ex_utxos, ds_orders = [],
     ds_taken_orders = [], ds_all_balances = ex_balances, ds_index_prices = ex_prices, ds_pending_signs = [],
     ds_own_orders = fold (\<lambda>k. btree_insert k None) (own_order_keys (p_tickers ex_params)) [],
     ds_wallet_balance = None, ds_last_price_edit = 0 \<rparr>"

text \<open>
  (C6) No signature without a price check.  Whatever message the worker handles and whatever the
  server and the node answer, it sends a signature only while handling a sign notification, for
  that order, and only after \<open>take_order\<close> accepted the details of the notification at the current
  balances and index prices with the interest configured for signing that asset.
\<close>
theorem sign_only_accepted:
  assumes "dealer_handle w params c msg s h = (r, h @ t)" and "Ev_Request (Req_Sign req) reply \<in> set t"
  shows "\<exists>n interest. msg = M_Notification (Ntf_Sign n) \<and> sr_order_id req = sn_order_id n
    \<and> interest_of_asset c (d_asset (sn_details n)) (p_interest_sign_usdt params) (p_interest_sign_eurx params)
        = (Ok interest :: (dealer_error, f64) outcome)
    \<and> take_order params (ds_assets s) (sn_details n) (ds_all_balances s) (ds_index_prices s) interest = Ok ()"
proof -
  obtain t' where "h @ t = h @ t'" "\<forall>ev\<in>set t'. dealer_event_ok ev
      \<and> (\<forall>r x. ev = Ev_Request (Req_Sign r) x \<longrightarrow> sign_allowed params c msg s r)"
    using emitsD [OF emits_dealer_handle assms(1)] .
  with assms(2) show ?thesis by (auto simp: sign_allowed_def)
qed

lemma ex_handle_sign:
  "\<exists>r t req reply. dealer_handle ex_world ex_params ex_consts (M_Notification (Ntf_Sign ex_sign)) ex_state [] = (r, [] @ t)
     \<and> Ev_Request (Req_Sign req) reply \<in> set t"
proof -
  obtain sr h1 where sr: "sign_pset (ex_world :: dealer_world) ex_sign ex_utxos [] = (Ok sr, h1)"
    using ex_sign_pset by blast
  have "interest_of_asset ex_consts (d_asset (sn_details ex_sign)) (p_interest_sign_usdt ex_params) (p_interest_sign_eurx ex_params)
      = (Ok (Fin (33 / 32)) :: (dealer_error, f64) outcome)"
    by (simp add: interest_of_asset_def ex_consts_def ex_sign_def ex_details_def ex_params_def)
  moreover have "take_order ex_params (ds_assets ex_state) (sn_details ex_sign) (ds_all_balances ex_state) (ds_index_prices ex_state)
      (Fin (33 / 32)) = Ok ()" using ex_take_order by (simp add: ex_state_def ex_sign_def)
  moreover have "io_expect (sign_pset (ex_world :: dealer_world) ex_sign (ds_utxos ex_state)) [] = (Ok sr, h1)"
    using sr by (simp add: ex_state_def)
  moreover have "send_request_as ex_world as_sign (Req_Sign sr) h1 = (Ok (), h1 @ [Ev_Request (Req_Sign sr) (Reply_Ok Resp_Sign)])"
    by (simp add: send_request_as_def send_request_def io_bind_def io_run_simps ex_world_def)
  ultimately show ?thesis
    by (auto simp: dealer_handle_def on_notification_def on_sign_def io_bind_try_lift io_bind_run io_run_simps)
qed

theorem sign_only_accepted_witness:
  "\<exists>r t req reply. dealer_handle ex_world ex_params ex_consts (M_Notification (Ntf_Sign ex_sign)) ex_state [] = (r, [] @ t)
     \<and> Ev_Request (Req_Sign req) reply \<in> set t \<and> sr_order_id req = ''o1''"
proof -
  obtain r t req reply where *: "dealer_handle ex_world ex_params ex_consts (M_Notification (Ntf_Sign ex_sign)) ex_state [] = (r, [] @ t)"
    "Ev_Request (Req_Sign req) reply \<in> set t" using ex_handle_sign by blast
  with sign_only_accepted [OF *] show ?thesis by (auto simp: ex_sign_def)
qed

text \<open>
  (C24) Every state the worker reaches from its start is well formed: the tables are ordered maps whose
  entries are filed under their own keys, there is one slot per configured ticker and direction and
  no other, and without a server connection no own order is recorded.  The RPC calls it makes on
  the way are limited to listing outputs, reading wallet information, making addresses and reading
  keys: the order dealer never asks the node to send money.
\<close>
theorem dealer_worker_safe:
  assumes "worker_init w params h = (Ok (c, s0), h0)" and "reaches (dealer_handle w params c) s0 h0 s h1"
  shows "dealer_inv params s \<and> (\<exists>t. h1 = h0 @ t \<and> (\<forall>req r. Ev_Rpc req r \<in> set t \<longrightarrow>
    rpc_method req \<in> {''listunspent'', ''getwalletinfo'', ''getnewaddress'', ''dumpprivkey''}))"
proof -
  have inv: "dealer_inv params s0" using worker_init_inv [OF assms(1)] .
  obtain t where t: "h1 = h0 @ t" "\<forall>ev\<in>set t. dealer_event_ok ev"
    using dealer_loop.reaches_events [OF assms(2) inv] by blast
  then have "\<forall>req r. Ev_Rpc req r \<in> set t \<longrightarrow> dealer_rpc_ok req" by fastforce
  with t(1) dealer_loop.reaches_inv [OF assms(2) inv] show ?thesis unfolding dealer_rpc_ok_def by blast
qed

lemma ex_worker_init: "\<exists>c s0 h0. worker_init (ex_world :: dealer_world) ex_params [] = (Ok (c, s0), h0)"
proof -
  have "check_params ex_params = (Ok () :: (dealer_error, unit) outcome)" by code_simp
  then show ?thesis by (simp add: worker_init_def ex_world_def instant_now_def io_run_simps Let_def)
qed

theorem dealer_worker_safe_witness:
  "\<exists>c s0 h0 s h1. worker_init (ex_world :: dealer_world) ex_params [] = (Ok (c, s0), h0)
     \<and> reaches (dealer_handle ex_world ex_params c) s0 h0 s h1 \<and> length h1 = 2 \<and> dealer_inv ex_params s"
proof -
  obtain c s0 h0 where i: "worker_init (ex_world :: dealer_world) ex_params [] = (Ok (c, s0), h0)"
    using ex_worker_init by blast
  then have l: "length h0 = 1" by (auto simp: worker_init_def instant_now_def io_bind_Ok io_run_simps Let_def)
  let ?m = "M_To (To_LimitBalance DEALER_USDT True (Fin 1))"
  obtain s where "dealer_handle ex_world ex_params c ?m s0 h0 = (Ok s, h0 @ [Ev_Out (Out_Self M_Timer)])"
    by (simp add: dealer_handle_def on_to_def self_send_def io_run_simps Let_def)
  then have r: "reaches (dealer_handle ex_world ex_params c) s0 h0 s (h0 @ [Ev_Out (Out_Self M_Timer)])"
    by (rule reaches_step [OF reaches_refl])
  with i l dealer_worker_safe [OF i r] show ?thesis by force
qed

text \<open>
  (C34) An own order is recorded only after the server acknowledged it.  When \<open>update_price\<close> turns an
  empty slot into an own order, the server has accepted the submission of exactly that order and,
  as the last event, the inputs offered for it; its amount is at least the configured minimum and
  at most the configured amount and what the balances allow.
\<close>
theorem own_order_acknowledged:
  assumes "update_price w None send_bitcoins assets ticker index_prices all utxos params h = (Ok (Some own), h')"
  shows "\<exists>po details req t. h' = h @ [Ev_Request (Req_Submit po) (Reply_Ok (Resp_Submit (oo_order_id own) details))]
      @ t @ [Ev_Request (Req_PsetMaker req) (Reply_Ok Resp_PsetMaker)]
    \<and> pm_order_id req = oo_order_id own \<and> po_price po = Some (oo_price own)
    \<and> p_bitcoin_amount_min params \<le> oo_bitcoin_amount own \<and> oo_bitcoin_amount own \<le> p_bitcoin_amount_submit params
    \<and> oo_bitcoin_amount own \<le> get_bitcoin_amount all ticker (oo_price own) send_bitcoins False
    \<and> btree_get index_prices ticker \<noteq> None"
proof -
  from assms obtain asset interest price where
    p: "submit_price params interest send_bitcoins (btree_get index_prices ticker) = Some price"
    and amt: "p_bitcoin_amount_min params \<le> fst (new_amounts params all ticker send_bitcoins (Some price))"
    and s: "submit_order w send_bitcoins asset price (fst (new_amounts params all ticker send_bitcoins (Some price)))
      utxos params h = (Ok (Some own), h')"
    by (auto simp: update_price_def io_bind_Ok io_run_simps Let_def case_prod_beta split: option.splits if_splits)
  have "btree_get index_prices ticker \<noteq> None" using p by (auto simp: submit_price_def Let_def)
  with submit_order_Ok [OF s] amt show ?thesis by (fastforce simp: new_amounts_def)
qed

lemma ex_submit_order:
  "\<exists>own h'. submit_order ex_world True ex_asset price amt ex_utxos ex_params [] = (Ok (Some own), h')"
proof -
  have run: "send_request_as (ex_world :: dealer_world) proj r h =
      (case proj (ex_server r) of None \<Rightarrow> Panic | Some v \<Rightarrow> Ok v, h @ [Ev_Request r (Reply_Ok (ex_server r))])" for proj r h
    by (simp add: send_request_as_def send_request_def io_bind_def io_run_simps ex_world_def unwrap_def)
  have "\<exists>req h'. get_pset ex_world ''o1'' ex_details ex_utxos ex_params True h = (Ok req, h')" for h
    using ex_get_pset by blast
  then obtain req h' where "get_pset ex_world ''o1'' ex_details ex_utxos ex_params True
      ([] @ [Ev_Request (Req_Submit \<lparr>po_asset = as_asset_id ex_asset, po_bitcoin_amount = Some (f64_neg (to_bitcoin amt)),
        po_asset_amount = None, po_price = Some price, po_index_price = None, po_force_private = None,
        po_disable_price_edit = None\<rparr>) (Reply_Ok (Resp_Submit ''o1'' ex_details))]) = (Ok req, h')" by blast
  then show ?thesis by (simp add: submit_order_def io_bind_def io_try_def run io_run_simps)
qed

theorem own_order_acknowledged_witness:
  "\<exists>own h'. update_price ex_world None True [ex_asset] DEALER_USDT ex_prices ex_balances ex_utxos ex_params [] = (Ok (Some own), h')
     \<and> 1000000 \<le> oo_bitcoin_amount own \<and> oo_bitcoin_amount own \<le> 25000000"
proof -
  let ?price = "submit_price ex_params (Fin (17 / 16)) True (btree_get ex_prices DEALER_USDT)"
  obtain price where p: "?price = Some price"
    by (auto simp: submit_price_def Let_def ex_prices_def dealer_ticker_defs)
  have "p_bitcoin_amount_min ex_params \<le> fst (new_amounts ex_params ex_balances DEALER_USDT True ?price)" by code_simp
  then have amt: "p_bitcoin_amount_min ex_params \<le> fst (new_amounts ex_params ex_balances DEALER_USDT True (Some price))"
    by (simp only: p)
  have "interest_submit_of ex_params DEALER_USDT = (Ok (Fin (17 / 16)) :: (dealer_error, f64) outcome)"
    "List.find (\<lambda>a. as_ticker a = dt_name DEALER_USDT) [ex_asset] = Some ex_asset"
    by (simp_all add: interest_submit_of_def ex_params_def ex_asset_def dealer_ticker_defs)
  then have e: "update_price ex_world None True [ex_asset] DEALER_USDT ex_prices ex_balances ex_utxos ex_params [] =
      submit_order ex_world True ex_asset price (fst (new_amounts ex_params ex_balances DEALER_USDT True (Some price))) ex_utxos ex_params []"
    using amt by (simp add: update_price_def p Let_def case_prod_beta)
  then obtain own h' where u: "update_price ex_world None True [ex_asset] DEALER_USDT ex_prices ex_balances ex_utxos ex_params [] = (Ok (Some own), h')"
    using ex_submit_order by metis
  have "p_bitcoin_amount_min ex_params = 1000000" "p_bitcoin_amount_submit ex_params = 25000000" by (simp_all add: ex_params_def)
  with own_order_acknowledged [OF u] u show ?thesis by auto
qed

text \<open>
  (C36) Index prices do not outlive their time.  After the timer ran, every index price the dealer still
  has is at most a minute old at the last reading of the clock, and a price that young is kept.
\<close>
theorem timer_expires_prices:
  assumes "dealer_inv params s" and "on_timer w params c s h = (Ok s', h')"
  shows "\<exists>h1 now. h' = h1 @ [Ev_Now now] \<and> (\<forall>t. btree_get (ds_index_prices s') t =
    (case btree_get (ds_index_prices s) t of
       None \<Rightarrow> None
     | Some p \<Rightarrow> if duration_since now (pts_timestamp p) \<le> 60000000000 then Some p else None))"
proof -
  obtain now s1 h1 s2 h2 s3 h3 where
    u: "(if ds_server_connected s \<and> PRICE_EDIT_MIN_DELAY \<le> duration_since now (ds_last_price_edit s)
      then io_bind (update_own_orders w params s) (\<lambda>s. io_return (s\<lparr>ds_last_price_edit := now\<rparr>))
      else io_return s) (h @ [Ev_Now now]) = (Ok s1, h1)"
    and t: "take_orders w params c s1 h1 = (Ok s2, h2)" and k: "check_wallet w s2 h2 = (Ok s3, h3)"
    and s': "s' = s3\<lparr> ds_index_prices := expire_prices (w_clock w h3) (ds_index_prices s3) \<rparr>"
    and h': "h' = h3 @ [Ev_Now (w_clock w h3)]"
    using assms(2) by (auto simp: on_timer_def io_bind_Ok io_run_simps instant_now_def)
  have 1: "dealer_inv params s1 \<and> ds_index_prices s1 = ds_index_prices s"
    using returnsD [OF returns_timer_edit [OF assms(1)] u] .
  have 2: "dealer_inv params s2 \<and> ds_index_prices s2 = ds_index_prices s1"
    using returnsD [OF returns_take_orders t] 1 by blast
  have 3: "ds_index_prices s3 = ds_index_prices s2" using returnsD [OF returns_check_wallet k] 2 by blast
  have "btree_inv (ds_index_prices s)" using assms(1) by (simp add: dealer_inv_def)
  then show ?thesis using s' h' 1 2 3
    by (auto simp: expire_prices_get PRICE_EXPIRATON_TIME_def from_secs_def split: option.splits)
qed

theorem timer_expires_prices_witness:
  "\<exists>s' h'. on_timer (ex_world :: dealer_world) ex_params ex_consts ex_state [] = (Ok s', h')
     \<and> btree_get (ds_index_prices s') (DealerTicker ''USDt'') = btree_get ex_prices (DealerTicker ''USDt'')"
proof -
  have t: "on_timer (ex_world :: dealer_world) ex_params ex_consts ex_state [] =
      (Ok (ex_state\<lparr> ds_index_prices := expire_prices 2 ex_prices \<rparr>),
       [Ev_Now 0, Ev_Rpc get_wallet_info (Some ''body''), Ev_Now 2])"
    by (simp add: on_timer_def instant_now_def ex_world_def ex_state_def take_orders_def check_wallet_def
        make_rpc_call_def make_rpc_call_silent_def make_rpc_def io_bind_def io_try_def io_run_simps)
  have "btree_inv ex_prices" by (simp add: ex_prices_def btree_inv_def)
  then have "dealer_inv ex_params ex_state"
    using ex_utxos_ok fold_insert_None [of "[]" "own_order_keys (p_tickers ex_params)"]
    by (intro dealer_invI) (auto simp: ex_state_def orders_ok_def)
  then obtain now where "now = 2" "btree_get (ds_index_prices (ex_state\<lparr> ds_index_prices := expire_prices 2 ex_prices \<rparr>)) (DealerTicker ''USDt'') =
    (case btree_get (ds_index_prices ex_state) (DealerTicker ''USDt'') of
       None \<Rightarrow> None
     | Some p \<Rightarrow> if duration_since now (pts_timestamp p) \<le> 60000000000 then Some p else None)"
    using timer_expires_prices [OF _ t] by auto
  with t show ?thesis by (simp add: ex_state_def ex_prices_def duration_since_def)
qed

end
