(* ===== verification/Bf_Types.thy ===== *)
theory Bf_Types
  imports Dealer
begin

text \<open>
  The data of the Bitfinex dealer (\<open>sideswap_dealer_bitfinex\<close>): its configuration, the messages it
  exchanges with the exchange module (the protocol buffers of the proxy), the transfer that
  rebalances funds between wallet and exchange and the file it is kept in, and the calls to the world
  outside: Slack, the system clock, the file system.
\<close>

section \<open>Messages of the exchange module\<close>

datatype exchange_ticker = ExchangeTicker (et_name: string)

instantiation exchange_ticker :: linorder
begin

definition less_eq_exchange_ticker :: "exchange_ticker \<Rightarrow> exchange_ticker \<Rightarrow> bool" where
  "less_eq_exchange_ticker a b \<longleftrightarrow> et_name a \<le> et_name b"

definition less_exchange_ticker :: "exchange_ticker \<Rightarrow> exchange_ticker \<Rightarrow> bool" where
  "less_exchange_ticker a b \<longleftrightarrow> et_name a < et_name b"

instance
  by standard (auto simp: less_eq_exchange_ticker_def less_exchange_ticker_def intro: exchange_ticker.expand)

end

record to_withdraw =
  tw_key :: string
  tw_secret :: string
  tw_wallet :: string
  tw_method :: string
  tw_amount :: f64
  tw_address :: string

record to_transfer =
  tt_key :: string
  tt_secret :: string
  tt_from :: string
  tt_to :: string
  tt_currency :: string
  tt_currency_to :: string
  tt_amount :: f64

record to_movements =
  tm_key :: string
  tm_secret :: string
  tm_start :: "i64 option"
  tm_end :: "i64 option"
  tm_limit :: "int option"

record order_submit =
  os_book_name :: string
  os_cid :: i64
  os_amount :: f64

datatype proto_to =
    To_Login string string
  | To_Subscribe string
  | To_OrderSubmit order_submit
  | To_Withdraw to_withdraw
  | To_Transfer to_transfer
  | To_Movements to_movements

record movement =
  mv_id :: i64
  mv_currency :: string
  mv_currency_name :: string
  mv_mts_started :: i64
  mv_mts_updated :: i64
  mv_status :: string
  mv_amount :: f64
  mv_fees :: f64
  mv_destination_address :: string
  mv_transaction_id :: string
  mv_withdraw_transaction_note :: string

record from_movements =
  fm_success :: bool
  fm_key :: string
  fm_movements :: "movement list"

record order_confirm =
  cf_book_name :: string
  cf_cid :: i64
  cf_id :: i64
  cf_amount :: f64
  cf_price :: f64

datatype proto_from =
    From_BookUpdate string price_pair
  | From_OrderConfirm order_confirm
  | From_WalletUpdate string f64
  | From_Withdraw i64
  | From_Transfer bool
  | From_Movements from_movements
  | From_Error string

text \<open>The derived \<open>PartialEq\<close> of the messages compares floats as floats.\<close>

definition movement_eq :: "movement \<Rightarrow> movement \<Rightarrow> bool" where
  "movement_eq a b \<longleftrightarrow> mv_id a = mv_id b \<and> mv_currency a = mv_currency b
     \<and> mv_currency_name a = mv_currency_name b \<and> mv_mts_started a = mv_mts_started b
     \<and> mv_mts_updated a = mv_mts_updated b \<and> mv_status a = mv_status b
     \<and> f64_eq (mv_amount a) (mv_amount b) \<and> f64_eq (mv_fees a) (mv_fees b)
     \<and> mv_destination_address a = mv_destination_address b
     \<and> mv_transaction_id a = mv_transaction_id b
     \<and> mv_withdraw_transaction_note a = mv_withdraw_transaction_note b"

definition movements_eq :: "from_movements \<Rightarrow> from_movements \<Rightarrow> bool" where
  "movements_eq a b \<longleftrightarrow> fm_success a = fm_success b \<and> fm_key a = fm_key b
     \<and> list_all2 movement_eq (fm_movements a) (fm_movements b)"

section \<open>Configuration\<close>

record args =
  a_log_settings :: string
  a_env :: env
  a_bitcoin_amount_submit :: f64
  a_bitcoin_amount_min :: f64
  a_bitcoin_amount_max :: f64
  a_proxy_log_file :: string
  a_proxy_port :: int
  a_server_host :: string
  a_server_port :: int
  a_server_use_tls :: bool
  a_status_port :: int
  a_rpc :: rpc_server
  a_api_key :: "string option"
  a_module_host :: string
  a_module_port :: int
  a_notifications_url :: "string option"
  a_bitfinex_key :: string
  a_bitfinex_secret :: string
  a_bitfinex_bookname_usdt :: string
  a_bitfinex_bookname_eurx :: string
  a_bitfinex_withdraw_address :: string
  a_bitfinex_fund_address :: string
  a_bitfinex_currency_btc :: exchange_ticker
  a_bitfinex_currency_lbtc :: exchange_ticker
  a_bitfinex_currency_usdt :: exchange_ticker
  a_bitfinex_currency_eur :: exchange_ticker
  a_storage_path :: string
  a_balancing_enabled :: bool

type_synonym exchange_balances = "(exchange_ticker, f64) btree_map"

definition mainnet :: "args \<Rightarrow> bool" where
  "mainnet args = ed_mainnet (env_data_of (a_env args))"

definition BITFINEX_WALLET_EXCHANGE :: string where "BITFINEX_WALLET_EXCHANGE = ''exchange''"
definition BITFINEX_METHOD_USDT :: string where "BITFINEX_METHOD_USDT = ''tetherusl''"
definition BITFINEX_METHOD_LBTC :: string where "BITFINEX_METHOD_LBTC = ''LBT''"
definition BITFINEX_STATUS_COMPLETED :: string where "BITFINEX_STATUS_COMPLETED = ''COMPLETED''"

section \<open>The stored transfer\<close>

datatype transfer_state =
    SendUsdtNew | SendUsdtWaitConfirm
  | RecvUsdtNew | RecvUsdtWaitWithdrawId | RecvUsdtWaitConfirm
  | SendBtcNew | SendBtcWaitLbtcBalance | SendBtcWaitConfirm
  | RecvBtcNew | RecvBtcWaitLbtcBalance | RecvBtcWaitWithdrawId | RecvBtcWaitConfirm
  | Complete | Failed

text \<open>Times are nanoseconds since the Unix epoch.\<close>

record transfer =
  tr_withdraw_id :: "i64 option"
  tr_state :: transfer_state
  tr_amount :: amount
  tr_created_at :: int
  tr_updated_at :: int
  tr_txid :: "string option"

record storage =
  st_balancing :: "transfer option"

section \<open>What the dealer causes outside\<close>

datatype cli_request = TestSendUsdt f64 | TestRecvUsdt f64 | TestSendBtc f64 | TestRecvBtc f64

datatype cli_response = Cli_Success string | Cli_Error string

text \<open>\<open>resp_tx\<close> is the channel of the client that asked, if a client did.\<close>

record cli_request_data =
  cr_req :: cli_request
  cr_resp_tx :: "nat option"

datatype bf_msg =
    BM_Timer | BM_Connected | BM_Disconnected
  | BM_Notification api_notification
  | BM_ModuleConnected | BM_ModuleDisconnected
  | BM_ModuleMessage proto_from
  | BM_ReloadUtxo
  | BM_Cli cli_request_data
  | BM_Exit | BM_CheckExchange
  | BM_Dealer dealer_from

text \<open>The text of a notification before \<open>format!\<close> renders it: its literal parts and the values
  put between them (\<open>{}\<close>, or \<open>{:.8}\<close> for \<open>Frag_Fixed8\<close>).\<close>

datatype text_frag = Frag string | Frag_Int int | Frag_F64 f64 | Frag_Fixed8 f64

datatype fs_op = Fs_Create string | Fs_Write string string | Fs_Rename string string

datatype bf_out =
    BO_Self bf_msg
  | BO_Module proto_to
  | BO_Dealer dealer_to
  | BO_Slack string "text_frag list"
  | BO_Cli nat cli_response
  | BO_Health "string option"
  | BO_SystemTime int
  | BO_Fs fs_op bool
  | BO_Fs_Exists string bool
  | BO_Fs_Read string "string option"

type_synonym bf_event = "bf_out event"

record bf_world =
  bw_world :: "bf_out world"
  bw_system_time :: "bf_event list \<Rightarrow> int"
  bw_fs :: "fs_op \<Rightarrow> bf_event list \<Rightarrow> bool"
  bw_exists :: "string \<Rightarrow> bf_event list \<Rightarrow> bool"
  bw_read :: "string \<Rightarrow> bf_event list \<Rightarrow> string option"
  bw_storage_encode :: "storage \<Rightarrow> string option"
  bw_storage_decode :: "string \<Rightarrow> storage option"

text \<open>The loop ends normally on \<open>Msg::Exit\<close>, and only then.\<close>

datatype bf_exit = Bf_Exit

type_synonym 'a bf_io = "(bf_event, bf_exit, 'a) io"

definition bf_emit :: "bf_out \<Rightarrow> unit bf_io" where
  "bf_emit out = io_emit (Ev_Out out)"

definition send_msg :: "proto_to \<Rightarrow> unit bf_io" where
  "send_msg msg = bf_emit (BO_Module msg)"

definition system_time :: "bf_world \<Rightarrow> int bf_io" where
  "system_time bw = io_call (bw_system_time bw) (\<lambda>t. Ev_Out (BO_SystemTime t))"

text \<open>\<open>SystemTime::duration_since\<close> fails when the clock went backwards.\<close>

definition system_duration_since :: "int \<Rightarrow> int \<Rightarrow> int option" where
  "system_duration_since later earlier = (if earlier \<le> later then Some (later - earlier) else None)"

definition as_millis_i64 :: "int \<Rightarrow> i64" where
  "as_millis_i64 d = wrap_i64 (d div 1000000)"

definition timestamp_now :: "bf_world \<Rightarrow> i64 bf_io" where
  "timestamp_now bw =
     io_bind (system_time bw) (\<lambda>t.
     io_bind (io_lift (unwrap (system_duration_since t 0))) (\<lambda>d.
     io_return (as_millis_i64 d)))"

text \<open>The thread that delivers the notification is outside the model: what is recorded is the
  order to deliver it.\<close>

definition send_notification :: "text_frag list \<Rightarrow> string option \<Rightarrow> unit bf_io" where
  "send_notification msg slack_url = (case slack_url of
      Some url \<Rightarrow> bf_emit (BO_Slack url msg)
    | None \<Rightarrow> io_return ())"

section \<open>The storage file\<close>

definition fs_do :: "bf_world \<Rightarrow> fs_op \<Rightarrow> unit bf_io" where
  "fs_do bw op =
     io_bind (io_call (bw_fs bw op) (\<lambda>ok. Ev_Out (BO_Fs op ok))) (\<lambda>ok. io_lift (assert_that ok))"

definition save_storage :: "bf_world \<Rightarrow> storage \<Rightarrow> string \<Rightarrow> unit bf_io" where
  "save_storage bw storage path =
     (let path_tmp = path @ ''.tmp'' in
      io_bind (io_lift (unwrap (bw_storage_encode bw storage))) (\<lambda>data.
      io_bind (fs_do bw (Fs_Create path_tmp)) (\<lambda>_.
      io_bind (fs_do bw (Fs_Write path_tmp data)) (\<lambda>_.
      fs_do bw (Fs_Rename path_tmp path)))))"

definition load_storage :: "bf_world \<Rightarrow> string \<Rightarrow> storage option bf_io" where
  "load_storage bw path =
     io_bind (io_call (bw_exists bw path) (\<lambda>b. Ev_Out (BO_Fs_Exists path b))) (\<lambda>exists.
     if \<not> exists then io_return None
     else
       io_bind (io_call (bw_read bw path) (\<lambda>r. Ev_Out (BO_Fs_Read path r))) (\<lambda>r.
       io_bind (io_lift (unwrap r)) (\<lambda>data.
       io_bind (io_lift (unwrap (bw_storage_decode bw data))) (\<lambda>storage.
       io_return (Some storage)))))"

lemmas bf_io_defs = bf_emit_def send_msg_def system_time_def

end
