(* ===== verification/Bf_Balancing.thy ===== *)
theory Bf_Balancing
  imports Bf_Types
begin

text \<open>
  Rebalancing of \<open>sideswap_dealer_bitfinex/src/balancing.rs\<close>: the decision whether funds have to move
  between the wallet and the exchange, and the state machine of one transfer, driven by the timer
  (\<open>process_balancing\<close>) and by the answers of the exchange module.
\<close>

section \<open>The decision\<close>

record ratio =
  ra_min :: f64
  ra_norm :: f64
  ra_max :: f64

datatype balancing = Balancing_None | Balancing_Recv f64 | Balancing_Send f64

datatype asset_balancing = AB_None | AB_RecvBtc f64 | AB_SendBtc f64 | AB_RecvUsdt f64 | AB_SendUsdt f64

definition RATIO_BTC :: ratio where
  "RATIO_BTC = \<lparr> ra_min = Fin (1 / 4), ra_norm = Fin (1 / 2), ra_max = Fin (3 / 4) \<rparr>"

definition RATIO_USDT :: ratio where
  "RATIO_USDT = \<lparr> ra_min = Fin (1 / 4), ra_norm = Fin (1 / 2), ra_max = Fin (3 / 4) \<rparr>"

definition MIN_BALANCING_AMOUNT_USDT :: f64 where "MIN_BALANCING_AMOUNT_USDT = Fin 1000"

definition get_balancing_smaller :: "f64 \<Rightarrow> f64 \<Rightarrow> ratio \<Rightarrow> ('e, balancing) outcome" where
  "get_balancing_smaller wallet_balance exchange_balance expected =
     (if f64_eq wallet_balance (Fin 0) \<or> f64_eq exchange_balance (Fin 0) then Ok Balancing_None
      else
        let total = f64_add wallet_balance exchange_balance;
            ratio = f64_div wallet_balance total in
        and_then (assert_that (f64_gt (ra_min expected) (Fin 0))) (\<lambda>_.
        and_then (assert_that (f64_lt (ra_min expected) (ra_norm expected))) (\<lambda>_.
        and_then (assert_that (f64_lt (ra_norm expected) (ra_max expected))) (\<lambda>_.
        and_then (assert_that (f64_lt (ra_max expected) (Fin 1))) (\<lambda>_.
        let diff = to_bitcoin (from_bitcoin (f64_abs (f64_mul (f64_sub (ra_norm expected) ratio) total))) in
        Ok (if f64_lt ratio (ra_min expected) then Balancing_Recv diff
            else if f64_gt ratio (ra_max expected) then Balancing_Send diff
            else Balancing_None))))))"

definition get_balancing_bigger :: "f64 \<Rightarrow> f64 \<Rightarrow> f64 \<Rightarrow> f64 \<Rightarrow> f64 \<Rightarrow> balancing" where
  "get_balancing_bigger asset_wallet_balance asset_exchange_balance other_wallet_balance
       other_exchange_balance from_other_to_asset_scale =
     (let recv_amount = f64_sub (f64_mul other_exchange_balance from_other_to_asset_scale) asset_wallet_balance;
          send_amount = f64_sub (f64_mul other_wallet_balance from_other_to_asset_scale) asset_exchange_balance
      in if f64_gt recv_amount (Fin 0) then Balancing_Recv recv_amount
         else if f64_gt send_amount (Fin 0) then Balancing_Send send_amount
         else Balancing_None)"

fun btc_balancing :: "balancing \<Rightarrow> asset_balancing" where
  "btc_balancing Balancing_None = AB_None"
| "btc_balancing (Balancing_Recv amount) = AB_RecvBtc amount"
| "btc_balancing (Balancing_Send amount) = AB_SendBtc amount"

fun usdt_balancing :: "balancing \<Rightarrow> asset_balancing" where
  "usdt_balancing Balancing_None = AB_None"
| "usdt_balancing (Balancing_Recv amount) = AB_RecvUsdt amount"
| "usdt_balancing (Balancing_Send amount) = AB_SendUsdt amount"

fun balancing_amount_usdt :: "f64 \<Rightarrow> asset_balancing \<Rightarrow> f64" where
  "balancing_amount_usdt price AB_None = Fin 0"
| "balancing_amount_usdt price (AB_RecvBtc v) = f64_mul v price"
| "balancing_amount_usdt price (AB_SendBtc v) = f64_mul v price"
| "balancing_amount_usdt price (AB_RecvUsdt v) = v"
| "balancing_amount_usdt price (AB_SendUsdt v) = v"

text \<open>The total of bitcoins, valued in dollars, is the smaller one.\<close>

definition bitcoin_smaller :: "f64 \<Rightarrow> f64 \<Rightarrow> f64 \<Rightarrow> f64 \<Rightarrow> f64 \<Rightarrow> bool" where
  "bitcoin_smaller wallet_bitcoin exchange_bitcoin wallet_usdt exchange_usdt price =
     f64_lt (f64_mul (f64_add wallet_bitcoin exchange_bitcoin) price) (f64_add wallet_usdt exchange_usdt)"

definition get_balancing :: "f64 \<Rightarrow> f64 \<Rightarrow> f64 \<Rightarrow> f64 \<Rightarrow> f64 \<Rightarrow> ('e, asset_balancing) outcome" where
  "get_balancing wallet_bitcoin exchange_bitcoin wallet_usdt exchange_usdt price =
     (if f64_eq price (Fin 0) \<or> f64_eq wallet_bitcoin (Fin 0) \<or> f64_eq exchange_bitcoin (Fin 0)
         \<or> f64_eq wallet_usdt (Fin 0) \<or> f64_eq exchange_usdt (Fin 0)
      then Ok AB_None
      else
        let smaller = bitcoin_smaller wallet_bitcoin exchange_bitcoin wallet_usdt exchange_usdt price in
        and_then (if smaller then get_balancing_smaller wallet_bitcoin exchange_bitcoin RATIO_BTC
                  else get_balancing_smaller wallet_usdt exchange_usdt RATIO_USDT) (\<lambda>smaller_balancing.
        let balancing = (case smaller_balancing of
              Balancing_None \<Rightarrow>
                (if smaller then usdt_balancing
                   (get_balancing_bigger wallet_usdt exchange_usdt wallet_bitcoin exchange_bitcoin price)
                 else btc_balancing
                   (get_balancing_bigger wallet_bitcoin exchange_bitcoin wallet_usdt exchange_usdt
                     (f64_div (Fin 1) price)))
            | b \<Rightarrow> if smaller then btc_balancing b else usdt_balancing b) in
        Ok (if f64_lt (balancing_amount_usdt price balancing) MIN_BALANCING_AMOUNT_USDT
            then AB_None else balancing)))"

section \<open>The transfer\<close>

definition notify_state :: "args \<Rightarrow> transfer_state \<Rightarrow> unit bf_io" where
  "notify_state args new_state =
     (if new_state = Failed then send_notification [Frag '':fire: balancing failed''] (a_notifications_url args)
      else if new_state = Complete then send_notification [Frag ''balancing complete''] (a_notifications_url args)
      else io_return ())"

definition update_balancing_state ::
    "bf_world \<Rightarrow> args \<Rightarrow> transfer_state \<Rightarrow> storage \<Rightarrow> storage bf_io" where
  "update_balancing_state bw args new_state storage =
     io_bind (io_lift (unwrap (st_balancing storage))) (\<lambda>balancing.
     io_bind (system_time bw) (\<lambda>now.
     let storage' = storage\<lparr> st_balancing := Some (balancing\<lparr> tr_updated_at := now, tr_state := new_state \<rparr>) \<rparr> in
     io_bind (notify_state args new_state) (\<lambda>_.
     io_bind (save_storage bw storage' (a_storage_path args)) (\<lambda>_.
     io_return storage'))))"

definition withdraw_msg :: "args \<Rightarrow> string \<Rightarrow> amount \<Rightarrow> proto_to" where
  "withdraw_msg args meth amount = To_Withdraw
     \<lparr> tw_key = a_bitfinex_key args, tw_secret = a_bitfinex_secret args,
       tw_wallet = BITFINEX_WALLET_EXCHANGE, tw_method = meth,
       tw_amount = to_bitcoin amount, tw_address = a_bitfinex_withdraw_address args \<rparr>"

definition transfer_msg :: "args \<Rightarrow> exchange_ticker \<Rightarrow> exchange_ticker \<Rightarrow> amount \<Rightarrow> proto_to" where
  "transfer_msg args currency currency_to amount = To_Transfer
     \<lparr> tt_key = a_bitfinex_key args, tt_secret = a_bitfinex_secret args,
       tt_from = BITFINEX_WALLET_EXCHANGE, tt_to = BITFINEX_WALLET_EXCHANGE,
       tt_currency = et_name currency, tt_currency_to = et_name currency_to,
       tt_amount = to_bitcoin amount \<rparr>"

text \<open>The two branches after a payment of the node to the exchange.\<close>

definition fund_exchange ::
    "bf_world \<Rightarrow> args \<Rightarrow> rpc_request \<Rightarrow> transfer_state \<Rightarrow> transfer \<Rightarrow> storage \<Rightarrow> storage bf_io" where
  "fund_exchange bw args request next balancing storage =
     io_bind (io_try (make_rpc_call (bw_world bw) (w_dec_text (bw_world bw)) request)) (\<lambda>result.
     case result of
       Inr txid \<Rightarrow> update_balancing_state bw args next
         (storage\<lparr> st_balancing := Some (balancing\<lparr> tr_txid := Some txid \<rparr>) \<rparr>)
     | Inl e \<Rightarrow> update_balancing_state bw args Failed storage)"

definition process_balancing ::
    "bf_world \<Rightarrow> args \<Rightarrow> wallet_balances \<Rightarrow> exchange_balances \<Rightarrow> bool \<Rightarrow> asset list \<Rightarrow> storage \<Rightarrow> storage bf_io" where
  "process_balancing bw args wallet_balances_confirmed exchange_balances module_connected assets storage =
     (case st_balancing storage of
        None \<Rightarrow> io_return storage
      | Some balancing \<Rightarrow>
          let amount = to_bitcoin (tr_amount balancing) in
          (case tr_state balancing of
             SendUsdtNew \<Rightarrow>
               (if f64_ge (balance_of wallet_balances_confirmed DEALER_USDT) amount
                   \<and> f64_gt (balance_of wallet_balances_confirmed DEALER_LBTC) (Fin 0)
                   \<and> module_connected
                then
                  io_bind (io_lift (unwrap (List.find (\<lambda>a. as_ticker a = TICKER_USDT) assets))) (\<lambda>asset.
                  fund_exchange bw args
                    (sendtoaddress_asset (a_bitfinex_fund_address args) amount (as_asset_id asset))
                    SendUsdtWaitConfirm balancing storage)
                else io_return storage)
           | RecvUsdtNew \<Rightarrow>
               (if (f64_ge (balance_of exchange_balances (a_bitfinex_currency_usdt args)) amount \<or> \<not> mainnet args)
                   \<and> module_connected
                then
                  io_bind (send_msg (withdraw_msg args BITFINEX_METHOD_USDT (tr_amount balancing))) (\<lambda>_.
                  update_balancing_state bw args RecvUsdtWaitWithdrawId storage)
                else io_return storage)
           | SendBtcNew \<Rightarrow>
               (if f64_ge (balance_of wallet_balances_confirmed DEALER_LBTC) amount \<and> module_connected
                then fund_exchange bw args (sendtoaddress_bitcoin (a_bitfinex_fund_address args) amount)
                       SendBtcWaitLbtcBalance balancing storage
                else io_return storage)
           | SendBtcWaitLbtcBalance \<Rightarrow>
               (if f64_eq (balance_of exchange_balances (a_bitfinex_currency_lbtc args)) amount \<and> module_connected
                then
                  io_bind (send_msg (transfer_msg args (a_bitfinex_currency_lbtc args)
                    (a_bitfinex_currency_btc args) (tr_amount balancing))) (\<lambda>_.
                  update_balancing_state bw args SendBtcWaitConfirm storage)
                else io_return storage)
           | SendBtcWaitConfirm \<Rightarrow>
               (case btree_get exchange_balances (a_bitfinex_currency_lbtc args) of
                  Some lbtc_balance \<Rightarrow>
                    (if f64_eq lbtc_balance (Fin 0) then update_balancing_state bw args Complete storage
                     else io_return storage)
                | None \<Rightarrow> io_return storage)
           | RecvBtcNew \<Rightarrow>
               (if (f64_ge (balance_of exchange_balances (a_bitfinex_currency_btc args)) amount \<or> \<not> mainnet args)
                   \<and> module_connected
                then
                  io_bind (send_msg (transfer_msg args (a_bitfinex_currency_btc args)
                    (a_bitfinex_currency_lbtc args) (tr_amount balancing))) (\<lambda>_.
                  update_balancing_state bw args RecvBtcWaitLbtcBalance storage)
                else io_return storage)
           | RecvBtcWaitLbtcBalance \<Rightarrow>
               (if f64_eq (balance_of exchange_balances (a_bitfinex_currency_lbtc args)) amount \<and> module_connected
                then
                  io_bind (send_msg (withdraw_msg args BITFINEX_METHOD_LBTC (tr_amount balancing))) (\<lambda>_.
                  update_balancing_state bw args RecvBtcWaitWithdrawId storage)
                else io_return storage)
           | Complete \<Rightarrow>
               (let storage' = storage\<lparr> st_balancing := None \<rparr> in
                io_bind (save_storage bw storage' (a_storage_path args)) (\<lambda>_. io_return storage'))
           | _ \<Rightarrow> io_return storage))"

definition process_withdraw :: "bf_world \<Rightarrow> args \<Rightarrow> i64 \<Rightarrow> storage \<Rightarrow> storage bf_io" where
  "process_withdraw bw args withdraw_id storage =
     (case st_balancing storage of
        None \<Rightarrow> io_return storage
      | Some balancing \<Rightarrow>
          let accepted = withdraw_id > 0 \<and> tr_withdraw_id balancing = None;
              storage' = storage\<lparr> st_balancing := Some (balancing\<lparr> tr_withdraw_id := Some withdraw_id \<rparr>) \<rparr> in
          if tr_state balancing = RecvUsdtWaitWithdrawId \<and> accepted
          then update_balancing_state bw args RecvUsdtWaitConfirm storage'
          else if tr_state balancing = RecvBtcWaitWithdrawId \<and> accepted
          then update_balancing_state bw args RecvBtcWaitConfirm storage'
          else update_balancing_state bw args Failed storage)"

definition completed_withdraw :: "from_movements \<Rightarrow> transfer \<Rightarrow> bool" where
  "completed_withdraw msg balancing \<longleftrightarrow>
     list_ex (\<lambda>item. Some (mv_id item) = tr_withdraw_id balancing \<and> mv_status item = BITFINEX_STATUS_COMPLETED)
       (fm_movements msg)"

definition confirm_transfer ::
    "bf_world \<Rightarrow> args \<Rightarrow> from_movements \<Rightarrow> transfer \<Rightarrow> storage \<Rightarrow> storage bf_io" where
  "confirm_transfer bw args msg balancing storage = (case tr_state balancing of
      SendUsdtWaitConfirm \<Rightarrow>
        io_bind (io_lift (unwrap (tr_txid balancing))) (\<lambda>txid.
        if list_ex (\<lambda>item. mv_transaction_id item = txid \<and> mv_status item = BITFINEX_STATUS_COMPLETED)
             (fm_movements msg)
        then update_balancing_state bw args Complete storage
        else io_return storage)
    | RecvUsdtWaitConfirm \<Rightarrow>
        (if completed_withdraw msg balancing then update_balancing_state bw args Complete storage
         else io_return storage)
    | RecvBtcWaitConfirm \<Rightarrow>
        (if completed_withdraw msg balancing then update_balancing_state bw args Complete storage
         else io_return storage)
    | _ \<Rightarrow> io_return storage)"

definition process_movements ::
    "bf_world \<Rightarrow> args \<Rightarrow> from_movements \<Rightarrow> from_movements option \<Rightarrow> storage
      \<Rightarrow> (from_movements option \<times> storage) bf_io" where
  "process_movements bw args msg movements storage =
     (if \<not> fm_success msg then io_return (movements, storage)
      else if (case movements of None \<Rightarrow> True | Some old \<Rightarrow> \<not> movements_eq msg old)
      then io_return (Some msg, storage)
      else case st_balancing storage of
        None \<Rightarrow> io_return (movements, storage)
      | Some balancing \<Rightarrow>
          io_bind (confirm_transfer bw args msg balancing storage) (\<lambda>storage.
          io_return (movements, storage)))"

definition process_transfer :: "bf_world \<Rightarrow> args \<Rightarrow> bool \<Rightarrow> storage \<Rightarrow> storage bf_io" where
  "process_transfer bw args success storage =
     (if st_balancing storage \<noteq> None \<and> \<not> success then update_balancing_state bw args Failed storage
      else io_return storage)"

end
