(* ===== verification/Bf_Main.thy ===== *)
theory Bf_Main
  imports Bf_Balancing
begin

text \<open>
  The main loop of the Bitfinex dealer (\<open>sideswap_dealer_bitfinex/src/main.rs\<close>): prices of the
  exchange are broadcast to the swap server, instant swaps are offered, signed and hedged by an
  order on the exchange, balances are reported, and transfers between wallet and exchange are
  started and driven.
\<close>

section \<open>Constants\<close>

definition DEALER_TICKERS :: "dealer_ticker list" where "DEALER_TICKERS = [DEALER_USDT, DEALER_EURX]"

definition MIN_BALANCE_BITCOIN :: f64 where "MIN_BALANCE_BITCOIN = f64_of_rat (5 / 100)"
definition MIN_BALANCE_TETHER :: f64 where "MIN_BALANCE_TETHER = Fin 2500"
definition BF_RESERVE :: f64 where "BF_RESERVE = f64_of_rat (99 / 100)"
definition MAX_RATIO_UPDATE_NOTIFICATION :: f64 where "MAX_RATIO_UPDATE_NOTIFICATION = f64_of_rat (5 / 100)"
definition PRICE_EXPIRED :: int where "PRICE_EXPIRED = from_secs 300"
definition INTEREST_DEFAULT_USDT :: f64 where "INTEREST_DEFAULT_USDT = f64_of_rat (10075 / 10000)"
definition INTEREST_TO_SIGN_USDT :: f64 where "INTEREST_TO_SIGN_USDT = f64_of_rat (10050 / 10000)"
definition INTEREST_DEFAULT_EURX :: f64 where "INTEREST_DEFAULT_EURX = f64_of_rat (10040 / 10000)"
definition INTEREST_TO_SIGN_EURX :: f64 where "INTEREST_TO_SIGN_EURX = f64_of_rat (10025 / 10000)"
definition MIN_HEDGE_AMOUNT :: f64 where "MIN_HEDGE_AMOUNT = f64_of_rat (2 / 10000)"
definition BITFINEX_FEE_PROD :: f64 where "BITFINEX_FEE_PROD = f64_of_rat (17 / 10000)"
definition BITFINEX_FEE_TEST :: f64 where "BITFINEX_FEE_TEST = f64_of_rat (2 / 1000)"
definition INSTANT_SWAP_WORK_AMOUNT :: f64 where "INSTANT_SWAP_WORK_AMOUNT = f64_of_rat (995 / 1000)"

section \<open>State\<close>

record instant_swap =
  is_send_asset :: asset_id

record module_price =
  mp_bid :: f64
  mp_ask :: f64
  mp_timestamp :: int

type_synonym module_prices = "(dealer_ticker, module_price) btree_map"
type_synonym pending_orders = "(i64, int) btree_map"

record profits_report =
  pr_wallet_balances :: wallet_balances
  pr_exchange_balances :: exchange_balances
  pr_created_at :: int

record bf_consts =
  bc_bitcoin_asset :: asset_id
  bc_asset_usdt :: asset_id
  bc_asset_eurx :: asset_id

record bf_state =
  bs_storage :: storage
  bs_movements :: "from_movements option"
  bs_balancing_blocked :: int
  bs_assets :: "asset list"
  bs_utxos :: utxos
  bs_server_status :: "server_status option"
  bs_instant_swaps :: "(order_id, instant_swap) btree_map"
  bs_server_connected :: bool
  bs_module_connected :: bool
  bs_wallet_balances :: wallet_balances
  bs_wallet_balances_confirmed :: wallet_balances
  bs_exchange_balances :: exchange_balances
  bs_exchange_balances_reported :: exchange_balances
  bs_profit_reports :: "profits_report option"
  bs_bitcoin_ratio_old :: "f64 option"
  bs_module_prices :: module_prices
  bs_broadcast_timestamps :: "(dealer_ticker, int) btree_map"
  bs_latest_check_exchange :: int
  bs_orders :: "(order_id, order_created) btree_map"
  bs_pending_orders :: pending_orders

definition book_names :: "args \<Rightarrow> (dealer_ticker, string) btree_map" where
  "book_names args = btree_insert DEALER_EURX (a_bitfinex_bookname_eurx args)
     (btree_insert DEALER_USDT (a_bitfinex_bookname_usdt args) [])"

definition book_tickers :: "args \<Rightarrow> (string, dealer_ticker) btree_map" where
  "book_tickers args = fold (\<lambda>(ticker, book). btree_insert book ticker) (book_names args) []"

definition params_of :: "args \<Rightarrow> params" where
  "params_of args = \<lparr> p_env = a_env args, p_server_host = a_server_host args,
     p_server_port = a_server_port args, p_server_use_tls = a_server_use_tls args, p_rpc = a_rpc args,
     p_interest_submit_usdt = INTEREST_DEFAULT_USDT, p_interest_sign_usdt = INTEREST_TO_SIGN_USDT,
     p_interest_submit_eurx = INTEREST_DEFAULT_EURX, p_interest_sign_eurx = INTEREST_TO_SIGN_EURX,
     p_tickers = sort [DEALER_USDT, DEALER_EURX],
     p_bitcoin_amount_submit = from_bitcoin (a_bitcoin_amount_submit args),
     p_bitcoin_amount_min = from_bitcoin (a_bitcoin_amount_min args),
     p_bitcoin_amount_max = from_bitcoin (a_bitcoin_amount_max args) \<rparr>"

section \<open>Balances and offers\<close>

definition add_if_ticker ::
    "'m world \<Rightarrow> asset list \<Rightarrow> unspent_item \<Rightarrow> amount \<times> amount \<Rightarrow> ('e, amount \<times> amount) outcome" where
  "add_if_ticker w assets utxo = (\<lambda>(bitcoin_amount, tether_amount).
     case List.find (\<lambda>a. as_asset_id a = ui_asset utxo) assets of
       None \<Rightarrow> Ok (bitcoin_amount, tether_amount)
     | Some asset \<Rightarrow>
         and_then (from_rpc w (ui_amount utxo)) (\<lambda>utxo_amount.
         Ok (if as_ticker asset = TICKER_LBTC then (i64_add bitcoin_amount utxo_amount, tether_amount)
             else if as_ticker asset = TICKER_USDT then (bitcoin_amount, i64_add tether_amount utxo_amount)
             else (bitcoin_amount, tether_amount))))"

definition bitcoin_ratio ::
    "'m world \<Rightarrow> unspent_item list \<Rightarrow> module_price \<Rightarrow> asset list \<Rightarrow> ('e, f64) outcome" where
  "bitcoin_ratio w unspent_with_zc price assets =
     and_then (fold_ok (add_if_ticker w assets) unspent_with_zc (0, 0)) (\<lambda>(bitcoin_amount, tether_amount).
     let expected_tether_price = f64_div (f64_add (mp_ask price) (mp_bid price)) (Fin 2);
         bitcoin_amount_from_tether = from_bitcoin (f64_div (to_bitcoin tether_amount) expected_tether_price);
         total_bitcoin_amount = i64_add bitcoin_amount bitcoin_amount_from_tether in
     Ok (if total_bitcoin_amount = 0 then Fin 0
         else f64_div (to_bitcoin bitcoin_amount) (to_bitcoin total_bitcoin_amount)))"

definition get_exchange_balance :: "exchange_balances \<Rightarrow> exchange_ticker \<Rightarrow> i64" where
  "get_exchange_balance exchange_balances name =
     from_bitcoin (f64_mul (balance_of exchange_balances name) BF_RESERVE)"

definition asset_of_ticker :: "asset list \<Rightarrow> string \<Rightarrow> ('e, asset_id) outcome" where
  "asset_of_ticker assets ticker =
     and_then (unwrap (List.find (\<lambda>v. as_ticker v = ticker) assets)) (\<lambda>a. Ok (as_asset_id a))"

definition wallet_amount :: "utxos \<Rightarrow> asset_id \<Rightarrow> i64" where
  "wallet_amount utxos asset =
     i64_sum (map u_amount (filter (\<lambda>u. ui_asset (u_item u) = asset) (btree_values utxos)))"

definition get_prices ::
    "args \<Rightarrow> dealer_ticker \<Rightarrow> price_pair \<Rightarrow> asset list \<Rightarrow> utxos \<Rightarrow> exchange_balances
      \<Rightarrow> ('e, price_offer list) outcome" where
  "get_prices args ticker prices assets utxos exchange_balances =
     (let exchange_btc_amount = get_exchange_balance exchange_balances (a_bitfinex_currency_btc args) in
      if ticker \<noteq> DEALER_USDT \<and> ticker \<noteq> DEALER_EURX then Ok []
      else
        let exchange_asset_currency =
              (if ticker = DEALER_USDT then a_bitfinex_currency_usdt args else a_bitfinex_currency_eur args);
            exchange_asset_amount =
              (if ticker = DEALER_EURX then i64_mul (i64_mul 10 COIN) (f64_as_i64 (pp_ask prices))
               else get_exchange_balance exchange_balances exchange_asset_currency) in
        and_then (asset_of_ticker assets TICKER_LBTC) (\<lambda>btc_asset.
        and_then (asset_of_ticker assets (dt_name ticker)) (\<lambda>asset.
        let wallet_btc_amount = wallet_amount utxos btc_asset;
            wallet_asset_amount = wallet_amount utxos asset;
            max_send_asset_amount = f64_as_i64 (f64_mul
              (f64_min (f64_mul (int_as_f64 wallet_btc_amount) (pp_ask prices)) (int_as_f64 exchange_asset_amount))
              INSTANT_SWAP_WORK_AMOUNT);
            max_send_bitcoin_amount = f64_as_i64 (f64_mul
              (f64_min (int_as_f64 exchange_btc_amount) (f64_div (int_as_f64 wallet_asset_amount) (pp_bid prices)))
              INSTANT_SWAP_WORK_AMOUNT) in
        Ok ((if max_send_asset_amount > 0
             then [\<lparr> of_client_send_bitcoins = False, of_price = pp_ask prices,
                     of_max_send_amount = max_send_asset_amount \<rparr>] else []) @
            (if max_send_bitcoin_amount > 0
             then [\<lparr> of_client_send_bitcoins = True, of_price = pp_bid prices,
                     of_max_send_amount = max_send_bitcoin_amount \<rparr>] else [])))))"

definition get_exchange_ticker :: "exchange_ticker \<Rightarrow> args \<Rightarrow> dealer_ticker option" where
  "get_exchange_ticker ticker args =
     (if ticker = a_bitfinex_currency_btc args then Some DEALER_LBTC
      else if ticker = a_bitfinex_currency_usdt args then Some DEALER_USDT
      else if ticker = a_bitfinex_currency_eur args then Some DEALER_EURX
      else None)"

section \<open>Hedging\<close>

definition bf_fee :: "args \<Rightarrow> f64" where
  "bf_fee args = (if mainnet args then BITFINEX_FEE_PROD else BITFINEX_FEE_TEST)"

definition signed_bitcoin_amount :: "args \<Rightarrow> amount \<Rightarrow> bool \<Rightarrow> f64" where
  "signed_bitcoin_amount args bitcoin_amount send_bitcoins =
     (if send_bitcoins
      then to_bitcoin (from_bitcoin (f64_div (to_bitcoin bitcoin_amount) (f64_sub (Fin 1) (bf_fee args))))
      else f64_neg (to_bitcoin bitcoin_amount))"

definition hedge_order ::
    "bf_world \<Rightarrow> args \<Rightarrow> dealer_ticker \<Rightarrow> amount \<Rightarrow> bool \<Rightarrow> bf_state \<Rightarrow> bf_state bf_io" where
  "hedge_order bw args dealer_ticker bitcoin_amount send_bitcoins s =
     io_bind (instant_now (bw_world bw)) (\<lambda>blocked.
     let s = s\<lparr> bs_balancing_blocked := blocked \<rparr> in
     if f64_ge (to_bitcoin bitcoin_amount) MIN_HEDGE_AMOUNT then
       io_bind (instant_now (bw_world bw)) (\<lambda>created_at.
       let s = s\<lparr> bs_profit_reports := Some \<lparr> pr_wallet_balances = bs_wallet_balances s,
             pr_exchange_balances = bs_exchange_balances s, pr_created_at = created_at \<rparr> \<rparr> in
       io_bind (timestamp_now bw) (\<lambda>cid.
       io_bind (io_lift (unwrap (btree_get (book_names args) dealer_ticker))) (\<lambda>bookname.
       io_bind (send_msg (To_OrderSubmit \<lparr> os_book_name = bookname, os_cid = cid,
         os_amount = signed_bitcoin_amount args bitcoin_amount send_bitcoins \<rparr>)) (\<lambda>_.
       io_bind (instant_now (bw_world bw)) (\<lambda>sent_at.
       io_return (s\<lparr> bs_pending_orders := btree_insert cid sent_at (bs_pending_orders s) \<rparr>))))))
     else io_return s)"

section \<open>Price broadcast\<close>

fun as_price_update :: "api_response \<Rightarrow> unit option" where
  "as_price_update Resp_PriceUpdateBroadcast = Some ()" | "as_price_update _ = None"

fun as_broadcast_price :: "api_response \<Rightarrow> unit option" where
  "as_broadcast_price Resp_BroadcastPriceStream = Some ()" | "as_broadcast_price _ = None"

fun as_login_dealer :: "api_response \<Rightarrow> unit option" where
  "as_login_dealer Resp_LoginDealer = Some ()" | "as_login_dealer _ = None"

fun as_server_status :: "api_response \<Rightarrow> server_status option" where
  "as_server_status (Resp_ServerStatus st) = Some st" | "as_server_status _ = None"

fun as_start_swap :: "api_response \<Rightarrow> unit option" where
  "as_start_swap Resp_StartSwapDealer = Some ()" | "as_start_swap _ = None"

fun as_signed_swap :: "api_response \<Rightarrow> unit option" where
  "as_signed_swap Resp_SignedSwapDealer = Some ()" | "as_signed_swap _ = None"

text \<open>A request whose failure is only logged.\<close>

definition request_logged :: "bf_world \<Rightarrow> (api_response \<Rightarrow> unit option) \<Rightarrow> api_request \<Rightarrow> unit bf_io" where
  "request_logged bw proj request =
     io_bind (io_try (send_request_as (bw_world bw) proj request)) (\<lambda>_. io_return ())"

definition interest_default :: "bf_consts \<Rightarrow> asset_id \<Rightarrow> ('e, f64) outcome" where
  "interest_default c asset =
     (if asset = bc_asset_usdt c then Ok INTEREST_DEFAULT_USDT
      else if asset = bc_asset_eurx c then Ok INTEREST_DEFAULT_EURX else Panic)"

definition broadcast_price ::
    "bf_world \<Rightarrow> args \<Rightarrow> bf_consts \<Rightarrow> int \<Rightarrow> bf_state \<Rightarrow> dealer_ticker \<times> module_price
      \<Rightarrow> (dealer_ticker, int) btree_map \<Rightarrow> (dealer_ticker, int) btree_map bf_io" where
  "broadcast_price bw args c now s = (\<lambda>(ticker, price) timestamps.
     let expired = (case btree_get timestamps ticker of
           Some timestamp \<Rightarrow> duration_since now timestamp > from_secs 1 | None \<Rightarrow> True) in
     if expired \<and> bs_server_connected s then
       io_bind (io_lift (unwrap (List.find (\<lambda>v. as_ticker v = dt_name ticker) (bs_assets s)))) (\<lambda>asset.
       io_bind (io_lift (interest_default c (as_asset_id asset))) (\<lambda>interest.
       let price_new = \<lparr> pp_bid = f64_div (mp_bid price) interest, pp_ask = f64_mul (mp_ask price) interest \<rparr> in
       io_bind (if a_api_key args \<noteq> None \<and> bs_server_status s \<noteq> None then
           io_bind (request_logged bw as_price_update
             (Req_PriceUpdateBroadcast (as_asset_id asset) price_new)) (\<lambda>_.
           io_bind (io_lift (get_prices args ticker price_new (bs_assets s) (bs_utxos s)
             (bs_exchange_balances s))) (\<lambda>list.
           request_logged bw as_broadcast_price (Req_BroadcastPriceStream (as_asset_id asset) list
             (st_balancing (bs_storage s) \<noteq> None))))
         else io_return ()) (\<lambda>_.
       io_return (btree_insert ticker now timestamps))))
     else io_return timestamps)"

definition broadcast_prices ::
    "bf_world \<Rightarrow> args \<Rightarrow> bf_consts \<Rightarrow> int \<Rightarrow> bf_state \<Rightarrow> bf_state bf_io" where
  "broadcast_prices bw args c now s =
     io_bind (io_fold (broadcast_price bw args c now s) (bs_module_prices s) (bs_broadcast_timestamps s)) (\<lambda>timestamps.
     io_return (s\<lparr> bs_broadcast_timestamps := timestamps \<rparr>))"

section \<open>The server\<close>

definition bf_self :: "bf_msg \<Rightarrow> unit bf_io" where
  "bf_self msg = bf_emit (BO_Self msg)"

definition bf_on_connected :: "bf_world \<Rightarrow> args \<Rightarrow> bf_state \<Rightarrow> bf_state bf_io" where
  "bf_on_connected bw args s =
     io_bind (send_notification [Frag ''connected to the server''] (a_notifications_url args)) (\<lambda>_.
     io_bind (case a_api_key args of
         Some api_key \<Rightarrow> io_expect (send_request_as (bw_world bw) as_login_dealer (Req_LoginDealer api_key))
       | None \<Rightarrow> io_return ()) (\<lambda>_.
     io_bind (io_expect (send_request_as (bw_world bw) as_assets (Req_Assets False))) (\<lambda>assets.
     io_bind (io_expect (send_request_as (bw_world bw) as_login (Req_Login None))) (\<lambda>login_orders.
     io_bind (io_expect (send_request_as (bw_world bw) as_server_status Req_ServerStatus)) (\<lambda>status.
     io_bind (bf_self BM_ReloadUtxo) (\<lambda>_.
     io_return (s\<lparr> bs_assets := assets, bs_orders := insert_orders login_orders (bs_orders s),
       bs_server_status := Some status, bs_server_connected := True \<rparr>)))))))"

definition bf_on_disconnected :: "args \<Rightarrow> bf_state \<Rightarrow> bf_state bf_io" where
  "bf_on_disconnected args s =
     io_bind (send_notification [Frag ''disconnected from the server''] (a_notifications_url args)) (\<lambda>_.
     io_return (s\<lparr> bs_server_connected := False \<rparr>))"

section \<open>Instant swaps\<close>

definition swap_input :: "'m world \<Rightarrow> utxo \<Rightarrow> ('e, pset_input) outcome" where
  "swap_input w utxo =
     and_then (unwrap (ui_assetblinder (u_item utxo))) (\<lambda>asset_bf.
     and_then (from_rpc w (ui_amount (u_item utxo))) (\<lambda>amount.
     and_then (unwrap (ui_amountblinder (u_item utxo))) (\<lambda>value_bf.
     Ok \<lparr> pi_txid = ui_txid (u_item utxo), pi_vout = ui_vout (u_item utxo), pi_asset = ui_asset (u_item utxo),
          pi_asset_bf = asset_bf, pi_value = wrap_u64 amount, pi_value_bf = value_bf,
          pi_redeem_script = ui_redeem_script (u_item utxo) \<rparr>)))"

definition on_start_swap_dealer :: "bf_world \<Rightarrow> order_id \<Rightarrow> asset_id \<Rightarrow> bf_state \<Rightarrow> bf_state bf_io" where
  "on_start_swap_dealer bw order_id send_asset s =
     io_bind (io_lift (mapM_ok (swap_input (bw_world bw))
       (filter (spendable send_asset) (btree_values (bs_utxos s))))) (\<lambda>inputs.
     io_bind (new_address (bw_world bw)) (\<lambda>recv_addr.
     io_bind (new_address (bw_world bw)) (\<lambda>change_addr.
     io_bind (request_logged bw as_start_swap (Req_StartSwapDealer order_id inputs recv_addr change_addr)) (\<lambda>_.
     io_return (s\<lparr> bs_instant_swaps :=
       btree_insert order_id \<lparr> is_send_asset = send_asset \<rparr> (bs_instant_swaps s) \<rparr>)))))"

text \<open>The outputs the wallet offered for the swap, by outpoint.\<close>

definition own_inputs :: "asset_id \<Rightarrow> utxos \<Rightarrow> utxos" where
  "own_inputs send_asset utxos =
     fold (\<lambda>u. btree_insert (ui_tx_out (u_item u)) u) (filter (spendable send_asset) (btree_values utxos)) []"

definition on_blinded_swap_dealer :: "bf_world \<Rightarrow> order_id \<Rightarrow> string \<Rightarrow> bf_state \<Rightarrow> bf_state bf_io" where
  "on_blinded_swap_dealer bw order_id data_pset s =
     (let w = bw_world bw in
      io_bind (io_lift (unwrap (w_base64_decode w data_pset))) (\<lambda>bytes.
      io_bind (io_lift (unwrap (w_pset_decode w bytes))) (\<lambda>pset.
      io_bind (io_lift (unwrap (btree_get (bs_instant_swaps s) order_id))) (\<lambda>swap.
      io_bind (io_lift (unwrap (w_extract_tx w pset))) (\<lambda>tx.
      io_bind (io_fold (\<lambda>input pset. io_expect
          (sign_input w (own_inputs (is_send_asset swap) (bs_utxos s)) tx input pset))
        (enumerate 0 (tx_input tx)) pset) (\<lambda>pset.
      io_bind (request_logged bw as_signed_swap
        (Req_SignedSwapDealer order_id (w_base64_encode w (w_pset_encode w pset)))) (\<lambda>_.
      io_return s)))))))"

definition on_swap_done :: "bf_world \<Rightarrow> args \<Rightarrow> bf_consts \<Rightarrow> swap_done \<Rightarrow> bf_state \<Rightarrow> bf_state bf_io" where
  "on_swap_done bw args c swap s =
     io_bind (io_lift (unwrap (btree_get (bs_instant_swaps s) (sd_order_id swap)))) (\<lambda>active_swap.
     let s = s\<lparr> bs_instant_swaps := btree_remove (sd_order_id swap) (bs_instant_swaps s) \<rparr> in
     if sd_status swap = Done_Success then
       io_bind (io_lift (unwrap (sd_txid swap))) (\<lambda>txid.
       let dealer_send_bitcoins = (sd_recv_asset swap = bc_bitcoin_asset c);
           (asset_id, bitcoin_amount) =
             (if sd_recv_asset swap = bc_bitcoin_asset c then (sd_send_asset swap, sd_recv_amount swap)
              else (sd_recv_asset swap, sd_send_amount swap)) in
       io_bind (io_lift (unwrap (List.find (\<lambda>v. as_asset_id v = asset_id) (bs_assets s)))) (\<lambda>asset.
       io_bind (io_lift (unwrap (List.find (\<lambda>t. dt_name t = as_ticker asset) DEALER_TICKERS))) (\<lambda>dealer_ticker.
       hedge_order bw args dealer_ticker bitcoin_amount dealer_send_bitcoins s)))
     else io_return s)"

definition bf_on_notification ::
    "bf_world \<Rightarrow> args \<Rightarrow> bf_consts \<Rightarrow> api_notification \<Rightarrow> bf_state \<Rightarrow> bf_state bf_io" where
  "bf_on_notification bw args c notification s = (case notification of
      Ntf_ServerStatus status \<Rightarrow> io_return (s\<lparr> bs_server_status := Some status \<rparr>)
    | Ntf_OrderCreated order \<Rightarrow>
        (if oc_own order = None then
           io_bind (bf_self BM_Timer) (\<lambda>_.
           io_return (s\<lparr> bs_orders := btree_insert (oc_order_id order) order (bs_orders s) \<rparr>))
         else io_return s)
    | Ntf_OrderRemoved order_id \<Rightarrow> io_return (s\<lparr> bs_orders := btree_remove order_id (bs_orders s) \<rparr>)
    | Ntf_StartSwapDealer order_id send_asset \<Rightarrow> on_start_swap_dealer bw order_id send_asset s
    | Ntf_BlindedSwapDealer order_id pset \<Rightarrow> on_blinded_swap_dealer bw order_id pset s
    | Ntf_SwapDone swap \<Rightarrow> on_swap_done bw args c swap s
    | _ \<Rightarrow> io_return s)"

section \<open>The wallet\<close>

text \<open>Totals per asset: of all outputs, and of the confirmed ones (an asset with no confirmed output
  has the confirmed total zero).\<close>

definition add_balance :: "asset_id \<Rightarrow> f64 \<Rightarrow> (asset_id, f64) btree_map \<Rightarrow> (asset_id, f64) btree_map" where
  "add_balance asset amount m = btree_insert asset (f64_add (balance_of m asset) amount) m"

definition touch_balance :: "asset_id \<Rightarrow> (asset_id, f64) btree_map \<Rightarrow> (asset_id, f64) btree_map" where
  "touch_balance asset m = btree_insert asset (balance_of m asset) m"

definition wallet_totals ::
    "'m world \<Rightarrow> unspent_item list \<Rightarrow> ('e, (asset_id, f64) btree_map \<times> (asset_id, f64) btree_map) outcome" where
  "wallet_totals w items = fold_ok (\<lambda>item (amounts, confirmed).
     and_then (from_rpc w (ui_amount item)) (\<lambda>amount.
     Ok (add_balance (ui_asset item) (to_bitcoin amount) amounts,
         if ui_confirmations item > 0 then add_balance (ui_asset item) (to_bitcoin amount) confirmed
         else touch_balance (ui_asset item) confirmed))) items ([], [])"

definition balance_frags :: "string \<Rightarrow> (string \<times> f64) list \<Rightarrow> text_frag list" where
  "balance_frags prefix balances = Frag prefix # tl (concat (map (\<lambda>(name, balance).
     [Frag '', '', Frag name, Frag '': '', Frag_Fixed8 balance]) balances))"

definition update_bitcoin_ratio ::
    "bf_world \<Rightarrow> unspent_item list \<Rightarrow> bf_state \<Rightarrow> bf_state bf_io" where
  "update_bitcoin_ratio bw items s = (case btree_get (bs_module_prices s) DEALER_USDT of
      None \<Rightarrow> io_return s
    | Some price \<Rightarrow>
        if bs_assets s = [] then io_return s
        else
          io_bind (io_lift (bitcoin_ratio (bw_world bw) items price (bs_assets s))) (\<lambda>ratio.
          let send_update = (case bs_bitcoin_ratio_old s of
                Some v \<Rightarrow> f64_ge (f64_abs (f64_sub v ratio)) MAX_RATIO_UPDATE_NOTIFICATION | None \<Rightarrow> True) in
          io_return (if send_update then s\<lparr> bs_bitcoin_ratio_old := Some ratio \<rparr> else s)))"

definition bf_on_reload_utxo :: "bf_world \<Rightarrow> args \<Rightarrow> bf_state \<Rightarrow> bf_state bf_io" where
  "bf_on_reload_utxo bw args s =
     (let w = bw_world bw in
      io_bind (io_expect (make_rpc_call w (w_dec_unspent w) (listunspent 0))) (\<lambda>unspent_with_zc.
      io_bind (io_lift (wallet_totals w unspent_with_zc)) (\<lambda>(asset_amounts, asset_amounts_confirmed).
      let wallet_balances_new = ticker_balances (bs_assets s) asset_amounts;
          s = s\<lparr> bs_wallet_balances_confirmed := ticker_balances (bs_assets s) asset_amounts_confirmed \<rparr> in
      io_bind (if \<not> balances_eq (bs_wallet_balances s) wallet_balances_new then
          io_bind (send_notification (balance_frags ''ss: ''
            (map (\<lambda>(t, b). (dt_name t, b)) wallet_balances_new)) (a_notifications_url args)) (\<lambda>_.
          io_return (s\<lparr> bs_wallet_balances := wallet_balances_new \<rparr>))
        else io_return s) (\<lambda>s.
      io_bind (update_bitcoin_ratio bw unspent_with_zc s) (\<lambda>s.
      io_bind (io_expect (io_lift (reload_utxos w unspent_with_zc (bs_utxos s)))) (\<lambda>utxos.
      io_return (s\<lparr> bs_utxos := utxos \<rparr>)))))))"

section \<open>The exchange module\<close>

definition dealer_send :: "dealer_to \<Rightarrow> unit bf_io" where
  "dealer_send to = bf_emit (BO_Dealer to)"

fun io_each :: "('x \<Rightarrow> unit bf_io) \<Rightarrow> 'x list \<Rightarrow> unit bf_io" where
  "io_each f [] = io_return ()"
| "io_each f (x # xs) = io_bind (f x) (\<lambda>_. io_each f xs)"

definition on_module_connected :: "args \<Rightarrow> bf_state \<Rightarrow> bf_state bf_io" where
  "on_module_connected args s =
     io_bind (send_notification [Frag ''module connection online''] (a_notifications_url args)) (\<lambda>_.
     io_bind (send_msg (To_Login (a_bitfinex_key args) (a_bitfinex_secret args))) (\<lambda>_.
     io_bind (io_each (\<lambda>book_name. send_msg (To_Subscribe book_name)) (btree_values (book_names args))) (\<lambda>_.
     io_bind (bf_self BM_CheckExchange) (\<lambda>_.
     io_return (s\<lparr> bs_module_connected := True \<rparr>)))))"

definition on_module_disconnected :: "args \<Rightarrow> bf_state \<Rightarrow> bf_state bf_io" where
  "on_module_disconnected args s =
     io_bind (send_notification [Frag ''module connection offline''] (a_notifications_url args)) (\<lambda>_.
     io_bind (io_each (\<lambda>ticker. dealer_send (To_Price ticker None)) (p_tickers (params_of args))) (\<lambda>_.
     io_return (s\<lparr> bs_module_connected := False, bs_module_prices := [] \<rparr>)))"

definition on_book_update :: "args \<Rightarrow> int \<Rightarrow> string \<Rightarrow> price_pair \<Rightarrow> bf_state \<Rightarrow> bf_state bf_io" where
  "on_book_update args now book_name price s =
     io_bind (io_lift (unwrap (btree_get (book_tickers args) book_name))) (\<lambda>ticker.
     io_bind (dealer_send (To_Price ticker (Some price))) (\<lambda>_.
     io_bind (if btree_get (bs_module_prices s) ticker = None then
         send_notification [Frag ''module price refreshed: '', Frag_F64 (pp_ask price), Frag ''/'',
           Frag_F64 (pp_bid price), Frag '' for '', Frag (dt_name ticker)] (a_notifications_url args)
       else io_return ()) (\<lambda>_.
     io_return (s\<lparr> bs_module_prices := btree_insert ticker
       \<lparr> mp_bid = pp_bid price, mp_ask = pp_ask price, mp_timestamp = now \<rparr> (bs_module_prices s) \<rparr>))))"

definition on_wallet_update :: "args \<Rightarrow> string \<Rightarrow> f64 \<Rightarrow> bf_state \<Rightarrow> bf_state bf_io" where
  "on_wallet_update args msg_currency balance s =
     (let currency = ExchangeTicker msg_currency;
          old_balance = btree_get (bs_exchange_balances s) currency in
      if (case old_balance of Some old \<Rightarrow> \<not> f64_eq old balance | None \<Rightarrow> True) then
        io_bind (case get_exchange_ticker currency args of
            Some ticker \<Rightarrow> dealer_send (To_LimitBalance ticker True (f64_mul balance BF_RESERVE))
          | None \<Rightarrow> io_return ()) (\<lambda>_.
        io_bind (if old_balance \<noteq> None then bf_self BM_CheckExchange else io_return ()) (\<lambda>_.
        io_return (s\<lparr> bs_exchange_balances := btree_insert currency balance (bs_exchange_balances s) \<rparr>)))
      else io_return s)"

definition on_module_message ::
    "bf_world \<Rightarrow> args \<Rightarrow> int \<Rightarrow> proto_from \<Rightarrow> bf_state \<Rightarrow> bf_state bf_io" where
  "on_module_message bw args now msg s = (case msg of
      From_BookUpdate book_name price \<Rightarrow> on_book_update args now book_name price s
    | From_OrderConfirm msg \<Rightarrow>
        io_return (s\<lparr> bs_pending_orders := btree_remove (cf_cid msg) (bs_pending_orders s) \<rparr>)
    | From_WalletUpdate currency balance \<Rightarrow> on_wallet_update args currency balance s
    | From_Withdraw withdraw_id \<Rightarrow>
        io_bind (process_withdraw bw args withdraw_id (bs_storage s)) (\<lambda>storage.
        io_return (s\<lparr> bs_storage := storage \<rparr>))
    | From_Movements msg \<Rightarrow>
        io_bind (process_movements bw args msg (bs_movements s) (bs_storage s)) (\<lambda>(movements, storage).
        io_return (s\<lparr> bs_movements := movements, bs_storage := storage \<rparr>))
    | From_Transfer success \<Rightarrow>
        io_bind (process_transfer bw args success (bs_storage s)) (\<lambda>storage.
        io_return (s\<lparr> bs_storage := storage \<rparr>))
    | From_Error error \<Rightarrow>
        io_bind (send_notification [Frag ''module failed: '', Frag error] (a_notifications_url args)) (\<lambda>_.
        io_return s))"

section \<open>The timer\<close>

definition balancing_expired :: "bf_world \<Rightarrow> storage \<Rightarrow> bool bf_io" where
  "balancing_expired bw storage = (case st_balancing storage of
      None \<Rightarrow> io_return False
    | Some balancing \<Rightarrow>
        io_bind (system_time bw) (\<lambda>now.
        io_bind (io_lift (unwrap (system_duration_since now (tr_created_at balancing)))) (\<lambda>age.
        io_return (age > from_secs (30 * 60)))))"

definition health_status :: "args \<Rightarrow> bool \<Rightarrow> bf_state \<Rightarrow> string list" where
  "health_status args expired s =
     (let wallet = balance_of (bs_wallet_balances s);
          exchange = balance_of (bs_exchange_balances s) in
      map snd (filter fst
        [(\<not> bs_module_connected s, ''ServerOffline''),
         (\<not> bs_server_connected s, ''ModuleOffline''),
         (length (bs_module_prices s) \<noteq> length DEALER_TICKERS, ''PriceExpired''),
         (f64_lt (wallet DEALER_LBTC) MIN_BALANCE_BITCOIN, ''WalletBitcoinLow''),
         (f64_lt (exchange (a_bitfinex_currency_btc args)) MIN_BALANCE_BITCOIN, ''ExchangeBitcoinLow''),
         (f64_lt (wallet DEALER_USDT) MIN_BALANCE_TETHER, ''WalletTetherLow''),
         (f64_lt (exchange (a_bitfinex_currency_usdt args)) MIN_BALANCE_TETHER, ''ExchangeTetherLow''),
         (expired, ''BalancingStuck'')]))"

fun join_comma :: "string list \<Rightarrow> string" where
  "join_comma [] = []"
| "join_comma [x] = x"
| "join_comma (x # y # xs) = x @ '','' @ join_comma (y # xs)"

definition health_text :: "string list \<Rightarrow> string option" where
  "health_text status = (if status = [] then None else Some (join_comma status))"

text \<open>What the status page answers (\<open>health\<close>).\<close>

definition health_response :: "string option \<Rightarrow> string" where
  "health_response status = unwrap_or status ''NoError''"

fun cli_request_of :: "asset_balancing \<Rightarrow> cli_request option" where
  "cli_request_of AB_None = None"
| "cli_request_of (AB_RecvBtc amount) = Some (TestRecvBtc amount)"
| "cli_request_of (AB_SendBtc amount) = Some (TestSendBtc amount)"
| "cli_request_of (AB_RecvUsdt amount) = Some (TestRecvUsdt amount)"
| "cli_request_of (AB_SendUsdt amount) = Some (TestSendUsdt amount)"

definition send_cli_request :: "cli_request \<Rightarrow> unit bf_io" where
  "send_cli_request req = bf_self (BM_Cli \<lparr> cr_req = req, cr_resp_tx = None \<rparr>)"

definition start_balancing :: "args \<Rightarrow> int \<Rightarrow> bf_state \<Rightarrow> unit bf_io" where
  "start_balancing args now s = (case btree_get (bs_module_prices s) DEALER_USDT of
      Some usdt_price \<Rightarrow>
        (if st_balancing (bs_storage s) = None \<and> mainnet args
            \<and> duration_since now (bs_balancing_blocked s) > from_secs 60 \<and> a_balancing_enabled args
         then
           io_bind (io_lift (get_balancing
             (balance_of (bs_wallet_balances s) DEALER_LBTC)
             (balance_of (bs_exchange_balances s) (a_bitfinex_currency_btc args))
             (balance_of (bs_wallet_balances s) DEALER_USDT)
             (balance_of (bs_exchange_balances s) (a_bitfinex_currency_usdt args))
             (f64_div (f64_add (mp_bid usdt_price) (mp_ask usdt_price)) (Fin 2)))) (\<lambda>balancing.
           case cli_request_of balancing of None \<Rightarrow> io_return () | Some req \<Rightarrow> send_cli_request req)
         else io_return ())
    | None \<Rightarrow> io_return ())"

definition expire_module_price ::
    "args \<Rightarrow> int \<Rightarrow> dealer_ticker \<Rightarrow> module_prices \<Rightarrow> module_prices bf_io" where
  "expire_module_price args now ticker prices = (case btree_get prices ticker of
      None \<Rightarrow> io_return prices
    | Some price \<Rightarrow>
        if duration_since now (mp_timestamp price) > PRICE_EXPIRED \<and> mainnet args then
          io_bind (send_notification [Frag ''module price expired for '', Frag (dt_name ticker)]
            (a_notifications_url args)) (\<lambda>_.
          io_bind (dealer_send (To_Price ticker None)) (\<lambda>_.
          io_return (btree_remove ticker prices)))
        else io_return prices)"

definition report_exchange_balances :: "args \<Rightarrow> bf_state \<Rightarrow> bf_state bf_io" where
  "report_exchange_balances args s =
     (if \<not> balances_eq (bs_exchange_balances_reported s) (bs_exchange_balances s) then
        io_bind (send_notification (balance_frags ''bf: ''
          (map (\<lambda>(c, b). (et_name c, b)) (bs_exchange_balances s))) (a_notifications_url args)) (\<lambda>_.
        io_return (s\<lparr> bs_exchange_balances_reported := bs_exchange_balances s \<rparr>))
      else io_return s)"

definition profit_timeout :: "bf_world \<Rightarrow> bf_state \<Rightarrow> bf_state bf_io" where
  "profit_timeout bw s = (case bs_profit_reports s of
      None \<Rightarrow> io_return s
    | Some data \<Rightarrow>
        io_bind (instant_now (bw_world bw)) (\<lambda>t.
        io_return (if duration_since t (pr_created_at data) > from_secs 60
          then s\<lparr> bs_profit_reports := None \<rparr> else s)))"

text \<open>Wallet and exchange balance of one asset, before the swap and now.\<close>

definition both_changed :: "f64 \<times> f64 \<Rightarrow> f64 \<times> f64 \<Rightarrow> bool" where
  "both_changed = (\<lambda>(wallet, exchange) (wallet_old, exchange_old).
     \<not> f64_eq wallet wallet_old \<and> \<not> f64_eq exchange exchange_old)"

definition total_change :: "f64 \<times> f64 \<Rightarrow> f64 \<times> f64 \<Rightarrow> f64" where
  "total_change = (\<lambda>(wallet, exchange) (wallet_old, exchange_old).
     f64_sub (f64_sub (f64_add wallet exchange) wallet_old) exchange_old)"

definition report_profit :: "args \<Rightarrow> bf_state \<Rightarrow> bf_state bf_io" where
  "report_profit args s = (case bs_profit_reports s of
      None \<Rightarrow> io_return s
    | Some data \<Rightarrow>
        let new = (\<lambda>ticker currency. (balance_of (bs_wallet_balances s) ticker,
              balance_of (bs_exchange_balances s) currency));
            old = (\<lambda>ticker currency. (balance_of (pr_wallet_balances data) ticker,
              balance_of (pr_exchange_balances data) currency));
            btc = a_bitfinex_currency_btc args; usdt = a_bitfinex_currency_usdt args;
            eur = a_bitfinex_currency_eur args;
            updated = (\<lambda>ticker currency. both_changed (new ticker currency) (old ticker currency));
            change = (\<lambda>ticker currency. total_change (new ticker currency) (old ticker currency)) in
        if updated DEALER_LBTC btc \<and> (updated DEALER_USDT usdt \<or> updated DEALER_EURX eur) then
          io_bind (send_notification
            [Frag ''swap complete, balance change: bitcoin: '', Frag_Fixed8 (change DEALER_LBTC btc),
             Frag '', usdt: '', Frag_Fixed8 (change DEALER_USDT usdt),
             Frag '', eurx: '', Frag_Fixed8 (change DEALER_EURX eur)] (a_notifications_url args)) (\<lambda>_.
          io_return (s\<lparr> bs_profit_reports := None \<rparr>))
        else io_return s)"

definition expire_pending_order :: "args \<Rightarrow> i64 \<Rightarrow> pending_orders \<Rightarrow> pending_orders bf_io" where
  "expire_pending_order args cid orders =
     io_bind (send_notification [Frag '':fire: bf order '', Frag_Int cid, Frag '' timeout'']
       (a_notifications_url args)) (\<lambda>_.
     io_return (btree_remove cid orders))"

definition expired_orders :: "int \<Rightarrow> pending_orders \<Rightarrow> i64 list" where
  "expired_orders now orders =
     map fst (filter (\<lambda>(_, timestamp). duration_since now timestamp > from_secs 30) orders)"

text \<open>The last part of the timer: the regular query of the exchange, the profit of the last swap, and
  orders the exchange did not confirm in time.\<close>

definition timer_reports :: "bf_world \<Rightarrow> args \<Rightarrow> int \<Rightarrow> bf_state \<Rightarrow> bf_state bf_io" where
  "timer_reports bw args now s =
     io_bind (if duration_since now (bs_latest_check_exchange s) > from_secs 60 then
         io_bind (bf_self BM_CheckExchange) (\<lambda>_. io_return (s\<lparr> bs_latest_check_exchange := now \<rparr>))
       else io_return s) (\<lambda>s.
     io_bind (profit_timeout bw s) (\<lambda>s.
     io_bind (report_profit args s) (\<lambda>s.
     io_bind (io_fold (expire_pending_order args) (expired_orders now (bs_pending_orders s))
       (bs_pending_orders s)) (\<lambda>orders.
     io_return (s\<lparr> bs_pending_orders := orders \<rparr>)))))"

definition bf_on_timer :: "bf_world \<Rightarrow> args \<Rightarrow> int \<Rightarrow> bf_state \<Rightarrow> bf_state bf_io" where
  "bf_on_timer bw args now s =
     io_bind (balancing_expired bw (bs_storage s)) (\<lambda>expired.
     io_bind (bf_emit (BO_Health (health_text (health_status args expired s)))) (\<lambda>_.
     io_bind (start_balancing args now s) (\<lambda>_.
     io_bind (io_fold (expire_module_price args now) DEALER_TICKERS (bs_module_prices s)) (\<lambda>prices.
     let s = s\<lparr> bs_module_prices := prices \<rparr> in
     io_bind (report_exchange_balances args s) (\<lambda>s.
     io_bind (process_balancing bw args (bs_wallet_balances_confirmed s) (bs_exchange_balances s)
       (bs_module_connected s) (bs_assets s) (bs_storage s)) (\<lambda>storage.
     timer_reports bw args now (s\<lparr> bs_storage := storage \<rparr>)))))))"

section \<open>Starting a transfer\<close>

fun cli_transfer :: "cli_request \<Rightarrow> transfer_state \<times> f64 \<times> string" where
  "cli_transfer (TestSendUsdt amount) = (SendUsdtNew, amount, ''send usdt'')"
| "cli_transfer (TestRecvUsdt amount) = (RecvUsdtNew, amount, ''recv usdt'')"
| "cli_transfer (TestSendBtc amount) = (SendBtcNew, amount, ''send btc'')"
| "cli_transfer (TestRecvBtc amount) = (RecvBtcNew, amount, ''recv btc'')"

definition on_cli :: "bf_world \<Rightarrow> args \<Rightarrow> cli_request_data \<Rightarrow> bf_state \<Rightarrow> bf_state bf_io" where
  "on_cli bw args data s =
     (let (new_state, amount, name) = cli_transfer (cr_req data) in
      io_bind (if st_balancing (bs_storage s) \<noteq> None then io_return (Cli_Error ''already started'', s)
        else
          io_bind (system_time bw) (\<lambda>created_at.
          io_bind (system_time bw) (\<lambda>updated_at.
          let storage = (bs_storage s)\<lparr> st_balancing := Some
                \<lparr> tr_withdraw_id = None, tr_state = new_state, tr_amount = from_bitcoin amount,
                  tr_created_at = created_at, tr_updated_at = updated_at, tr_txid = None \<rparr> \<rparr> in
          io_bind (save_storage bw storage (a_storage_path args)) (\<lambda>_.
          io_bind (send_notification [Frag ''start balancing, '', Frag name, Frag '', amount: '', Frag_F64 amount]
            (a_notifications_url args)) (\<lambda>_.
          io_return (Cli_Success ''success'', s\<lparr> bs_movements := None, bs_storage := storage \<rparr>)))))) (\<lambda>(resp, s).
      io_bind (case cr_resp_tx data of Some ch \<Rightarrow> bf_emit (BO_Cli ch resp) | None \<Rightarrow> io_return ()) (\<lambda>_.
      io_return s)))"

text \<open>\<open>SystemTime::checked_sub\<close> keeps whole seconds in an \<open>i64\<close>.\<close>

definition system_checked_sub :: "int \<Rightarrow> int \<Rightarrow> int option" where
  "system_checked_sub t d = (if is_i64 ((t - d) div 1000000000) then Some (t - d) else None)"

definition on_check_exchange :: "args \<Rightarrow> bf_state \<Rightarrow> bf_state bf_io" where
  "on_check_exchange args s = (case st_balancing (bs_storage s) of
      Some balancing \<Rightarrow>
        (if bs_module_connected s then
           io_bind (io_lift (unwrap (system_checked_sub (tr_created_at balancing) (from_secs 10)))) (\<lambda>t.
           io_bind (io_lift (unwrap (system_duration_since t 0))) (\<lambda>start.
           io_bind (send_msg (To_Movements \<lparr> tm_key = a_bitfinex_key args, tm_secret = a_bitfinex_secret args,
             tm_start = Some (as_millis_i64 start), tm_end = None, tm_limit = None \<rparr>)) (\<lambda>_.
           io_return s)))
         else io_return s)
    | None \<Rightarrow> io_return s)"

definition bf_on_dealer :: "bf_world \<Rightarrow> args \<Rightarrow> dealer_from \<Rightarrow> bf_state \<Rightarrow> bf_state bf_io" where
  "bf_on_dealer bw args msg s = (case msg of
      From_Swap swap \<Rightarrow> hedge_order bw args (sw_ticker swap) (sw_bitcoin_amount swap) (sw_send_bitcoins swap) s
    | From_WalletBalanceUpdated \<Rightarrow> io_bind (bf_self BM_ReloadUtxo) (\<lambda>_. io_return s))"

section \<open>The loop\<close>

definition bf_dispatch ::
    "bf_world \<Rightarrow> args \<Rightarrow> bf_consts \<Rightarrow> int \<Rightarrow> bf_msg \<Rightarrow> bf_state \<Rightarrow> bf_state bf_io" where
  "bf_dispatch bw args c now msg s = (case msg of
      BM_Connected \<Rightarrow> bf_on_connected bw args s
    | BM_Disconnected \<Rightarrow> bf_on_disconnected args s
    | BM_Notification notification \<Rightarrow> bf_on_notification bw args c notification s
    | BM_ReloadUtxo \<Rightarrow> bf_on_reload_utxo bw args s
    | BM_ModuleConnected \<Rightarrow> on_module_connected args s
    | BM_ModuleDisconnected \<Rightarrow> on_module_disconnected args s
    | BM_ModuleMessage msg \<Rightarrow> on_module_message bw args now msg s
    | BM_Timer \<Rightarrow> bf_on_timer bw args now s
    | BM_Cli data \<Rightarrow> on_cli bw args data s
    | BM_CheckExchange \<Rightarrow> on_check_exchange args s
    | BM_Dealer msg \<Rightarrow> bf_on_dealer bw args msg s
    | BM_Exit \<Rightarrow> io_lift (Err Bf_Exit))"

definition bf_handle :: "bf_world \<Rightarrow> args \<Rightarrow> bf_consts \<Rightarrow> bf_msg \<Rightarrow> bf_state \<Rightarrow> bf_state bf_io" where
  "bf_handle bw args c msg s =
     io_bind (instant_now (bw_world bw)) (\<lambda>now.
     io_bind (broadcast_prices bw args c now s) (\<lambda>s.
     bf_dispatch bw args c now msg s))"

definition bf_init :: "bf_world \<Rightarrow> args \<Rightarrow> (bf_consts \<times> bf_state) bf_io" where
  "bf_init bw args =
     (let w = bw_world bw; net = ed_network (env_data_of (a_env args)) in
      io_bind (io_lift (unwrap (w_asset_id w (ed_policy_asset (env_data_of (a_env args)))))) (\<lambda>bitcoin_asset.
      io_bind (load_storage bw (a_storage_path args)) (\<lambda>loaded.
      let storage = unwrap_or loaded \<lparr> st_balancing = None \<rparr> in
      io_bind (save_storage bw storage (a_storage_path args)) (\<lambda>_.
      io_bind (instant_now w) (\<lambda>balancing_blocked.
      io_bind (instant_now w) (\<lambda>latest_check_exchange.
      io_bind (send_notification [Frag ''dealer started''] (a_notifications_url args)) (\<lambda>_.
      io_bind (io_lift (unwrap (w_asset_id w (usdt_asset_id net)))) (\<lambda>asset_usdt.
      io_bind (io_lift (unwrap (w_asset_id w (eurx_asset_id net)))) (\<lambda>asset_eurx.
      io_return (\<lparr> bc_bitcoin_asset = bitcoin_asset, bc_asset_usdt = asset_usdt, bc_asset_eurx = asset_eurx \<rparr>,
        \<lparr> bs_storage = storage, bs_movements = None, bs_balancing_blocked = balancing_blocked,
          bs_assets = [], bs_utxos = [], bs_server_status = None, bs_instant_swaps = [],
          bs_server_connected = False, bs_module_connected = False, bs_wallet_balances = [],
          bs_wallet_balances_confirmed = [], bs_exchange_balances = [], bs_exchange_balances_reported = [],
          bs_profit_reports = None, bs_bitcoin_ratio_old = None, bs_module_prices = [],
          bs_broadcast_timestamps = [], bs_latest_check_exchange = latest_check_exchange, bs_orders = [],
          bs_pending_orders = [] \<rparr>))))))))))"

end
