(* ===== verification/Bf_Storage.thy ===== *)
theory Bf_Storage
  imports Bf_Main Dealer_Inputs
begin

text \<open>
  The storage file of the Bitfinex dealer.  A disk is a map from paths to contents; what it holds
  after a run follows from the file operations in the history.  An operation that fails may leave
  its own file in any state, except that a failed \<open>rename\<close> changes nothing.
\<close>

section \<open>Disks\<close>

type_synonym disk = "string \<Rightarrow> string option"

inductive disk_step :: "fs_op \<Rightarrow> bool \<Rightarrow> disk \<Rightarrow> disk \<Rightarrow> bool" where
  create_ok: "disk_step (Fs_Create p) True d (d(p := Some []))"
| write_ok: "disk_step (Fs_Write p data) True d (d(p := Some data))"
| rename_ok: "disk_step (Fs_Rename p q) True d ((d(p := None))(q := d p))"
| create_failed: "disk_step (Fs_Create p) False d (d(p := x))"
| write_failed: "disk_step (Fs_Write p data) False d (d(p := x))"
| rename_failed: "disk_step (Fs_Rename p q) False d d"

inductive_simps disk_step_simps [simp]:
  "disk_step (Fs_Create p) ok d d'" "disk_step (Fs_Write p data) ok d d'" "disk_step (Fs_Rename p q) ok d d'"

inductive disk_run :: "bf_event list \<Rightarrow> disk \<Rightarrow> disk \<Rightarrow> bool" where
  run_nil: "disk_run [] d d"
| run_fs: "disk_step op ok d d1 \<Longrightarrow> disk_run h d1 d2 \<Longrightarrow> disk_run (Ev_Out (BO_Fs op ok) # h) d d2"
| run_other: "(\<nexists>op ok. ev = Ev_Out (BO_Fs op ok)) \<Longrightarrow> disk_run h d d2 \<Longrightarrow> disk_run (ev # h) d d2"

inductive_simps disk_run_Nil [simp]: "disk_run [] d d'"
inductive_simps disk_run_Cons: "disk_run (ev # h) d d'"

lemma disk_run_append: "disk_run (h @ t) d d' \<longleftrightarrow> (\<exists>d1. disk_run h d d1 \<and> disk_run t d1 d')"
  by (induction h arbitrary: d) (auto simp: disk_run_Cons)

lemma disk_run_fs [simp]:
  "disk_run (Ev_Out (BO_Fs op ok) # h) d d' \<longleftrightarrow> (\<exists>d1. disk_step op ok d d1 \<and> disk_run h d1 d')"
  by (auto simp: disk_run_Cons)

definition not_fs :: "bf_event \<Rightarrow> bool" where
  "not_fs ev \<longleftrightarrow> (\<nexists>op ok. ev = Ev_Out (BO_Fs op ok))"

lemma disk_run_not_fs: "\<forall>ev\<in>set t. not_fs ev \<Longrightarrow> disk_run t d d' \<longleftrightarrow> d' = d"
  by (induction t) (auto simp: disk_run_Cons not_fs_def)

section \<open>Saving is atomic\<close>

lemma fs_do_run: "fs_do bw op h = (if bw_fs bw op h then Ok () else Panic, h @ [Ev_Out (BO_Fs op (bw_fs bw op h))])"
  by (simp add: fs_do_def io_run_simps)

lemma save_storage_run:
  assumes "save_storage bw st path h = (r, h')"
  shows "\<exists>t. h' = h @ t \<and> (\<forall>d d'. disk_run t d d' \<longrightarrow>
    (if r = Ok () then d' path = bw_storage_encode bw st \<and> d' path \<noteq> None else d' path = d path))"
proof (cases "bw_storage_encode bw st")
  case None
  with assms show ?thesis by (auto simp: save_storage_def io_run_simps Let_def)
next
  case (Some data)
  show ?thesis
  proof (cases "bw_fs bw (Fs_Create (path @ ''.tmp'')) h")
    case False
    with assms Some have "r = Panic" "h' = h @ [Ev_Out (BO_Fs (Fs_Create (path @ ''.tmp'')) False)]"
      by (auto simp: save_storage_def io_run_simps Let_def fs_do_run io_bind_def)
    then show ?thesis by auto
  next
    case created: True
    define h1 where "h1 = h @ [Ev_Out (BO_Fs (Fs_Create (path @ ''.tmp'')) True)]"
    show ?thesis
    proof (cases "bw_fs bw (Fs_Write (path @ ''.tmp'') data) h1")
      case False
      with assms Some created have "r = Panic" "h' = h1 @ [Ev_Out (BO_Fs (Fs_Write (path @ ''.tmp'') data) False)]"
        by (auto simp: save_storage_def io_run_simps Let_def fs_do_run io_bind_def h1_def)
      then show ?thesis by (auto simp: h1_def)
    next
      case True
      with assms Some created show ?thesis
        by (auto simp: save_storage_def io_run_simps Let_def fs_do_run io_bind_def h1_def)
    qed
  qed
qed

lemma save_storage_not_Err [simp]: "save_storage bw st path h \<noteq> (Err e, h')"
  by (auto simp: save_storage_def Let_def io_bind_def io_run_simps fs_do_run unwrap_def
      split: prod.splits outcome.splits option.splits if_splits)

text \<open>
  (C37) The storage file is replaced atomically, or not at all.  However many of the file operations
  fail, \<open>save_storage\<close> either returns, and then the file holds exactly the serialised storage,
  or it panics (also when the storage cannot be serialised), and then the file still holds what it
  held before: a crash never leaves a half-written file behind.
\<close>
theorem save_storage_atomic:
  assumes "save_storage bw st path h = (r, h @ t)" and "disk_run t d d'"
  shows "(r = Ok () \<and> (\<exists>data. bw_storage_encode bw st = Some data \<and> d' path = Some data))
    \<or> (r = Panic \<and> d' path = d path)"
proof (cases r)
  case (Ok u)
  with save_storage_run [OF assms(1)] assms(2) show ?thesis by auto
next
  case Panic
  with save_storage_run [OF assms(1)] assms(2) show ?thesis by auto
next
  case (Err e)
  with assms(1) show ?thesis by simp
qed

text \<open>The file operations of a world in which the disk is full: files can be created but not written.\<close>

definition disk_full :: "fs_op \<Rightarrow> bf_event list \<Rightarrow> bool" where
  "disk_full op h = (case op of Fs_Write _ _ \<Rightarrow> False | _ \<Rightarrow> True)"

theorem save_storage_atomic_witness:
  "save_storage \<lparr> bw_world = ex_world, bw_system_time = (\<lambda>_. 0), bw_fs = disk_full, bw_exists = (\<lambda>_ _. True),
       bw_read = (\<lambda>_ _. None), bw_storage_encode = (\<lambda>_. Some ''new''), bw_storage_decode = (\<lambda>_. None) \<rparr>
     \<lparr> st_balancing = None \<rparr> ''st'' []
   = (Panic, [] @ [Ev_Out (BO_Fs (Fs_Create ''st.tmp'') True), Ev_Out (BO_Fs (Fs_Write ''st.tmp'' ''new'') False)])
   \<and> (\<exists>d'. disk_run [Ev_Out (BO_Fs (Fs_Create ''st.tmp'') True), Ev_Out (BO_Fs (Fs_Write ''st.tmp'' ''new'') False)]
        [''st'' \<mapsto> ''old''] d' \<and> d' ''st.tmp'' = Some ''ne'' \<and> d' ''st'' = Some ''old'')"
proof -
  let ?bw = "\<lparr> bw_world = ex_world, bw_system_time = (\<lambda>_. 0), bw_fs = disk_full, bw_exists = (\<lambda>_ _. True),
       bw_read = (\<lambda>_ _. None), bw_storage_encode = (\<lambda>_. Some ''new''), bw_storage_decode = (\<lambda>_. None) \<rparr> :: bf_world"
  have run: "save_storage ?bw \<lparr> st_balancing = None \<rparr> ''st'' [] = (Panic, [] @
      [Ev_Out (BO_Fs (Fs_Create ''st.tmp'') True), Ev_Out (BO_Fs (Fs_Write ''st.tmp'' ''new'') False)])"
    by (simp add: save_storage_def Let_def io_bind_def fs_do_run disk_full_def)
  have d: "disk_run [Ev_Out (BO_Fs (Fs_Create ''st.tmp'') True), Ev_Out (BO_Fs (Fs_Write ''st.tmp'' ''new'') False)]
        [''st'' \<mapsto> ''old''] [''st'' \<mapsto> ''old'', ''st.tmp'' \<mapsto> ''ne'']" by auto
  show ?thesis using run d save_storage_atomic [OF run d] by auto
qed

end
