(* ===== verification/Bf_Transfer.thy ===== *)
theory Bf_Transfer
  imports Bf_Storage
begin

text \<open>
  The life of one transfer between the wallet and the exchange.  \<open>transfer_step\<close> is the
  protocol a transfer has to follow: which state leads to which, and which movement of money (a
  payment of the node, a withdrawal, a conversion on the exchange) happens on the way.  The functions
  of \<open>balancing.rs\<close> are shown to refine it, and to save every change before they return.
\<close>

section \<open>The protocol\<close>

text \<open>The events that move money for a transfer: a payment of the node, a withdrawal from the exchange
  and a conversion between its wallets.  Swaps, which exchange coins with a client, and orders on the
  exchange are not movements in this sense.  The quiet events are neither movements nor touch files.\<close>

fun money :: "bf_event \<Rightarrow> bool" where
  "money (Ev_Rpc req r) \<longleftrightarrow> rpc_method req = ''sendtoaddress''"
| "money (Ev_Out (BO_Module (To_Withdraw m))) \<longleftrightarrow> True"
| "money (Ev_Out (BO_Module (To_Transfer m))) \<longleftrightarrow> True"
| "money _ \<longleftrightarrow> False"

definition quiet :: "bf_event \<Rightarrow> bool" where
  "quiet ev \<longleftrightarrow> \<not> money ev \<and> not_fs ev"

definition new_states :: "transfer_state set" where
  "new_states = {SendUsdtNew, RecvUsdtNew, SendBtcNew, RecvBtcNew}"

text \<open>The payment that funds the exchange, and the state that waits for it.\<close>

fun fund_request :: "args \<Rightarrow> transfer \<Rightarrow> rpc_request \<Rightarrow> transfer_state \<Rightarrow> bool" where
  "fund_request args t req nxt \<longleftrightarrow>
     tr_state t = SendUsdtNew \<and> nxt = SendUsdtWaitConfirm
       \<and> (\<exists>asset. req = sendtoaddress_asset (a_bitfinex_fund_address args) (to_bitcoin (tr_amount t)) asset)
     \<or> tr_state t = SendBtcNew \<and> nxt = SendBtcWaitLbtcBalance
       \<and> req = sendtoaddress_bitcoin (a_bitfinex_fund_address args) (to_bitcoin (tr_amount t))"

fun withdraw_step :: "transfer_state \<Rightarrow> string \<Rightarrow> transfer_state \<Rightarrow> bool" where
  "withdraw_step st meth nxt \<longleftrightarrow>
     st = RecvUsdtNew \<and> meth = BITFINEX_METHOD_USDT \<and> nxt = RecvUsdtWaitWithdrawId
     \<or> st = RecvBtcWaitLbtcBalance \<and> meth = BITFINEX_METHOD_LBTC \<and> nxt = RecvBtcWaitWithdrawId"

fun convert_step :: "args \<Rightarrow> transfer_state \<Rightarrow> exchange_ticker \<Rightarrow> exchange_ticker \<Rightarrow> transfer_state \<Rightarrow> bool" where
  "convert_step args st from to nxt \<longleftrightarrow>
     st = SendBtcWaitLbtcBalance \<and> nxt = SendBtcWaitConfirm
       \<and> from = a_bitfinex_currency_lbtc args \<and> to = a_bitfinex_currency_btc args
     \<or> st = RecvBtcNew \<and> nxt = RecvBtcWaitLbtcBalance
       \<and> from = a_bitfinex_currency_btc args \<and> to = a_bitfinex_currency_lbtc args"

inductive transfer_step :: "args \<Rightarrow> transfer option \<Rightarrow> bf_event list \<Rightarrow> transfer option \<Rightarrow> bool" for args where
  start: "tr_state t \<in> new_states \<Longrightarrow> tr_txid t = None \<Longrightarrow> tr_withdraw_id t = None
    \<Longrightarrow> transfer_step args None [] (Some t)"
| fund: "fund_request args t req nxt
    \<Longrightarrow> transfer_step args (Some t) [Ev_Rpc req r]
          (Some (t\<lparr> tr_txid := Some txid, tr_updated_at := u, tr_state := nxt \<rparr>))"
| fund_failed: "fund_request args t req nxt
    \<Longrightarrow> transfer_step args (Some t) [Ev_Rpc req r] (Some (t\<lparr> tr_updated_at := u, tr_state := Failed \<rparr>))"
| withdraw: "withdraw_step (tr_state t) meth nxt
    \<Longrightarrow> transfer_step args (Some t) [Ev_Out (BO_Module (withdraw_msg args meth (tr_amount t)))]
          (Some (t\<lparr> tr_updated_at := u, tr_state := nxt \<rparr>))"
| convert: "convert_step args (tr_state t) from to nxt
    \<Longrightarrow> transfer_step args (Some t) [Ev_Out (BO_Module (transfer_msg args from to (tr_amount t)))]
          (Some (t\<lparr> tr_updated_at := u, tr_state := nxt \<rparr>))"
| withdraw_accepted: "tr_state t = RecvUsdtWaitWithdrawId \<and> nxt = RecvUsdtWaitConfirm
      \<or> tr_state t = RecvBtcWaitWithdrawId \<and> nxt = RecvBtcWaitConfirm
    \<Longrightarrow> 0 < i \<Longrightarrow> tr_withdraw_id t = None
    \<Longrightarrow> transfer_step args (Some t) [] (Some (t\<lparr> tr_withdraw_id := Some i, tr_updated_at := u, tr_state := nxt \<rparr>))"
| confirmed: "tr_state t \<in> {SendUsdtWaitConfirm, SendBtcWaitConfirm, RecvUsdtWaitConfirm, RecvBtcWaitConfirm}
    \<Longrightarrow> transfer_step args (Some t) [] (Some (t\<lparr> tr_updated_at := u, tr_state := Complete \<rparr>))"
| failed: "transfer_step args (Some t) [] (Some (t\<lparr> tr_updated_at := u, tr_state := Failed \<rparr>))"
| cleared: "tr_state t = Complete \<Longrightarrow> transfer_step args (Some t) [] None"

lemmas transfer_moves =
  withdraw [where meth = BITFINEX_METHOD_USDT and nxt = RecvUsdtWaitWithdrawId]
  withdraw [where meth = BITFINEX_METHOD_LBTC and nxt = RecvBtcWaitWithdrawId]
  convert [where nxt = SendBtcWaitConfirm] convert [where nxt = RecvBtcWaitLbtcBalance]

section \<open>Refinement of the protocol by the code\<close>

definition saved :: "bf_world \<Rightarrow> args \<Rightarrow> storage \<Rightarrow> bf_event list \<Rightarrow> bool" where
  "saved bw args st t \<longleftrightarrow> (\<forall>d d'. disk_run t d d' \<longrightarrow>
     d' (a_storage_path args) = bw_storage_encode bw st \<and> d' (a_storage_path args) \<noteq> None)"

text \<open>A computation on the storage takes at most one step of the protocol, and saves it.\<close>

definition moves_ok :: "bf_world \<Rightarrow> args \<Rightarrow> storage \<Rightarrow> storage \<Rightarrow> bf_event list \<Rightarrow> bool" where
  "moves_ok bw args st st' t \<longleftrightarrow>
     st' = st \<and> (\<forall>ev\<in>set t. quiet ev)
     \<or> transfer_step args (st_balancing st) (filter money t) (st_balancing st') \<and> saved bw args st' t"

definition moves :: "bf_world \<Rightarrow> args \<Rightarrow> storage \<Rightarrow> storage bf_io \<Rightarrow> bool" where
  "moves bw args st m \<longleftrightarrow> (\<forall>h st' h'. m h = (Ok st', h') \<longrightarrow> (\<exists>t. h' = h @ t \<and> moves_ok bw args st st' t))"

lemma movesI: "(\<And>h st' h'. m h = (Ok st', h') \<Longrightarrow> \<exists>t. h' = h @ t \<and> moves_ok bw args st st' t) \<Longrightarrow> moves bw args st m"
  by (simp add: moves_def)

lemma moves_return [simp]: "moves bw args st (io_return st)"
  by (simp add: moves_def moves_ok_def io_run_simps)

lemma moves_Panic [simp]: "moves bw args st (io_lift Panic)"
  by (simp add: moves_def io_run_simps)

lemma moves_if: "(b \<Longrightarrow> moves bw args st m) \<Longrightarrow> (\<not> b \<Longrightarrow> moves bw args st n) \<Longrightarrow> moves bw args st (if b then m else n)"
  by simp

lemma moves_bind_unwrap:
  "(\<And>x. o1 = Some x \<Longrightarrow> moves bw args st (f x)) \<Longrightarrow> moves bw args st (io_bind (io_lift (unwrap o1)) f)"
  by (cases o1) auto

lemma disk_run_other [simp]:
  "not_fs ev \<Longrightarrow> disk_run (ev # t) d d' \<longleftrightarrow> disk_run t d d'"
  by (auto simp: disk_run_Cons not_fs_def)

lemma saved_prefix: "saved bw args st t \<Longrightarrow> saved bw args st (p @ t)"
  by (auto simp: saved_def disk_run_append)

lemma save_storage_saved:
  assumes "save_storage bw st (a_storage_path args) h = (Ok u, h')"
  shows "\<exists>t. h' = h @ t \<and> filter money t = [] \<and> saved bw args st t"
proof -
  obtain t where t: "h' = h @ t" "saved bw args st t"
    using save_storage_run [OF assms] by (auto simp: saved_def)
  moreover have "\<forall>ev\<in>set t. \<not> money ev"
    using assms t(1) by (auto simp: save_storage_def Let_def io_bind_Ok io_run_simps fs_do_run)
  ultimately show ?thesis by (auto simp: filter_empty_conv)
qed

lemma send_notification_run:
  "send_notification msg url h = (Ok (), h @ (case url of None \<Rightarrow> [] | Some u \<Rightarrow> [Ev_Out (BO_Slack u msg)]))"
  by (simp add: send_notification_def bf_emit_def io_run_simps split: option.splits)

lemma update_balancing_state_run:
  assumes "update_balancing_state bw args new st h = (Ok st', h')"
  shows "\<exists>b u t. st_balancing st = Some b \<and> h' = h @ t \<and> filter money t = [] \<and> saved bw args st' t
    \<and> st' = st\<lparr> st_balancing := Some (b\<lparr> tr_updated_at := u, tr_state := new \<rparr>) \<rparr>"
proof -
  from assms obtain b h1 where b: "st_balancing st = Some b"
    and n: "notify_state args new (h @ [Ev_Out (BO_SystemTime (bw_system_time bw h))]) = (Ok (), h1)"
    and s: "st' = st\<lparr> st_balancing := Some (b\<lparr> tr_updated_at := bw_system_time bw h, tr_state := new \<rparr>) \<rparr>"
    and sv: "save_storage bw st' (a_storage_path args) h1 = (Ok (), h')"
    unfolding update_balancing_state_def by (auto simp: io_bind_Ok io_run_simps Let_def system_time_def)
  from n obtain p where "h1 = h @ p" "filter money p = []"
    by (auto simp: notify_state_def send_notification_run io_run_simps split: if_split_asm option.splits)
  moreover from save_storage_saved [OF sv] obtain t where "h' = h1 @ t" "filter money t = []" "saved bw args st' t"
    by blast
  ultimately show ?thesis using b s saved_prefix
    by (intro exI [of _ b] exI [of _ "bw_system_time bw h"] exI [of _ "p @ t"] conjI) auto
qed

lemma moves_update:
  assumes "\<And>b u. st_balancing st1 = Some b \<Longrightarrow>
    transfer_step args (st_balancing st) (filter money p) (Some (b\<lparr> tr_updated_at := u, tr_state := new \<rparr>))"
    and "update_balancing_state bw args new st1 (h @ p) = (Ok st', h')"
  shows "\<exists>t. h' = h @ t \<and> moves_ok bw args st st' t"
proof -
  from update_balancing_state_run [OF assms(2)] obtain b u t where
    "st_balancing st1 = Some b" "h' = (h @ p) @ t" "filter money t = []" "saved bw args st' t"
    "st_balancing st' = Some (b\<lparr> tr_updated_at := u, tr_state := new \<rparr>)" by auto
  then show ?thesis using assms(1) [of b u] saved_prefix [of bw args st' t p]
    by (intro exI [of _ "p @ t"]) (simp add: moves_ok_def)
qed

lemma moves_update0:
  assumes "\<And>b u. st_balancing st1 = Some b \<Longrightarrow>
    transfer_step args (st_balancing st) [] (Some (b\<lparr> tr_updated_at := u, tr_state := new \<rparr>))"
  shows "moves bw args st (update_balancing_state bw args new st1)"
  by (rule movesI, rule moves_update [where p = "[]" and new = new]) (use assms in simp_all)

lemma moves_send_update:
  assumes "\<And>b u. st_balancing st = Some b \<Longrightarrow>
    transfer_step args (Some b) (filter money [Ev_Out (BO_Module msg)]) (Some (b\<lparr> tr_updated_at := u, tr_state := new \<rparr>))"
  shows "moves bw args st (io_bind (send_msg msg) (\<lambda>_. update_balancing_state bw args new st))"
  by (rule movesI, rule moves_update [where p = "[Ev_Out (BO_Module msg)]" and new = new])
    (use assms in \<open>auto simp: send_msg_def bf_emit_def\<close>)

lemma make_rpc_call_event:
  assumes "make_rpc_call w dec req h = (r, h')"
  shows "\<exists>x. h' = h @ [Ev_Rpc req x]"
  using assms by (auto simp: make_rpc_call_def make_rpc_call_silent_def make_rpc_def io_bind_def io_run_simps
      split: outcome.splits prod.splits option.splits)

lemma moves_fund:
  assumes "fund_request args b req nxt" and "st_balancing st = Some b" and "rpc_method req = ''sendtoaddress''"
  shows "moves bw args st (fund_exchange bw args req nxt b st)"
proof (rule movesI)
  fix h st' h'
  let ?rpc = "make_rpc_call (bw_world bw) (w_dec_text (bw_world bw)) req"
  assume "fund_exchange bw args req nxt b st h = (Ok st', h')"
  then obtain r h1 where r: "io_try ?rpc h = (Ok r :: (bf_exit, string + string) outcome, h1)"
    and u: "(case r of Inr txid \<Rightarrow> update_balancing_state bw args nxt
         (st\<lparr> st_balancing := Some (b\<lparr> tr_txid := Some txid \<rparr>) \<rparr>)
       | Inl e \<Rightarrow> update_balancing_state bw args Failed st) h1 = (Ok st', h')"
    unfolding fund_exchange_def io_bind_Ok by (elim exE conjE) (rule that)
  from r obtain x where h1: "h1 = h @ [Ev_Rpc req x]"
    by (cases r) (auto simp: io_try_Ok dest: make_rpc_call_event)
  show "\<exists>t. h' = h @ t \<and> moves_ok bw args st st' t"
  proof (cases r)
    case (Inl e)
    with u h1 show ?thesis using assms
      by (intro moves_update [where p = "[Ev_Rpc req x]" and new = Failed and ?st1.0 = st]) (auto intro: fund_failed simp del: fund_request.simps)
  next
    case (Inr txid)
    with u h1 show ?thesis using assms
      by (intro moves_update [where p = "[Ev_Rpc req x]" and new = nxt
          and ?st1.0 = "st\<lparr> st_balancing := Some (b\<lparr> tr_txid := Some txid \<rparr>) \<rparr>"])
        (auto intro: fund simp del: fund_request.simps)
  qed
qed

lemma rpc_method_sendtoaddress [simp]:
  "rpc_method (sendtoaddress_asset a x l) = ''sendtoaddress''" "rpc_method (sendtoaddress_bitcoin a x) = ''sendtoaddress''"
  by (simp_all add: sendtoaddress_asset_def sendtoaddress_bitcoin_def sendtoaddress_generic_def)

lemma money_msgs [simp]: "money (Ev_Out (BO_Module (withdraw_msg args m a)))" "money (Ev_Out (BO_Module (transfer_msg args f t a)))"
  by (simp_all add: withdraw_msg_def transfer_msg_def)

lemma moves_process_transfer: "moves bw args st (process_transfer bw args success st)"
  unfolding process_transfer_def by (auto intro!: moves_update0 failed)

lemma moves_process_withdraw: "moves bw args st (process_withdraw bw args i st)"
  unfolding process_withdraw_def Let_def
  by (cases "st_balancing st")
    (auto intro!: moves_if moves_update0 failed intro: withdraw_accepted)

lemma moves_clear:
  assumes "st_balancing st = Some b" "tr_state b = Complete"
  shows "moves bw args st (io_bind (save_storage bw (st\<lparr> st_balancing := None \<rparr>) (a_storage_path args))
    (\<lambda>_. io_return (st\<lparr> st_balancing := None \<rparr>)))"
proof (rule movesI)
  fix h st' h'
  assume "io_bind (save_storage bw (st\<lparr> st_balancing := None \<rparr>) (a_storage_path args))
    (\<lambda>_. io_return (st\<lparr> st_balancing := None \<rparr>)) h = (Ok st', h')"
  then have s: "st' = st\<lparr> st_balancing := None \<rparr>" "save_storage bw st' (a_storage_path args) h = (Ok (), h')"
    by (auto simp: io_bind_Ok io_run_simps)
  from save_storage_saved [OF s(2)] show "\<exists>t. h' = h @ t \<and> moves_ok bw args st st' t"
    using assms s(1) by (auto simp: moves_ok_def intro: cleared)
qed

lemma moves_process_balancing:
  "moves bw args st (process_balancing bw args wallet exchange module_up assets st)"
proof (cases "st_balancing st")
  case None
  then show ?thesis by (simp add: process_balancing_def)
next
  case (Some b)
  show ?thesis
    unfolding process_balancing_def Some option.case Let_def
    by (cases "tr_state b"; simp add: Some cong: if_cong option.case_cong)
      (auto simp: Some transfer_moves intro!: moves_if moves_bind_unwrap moves_fund moves_send_update moves_update0 moves_clear
        intro: confirmed split: option.splits)
qed

lemma moves_confirm: "st_balancing st = Some b \<Longrightarrow> moves bw args st (confirm_transfer bw args msg b st)"
  unfolding confirm_transfer_def
  by (cases "tr_state b") (auto intro!: moves_if moves_bind_unwrap moves_update0 confirmed)

lemma moves_process_movements:
  assumes "process_movements bw args msg ms st h = (Ok (ms', st'), h')"
  shows "\<exists>t. h' = h @ t \<and> moves_ok bw args st st' t"
proof (cases "\<not> fm_success msg \<or> (case ms of None \<Rightarrow> True | Some old \<Rightarrow> \<not> movements_eq msg old) \<or> st_balancing st = None")
  case True
  with assms show ?thesis
    by (auto simp: process_movements_def io_run_simps moves_ok_def split: if_split_asm option.splits)
next
  case False
  with assms obtain b where b: "st_balancing st = Some b" and "confirm_transfer bw args msg b st h = (Ok st', h')"
    by (auto simp: process_movements_def io_bind_Ok io_run_simps)
  with moves_confirm [OF b] show ?thesis unfolding moves_def by blast
qed

end
