(* ===== verification/Bf_Loop.thy ===== *)
theory Bf_Loop
  imports Bf_Transfer
begin

text \<open>
  The main loop of the Bitfinex dealer: which of its handlers can move money or write the storage
  file, and what follows for every state the loop reaches.
\<close>

section \<open>Quiet handlers\<close>

lemma quiet_simps [simp]:
  "quiet (Ev_Request req r)" "quiet (Ev_Now t)" "quiet (Ev_Out (BO_Self m))" "quiet (Ev_Out (BO_Dealer to))"
  "quiet (Ev_Out (BO_Slack u x))" "quiet (Ev_Out (BO_Cli ch resp))" "quiet (Ev_Out (BO_Health hx))"
  "quiet (Ev_Out (BO_SystemTime t))" "quiet (Ev_Out (BO_Fs_Exists p b))" "quiet (Ev_Out (BO_Fs_Read p rx))"
  "quiet (Ev_Out (BO_Module (To_Login k sx)))" "quiet (Ev_Out (BO_Module (To_Subscribe sb)))"
  "quiet (Ev_Out (BO_Module (To_OrderSubmit os)))" "quiet (Ev_Out (BO_Module (To_Movements ms)))"
  "quiet (Ev_Rpc req' r') \<longleftrightarrow> rpc_method req' \<noteq> ''sendtoaddress''"
  by (simp_all add: quiet_def not_fs_def)

lemma rpc_method_simps [simp]:
  "rpc_method get_new_address = ''getnewaddress''" "rpc_method (listunspent n) = ''listunspent''"
  "rpc_method (dumpprivkey a) = ''dumpprivkey''" "rpc_method get_wallet_info = ''getwalletinfo''"
  by (simp_all add: get_new_address_def get_new_address_with_type_def listunspent_def dumpprivkey_def get_wallet_info_def)

named_theorems quiet_intros \<open>handlers that move no money and write no file\<close>

lemmas [quiet_intros] = emits_return emits_lift emits_try emits_expect emits_fold emits_if emits_option emits_prod

lemma quiet_bind [quiet_intros]:
  "emits quiet m \<Longrightarrow> (\<And>x. emits quiet (f x)) \<Longrightarrow> emits quiet (io_bind m f)"
  by (rule emits_bind)

lemma quiet_calls [quiet_intros]:
  "emits quiet (send_notification msg url)" "emits quiet (bf_self m)" "emits quiet (dealer_send to)"
  "emits quiet (system_time bw)" "emits quiet (timestamp_now bw)" "emits quiet (instant_now (bw_world bw))"
  "emits quiet (bf_emit (BO_Health x))" "emits quiet (bf_emit (BO_Cli ch resp))"
  "emits quiet (request_logged bw proj req)" "emits quiet (send_request_as (bw_world bw) proj' req)"
  by (auto simp: send_notification_def bf_self_def dealer_send_def bf_emit_def system_time_def timestamp_now_def
      request_logged_def intro!: emits_intros)

lemma quiet_send_msg [quiet_intros]: "quiet (Ev_Out (BO_Module m)) \<Longrightarrow> emits quiet (send_msg m)"
  by (auto simp: send_msg_def bf_emit_def intro!: emits_intros)

lemma quiet_rpc [quiet_intros]: "rpc_method req \<noteq> ''sendtoaddress'' \<Longrightarrow> emits quiet (make_rpc_call w dec req)"
  by (rule emits_make_rpc_call) simp

lemma quiet_new_address [quiet_intros]: "emits quiet (new_address (bw_world bw))"
  unfolding new_address_def by (intro quiet_intros) simp

lemma quiet_each [quiet_intros]: "(\<And>x. emits quiet (f x)) \<Longrightarrow> emits quiet (io_each f xs)"
  by (induction xs) (auto intro!: quiet_intros)

lemma quiet_sign_input [quiet_intros]: "emits quiet (sign_input w utxos tx x p)"
  unfolding sign_input_def Let_def by (auto intro!: emits_intros quiet_rpc split: prod.splits)

lemma quiet_broadcast [quiet_intros]: "emits quiet (broadcast_prices bw args c now s)"
  unfolding broadcast_prices_def broadcast_price_def Let_def by (intro quiet_intros) (auto intro!: quiet_intros split: prod.splits)

lemma quiet_hedge [quiet_intros]: "emits quiet (hedge_order bw args ticker amount b s)"
  unfolding hedge_order_def Let_def by (intro quiet_intros) simp

lemma quiet_notification [quiet_intros]: "emits quiet (bf_on_notification bw args c n s)"
  unfolding bf_on_notification_def on_start_swap_dealer_def on_blinded_swap_dealer_def on_swap_done_def Let_def
  by (cases n) (auto intro!: quiet_intros split: prod.splits)

lemma quiet_handlers [quiet_intros]:
  "emits quiet (bf_on_connected bw args s)" "emits quiet (bf_on_disconnected args s)"
  "emits quiet (on_module_connected args s)" "emits quiet (on_module_disconnected args s)"
  "emits quiet (on_book_update args now book price s)" "emits quiet (on_wallet_update args cur bal s)"
  "emits quiet (on_check_exchange args s)"
  unfolding bf_on_connected_def bf_on_disconnected_def on_module_connected_def on_module_disconnected_def
    on_book_update_def on_wallet_update_def on_check_exchange_def Let_def
  by (auto intro!: quiet_intros split: option.splits)

lemma quiet_reload [quiet_intros]: "emits quiet (bf_on_reload_utxo bw args s)"
  unfolding bf_on_reload_utxo_def update_bitcoin_ratio_def Let_def
  by (auto intro!: quiet_intros split: prod.splits option.splits)

lemma quiet_dealer [quiet_intros]: "emits quiet (bf_on_dealer bw args m s)"
  unfolding bf_on_dealer_def by (cases m) (auto intro!: quiet_intros)

lemma quiet_timer_parts [quiet_intros]:
  "emits quiet (balancing_expired bw st)" "emits quiet (start_balancing args now s)"
  "emits quiet (expire_module_price args now ticker prices)" "emits quiet (report_exchange_balances args s)"
  "emits quiet (profit_timeout bw s)" "emits quiet (report_profit args s)" "emits quiet (expire_pending_order args cid orders)"
  unfolding balancing_expired_def start_balancing_def expire_module_price_def report_exchange_balances_def
    profit_timeout_def report_profit_def expire_pending_order_def send_cli_request_def Let_def
  by (auto intro!: quiet_intros split: option.splits)

section \<open>Handlers that keep the storage\<close>

definition keeps :: "bf_state \<Rightarrow> bf_state bf_io \<Rightarrow> bool" where
  "keeps s m \<longleftrightarrow> returns (\<lambda>s'. bs_storage s' = bs_storage s) m"

lemma keepsI: "returns (\<lambda>s'. bs_storage s' = bs_storage s) m \<Longrightarrow> keeps s m"
  by (simp add: keeps_def)

lemma keeps_handlers:
  "keeps s (broadcast_prices bw args c now s)" "keeps s (hedge_order bw args ticker amount b s)"
  "keeps s (bf_on_connected bw args s)" "keeps s (bf_on_disconnected args s)"
  "keeps s (on_module_connected args s)" "keeps s (on_module_disconnected args s)"
  "keeps s (on_book_update args now book price s)" "keeps s (on_wallet_update args cur bal s)"
  "keeps s (on_check_exchange args s)" "keeps s (report_exchange_balances args s)"
  "keeps s (profit_timeout bw s)" "keeps s (report_profit args s)"
  unfolding keeps_def broadcast_prices_def hedge_order_def bf_on_connected_def bf_on_disconnected_def
    on_module_connected_def on_module_disconnected_def on_book_update_def on_wallet_update_def on_check_exchange_def
    report_exchange_balances_def profit_timeout_def report_profit_def Let_def
  by (auto intro!: returns_intros split: option.splits)

lemma keeps_hedge_update:
  "bs_storage s1 = bs_storage s \<Longrightarrow> returns (\<lambda>s'. bs_storage s' = bs_storage s) (hedge_order bw args ticker amount b s1)"
  using keeps_handlers(2) [of s1] by (simp add: keeps_def)

lemma keeps_notification: "keeps s (bf_on_notification bw args c n s)"
  unfolding keeps_def bf_on_notification_def on_start_swap_dealer_def on_blinded_swap_dealer_def on_swap_done_def Let_def
  by (cases n) (auto intro!: returns_intros keeps_hedge_update split: prod.splits)

lemma keeps_dealer: "keeps s (bf_on_dealer bw args m s)"
  unfolding keeps_def bf_on_dealer_def by (cases m) (auto intro!: returns_intros keeps_hedge_update)

lemma keeps_ratio: "bs_storage s1 = bs_storage s \<Longrightarrow>
    returns (\<lambda>s'. bs_storage s' = bs_storage s) (update_bitcoin_ratio bw items s1)"
  unfolding update_bitcoin_ratio_def Let_def by (auto intro!: returns_intros split: option.splits)

lemma keeps_reload: "keeps s (bf_on_reload_utxo bw args s)"
  unfolding keeps_def bf_on_reload_utxo_def Let_def
  apply (rule returns_bind_any, rule returns_bind_any, rule returns_prod)
  apply (rule returns_bind [where R = "\<lambda>s'. bs_storage s' = bs_storage s"])
   apply (force intro!: returns_intros)
  apply (rule returns_bind, erule keeps_ratio)
  apply (auto intro!: returns_intros)
  done

section \<open>Steps of the protocol inside the handlers\<close>

definition moves_by :: "bf_world \<Rightarrow> args \<Rightarrow> storage \<Rightarrow> ('x \<Rightarrow> storage) \<Rightarrow> 'x bf_io \<Rightarrow> bool" where
  "moves_by bw args st sel m \<longleftrightarrow>
     (\<forall>h x h'. m h = (Ok x, h') \<longrightarrow> (\<exists>t. h' = h @ t \<and> moves_ok bw args st (sel x) t))"

lemma moves_by_id: "moves bw args st m \<Longrightarrow> moves_by bw args st (\<lambda>x. x) m"
  by (simp add: moves_def moves_by_def)

lemma filter_money_quiet: "\<forall>ev\<in>set t. quiet ev \<Longrightarrow> filter money t = []"
  by (auto simp: filter_empty_conv quiet_def)

lemma saved_quiet: "saved bw args st t \<Longrightarrow> \<forall>ev\<in>set q. quiet ev \<Longrightarrow> saved bw args st (t @ q)"
  unfolding saved_def disk_run_append
  by (metis disk_run_not_fs quiet_def)

lemma moves_ok_quiet:
  assumes "moves_ok bw args st st' t" "\<forall>ev\<in>set p. quiet ev" "\<forall>ev\<in>set q. quiet ev"
  shows "moves_ok bw args st st' (p @ t @ q)"
  using assms by (auto simp: moves_ok_def filter_money_quiet intro: saved_prefix saved_quiet)

lemma moves_by_quiet:
  assumes "emits quiet m" "returns (\<lambda>x. sel x = st) m"
  shows "moves_by bw args st sel m"
  unfolding moves_by_def
proof (intro allI impI)
  fix h x h'
  assume run: "m h = (Ok x, h')"
  with assms(1) obtain t where "h' = h @ t" "\<forall>ev\<in>set t. quiet ev" by (rule emitsD)
  moreover from assms(2) run have "sel x = st" by (rule returnsD)
  ultimately show "\<exists>t. h' = h @ t \<and> moves_ok bw args st (sel x) t" by (auto simp: moves_ok_def)
qed

lemma moves_by_pre:
  assumes "emits quiet m" "\<And>x. moves_by bw args st sel (f x)"
  shows "moves_by bw args st sel (io_bind m f)"
  unfolding moves_by_def
proof (intro allI impI)
  fix h y h'
  assume "io_bind m f h = (Ok y, h')"
  then obtain x h1 where x: "m h = (Ok x, h1)" "f x h1 = (Ok y, h')" by (auto simp: io_bind_Ok)
  from assms(1) x(1) obtain p where p: "h1 = h @ p" "\<forall>ev\<in>set p. quiet ev" by (rule emitsD)
  from assms(2) x(2) obtain t where "h' = h1 @ t" "moves_ok bw args st (sel y) t" unfolding moves_by_def by blast
  with p show "\<exists>t. h' = h @ t \<and> moves_ok bw args st (sel y) t"
    using moves_ok_quiet [of bw args st "sel y" t p "[]"] by (intro exI [of _ "p @ t"]) simp
qed

lemma moves_by_keep:
  assumes "emits quiet m" "returns (\<lambda>x. R x) m" "\<And>x. R x \<Longrightarrow> moves_by bw args st sel (f x)"
  shows "moves_by bw args st sel (io_bind m f)"
proof -
  let ?f = "\<lambda>x. if R x then f x else io_lift Panic"
  have "io_bind m f = io_bind m ?f"
    using assms(2) by (auto simp: io_bind_def fun_eq_iff returns_def split: prod.splits outcome.splits)
  moreover have "moves_by bw args st sel (io_bind m ?f)"
    by (rule moves_by_pre [OF assms(1)]) (simp add: assms(3) moves_by_def [of _ _ _ _ "io_lift Panic"] io_run_simps)
  ultimately show ?thesis by simp
qed

lemma moves_by_post:
  assumes "moves_by bw args st sel m" "\<And>x. emits quiet (f x)" "\<And>x. returns (\<lambda>y. sel' y = sel x) (f x)"
  shows "moves_by bw args st sel' (io_bind m f)"
  unfolding moves_by_def
proof (intro allI impI)
  fix h y h'
  assume "io_bind m f h = (Ok y, h')"
  then obtain x h1 where x: "m h = (Ok x, h1)" "f x h1 = (Ok y, h')" by (auto simp: io_bind_Ok)
  from assms(1) x(1) obtain t where t: "h1 = h @ t" "moves_ok bw args st (sel x) t" unfolding moves_by_def by blast
  from assms(2) x(2) obtain q where q: "h' = h1 @ q" "\<forall>ev\<in>set q. quiet ev" by (rule emitsD)
  from assms(3) x(2) have "sel' y = sel x" by (rule returnsD)
  with t q show "\<exists>t. h' = h @ t \<and> moves_ok bw args st (sel' y) t"
    using moves_ok_quiet [of bw args st "sel x" t "[]" q] by (intro exI [of _ "t @ q"]) simp
qed

lemma moves_module_message: "moves_by bw args (bs_storage s) bs_storage (on_module_message bw args now msg s)"
proof -
  have movements: "moves_by bw args st snd (process_movements bw args m ms st)" for m ms st
    using moves_process_movements unfolding moves_by_def by fastforce
  show ?thesis
    unfolding on_module_message_def
    by (cases msg)
      (auto intro!: moves_by_quiet quiet_intros keeps_handlers(7,8) [unfolded keeps_def] returns_intros
        moves_by_post [OF moves_by_id [OF moves_process_withdraw]] moves_by_post [OF moves_by_id [OF moves_process_transfer]]
        moves_by_post [OF movements] split: prod.splits)
qed

lemma returns_storage_timer_tail:
  "returns (\<lambda>y. bs_storage y = bs_storage s) (profit_timeout bw s)"
  "returns (\<lambda>y. bs_storage y = bs_storage s) (report_profit args s)"
  using keeps_handlers(11,12) by (simp_all add: keeps_def)

lemma quiet_timer_reports: "emits quiet (timer_reports bw args now s)"
  unfolding timer_reports_def by (intro quiet_intros)

lemma keeps_timer_reports: "keeps s (timer_reports bw args now s)"
  unfolding keeps_def timer_reports_def
  apply (rule returns_bind [where R = "\<lambda>y. bs_storage y = bs_storage s"], force intro!: returns_intros)
  apply (rule returns_bind [where R = "\<lambda>y. bs_storage y = bs_storage s"], metis returns_storage_timer_tail(1))
  apply (rule returns_bind [where R = "\<lambda>y. bs_storage y = bs_storage s"], metis returns_storage_timer_tail(2))
  apply (auto intro!: returns_intros)
  done

lemma moves_timer: "moves_by bw args (bs_storage s) bs_storage (bf_on_timer bw args now s)"
proof -
  let ?R = "\<lambda>s'. bs_storage s' = bs_storage s"
  have report: "returns ?R (report_exchange_balances args (s\<lparr> bs_module_prices := p \<rparr>))" for p
    using keeps_handlers(10) [of "s\<lparr> bs_module_prices := p \<rparr>" args] by (simp add: keeps_def)
  have process: "moves_by bw args (bs_storage s) bs_storage (io_bind
      (process_balancing bw args (bs_wallet_balances_confirmed s1) (bs_exchange_balances s1)
        (bs_module_connected s1) (bs_assets s1) (bs_storage s1))
      (\<lambda>storage. timer_reports bw args now (s1\<lparr> bs_storage := storage \<rparr>)))" if "?R s1" for s1
    unfolding that
  proof (rule moves_by_post [OF moves_by_id [OF moves_process_balancing] quiet_timer_reports])
    fix st show "returns (\<lambda>y. bs_storage y = st) (timer_reports bw args now (s1\<lparr> bs_storage := st \<rparr>))"
      using keeps_timer_reports [of "s1\<lparr> bs_storage := st \<rparr>" bw args now] by (simp add: keeps_def)
  qed
  show ?thesis
    unfolding bf_on_timer_def Let_def
    by (rule moves_by_pre, intro quiet_intros, rule moves_by_pre, intro quiet_intros,
        rule moves_by_pre, intro quiet_intros, rule moves_by_pre, intro quiet_intros,
        rule moves_by_keep [where R = ?R], intro quiet_intros, rule report, erule process)
qed

lemma moves_cli: "moves_by bw args (bs_storage s) bs_storage (on_cli bw args data s)"
proof (cases "st_balancing (bs_storage s)")
  case (Some b)
  then show ?thesis
    unfolding on_cli_def Let_def
    by (auto intro!: moves_by_quiet quiet_intros returns_intros split: prod.splits)
next
  case None
  show ?thesis
    unfolding moves_by_def
  proof (intro allI impI)
    fix h s' h'
    assume run: "on_cli bw args data s h = (Ok s', h')"
    obtain state amount name where c: "cli_transfer (cr_req data) = (state, amount, name)" by (metis prod_cases3)
    then have new: "state \<in> new_states" by (cases "cr_req data") (auto simp: new_states_def)
    from run None c obtain t0 t1 h1 where
      st: "bs_storage s' = (bs_storage s)\<lparr> st_balancing := Some
        \<lparr> tr_withdraw_id = None, tr_state = state, tr_amount = from_bitcoin amount,
          tr_created_at = t0, tr_updated_at = t1, tr_txid = None \<rparr> \<rparr>"
      and sv: "save_storage bw (bs_storage s') (a_storage_path args)
        (h @ [Ev_Out (BO_SystemTime t0), Ev_Out (BO_SystemTime t1)]) = (Ok (), h1)"
      and q: "\<exists>q. h' = h1 @ q \<and> (\<forall>ev\<in>set q. quiet ev)"
      unfolding on_cli_def
      by (fastforce simp: io_bind_Ok io_run_simps Let_def system_time_def send_notification_run bf_emit_def
          split: option.splits)
    from q obtain q where q: "h' = h1 @ q" "\<forall>ev\<in>set q. quiet ev" by blast
    from save_storage_saved [OF sv] obtain t where t: "h1 = h @ [Ev_Out (BO_SystemTime t0), Ev_Out (BO_SystemTime t1)] @ t"
      "filter money t = []" "saved bw args (bs_storage s') t" by auto
    then have "moves_ok bw args (bs_storage s) (bs_storage s') t"
      using new None st by (auto simp: moves_ok_def intro!: start)
    then show "\<exists>t. h' = h @ t \<and> moves_ok bw args (bs_storage s) (bs_storage s') t"
      using moves_ok_quiet [of bw args _ _ t "[Ev_Out (BO_SystemTime t0), Ev_Out (BO_SystemTime t1)]" q] q t
      by (intro exI [of _ "[Ev_Out (BO_SystemTime t0), Ev_Out (BO_SystemTime t1)] @ t @ q"]) simp
  qed
qed

lemma moves_dispatch: "moves_by bw args (bs_storage s) bs_storage (bf_dispatch bw args c now msg s)"
proof (cases msg)
  case BM_Exit
  then show ?thesis by (simp add: bf_dispatch_def moves_by_def io_run_simps)
qed (auto simp: bf_dispatch_def moves_cli moves_timer moves_module_message
    intro!: moves_by_quiet quiet_intros keeps_handlers [unfolded keeps_def]
      keeps_notification [unfolded keeps_def] keeps_dealer [unfolded keeps_def] keeps_reload [unfolded keeps_def])

lemma moves_handle: "moves_by bw args (bs_storage s) bs_storage (bf_handle bw args c msg s)"
  unfolding bf_handle_def
proof (rule moves_by_pre, intro quiet_intros, rule moves_by_keep [where R = "\<lambda>s'. bs_storage s' = bs_storage s"])
  fix now
  show "emits quiet (broadcast_prices bw args c now s)" by (intro quiet_intros)
  show "returns (\<lambda>s'. bs_storage s' = bs_storage s) (broadcast_prices bw args c now s)"
    using keeps_handlers(1) by (simp add: keeps_def)
  show "moves_by bw args (bs_storage s) bs_storage (bf_dispatch bw args c now msg s1)"
    if "bs_storage s1 = bs_storage s" for s1
    using moves_dispatch [of bw args s1 c now msg] that by simp
qed

section \<open>The transfer in the loop\<close>

lemma moves_handleD:
  assumes "bf_handle bw args c msg s h = (Ok s', h')"
  obtains t where "h' = h @ t" "moves_ok bw args (bs_storage s) (bs_storage s') t"
  using moves_handle [of bw args s c msg] assms unfolding moves_by_def by blast

text \<open>
  (C14) The loop refines the transfer protocol.  Whatever message is handled, in whatever state and
  with whatever answers from outside, either the stored transfer stays as it is and no money moves, or
  the handler takes exactly one step of \<open>transfer_step\<close>, with exactly the payment, withdrawal or
  conversion that step allows (its amount, its destination, its method).
\<close>
theorem bf_handle_refines_transfer:
  assumes "bf_handle bw args c msg s h = (Ok s', h')"
  shows "\<exists>t. h' = h @ t \<and>
    (bs_storage s' = bs_storage s \<and> filter money t = []
     \<or> transfer_step args (st_balancing (bs_storage s)) (filter money t) (st_balancing (bs_storage s')))"
  using moves_handleD [OF assms] by (metis filter_money_quiet moves_ok_def)

definition is_cli :: "bf_msg \<Rightarrow> bool" where
  "is_cli msg \<longleftrightarrow> (\<exists>data. msg = BM_Cli data)"

lemma idle_module_message:
  assumes "st_balancing (bs_storage s) = None"
  shows "returns (\<lambda>s'. bs_storage s' = bs_storage s) (on_module_message bw args now msg s)"
  using assms keeps_handlers(7,8)
  by (cases msg) (auto simp: on_module_message_def process_withdraw_def process_transfer_def process_movements_def
      keeps_def intro!: returns_intros)

lemma idle_timer:
  assumes "st_balancing (bs_storage s) = None"
  shows "returns (\<lambda>s'. bs_storage s' = bs_storage s) (bf_on_timer bw args now s)"
proof -
  let ?R = "\<lambda>s'. bs_storage s' = bs_storage s"
  have report: "returns ?R (report_exchange_balances args (s\<lparr> bs_module_prices := p \<rparr>))" for p
    using keeps_handlers(10) [of "s\<lparr> bs_module_prices := p \<rparr>" args] by (simp add: keeps_def)
  have process: "returns ?R (io_bind
      (process_balancing bw args (bs_wallet_balances_confirmed s1) (bs_exchange_balances s1)
        (bs_module_connected s1) (bs_assets s1) (bs_storage s1))
      (\<lambda>storage. timer_reports bw args now (s1\<lparr> bs_storage := storage \<rparr>)))" if "?R s1" for s1
    using keeps_timer_reports [of "s1\<lparr> bs_storage := bs_storage s \<rparr>" bw args now] assms that
    by (simp add: process_balancing_def keeps_def)
  show ?thesis
    unfolding bf_on_timer_def Let_def
    by (rule returns_bind_any, rule returns_bind_any, rule returns_bind_any, rule returns_bind_any,
        rule returns_bind [OF report process])
qed

lemma idle_handle:
  assumes "st_balancing (bs_storage s) = None" "\<not> is_cli msg"
  shows "returns (\<lambda>s'. bs_storage s' = bs_storage s) (bf_handle bw args c msg s)"
  unfolding bf_handle_def
proof (rule returns_bind_any, rule returns_bind)
  fix now
  show "returns (\<lambda>s'. bs_storage s' = bs_storage s) (broadcast_prices bw args c now s)"
    using keeps_handlers(1) by (simp add: keeps_def)
  fix s1 :: bf_state
  assume s1: "bs_storage s1 = bs_storage s"
  show "returns (\<lambda>s'. bs_storage s' = bs_storage s) (bf_dispatch bw args c now msg s1)"
    using assms idle_module_message [of s1] idle_timer [of s1] keeps_handlers [of s1] keeps_notification [of s1]
      keeps_dealer [of s1] keeps_reload [of s1]
    by (cases msg) (auto simp: bf_dispatch_def s1 is_cli_def keeps_def intro: returns_Panic)
qed

text \<open>Events that send funds out of the wallet or out of the exchange.\<close>

fun payout :: "bf_event \<Rightarrow> bool" where
  "payout (Ev_Rpc req r) \<longleftrightarrow> rpc_method req = ''sendtoaddress''"
| "payout (Ev_Out (BO_Module (To_Withdraw m))) \<longleftrightarrow> True"
| "payout _ \<longleftrightarrow> False"

text \<open>A transfer that has not paid yet.\<close>

definition unpaid :: "transfer option \<Rightarrow> bool" where
  "unpaid b \<longleftrightarrow> (\<exists>t. b = Some t \<and> tr_state t \<in> new_states \<union> {RecvBtcWaitLbtcBalance})"

lemma payout_money: "payout ev \<Longrightarrow> money ev"
  by (cases ev rule: payout.cases) auto

lemma filter_payout_money: "filter payout (filter money t) = filter payout t"
  by (induction t) (auto dest: payout_money)

lemma step_payouts:
  assumes "transfer_step args b ms b'"
  shows "length (filter payout ms) + of_bool (unpaid b') \<le> of_bool (unpaid b) + of_bool (b = None)"
  using assms
  by (cases rule: transfer_step.cases)
    (simp_all add: unpaid_def new_states_def withdraw_msg_def transfer_msg_def of_bool_def split: if_split, auto)

lemma handle_payouts:
  assumes "bf_handle bw args c msg s h = (Ok s', h')"
  shows "\<exists>t. h' = h @ t \<and> length (filter payout t) + of_bool (unpaid (st_balancing (bs_storage s')))
    \<le> of_bool (unpaid (st_balancing (bs_storage s))) + of_bool (is_cli msg)"
proof -
  from assms obtain t where t: "h' = h @ t" "moves_ok bw args (bs_storage s) (bs_storage s') t"
    by (rule moves_handleD)
  let ?b = "st_balancing (bs_storage s)"
  show ?thesis
  proof (cases "bs_storage s' = bs_storage s \<and> (\<forall>ev\<in>set t. quiet ev)")
    case True
    then have "filter payout t = []" by (auto simp: filter_empty_conv quiet_def dest: payout_money)
    with True t(1) show ?thesis by auto
  next
    case False
    with t(2) have step: "transfer_step args ?b (filter money t) (st_balancing (bs_storage s'))"
      by (auto simp: moves_ok_def)
    have "is_cli msg" if "?b = None"
      using that step returnsD [OF idle_handle [OF that] assms] by (cases "is_cli msg") (auto elim: transfer_step.cases)
    then have "of_bool (?b = None) \<le> (of_bool (is_cli msg) :: nat)" by auto
    with step_payouts [OF step] have "length (filter payout t) + of_bool (unpaid (st_balancing (bs_storage s')))
        \<le> of_bool (unpaid ?b) + of_bool (is_cli msg)"
      unfolding filter_payout_money by linarith
    with t(1) show ?thesis by auto
  qed
qed

lemma run_payouts:
  assumes "io_fold (bf_handle bw args c) msgs s h = (Ok s', h')"
  shows "\<exists>t. h' = h @ t \<and> length (filter payout t) + of_bool (unpaid (st_balancing (bs_storage s')))
    \<le> of_bool (unpaid (st_balancing (bs_storage s))) + length (filter is_cli msgs)"
  using assms
proof (induction msgs arbitrary: s h)
  case Nil
  then show ?case by (simp add: io_run_simps)
next
  case (Cons msg msgs)
  then obtain s1 h1 where h: "bf_handle bw args c msg s h = (Ok s1, h1)"
    and r: "io_fold (bf_handle bw args c) msgs s1 h1 = (Ok s', h')"
    by (auto simp: io_bind_Ok)
  from handle_payouts [OF h] Cons.IH [OF r] obtain t1 t2 where
    "h' = h @ t1 @ t2"
    "length (filter payout t1) + of_bool (unpaid (st_balancing (bs_storage s1)))
      \<le> of_bool (unpaid (st_balancing (bs_storage s))) + of_bool (is_cli msg)"
    "length (filter payout t2) + of_bool (unpaid (st_balancing (bs_storage s')))
      \<le> of_bool (unpaid (st_balancing (bs_storage s1))) + length (filter is_cli msgs)"
    by auto
  then show ?case by (intro exI [of _ "t1 @ t2"]) (auto split: if_splits)
qed

text \<open>
  (C2) No double payment.  Over any run of the loop, the number of payments the node is asked to make
  to the exchange plus the number of withdrawals requested from the exchange is at most the number of
  transfers that were requested during the run (plus the one that may have been waiting at its start):
  neither a repeated timer, nor a lost or repeated answer, nor a reconnect makes the dealer pay twice
  for the same transfer.
\<close>
theorem no_double_payment:
  assumes "io_fold (bf_handle bw args c) msgs s h = (Ok s', h')"
  shows "\<exists>t. h' = h @ t \<and> length (filter payout t) \<le>
    length (filter is_cli msgs) + (if unpaid (st_balancing (bs_storage s)) then 1 else 0)"
  using run_payouts [OF assms] by (auto split: if_splits)

text \<open>
  (C27) A failed transfer stops all transfers.  Once a transfer has failed, no sequence of messages
  makes the dealer start another one or leave the failed state: the stored transfer keeps its amount,
  transaction and withdrawal, until the operator removes it.  In particular the node is not asked to
  pay anything, and the exchange is asked neither for a withdrawal nor for a conversion between its
  wallets.  (Swaps with clients and the orders that hedge them go on; they are not stopped by this.)
\<close>
theorem failed_transfer_stops:
  assumes "reaches (bf_handle bw args c) s h s' h'"
    and "st_balancing (bs_storage s) = Some b" and "tr_state b = Failed"
  shows "\<exists>t u. h' = h @ t \<and> filter money t = [] \<and>
    st_balancing (bs_storage s') = Some (b\<lparr> tr_updated_at := u \<rparr>)"
  using assms(1)
proof (induction rule: reaches.induct)
  case reaches_refl
  have "b = b\<lparr> tr_updated_at := tr_updated_at b \<rparr>" by simp
  with assms(2) show ?case by (metis append_Nil2 filter.simps(1))
next
  case (reaches_step s1 h1 m s2 h2)
  then obtain t u where tu: "h1 = h @ t" "filter money t = []"
    "st_balancing (bs_storage s1) = Some (b\<lparr> tr_updated_at := u \<rparr>)" by auto
  from reaches_step(2) obtain t2 where t2: "h2 = h1 @ t2" "moves_ok bw args (bs_storage s1) (bs_storage s2) t2"
    by (rule moves_handleD)
  have b: "b\<lparr> tr_updated_at := v, tr_state := Failed \<rparr> = b\<lparr> tr_updated_at := v \<rparr>" for v
    using assms(3) by (cases b) simp
  from t2(2) tu(3) assms(3) have "filter money t2 = [] \<and> (\<exists>u. st_balancing (bs_storage s2) = Some (b\<lparr> tr_updated_at := u \<rparr>))"
    unfolding moves_ok_def by (auto simp: b new_states_def filter_money_quiet elim!: transfer_step.cases)
  with tu t2 show ?case by auto
qed

section \<open>The storage file in the loop\<close>

text \<open>The file holds the storage the loop works with, whatever the disk held before the history.\<close>

definition persisted :: "bf_world \<Rightarrow> args \<Rightarrow> bf_state \<Rightarrow> bf_event list \<Rightarrow> bool" where
  "persisted bw args s h \<longleftrightarrow> saved bw args (bs_storage s) h"

lemma persisted_step:
  assumes "persisted bw args s h" "bf_handle bw args c msg s h = (Ok s', h')"
  shows "persisted bw args s' h'"
proof -
  from assms(2) obtain t where t: "h' = h @ t" "moves_ok bw args (bs_storage s) (bs_storage s') t"
    by (rule moves_handleD)
  then show ?thesis using assms(1)
    by (auto simp: persisted_def moves_ok_def intro: saved_prefix saved_quiet)
qed

interpretation bf_loop: history_loop "bf_handle bw args c" "persisted bw args" for bw args c
  by unfold_locales (rule persisted_step)

lemma bf_init_persisted:
  assumes "bf_init bw args h = (Ok (c, s), h')"
  shows "persisted bw args s h'"
proof -
  from assms obtain h1 h2 q where sv: "save_storage bw (bs_storage s) (a_storage_path args) h1 = (Ok (), h2)"
    and q: "h' = h2 @ q" "\<forall>ev\<in>set q. quiet ev"
    unfolding bf_init_def Let_def
    by (fastforce simp: io_bind_Ok io_run_simps send_notification_run instant_now_def split: option.splits)
  from save_storage_saved [OF sv] obtain t where "h2 = h1 @ t" "saved bw args (bs_storage s) t" by blast
  with q show ?thesis by (auto simp: persisted_def intro: saved_prefix saved_quiet)
qed

text \<open>
  (C17) A crash loses nothing.  From the moment the dealer has started, between any two messages
  the storage file holds exactly the serialised storage the loop works with, so that a restart resumes
  the transfer in the state it was in.
\<close>
theorem storage_always_persisted:
  assumes "bf_init bw args h0 = (Ok (c, s0), h1)"
    and "reaches (bf_handle bw args c) s0 h1 s h" and "disk_run h d d'"
  shows "\<exists>data. bw_storage_encode bw (bs_storage s) = Some data \<and> d' (a_storage_path args) = Some data"
  using bf_loop.reaches_inv [OF assms(2) bf_init_persisted [OF assms(1)]] assms(3)
  by (auto simp: persisted_def saved_def)

section \<open>Well-formed transfers\<close>

text \<open>What each state of a transfer relies on.\<close>

definition transfer_wf :: "transfer \<Rightarrow> bool" where
  "transfer_wf t \<longleftrightarrow> (case tr_state t of
      SendUsdtWaitConfirm \<Rightarrow> tr_txid t \<noteq> None
    | SendBtcWaitLbtcBalance \<Rightarrow> tr_txid t \<noteq> None
    | SendBtcWaitConfirm \<Rightarrow> tr_txid t \<noteq> None
    | RecvUsdtWaitConfirm \<Rightarrow> (\<exists>i>0. tr_withdraw_id t = Some i)
    | RecvBtcWaitConfirm \<Rightarrow> (\<exists>i>0. tr_withdraw_id t = Some i)
    | Complete \<Rightarrow> tr_txid t \<noteq> None \<or> tr_withdraw_id t \<noteq> None
    | Failed \<Rightarrow> True
    | SendUsdtNew \<Rightarrow> tr_txid t = None \<and> tr_withdraw_id t = None
    | SendBtcNew \<Rightarrow> tr_txid t = None \<and> tr_withdraw_id t = None
    | _ \<Rightarrow> tr_withdraw_id t = None)"

definition storage_wf :: "storage \<Rightarrow> bool" where
  "storage_wf st \<longleftrightarrow> (\<forall>t. st_balancing st = Some t \<longrightarrow> transfer_wf t)"




text \<open>A world in which storing succeeds.\<close>

definition can_store :: "bf_world \<Rightarrow> bool" where
  "can_store bw \<longleftrightarrow> (\<forall>op h. bw_fs bw op h) \<and> (\<forall>st. bw_storage_encode bw st \<noteq> None)"

lemma save_storage_ok: "can_store bw \<Longrightarrow> \<exists>h'. save_storage bw st path h = (Ok (), h')"
  unfolding can_store_def save_storage_def Let_def
  by (cases "bw_storage_encode bw st") (blast, auto simp: io_bind_def io_run_simps fs_do_run)

lemma update_balancing_state_ok:
  assumes "can_store bw" "st_balancing st = Some b"
  shows "\<exists>h'. update_balancing_state bw args new st h =
    (Ok (st\<lparr> st_balancing := Some (b\<lparr> tr_updated_at := bw_system_time bw h, tr_state := new \<rparr>) \<rparr>), h')"
proof -
  let ?h1 = "h @ [Ev_Out (BO_SystemTime (bw_system_time bw h))]"
  let ?st = "st\<lparr> st_balancing := Some (b\<lparr> tr_updated_at := bw_system_time bw h, tr_state := new \<rparr>) \<rparr>"
  obtain h2 where n: "notify_state args new ?h1 = (Ok (), h2)"
    by (cases "new = Failed"; cases "new = Complete") (simp_all add: notify_state_def send_notification_run io_run_simps)
  obtain h3 where "save_storage bw ?st (a_storage_path args) h2 = (Ok (), h3)"
    using save_storage_ok [OF assms(1)] by blast
  with assms(2) show ?thesis
    by (simp add: update_balancing_state_def system_time_def io_bind_def n io_run_simps Let_def)
qed

text \<open>
  (C38) The report of the exchange is handled without a panic, and completes exactly the transfers
  it proves.  For a well-formed storage that can be saved, \<open>process_movements\<close> returns; the
  transfer becomes complete exactly when the report was successful, is the same as the one before it,
  and contains a completed movement with the transaction (for a deposit of USDt) or the withdrawal id
  (for a withdrawal) the transfer waits for; otherwise the storage is unchanged.
\<close>
theorem process_movements_correct:
  assumes "can_store bw" and "storage_wf st"
  shows "\<exists>ms' st' h'. process_movements bw args msg ms st h = (Ok (ms', st'), h') \<and>
    (let confirms = (\<lambda>t. \<exists>m\<in>set (fm_movements msg). mv_status m = BITFINEX_STATUS_COMPLETED \<and>
           (tr_state t = SendUsdtWaitConfirm \<and> tr_txid t = Some (mv_transaction_id m)
            \<or> tr_state t \<in> {RecvUsdtWaitConfirm, RecvBtcWaitConfirm} \<and> tr_withdraw_id t = Some (mv_id m)))
     in if fm_success msg \<and> (\<exists>old. ms = Some old \<and> movements_eq msg old)
           \<and> (\<exists>t. st_balancing st = Some t \<and> confirms t)
        then \<exists>t u. st_balancing st = Some t
          \<and> st' = st\<lparr> st_balancing := Some (t\<lparr> tr_updated_at := u, tr_state := Complete \<rparr>) \<rparr>
        else st' = st)"
proof (cases "fm_success msg \<and> (\<exists>old. ms = Some old \<and> movements_eq msg old) \<and> st_balancing st \<noteq> None")
  case False
  then show ?thesis
    by (auto simp: process_movements_def io_run_simps Let_def split: option.splits)
next
  case True
  then obtain b where b: "st_balancing st = Some b" by auto
  with assms(2) have wf: "transfer_wf b" by (simp add: storage_wf_def)
  obtain h1 where up: "update_balancing_state bw args Complete st h =
      (Ok (st\<lparr> st_balancing := Some (b\<lparr> tr_updated_at := bw_system_time bw h, tr_state := Complete \<rparr>) \<rparr>), h1)"
    using update_balancing_state_ok [OF assms(1) b] by blast
  let ?c = "\<exists>m\<in>set (fm_movements msg). mv_status m = BITFINEX_STATUS_COMPLETED \<and>
           (tr_state b = SendUsdtWaitConfirm \<and> tr_txid b = Some (mv_transaction_id m)
            \<or> tr_state b \<in> {RecvUsdtWaitConfirm, RecvBtcWaitConfirm} \<and> tr_withdraw_id b = Some (mv_id m))"
  have "confirm_transfer bw args msg b st h = (if ?c then update_balancing_state bw args Complete st h else (Ok st, h))"
    using wf unfolding confirm_transfer_def
    by (cases "tr_state b") (auto simp: transfer_wf_def completed_withdraw_def list_ex_iff io_run_simps)
  then have "process_movements bw args msg ms st h = (if ?c then
      (Ok (ms, st\<lparr> st_balancing := Some (b\<lparr> tr_updated_at := bw_system_time bw h, tr_state := Complete \<rparr>) \<rparr>), h1)
      else (Ok (ms, st), h))"
    using True b up by (auto simp: process_movements_def io_bind_def io_run_simps)
  then show ?thesis using True b by (auto simp: Let_def)
qed

section \<open>A run\<close>

text \<open>A dealer on the test network that is asked to withdraw 2000 USDt, with everything outside working.\<close>

definition ex_args :: args where
  "ex_args = \<lparr> a_log_settings = [], a_env = Env_Testnet, a_bitcoin_amount_submit = Fin 1, a_bitcoin_amount_min = Fin 1,
     a_bitcoin_amount_max = Fin 1, a_proxy_log_file = [], a_proxy_port = 0, a_server_host = ''host'', a_server_port = 443,
     a_server_use_tls = True, a_status_port = 0, a_rpc = \<lparr> rs_host = [], rs_port = 0, rs_login = [], rs_password = [] \<rparr>,
     a_api_key = None, a_module_host = [], a_module_port = 0, a_notifications_url = Some ''slack'', a_bitfinex_key = ''key'',
     a_bitfinex_secret = ''secret'', a_bitfinex_bookname_usdt = ''tBTCUST'', a_bitfinex_bookname_eurx = ''tBTCEUR'',
     a_bitfinex_withdraw_address = ''own'', a_bitfinex_fund_address = ''fund'',
     a_bitfinex_currency_btc = ExchangeTicker ''BTC'', a_bitfinex_currency_lbtc = ExchangeTicker ''LBT'',
     a_bitfinex_currency_usdt = ExchangeTicker ''UST'', a_bitfinex_currency_eur = ExchangeTicker ''EUR'',
     a_storage_path = ''storage.json'', a_balancing_enabled = True \<rparr>"

definition ex_bw :: bf_world where
  "ex_bw = \<lparr> bw_world = ex_world, bw_system_time = (\<lambda>h. 20000000000 + int (length h)), bw_fs = (\<lambda>_ _. True),
     bw_exists = (\<lambda>_ _. False), bw_read = (\<lambda>_ _. None),
     bw_storage_encode = (\<lambda>st. Some (if st_balancing st = None then ''idle'' else ''active'')),
     bw_storage_decode = (\<lambda>_. None) \<rparr>"

definition ex_msgs :: "bf_msg list" where
  "ex_msgs = [BM_Cli \<lparr> cr_req = TestRecvUsdt (Fin 2000), cr_resp_tx = None \<rparr>, BM_ModuleConnected, BM_Timer, BM_Timer]"

definition ex_run :: "bf_msg list \<Rightarrow> (bf_consts \<times> bf_state \<times> bf_event list \<times> bf_state \<times> bf_event list) option" where
  "ex_run msgs = (case bf_init ex_bw ex_args [] of
      (Ok (c, s0), h0) \<Rightarrow> (case io_fold (bf_handle ex_bw ex_args c) msgs s0 h0 of
          (Ok s, h) \<Rightarrow> Some (c, s0, h0, s, h) | _ \<Rightarrow> None)
    | _ \<Rightarrow> None)"

definition ex_balancing :: "bf_msg list \<Rightarrow> transfer_state option \<times> nat" where
  "ex_balancing msgs = (case ex_run msgs of
      Some (c, s0, h0, s, h) \<Rightarrow> (map_option tr_state (st_balancing (bs_storage s)), length (filter payout h))
    | None \<Rightarrow> (None, 99))"

lemma ex_balancing_run: "ex_balancing ex_msgs = (Some RecvUsdtWaitWithdrawId, 1)"
  by code_simp

lemma ex_runE:
  assumes "ex_balancing msgs = (Some state, n)"
  obtains c s0 h0 s h b where "bf_init ex_bw ex_args [] = (Ok (c, s0), h0)"
    "io_fold (bf_handle ex_bw ex_args c) msgs s0 h0 = (Ok s, h)"
    "st_balancing (bs_storage s) = Some b" "tr_state b = state" "length (filter payout h) = n"
  using assms by (auto simp: ex_balancing_def ex_run_def split: option.splits prod.splits outcome.splits)

lemma ex_init_idle: "bf_init ex_bw ex_args [] = (Ok (c, s0), h0) \<Longrightarrow> st_balancing (bs_storage s0) = None"
  by (auto simp: bf_init_def Let_def load_storage_def ex_bw_def io_bind_Ok io_run_simps)

lemma disk_run_total: "\<exists>d'. disk_run h d d'"
proof (induction h arbitrary: d)
  case (Cons ev h)
  show ?case
  proof (cases "\<exists>op ok. ev = Ev_Out (BO_Fs op ok)")
    case True
    then obtain op ok where ev: "ev = Ev_Out (BO_Fs op ok)" by blast
    have "\<exists>d1. disk_step op ok d d1" by (cases op; cases ok) auto
    with ev Cons.IH show ?thesis by (metis run_fs)
  next
    case False
    with Cons.IH show ?thesis by (meson run_other)
  qed
qed (auto intro: run_nil)

theorem no_double_payment_witness:
  "\<exists>c s0 h0 s t. bf_init ex_bw ex_args [] = (Ok (c, s0), h0)
     \<and> io_fold (bf_handle ex_bw ex_args c) ex_msgs s0 h0 = (Ok s, h0 @ t) \<and> length (filter payout t) \<le> 1"
proof -
  obtain c s0 h0 s h b where r: "bf_init ex_bw ex_args [] = (Ok (c, s0), h0)"
    "io_fold (bf_handle ex_bw ex_args c) ex_msgs s0 h0 = (Ok s, h)"
    using ex_balancing_run by (rule ex_runE)
  have "\<not> unpaid (st_balancing (bs_storage s0))" using ex_init_idle [OF r(1)] by (simp add: unpaid_def)
  moreover have "length (filter is_cli ex_msgs) = 1" by (simp add: ex_msgs_def is_cli_def)
  ultimately show ?thesis using no_double_payment [OF r(2)] r by auto
qed

theorem bf_handle_refines_transfer_witness:
  "\<exists>c s0 h0 s1 t. bf_init ex_bw ex_args [] = (Ok (c, s0), h0)
     \<and> bf_handle ex_bw ex_args c (hd ex_msgs) s0 h0 = (Ok s1, h0 @ t)
     \<and> (bs_storage s1 = bs_storage s0 \<and> filter money t = []
        \<or> transfer_step ex_args None (filter money t) (st_balancing (bs_storage s1)))"
proof -
  obtain c s0 h0 s h b where r: "bf_init ex_bw ex_args [] = (Ok (c, s0), h0)"
    "io_fold (bf_handle ex_bw ex_args c) ex_msgs s0 h0 = (Ok s, h)"
    using ex_balancing_run by (rule ex_runE)
  then obtain s1 h1 where "bf_handle ex_bw ex_args c (hd ex_msgs) s0 h0 = (Ok s1, h1)"
    by (auto simp: ex_msgs_def io_bind_Ok)
  then show ?thesis using bf_handle_refines_transfer [of ex_bw ex_args c "hd ex_msgs" s0 h0 s1 h1] ex_init_idle [OF r(1)] r(1)
    by auto
qed

theorem storage_always_persisted_witness:
  "\<exists>c s0 h0 s h d'. bf_init ex_bw ex_args [] = (Ok (c, s0), h0)
     \<and> reaches (bf_handle ex_bw ex_args c) s0 h0 s h \<and> st_balancing (bs_storage s) \<noteq> None
     \<and> disk_run h (\<lambda>_. None) d' \<and> d' ''storage.json'' = Some ''active''"
proof -
  obtain c s0 h0 s h b where r: "bf_init ex_bw ex_args [] = (Ok (c, s0), h0)"
    "io_fold (bf_handle ex_bw ex_args c) ex_msgs s0 h0 = (Ok s, h)" "st_balancing (bs_storage s) = Some b"
    using ex_balancing_run by (rule ex_runE)
  from r(2) have reach: "reaches (bf_handle ex_bw ex_args c) s0 h0 s h" by (rule reaches_run) (rule reaches_refl)
  obtain d' where d: "disk_run h (\<lambda>_. None) d'" using disk_run_total by blast
  have "d' ''storage.json'' = Some ''active''"
    using storage_always_persisted [OF r(1) reach d] r(3) by (simp add: ex_bw_def ex_args_def)
  with r reach d show ?thesis by blast
qed


lemma ex_failed_run: "ex_balancing [hd ex_msgs, BM_ModuleMessage (From_Transfer False)] = (Some Failed, 0)"
  by code_simp

theorem failed_transfer_stops_witness:
  "\<exists>c s h b t s' u. st_balancing (bs_storage s) = Some b \<and> tr_state b = Failed
     \<and> reaches (bf_handle ex_bw ex_args c) s h s' (h @ t)
     \<and> filter money t = [] \<and> st_balancing (bs_storage s') = Some (b\<lparr> tr_updated_at := u \<rparr>)"
proof -
  obtain c s0 h0 s h b where "bf_init ex_bw ex_args [] = (Ok (c, s0), h0)"
    and run: "io_fold (bf_handle ex_bw ex_args c) [hd ex_msgs, BM_ModuleMessage (From_Transfer False)] s0 h0 = (Ok s, h)"
    and r: "st_balancing (bs_storage s) = Some b" "tr_state b = Failed"
    using ex_failed_run by (rule ex_runE)
  let ?s = "s\<lparr> bs_module_prices := [] \<rparr>"
  obtain s' h' where "bf_handle ex_bw ex_args c BM_Disconnected ?s h = (Ok s', h')"
    by (auto simp: bf_handle_def broadcast_prices_def bf_dispatch_def bf_on_disconnected_def instant_now_def
        io_bind_def io_run_simps send_notification_run)
  then have reach: "reaches (bf_handle ex_bw ex_args c) ?s h s' h'" by (meson reaches.intros)
  from r have r': "st_balancing (bs_storage ?s) = Some b" by simp
  from failed_transfer_stops [OF reach r' r(2)] obtain t u where "h' = h @ t" "filter money t = []"
    "st_balancing (bs_storage s') = Some (b\<lparr> tr_updated_at := u \<rparr>)" by blast
  with r' r(2) reach show ?thesis by blast
qed

theorem process_movements_correct_witness:
  "\<exists>ms' st' h' u. process_movements ex_bw ex_args
      \<lparr> fm_success = True, fm_key = [], fm_movements = [\<lparr> mv_id = 7, mv_currency = [], mv_currency_name = [],
         mv_mts_started = 0, mv_mts_updated = 0, mv_status = ''COMPLETED'', mv_amount = Fin 1, mv_fees = Fin 0,
         mv_destination_address = [], mv_transaction_id = ''tx'', mv_withdraw_transaction_note = [] \<rparr>] \<rparr>
      (Some \<lparr> fm_success = True, fm_key = [], fm_movements = [\<lparr> mv_id = 7, mv_currency = [], mv_currency_name = [],
         mv_mts_started = 0, mv_mts_updated = 0, mv_status = ''COMPLETED'', mv_amount = Fin 1, mv_fees = Fin 0,
         mv_destination_address = [], mv_transaction_id = ''tx'', mv_withdraw_transaction_note = [] \<rparr>] \<rparr>)
      \<lparr> st_balancing = Some \<lparr> tr_withdraw_id = None, tr_state = SendUsdtWaitConfirm, tr_amount = 5, tr_created_at = 0,
        tr_updated_at = 0, tr_txid = Some ''tx'' \<rparr> \<rparr> [] = (Ok (ms', st'), h')
    \<and> st' = \<lparr> st_balancing = Some \<lparr> tr_withdraw_id = None, tr_state = Complete, tr_amount = 5, tr_created_at = 0,
        tr_updated_at = u, tr_txid = Some ''tx'' \<rparr> \<rparr>"
  (is "\<exists>ms' st' h' u. process_movements ex_bw ex_args ?msg (Some ?msg) ?st [] = _ \<and> _")
proof -
  have "can_store ex_bw" by (simp add: can_store_def ex_bw_def)
  moreover have "storage_wf ?st" by (simp add: storage_wf_def transfer_wf_def)
  ultimately show ?thesis
    using process_movements_correct [of ex_bw ?st ex_args ?msg "Some ?msg" "[]"]
    by (simp add: movements_eq_def movement_eq_def BITFINEX_STATUS_COMPLETED_def)
qed

end
