(* ===== verification/Bf_Pricing.thy ===== *)
theory Bf_Pricing
  imports Bf_Loop Amount_Bounds
begin

text \<open>
  The numbers of the Bitfinex dealer: the order that hedges a swap, the amounts offered for instant
  swaps, and the amounts moved to rebalance.
\<close>

section \<open>Hedging\<close>

definition hedge_keep :: "args \<Rightarrow> rat" where
  "hedge_keep args = (if mainnet args then 2247971754001983 / 2251799813685248 else 4494592428115755 / 4503599627370496)"

definition exchange_fee :: "args \<Rightarrow> rat" where
  "exchange_fee args = (if mainnet args then 17 / 10000 else 2 / 1000)"

lemma hedge_keep_val: "f64_sub (Fin 1) (bf_fee args) = Fin (hedge_keep args)"
proof -
  have "f64_sub (Fin 1) BITFINEX_FEE_PROD = Fin (2247971754001983 / 2251799813685248)"
    "f64_sub (Fin 1) BITFINEX_FEE_TEST = Fin (4494592428115755 / 4503599627370496)" by code_simp+
  then show ?thesis by (simp add: bf_fee_def hedge_keep_def)
qed

lemma hedge_scaled:
  fixes args :: args
  assumes "0 \<le> a" "a \<le> 2000000000000000"
  defines "n \<equiv> round_away (scaled a (1 / hedge_keep args))"
  shows "\<bar>of_int n * (1 - exchange_fee args) - of_int a\<bar> \<le> 2" "0 \<le> n" "n \<le> SAT_MAX"
proof -
  let ?c = "1 / (1 - exchange_fee args)" and ?d = "6 / 10 ^ 16 :: rat"
  have "of_int a * (?c - ?d) \<le> scaled a (1 / hedge_keep args)" "scaled a (1 / hedge_keep args) \<le> of_int a * (?c + ?d)"
    using assms(1)
    by (intro scaled_err; simp add: hedge_keep_def exchange_fee_def f64_eps_def power3_eq_cube)+
  moreover have "scaled a (1 / hedge_keep args) - 1 / 2 \<le> of_int n" "of_int n \<le> scaled a (1 / hedge_keep args) + 1 / 2"
    using round_away_bounds [of "scaled a (1 / hedge_keep args)"] by (auto simp: n_def)
  moreover have a: "(0 :: rat) \<le> of_int a" "(of_int a :: rat) \<le> 2000000000000000"
    using assms(1,2) by (simp, metis of_int_le_iff of_int_numeral)
  ultimately have n: "of_int a * (?c - ?d) - 1 / 2 \<le> of_int n" "of_int n \<le> of_int a * (?c + ?d) + 1 / 2" by linarith+
  then show "\<bar>of_int n * (1 - exchange_fee args) - of_int a\<bar> \<le> 2"
    using a by (cases "mainnet args") (simp_all add: exchange_fee_def field_simps abs_le_iff)
  have "of_int a * (?c - ?d) \<ge> 0" "of_int a * (?c + ?d) \<le> 2000000000000000 * (?c + ?d)"
    using a by (cases "mainnet args"; simp add: exchange_fee_def)+
  with n have "(- 1 :: rat) < of_int n" "(of_int n :: rat) \<le> of_int SAT_MAX"
    by (cases "mainnet args"; simp add: exchange_fee_def SAT_MAX_def)+
  then show "0 \<le> n" "n \<le> SAT_MAX" by linarith+
qed

lemma hedge_amount_buy:
  assumes "0 \<le> a" "a \<le> 2000000000000000"
  shows "from_bitcoin (signed_bitcoin_amount args a True) = round_away (scaled a (1 / hedge_keep args))"
proof -
  let ?k = "hedge_keep args" and ?x = "rnd (of_int a / 10 ^ 8)"
  have k: "0 < ?k" "1 / 2 \<le> ?k" by (auto simp: hedge_keep_def)
  have a53: "\<bar>a\<bar> \<le> 2 ^ 53" using assms by simp
  have a: "(0 :: rat) \<le> of_int a" "(of_int a :: rat) \<le> 2000000000000000"
    using assms(1,2) by (simp, metis of_int_le_iff of_int_numeral)
  have "?x \<le> rnd (2 ^ 28)" using a by (intro rnd_mono) simp
  moreover have "0 \<le> ?x" using a by simp
  ultimately have x: "0 \<le> ?x" "?x \<le> 2 ^ 28" using rnd_pow2 [of 28] by simp_all
  have xk: "\<bar>?x / ?k\<bar> \<le> 2 ^ 29" using x k by (simp add: divide_le_eq)
  have "from_bitcoin (f64_div (to_bitcoin a) (Fin ?k)) = round_away (scaled a (1 / ?k))"
  proof -
    have fin: "is_fin (f64_div (to_bitcoin a) (Fin ?k))" "f64_val (f64_div (to_bitcoin a) (Fin ?k)) = rnd (?x / ?k)"
      using f64_div_fin [of "to_bitcoin a" "Fin ?k"] to_bitcoin_fin [OF a53] k rnd_below_huge [OF xk] by simp_all
    have "\<bar>rnd (?x / ?k)\<bar> \<le> 2 ^ 30"
      using rnd_abs_le [OF rnd_pow2 xk] by simp
    with fin show ?thesis by (subst from_bitcoin_fin) (auto simp: scaled_def)
  qed
  then have "signed_bitcoin_amount args a True = to_bitcoin (round_away (scaled a (1 / ?k)))"
    by (simp add: signed_bitcoin_amount_def hedge_keep_val)
  then show ?thesis using hedge_scaled [OF assms, of args] by (simp add: bitcoin_roundtrip)
qed

lemma hedge_amount_sell:
  assumes "0 \<le> a" "a \<le> 2000000000000000"
  shows "from_bitcoin (signed_bitcoin_amount args a False) = - a"
proof -
  have a: "\<bar>a\<bar> \<le> SAT_MAX" "\<bar>a\<bar> \<le> 2 ^ 53" using assms by (simp_all add: SAT_MAX_def)
  have ra: "\<bar>of_int a / 10 ^ 8 :: rat\<bar> \<le> 2 ^ 28"
    using sat_range_rat [OF a(1)] by (simp add: abs_divide)
  have "\<bar>rnd (of_int a / 10 ^ 8)\<bar> \<le> 2 ^ 30" using rnd_abs_le [OF rnd_pow2 ra] by simp
  then have "from_bitcoin (f64_neg (to_bitcoin a)) = round_away (rnd (- rnd (of_int a / 10 ^ 8) * 10 ^ 8))"
    using to_bitcoin_fin [OF a(2)] by (subst from_bitcoin_fin) simp_all
  also have "\<dots> = - a" using scale_roundtrip [OF a(1), of "10 ^ 8"] by (simp add: round_away_minus)
  finally show ?thesis by (simp add: signed_bitcoin_amount_def)
qed

lemma hedge_threshold:
  assumes "0 \<le> a" "a \<le> 2000000000000000"
  shows "f64_ge (to_bitcoin a) MIN_HEDGE_AMOUNT \<longleftrightarrow> 20000 \<le> a"
proof -
  have fin: "is_fin (to_bitcoin b)" "f64_val (to_bitcoin b) = rnd (of_int b / 10 ^ 8)" if "0 \<le> b" "b \<le> 2000000000000000" for b
    using to_bitcoin_fin [of b] that by simp_all
  have min: "MIN_HEDGE_AMOUNT = to_bitcoin 20000" by code_simp
  have lt: "f64_lt (to_bitcoin 19999) (to_bitcoin 20000)" by code_simp
  show ?thesis
  proof (cases "20000 \<le> a")
    case True
    then have "rnd (of_int 20000 / 10 ^ 8) \<le> rnd (of_int a / 10 ^ 8)"
      by (intro rnd_mono divide_right_mono) (simp only: of_int_le_iff, simp)
    with True assms show ?thesis by (simp add: min f64_ge_def f64_le_fin fin)
  next
    case False
    then have "rnd (of_int a / 10 ^ 8) \<le> rnd (of_int 19999 / 10 ^ 8)"
      by (intro rnd_mono divide_right_mono) (simp only: of_int_le_iff, simp)
    with False assms lt show ?thesis by (simp add: min f64_ge_def f64_le_fin f64_lt_fin fin)
  qed
qed

text \<open>The orders submitted to the exchange in a history.\<close>

fun submitted :: "bf_event list \<Rightarrow> order_submit list" where
  "submitted [] = []"
| "submitted (Ev_Out (BO_Module (To_OrderSubmit os)) # h) = os # submitted h"
| "submitted (ev # h) = submitted h"

lemma hedge_correct_aux:
  assumes "hedge_order bw args ticker a send s h = (Ok s', h')" and "0 \<le> a" and "a \<le> 2000000000000000"
  shows "\<exists>t. h' = h @ t \<and>
    (if a < 20000 then submitted t = [] \<and> bs_pending_orders s' = bs_pending_orders s
     else \<exists>os. submitted t = [os] \<and> btree_get (book_names args) ticker = Some (os_book_name os)
       \<and> (\<exists>since. bs_pending_orders s' = btree_insert (os_cid os) since (bs_pending_orders s))
       \<and> (if send then \<bar>of_int (from_bitcoin (os_amount os)) * (1 - exchange_fee args) - of_int a\<bar> \<le> 2
          else from_bitcoin (os_amount os) = - a))"
proof (cases "20000 \<le> a")
  case False
  with assms have "bs_pending_orders s' = bs_pending_orders s" "\<exists>now. h' = h @ [Ev_Now now]"
    by (auto simp: hedge_order_def hedge_threshold io_bind_Ok io_run_simps Let_def instant_now_def)
  then show ?thesis using False by auto
next
  case True
  from assms True obtain cid book t0 t1 t2 t3 where
    h: "h' = h @ [Ev_Now t0, Ev_Now t1, Ev_Out (BO_SystemTime t2), Ev_Out (BO_Module (To_OrderSubmit
        \<lparr> os_book_name = book, os_cid = cid, os_amount = signed_bitcoin_amount args a send \<rparr>)), Ev_Now t3]"
    and b: "btree_get (book_names args) ticker = Some book"
    and p: "bs_pending_orders s' = btree_insert cid t3 (bs_pending_orders s)"
    by (auto simp: hedge_order_def hedge_threshold io_bind_Ok io_run_simps Let_def instant_now_def timestamp_now_def
        system_time_def send_msg_def bf_emit_def)
  have "if send then \<bar>of_int (from_bitcoin (signed_bitcoin_amount args a send)) * (1 - exchange_fee args) - of_int a\<bar> \<le> 2
      else from_bitcoin (signed_bitcoin_amount args a send) = - a"
    using hedge_amount_buy [OF assms(2,3)] hedge_scaled(1) [OF assms(2,3)] hedge_amount_sell [OF assms(2,3)] by simp
  with h b p True show ?thesis by auto
qed

text \<open>
  (C26) A swap is hedged by one order of the right size.  A swap of fewer than 20000 satoshis causes
  no order.  Any other causes exactly one, in the book of the swapped asset and recorded as pending
  under its client id: when the dealer gave bitcoins it buys so many that, after the fee of the
  exchange, it gets back what it gave up to two satoshis; when it received bitcoins it sells exactly
  what it received.
\<close>
theorem hedge_order_correct:
  assumes "hedge_order bw args ticker a send s h = (Ok s', h')" and "0 \<le> a" and "a \<le> 2000000000000000"
  shows "\<exists>t. h' = h @ t \<and>
    (if a < 20000 then submitted t = [] \<and> bs_pending_orders s' = bs_pending_orders s
     else \<exists>os. submitted t = [os] \<and> btree_get (book_names args) ticker = Some (os_book_name os)
       \<and> (\<exists>since. bs_pending_orders s' = btree_insert (os_cid os) since (bs_pending_orders s))
       \<and> (if send then \<bar>of_int (from_bitcoin (os_amount os)) * (1 - exchange_fee args) - of_int a\<bar> \<le> 2
          else from_bitcoin (os_amount os) = - a))"
  using assms by (rule hedge_correct_aux)

section \<open>Instant swap offers\<close>

definition work_share :: rat where "work_share = 8962163258467287 / 9007199254740992"

lemma work_share_val: "INSTANT_SWAP_WORK_AMOUNT = Fin work_share"
  unfolding work_share_def by code_simp

lemma trunc_pos: "0 < trunc x \<Longrightarrow> of_int (trunc x) \<le> x"
  by (auto simp: trunc_def split: if_splits)

lemma as_i64_pos:
  assumes "is_fin x" "0 < f64_as_i64 x"
  shows "of_int (f64_as_i64 x) \<le> f64_val x"
proof -
  have e: "f64_as_i64 x = clamp i64_min i64_max (trunc (f64_val x))"
    using assms(1) by (simp add: f64_as_i64_def f64_to_int_fin i64_min_def i64_max_def)
  then have "0 < trunc (f64_val x)" "f64_as_i64 x \<le> trunc (f64_val x)"
    using assms(2) by (auto simp: clamp_def i64_min_def i64_max_def split: if_splits)
  with trunc_pos [of "f64_val x"] show ?thesis by (meson of_int_le_iff order_trans)
qed

text \<open>A share of less than one, computed in floats, is still at most the whole.\<close>

lemma work_share_le:
  assumes "0 \<le> x" "x = 0 \<or> 1 / 10 ^ 18 \<le> x"
  shows "rnd (rnd x * work_share) \<le> x"
proof (cases "x = 0")
  case False
  with assms have x: "1 / 10 ^ 18 \<le> x" "0 < x" by auto
  have r: "x * (1 - f64_eps) \<le> rnd x" "rnd x \<le> x * (1 + f64_eps)"
    using x by (intro rnd_bounds; simp add: order_trans [OF _ x(1)])+
  have "1 / 10 ^ 20 \<le> x * (1 - f64_eps) * work_share"
    using x(1) by (simp add: f64_eps_def work_share_def)
  also have "\<dots> \<le> rnd x * work_share" using r(1) by (simp add: work_share_def)
  finally have "rnd (rnd x * work_share) \<le> rnd x * work_share * (1 + f64_eps)"
    by (intro rnd_bounds) (auto simp: order_trans [rotated])
  also have "\<dots> \<le> x * (1 + f64_eps) * work_share * (1 + f64_eps)"
    using r(2) by (simp add: work_share_def f64_eps_def)
  also have "\<dots> \<le> x" using x(2) by (simp add: work_share_def f64_eps_def)
  finally show ?thesis .
qed (simp add: work_share_def)

lemma work_amount_le:
  fixes p q :: f64
  defines "n \<equiv> f64_as_i64 (f64_mul (f64_min p q) INSTANT_SWAP_WORK_AMOUNT)"
  assumes fin: "is_fin p" "is_fin q" and big: "\<bar>f64_val p\<bar> \<le> 2 ^ 200" "\<bar>f64_val q\<bar> \<le> 2 ^ 200"
    and n: "0 < n"
  shows "of_int n \<le> rnd (f64_val p * work_share)" "of_int n \<le> rnd (f64_val q * work_share)"
proof -
  let ?m = "min (f64_val p) (f64_val q)"
  have m: "is_fin (f64_min p q)" "f64_val (f64_min p q) = ?m" using f64_min_fin [OF fin] by simp_all
  have "\<bar>?m * work_share\<bar> \<le> 2 ^ 200 * 1"
    unfolding abs_mult using big by (intro mult_mono) (auto simp: work_share_def min_def)
  then have "\<bar>rnd (?m * work_share)\<bar> < f64_huge" by (intro rnd_below_huge [of _ 200]) auto
  with m have v: "is_fin (f64_mul (f64_min p q) INSTANT_SWAP_WORK_AMOUNT)"
    "f64_val (f64_mul (f64_min p q) INSTANT_SWAP_WORK_AMOUNT) = rnd (?m * work_share)"
    using f64_mul_fin [of "f64_min p q" "Fin work_share"] by (simp_all add: work_share_val)
  from as_i64_pos [OF v(1)] n v(2) have le: "of_int n \<le> rnd (?m * work_share)" by (simp add: n_def)
  have "rnd (?m * work_share) \<le> rnd (f64_val p * work_share)" "rnd (?m * work_share) \<le> rnd (f64_val q * work_share)"
    by (intro rnd_mono mult_right_mono; simp add: work_share_def)+
  with le show "of_int n \<le> rnd (f64_val p * work_share)" "of_int n \<le> rnd (f64_val q * work_share)" by linarith+
qed

lemma work_amount_bound:
  fixes p q :: f64
  defines "n \<equiv> f64_as_i64 (f64_mul (f64_min p q) INSTANT_SWAP_WORK_AMOUNT)"
  assumes fin: "is_fin p" "is_fin q" and v: "f64_val p = rnd x" "f64_val q = rnd y"
    and big: "\<bar>x\<bar> \<le> 2 ^ 200" "\<bar>y\<bar> \<le> 2 ^ 200" and small: "x \<le> 0 \<or> 1 / 10 ^ 18 \<le> x" "y \<le> 0 \<or> 1 / 10 ^ 18 \<le> y"
    and n: "0 < n"
  shows "of_int n \<le> x" "of_int n \<le> y"
proof -
  have b: "\<bar>rnd z\<bar> \<le> 2 ^ 200" if "\<bar>z\<bar> \<le> 2 ^ 200" for z using rnd_abs_le [OF rnd_pow2 that] .
  have le: "of_int n \<le> z" if "of_int n \<le> rnd (rnd z * work_share)" "z \<le> 0 \<or> 1 / 10 ^ 18 \<le> z" for z
  proof (cases "z \<le> 0")
    case True
    then have "rnd (rnd z * work_share) \<le> 0"
      using rnd_nonpos [of z] by (intro rnd_nonpos mult_nonpos_nonneg) (auto simp: work_share_def)
    with that n show ?thesis by (metis leD of_int_0_less_iff order_trans)
  next
    case False
    with that work_share_le [of z] show ?thesis by linarith
  qed
  show "of_int n \<le> x" "of_int n \<le> y"
    using work_amount_le [OF fin] v b big n small le unfolding n_def by auto
qed

lemma wallet_amount_range:
  assumes "\<forall>u\<in>set (btree_values utxos). 0 \<le> u_amount u" "sum_list (map u_amount (btree_values utxos)) \<le> SAT_MAX"
  shows "0 \<le> wallet_amount utxos asset \<and> wallet_amount utxos asset \<le> SAT_MAX"
proof -
  have le: "sum_list (map f (filter P xs)) \<le> sum_list (map f xs)" if "\<forall>u\<in>set xs. 0 \<le> f u" for f :: "utxo \<Rightarrow> int" and P xs
    using that by (induction xs) (auto simp: add_increasing)
  let ?xs = "map u_amount (filter (\<lambda>u. ui_asset (u_item u) = asset) (btree_values utxos))"
  have "sum_list ?xs \<le> SAT_MAX" using le [OF assms(1)] assms(2) by (rule order_trans)
  moreover have "0 \<le> sum_list ?xs" using assms(1) by (intro sum_list_nonneg) auto
  moreover have "i64_sum ?xs = sum_list ?xs" using assms(1) \<open>sum_list ?xs \<le> SAT_MAX\<close>
    by (intro i64_sum_exact) (auto simp: SAT_MAX_def i64_max_def)
  ultimately show ?thesis by (simp add: wallet_amount_def)
qed

lemma int_rat_range: "0 \<le> n \<Longrightarrow> n \<le> SAT_MAX \<Longrightarrow> (0 :: rat) \<le> of_int n \<and> (of_int n :: rat) \<le> 2100000000000000"
  using sat_range_rat [of n] by auto

lemma as_f64_range:
  assumes "is_i64 e"
  shows "is_fin (int_as_f64 e)" "f64_val (int_as_f64 e) = rnd (of_int e)" "\<bar>of_int e :: rat\<bar> \<le> 2 ^ 200"
    "of_int e \<le> (0 :: rat) \<or> 1 / 10 ^ 18 \<le> (of_int e :: rat)"
proof -
  have "\<bar>e\<bar> \<le> 2 ^ 64" using assms by (auto simp: i64_bounds)
  then show "is_fin (int_as_f64 e)" "f64_val (int_as_f64 e) = rnd (of_int e)" by (rule int_as_f64_fin)+
  have "\<bar>e\<bar> \<le> 2 ^ 200" using \<open>\<bar>e\<bar> \<le> 2 ^ 64\<close> by simp
  then have "of_int \<bar>e\<bar> \<le> (of_int (2 ^ 200) :: rat)" by (simp only: of_int_le_iff)
  then show "\<bar>of_int e :: rat\<bar> \<le> 2 ^ 200" by simp
  show "of_int e \<le> (0 :: rat) \<or> 1 / 10 ^ 18 \<le> (of_int e :: rat)"
  proof (cases "e \<le> 0")
    case False
    then have "(of_int 1 :: rat) \<le> of_int e" by (simp only: of_int_le_iff)
    then have "1 / 10 ^ 18 \<le> (of_int e :: rat)" by (rule order_trans [rotated]) simp
    then show ?thesis ..
  qed simp
qed

lemma exchange_balance_i64 [simp]: "is_i64 (get_exchange_balance b n)"
  by (simp add: get_exchange_balance_def from_bitcoin_def)

text \<open>Prices the theorem is about: between a thousandth and a billion of units per bitcoin.\<close>

definition sane_price :: "f64 \<Rightarrow> rat \<Rightarrow> bool" where
  "sane_price x p \<longleftrightarrow> x = Fin p \<and> 1 / 1000 \<le> p \<and> p \<le> 10 ^ 9"

lemma priced_wallet:
  assumes "0 \<le> w" "w \<le> SAT_MAX" "sane_price x p"
  shows "is_fin (f64_mul (int_as_f64 w) x)" "f64_val (f64_mul (int_as_f64 w) x) = rnd (of_int w * p)"
    "\<bar>of_int w * p\<bar> \<le> 2 ^ 200" "of_int w * p \<le> 0 \<or> 1 / 10 ^ 18 \<le> of_int w * p"
    "is_fin (f64_div (int_as_f64 w) x)" "f64_val (f64_div (int_as_f64 w) x) = rnd (of_int w / p)"
    "\<bar>of_int w / p\<bar> \<le> 2 ^ 200" "of_int w / p \<le> 0 \<or> 1 / 10 ^ 18 \<le> of_int w / p"
proof -
  have p: "0 < p" "1 / 1000 \<le> p" "p \<le> 10 ^ 9" "x = Fin p" using assms(3) by (auto simp: sane_price_def)
  have w: "(0 :: rat) \<le> of_int w" "(of_int w :: rat) \<le> 2100000000000000" using int_rat_range assms by auto
  have e: "int_as_f64 w = Fin (of_int w)" using assms by (intro int_as_f64_exact) (simp add: SAT_MAX_def)
  have "of_int w * p \<le> 2100000000000000 * 10 ^ 9" using w p by (intro mult_mono) auto
  then show b1: "\<bar>of_int w * p\<bar> \<le> 2 ^ 200" using w p by simp
  have "of_int w / p \<le> 2100000000000000 / (1 / 1000)" using w p by (intro frac_le) auto
  then show b2: "\<bar>of_int w / p\<bar> \<le> 2 ^ 200" using w p by simp
  show "is_fin (f64_mul (int_as_f64 w) x)" "f64_val (f64_mul (int_as_f64 w) x) = rnd (of_int w * p)"
    using f64_mul_fin [of "Fin (of_int w)" "Fin p"] rnd_below_huge [OF b1] by (simp_all add: e p)
  show "is_fin (f64_div (int_as_f64 w) x)" "f64_val (f64_div (int_as_f64 w) x) = rnd (of_int w / p)"
    using f64_div_fin [of "Fin (of_int w)" "Fin p"] rnd_below_huge [OF b2] p(1) by (simp_all add: e p(4))
  show "of_int w * p \<le> 0 \<or> 1 / 10 ^ 18 \<le> of_int w * p" "of_int w / p \<le> 0 \<or> 1 / 10 ^ 18 \<le> of_int w / p"
  proof (atomize (full), cases "w = 0")
    case False
    with assms(1) have "(of_int 1 :: rat) \<le> of_int w" by (simp only: of_int_le_iff)
    then have "1 * (1 / 1000) \<le> of_int w * p" "1 / 10 ^ 9 \<le> of_int w / p" using p w by (intro mult_mono frac_le; auto)+
    then show "(of_int w * p \<le> 0 \<or> 1 / 10 ^ 18 \<le> of_int w * p) \<and> (of_int w / p \<le> 0 \<or> 1 / 10 ^ 18 \<le> of_int w / p)"
      using order_trans [of "1 / 10 ^ 18" "1 / 1000 :: rat" "of_int w * p"]
        order_trans [of "1 / 10 ^ 18" "1 / 10 ^ 9 :: rat" "of_int w / p"] by simp
  qed simp
qed

lemma eurx_limit:
  assumes "sane_price x p"
  shows "of_int (i64_mul (i64_mul 10 COIN) (f64_as_i64 x)) \<le> 10 ^ 9 * p"
proof -
  have p: "x = Fin p" "0 < p" "p \<le> 10 ^ 9" using assms by (auto simp: sane_price_def)
  have f: "0 \<le> \<lfloor>p\<rfloor>" "\<lfloor>p\<rfloor> \<le> 10 ^ 9" using p by (auto simp: floor_le_iff)
  then have "f64_as_i64 x = \<lfloor>p\<rfloor>"
    using p by (simp add: f64_as_i64_def trunc_def clamp_def i64_min_def i64_max_def)
  moreover have "i64_mul (i64_mul 10 COIN) n = 10 ^ 9 * n" if "0 \<le> n" "n \<le> 10 ^ 9" for n
    using that by (simp add: i64_mul_def COIN_def i64_bounds)
  moreover have "of_int (10 ^ 9 * \<lfloor>p\<rfloor>) \<le> 10 ^ 9 * p" by simp
  ultimately show "of_int (i64_mul (i64_mul 10 COIN) (f64_as_i64 x)) \<le> 10 ^ 9 * p" using f by simp
qed

text \<open>
  (C29) Instant swap offers are covered.  For sane prices and a wallet within the money supply, every
  offer broadcast for a ticker is positive and can be honoured with what the wallet holds at that
  price: the bitcoins to send for the most asset a client may send are in the wallet, and so is the
  asset to send for the most bitcoins.  An offer to take bitcoins also stays within the (reserved)
  balance of bitcoins on the exchange, and an offer to take USDt within the balance of USDt there.  For
  EURx the balance on the exchange is not looked at, since the dealer buys EURx as needed: an offer to
  take EURx is only limited to the worth of ten bitcoins.
\<close>
theorem get_prices_covered:
  assumes "get_prices args ticker prices assets utxos exchange = (Ok offers :: ('e, price_offer list) outcome)"
    and "sane_price (pp_ask prices) ask" and "sane_price (pp_bid prices) bid"
    and "\<forall>u\<in>set (btree_values utxos). 0 \<le> u_amount u" and "sum_list (map u_amount (btree_values utxos)) \<le> SAT_MAX"
    and "offer \<in> set offers"
  shows "0 < of_max_send_amount offer \<and> (\<exists>btc asset. asset_of_ticker assets TICKER_LBTC = (Ok btc :: ('e, asset_id) outcome)
    \<and> asset_of_ticker assets (dt_name ticker) = (Ok asset :: ('e, asset_id) outcome)
    \<and> (if of_client_send_bitcoins offer
       then of_int (of_max_send_amount offer) * bid \<le> of_int (wallet_amount utxos asset)
         \<and> of_max_send_amount offer \<le> get_exchange_balance exchange (a_bitfinex_currency_btc args)
       else of_int (of_max_send_amount offer) \<le> of_int (wallet_amount utxos btc) * ask
         \<and> (if ticker = DEALER_EURX then of_int (of_max_send_amount offer) \<le> 10 ^ 9 * ask
            else of_max_send_amount offer \<le> get_exchange_balance exchange (a_bitfinex_currency_usdt args))))"
proof -
  from assms(1,6) obtain btc asset ex_asset where ids:
      "asset_of_ticker assets TICKER_LBTC = (Ok btc :: ('e, asset_id) outcome)"
      "asset_of_ticker assets (dt_name ticker) = (Ok asset :: ('e, asset_id) outcome)"
    and ex: "ex_asset = (if ticker = DEALER_EURX then i64_mul (i64_mul 10 COIN) (f64_as_i64 (pp_ask prices))
        else get_exchange_balance exchange (if ticker = DEALER_USDT then a_bitfinex_currency_usdt args else a_bitfinex_currency_eur args))"
    and offer: "(let n = f64_as_i64 (f64_mul (f64_min (f64_mul (int_as_f64 (wallet_amount utxos btc)) (pp_ask prices))
          (int_as_f64 ex_asset)) INSTANT_SWAP_WORK_AMOUNT) in 0 < n \<and>
          offer = \<lparr> of_client_send_bitcoins = False, of_price = pp_ask prices, of_max_send_amount = n \<rparr>)
      \<or> (let n = f64_as_i64 (f64_mul (f64_min (int_as_f64 (get_exchange_balance exchange (a_bitfinex_currency_btc args)))
          (f64_div (int_as_f64 (wallet_amount utxos asset)) (pp_bid prices))) INSTANT_SWAP_WORK_AMOUNT) in 0 < n \<and>
          offer = \<lparr> of_client_send_bitcoins = True, of_price = pp_bid prices, of_max_send_amount = n \<rparr>)"
    by (auto simp: get_prices_def Let_def split: if_split_asm)
  have i64: "is_i64 ex_asset" by (simp add: ex)
  have usdt: "ticker = DEALER_USDT" if "ticker \<noteq> DEALER_EURX"
    using assms(1,6) that by (auto simp: get_prices_def Let_def split: if_split_asm)
  have limit: "if ticker = DEALER_EURX then of_int n \<le> 10 ^ 9 * ask
      else n \<le> get_exchange_balance exchange (a_bitfinex_currency_usdt args)" if "(of_int n :: rat) \<le> of_int ex_asset" for n
    using that usdt eurx_limit [OF assms(2)] by (auto simp: ex)
  note w = wallet_amount_range [OF assms(4,5)]
  have bid: "0 < bid" using assms(3) by (auto simp: sane_price_def)
  note ask_side = work_amount_bound [OF priced_wallet(1) [OF _ _ assms(2)] as_f64_range(1) [OF i64]
      priced_wallet(2) [OF _ _ assms(2)] as_f64_range(2) [OF i64] priced_wallet(3) [OF _ _ assms(2)] as_f64_range(3) [OF i64]
      priced_wallet(4) [OF _ _ assms(2)] as_f64_range(4) [OF i64], of "wallet_amount utxos btc"]
  note bid_side = work_amount_bound [OF as_f64_range(1) [OF exchange_balance_i64] priced_wallet(5) [OF _ _ assms(3)]
      as_f64_range(2) [OF exchange_balance_i64] priced_wallet(6) [OF _ _ assms(3)]
      as_f64_range(3) [OF exchange_balance_i64] priced_wallet(7) [OF _ _ assms(3)]
      as_f64_range(4) [OF exchange_balance_i64] priced_wallet(8) [OF _ _ assms(3)],
      of "wallet_amount utxos asset" exchange "a_bitfinex_currency_btc args"]
  from offer show ?thesis
  proof
    assume "let n = f64_as_i64 (f64_mul (f64_min (f64_mul (int_as_f64 (wallet_amount utxos btc)) (pp_ask prices))
          (int_as_f64 ex_asset)) INSTANT_SWAP_WORK_AMOUNT) in 0 < n \<and>
          offer = \<lparr> of_client_send_bitcoins = False, of_price = pp_ask prices, of_max_send_amount = n \<rparr>"
    then show ?thesis using ids w ask_side limit [OF ask_side(2)] by (auto simp: Let_def)
  next
    assume "let n = f64_as_i64 (f64_mul (f64_min (int_as_f64 (get_exchange_balance exchange (a_bitfinex_currency_btc args)))
          (f64_div (int_as_f64 (wallet_amount utxos asset)) (pp_bid prices))) INSTANT_SWAP_WORK_AMOUNT) in 0 < n \<and>
          offer = \<lparr> of_client_send_bitcoins = True, of_price = pp_bid prices, of_max_send_amount = n \<rparr>"
    then show ?thesis using ids w bid_side bid by (auto simp: Let_def field_simps)
  qed
qed

section \<open>Examples\<close>

definition ex_idle :: bf_state where
  "ex_idle = \<lparr> bs_storage = \<lparr> st_balancing = None \<rparr>, bs_movements = None, bs_balancing_blocked = 0,
     bs_assets = [ex_asset, ex_asset\<lparr> as_asset_id := ''lbtc'', as_ticker := ''L-BTC'' \<rparr>], bs_utxos = ex_utxos,
     bs_server_status = None, bs_instant_swaps = [], bs_server_connected = True, bs_module_connected = True,
     bs_wallet_balances = [], bs_wallet_balances_confirmed = [], bs_exchange_balances = [(ExchangeTicker ''UST'', Fin 1000)],
     bs_exchange_balances_reported = [], bs_profit_reports = None, bs_bitcoin_ratio_old = None, bs_module_prices = [],
     bs_broadcast_timestamps = [], bs_latest_check_exchange = 0, bs_orders = [], bs_pending_orders = [] \<rparr>"

lemma ex_book: "btree_get (book_names ex_args) DEALER_USDT = Some ''tBTCUST''"
  by (simp add: book_names_def ex_args_def dealer_ticker_defs)

lemma timestamp_now_run:
  "0 \<le> bw_system_time bw h \<Longrightarrow> timestamp_now bw h =
     (Ok (as_millis_i64 (bw_system_time bw h)), h @ [Ev_Out (BO_SystemTime (bw_system_time bw h))])"
  by (simp add: timestamp_now_def system_time_def system_duration_since_def io_run_simps)

lemma timestamp_now_ex: "timestamp_now ex_bw h =
     (Ok (as_millis_i64 (bw_system_time ex_bw h)), h @ [Ev_Out (BO_SystemTime (bw_system_time ex_bw h))])"
  by (rule timestamp_now_run) (simp add: ex_bw_def)

theorem hedge_order_correct_witness:
  "\<exists>s' t os. hedge_order ex_bw ex_args DEALER_USDT 1000000 True ex_idle [] = (Ok s', [] @ t) \<and> submitted t = [os]
     \<and> os_book_name os = ''tBTCUST'' \<and> \<bar>of_int (from_bitcoin (os_amount os)) * (1 - 2 / 1000) - of_int 1000000\<bar> \<le> (2 :: rat)"
proof -
  have "f64_ge (to_bitcoin 1000000) MIN_HEDGE_AMOUNT" using hedge_threshold [of 1000000] by simp
  with timestamp_now_ex have "\<exists>s' t. hedge_order ex_bw ex_args DEALER_USDT 1000000 True ex_idle [] = (Ok s', t)"
    by (simp add: hedge_order_def instant_now_def send_msg_def bf_emit_def ex_book Let_def io_bind_def io_run_simps)
  then obtain s' t where r: "hedge_order ex_bw ex_args DEALER_USDT 1000000 True ex_idle [] = (Ok s', t)" by blast
  have "\<not> mainnet ex_args" by code_simp
  with hedge_order_correct [OF r] r ex_book show ?thesis by (auto simp: exchange_fee_def)
qed

lemma ex_offer_parts:
  "wallet_amount ex_utxos ''lbtc'' = 20000000" "wallet_amount ex_utxos ''usdt'' = 0"
  "get_exchange_balance [(ExchangeTicker ''UST'', Fin 1000)] (ExchangeTicker ''UST'') = 99000000000"
  "get_exchange_balance [(ExchangeTicker ''UST'', Fin 1000)] (ExchangeTicker ''BTC'') = 0"
  "f64_as_i64 (f64_mul (f64_min (f64_mul (int_as_f64 20000000) (Fin 4096)) (int_as_f64 99000000000)) INSTANT_SWAP_WORK_AMOUNT)
    = 81510400000"
  "f64_as_i64 (f64_mul (f64_min (int_as_f64 0) (f64_div (int_as_f64 0) (Fin 4000))) INSTANT_SWAP_WORK_AMOUNT) = 0"
  by code_simp+

lemma ex_offers: "get_prices ex_args DEALER_USDT \<lparr> pp_bid = Fin 4000, pp_ask = Fin 4096 \<rparr> (bs_assets ex_idle) ex_utxos
    (bs_exchange_balances ex_idle) = (Ok [\<lparr> of_client_send_bitcoins = False, of_price = Fin 4096,
      of_max_send_amount = 81510400000 \<rparr>] :: (bf_exit, price_offer list) outcome)"
  by (simp add: get_prices_def Let_def ex_idle_def ex_args_def dealer_ticker_defs asset_of_ticker_def ex_asset_def ex_offer_parts)

theorem get_prices_covered_witness:
  "\<exists>offer. get_prices ex_args DEALER_USDT \<lparr> pp_bid = Fin 4000, pp_ask = Fin 4096 \<rparr> (bs_assets ex_idle) ex_utxos
       (bs_exchange_balances ex_idle) = (Ok [offer] :: (bf_exit, price_offer list) outcome)
     \<and> 0 < of_max_send_amount offer"
proof -
  obtain offer where r: "get_prices ex_args DEALER_USDT \<lparr> pp_bid = Fin 4000, pp_ask = Fin 4096 \<rparr> (bs_assets ex_idle) ex_utxos
       (bs_exchange_balances ex_idle) = (Ok [offer] :: (bf_exit, price_offer list) outcome)" using ex_offers by blast
  have "0 < of_max_send_amount offer"
    using get_prices_covered [OF r, of 4096 4000 offer] by (simp add: sane_price_def ex_utxos_def SAT_MAX_def)
  with r show ?thesis by blast
qed

end
