(* ===== verification/Bf_Rebalance.thy ===== *)
theory Bf_Rebalance
  imports Bf_Pricing
begin

text \<open>
  The amounts of \<open>get_balancing\<close>: error bounds for the float computations of the smaller and the
  bigger asset, and that what is asked for is available.
\<close>

section \<open>Rebalancing\<close>

text \<open>Balances the theorem is about: from one satoshi to forty million units, as the floats they are.\<close>

definition balance_ok :: "f64 \<Rightarrow> rat \<Rightarrow> bool" where
  "balance_ok x q \<longleftrightarrow> x = Fin q \<and> rnd q = q \<and> 1 / 10 ^ 8 \<le> q \<and> q \<le> 40000000"

lemma balance_okD: "balance_ok x q \<Longrightarrow> x = Fin q \<and> rnd q = q \<and> 0 < q \<and> 1 / 10 ^ 8 \<le> q \<and> q \<le> 40000000"
  by (auto simp: balance_ok_def intro: less_le_trans [rotated])

lemma rnd_up: "1 / 10 ^ 20 \<le> x \<Longrightarrow> x \<le> y \<Longrightarrow> rnd x \<le> y * (1 + f64_eps)"
  and rnd_down: "1 / 10 ^ 20 \<le> x \<Longrightarrow> x * (1 - f64_eps) \<le> rnd x"
proof -
  assume x: "1 / 10 ^ 20 \<le> x"
  then have "0 \<le> x" by (rule order_trans [rotated]) simp
  then have b: "x * (1 - f64_eps) \<le> rnd x" "rnd x \<le> x * (1 + f64_eps)" using x rnd_bounds by auto
  then show "x * (1 - f64_eps) \<le> rnd x" by simp
  assume "x \<le> y"
  then have "x * (1 + f64_eps) \<le> y * (1 + f64_eps)" by (intro mult_right_mono) (simp_all add: f64_eps_def)
  with b(2) show "rnd x \<le> y * (1 + f64_eps)" by linarith
qed

lemma total_bounds:
  assumes "rnd a = a" "rnd b = b" "1 / 10 ^ 8 \<le> a" "1 / 10 ^ 8 \<le> b"
  shows "a \<le> rnd (a + b)" "b \<le> rnd (a + b)" "rnd (a + b) \<le> (a + b) * (1 + f64_eps)" "(a + b) * (1 - f64_eps) \<le> rnd (a + b)"
proof -
  have p: "0 < a" "0 < b" using assms(3,4) by (auto intro: less_le_trans [rotated])
  then have "rnd a \<le> rnd (a + b)" "rnd b \<le> rnd (a + b)" by (auto intro: rnd_mono)
  with assms show "a \<le> rnd (a + b)" "b \<le> rnd (a + b)" by simp_all
  have "1 / 10 ^ 20 \<le> (1 / 10 ^ 8 :: rat)" by simp
  then have s: "1 / 10 ^ 20 \<le> a + b" using assms(3) p by linarith
  then show "rnd (a + b) \<le> (a + b) * (1 + f64_eps)" "(a + b) * (1 - f64_eps) \<le> rnd (a + b)"
    using rnd_up [of "a + b" "a + b"] rnd_down [of "a + b"] by auto
qed

text \<open>Rounding an amount to whole satoshis through floats.\<close>

lemma satoshis_le:
  assumes "is_fin x" "0 \<le> f64_val x" "f64_val x \<le> 50000000"
  shows "is_fin (to_bitcoin (from_bitcoin x))" "f64_val (to_bitcoin (from_bitcoin x)) \<le> f64_val x * (1 + 4 * f64_eps) + 1 / 10 ^ 8"
proof -
  let ?q = "f64_val x"
  let ?n = "round_away (rnd (?q * 10 ^ 8))"
  have n: "from_bitcoin x = ?n" using assms by (intro from_bitcoin_fin) auto
  have le: "?q * 10 ^ 8 \<le> 2 ^ 53 - 1" using assms(3) by simp
  have r: "0 \<le> rnd (?q * 10 ^ 8)" using assms(2) by simp
  have "rnd (?q * 10 ^ 8) \<le> rnd (of_int (2 ^ 53 - 1))" using le by (intro rnd_mono) simp
  also have "\<dots> = of_int (2 ^ 53 - 1)" by (rule rnd_of_int) simp
  finally have "round_away (rnd (?q * 10 ^ 8)) \<le> 2 ^ 53 - 1"
    by (metis round_away_mono round_away_of_int)
  moreover have "0 \<le> ?n" using round_away_mono [OF r] by simp
  ultimately have n53: "\<bar>?n\<bar> \<le> 2 ^ 53" by simp
  show "is_fin (to_bitcoin (from_bitcoin x))" unfolding n by (rule to_bitcoin_fin(1) [OF n53])
  have v: "f64_val (to_bitcoin (from_bitcoin x)) = rnd (of_int ?n / 10 ^ 8)" unfolding n by (rule to_bitcoin_fin(2) [OF n53])
  show "f64_val (to_bitcoin (from_bitcoin x)) \<le> ?q * (1 + 4 * f64_eps) + 1 / 10 ^ 8"
  proof (cases "?n = 0")
    case True
    then show ?thesis using v assms(2) by (simp add: f64_eps_def)
  next
    case False
    with \<open>0 \<le> ?n\<close> have n1: "(1 :: rat) \<le> of_int ?n" by (metis less_le of_int_1 of_int_le_iff zless_imp_add1_zle add_0)
    have "rnd (of_int ?n / 10 ^ 8) \<le> of_int ?n / 10 ^ 8 * (1 + f64_eps)"
      using n1 by (intro rnd_up) (auto intro: order_trans [rotated])
    moreover have nb: "of_int ?n \<le> rnd (?q * 10 ^ 8) + 1 / 2" by (rule round_away_bounds)
    moreover have "rnd (?q * 10 ^ 8) \<le> ?q * 10 ^ 8 * (1 + f64_eps)"
    proof (cases "1 / 10 ^ 20 \<le> ?q * 10 ^ 8")
      case False
      then have "rnd (?q * 10 ^ 8) \<le> rnd (1 / 4)" by (intro rnd_mono) (auto simp: not_le intro: order_trans [OF less_imp_le])
      moreover have "rnd (1 / 4) = 1 / 4" using rnd_exact [of "1 / 4" 1 "- 2"] by simp
      ultimately have "of_int ?n \<le> (3 / 4 :: rat)" using nb by linarith
      with n1 show ?thesis by linarith
    qed (auto intro: rnd_up)
    ultimately show ?thesis using v assms(2) n1
      by (simp add: f64_eps_def field_simps)
  qed
qed

lemma smaller_diff:
  assumes "balance_ok x a" "balance_ok y b"
  defines "tot \<equiv> f64_add x y"
  defines "rr \<equiv> f64_div x tot"
  defines "diff \<equiv> to_bitcoin (from_bitcoin (f64_abs (f64_mul (f64_sub (Fin (1 / 2)) rr) tot)))"
  shows "is_fin rr" "f64_val rr = rnd (a / rnd (a + b))"
    "is_fin diff" "f64_val diff \<le> (a + b) * (1 / 2 + 4 * f64_eps) + 1 / 10 ^ 8"
proof -
  note a = balance_okD [OF assms(1)] and b = balance_okD [OF assms(2)]
  let ?T = "rnd (a + b)" and ?R = "rnd (a / rnd (a + b))"
  have T: "a \<le> ?T" "b \<le> ?T" "?T \<le> (a + b) * (1 + f64_eps)" "0 < ?T"
    using total_bounds [of a b] a b by auto
  have "(a + b) * (1 + f64_eps) \<le> 80000000 * (1 + f64_eps)" using a b by (intro mult_right_mono) (auto simp: f64_eps_def)
  with T(3) have T2: "?T \<le> 2 ^ 27" by (simp add: f64_eps_def)
  have tot: "is_fin tot" "f64_val tot = ?T"
    using f64_add_fin [of x y] rnd_below_huge [of "a + b" 27] a b by (simp_all add: tot_def)
  have q: "0 \<le> a / ?T" "a / ?T \<le> 1" using a T by simp_all
  show rr: "is_fin rr" "f64_val rr = ?R"
    using f64_div_fin [of x tot] tot a T(4) rnd_below_huge [of "a / ?T" 1] q by (simp_all add: rr_def)
  have R: "0 \<le> ?R" "?R \<le> 1" using rnd_mono [OF q(2)] rnd_nonneg [OF q(1)] rnd_of_int [of 1] by simp_all
  let ?S = "rnd (1 / 2 - ?R)"
  have half: "rnd (1 / 2) = 1 / 2" using rnd_exact [of "1 / 2" 1 "- 1"] by simp
  have S: "\<bar>?S\<bar> \<le> 1 / 2" using R by (intro rnd_abs_le [OF half]) linarith
  have sub: "is_fin (f64_sub (Fin (1 / 2)) rr)" "f64_val (f64_sub (Fin (1 / 2)) rr) = ?S"
    using f64_sub_fin [of "Fin (1 / 2)" rr] rr rnd_below_huge [of "1 / 2 - ?R" 1] R by (simp_all add: abs_le_iff)
  have ST: "\<bar>?S * ?T\<bar> \<le> 1 / 2 * ?T" unfolding abs_mult using S T(4) by (intro mult_mono) auto
  then have ST27: "\<bar>?S * ?T\<bar> \<le> 2 ^ 27" using T2 T(4) by linarith
  have mul: "is_fin (f64_mul (f64_sub (Fin (1 / 2)) rr) tot)"
    "f64_val (f64_mul (f64_sub (Fin (1 / 2)) rr) tot) = rnd (?S * ?T)"
    using f64_mul_fin [of "f64_sub (Fin (1 / 2)) rr" tot] sub tot rnd_below_huge [OF ST27] by simp_all
  let ?m = "f64_abs (f64_mul (f64_sub (Fin (1 / 2)) rr) tot)"
  have m: "is_fin ?m" "f64_val ?m = \<bar>rnd (?S * ?T)\<bar>"
    using mul by (cases "f64_mul (f64_sub (Fin (1 / 2)) rr) tot"; simp)+
  have abs_rnd: "\<bar>rnd z\<bar> = rnd \<bar>z\<bar>" for z
    by (cases "0 \<le> z") (use rnd_nonneg [of z] rnd_nonneg [of "- z"] in \<open>simp_all add: abs_of_nonneg abs_of_nonpos rnd_nonpos\<close>)
  have "f64_val ?m \<le> rnd (1 / 2 * ?T)" unfolding m(2) abs_rnd using ST by (rule rnd_mono)
  moreover have "1 / 10 ^ 20 \<le> 1 / 2 * ?T"
    using order_trans [of "1 / 10 ^ 20" "1 / 2 * (1 / 10 ^ 8 :: rat)" "1 / 2 * ?T"] T(1) a by simp
  then have "rnd (1 / 2 * ?T) \<le> 1 / 2 * ((a + b) * (1 + f64_eps)) * (1 + f64_eps)"
    using T(3) by (intro rnd_up) auto
  ultimately have D: "f64_val ?m \<le> (a + b) * (1 / 2 + 3 / 2 * f64_eps)"
    using a b by (simp add: f64_eps_def field_simps)
  have D50: "f64_val ?m \<le> 50000000" using D a b by (simp add: f64_eps_def)
  have "f64_val diff \<le> f64_val ?m * (1 + 4 * f64_eps) + 1 / 10 ^ 8" "is_fin diff"
    using satoshis_le [OF m(1) _ D50] m(2) by (simp_all add: diff_def)
  then show "is_fin diff" "f64_val diff \<le> (a + b) * (1 / 2 + 4 * f64_eps) + 1 / 10 ^ 8"
    using D a b by (simp_all add: f64_eps_def field_simps)
qed

text \<open>Rebalancing the smaller asset never asks for more than the side that gives it away holds.\<close>

lemma smaller_available:
  assumes "balance_ok x a" "balance_ok y b"
  shows "\<exists>r. get_balancing_smaller x y RATIO_BTC = (Ok r :: ('e, balancing) outcome) \<and>
    (case r of Balancing_None \<Rightarrow> True
     | Balancing_Recv v \<Rightarrow> is_fin v \<and> f64_val v \<le> b + 1 / 10 ^ 7
     | Balancing_Send v \<Rightarrow> is_fin v \<and> f64_val v \<le> a + 1 / 10 ^ 7)"
proof -
  note a = balance_okD [OF assms(1)] and b = balance_okD [OF assms(2)]
  note d = smaller_diff [OF assms]
  let ?T = "rnd (a + b)"
  have T: "?T \<le> (a + b) * (1 + f64_eps)" "(a + b) * (1 - f64_eps) \<le> ?T" "0 < ?T"
    using total_bounds [of a b] a b by auto
  have quarter: "rnd (1 / 4) = 1 / 4" "rnd (3 / 4) = 3 / 4"
    using rnd_exact [of "1 / 4" 1 "- 2"] rnd_exact [of "3 / 4" 3 "- 2"] by simp_all
  have low: "a / ?T < 1 / 4" if "rnd (a / ?T) < 1 / 4"
    using that rnd_mono [of "1 / 4" "a / ?T"] quarter(1) by (cases "1 / 4 \<le> a / ?T") auto
  have high: "3 / 4 < a / ?T" if "3 / 4 < rnd (a / ?T)"
    using that rnd_mono [of "a / ?T" "3 / 4"] quarter(2) by (cases "a / ?T \<le> 3 / 4") auto
  have recv: "(a + b) * (1 / 2 + 4 * f64_eps) \<le> b + 9 / 10 ^ 8" if "rnd (a / ?T) < 1 / 4"
    using low [OF that] T a b by (simp add: f64_eps_def field_simps)
  have send: "(a + b) * (1 / 2 + 4 * f64_eps) \<le> a + 9 / 10 ^ 8" if "3 / 4 < rnd (a / ?T)"
    using high [OF that] T a b by (simp add: f64_eps_def field_simps)
  have nz: "\<not> f64_eq x (Fin 0)" "\<not> f64_eq y (Fin 0)" using a b by auto
  have ok: "get_balancing_smaller x y RATIO_BTC = (Ok
      (let tot = f64_add x y; rr = f64_div x tot;
           diff = to_bitcoin (from_bitcoin (f64_abs (f64_mul (f64_sub (Fin (1 / 2)) rr) tot))) in
       if f64_lt rr (Fin (1 / 4)) then Balancing_Recv diff
       else if f64_gt rr (Fin (3 / 4)) then Balancing_Send diff else Balancing_None) :: ('e, balancing) outcome)"
    using nz by (simp add: get_balancing_smaller_def RATIO_BTC_def f64_gt_def Let_def)
  show ?thesis
    unfolding ok Let_def
    using d recv send by (auto simp: f64_lt_fin f64_gt_def)
qed

lemma sub_available:
  assumes "balance_ok x a" "balance_ok y b" "is_fin q" "0 \<le> f64_val q" "f64_val q \<le> (a + b) * (1 + 8 * f64_eps)"
  shows "is_fin (f64_sub q x)" "f64_val (f64_sub q x) \<le> b + 1 / 10 ^ 7"
    "is_fin (f64_sub q y)" "f64_val (f64_sub q y) \<le> a + 1 / 10 ^ 7"
proof -
  note a = balance_okD [OF assms(1)] and b = balance_okD [OF assms(2)]
  have "(a + b) * (1 + 8 * f64_eps) \<le> 80000000 * (1 + 8 * f64_eps)" using a b by (intro mult_right_mono) (auto simp: f64_eps_def)
  then have q: "f64_val q \<le> 2 ^ 27" using assms(5) by (simp add: f64_eps_def)
  have bound: "is_fin (f64_sub q z) \<and> f64_val (f64_sub q z) \<le> d + 1 / 10 ^ 7"
    if z: "z = Fin c" "0 < c" "c \<le> 40000000" "1 / 10 ^ 8 \<le> d" "c + d = a + b" "d \<le> 40000000" for z c d
  proof -
    have fin: "is_fin (f64_sub q z)" "f64_val (f64_sub q z) = rnd (f64_val q - c)"
      using f64_sub_fin [of q z] assms(3,4) q z rnd_below_huge [of "f64_val q - c" 28] by simp_all
    have "rnd (f64_val q - c) \<le> rnd (d + (a + b) * (8 * f64_eps))" using assms(5) z(5) by (intro rnd_mono) (simp add: algebra_simps)
    moreover have "1 / 10 ^ 20 \<le> d + (a + b) * (8 * f64_eps)"
    proof -
      have "0 \<le> (a + b) * (8 * f64_eps)" using a b by (simp add: f64_eps_def)
      moreover have "1 / 10 ^ 20 \<le> d" by (rule order_trans [OF _ z(4)]) simp
      ultimately show ?thesis by linarith
    qed
    then have "rnd (d + (a + b) * (8 * f64_eps)) \<le> (d + (a + b) * (8 * f64_eps)) * (1 + f64_eps)" by (intro rnd_up) simp_all
    ultimately have "rnd (f64_val q - c) \<le> (d + (a + b) * (8 * f64_eps)) * (1 + f64_eps)" by linarith
    also have "\<dots> \<le> d + 1 / 10 ^ 7" using a b z by (simp add: f64_eps_def field_simps)
    finally show ?thesis using fin by simp
  qed
  show "is_fin (f64_sub q x)" "f64_val (f64_sub q x) \<le> b + 1 / 10 ^ 7"
    using bound [of x a b] a b by auto
  show "is_fin (f64_sub q y)" "f64_val (f64_sub q y) \<le> a + 1 / 10 ^ 7"
    using bound [of y b a] a b by auto
qed

lemma bigger_available:
  assumes ok: "balance_ok x a" "balance_ok y b"
    and ex: "is_fin (f64_mul oe s)" "0 \<le> f64_val (f64_mul oe s)" "f64_val (f64_mul oe s) \<le> (a + b) * (1 + 8 * f64_eps)"
    and wa: "is_fin (f64_mul ow s)" "0 \<le> f64_val (f64_mul ow s)" "f64_val (f64_mul ow s) \<le> (a + b) * (1 + 8 * f64_eps)"
  shows "case get_balancing_bigger x y ow oe s of Balancing_None \<Rightarrow> True
     | Balancing_Recv v \<Rightarrow> is_fin v \<and> f64_val v \<le> b + 1 / 10 ^ 7
     | Balancing_Send v \<Rightarrow> is_fin v \<and> f64_val v \<le> a + 1 / 10 ^ 7"
  using sub_available(1,2) [OF ok ex] sub_available(3,4) [OF ok wa] by (simp add: get_balancing_bigger_def Let_def)

lemma mul_price:
  assumes "0 < q" "1 / 10 ^ 8 \<le> q" "q \<le> 2 ^ 27" "sane_price x p"
  shows "is_fin (f64_mul (Fin q) x)" "f64_val (f64_mul (Fin q) x) = rnd (q * p)" "1 / 10 ^ 20 \<le> q * p"
proof -
  have p: "0 < p" "1 / 1000 \<le> p" "p \<le> 10 ^ 9" "x = Fin p" using assms(4) by (auto simp: sane_price_def)
  have "q * p \<le> 2 ^ 27 * 10 ^ 9" using assms p by (intro mult_mono) auto
  then have "\<bar>q * p\<bar> \<le> 2 ^ 60" using assms p by simp
  then show "is_fin (f64_mul (Fin q) x)" "f64_val (f64_mul (Fin q) x) = rnd (q * p)"
    using f64_mul_fin [of "Fin q" x] rnd_below_huge [of "q * p" 60] p by simp_all
  have "1 / 10 ^ 8 * (1 / 1000) \<le> q * p" using assms p by (intro mult_mono) auto
  then show "1 / 10 ^ 20 \<le> q * p" by (rule order_trans [rotated]) simp
qed

lemma add_balances:
  assumes "balance_ok x a" "balance_ok y b"
  shows "is_fin (f64_add x y)" "f64_val (f64_add x y) = rnd (a + b)" "f64_add x y = Fin (rnd (a + b))"
    "0 < rnd (a + b)" "1 / 10 ^ 8 \<le> rnd (a + b)" "rnd (a + b) \<le> 2 ^ 27"
proof -
  note a = balance_okD [OF assms(1)] and b = balance_okD [OF assms(2)]
  have ab: "\<bar>a + b\<bar> \<le> 2 ^ 27" using a b by simp
  show "is_fin (f64_add x y)" "f64_val (f64_add x y) = rnd (a + b)"
    using f64_add_fin [of x y] rnd_below_huge [OF ab] a b by simp_all
  show "0 < rnd (a + b)" "1 / 10 ^ 8 \<le> rnd (a + b)" using total_bounds(1) [of a b] a b by auto
  then show "f64_add x y = Fin (rnd (a + b))"
    using \<open>is_fin (f64_add x y)\<close> \<open>f64_val (f64_add x y) = rnd (a + b)\<close> by (cases "f64_add x y") auto
  show "rnd (a + b) \<le> 2 ^ 27" using rnd_abs_le [OF rnd_pow2 ab] by simp
qed

text \<open>What the other asset is worth, at most, when its total is (or is not) the smaller one.\<close>

lemma worth_in_usdt:
  assumes ok: "balance_ok wb a" "balance_ok eb b" "balance_ok wu u" "balance_ok eu w" "sane_price price p"
    and smaller: "bitcoin_smaller wb eb wu eu price" and c: "balance_ok x c" "c = a \<or> c = b"
  shows "is_fin (f64_mul x price)" "0 \<le> f64_val (f64_mul x price)"
    "f64_val (f64_mul x price) \<le> (u + w) * (1 + 8 * f64_eps)"
proof -
  note s = add_balances [OF ok(1,2)] and t = add_balances [OF ok(3,4)]
  note cc = balance_okD [OF c(1)]
  have p: "0 < p" using ok(5) by (auto simp: sane_price_def)
  have x: "x = Fin c" "0 < c" "1 / 10 ^ 8 \<le> c" "c \<le> 2 ^ 27" using cc by auto
  note m = mul_price [OF x(2-4) ok(5)] and ms = mul_price [OF s(4-6) ok(5)]
  show "is_fin (f64_mul x price)" "0 \<le> f64_val (f64_mul x price)" using m x p by simp_all
  have "c \<le> rnd (a + b)" using c(2) total_bounds(1,2) [of a b] balance_okD [OF ok(1)] balance_okD [OF ok(2)] by auto
  then have "rnd (c * p) \<le> rnd (rnd (a + b) * p)" using p by (intro rnd_mono mult_right_mono) auto
  also have "\<dots> < rnd (u + w)" using smaller ms t s(3) by (simp add: bitcoin_smaller_def f64_lt_fin)
  also have "\<dots> \<le> (u + w) * (1 + f64_eps)"
    using total_bounds(3) [of u w] balance_okD [OF ok(3)] balance_okD [OF ok(4)] by auto
  also have "\<dots> \<le> (u + w) * (1 + 8 * f64_eps)"
    using balance_okD [OF ok(3)] balance_okD [OF ok(4)] by (intro mult_left_mono) (auto simp: f64_eps_def)
  finally show "f64_val (f64_mul x price) \<le> (u + w) * (1 + 8 * f64_eps)" using m x by simp
qed

lemma inverse_price:
  assumes "sane_price price p"
  shows "f64_div (Fin 1) price = Fin (rnd (1 / p))" "0 < rnd (1 / p)" "rnd (1 / p) \<le> 1 / p * (1 + f64_eps)"
    "9 / 10 ^ 10 \<le> rnd (1 / p)"
proof -
  have p: "0 < p" "1 / 1000 \<le> p" "p \<le> 10 ^ 9" "price = Fin p" using assms by (auto simp: sane_price_def)
  have i: "1 / 10 ^ 9 \<le> 1 / p" "1 / p \<le> 1 / (1 / 1000)" using p by (intro frac_le; simp)+
  then have i20: "1 / 10 ^ 20 \<le> 1 / p" by (intro order_trans [OF _ i(1)]) simp
  show up: "rnd (1 / p) \<le> 1 / p * (1 + f64_eps)" using i20 by (intro rnd_up) simp_all
  have "1 / 10 ^ 9 * (1 - f64_eps) \<le> 1 / p * (1 - f64_eps)" using i by (intro mult_right_mono) (auto simp: f64_eps_def)
  with rnd_down [OF i20] show low: "9 / 10 ^ 10 \<le> rnd (1 / p)" by (simp add: f64_eps_def)
  then show pos: "0 < rnd (1 / p)" by (rule less_le_trans [rotated]) simp
  have "\<bar>1 / p\<bar> \<le> 2 ^ 10" using i p by simp
  then show "f64_div (Fin 1) price = Fin (rnd (1 / p))"
    using f64_div_fin [of "Fin 1" price] rnd_below_huge [of "1 / p" 10] p pos by (cases "f64_div (Fin 1) price") auto
qed

lemma worth_in_bitcoin:
  assumes ok: "balance_ok wb a" "balance_ok eb b" "balance_ok wu u" "balance_ok eu w" "sane_price price p"
    and bigger: "\<not> bitcoin_smaller wb eb wu eu price" and c: "balance_ok x c" "c = u \<or> c = w"
  shows "is_fin (f64_mul x (f64_div (Fin 1) price))" "0 \<le> f64_val (f64_mul x (f64_div (Fin 1) price))"
    "f64_val (f64_mul x (f64_div (Fin 1) price)) \<le> (a + b) * (1 + 8 * f64_eps)"
proof -
  note s = add_balances [OF ok(1,2)] and t = add_balances [OF ok(3,4)] and cc = balance_okD [OF c(1)]
  note i = inverse_price [OF ok(5)] and ms = mul_price [OF s(4-6) ok(5)]
  let ?i = "rnd (1 / p)" and ?h = "1 + f64_eps"
  have p: "0 < p" using ok(5) by (auto simp: sane_price_def)
  have pos: "0 < a" "0 < b" "0 < u" "0 < w"
    using balance_okD [OF ok(1)] balance_okD [OF ok(2)] balance_okD [OF ok(3)] balance_okD [OF ok(4)] by auto
  have T: "rnd (a + b) \<le> (a + b) * ?h" "(u + w) * (1 - f64_eps) \<le> rnd (u + w)"
    using total_bounds(3) [of a b] total_bounds(4) [of u w] balance_okD [OF ok(1)] balance_okD [OF ok(2)]
      balance_okD [OF ok(3)] balance_okD [OF ok(4)] by auto
  have "rnd (u + w) \<le> rnd (rnd (a + b) * p)" using bigger ms t s(3) by (simp add: bitcoin_smaller_def f64_lt_fin)
  also have "\<dots> \<le> (a + b) * ?h * p * ?h"
    by (rule rnd_up [OF ms(3)]) (use T(1) p in \<open>intro mult_right_mono, auto\<close>)
  finally have "(u + w) * (1 - f64_eps) \<le> (a + b) * ?h * p * ?h" using T(2) by linarith
  then have "(u + w) * (1 - f64_eps) \<le> (a + b) * (?h * ?h) * p" by (simp only: ac_simps)
  then have "(u + w) * (1 - f64_eps) / p \<le> (a + b) * (?h * ?h)" using p by (simp only: pos_divide_le_eq)
  moreover have "0 < 1 - f64_eps" by (simp add: f64_eps_def)
  ultimately have "(u + w) / p \<le> (a + b) * (?h * ?h) / (1 - f64_eps)" by (simp only: pos_le_divide_eq times_divide_eq_left)
  then have uw: "(u + w) / p \<le> (a + b) * (?h * ?h / (1 - f64_eps))" by simp
  have "c * ?i \<le> (u + w) * (1 / p * ?h)" using c(2) i(2,3) pos by (intro mult_mono) auto
  also have "\<dots> = (u + w) / p * ?h" by simp
  also have "\<dots> \<le> (a + b) * (?h * ?h / (1 - f64_eps)) * ?h" using uw by (intro mult_right_mono) (simp_all add: f64_eps_def)
  finally have ci: "c * ?i \<le> (a + b) * (?h * ?h / (1 - f64_eps)) * ?h" .
  have "1 / 10 ^ 8 * (9 / 10 ^ 10) \<le> c * ?i" using cc i(4) by (intro mult_mono) auto
  then have ci20: "1 / 10 ^ 20 \<le> c * ?i" by (rule order_trans [rotated]) simp
  have "(a + b) * (?h * ?h / (1 - f64_eps)) * ?h \<le> 80000000 * (?h * ?h / (1 - f64_eps)) * ?h"
    using balance_okD [OF ok(1)] balance_okD [OF ok(2)] by (intro mult_right_mono) (auto simp: f64_eps_def)
  with ci have "\<bar>c * ?i\<bar> \<le> 2 ^ 27" using cc i(2) by (simp add: f64_eps_def abs_mult)
  then have fin: "is_fin (f64_mul x (f64_div (Fin 1) price))" "f64_val (f64_mul x (f64_div (Fin 1) price)) = rnd (c * ?i)"
    using f64_mul_fin [of x "Fin ?i"] rnd_below_huge [of "c * ?i" 27] cc i(1) by simp_all
  then show "is_fin (f64_mul x (f64_div (Fin 1) price))" "0 \<le> f64_val (f64_mul x (f64_div (Fin 1) price))"
    using cc i(2) by simp_all
  have "rnd (c * ?i) \<le> (a + b) * (?h * ?h / (1 - f64_eps)) * ?h * ?h" using ci20 ci by (rule rnd_up)
  also have "\<dots> \<le> (a + b) * (1 + 8 * f64_eps)" using pos by (simp add: f64_eps_def)
  finally show "f64_val (f64_mul x (f64_div (Fin 1) price)) \<le> (a + b) * (1 + 8 * f64_eps)" using fin by simp
qed

lemma not_lt_ge: "x \<noteq> NaN \<Longrightarrow> \<not> f64_lt x (Fin c) \<Longrightarrow> f64_ge x (Fin c)"
  by (cases x) (auto simp: f64_ge_def f64_le_def)

lemma f64_mul_not_NaN: "is_fin x \<Longrightarrow> is_fin y \<Longrightarrow> f64_mul x y \<noteq> NaN"
  by (auto simp: f64_mul_def is_fin_not_inf Let_def f64_zero_def f64_of_rat_def)

text \<open>
  (C30) Rebalancing asks for what is there.  For ordinary balances and prices \<open>get_balancing\<close>
  returns; when it decides to move an asset, the amount is worth at least 1000 USDt and is (up to the
  rounding of floats, a ten-millionth of a unit) at most the balance of the side that has to give it:
  the exchange for a receipt, the wallet for a payment.
\<close>
theorem get_balancing_available:
  assumes "balance_ok wb a" and "balance_ok eb b" and "balance_ok wu u" and "balance_ok eu w" and "sane_price price p"
  shows "\<exists>r. get_balancing wb eb wu eu price = (Ok r :: ('e, asset_balancing) outcome) \<and>
    (r = AB_None \<or> f64_ge (balancing_amount_usdt price r) (Fin 1000)) \<and>
    (case r of AB_None \<Rightarrow> True
     | AB_RecvBtc v \<Rightarrow> is_fin v \<and> f64_val v \<le> b + 1 / 10 ^ 7
     | AB_SendBtc v \<Rightarrow> is_fin v \<and> f64_val v \<le> a + 1 / 10 ^ 7
     | AB_RecvUsdt v \<Rightarrow> is_fin v \<and> f64_val v \<le> w + 1 / 10 ^ 7
     | AB_SendUsdt v \<Rightarrow> is_fin v \<and> f64_val v \<le> u + 1 / 10 ^ 7)"
proof -
  let ?avail = "\<lambda>r. case r of AB_None \<Rightarrow> True
     | AB_RecvBtc v \<Rightarrow> is_fin v \<and> f64_val v \<le> b + 1 / 10 ^ 7
     | AB_SendBtc v \<Rightarrow> is_fin v \<and> f64_val v \<le> a + 1 / 10 ^ 7
     | AB_RecvUsdt v \<Rightarrow> is_fin v \<and> f64_val v \<le> w + 1 / 10 ^ 7
     | AB_SendUsdt v \<Rightarrow> is_fin v \<and> f64_val v \<le> u + 1 / 10 ^ 7"
  have nz: "\<not> f64_eq price (Fin 0)" "\<not> f64_eq wb (Fin 0)" "\<not> f64_eq eb (Fin 0)" "\<not> f64_eq wu (Fin 0)" "\<not> f64_eq eu (Fin 0)"
    using assms balance_okD by (auto simp: sane_price_def dest!: balance_okD)
  have usdt: "RATIO_USDT = RATIO_BTC" by (simp add: RATIO_USDT_def RATIO_BTC_def)
  obtain rb where rb: "get_balancing_smaller wb eb RATIO_BTC = (Ok rb :: ('e, balancing) outcome)"
    "?avail (btc_balancing rb)" 
  proof -
    obtain r where "get_balancing_smaller wb eb RATIO_BTC = (Ok r :: ('e, balancing) outcome)"
      "case r of Balancing_None \<Rightarrow> True | Balancing_Recv v \<Rightarrow> is_fin v \<and> f64_val v \<le> b + 1 / 10 ^ 7
        | Balancing_Send v \<Rightarrow> is_fin v \<and> f64_val v \<le> a + 1 / 10 ^ 7"
      using smaller_available [OF assms(1,2), where 'e = 'e] by blast
    then show thesis by (intro that [of r]) (auto split: balancing.splits)
  qed
  obtain ru where ru: "get_balancing_smaller wu eu RATIO_BTC = (Ok ru :: ('e, balancing) outcome)"
    "?avail (usdt_balancing ru)" 
  proof -
    obtain r where "get_balancing_smaller wu eu RATIO_BTC = (Ok r :: ('e, balancing) outcome)"
      "case r of Balancing_None \<Rightarrow> True | Balancing_Recv v \<Rightarrow> is_fin v \<and> f64_val v \<le> w + 1 / 10 ^ 7
        | Balancing_Send v \<Rightarrow> is_fin v \<and> f64_val v \<le> u + 1 / 10 ^ 7"
      using smaller_available [OF assms(3,4), where 'e = 'e] by blast
    then show thesis by (intro that [of r]) (auto split: balancing.splits)
  qed
  have bu: "?avail (usdt_balancing (get_balancing_bigger wu eu wb eb price))" if "bitcoin_smaller wb eb wu eu price"
    using bigger_available [OF assms(3,4) worth_in_usdt [OF assms that assms(2)] worth_in_usdt [OF assms that assms(1)]]
    by (auto split: balancing.splits)
  have bb: "?avail (btc_balancing (get_balancing_bigger wb eb wu eu (f64_div (Fin 1) price)))" if "\<not> bitcoin_smaller wb eb wu eu price"
    using bigger_available [OF assms(1,2) worth_in_bitcoin [OF assms that assms(4)] worth_in_bitcoin [OF assms that assms(3)]]
    by (auto split: balancing.splits)
  obtain r where r: "get_balancing wb eb wu eu price = (Ok (if f64_lt (balancing_amount_usdt price r) MIN_BALANCING_AMOUNT_USDT
      then AB_None else r) :: ('e, asset_balancing) outcome)" "?avail r"
  proof (cases "bitcoin_smaller wb eb wu eu price")
    case True
    with nz rb bu show thesis by (intro that [of "if rb = Balancing_None then usdt_balancing (get_balancing_bigger wu eu wb eb price)
        else btc_balancing rb"]) (auto simp: get_balancing_def Let_def split: balancing.splits)
  next
    case False
    with nz ru bb show thesis by (intro that [of "if ru = Balancing_None then btc_balancing (get_balancing_bigger wb eb wu eu (f64_div (Fin 1) price))
        else usdt_balancing ru"]) (auto simp: get_balancing_def Let_def usdt split: balancing.splits)
  qed
  have "balancing_amount_usdt price r \<noteq> NaN"
    using r(2) assms(5) by (cases r) (auto simp: sane_price_def f64_mul_not_NaN)
  then have "r = AB_None \<or> f64_lt (balancing_amount_usdt price r) (Fin 1000) \<or> f64_ge (balancing_amount_usdt price r) (Fin 1000)"
    by (auto intro: not_lt_ge)
  with r show ?thesis by (auto simp: MIN_BALANCING_AMOUNT_USDT_def)
qed

theorem get_balancing_available_witness:
  "\<exists>v. get_balancing (Fin (1 / 8)) (Fin (7 / 8)) (Fin 50000) (Fin 50000) (Fin 50000) = (Ok (AB_RecvBtc v) :: (bf_exit, asset_balancing) outcome)
     \<and> f64_ge (f64_mul v (Fin 50000)) (Fin 1000) \<and> f64_val v \<le> 7 / 8 + 1 / 10 ^ 7"
proof -
  have r: "get_balancing (Fin (1 / 8)) (Fin (7 / 8)) (Fin 50000) (Fin 50000) (Fin 50000)
      = (Ok (AB_RecvBtc (Fin (3 / 8))) :: (bf_exit, asset_balancing) outcome)" by code_simp
  have ok: "balance_ok (Fin (1 / 8)) (1 / 8)" "balance_ok (Fin (7 / 8)) (7 / 8)" "balance_ok (Fin 50000) 50000"
    using rnd_exact [of "1 / 8" 1 "- 3"] rnd_exact [of "7 / 8" 7 "- 3"] rnd_of_int [of 50000] by (simp_all add: balance_ok_def)
  have p: "sane_price (Fin 50000) 50000" by (simp add: sane_price_def)
  from get_balancing_available [OF ok(1,2,3,3) p, where 'e = bf_exit] r show ?thesis by auto
qed

end
