(* ===== verification/Bf_Swaps.thy ===== *)
theory Bf_Swaps
  imports Bf_Pricing
begin

text \<open>
  Instant swaps of the Bitfinex dealer: which keys the wallet is asked for when the blinded
  transaction arrives, and what the handler sends back.
\<close>

section \<open>Signing an instant swap\<close>

lemma fold_insert_get:
  "btree_get (fold (\<lambda>u. btree_insert (k u) u) us m) x = Some v \<Longrightarrow> v \<in> set us \<and> k v = x \<or> btree_get m x = Some v"
  by (induction us arbitrary: m) (fastforce split: if_splits)+

lemma own_inputs_get:
  assumes "btree_get (own_inputs asset utxos) out = Some u"
  shows "u \<in> set (btree_values utxos)" "spendable asset u" "ui_tx_out (u_item u) = out"
  using fold_insert_get [of "\<lambda>u. ui_tx_out (u_item u)" "filter (spendable asset) (btree_values utxos)" "[]" out u] assms
  by (auto simp: own_inputs_def)

text \<open>The events that signing the swap of asset \<open>asset\<close> may cause.\<close>

fun swap_event :: "utxos \<Rightarrow> asset_id \<Rightarrow> order_id \<Rightarrow> bf_event \<Rightarrow> bool" where
  "swap_event utxos asset order_id (Ev_Rpc req r) \<longleftrightarrow>
     (\<exists>u\<in>set (btree_values utxos). spendable asset u \<and> req = dumpprivkey (ui_address (u_item u)))"
| "swap_event utxos asset order_id (Ev_Request req r) \<longleftrightarrow> (\<exists>p. req = Req_SignedSwapDealer order_id p)"
| "swap_event utxos asset order_id ev \<longleftrightarrow> False"

lemma emits_sign_own:
  "emits (swap_event utxos asset order_id) (sign_input w (own_inputs asset utxos) tx x p)"
proof -
  obtain i out where x: "x = (i, out)" by (cases x)
  show ?thesis
  proof (cases "btree_get (own_inputs asset utxos) out")
    case None
    then show ?thesis by (simp add: sign_input_def x emits_return)
  next
    case (Some u)
    from own_inputs_get [OF Some] have "swap_event utxos asset order_id (Ev_Rpc (dumpprivkey (ui_address (u_item u))) r)" for r
      by auto
    then show ?thesis
      unfolding sign_input_def x by (auto simp: Some Let_def simp del: swap_event.simps intro!: emits_intros)
  qed
qed

lemma emits_blinded:
  assumes "btree_get (bs_instant_swaps s) order_id = Some swap"
  shows "emits (swap_event (bs_utxos s) (is_send_asset swap) order_id) (on_blinded_swap_dealer bw order_id data s)"
  unfolding on_blinded_swap_dealer_def Let_def request_logged_def
  by (auto simp: assms intro!: emits_intros emits_sign_own)

lemma blinded_unknown:
  assumes "btree_get (bs_instant_swaps s) order_id = None"
  shows "on_blinded_swap_dealer bw order_id data s h = (Panic, h)"
  using assms
  by (cases "w_base64_decode (bw_world bw) data"; cases "w_pset_decode (bw_world bw) (the (w_base64_decode (bw_world bw) data))")
    (auto simp: on_blinded_swap_dealer_def Let_def io_bind_def io_run_simps)

text \<open>
  (C22) A blinded transaction is signed only for a swap the dealer agreed to, and only with outputs of
  the agreed asset.  If the order is not one of the started instant swaps the dealer stops before
  doing anything; otherwise the only keys it asks the wallet for are those of wallet outputs of the
  asset it promised to send, and the only request it makes is the answer for this order.
\<close>
theorem blinded_swap_signs_agreed:
  assumes "on_blinded_swap_dealer bw order_id data s h = (r, h')"
  shows "case btree_get (bs_instant_swaps s) order_id of
      None \<Rightarrow> r = Panic \<and> h' = h
    | Some swap \<Rightarrow> \<exists>t. h' = h @ t \<and> (\<forall>ev\<in>set t. swap_event (bs_utxos s) (is_send_asset swap) order_id ev)"
proof (cases "btree_get (bs_instant_swaps s) order_id")
  case None
  with assms blinded_unknown show ?thesis by auto
next
  case (Some swap)
  from emitsD [OF emits_blinded [OF Some] assms] obtain t where
    "h' = h @ t" "\<forall>ev\<in>set t. swap_event (bs_utxos s) (is_send_asset swap) order_id ev" by metis
  with Some show ?thesis by auto
qed

theorem blinded_swap_signs_agreed_witness:
  "\<exists>r t. on_blinded_swap_dealer ex_bw ''o1'' ''pset'' (ex_idle\<lparr> bs_instant_swaps := [(''o1'', \<lparr> is_send_asset = ''lbtc'' \<rparr>)] \<rparr>) []
       = (r, [] @ t) \<and> list_all (swap_event ex_utxos ''lbtc'' ''o1'') t
     \<and> on_blinded_swap_dealer ex_bw ''o2'' ''pset'' (ex_idle\<lparr> bs_instant_swaps := [(''o1'', \<lparr> is_send_asset = ''lbtc'' \<rparr>)] \<rparr>) []
       = (Panic, [])"
proof -
  let ?s = "ex_idle\<lparr> bs_instant_swaps := [(''o1'', \<lparr> is_send_asset = ''lbtc'' \<rparr>)] \<rparr>"
  obtain r h where r: "on_blinded_swap_dealer ex_bw ''o1'' ''pset'' ?s [] = (r, h)" by (meson surj_pair)
  obtain r2 h2 where r2: "on_blinded_swap_dealer ex_bw ''o2'' ''pset'' ?s [] = (r2, h2)" by (meson surj_pair)
  have u: "bs_utxos ?s = ex_utxos" by (simp add: ex_idle_def)
  from blinded_swap_signs_agreed [OF r] obtain t where "h = [] @ t" "list_all (swap_event ex_utxos ''lbtc'' ''o1'') t"
    by (auto simp: u list_all_iff simp del: swap_event.simps)
  moreover from blinded_swap_signs_agreed [OF r2] have "r2 = Panic" "h2 = []" by auto
  ultimately show ?thesis using r r2 by auto
qed

end
