(* ===== verification/Payjoin_Safety.thy ===== *)
theory Payjoin_Safety
  imports Payjoin
begin

text \<open>
  What the payjoin client guarantees its user: the transaction it has the server sign spends a prefix
  of the coins it was given, pays the recipient and returns the change exactly, pays the server no
  more than the fee reported to the user, and shows the server none of the blinded values.
\<close>

section \<open>Fees\<close>

lemma as_u64_round_fin: "is_fin x \<Longrightarrow> f64_as_u64 (f64_round x) = clamp 0 u64_max (round_away (f64_val x))"
  by (cases x) (auto simp: f64_as_u64_def clamp_def u64_max_def)

lemma as_u64_round_mono: "f64_le x y \<Longrightarrow> f64_as_u64 (f64_round x) \<le> f64_as_u64 (f64_round y)"
proof -
  assume le: "f64_le x y"
  show ?thesis
  proof (cases "is_fin x \<and> is_fin y")
    case True
    with le show ?thesis by (simp add: as_u64_round_fin f64_le_fin clamp_mono round_away_mono)
  next
    case False
    then have "x = NInf \<or> y = PInf" using le by (cases x; cases y) (auto simp: f64_le_def)
    then show ?thesis using f64_as_u64_range [of "f64_round x"] f64_as_u64_range [of "f64_round y"]
      by (auto simp: f64_as_u64_def is_u64_def)
  qed
qed

lemma f64_mul_mono_right:
  assumes "0 < a" and "a \<le> b"
  shows "f64_le (f64_mul (Fin q) (Fin a)) (f64_mul (Fin q) (Fin b)) \<or> q < 0"
proof (cases "0 < q")
  case True
  then have "q * a \<le> q * b" using assms by simp
  from f64_of_rat_le [OF this] True assms show ?thesis by (simp add: f64_mul_def)
next
  case False
  then show ?thesis using assms by (cases "q = 0") (auto simp: f64_mul_def f64_zero_def f64_le_def)
qed

lemma price_round_mono:
  assumes "0 < a" and "a \<le> b"
  shows "f64_as_u64 (f64_round (f64_mul price (Fin a))) \<le> f64_as_u64 (f64_round (f64_mul price (Fin b)))"
proof (cases price)
  case (Fin q)
  show ?thesis
  proof (cases "q < 0")
    case True
    have "f64_le (f64_mul price (Fin a)) (Fin 0)"
      using True Fin assms f64_of_rat_nonpos [of "q * a"] by (simp add: f64_mul_def mult_nonpos_nonneg)
    from as_u64_round_mono [OF this] have "f64_as_u64 (f64_round (f64_mul price (Fin a))) \<le> 0"
      by (simp add: f64_as_u64_def clamp_def u64_max_def)
    then show ?thesis using f64_as_u64_range [of "f64_round (f64_mul price (Fin b))"] by (simp add: is_u64_def)
  next
    case False
    with f64_mul_mono_right [OF assms, of q] Fin show ?thesis by (auto intro: as_u64_round_mono)
  qed
qed (use assms in \<open>auto simp: f64_mul_def f64_inf_def f64_zero_def f64_as_u64_def\<close>)

lemma FEE_RATE_val: "\<exists>r. FEE_RATE = Fin r \<and> 1 / 16 \<le> r \<and> r \<le> 1"
proof -
  have "\<bar>rnd (1 / 10)\<bar> < f64_huge" by (rule rnd_below_huge [of _ 4]) simp_all
  then have "FEE_RATE = Fin (rnd (1 / 10))" unfolding FEE_RATE_def by (rule f64_of_rat_Fin) simp
  moreover have "rnd (1 / 16) \<le> rnd (1 / 10)" "rnd (1 / 10) \<le> rnd 1" by (rule rnd_mono, simp)+
  moreover have "rnd 1 = 1" using rnd_of_int [of 1] by simp
  moreover have "rnd (1 / 16) = 1 / 16" using rnd_exact [of "1 / 16" 1 "- 4"] by (simp add: power_int_minus)
  ultimately show ?thesis by auto
qed

lemma fee_of_vsize:
  assumes "FEE_RATE = Fin r" and "1 / 16 \<le> r" and "r \<le> 1" and "0 < v" and "v \<le> 2 ^ 53"
  shows "f64_as_u64 (f64_ceil (f64_mul (int_as_f64 v) FEE_RATE)) = \<lceil>rnd (of_int v * r)\<rceil>"
    and "1 / 16 \<le> rnd (of_int v * r)" and "rnd (of_int v * r) \<le> 2 ^ 53"
proof -
  have "1 * (1 / 16) \<le> (of_int v :: rat) * r" using assms by (intro mult_mono) auto
  moreover have "(of_int v :: rat) \<le> 2 ^ 53" using assms(5) of_int_le_iff [of v "2 ^ 53", where 'a = rat] by simp
  then have "(of_int v :: rat) * r \<le> 2 ^ 53 * 1" using assms by (intro mult_mono) auto
  ultimately have u: "1 / 16 \<le> (of_int v :: rat) * r" "(of_int v :: rat) * r \<le> 2 ^ 53" by simp_all
  then have b: "\<bar>(of_int v :: rat) * r\<bar> \<le> 2 ^ 53" by simp
  show le: "rnd (of_int v * r) \<le> 2 ^ 53" using rnd_abs_le [OF rnd_pow2 b] by simp
  have "rnd (1 / 16) = 1 / 16" using rnd_exact [of "1 / 16" 1 "- 4"] by (simp add: power_int_minus)
  with rnd_mono [OF u(1)] show ge: "1 / 16 \<le> rnd (of_int v * r)" by simp
  have "f64_mul (int_as_f64 v) FEE_RATE = f64_of_rat (of_int v * r)"
    unfolding assms(1) using assms(2-) int_as_f64_exact [of v] u by (simp add: f64_mul_def)
  also have "\<dots> = Fin (rnd (of_int v * r))"
    using rnd_below_huge [OF b] u by (intro f64_of_rat_Fin) auto
  finally have "f64_as_u64 (f64_ceil (f64_mul (int_as_f64 v) FEE_RATE)) = clamp 0 u64_max \<lceil>rnd (of_int v * r)\<rceil>"
    using ge by (simp add: f64_as_u64_def)
  moreover have "\<lceil>rnd (of_int v * r)\<rceil> \<le> 2 ^ 53" using le by (simp add: ceiling_le_iff)
  moreover have "0 < \<lceil>rnd (of_int v * r)\<rceil>" using ge by simp
  ultimately show "f64_as_u64 (f64_ceil (f64_mul (int_as_f64 v) FEE_RATE)) = \<lceil>rnd (of_int v * r)\<rceil>"
    by (simp add: clamp_def u64_max_def)
qed

lemma expected_network_fee_mono:
  assumes "n \<le> m" and "m \<le> 2 ^ 40"
  shows "0 < expected_network_fee n 0 4" "expected_network_fee n 0 4 \<le> expected_network_fee m 0 4"
    "expected_network_fee m 0 4 \<le> 2 ^ 53"
proof -
  obtain r where r: "FEE_RATE = Fin r" "1 / 16 \<le> r" "r \<le> 1" using FEE_RATE_val by blast
  let ?v = "\<lambda>k. (19462 + 367 * int k + 3) div 4"
  have fee: "expected_network_fee k 0 4 = f64_as_u64 (f64_ceil (f64_mul (int_as_f64 (?v k)) FEE_RATE))"
    and bd: "0 < ?v k" "?v k \<le> 2 ^ 53" if "k \<le> 2 ^ 40" for k
  proof -
    have "int k \<le> 2 ^ 40" using that by (metis of_nat_le_iff of_nat_numeral of_nat_power)
    then show "expected_network_fee k 0 4 = f64_as_u64 (f64_ceil (f64_mul (int_as_f64 (?v k)) FEE_RATE))"
      and "0 < ?v k" "?v k \<le> 2 ^ 53"
      by (simp_all add: expected_network_fee_def Let_def WEIGHT_FIXED_def WEIGHT_VIN_SINGLE_SIG_def WEIGHT_VOUT_def
          WEIGHT_FEE_def u64_add_exact is_u64_def u64_max_def)
  qed
  have "n \<le> 2 ^ 40" using assms by simp
  note fn = fee_of_vsize [OF r bd [OF this]] fee [OF this] and fm = fee_of_vsize [OF r bd [OF assms(2)]] fee [OF assms(2)]
  show "0 < expected_network_fee n 0 4" using fn by simp
  show "expected_network_fee m 0 4 \<le> 2 ^ 53" using fm by (simp add: ceiling_le_iff)
  have "?v n \<le> ?v m" using assms(1) by (intro zdiv_mono1) auto
  then have "(of_int (?v n) :: rat) * r \<le> of_int (?v m) * r" using r(2) by (intro mult_right_mono) auto
  from ceiling_mono [OF rnd_mono [OF this]] show "expected_network_fee n 0 4 \<le> expected_network_fee m 0 4"
    using fn(1,4) fm(1,4) by simp
qed

lemma asset_fee_mono:
  assumes "0 < a" and "a \<le> b" and "b \<le> 2 ^ 53"
  shows "f64_as_u64 (f64_round (f64_mul price (int_as_f64 a))) \<le> f64_as_u64 (f64_round (f64_mul price (int_as_f64 b)))"
  using price_round_mono [of "of_int a" "of_int b" price] assms by (simp add: int_as_f64_exact)

section \<open>Choosing coins\<close>

abbreviation utxo_sum :: "pj_utxo list \<Rightarrow> int" where
  "utxo_sum us \<equiv> sum_list (map ju_value us)"

lemma utxo_sum_nonneg: "\<forall>u\<in>set us. 0 \<le> ju_value u \<Longrightarrow> 0 \<le> utxo_sum us"
  by (induction us) auto

lemma take_utxos_prefix:
  assumes "take_utxos needed us a sel = (a', sel')"
    and "0 \<le> a" "\<forall>u\<in>set us. 0 \<le> ju_value u" "a + utxo_sum us \<le> u64_max"
  shows "\<exists>n. sel' = sel @ take n us \<and> a' = a + utxo_sum (take n us)"
  using assms
proof (induction us arbitrary: a sel)
  case Nil
  then show ?case by simp
next
  case (Cons u us)
  have nn: "0 \<le> utxo_sum us" using Cons.prems(3) by (intro utxo_sum_nonneg) simp
  with Cons.prems have add: "u64_add a (ju_value u) = a + ju_value u"
    by (intro u64_add_exact) (simp add: is_u64_def)
  show ?case
  proof (cases "needed \<le> a + ju_value u")
    case True
    with Cons.prems(1) add show ?thesis by (intro exI [of _ "Suc 0"]) (simp add: Let_def)
  next
    case False
    with Cons.prems add have "take_utxos needed us (a + ju_value u) (sel @ [u]) = (a', sel')" by (simp add: Let_def)
    from Cons.IH [OF this] Cons.prems nn obtain n where "sel' = (sel @ [u]) @ take n us"
      "a' = a + ju_value u + utxo_sum (take n us)" by auto
    then show ?thesis by (intro exI [of _ "Suc n"]) simp
  qed
qed

section \<open>Proofs of explicit values\<close>

definition explicit_keys :: "pj_world \<Rightarrow> string list" where
  "explicit_keys w = map (\<lambda>t. jw_pset_pair w t [])
     [PSET_IN_EXPLICIT_VALUE, PSET_IN_EXPLICIT_ASSET, PSET_IN_VALUE_PROOF, PSET_IN_ASSET_PROOF]"

lemma remove_explicit_filter:
  "remove_explicit_input w i = i\<lparr> ji_proprietary := filter (\<lambda>x. fst x \<notin> set (explicit_keys w)) (ji_proprietary i) \<rparr>"
  by (simp add: remove_explicit_input_def explicit_keys_def btree_remove_def case_prod_beta conj_ac)

lemma filter_btree_insert:
  "k \<in> S \<Longrightarrow> filter (\<lambda>x. fst x \<notin> S) (btree_insert k v m) = filter (\<lambda>x. fst x \<notin> S) m"
  by (induction k v m rule: btree_insert.induct) auto

lemma add_proofs_Ok:
  assumes "add_input_explicit_proofs w i secret h = (Ok i', h')"
  shows "remove_explicit_input w i' = remove_explicit_input w i" "\<exists>t. h' = h @ t"
proof -
  have k: "jw_pset_pair w PSET_IN_EXPLICIT_VALUE [] \<in> set (explicit_keys w)"
    "jw_pset_pair w PSET_IN_EXPLICIT_ASSET [] \<in> set (explicit_keys w)"
    "jw_pset_pair w PSET_IN_VALUE_PROOF [] \<in> set (explicit_keys w)"
    "jw_pset_pair w PSET_IN_ASSET_PROOF [] \<in> set (explicit_keys w)"
    by (simp_all add: explicit_keys_def)
  from assms show "remove_explicit_input w i' = remove_explicit_input w i" "\<exists>t. h' = h @ t"
    by (auto simp: add_input_explicit_proofs_def Let_def io_bind_Ok io_run_simps remove_explicit_filter
        filter_btree_insert k)
qed

text \<open>
  Hiding the amounts undoes proving them.  Removing the explicit values from an input is the
  inverse of adding them with their proofs, for an input that had none; what the server is shown of
  an input therefore does not depend on the secrets of the wallet.
\<close>
theorem explicit_values_roundtrip:
  assumes "add_input_explicit_proofs w i secret h = (Ok i', h')"
    and "set (btree_keys (ji_proprietary i)) \<inter> set (explicit_keys w) = {}"
  shows "remove_explicit_input w i' = i"
proof -
  have "filter (\<lambda>x. fst x \<notin> set (explicit_keys w)) (ji_proprietary i) = ji_proprietary i"
    using assms(2) by (auto simp: filter_id_conv)
  with add_proofs_Ok(1) [OF assms(1)] show ?thesis by (simp add: remove_explicit_filter)
qed

section \<open>The outputs\<close>

definition pays :: "pj_out \<Rightarrow> script \<times> asset_id option \<times> u64 option" where
  "pays out = (jo_script_pubkey out, jo_asset out, jo_amount out)"

lemma add_payment_Ok:
  assumes "elements_docs w" and "add_payment w address asset amount p = Ok p'"
  shows "jp_inputs p' = jp_inputs p \<and> 0 < amount \<and> (\<exists>out. jp_outputs p' = jp_outputs p @ [out] \<and>
    jo_blinding_key out \<noteq> None \<and> pays out = (jw_script_pubkey w address, Some asset, Some amount))"
  using assms by (auto simp: add_payment_def pj_pset_output_def Let_def elements_docs_def pays_def)

lemma fold_add_inputs:
  assumes "elements_docs w"
  shows "jp_inputs (fold (\<lambda>u p. jw_add_input w p (f u)) us p) = jp_inputs p @ map f us"
    "jp_outputs (fold (\<lambda>u p. jw_add_input w p (f u)) us p) = jp_outputs p"
  using assms by (induction us arbitrary: p) (auto simp: elements_docs_def)

lemma fold_add_outputs:
  assumes "elements_docs w"
  shows "jp_inputs (fold (\<lambda>out p. jw_add_output w p out) outs p) = jp_inputs p"
    "jp_outputs (fold (\<lambda>out p. jw_add_output w p out) outs p) = jp_outputs p @ outs"
  using assms by (induction outs arbitrary: p) (auto simp: elements_docs_def)

definition change_of :: "int \<Rightarrow> 'a \<Rightarrow> 'a list" where
  "change_of amount x = (if amount > 0 then [x] else [])"

lemma add_change_Ok:
  assumes "elements_docs w" and "(if amount > 0 then add_payment w address asset amount p else Ok p) = Ok p'"
  shows "jp_inputs p' = jp_inputs p \<and> map pays (jp_outputs p') =
    map pays (jp_outputs p) @ change_of amount (jw_script_pubkey w address, Some asset, Some amount)"
  using assms add_payment_Ok [of w address asset amount p p'] by (auto simp: change_of_def split: if_splits)

lemma unblinded_Ok:
  assumes docs: "elements_docs w" and run: "unblinded_pset w a = Ok p"
  shows "jp_inputs p = map (utxo_input w) (ca_selected_utxos a) \<and>
    (let nfee = expected_network_fee (length (ca_selected_utxos a)) 0 4;
         fee = payjoin_asset_fee (ca_fixed_fee a) (ca_price a) nfee;
         change = u64_sub (u64_sub (ca_utxo_asset_amount a) (ca_send_amount a)) fee;
         lchange = u64_sub (ca_utxo_lbtc_amount a) nfee
     in map pays (jp_outputs p) =
       [(jw_script_pubkey w (ca_send_address a), Some (ca_send_asset_id a), Some (ca_send_amount a)),
        (jw_script_pubkey w (ca_fee_address a), Some (ca_send_asset_id a), Some fee)]
       @ change_of change (jw_script_pubkey w (ca_client_change_address a), Some (ca_send_asset_id a), Some change)
       @ change_of lchange (jw_script_pubkey w (ca_server_change_address a), Some (ca_lbtc_asset_id a), Some lchange)
       @ [([], Some (ca_lbtc_asset_id a), Some nfee)])"
proof -
  define p0 where "p0 = fold (\<lambda>u pset. jw_add_input w pset (utxo_input w u)) (ca_selected_utxos a) (jw_new_v2 w)"
  have p0: "jp_inputs p0 = map (utxo_input w) (ca_selected_utxos a)" "jp_outputs p0 = []"
    using docs by (simp_all add: p0_def fold_add_inputs) (simp_all add: elements_docs_def)
  obtain p1 p2 p3 p4 nfee fee where
    1: "add_payment w (ca_send_address a) (ca_send_asset_id a) (ca_send_amount a) p0 = Ok p1" and
    nfee: "nfee = expected_network_fee (length (jp_inputs p1)) 0 4" and
    fee: "fee = payjoin_asset_fee (ca_fixed_fee a) (ca_price a) nfee" and
    2: "add_payment w (ca_fee_address a) (ca_send_asset_id a) fee p1 = Ok p2" and
    3: "(if u64_sub (u64_sub (ca_utxo_asset_amount a) (ca_send_amount a)) fee > 0
        then add_payment w (ca_client_change_address a) (ca_send_asset_id a) (u64_sub (u64_sub (ca_utxo_asset_amount a) (ca_send_amount a)) fee) p2
        else Ok p2) = Ok p3" and
    4: "(if u64_sub (ca_utxo_lbtc_amount a) nfee > 0
        then add_payment w (ca_server_change_address a) (ca_lbtc_asset_id a) (u64_sub (ca_utxo_lbtc_amount a) nfee) p3 else Ok p3) = Ok p4" and
    5: "p = jw_add_output w p4 (pset_network_fee w (ca_lbtc_asset_id a) nfee)"
    using run unfolding unblinded_pset_def Let_def p0_def [symmetric] and_then_Ok_iff by blast
  note s1 = add_payment_Ok [OF docs 1] and s2 = add_payment_Ok [OF docs 2] and s3 = add_change_Ok [OF docs 3]
    and s4 = add_change_Ok [OF docs 4]
  have s5: "jp_inputs p = jp_inputs p4" "map pays (jp_outputs p) = map pays (jp_outputs p4) @ [([], Some (ca_lbtc_asset_id a), Some nfee)]"
    using docs by (auto simp: 5 elements_docs_def pset_network_fee_def pays_def)
  have n: "nfee = expected_network_fee (length (ca_selected_utxos a)) 0 4" using nfee s1 p0 by simp
  from s1 s2 s3 s4 s5 p0 show ?thesis by (auto simp: Let_def n [symmetric] fee [symmetric])
qed

section \<open>Shuffling and blinding\<close>

lemma mset_shuffled: "mset perm = mset [0..<length xs] \<Longrightarrow> mset (shuffled xs perm) = mset xs"
  by (metis map_nth mset_map shuffled_def)

lemma mset_list_swap: "i < length xs \<Longrightarrow> j < length xs \<Longrightarrow> mset (list_swap xs i j) = mset xs"
  unfolding list_swap_def by (rule mset_swap)

lemma add_proved_Ok:
  "add_proved_input w x p h = (Ok p', h') \<longleftrightarrow>
     (\<exists>i'. add_input_explicit_proofs w (fst x) (snd x) h = (Ok i', h') \<and> p' = jw_add_input w p i')"
  by (auto simp: add_proved_input_def io_bind_Ok io_run_simps)

lemma add_all_proofs:
  assumes "elements_docs w" and "io_fold (add_proved_input w) ins p h = (Ok p', h')"
  shows "map (remove_explicit_input w) (jp_inputs p') = map (remove_explicit_input w) (jp_inputs p @ map fst ins)
    \<and> jp_outputs p' = jp_outputs p \<and> (\<exists>t. h' = h @ t)"
  using assms(2)
proof (induction ins arbitrary: p h)
  case Nil
  then show ?case by (simp add: io_run_simps)
next
  case (Cons x ins)
  from Cons.prems obtain i' h1 where i': "add_input_explicit_proofs w (fst x) (snd x) h = (Ok i', h1)" and
    rest: "io_fold (add_proved_input w) ins (jw_add_input w p i') h1 = (Ok p', h')"
    by (auto simp: io_bind_Ok add_proved_Ok)
  from Cons.IH [OF rest] add_proofs_Ok [OF i'] assms(1) show ?case by (auto simp: elements_docs_def)
qed

lemma randomize_Ok:
  assumes docs: "elements_docs w" and run: "randomize_and_blind_pset w p secrets h = (Ok b, h')"
  shows "\<exists>q t. h' = h @ t @ [PJ_Blind q (Some b)] \<and> mset (jp_outputs q) = mset (jp_outputs p)
    \<and> mset (map (remove_explicit_input w) (jp_inputs q)) = mset (map (remove_explicit_input w) (jp_inputs p))
    \<and> jp_inputs b = jp_inputs q"
proof -
  let ?ins = "zip (jp_inputs p) secrets"
  define perm where "perm = jw_shuffle w (length ?ins) h"
  define perm2 where "perm2 = jw_shuffle w (length (jp_outputs p)) (h @ [PJ_Random perm])"
  let ?outs = "shuffled (jp_outputs p) perm2"
  from run obtain fee q1 h2 where len: "length (jp_inputs p) = length secrets"
    and fee: "position (\<lambda>out. jo_blinding_key out = None) ?outs = Some fee"
    and fold: "io_fold (add_proved_input w) (shuffled ?ins perm) (jw_new_v2 w) (h @ [PJ_Random perm, PJ_Random perm2]) = (Ok q1, h2)"
    and b: "h' = h2 @ [PJ_Blind (fold (\<lambda>out p. jw_add_output w p out) (list_swap ?outs fee (length ?outs - 1)) q1) (Some b)]"
      "jw_blind_last w (fold (\<lambda>out p. jw_add_output w p out) (list_swap ?outs fee (length ?outs - 1)) q1)
        (enumerate 0 (map snd (shuffled ?ins perm))) h2 = Some b"
    unfolding randomize_and_blind_pset_def Let_def perm2_def perm_def
    by (auto simp: io_bind_Ok io_run_simps)
  define q where "q = fold (\<lambda>out p. jw_add_output w p out) (list_swap ?outs fee (length ?outs - 1)) q1"
  have m: "mset perm = mset [0..<length ?ins]" "mset perm2 = mset [0..<length (jp_outputs p)]"
    using docs unfolding elements_docs_def perm_def perm2_def by blast+
  from position_SomeD [OF fee] have lt: "fee < length ?outs" by simp
  note folded = add_all_proofs [OF docs fold]
  have e: "jp_outputs q1 = []" "jp_inputs (jw_new_v2 w) = []" using folded docs by (simp_all add: elements_docs_def)
  then have outs: "mset (jp_outputs q) = mset (jp_outputs p)"
    using lt m(2) unfolding q_def fold_add_outputs [OF docs] by (simp add: mset_list_swap mset_shuffled)
  have "mset (map (remove_explicit_input w) (jp_inputs q)) = image_mset (remove_explicit_input w) (mset (map fst (shuffled ?ins perm)))"
    unfolding q_def fold_add_outputs [OF docs] using folded e(2) by (metis append_Nil mset_map)
  also have "mset (map fst (shuffled ?ins perm)) = mset (jp_inputs p)"
    using mset_shuffled [OF m(1)] len by (metis map_fst_zip mset_map)
  finally have "mset (map (remove_explicit_input w) (jp_inputs q)) = mset (map (remove_explicit_input w) (jp_inputs p))" by simp
  moreover have "jp_inputs b = jp_inputs q" using docs b(2) unfolding elements_docs_def q_def by blast
  moreover obtain t where "h2 = h @ t" using folded by auto
  ultimately show ?thesis using outs b(1) by (auto simp: q_def)
qed

section \<open>The whole protocol\<close>

definition wallet_ok :: "create_payjoin_req \<Rightarrow> bool" where
  "wallet_ok req \<longleftrightarrow> is_u64 (cp_amount req) \<and> (\<forall>u\<in>set (cp_utxos req). 0 \<le> ju_value u) \<and> utxo_sum (cp_utxos req) \<le> u64_max"

text \<open>The terms of the server for which no sum leaves the range of \<open>u64\<close>.\<close>

definition fair_terms :: "create_payjoin_req \<Rightarrow> start_response \<Rightarrow> bool" where
  "fair_terms req st \<longleftrightarrow>
     (\<forall>u\<in>set (st_utxos st). 0 \<le> ju_value u) \<and> utxo_sum (st_utxos st) \<le> u64_max
   \<and> length (cp_utxos req) + length (st_utxos st) \<le> 2 ^ 40 \<and> 0 \<le> st_fixed_fee st
   \<and> cp_amount req + st_fixed_fee st + f64_as_u64 (f64_round (f64_mul (st_price st)
        (int_as_f64 (expected_network_fee (length (cp_utxos req) + length (st_utxos st)) 0 4)))) \<le> u64_max"

lemma payjoin_fee_le:
  assumes "fair_terms req st" and "0 \<le> cp_amount req"
    and "n \<le> length (cp_utxos req) + length (st_utxos st)"
  shows "0 \<le> payjoin_asset_fee (st_fixed_fee st) (st_price st) (expected_network_fee n 0 4)"
    "payjoin_asset_fee (st_fixed_fee st) (st_price st) (expected_network_fee n 0 4) \<le> snd (payjoin_max_fees req st)"
    "0 < expected_network_fee n 0 4" "expected_network_fee n 0 4 \<le> fst (payjoin_max_fees req st)"
    "cp_amount req + snd (payjoin_max_fees req st) \<le> u64_max"
proof -
  let ?m = "length (cp_utxos req) + length (st_utxos st)"
  let ?f = "\<lambda>k. f64_as_u64 (f64_round (f64_mul (st_price st) (int_as_f64 (expected_network_fee k 0 4))))"
  have m: "?m \<le> 2 ^ 40" "0 \<le> st_fixed_fee st" "cp_amount req + st_fixed_fee st + ?f ?m \<le> u64_max"
    using assms(1) by (simp_all add: fair_terms_def)
  note mono = expected_network_fee_mono [OF assms(3) m(1)]
  then show "0 < expected_network_fee n 0 4" "expected_network_fee n 0 4 \<le> fst (payjoin_max_fees req st)"
    by (simp_all add: payjoin_max_fees_def Let_def)
  have f: "0 \<le> ?f n" "?f n \<le> ?f ?m" using asset_fee_mono [OF mono] f64_as_u64_range by (auto simp: is_u64_def)
  have ex: "payjoin_asset_fee (st_fixed_fee st) (st_price st) (expected_network_fee k 0 4) = st_fixed_fee st + ?f k"
    if "?f k \<le> ?f ?m" for k
    using that m(2,3) assms(2) f64_as_u64_range unfolding payjoin_asset_fee_def
    by (intro u64_add_exact) (auto simp: is_u64_def)
  show "0 \<le> payjoin_asset_fee (st_fixed_fee st) (st_price st) (expected_network_fee n 0 4)"
    "payjoin_asset_fee (st_fixed_fee st) (st_price st) (expected_network_fee n 0 4) \<le> snd (payjoin_max_fees req st)"
    "cp_amount req + snd (payjoin_max_fees req st) \<le> u64_max"
    using ex f m by (simp_all add: payjoin_max_fees_def Let_def)
qed

lemma plan_Ok:
  assumes run: "plan_payjoin req st = Ok (a, maxfee)" and fair: "fair_terms req st" and wallet: "wallet_ok req"
  shows "maxfee = snd (payjoin_max_fees req st) \<and> (\<exists>n m. let cs = take n (cp_utxos req); ss = take m (st_utxos st) in
    ca_selected_utxos a = cs @ ss \<and> ca_utxo_asset_amount a = utxo_sum cs \<and> ca_utxo_lbtc_amount a = utxo_sum ss
    \<and> ca_send_amount a = (if cp_subtract_fee_from_amount req then cp_amount req - maxfee else cp_amount req)
    \<and> 0 \<le> ca_send_amount a \<and> ca_send_amount a + maxfee \<le> utxo_sum cs \<and> fst (payjoin_max_fees req st) \<le> utxo_sum ss)
    \<and> ca_send_address a = cp_address req \<and> ca_send_asset_id a = cp_asset_id req \<and> ca_fee_address a = st_fee_address st
    \<and> ca_fixed_fee a = st_fixed_fee st \<and> ca_price a = st_price st \<and> ca_client_change_address a = cp_change_address req
    \<and> ca_server_change_address a = st_change_address st \<and> ca_lbtc_asset_id a = ju_asset_id (hd (st_utxos st))"
proof -
  obtain nf af where fees: "payjoin_max_fees req st = (nf, af)" by (cases "payjoin_max_fees req st")
  have w: "0 \<le> cp_amount req" using wallet by (simp add: wallet_ok_def is_u64_def)
  have af: "0 \<le> af" "cp_amount req + af \<le> u64_max"
    using payjoin_fee_le(1,2,5) [OF fair w, of 0] fees by auto
  define send where "send = (if cp_subtract_fee_from_amount req then cp_amount req - af else cp_amount req)"
  obtain uaa sel where t1: "take_utxos (u64_add send af) (cp_utxos req) 0 [] = (uaa, sel)" by fastforce
  obtain ula sel2 where t2: "take_utxos nf (st_utxos st) 0 sel = (ula, sel2)" by fastforce
  from take_utxos_prefix [OF t1] wallet obtain n where n: "sel = take n (cp_utxos req)" "uaa = utxo_sum (take n (cp_utxos req))"
    by (auto simp: wallet_ok_def)
  from take_utxos_prefix [OF t2] fair obtain m where m: "sel2 = sel @ take m (st_utxos st)" "ula = utxo_sum (take m (st_utxos st))"
    by (auto simp: fair_terms_def)
  have sub: "af < cp_amount req \<Longrightarrow> u64_sub (cp_amount req) af = cp_amount req - af"
    using w af by (intro u64_sub_exact) (simp add: is_u64_def)
  have "(\<lambda>s. (if cp_subtract_fee_from_amount req
       then and_then (ensure (cp_amount req > af) ''send_amount'') (\<lambda>_. Ok (u64_sub (cp_amount req) af))
       else Ok (cp_amount req)) = Ok s) s \<longleftrightarrow> s = send \<and> (cp_subtract_fee_from_amount req \<longrightarrow> af < cp_amount req)" for s
    by (auto simp: send_def sub)
  with run have pl: "a = \<lparr> ca_selected_utxos = sel2, ca_send_address = cp_address req, ca_send_asset_id = cp_asset_id req,
          ca_send_amount = send, ca_fee_address = st_fee_address st, ca_fixed_fee = st_fixed_fee st, ca_price = st_price st,
          ca_client_change_address = cp_change_address req, ca_utxo_asset_amount = uaa,
          ca_utxo_lbtc_amount = ula, ca_server_change_address = st_change_address st,
          ca_lbtc_asset_id = ju_asset_id (hd (st_utxos st)) \<rparr>" "maxfee = af" "u64_add send af \<le> uaa" "nf \<le> ula"
     "cp_subtract_fee_from_amount req \<longrightarrow> af < cp_amount req"
    by (auto simp: plan_payjoin_def Let_def fees t1 t2 split: if_splits)
  have send: "0 \<le> send" "u64_add send af = send + af"
    using pl(5) w af by (auto simp: send_def u64_add_exact is_u64_def)
  have "let cs = take n (cp_utxos req); ss = take m (st_utxos st) in
    ca_selected_utxos a = cs @ ss \<and> ca_utxo_asset_amount a = utxo_sum cs \<and> ca_utxo_lbtc_amount a = utxo_sum ss
    \<and> ca_send_amount a = (if cp_subtract_fee_from_amount req then cp_amount req - maxfee else cp_amount req)
    \<and> 0 \<le> ca_send_amount a \<and> ca_send_amount a + maxfee \<le> utxo_sum cs \<and> fst (payjoin_max_fees req st) \<le> utxo_sum ss"
    using pl n m send by (simp add: fees Let_def) (simp add: send_def)
  then show ?thesis using pl(1,2) fees by (intro conjI exI [of _ n] exI [of _ m]) simp_all
qed

text \<open>The terms received in a history.\<close>

fun start_terms :: "pj_world \<Rightarrow> pj_event list \<Rightarrow> start_response list" where
  "start_terms w [] = []"
| "start_terms w (PJ_Post url req (Http_Ok body) # h) = (case jw_dec_response w body of
      Some (PJ_Start st) \<Rightarrow> st # start_terms w h
    | _ \<Rightarrow> start_terms w h)"
| "start_terms w (ev # h) = start_terms w h"

definition same_unsigned :: "pj_in \<Rightarrow> pj_in \<Rightarrow> bool" where
  "same_unsigned i j \<longleftrightarrow> i\<lparr> ji_final_script_sig := None, ji_final_script_witness := None \<rparr>
     = j\<lparr> ji_final_script_sig := None, ji_final_script_witness := None \<rparr>"

lemma copy_signatures_Ok:
  assumes "copy_signatures dst src = Ok p"
  shows "jp_outputs p = jp_outputs dst \<and> list_all2 same_unsigned (jp_inputs p) (jp_inputs dst)"
proof -
  have "same_unsigned (copy_signature i j) i" for i j by (simp add: copy_signature_def same_unsigned_def)
  with assms show ?thesis by (auto simp: copy_signatures_def list_all2_conv_all_nth)
qed

lemma server_request_Ok:
  assumes "make_server_request w url req h = (Ok resp, h')"
  shows "\<exists>body. h' = h @ [PJ_Post url req (Http_Ok body)] \<and> jw_dec_response w body = Some resp"
  using assms by (auto simp: make_server_request_def io_bind_Ok io_run_simps split: http_result.splits if_splits)

lemma sign_payjoin_Ok:
  assumes "sign_payjoin w url order_id b h = (Ok p, h')"
  shows "jp_outputs p = jp_outputs b \<and> list_all2 same_unsigned (jp_inputs p) (jp_inputs b)
    \<and> (\<exists>res. h' = h @ [PJ_Post url (PJ_Req_Sign \<lparr> jr_order_id = order_id,
          jr_pset = jw_b64_encode w (jw_pset_encode w (remove_explicit_values w b)) \<rparr>) res])"
proof -
  let ?req = "PJ_Req_Sign \<lparr> jr_order_id = order_id,
    jr_pset = jw_b64_encode w (jw_pset_encode w (remove_explicit_values w b)) \<rparr>"
  from assms obtain resp where resp: "make_server_request w url ?req h = (Ok resp, h')"
    "\<exists>src. copy_signatures b src = Ok p"
    by (auto simp: sign_payjoin_def Let_def io_bind_Ok io_run_simps)
  from server_request_Ok [OF resp(1)] copy_signatures_Ok resp(2) show ?thesis by blast
qed

lemma create_payjoin_Ok:
  assumes docs: "elements_docs w" and run: "create_payjoin w req [] = (Ok c, h')"
  shows "\<exists>st a p q b. st \<in> set (start_terms w h') \<and> plan_payjoin req st = Ok (a, cd_asset_fee c) \<and> unblinded_pset w a = Ok p
    \<and> PJ_Blind q (Some b) \<in> set h' \<and> mset (jp_outputs q) = mset (jp_outputs p)
    \<and> mset (map (remove_explicit_input w) (jp_inputs q)) = mset (map (remove_explicit_input w) (jp_inputs p))
    \<and> jp_outputs (cd_pset c) = jp_outputs b \<and> list_all2 same_unsigned (jp_inputs (cd_pset c)) (jp_inputs b)
    \<and> jp_inputs b = jp_inputs q"
proof -
  let ?url = "cp_base_url req @ ''/payjoin''"
  let ?start = "PJ_Req_Start \<lparr> sq_asset_id = cp_asset_id req, sq_user_agent = cp_user_agent req \<rparr>"
  from run obtain resp st h1 a p b h2 where
    resp: "make_server_request w ?url ?start [] = (Ok resp, h1)" "start_of resp = Ok st" and
    a: "plan_payjoin req st = Ok (a, cd_asset_fee c)" "unblinded_pset w a = Ok p" and
    b: "randomize_and_blind_pset w p (map utxo_secrets (ca_selected_utxos a)) h1 = (Ok b, h2)" and
    s: "sign_payjoin w ?url (st_order_id st) b h2 = (Ok (cd_pset c), h')"
    by (auto simp: create_payjoin_def construct_pset_def Let_def io_bind_Ok io_run_simps)
  have "resp = PJ_Start st" using resp(2) by (cases resp) auto
  note st = resp(1) [unfolded this]
  from server_request_Ok [OF st] obtain body where h1: "h1 = [PJ_Post ?url ?start (Http_Ok body)]"
    "jw_dec_response w body = Some (PJ_Start st)" by auto
  from randomize_Ok [OF docs b] obtain q t where q: "h2 = h1 @ t @ [PJ_Blind q (Some b)]"
    "mset (jp_outputs q) = mset (jp_outputs p)"
    "mset (map (remove_explicit_input w) (jp_inputs q)) = mset (map (remove_explicit_input w) (jp_inputs p))"
    "jp_inputs b = jp_inputs q" by blast
  from sign_payjoin_Ok [OF s] obtain t2 where s: "h' = h2 @ t2" "jp_outputs (cd_pset c) = jp_outputs b"
    "list_all2 same_unsigned (jp_inputs (cd_pset c)) (jp_inputs b)" by blast
  have "st \<in> set (start_terms w h')" "PJ_Blind q (Some b) \<in> set h'" using h1 q(1) s(1) by auto
  with a q s show ?thesis by blast
qed

lemma remove_explicit_utxo: "elements_docs w \<Longrightarrow> remove_explicit_input w (utxo_input w u) = utxo_input w u"
  by (simp add: remove_explicit_filter utxo_input_def pj_pset_input_def elements_docs_def)

text \<open>
  (C7) A payjoin moves exactly what the user asked for.  When \<open>create_payjoin\<close> returns (and the
  sums of coins and fees fit 64 bits), the transaction that was blinded spends a prefix of the user's
  coins and a prefix of the server's; it pays the recipient the requested amount (less the reported
  fee when the fee is to be subtracted), the server a fee in the asset of at most what is reported to
  the user, both sides their whole change, and the rest is the network fee; both the asset and the
  bitcoins are conserved.  The returned transaction has the outputs of the blinded one and the same
  inputs up to their signatures.
\<close>
theorem payjoin_conserves:
  assumes docs: "elements_docs w" and wallet: "wallet_ok req"
    and run: "create_payjoin w req [] = (Ok c, h')"
    and fair: "\<forall>st\<in>set (start_terms w h'). fair_terms req st"
  shows "\<exists>st n m q b send fee nfee change lchange.
    let cs = take n (cp_utxos req); ss = take m (st_utxos st); asset = Some (cp_asset_id req); lbtc = Some (ju_asset_id (hd (st_utxos st)))
    in st \<in> set (start_terms w h') \<and> PJ_Blind q (Some b) \<in> set h'
      \<and> mset (map (remove_explicit_input w) (jp_inputs q)) = mset (map (utxo_input w) (cs @ ss))
      \<and> mset (map pays (jp_outputs q)) = mset (
          [(jw_script_pubkey w (cp_address req), asset, Some send), (jw_script_pubkey w (st_fee_address st), asset, Some fee)]
          @ change_of change (jw_script_pubkey w (cp_change_address req), asset, Some change)
          @ change_of lchange (jw_script_pubkey w (st_change_address st), lbtc, Some lchange)
          @ [([], lbtc, Some nfee)])
      \<and> send = (if cp_subtract_fee_from_amount req then cp_amount req - cd_asset_fee c else cp_amount req)
      \<and> 0 \<le> fee \<and> fee \<le> cd_asset_fee c \<and> 0 \<le> change \<and> send + fee + change = utxo_sum cs
      \<and> 0 < nfee \<and> 0 \<le> lchange \<and> nfee + lchange = utxo_sum ss
      \<and> jp_outputs (cd_pset c) = jp_outputs b \<and> list_all2 same_unsigned (jp_inputs (cd_pset c)) (jp_inputs q)"
proof -
  from create_payjoin_Ok [OF docs run] obtain st a p q b where
    st: "st \<in> set (start_terms w h')" and plan: "plan_payjoin req st = Ok (a, cd_asset_fee c)" and
    p: "unblinded_pset w a = Ok p" and
    q: "PJ_Blind q (Some b) \<in> set h'" "mset (jp_outputs q) = mset (jp_outputs p)"
      "mset (map (remove_explicit_input w) (jp_inputs q)) = mset (map (remove_explicit_input w) (jp_inputs p))"
      "jp_outputs (cd_pset c) = jp_outputs b" "list_all2 same_unsigned (jp_inputs (cd_pset c)) (jp_inputs b)"
      "jp_inputs b = jp_inputs q" by blast
  have ft: "fair_terms req st" using fair st by blast
  have amt: "0 \<le> cp_amount req" using wallet by (simp add: wallet_ok_def is_u64_def)
  from plan_Ok [OF plan ft wallet] obtain n m cs ss where cs: "cs = take n (cp_utxos req)" "ss = take m (st_utxos st)"
    and sel: "ca_selected_utxos a = cs @ ss" "ca_utxo_asset_amount a = utxo_sum cs" "ca_utxo_lbtc_amount a = utxo_sum ss"
    and send: "ca_send_amount a = (if cp_subtract_fee_from_amount req then cp_amount req - cd_asset_fee c else cp_amount req)"
      "0 \<le> ca_send_amount a" "ca_send_amount a + cd_asset_fee c \<le> utxo_sum cs" "fst (payjoin_max_fees req st) \<le> utxo_sum ss"
    and maxfee: "cd_asset_fee c = snd (payjoin_max_fees req st)"
    and fields: "ca_send_address a = cp_address req" "ca_send_asset_id a = cp_asset_id req" "ca_fee_address a = st_fee_address st"
      "ca_fixed_fee a = st_fixed_fee st" "ca_price a = st_price st" "ca_client_change_address a = cp_change_address req"
      "ca_server_change_address a = st_change_address st" "ca_lbtc_asset_id a = ju_asset_id (hd (st_utxos st))"
    unfolding Let_def by blast
  define nfee where "nfee = expected_network_fee (length (cs @ ss)) 0 4"
  define fee where "fee = payjoin_asset_fee (st_fixed_fee st) (st_price st) nfee"
  have "length (cs @ ss) \<le> length (cp_utxos req) + length (st_utxos st)" by (auto simp: cs)
  note fees = payjoin_fee_le [OF ft amt this, folded nfee_def, folded fee_def, folded maxfee]
  have bd: "utxo_sum cs \<le> u64_max" "utxo_sum ss \<le> u64_max"
  proof -
    have "utxo_sum (take k us) \<le> utxo_sum us" if "\<forall>u\<in>set us. 0 \<le> ju_value u" for k us
      using that utxo_sum_nonneg [of "drop k us"]
      by (metis add_increasing2 append_take_drop_id in_set_dropD map_append order_refl sum_list_append)
    then show "utxo_sum cs \<le> u64_max" "utxo_sum ss \<le> u64_max"
      using wallet ft unfolding cs wallet_ok_def fair_terms_def by (meson order_trans)+
  qed
  define change where "change = utxo_sum cs - ca_send_amount a - fee"
  define lchange where "lchange = utxo_sum ss - nfee"
  have ch: "u64_sub (u64_sub (utxo_sum cs) (ca_send_amount a)) fee = change" "0 \<le> change"
    "u64_sub (utxo_sum ss) nfee = lchange" "0 \<le> lchange"
    using fees send bd by (simp_all add: change_def lchange_def u64_sub_exact is_u64_def)
  from unblinded_Ok [OF docs p] have ins: "jp_inputs p = map (utxo_input w) (cs @ ss)"
    and outs: "map pays (jp_outputs p) =
      [(jw_script_pubkey w (cp_address req), Some (cp_asset_id req), Some (ca_send_amount a)),
       (jw_script_pubkey w (st_fee_address st), Some (cp_asset_id req), Some fee)]
      @ change_of change (jw_script_pubkey w (cp_change_address req), Some (cp_asset_id req), Some change)
      @ change_of lchange (jw_script_pubkey w (st_change_address st), Some (ju_asset_id (hd (st_utxos st))), Some lchange)
      @ [([], Some (ju_asset_id (hd (st_utxos st))), Some nfee)]"
    unfolding Let_def sel fields nfee_def [symmetric] fee_def [symmetric] ch by simp_all
  have i: "mset (map (remove_explicit_input w) (jp_inputs q)) = mset (map (utxo_input w) (cs @ ss))"
    using q(3) by (simp add: ins remove_explicit_utxo [OF docs] comp_def)
  have o: "mset (map pays (jp_outputs q)) = mset (map pays (jp_outputs p))" using q(2) by (metis mset_map)
  have s: "ca_send_amount a + fee + change = utxo_sum cs" "nfee + lchange = utxo_sum ss"
    by (simp_all add: change_def lchange_def)
  show ?thesis
    unfolding Let_def
    by (intro exI conjI) (fact st q(1) i [unfolded cs] o [unfolded outs] send(1) fees(1,2,3) ch(2,4) s [unfolded cs] q(4)
      q(5) [unfolded q(6)])+
qed

section \<open>An example\<close>

definition ex_pj_address :: "string \<Rightarrow> pj_address" where
  "ex_pj_address s = \<lparr> pa_params = ''liquid'', pa_payload = s, pa_blinding_pubkey = Some ''key'' \<rparr>"

definition ex_pj_utxo :: "string \<Rightarrow> string \<Rightarrow> u64 \<Rightarrow> pj_utxo" where
  "ex_pj_utxo txid asset v = \<lparr> ju_txid = txid, ju_vout = 0, ju_script_pub_key = ''spk'', ju_asset_id = asset, ju_value = v,
     ju_asset_bf = ''abf'', ju_value_bf = ''vbf'', ju_asset_commitment = ''ac'', ju_value_commitment = ''vc'' \<rparr>"

definition ex_terms :: start_response where
  "ex_terms = \<lparr> st_order_id = ''o1'', st_expires_at = 0, st_fee = 0, st_price = Fin 2, st_fixed_fee = 1000,
     st_fee_address = ex_pj_address ''fee'', st_change_address = ex_pj_address ''lchange'',
     st_utxos = [ex_pj_utxo ''t2'' ''lbtc'' 5000, ex_pj_utxo ''t3'' ''lbtc'' 5000] \<rparr>"

definition ex_pj_req :: create_payjoin_req where
  "ex_pj_req = \<lparr> cp_base_url = ''http'', cp_user_agent = ''ua'', cp_asset_id = ''usdt'', cp_amount = 40000,
     cp_address = ex_pj_address ''to'', cp_subtract_fee_from_amount = True, cp_change_address = ex_pj_address ''change'',
     cp_utxos = [ex_pj_utxo ''t0'' ''usdt'' 30000, ex_pj_utxo ''t1'' ''usdt'' 30000] \<rparr>"

fun ex_from_txout :: "pj_txout \<Rightarrow> pj_out" where
  "ex_from_txout t = \<lparr> jo_amount = (case jt_value t of Val_Explicit v \<Rightarrow> Some v | _ \<Rightarrow> None),
     jo_asset = (case jt_asset t of Ast_Explicit a \<Rightarrow> Some a | _ \<Rightarrow> None), jo_script_pubkey = jt_script_pubkey t,
     jo_blinding_key = None, jo_blinder_index = None, jo_other = [] \<rparr>"

definition ex_prevout :: "txid \<Rightarrow> int \<Rightarrow> pj_in" where
  "ex_prevout txid vout = \<lparr> ji_previous_txid = txid, ji_previous_vout = vout, ji_witness_utxo = None, ji_final_script_sig = None,
     ji_final_script_witness = None, ji_proprietary = [], ji_other = [] \<rparr>"

text \<open>A server that signs the bitcoin input, the third of the shuffled inputs.\<close>

definition ex_signed :: pj_pset where
  "ex_signed = \<lparr> jp_inputs = [(ex_prevout ''t2'' 0)\<lparr> ji_final_script_witness := Some [''sig''] \<rparr>, ex_prevout ''t1'' 0, ex_prevout ''t0'' 0],
     jp_outputs = replicate 5 (ex_from_txout \<lparr> jt_asset = Ast_Null, jt_value = Val_Null, jt_nonce = Nonce_Null, jt_script_pubkey = [] \<rparr>),
     jp_global = [] \<rparr>"

definition ex_pjw :: pj_world where
  "ex_pjw = \<lparr>
     jw_post = (\<lambda>url req h. case req of PJ_Req_Start _ \<Rightarrow> Http_Ok ''start'' | _ \<Rightarrow> Http_Ok ''sign''),
     jw_dec_response = (\<lambda>s. if s = ''start'' then Some (PJ_Start ex_terms) else Some (PJ_Sign ''signed'')),
     jw_dec_error = Some, jw_into_string = Some, jw_shuffle = (\<lambda>n h. rev [0..<n]), jw_script_pubkey = pa_payload,
     jw_from_prevout = ex_prevout, jw_from_txout = ex_from_txout,
     jw_new_fee = (\<lambda>v a. \<lparr> jt_asset = Ast_Explicit a, jt_value = Val_Explicit v, jt_nonce = Nonce_Null, jt_script_pubkey = [] \<rparr>),
     jw_public_key = Some, jw_new_v2 = \<lparr> jp_inputs = [], jp_outputs = [], jp_global = [] \<rparr>,
     jw_add_input = (\<lambda>p i. p\<lparr> jp_inputs := jp_inputs p @ [i] \<rparr>),
     jw_add_output = (\<lambda>p out. p\<lparr> jp_outputs := jp_outputs p @ [out] \<rparr>),
     jw_into_asset_gen = (\<lambda>a. Some ''gen''), jw_surjection_proof = (\<lambda>s h. Some ''surjection''),
     jw_range_proof = (\<lambda>s c g h. Some ''range''), jw_pset_pair = (\<lambda>n s. char_of n # s),
     jw_ser_value = (\<lambda>v. ''value''), jw_ser_asset = id, jw_ser_proof = id,
     jw_blind_last = (\<lambda>p s h. Some p), jw_pset_encode = (\<lambda>p. ''pset''), jw_pset_decode = (\<lambda>s. Some ex_signed),
     jw_b64_encode = id, jw_b64_decode = Some, jw_extract_tx = (\<lambda>p. Some ''tx'') \<rparr>"

lemma ex_docs: "elements_docs ex_pjw"
  by (auto simp: elements_docs_def ex_pjw_def ex_prevout_def simp del: upt.simps)

lemma ex_dec: "jw_dec_response ex_pjw ''start'' = Some (PJ_Start ex_terms)"
  by (simp add: ex_pjw_def)

lemma ex_net: "expected_network_fee 4 0 4 = 524" "expected_network_fee 3 0 4 = 515"
  by code_simp+

lemma ex_fee: "payjoin_asset_fee 1000 (Fin 2) 524 = 2048" "payjoin_asset_fee 1000 (Fin 2) 515 = 2030"
  by code_simp+

definition ex_plan :: construct_pset_args where
  "ex_plan = \<lparr> ca_selected_utxos = [ex_pj_utxo ''t0'' ''usdt'' 30000, ex_pj_utxo ''t1'' ''usdt'' 30000, ex_pj_utxo ''t2'' ''lbtc'' 5000],
     ca_send_address = ex_pj_address ''to'', ca_send_asset_id = ''usdt'', ca_send_amount = 37952, ca_fee_address = ex_pj_address ''fee'',
     ca_fixed_fee = 1000, ca_price = Fin 2, ca_client_change_address = ex_pj_address ''change'', ca_utxo_asset_amount = 60000,
     ca_utxo_lbtc_amount = 5000, ca_server_change_address = ex_pj_address ''lchange'', ca_lbtc_asset_id = ''lbtc'' \<rparr>"

lemma ex_fees: "payjoin_max_fees ex_pj_req ex_terms = (524, 2048)"
proof -
  have "length (cp_utxos ex_pj_req) + length (st_utxos ex_terms) = 4" by (simp add: ex_pj_req_def ex_terms_def)
  moreover have "st_fixed_fee ex_terms = 1000" "st_price ex_terms = Fin 2" by (simp_all add: ex_terms_def)
  ultimately show ?thesis by (simp only: payjoin_max_fees_def Let_def ex_net ex_fee)
qed

lemma ex_planned: "plan_payjoin ex_pj_req ex_terms = Ok (ex_plan, 2048)"
  by (simp add: plan_payjoin_def ex_fees Let_def)
    (simp add: ex_pj_req_def ex_terms_def ex_plan_def ex_pj_address_def ex_pj_utxo_def is_blinded_def u64_add_def u64_sub_def wrap_u64_def)

definition ex_unblinded :: pj_pset where
  "ex_unblinded = \<lparr> jp_inputs = map (utxo_input ex_pjw) (ca_selected_utxos ex_plan),
    jp_outputs = map (\<lambda>(spk, asset, v). \<lparr> jo_amount = Some v, jo_asset = Some asset, jo_script_pubkey = spk,
       jo_blinding_key = Some ''key'', jo_blinder_index = Some 0, jo_other = [] \<rparr>)
      [(''to'', ''usdt'', 37952), (''fee'', ''usdt'', 2030), (''change'', ''usdt'', 20018), (''lchange'', ''lbtc'', 4485)]
     @ [\<lparr> jo_amount = Some 515, jo_asset = Some ''lbtc'', jo_script_pubkey = [], jo_blinding_key = None, jo_blinder_index = None, jo_other = [] \<rparr>],
    jp_global = [] \<rparr>"

lemma ex_payment: "0 < v \<Longrightarrow> add_payment ex_pjw (ex_pj_address s) asset v p = Ok (p\<lparr> jp_outputs := jp_outputs p @
    [\<lparr> jo_amount = Some v, jo_asset = Some asset, jo_script_pubkey = s,
       jo_blinding_key = Some ''key'', jo_blinder_index = Some 0, jo_other = [] \<rparr>] \<rparr>)"
  by (simp add: add_payment_def pj_pset_output_def ex_pj_address_def ex_pjw_def Let_def)

lemma ex_unblinded: "unblinded_pset ex_pjw ex_plan = Ok ex_unblinded"
proof -
  have e: "jw_new_v2 ex_pjw = \<lparr> jp_inputs = [], jp_outputs = [], jp_global = [] \<rparr>"
    "jw_add_input ex_pjw = (\<lambda>p i. p\<lparr> jp_inputs := jp_inputs p @ [i] \<rparr>)"
    "jw_add_output ex_pjw = (\<lambda>p out. p\<lparr> jp_outputs := jp_outputs p @ [out] \<rparr>)" by (simp_all add: ex_pjw_def)
  have f: "pset_network_fee ex_pjw a v = \<lparr> jo_amount = Some v, jo_asset = Some a, jo_script_pubkey = [], jo_blinding_key = None,
    jo_blinder_index = None, jo_other = [] \<rparr>" for a v by (simp add: pset_network_fee_def ex_pjw_def)
  show ?thesis
    by (simp add: unblinded_pset_def ex_unblinded_def ex_plan_def e f ex_payment Let_def ex_net(2) [unfolded numeral_3_eq_3]
        ex_fee u64_sub_def wrap_u64_def)
qed

lemma ex_proofs: "\<exists>i' t. add_input_explicit_proofs ex_pjw (utxo_input ex_pjw u) s h = (Ok i', h @ t) \<and> start_terms ex_pjw t = []"
  by (simp add: add_input_explicit_proofs_def Let_def ex_pjw_def utxo_input_def pj_pset_input_def io_run_simps)

lemma start_terms_append: "start_terms w (h @ t) = start_terms w h @ start_terms w t"
  by (induction h rule: start_terms.induct) (auto split: option.splits pj_response.splits)

lemma ex_fold: "\<exists>p' t. io_fold (add_proved_input ex_pjw) (map (\<lambda>u. (utxo_input ex_pjw u, f u)) us) p h = (Ok p', h @ t) \<and> start_terms ex_pjw t = []
  \<and> length (jp_inputs p') = length (jp_inputs p) + length us \<and> jp_outputs p' = jp_outputs p"
proof (induction us arbitrary: p h)
  case Nil
  then show ?case by (simp add: io_run_simps)
next
  case (Cons u us)
  obtain i t where i: "add_input_explicit_proofs ex_pjw (utxo_input ex_pjw u) (f u) h = (Ok i, h @ t)" "start_terms ex_pjw t = []"
    using ex_proofs by metis
  from Cons [of "jw_add_input ex_pjw p i" "h @ t"] obtain p' t' where
    "io_fold (add_proved_input ex_pjw) (map (\<lambda>u. (utxo_input ex_pjw u, f u)) us) (jw_add_input ex_pjw p i) (h @ t) = (Ok p', (h @ t) @ t')"
    "start_terms ex_pjw t' = []" "length (jp_inputs p') = Suc (length (jp_inputs p) + length us)" "jp_outputs p' = jp_outputs p"
    by (auto simp: ex_pjw_def)
  moreover have "add_proved_input ex_pjw (utxo_input ex_pjw u, f u) p h = (Ok (jw_add_input ex_pjw p i), h @ t)"
    using i(1) by (simp add: add_proved_Ok)
  ultimately show ?case using i(2)
    by (intro exI [of _ p'] exI [of _ "t @ t'"]) (simp add: io_bind_def start_terms_append)
qed

lemma ex_blinded: "\<exists>b t. randomize_and_blind_pset ex_pjw ex_unblinded (map utxo_secrets (ca_selected_utxos ex_plan)) h = (Ok b, h @ t)
  \<and> start_terms ex_pjw t = [] \<and> length (jp_inputs b) = 3 \<and> length (jp_outputs b) = 5"
proof -
  let ?us = "rev (ca_selected_utxos ex_plan)"
  obtain p' t where f: "io_fold (add_proved_input ex_pjw) (map (\<lambda>u. (utxo_input ex_pjw u, utxo_secrets u)) ?us) (jw_new_v2 ex_pjw)
     (h @ [PJ_Random [2, Suc 0, 0], PJ_Random [4, 3, 2, Suc 0, 0]]) = (Ok p', (h @ [PJ_Random [2, Suc 0, 0], PJ_Random [4, 3, 2, Suc 0, 0]]) @ t)"
    "start_terms ex_pjw t = []" "length (jp_inputs p') = 3" "jp_outputs p' = []"
    using ex_fold [of utxo_secrets ?us "jw_new_v2 ex_pjw"] by (fastforce simp: ex_pjw_def ex_plan_def)
  let ?outs = "list_swap (rev (jp_outputs ex_unblinded)) 0 4"
  let ?q = "fold (\<lambda>out p. jw_add_output ex_pjw p out) ?outs p'"
  have len: "length (jp_inputs ex_unblinded) = 3" "length (jp_outputs ex_unblinded) = 5" "length (ca_selected_utxos ex_plan) = 3"
    by (simp_all add: ex_unblinded_def ex_plan_def)
  have sh: "jw_shuffle ex_pjw n h = rev [0..<n]" "jw_blind_last ex_pjw p s h = Some p" for n h p s by (simp_all add: ex_pjw_def)
  have z: "shuffled (zip (jp_inputs ex_unblinded) (map utxo_secrets (ca_selected_utxos ex_plan))) [2, Suc 0, 0]
      = map (\<lambda>u. (utxo_input ex_pjw u, utxo_secrets u)) ?us"
    by (simp add: shuffled_def ex_unblinded_def ex_plan_def)
  have z2: "shuffled (jp_outputs ex_unblinded) [4, 3, 2, Suc 0, 0] = rev (jp_outputs ex_unblinded)"
    by (simp add: shuffled_def ex_unblinded_def)
  have pos: "position (\<lambda>out. jo_blinding_key out = None) (rev (jp_outputs ex_unblinded)) = Some 0"
    by (simp add: ex_unblinded_def)
  have u: "rev [0..<3] = [2, Suc 0, 0 :: nat]" "rev [0..<5] = [4, 3, 2, Suc 0, 0 :: nat]" by (simp_all add: upt_rec)
  have "randomize_and_blind_pset ex_pjw ex_unblinded (map utxo_secrets (ca_selected_utxos ex_plan)) h
    = (Ok ?q, h @ [PJ_Random [2, Suc 0, 0], PJ_Random [4, 3, 2, Suc 0, 0]] @ t @ [PJ_Blind ?q (Some ?q)])"
    using f(1) by (simp add: randomize_and_blind_pset_def Let_def len sh u z z2 pos io_bind_def io_run_simps)
  moreover have "length (jp_inputs ?q) = 3" "length (jp_outputs ?q) = 5"
    using f(3,4) len by (simp_all add: fold_add_outputs [OF ex_docs] list_swap_def)
  ultimately show ?thesis using f(2) by (auto simp: start_terms_append)
qed

lemma ex_sign:
  assumes "length (jp_inputs b) = 3" "length (jp_outputs b) = 5"
  shows "\<exists>p t. sign_payjoin ex_pjw url ''o1'' b h = (Ok p, h @ t) \<and> start_terms ex_pjw t = []"
proof -
  have r: "jw_post ex_pjw url (PJ_Req_Sign r) h = Http_Ok ''sign''" "jw_dec_response ex_pjw ''sign'' = Some (PJ_Sign ''signed'')"
    "jw_b64_decode ex_pjw s = Some s" "jw_pset_decode ex_pjw s = Some ex_signed" for r h s by (simp_all add: ex_pjw_def)
  have "length (jp_inputs ex_signed) = 3" "length (jp_outputs ex_signed) = 5" by (simp_all add: ex_signed_def)
  with assms show ?thesis
    by (simp add: sign_payjoin_def make_server_request_def Let_def copy_signatures_def io_bind_def io_run_simps r)
qed

lemma ex_run: "\<exists>c h'. create_payjoin ex_pjw ex_pj_req [] = (Ok c, h') \<and> start_terms ex_pjw h' = [ex_terms]"
proof -
  let ?h = "[PJ_Post (cp_base_url ex_pj_req @ ''/payjoin'') (PJ_Req_Start \<lparr> sq_asset_id = cp_asset_id ex_pj_req, sq_user_agent = cp_user_agent ex_pj_req \<rparr>) (Http_Ok ''start'')]"
  obtain b t where b: "randomize_and_blind_pset ex_pjw ex_unblinded (map utxo_secrets (ca_selected_utxos ex_plan)) ?h = (Ok b, ?h @ t)"
    "start_terms ex_pjw t = []" "length (jp_inputs b) = 3" "length (jp_outputs b) = 5" using ex_blinded by metis
  obtain p t2 where p: "sign_payjoin ex_pjw (cp_base_url ex_pj_req @ ''/payjoin'') ''o1'' b (?h @ t) = (Ok p, (?h @ t) @ t2)" "start_terms ex_pjw t2 = []"
    using ex_sign [OF b(3,4)] by metis
  have "check_request ex_pj_req = Ok ()"
    by (simp add: check_request_def ex_pj_req_def ex_pj_utxo_def is_blinded_def ex_pj_address_def)
  moreover have "make_server_request ex_pjw (cp_base_url ex_pj_req @ ''/payjoin'') (PJ_Req_Start \<lparr> sq_asset_id = cp_asset_id ex_pj_req, sq_user_agent = cp_user_agent ex_pj_req \<rparr>) []
     = (Ok (PJ_Start ex_terms), ?h)"
    by (simp add: make_server_request_def ex_pjw_def io_run_simps)
  moreover have "st_order_id ex_terms = ''o1''" by (simp add: ex_terms_def)
  ultimately have "create_payjoin ex_pjw ex_pj_req [] = (Ok \<lparr> cd_pset = p, cd_asset_fee = 2048 \<rparr>, ?h @ t @ t2)"
    using b(1) p(1)
    by (simp add: create_payjoin_def construct_pset_def Let_def io_bind_def io_run_simps ex_planned ex_unblinded)
  moreover have "start_terms ex_pjw (?h @ t @ t2) = [ex_terms]" using b(2) p(2)
    by (simp add: start_terms_append ex_dec)
  ultimately show ?thesis by blast
qed

theorem payjoin_conserves_witness:
  "\<exists>c h' n m change lchange send fee nfee. \<exists>q :: pj_pset. create_payjoin ex_pjw ex_pj_req [] = (Ok c, h')
     \<and> mset (map (remove_explicit_input ex_pjw) (jp_inputs q))
         = mset (map (utxo_input ex_pjw) (take n (cp_utxos ex_pj_req) @ take m (st_utxos ex_terms)))
     \<and> mset (map pays (jp_outputs q)) = mset ([(''to'', Some ''usdt'', Some send), (''fee'', Some ''usdt'', Some fee)]
          @ change_of change (''change'', Some ''usdt'', Some change) @ change_of lchange (''lchange'', Some ''lbtc'', Some lchange)
          @ [([], Some ''lbtc'', Some nfee)])
     \<and> send = 40000 - cd_asset_fee c \<and> fee \<le> cd_asset_fee c \<and> send + fee + change = utxo_sum (take n (cp_utxos ex_pj_req))
     \<and> nfee + lchange = utxo_sum (take m (st_utxos ex_terms))"
proof -
  obtain c h' where run: "create_payjoin ex_pjw ex_pj_req [] = (Ok c, h')" and st: "start_terms ex_pjw h' = [ex_terms]"
    using ex_run by blast
  have w: "wallet_ok ex_pj_req" by (simp add: wallet_ok_def ex_pj_req_def ex_pj_utxo_def is_u64_def u64_max_def)
  have "f64_as_u64 (f64_round (f64_mul (Fin 2) (int_as_f64 524))) = 1048" by code_simp
  moreover have "length (cp_utxos ex_pj_req) + length (st_utxos ex_terms) = 4" by (simp add: ex_pj_req_def ex_terms_def)
  moreover have "st_price ex_terms = Fin 2" "st_fixed_fee ex_terms = 1000" "cp_amount ex_pj_req = 40000"
    "utxo_sum (st_utxos ex_terms) = 10000" "\<forall>u\<in>set (st_utxos ex_terms). 0 \<le> ju_value u"
    by (simp_all add: ex_terms_def ex_pj_req_def ex_pj_utxo_def)
  ultimately have "fair_terms ex_pj_req ex_terms" unfolding fair_terms_def by (simp add: ex_net u64_max_def)
  then have "\<forall>st\<in>set (start_terms ex_pjw h'). fair_terms ex_pj_req st" by (simp add: st)
  from payjoin_conserves [OF ex_docs w run this] obtain st n m send fee nfee change lchange and q :: pj_pset where
    "st \<in> set (start_terms ex_pjw h')" and
    i: "mset (map (remove_explicit_input ex_pjw) (jp_inputs q)) = mset (map (utxo_input ex_pjw) (take n (cp_utxos ex_pj_req) @ take m (st_utxos st)))" and
    o: "mset (map pays (jp_outputs q)) = mset (
          [(jw_script_pubkey ex_pjw (cp_address ex_pj_req), Some (cp_asset_id ex_pj_req), Some send),
           (jw_script_pubkey ex_pjw (st_fee_address st), Some (cp_asset_id ex_pj_req), Some fee)]
          @ change_of change (jw_script_pubkey ex_pjw (cp_change_address ex_pj_req), Some (cp_asset_id ex_pj_req), Some change)
          @ change_of lchange (jw_script_pubkey ex_pjw (st_change_address st), Some (ju_asset_id (hd (st_utxos st))), Some lchange)
          @ [([], Some (ju_asset_id (hd (st_utxos st))), Some nfee)])" and
    s: "send = (if cp_subtract_fee_from_amount ex_pj_req then cp_amount ex_pj_req - cd_asset_fee c else cp_amount ex_pj_req)" and
    f: "fee \<le> cd_asset_fee c" "send + fee + change = utxo_sum (take n (cp_utxos ex_pj_req))"
      "nfee + lchange = utxo_sum (take m (st_utxos st))"
    unfolding Let_def by (elim exE conjE) (rule that, assumption+)
  then have st: "st = ex_terms" using st by simp
  have "jw_script_pubkey ex_pjw (cp_address ex_pj_req) = ''to''" "jw_script_pubkey ex_pjw (st_fee_address ex_terms) = ''fee''"
    "jw_script_pubkey ex_pjw (cp_change_address ex_pj_req) = ''change''" "jw_script_pubkey ex_pjw (st_change_address ex_terms) = ''lchange''"
    "cp_asset_id ex_pj_req = ''usdt''" "ju_asset_id (hd (st_utxos ex_terms)) = ''lbtc''"
    by (simp_all add: ex_pjw_def ex_pj_req_def ex_terms_def ex_pj_address_def ex_pj_utxo_def)
  note o = o [unfolded st this]
  have s: "send = 40000 - cd_asset_fee c" using s by (simp add: ex_pj_req_def)
  show ?thesis by (intro exI conjI) (fact run i [unfolded st] o s f [unfolded st])+
qed

theorem explicit_values_roundtrip_witness:
  "\<exists>i' h'. add_input_explicit_proofs ex_pjw (ex_prevout ''t'' 0\<lparr> ji_witness_utxo := Some \<lparr> jt_asset = Ast_Confidential ''ac'',
        jt_value = Val_Confidential ''vc'', jt_nonce = Nonce_Null, jt_script_pubkey = ''spk'' \<rparr> \<rparr>) (utxo_secrets (ex_pj_utxo ''t'' ''usdt'' 5)) []
      = (Ok i', h') \<and> ji_proprietary i' \<noteq> []
    \<and> ji_proprietary (remove_explicit_input ex_pjw i') = []"
proof -
  let ?i = "ex_prevout ''t'' 0\<lparr> ji_witness_utxo := Some \<lparr> jt_asset = Ast_Confidential ''ac'',
        jt_value = Val_Confidential ''vc'', jt_nonce = Nonce_Null, jt_script_pubkey = ''spk'' \<rparr> \<rparr>"
  have "\<exists>i' h'. add_input_explicit_proofs ex_pjw ?i (utxo_secrets (ex_pj_utxo ''t'' ''usdt'' 5)) [] = (Ok i', h') \<and> ji_proprietary i' \<noteq> []"
    by (simp add: add_input_explicit_proofs_def Let_def ex_pjw_def io_run_simps ex_prevout_def PSET_IN_EXPLICIT_VALUE_def
        PSET_IN_EXPLICIT_ASSET_def PSET_IN_VALUE_PROOF_def PSET_IN_ASSET_PROOF_def)
  moreover have "ji_proprietary ?i = []" by (simp add: ex_prevout_def)
  ultimately show ?thesis using explicit_values_roundtrip by fastforce
qed

end
