(* ===== verification/Ws_Sessions.thy ===== *)
theory Ws_Sessions
  imports Ws
begin

text \<open>
  What the websocket connections guarantee their users: well bracketed sessions, the two connections
  of the server being one machine with two users, the detection of a silent server, and request ids
  that do not repeat.
\<close>

section \<open>What the connections guarantee\<close>

text \<open>
  (C18) Sessions are well bracketed.  Whatever happens to the network, the user of any of the three
  connections is told \<open>Connected\<close> and \<open>Disconnected\<close> alternately, beginning with
  \<open>Connected\<close>, and is handed messages of the server only in between.
\<close>
theorem ws_sessions:
  "(ws_run (auto_step env url) (A_Connecting 0) es1 = Step s1 acts1 \<longrightarrow> session False (notifications acts1) \<noteq> None)
   \<and> (ws_run (manual_step env proxy) M_Waiting es2 = Step s2 acts2 \<longrightarrow> session False (notifications acts2) \<noteq> None)
   \<and> (ws_run (module_step rx_open server) X_Connecting es3 = Step s3 acts3 \<longrightarrow> session False (notifications acts3) \<noteq> None)"
  using auto_ws.run_session [of env url "A_Connecting 0" es1 s1 acts1] manual_ws.run_session [of env proxy M_Waiting es2 s2 acts2]
    module_ws.run_session [of rx_open server X_Connecting es3 s3 acts3] by auto

text \<open>A user that asks for a new connection whenever the old one is lost.\<close>

fun manual_event :: "'req auto_event \<Rightarrow> 'req manual_event" where
  "manual_event (AE_Connected ok now) = ME_Connected ok now"
| "manual_event (AE_Server m now) = ME_Server m now"
| "manual_event (AE_Request req) = ME_Request (map_option MR_Request req)"
| "manual_event (AE_Tick now) = ME_Tick now"

definition keep_open ::
    "('req, 'resp) ws_env \<Rightarrow> string \<Rightarrow> int \<Rightarrow> bool \<Rightarrow> manual_state \<Rightarrow> 'req auto_event \<Rightarrow> (manual_state, 'resp) ws_step" where
  "keep_open env host port use_tls s e = (case manual_step env None s (manual_event e) of
      Step M_Waiting acts \<Rightarrow>
        (case manual_step env None M_Waiting (ME_Request (Some (MR_Connect host port use_tls))) of
           Step s' acts' \<Rightarrow> Step s' (acts @ acts') | r \<Rightarrow> r)
    | r \<Rightarrow> r)"

fun manual_of :: "string \<Rightarrow> auto_state \<Rightarrow> manual_state" where
  "manual_of url (A_Connecting n) = M_Connecting url n"
| "manual_of url (A_Online t) = M_Online url t"
| "manual_of url A_Returned = M_Returned"

fun with_state :: "('s \<Rightarrow> 't) \<Rightarrow> ('s, 'resp) ws_step \<Rightarrow> ('t, 'resp) ws_step" where
  "with_state f (Step s acts) = Step (f s) acts"
| "with_state f Crash = Crash"
| "with_state f Not_Polled = Not_Polled"

lemma keep_open_online:
  "keep_open env host port use_tls (M_Online (ws_url host port use_tls) t) e
     = with_state (manual_of (ws_url host port use_tls)) (auto_step env (ws_url host port use_tls) (A_Online t) e)"
proof (cases e)
  case (AE_Server m now)
  then show ?thesis
    by (cases m; cases "case m of Srv_Frame f \<Rightarrow> f | _ \<Rightarrow> F_Close")
      (auto simp: keep_open_def manual_off_def auto_off_def notify_def Let_def split: option.splits)
next
  case (AE_Request req)
  then show ?thesis by (cases req) (auto simp: keep_open_def)
qed (auto simp: keep_open_def manual_off_def auto_off_def notify_def Let_def tick_step_def)

lemma keep_open_step:
  "keep_open env host port use_tls (manual_of (ws_url host port use_tls) s) e
     = with_state (manual_of (ws_url host port use_tls)) (auto_step env (ws_url host port use_tls) s e)"
proof (cases s)
  case (A_Connecting n)
  then show ?thesis by (cases e) (auto simp: keep_open_def notify_def)
next
  case (A_Online t)
  then show ?thesis by (simp add: keep_open_online)
next
  case A_Returned
  then show ?thesis by (cases e) (auto simp: keep_open_def)
qed

text \<open>
  (C23) The two connections are the same code with different users.  The connection that keeps itself
  open does exactly what the manual one (without a proxy) does for a user that answers every
  \<open>Disconnected\<close> at once with a new \<open>Connect\<close>: for every sequence of events the same
  attempts, delays, frames and notifications, the same crashes, and corresponding states.  (Of a user that
  takes longer the manual connection drops requests in the meantime; nothing is said about it.)
\<close>
theorem auto_is_driven_manual:
  "ws_run (keep_open env host port use_tls) (manual_of (ws_url host port use_tls) s) es
     = with_state (manual_of (ws_url host port use_tls)) (ws_run (auto_step env (ws_url host port use_tls)) s es)"
proof (induction es arbitrary: s)
  case (Cons e es)
  show ?case
  proof (cases "auto_step env (ws_url host port use_tls) s e")
    case (Step s' acts)
    then show ?thesis
      by (simp add: keep_open_step Cons) (cases "ws_run (auto_step env (ws_url host port use_tls)) s' es"; simp)
  qed (simp_all add: keep_open_step)
qed simp

text \<open>Events in which the server stays silent.\<close>

fun silent :: "'req auto_event \<Rightarrow> bool" where
  "silent (AE_Server _ _) = False"
| "silent _ = True"

lemma silent_step:
  assumes "auto_step env url (A_Online t) e = Step s acts" and "silent e"
  shows "Ws_Disconnected \<in> set (notifications acts) \<or> s = A_Online t \<or> s = A_Returned"
  using assms by (cases e; cases "case e of AE_Request r \<Rightarrow> r | _ \<Rightarrow> None")
    (auto simp: auto_off_def notify_def tick_step_def Let_def split: if_splits)

text \<open>
  A silent server is dropped, a live one is not.  If the server says nothing from one message on
  until a tick of the timer more than 90 seconds later, the user has been told that the connection is
  lost by then (unless it had closed its channel, after which nothing happens); a tick at most 90
  seconds after the last message never drops the connection.
\<close>
theorem silent_server_dropped:
  assumes "ws_run (auto_step env url) (A_Online t) (es @ [AE_Tick now]) = Step s acts"
    and "list_all silent es"
  shows "if now > t + from_secs 90 then Ws_Disconnected \<in> set (notifications acts)
    else \<exists>acts'. auto_step env url (A_Online t) (AE_Tick now) = Step (A_Online t) acts' \<and> notifications acts' = []"
proof (cases "now > t + from_secs 90")
  case True
  from assms have "Ws_Disconnected \<in> set (notifications acts)"
  proof (induction es arbitrary: acts)
    case Nil
    with True show ?case
      by (auto simp: tick_step_def auto_off_def notify_def duration_since_def PONG_TIMEOUT_def Let_def split: if_splits)
  next
    case (Cons e es)
    from Cons.prems obtain s1 a1 a2 where e: "auto_step env url (A_Online t) e = Step s1 a1"
      "ws_run (auto_step env url) s1 (es @ [AE_Tick now]) = Step s a2" "acts = a1 @ a2"
      unfolding append_Cons ws_run_Cons_Step by blast
    have "s1 \<noteq> A_Returned" using e(2) by (cases es) auto
    with silent_step [OF e(1)] Cons.prems(2) consider "Ws_Disconnected \<in> set (notifications a1)" | "s1 = A_Online t" by auto
    then show ?case
      by cases (use e Cons in auto)
  qed
  with True show ?thesis by simp
next
  case False
  then show ?thesis by (auto simp: tick_step_def duration_since_def PONG_TIMEOUT_def from_secs_def Let_def)
qed

section \<open>Request ids\<close>

lemma wrap_i64_eq: "wrap_i64 x = wrap_i64 y \<Longrightarrow> \<bar>x - y\<bar> < 18446744073709551616 \<Longrightarrow> x = y"
  by (simp add: wrap_i64_def) (smt (verit) mod_eq_dvd_iff zdvd_not_zless)

lemma wrap_i64_add: "wrap_i64 (wrap_i64 x + y) = wrap_i64 (x + y)"
  by (simp add: wrap_i64_def) (metis (no_types, opaque_lifting) add.assoc add.commute mod_add_left_eq)

text \<open>The ids of \<open>n\<close> requests in a row.\<close>

fun request_ids :: "nat \<Rightarrow> i64 \<Rightarrow> request_id list" where
  "request_ids 0 counter = []"
| "request_ids (Suc n) counter = fst (next_request_id counter) # request_ids n (snd (next_request_id counter))"

lemma request_ids_eq: "is_i64 c \<Longrightarrow> request_ids n c = map (\<lambda>k. Id_Int (wrap_i64 (c + int k))) [0..<n]"
proof (induction n arbitrary: c)
  case (Suc n)
  have "wrap_i64 (wrap_i64 (c + 1) + int k) = wrap_i64 (c + int (Suc k))" for k
    using wrap_i64_add [of "c + 1" "int k"] by (simp add: ac_simps)
  with Suc show ?case by (simp add: next_request_id_def i64_add_def upt_conv_Cons map_Suc_upt [symmetric] del: upt_Suc)
qed simp

lemma request_ids_distinct: "is_i64 c \<Longrightarrow> n < 18446744073709551616 \<Longrightarrow> distinct (request_ids n c)"
  using wrap_i64_eq by (fastforce simp: request_ids_eq distinct_map inj_on_def)

section \<open>Examples\<close>

definition ex_ws :: "(string, string) ws_env" where
  "ex_ws = \<lparr> we_to_json = id, we_from_json = Some, we_rx_open = True \<rparr>"

theorem ws_sessions_witness:
  "session False (notifications (case ws_run (auto_step ex_ws ''ws://h'') (A_Connecting 0)
       [AE_Connected False 0, AE_Connected True 5, AE_Server (Srv_Frame (F_Text ''hi'')) 6, AE_Server Srv_Error 7]
     of Step s acts \<Rightarrow> acts | _ \<Rightarrow> [])) \<noteq> None
   \<and> session False (notifications (case ws_run (manual_step ex_ws None) M_Waiting
       [ME_Request (Some (MR_Connect ''h'' 80 False)), ME_Hint True, ME_Connected True 5, ME_Request (Some MR_Disconnect)]
     of Step s acts \<Rightarrow> acts | _ \<Rightarrow> [])) \<noteq> None
   \<and> session False (notifications (case ws_run (module_step True \<lparr> ms_host = ''h'', ms_port = 1 \<rparr>) X_Connecting
       [XE_Connected True, XE_Server (Srv_Frame (F_Binary ''hi'')), XE_Server Srv_Error]
     of Step s acts \<Rightarrow> acts | _ \<Rightarrow> [])) \<noteq> None"
  using ws_sessions [of ex_ws "''ws://h''" "[AE_Connected False 0, AE_Connected True 5, AE_Server (Srv_Frame (F_Text ''hi'')) 6, AE_Server Srv_Error 7]"
      _ _ None "[ME_Request (Some (MR_Connect ''h'' 80 False)), ME_Hint True, ME_Connected True 5, ME_Request (Some MR_Disconnect)]"
      _ _ True "\<lparr> ms_host = ''h'', ms_port = 1 \<rparr>" "[XE_Connected True, XE_Server (Srv_Frame (F_Binary ''hi'')), XE_Server Srv_Error]"]
  by (auto simp: ex_ws_def notify_def auto_off_def manual_off_def Let_def split: ws_step.splits)

theorem silent_server_dropped_witness:
  "\<exists>s acts. ws_run (auto_step ex_ws ''ws://h'') (A_Online 0) [AE_Tick 30000000000, AE_Request (Some ''req''), AE_Tick 120000000000]
     = Step s acts \<and> Ws_Disconnected \<in> set (notifications acts)"
proof -
  have "\<exists>s acts. ws_run (auto_step ex_ws ''ws://h'') (A_Online 0) ([AE_Tick 30000000000, AE_Request (Some ''req'')] @ [AE_Tick 120000000000])
     = Step s acts"
    by (simp add: ex_ws_def notify_def auto_off_def tick_step_def Let_def duration_since_def PONG_TIMEOUT_def PING_PERIOD_def from_secs_def)
  then obtain s acts where run: "ws_run (auto_step ex_ws ''ws://h'') (A_Online 0)
      ([AE_Tick 30000000000, AE_Request (Some ''req'')] @ [AE_Tick 120000000000]) = Step s acts" by blast
  from silent_server_dropped [OF run] have "Ws_Disconnected \<in> set (notifications acts)" by (simp add: from_secs_def)
  with run show ?thesis by auto
qed

end
