(* ===== verification/Slack.thy ===== *)
theory Slack
  imports Rust_IO
begin

text \<open>
  Messages to Slack (\<open>sideswap_dealer_bitfinex/src/slack.rs\<close>): one attempt, and the loop that
  repeats it.
\<close>

section \<open>Slack messages\<close>

datatype slack_event = Sl_Post string string "string option" | Sl_Sleep int

text \<open>The HTTP client is the oracle \<open>post\<close>: the text of the answer, or nothing when the request failed.\<close>

definition send_slack_once ::
    "(string \<Rightarrow> string \<Rightarrow> slack_event list \<Rightarrow> string option) \<Rightarrow> string \<Rightarrow> string \<Rightarrow> (slack_event, string, unit) io" where
  "send_slack_once post msg url =
     io_bind (io_call (post url msg) (Sl_Post url msg)) (\<lambda>r.
     io_bind (io_lift (ok_or r ''http'')) (\<lambda>resp.
     io_lift (ensure (resp = ''ok'') (''sending message failed: '' @ resp))))"

function send_slack_loop :: "(string \<Rightarrow> string \<Rightarrow> slack_event list \<Rightarrow> string option) \<Rightarrow> string \<Rightarrow> string \<Rightarrow> nat \<Rightarrow> int \<Rightarrow> nat
    \<Rightarrow> (slack_event, string, unit) io" where
  "send_slack_loop post msg url retry_count retry_delay attempt h =
     (let (result, h') = send_slack_once post msg url h in
      if is_ok result \<or> attempt \<ge> retry_count then (result, h')
      else send_slack_loop post msg url retry_count retry_delay (attempt + 1) (h' @ [Sl_Sleep retry_delay]))"
  by pat_completeness auto
termination
  by (relation "measure (\<lambda>(_, _, _, retry_count, _, attempt, _). retry_count - attempt)") auto

declare send_slack_loop.simps [simp del]

definition send_slack :: "(string \<Rightarrow> string \<Rightarrow> slack_event list \<Rightarrow> string option) \<Rightarrow> string \<Rightarrow> string \<Rightarrow> nat \<Rightarrow> int
    \<Rightarrow> (slack_event, string, unit) io" where
  "send_slack post msg url retry_count retry_delay = send_slack_loop post msg url retry_count retry_delay 0"

lemma send_slack_once_run:
  "\<exists>r. send_slack_once post msg url h = ((if r = Some ''ok'' then Ok () else Err (case r of None \<Rightarrow> ''http''
     | Some resp \<Rightarrow> ''sending message failed: '' @ resp)), h @ [Sl_Post url msg r])"
  by (rule exI [of _ "post url msg h"])
    (auto simp: send_slack_once_def io_run_simps ensure_def split: option.splits)

text \<open>A failed attempt and the pause after it.\<close>

fun failed_attempts :: "string \<Rightarrow> string \<Rightarrow> int \<Rightarrow> slack_event list \<Rightarrow> nat option" where
  "failed_attempts msg url d [] = Some 0"
| "failed_attempts msg url d (Sl_Post u x r # Sl_Sleep d' # h) =
     (if u = url \<and> x = msg \<and> d' = d \<and> r \<noteq> Some ''ok'' then map_option Suc (failed_attempts msg url d h) else None)"
| "failed_attempts msg url d _ = None"

lemma send_slack_loop_run:
  "attempt \<le> retry_count \<Longrightarrow> \<exists>t n r. send_slack_loop post msg url retry_count d attempt h
       = (if r = Some ''ok'' then Ok () else Err (case r of None \<Rightarrow> ''http'' | Some resp \<Rightarrow> ''sending message failed: '' @ resp),
          h @ t @ [Sl_Post url msg r])
     \<and> failed_attempts msg url d t = Some n \<and> n \<le> retry_count - attempt \<and> (r = Some ''ok'' \<or> n = retry_count - attempt)"
proof (induction post msg url retry_count d attempt h rule: send_slack_loop.induct)
  case (1 post msg url retry_count d attempt h)
  from send_slack_once_run obtain r where r: "send_slack_once post msg url h = ((if r = Some ''ok'' then Ok () else
      Err (case r of None \<Rightarrow> ''http'' | Some resp \<Rightarrow> ''sending message failed: '' @ resp)), h @ [Sl_Post url msg r])" by metis
  show ?case
  proof (cases "r = Some ''ok'' \<or> retry_count \<le> attempt")
    case True
    then have "send_slack_loop post msg url retry_count d attempt h = send_slack_once post msg url h"
      by (subst send_slack_loop.simps) (auto simp: r is_ok_def)
    with True r "1.prems" show ?thesis by (intro exI [of _ "[]"] exI [of _ 0] exI [of _ r]) auto
  next
    case False
    then have step: "send_slack_loop post msg url retry_count d attempt h
        = send_slack_loop post msg url retry_count d (attempt + 1) ((h @ [Sl_Post url msg r]) @ [Sl_Sleep d])"
      by (subst send_slack_loop.simps) (auto simp: r is_ok_def)
    have nok: "\<not> (is_ok (fst (send_slack_once post msg url h)) \<or> attempt \<ge> retry_count)" using False by (simp add: r is_ok_def)
    from "1.IH" [OF refl, of "fst (send_slack_once post msg url h)" "h @ [Sl_Post url msg r]"] nok False obtain t n r' where
      "send_slack_loop post msg url retry_count d (attempt + 1) ((h @ [Sl_Post url msg r]) @ [Sl_Sleep d])
       = (if r' = Some ''ok'' then Ok () else Err (case r' of None \<Rightarrow> ''http'' | Some resp \<Rightarrow> ''sending message failed: '' @ resp),
          ((h @ [Sl_Post url msg r]) @ [Sl_Sleep d]) @ t @ [Sl_Post url msg r'])"
      "failed_attempts msg url d t = Some n" "n \<le> retry_count - (attempt + 1)" "r' = Some ''ok'' \<or> n = retry_count - (attempt + 1)"
      by (auto simp: r)
    with step False show ?thesis
      by (intro exI [of _ "Sl_Post url msg r # Sl_Sleep d # t"] exI [of _ "Suc n"] exI [of _ r']) auto
  qed
qed

text \<open>
  (C40) Sending a Slack message ends.  \<open>send_slack\<close> returns for every behaviour of the server,
  after at most \<open>retry_count + 1\<close> attempts with one pause between two attempts; it reports success
  exactly when the last attempt was answered with ``ok'', and gives up only after all attempts failed.
\<close>
theorem send_slack_terminates:
  "\<exists>t n r. send_slack post msg url retry_count retry_delay h
       = (if r = Some ''ok'' then Ok () else Err (case r of None \<Rightarrow> ''http'' | Some resp \<Rightarrow> ''sending message failed: '' @ resp),
          h @ t @ [Sl_Post url msg r])
     \<and> failed_attempts msg url retry_delay t = Some n \<and> n \<le> retry_count \<and> (r = Some ''ok'' \<or> n = retry_count)"
  using send_slack_loop_run [of 0 retry_count] by (simp add: send_slack_def)

end
