(* ===== verification/Spec2Isabelle.thy ===== *)
theory Spec2Isabelle
  imports Client_Once Client_Deals Gdk_Pegout Gdk_Keys Gdk_Display Amount_Bounds Dealer_Worker Bf_Rebalance Bf_Swaps Payjoin_Safety Ws_Sessions Slack
begin

text \<open>
  A verification library for the Rust workspace of the SideSwap client (\<open>src/rust\<close>).

  \<^bold>\<open>The program.\<close>  SideSwap trades assets on the Liquid network.  The workspace has the client with its
  wallets (\<open>sideswap_client\<close>, with the hardware wallet driver \<open>sideswap_jade\<close> and the payjoin client
  \<open>sideswap_payjoin\<close>), a dealer that trades through the order book of the server
  (\<open>sideswap_dealer\<close>), a market maker that runs this dealer and hedges its trades on an exchange
  (\<open>sideswap_dealer_bitfinex\<close>), and what they share: amounts, environments and websocket connections
  (\<open>sideswap_common\<close>) and the messages of the server (\<open>sideswap_api\<close>).  The parts interact by
  messages: each worker is a loop that takes one message from its channel, runs its handler, and answers
  with messages, server requests, calls to the node or calls to a wallet.

  \<^bold>\<open>How code is modelled.\<close>  A call returns an outcome (\<open>Ok\<close>, \<open>Err\<close>, or \<open>Panic\<close>,
  \<open>Rust_Prelude\<close>); machine integers are \<open>int\<close> with the wrap-around of a release build written out;
  \<open>BTreeMap\<close> is a sorted association list; \<open>f64\<close> is IEEE binary64 with its rounding (\<open>F64\<close>,
  \<open>F64_Order\<close>).  A handler is a function of the state and the history of everything the program has
  done and seen (\<open>Rust_IO\<close> for the dealers, \<open>Rust_State\<close> for the client and the wallets, each with
  the locale of an event loop whose handlers keep an invariant).  Everything outside the program (the
  server, the node, GDK, the hardware wallet, the file system, the clock, third-party crates) answers
  through functions of the history, so a statement about all of them is one about every behaviour of the
  environment.  What is relied on of such code is a named hypothesis (\<open>elements_docs\<close>, \<open>cbor_docs\<close>,
  and others), which a witness shows to be satisfiable.

  \<^bold>\<open>Components.\<close>
  \<^item> Amounts (\<open>sideswap_common/src/types.rs\<close>): \<open>Common_Types\<close>, with the error analysis of the float
    computations in \<open>Amount_Bounds\<close>; environments (\<open>env.rs\<close>): \<open>Common_Env\<close>; messages of the
    server (\<open>sideswap_api/src/lib.rs\<close>): \<open>Api_Types\<close>.
  \<^item> Websockets (\<open>sideswap_common/src/ws.rs\<close>, \<open>ws/auto.rs\<close>, \<open>ws/manual.rs\<close>, and
    \<open>sideswap_dealer_bitfinex/src/module.rs\<close>): \<open>Ws\<close> has the three connections as step functions,
    \<open>Ws_Sessions\<close> shows bracketed sessions, one connection to be the other with a certain user, silence
    to be noticed, and request ids not to repeat.
  \<^item> Order dealer (\<open>sideswap_dealer/src/dealer.rs\<close>, \<open>rpc.rs\<close>): \<open>Outside_World\<close> (server, node),
    \<open>Dealer\<close>; \<open>Dealer_Pricing\<close> (what is accepted and quoted), \<open>Dealer_Inputs\<close> (unspent outputs,
    inputs, signing), \<open>Dealer_Worker\<close> (the loop).
  \<^item> Bitfinex dealer (\<open>sideswap_dealer_bitfinex/src\<close>: \<open>main.rs\<close>, \<open>balancing.rs\<close>,
    \<open>storage.rs\<close>, \<open>slack.rs\<close>): \<open>Bf_Types\<close>, \<open>Bf_Balancing\<close>, \<open>Bf_Main\<close>, \<open>Slack\<close>;
    \<open>Bf_Transfer\<close> has the abstract protocol of a transfer and the refinement, \<open>Bf_Storage\<close> the file,
    \<open>Bf_Pricing\<close> and \<open>Bf_Rebalance\<close> the numbers, \<open>Bf_Swaps\<close> the instant swaps, \<open>Bf_Loop\<close> what
    holds in every state of the loop.
  \<^item> Payjoin (\<open>sideswap_payjoin/src\<close>): \<open>Payjoin\<close>; \<open>Payjoin_Safety\<close> shows the transaction to be
    what the user asked for and to balance.
  \<^item> Client worker (\<open>sideswap_client/src/worker.rs\<close>): \<open>Client_Types\<close> (\<open>Data\<close>, the messages),
    \<open>Client_Base\<close> (requests, assets, orders shown, connections), \<open>Client_Orders\<close>, \<open>Client_Swaps\<close>,
    \<open>Client_Wallet\<close>, \<open>Client_Worker\<close> (login, dispatch, loop).  \<open>Client_Frame\<close> has the locale of
    invariants that most operations cannot touch; \<open>Client_Signing\<close>, \<open>Client_Agreed\<close> and
    \<open>Client_Deals\<close> show where the deals come from that are signed and which of their terms are kept,
    \<open>Client_Once\<close> shows that an order is signed once, and \<open>Client_Gaps\<close> on sample runs
    (\<open>Client_Sample\<close>) what the checks do not cover.
  \<^item> Hardware wallet (\<open>sideswap_jade/src\<close>, \<open>sideswap_client/src/jade_mng.rs\<close>): \<open>Jade_Types\<close>
    (messages, JSON and CBOR), \<open>Jade_Device\<close> (the reading thread; messages do not depend on how the
    bytes arrive), \<open>Jade_Worker\<close> (requests and answers; no answer without a request),
    \<open>Jade_Manager\<close> (the connected devices).
  \<^item> Wallet sessions (\<open>gdk_ses_impl.rs\<close>, \<open>gdk_ses.rs\<close>, \<open>gdk_ses_jade.rs\<close>, \<open>gdk_json.rs\<close> of
    \<open>sideswap_client/src\<close>): \<open>Gdk_Types\<close>, \<open>Gdk_Handler\<close> (auth handlers, what the device is asked
    for), \<open>Gdk_Session\<close> (all operations), \<open>Gdk_Jade\<close> (the trait, and the pair of sessions of a
    hardware wallet).  \<open>Gdk_Safety\<close> has the locales of invariants over the calls to GDK and which
    operations broadcast, \<open>Gdk_Pegout\<close> follows a peg-out payment call by call, \<open>Gdk_Keys\<close> shows
    where keys are used, \<open>Gdk_Display\<close> what the device shows before it signs.  For the client worker
    a wallet is an answer in the history; its check before signing is the one of the session
    (\<open>session_check\<close> below).
  \<^item> This theory: the two dealers together, and the client with its wallet.

  \<^bold>\<open>Bounds.\<close>  Loops over data are structural.  Where a loop is driven by something else the model has a
  bound, and it is enough: the queues of the client (\<open>sign_prompts_loop\<close>, \<open>succeed_loop\<close>,
  \<open>sign_requests_loop\<close>, the pending requests) take their length, since every round removes an element;
  \<open>take_messages\<close> takes the length of the buffer, since every message has a byte; \<open>send_slack\<close> has
  the number of attempts of the code.  Waiting for an answer (\<open>await_response\<close>) goes over what is
  received until the timeout of the code.  Loading addresses and transactions page by page and the rounds
  of an auth handler (\<open>cw_address_pages\<close>, \<open>gx_pages\<close>, \<open>gx_rounds\<close>) depend on the other side,
  which may go on for ever; the bound is a parameter there, a run that reaches it ends in a panic, and the
  properties hold for every value, hence for every prefix of every run.

  \<^bold>\<open>Not modelled.\<close>  The user interface (Flutter), the exchange proxy (Go), the GDK library in C++ and its
  vendored Rust parts (\<open>gdk_rust\<close>), which are not this program's code; the bindings of its C interface
  with the ownership of memory, and the text of JSON and protocol buffers (generated code); key
  derivation, the encryption of the PIN (\<open>pin.rs\<close>) and other cryptography; the byte buffers of
  \<open>ffi.rs\<close>; the command line front ends (\<open>sideswap_headless*\<close>) and the example dealers, which
  feed messages to what is modelled; logging.  Threads are the order of messages: a notification of GDK is
  handled between two operations of a session.
\<close>

section \<open>The two dealers together\<close>

text \<open>What the main loop tells the order dealer.\<close>

fun dealer_msgs :: "bf_event list \<Rightarrow> dealer_to list" where
  "dealer_msgs [] = []"
| "dealer_msgs (Ev_Out (BO_Dealer to) # h) = to # dealer_msgs h"
| "dealer_msgs (ev # h) = dealer_msgs h"

lemma dealer_msgs_append [simp]: "dealer_msgs (h @ t) = dealer_msgs h @ dealer_msgs t"
  by (induction h rule: dealer_msgs.induct) auto

lemma io_each_dealer_send:
  "io_each (\<lambda>x. dealer_send (f x)) xs h = (Ok (), h @ map (\<lambda>x. Ev_Out (BO_Dealer (f x))) xs)"
  by (induction xs arbitrary: h) (simp_all add: dealer_send_def bf_emit_def io_run_simps)

lemma dealer_msgs_map: "dealer_msgs (map (\<lambda>x. Ev_Out (BO_Dealer (f x))) xs) = map f xs"
  by (induction xs) auto

lemma drop_prices:
  "io_fold (\<lambda>to. dealer_handle w p c (M_To to)) (map (\<lambda>t. To_Price t None) ts) d h = (Ok d', h')
    \<Longrightarrow> ds_index_prices d' = fold btree_remove ts (ds_index_prices d)"
  by (induction ts arbitrary: d h)
    (auto simp: io_run_simps io_bind_Ok dealer_handle_def on_to_def self_send_def)

lemma fold_remove_all: "set (map fst m) \<subseteq> set ks \<Longrightarrow> fold btree_remove ks m = []"
proof (induction ks arbitrary: m)
  case (Cons k ks)
  have "set (map fst (btree_remove k m)) \<subseteq> set ks" using Cons.prems by (auto simp: btree_remove_def)
  then show ?case by (simp add: Cons.IH)
qed simp

text \<open>
  (C28) No quotes without the exchange.  When the connection to the exchange module is lost, the main
  loop forgets every exchange price, and once the order dealer has handled the messages this causes it
  has no index price left either, so that it neither submits, takes nor signs orders until new prices
  arrive.
\<close>
theorem exchange_offline_stops_quotes:
  assumes "on_module_disconnected args s h = (Ok s', h @ t)"
    and "set (btree_keys (ds_index_prices d)) \<subseteq> set (p_tickers (params_of args))"
    and "io_fold (\<lambda>to. dealer_handle w p c (M_To to)) (dealer_msgs t) d h0 = (Ok d', h0')"
  shows "bs_module_prices s' = [] \<and> \<not> bs_module_connected s' \<and> ds_index_prices d' = []"
proof -
  have "dealer_msgs t = map (\<lambda>x. To_Price x None) (p_tickers (params_of args))"
    using assms(1)
    by (auto simp: on_module_disconnected_def io_bind_Ok io_run_simps send_notification_run io_each_dealer_send
        dealer_msgs_map split: option.splits)
  with assms(3) drop_prices fold_remove_all [OF assms(2)] have "ds_index_prices d' = []" by metis
  with assms(1) show ?thesis
    by (auto simp: on_module_disconnected_def io_bind_Ok io_run_simps)
qed


theorem exchange_offline_stops_quotes_witness:
  "\<exists>s' t d'. on_module_disconnected ex_args ex_idle [] = (Ok s', [] @ t)
     \<and> fst (io_fold (\<lambda>to. dealer_handle ex_world ex_params ex_consts (M_To to)) (dealer_msgs t)
         (ex_state\<lparr> ds_index_prices := ex_prices \<rparr>) []) = Ok d'
     \<and> bs_module_prices s' = [] \<and> ds_index_prices d' = []"
proof -
  have run: "\<exists>s' t. on_module_disconnected ex_args ex_idle [] = (Ok s', [] @ t)"
    by (simp add: on_module_disconnected_def io_bind_def io_run_simps send_notification_run io_each_dealer_send)
  then obtain s' t where s: "on_module_disconnected ex_args ex_idle [] = (Ok s', [] @ t)" by blast
  have "dealer_msgs t = map (\<lambda>x. To_Price x None) (p_tickers (params_of ex_args))"
    using s by (auto simp: on_module_disconnected_def io_bind_Ok io_run_simps send_notification_run io_each_dealer_send
        dealer_msgs_map split: option.splits)
  moreover have "\<exists>d' h'. io_fold (\<lambda>to. dealer_handle ex_world ex_params ex_consts (M_To to)) (map (\<lambda>x. To_Price x None) ts) d h0
      = (Ok d', h')" for ts d h0
    by (induction ts arbitrary: d h0) (auto simp: io_run_simps io_bind_def dealer_handle_def on_to_def self_send_def)
  ultimately obtain d' h' where d: "io_fold (\<lambda>to. dealer_handle ex_world ex_params ex_consts (M_To to)) (dealer_msgs t)
      (ex_state\<lparr> ds_index_prices := ex_prices \<rparr>) [] = (Ok d', h')" by metis
  have "set (btree_keys (ds_index_prices (ex_state\<lparr> ds_index_prices := ex_prices \<rparr>))) \<subseteq> set (p_tickers (params_of ex_args))"
    by (simp add: ex_prices_def params_of_def DEALER_USDT_def TICKER_USDT_def)
  from exchange_offline_stops_quotes [OF s this d] s d show ?thesis by auto
qed



section \<open>The client and its wallet\<close>

text \<open>What the client assumes a wallet to check before it signs is what a session checks.\<close>

lemma session_check: "session_amounts_ok (cw_policy_asset w) = pset_amounts_ok w"
  by (intro ext) (simp add: session_amounts_ok_def pset_amounts_ok_def)

end
